(* ===== verification/Py_Prelude.thy ===== *)
theory Py_Prelude
  imports Main "HOL-Library.Product_Lexorder" "HOL-Library.Char_ord" "HOL-Library.List_Lexorder"
begin

text \<open>
  Shared ground of the development: the control flow of the Python code as a state-and-exception
  monad with a weakest-precondition calculus, the built-in string, integer, truth-value and JSON
  operations the components use, and the table operations of the SQLite store (rows in insertion
  order, selection, in-place update, ordered selection with a limit).

  Characters are code points up to 255 (\<^typ>\<open>char\<close>); the string predicates (white space, letter
  case, printable) are those of Python on that range. JSON numbers are integers.
\<close>

named_theorems wp_rules \<open>weakest preconditions of the monad's combinators\<close>
named_theorems row_simps \<open>equations of the table operations\<close>
named_theorems py_simps \<open>evaluation of the Python built-ins\<close>

section \<open>Actions: state, exceptions, weakest preconditions\<close>

text \<open>
  A method that reads and writes the store and may raise is an action: it returns the exception
  or the value together with the store it leaves behind. A raise keeps the writes made before it,
  as the code commits after each statement.
\<close>

type_synonym ('s, 'e, 'a) act = "'s \<Rightarrow> ('e + 'a) \<times> 's"

definition retA :: "'a \<Rightarrow> ('s, 'e, 'a) act" where
  "retA a = (\<lambda>s. (Inr a, s))"

definition raiseA :: "'e \<Rightarrow> ('s, 'e, 'a) act" where
  "raiseA e = (\<lambda>s. (Inl e, s))"

definition bindA :: "('s, 'e, 'a) act \<Rightarrow> ('a \<Rightarrow> ('s, 'e, 'b) act) \<Rightarrow> ('s, 'e, 'b) act" where
  "bindA m f = (\<lambda>s. case m s of (Inl e, s') \<Rightarrow> (Inl e, s') | (Inr a, s') \<Rightarrow> f a s')"

definition thenA :: "('s, 'e, 'a) act \<Rightarrow> ('s, 'e, 'b) act \<Rightarrow> ('s, 'e, 'b) act" where
  "thenA m k = bindA m (\<lambda>_. k)"

definition getA :: "('s \<Rightarrow> 'a) \<Rightarrow> ('s, 'e, 'a) act" where
  "getA f = (\<lambda>s. (Inr (f s), s))"

definition liftA :: "('s \<Rightarrow> 'e + 'a) \<Rightarrow> ('s, 'e, 'a) act" where
  "liftA f = (\<lambda>s. (f s, s))"

definition modA :: "('s \<Rightarrow> 's) \<Rightarrow> ('s, 'e, unit) act" where
  "modA f = (\<lambda>s. (Inr (), f s))"

definition stepA :: "('s \<Rightarrow> 'a \<times> 's) \<Rightarrow> ('s, 'e, 'a) act" where
  "stepA f = (\<lambda>s. case f s of (a, s') \<Rightarrow> (Inr a, s'))"

definition whenA :: "bool \<Rightarrow> ('s, 'e, unit) act \<Rightarrow> ('s, 'e, unit) act" where
  "whenA b m = (if b then m else retA ())"

definition guardA :: "bool \<Rightarrow> 'e \<Rightarrow> ('s, 'e, unit) act" where
  "guardA b e = (if b then retA () else raiseA e)"

text \<open>\<open>except\<close>: the handler runs in the state the raise left behind.\<close>

definition catchA :: "('s, 'e, 'a) act \<Rightarrow> ('e \<Rightarrow> ('s, 'e, 'a) act) \<Rightarrow> ('s, 'e, 'a) act" where
  "catchA m h = (\<lambda>s. case m s of (Inl e, s') \<Rightarrow> h e s' | (Inr a, s') \<Rightarrow> (Inr a, s'))"

primrec seqA :: "('a \<Rightarrow> ('s, 'e, unit) act) \<Rightarrow> 'a list \<Rightarrow> ('s, 'e, unit) act" where
  "seqA f [] = retA ()"
| "seqA f (x # xs) = thenA (f x) (seqA f xs)"

definition wpA :: "('s, 'e, 'a) act \<Rightarrow> ('a \<Rightarrow> 's \<Rightarrow> bool) \<Rightarrow> ('e \<Rightarrow> 's \<Rightarrow> bool) \<Rightarrow> 's \<Rightarrow> bool" where
  "wpA m Q E s = (case m s of (Inl e, s') \<Rightarrow> E e s' | (Inr a, s') \<Rightarrow> Q a s')"

lemma wpA_ret [wp_rules]: "wpA (retA a) Q E s = Q a s"
  by (simp add: wpA_def retA_def)

lemma wpA_raise [wp_rules]: "wpA (raiseA e) Q E s = E e s"
  by (simp add: wpA_def raiseA_def)

lemma wpA_bind [wp_rules]: "wpA (bindA m f) Q E s = wpA m (\<lambda>a. wpA (f a) Q E) E s"
  by (simp add: wpA_def bindA_def split: prod.splits sum.splits)

lemma wpA_then [wp_rules]: "wpA (thenA m k) Q E s = wpA m (\<lambda>_. wpA k Q E) E s"
  by (simp add: thenA_def wpA_bind)

lemma wpA_get [wp_rules]: "wpA (getA f) Q E s = Q (f s) s"
  by (simp add: wpA_def getA_def)

lemma wpA_lift [wp_rules]:
  "wpA (liftA f) Q E s = (case f s of Inl e \<Rightarrow> E e s | Inr a \<Rightarrow> Q a s)"
  by (simp add: wpA_def liftA_def)

lemma wpA_mod [wp_rules]: "wpA (modA f) Q E s = Q () (f s)"
  by (simp add: wpA_def modA_def)

lemma wpA_step [wp_rules]: "wpA (stepA f) Q E s = (case f s of (a, s') \<Rightarrow> Q a s')"
  by (simp add: wpA_def stepA_def split: prod.splits)

lemma wpA_when [wp_rules]: "wpA (whenA b m) Q E s = (if b then wpA m Q E s else Q () s)"
  by (simp add: whenA_def wpA_ret)

lemma wpA_guard [wp_rules]: "wpA (guardA b e) Q E s = (if b then Q () s else E e s)"
  by (simp add: guardA_def wpA_ret wpA_raise)

lemma wpA_catch [wp_rules]: "wpA (catchA m h) Q E s = wpA m Q (\<lambda>e. wpA (h e) Q E) s"
  by (simp add: wpA_def catchA_def split: prod.splits sum.splits)

lemma wpA_if [wp_rules]: "wpA (if b then m else k) Q E s = (if b then wpA m Q E s else wpA k Q E s)"
  by simp

lemma wpA_case_option [wp_rules]:
  "wpA (case x of None \<Rightarrow> m | Some y \<Rightarrow> f y) Q E s =
     (case x of None \<Rightarrow> wpA m Q E s | Some y \<Rightarrow> wpA (f y) Q E s)"
  by (simp split: option.splits)

lemma wpA_case_list [wp_rules]:
  "wpA (case x of [] \<Rightarrow> m | y # ys \<Rightarrow> f y ys) Q E s =
     (case x of [] \<Rightarrow> wpA m Q E s | y # ys \<Rightarrow> wpA (f y ys) Q E s)"
  by (simp split: list.splits)

lemma wpA_case_prod [wp_rules]:
  "wpA (case x of (a, b) \<Rightarrow> f a b) Q E s = (case x of (a, b) \<Rightarrow> wpA (f a b) Q E s)"
  by (simp split: prod.splits)

lemma wpA_mono:
  assumes "wpA m Q E s" and "\<And>a s'. Q a s' \<Longrightarrow> Q' a s'" and "\<And>e s'. E e s' \<Longrightarrow> E' e s'"
  shows "wpA m Q' E' s"
  using assms by (auto simp: wpA_def split: prod.splits sum.splits)

text \<open>A precondition that settles the outcome of an action is a statement about its result.\<close>

lemma wpA_Inr: "wpA m Q E s \<Longrightarrow> m s = (Inr a, s') \<Longrightarrow> Q a s'"
  by (simp add: wpA_def)

lemma wpA_Inl: "wpA m Q E s \<Longrightarrow> m s = (Inl e, s') \<Longrightarrow> E e s'"
  by (simp add: wpA_def)

subsection \<open>Running an action step by step\<close>

named_theorems run_simps \<open>one step of an action on a given store\<close>

lemma run_leaves [run_simps]:
  "retA a s = (Inr a, s)" "raiseA e s = (Inl e, s)" "getA f s = (Inr (f s), s)"
  "liftA g s = (g s, s)" "modA h s = (Inr (), h s)"
  "guardA b e s = (if b then (Inr (), s) else (Inl e, s))"
  by (simp_all add: retA_def raiseA_def getA_def liftA_def modA_def guardA_def)

lemma run_then [run_simps]:
  "thenA (guardA b e) k s = (if b then k s else (Inl e, s))"
  "thenA (liftA g) k s = (case g s of Inl e \<Rightarrow> (Inl e, s) | Inr _ \<Rightarrow> k s)"
  "thenA (modA h) k s = k (h s)"
  "thenA (whenA b m) k s = (if b then thenA m k s else k s)"
  "thenA (thenA m m') k s = thenA m (thenA m' k) s"
  by (simp_all add: thenA_def bindA_def guardA_def retA_def raiseA_def liftA_def modA_def whenA_def
      split: sum.splits prod.splits)

lemma run_bind [run_simps]:
  "bindA (getA f) k' s = k' (f s) s"
  "bindA (liftA g) k'' s = (case g s of Inl e \<Rightarrow> (Inl e, s) | Inr a \<Rightarrow> k'' a s)"
  "bindA (stepA st) k3 s = (case st s of (a, s') \<Rightarrow> k3 a s')"
  "bindA (retA x) k4 s = k4 x s" "bindA (raiseA e) k5 s = (Inl e, s)"
  by (simp_all add: bindA_def getA_def liftA_def stepA_def retA_def raiseA_def split: sum.splits prod.splits)

lemma run_assoc [run_simps]:
  "thenA (bindA m1 f1) k s = bindA m1 (\<lambda>a. thenA (f1 a) k) s"
  "bindA (bindA m2 f2) k2 s = bindA m2 (\<lambda>a. bindA (f2 a) k2) s"
  "bindA (thenA m3 m3') k3 s = thenA m3 (bindA m3' k3) s"
  "thenA (if b then m4 else m4') k4 s = (if b then thenA m4 k4 s else thenA m4' k4 s)"
  "bindA (if b then m5 else m5') k5 s = (if b then bindA m5 k5 s else bindA m5' k5 s)"
  "thenA (retA x) k6 s = k6 s" "thenA (raiseA e) k7 s = (Inl e, s)"
  "whenA b m8 s = (if b then m8 s else (Inr (), s))"
  by (simp_all add: thenA_def bindA_def retA_def raiseA_def whenA_def split: prod.splits sum.splits)

lemma then_ret: "thenA m (retA x) s = (Inr y, s') \<longleftrightarrow> y = x \<and> (\<exists>a. m s = (Inr a, s'))"
  by (auto simp: thenA_def bindA_def retA_def split: sum.splits prod.splits)

lemma whenA_mod: "whenA b (modA f) = modA (\<lambda>s. if b then f s else s)"
  by (simp add: whenA_def modA_def retA_def)

subsection \<open>Preservation: a property of the store every outcome of an action keeps\<close>

definition keepsA :: "('s \<Rightarrow> bool) \<Rightarrow> ('s, 'e, 'a) act \<Rightarrow> bool" where
  "keepsA I m \<longleftrightarrow> (\<forall>s. I s \<longrightarrow> I (snd (m s)))"

named_theorems keeps_intros \<open>preservation through the combinators\<close>

lemma keepsA_D: "keepsA I m \<Longrightarrow> I s \<Longrightarrow> I (snd (m s))"
  by (simp add: keepsA_def)

lemma keepsA_wp: "keepsA I m \<longleftrightarrow> (\<forall>s. I s \<longrightarrow> wpA m (\<lambda>_. I) (\<lambda>_. I) s)"
proof -
  have "wpA m (\<lambda>_. I) (\<lambda>_. I) s \<longleftrightarrow> I (snd (m s))" for s
    by (simp add: wpA_def split: prod.splits sum.splits)
  then show ?thesis by (simp add: keepsA_def)
qed

lemma keepsA_ret [keeps_intros]: "keepsA I (retA a)"
  by (simp add: keepsA_def retA_def)

lemma keepsA_raise [keeps_intros]: "keepsA I (raiseA e)"
  by (simp add: keepsA_def raiseA_def)

lemma keepsA_get [keeps_intros]: "keepsA I (getA f)"
  by (simp add: keepsA_def getA_def)

lemma keepsA_lift [keeps_intros]: "keepsA I (liftA f)"
  by (simp add: keepsA_def liftA_def)

lemma keepsA_guard [keeps_intros]: "keepsA I (guardA b e)"
  by (simp add: keepsA_def guardA_def retA_def raiseA_def)

lemma keepsA_bind [keeps_intros]:
  assumes "keepsA I m" and "\<And>a. keepsA I (f a)"
  shows "keepsA I (bindA m f)"
proof (unfold keepsA_def, intro allI impI)
  fix s assume "I s"
  then have "I (snd (m s))" using assms(1) by (simp add: keepsA_def)
  then show "I (snd (bindA m f s))"
    using assms(2) by (auto simp: bindA_def keepsA_def split: prod.splits sum.splits)
qed

text \<open>The first action may have established the property itself.\<close>

lemma keepsA_after:
  assumes "I (snd (m s))" and "\<And>a. keepsA I (f a)"
  shows "I (snd (bindA m f s))"
proof (cases "m s")
  case (Pair r s')
  then show ?thesis using assms by (cases r) (simp_all add: bindA_def keepsA_def)
qed

lemma keepsA_then [keeps_intros]:
  "keepsA I m \<Longrightarrow> keepsA I k \<Longrightarrow> keepsA I (thenA m k)"
  by (simp add: thenA_def keepsA_bind)

lemma keepsA_when [keeps_intros]: "(b \<Longrightarrow> keepsA I m) \<Longrightarrow> keepsA I (whenA b m)"
  by (simp add: whenA_def keepsA_ret)

lemma keepsA_catch [keeps_intros]:
  assumes "keepsA I m" and "\<And>e. keepsA I (h e)"
  shows "keepsA I (catchA m h)"
proof (unfold keepsA_def, intro allI impI)
  fix s assume "I s"
  then have "I (snd (m s))" using assms(1) by (simp add: keepsA_def)
  then show "I (snd (catchA m h s))"
    using assms(2) by (auto simp: catchA_def keepsA_def split: prod.splits sum.splits)
qed

text \<open>Where the continuation depends on what was read, it runs in the state it was read from.\<close>

lemma keepsA_get_bind: "(\<And>s. I s \<Longrightarrow> I (snd (k (f s) s))) \<Longrightarrow> keepsA I (bindA (getA f) k)"
  by (simp add: keepsA_def bindA_def getA_def)

lemma keepsA_lift_bind:
  "(\<And>s a. I s \<Longrightarrow> f s = Inr a \<Longrightarrow> I (snd (k a s))) \<Longrightarrow> keepsA I (bindA (liftA f) k)"
  by (simp add: keepsA_def bindA_def liftA_def split: sum.splits)

lemma keepsA_guard_then:
  "(b \<Longrightarrow> keepsA I k) \<Longrightarrow> keepsA I (thenA (guardA b e) k)"
  by (simp add: keepsA_def thenA_def bindA_def guardA_def retA_def raiseA_def)

lemma keepsA_mod: "(\<And>s. I s \<Longrightarrow> I (f s)) \<Longrightarrow> keepsA I (modA f)"
  by (simp add: keepsA_def modA_def)

lemma keepsA_step: "(\<And>s. I s \<Longrightarrow> I (snd (f s))) \<Longrightarrow> keepsA I (stepA f)"
  by (simp add: keepsA_def stepA_def case_prod_beta)

lemma keepsA_if [keeps_intros]:
  "(b \<Longrightarrow> keepsA I m) \<Longrightarrow> (\<not> b \<Longrightarrow> keepsA I k) \<Longrightarrow> keepsA I (if b then m else k)"
  by simp

lemma keepsA_case_option [keeps_intros]:
  "keepsA I m \<Longrightarrow> (\<And>y. keepsA I (f y)) \<Longrightarrow> keepsA I (case x of None \<Rightarrow> m | Some y \<Rightarrow> f y)"
  by (simp split: option.splits)

lemma keepsA_case_list [keeps_intros]:
  "keepsA I m \<Longrightarrow> (\<And>y ys. keepsA I (f y ys)) \<Longrightarrow> keepsA I (case x of [] \<Rightarrow> m | y # ys \<Rightarrow> f y ys)"
  by (simp split: list.splits)

lemma keepsA_case_sum [keeps_intros]:
  "(\<And>a. keepsA I (f a)) \<Longrightarrow> (\<And>b. keepsA I (g b)) \<Longrightarrow> keepsA I (case x of Inl a \<Rightarrow> f a | Inr b \<Rightarrow> g b)"
  by (simp split: sum.splits)

lemma keepsA_case_prod [keeps_intros]:
  "(\<And>a b. keepsA I (f a b)) \<Longrightarrow> keepsA I (case x of (a, b) \<Rightarrow> f a b)"
  by (simp split: prod.splits)

lemma keepsA_Let [keeps_intros]: "(\<And>y. keepsA I (f y)) \<Longrightarrow> keepsA I (Let x f)"
  by simp

lemma keepsA_seq [keeps_intros]:
  assumes "\<And>x. keepsA I (f x)"
  shows "keepsA I (seqA f xs)"
proof (induction xs)
  case Nil
  show ?case by (simp add: keepsA_ret)
next
  case (Cons x xs)
  with assms show ?case by (simp add: keepsA_then)
qed

text \<open>A whole run of actions keeps what each action keeps.\<close>

primrec runA :: "('s, 'e, 'a) act list \<Rightarrow> 's \<Rightarrow> 's" where
  "runA [] s = s"
| "runA (m # ms) s = runA ms (snd (m s))"

lemma runA_keeps: "(\<And>m. m \<in> set ms \<Longrightarrow> keepsA I m) \<Longrightarrow> I s \<Longrightarrow> I (runA ms s)"
  by (induction ms arbitrary: s) (simp_all add: keepsA_def)

section \<open>Failing pure computations\<close>

text \<open>Pure code that may raise: the left injection is the exception.\<close>

definition bindE :: "'e + 'a \<Rightarrow> ('a \<Rightarrow> 'e + 'b) \<Rightarrow> 'e + 'b" where
  "bindE m f = (case m of Inl e \<Rightarrow> Inl e | Inr a \<Rightarrow> f a)"

fun mapE :: "('a \<Rightarrow> 'e + 'b) \<Rightarrow> 'a list \<Rightarrow> 'e + 'b list" where
  "mapE f [] = Inr []"
| "mapE f (x # xs) = bindE (f x) (\<lambda>y. bindE (mapE f xs) (\<lambda>ys. Inr (y # ys)))"

lemma bindE_simps [simp]: "bindE (Inl e) f = Inl e" "bindE (Inr a) f = f a"
  by (simp_all add: bindE_def)

lemma bindE_Inr: "bindE m f = Inr b \<longleftrightarrow> (\<exists>a. m = Inr a \<and> f a = Inr b)"
  by (cases m) simp_all

primrec foldE :: "('x \<Rightarrow> 's \<Rightarrow> 'e + 's) \<Rightarrow> 'x list \<Rightarrow> 's \<Rightarrow> 'e + 's" where
  "foldE f [] s = Inr s"
| "foldE f (x # xs) s = bindE (f x s) (foldE f xs)"

lemma foldE_append: "foldE f (xs @ ys) s = bindE (foldE f xs s) (foldE f ys)"
  by (induction xs arbitrary: s) (simp_all add: bindE_def split: sum.splits)

lemma bindE_Inl: "bindE m f = Inl e \<longleftrightarrow> m = Inl e \<or> (\<exists>a. m = Inr a \<and> f a = Inl e)"
  by (cases m) simp_all

lemma foldE_Inl: "foldE f xs s = Inl e \<Longrightarrow> \<exists>x \<in> set xs. \<exists>t. f x t = Inl e"
  by (induction xs arbitrary: s) (auto simp: bindE_Inl)

lemma foldE_keeps:
  assumes "foldE f xs s = Inr t" "P s" and "\<And>x s t. x \<in> set xs \<Longrightarrow> P s \<Longrightarrow> f x s = Inr t \<Longrightarrow> P t"
  shows "P t"
  using assms by (induction xs arbitrary: s) (auto simp: bindE_Inr)

end
