(* ===== verification/Py_Data.thy ===== *)
theory Py_Data
  imports Py_Prelude
begin

text \<open>
  Python data as the components use it: strings (strip, split, join, slices, case), integers as
  text (\<open>str\<close> and \<open>int\<close>), JSON values with truth value, \<open>str\<close>, \<open>repr\<close> and \<open>json.dumps\<close>,
  dictionaries in insertion order, and the row operations of the SQLite tables.
\<close>

section \<open>Strings\<close>

definition code_point :: "char \<Rightarrow> nat" where
  "code_point c = of_char c"

definition py_isspace :: "char \<Rightarrow> bool" where
  "py_isspace c \<longleftrightarrow> code_point c \<in> set [9, 10, 11, 12, 13, 28, 29, 30, 31, 32, 133, 160]"

definition is_digit :: "char \<Rightarrow> bool" where
  "is_digit c \<longleftrightarrow> 48 \<le> code_point c \<and> code_point c \<le> 57"

text \<open>\<open>s.isdigit()\<close> also accepts the superscript digits, which \<open>int\<close> rejects.\<close>

definition py_digit_char :: "char \<Rightarrow> bool" where
  "py_digit_char c \<longleftrightarrow> is_digit c \<or> code_point c \<in> set [178, 179, 185]"

definition py_isalnum :: "char \<Rightarrow> bool" where
  "py_isalnum c \<longleftrightarrow>
     (let n = code_point c in
      (48 \<le> n \<and> n \<le> 57) \<or> (65 \<le> n \<and> n \<le> 90) \<or> (97 \<le> n \<and> n \<le> 122) \<or>
      n \<in> set [170, 178, 179, 181, 185, 186, 188, 189, 190] \<or> (192 \<le> n \<and> n \<noteq> 215 \<and> n \<noteq> 247))"

definition utf8_length :: "string \<Rightarrow> nat" where
  "utf8_length s = sum_list (map (\<lambda>c. if code_point c < 128 then 1 else 2) s)"

text \<open>\<open>read_text\<close> in universal-newline mode.\<close>

fun universal_newlines :: "string \<Rightarrow> string" where
  "universal_newlines [] = []"
| "universal_newlines [c] = [if code_point c = 13 then char_of (10::nat) else c]"
| "universal_newlines (c # d # cs) =
     (if code_point c = 13 then
        (if code_point d = 10 then char_of (10::nat) # universal_newlines cs
         else char_of (10::nat) # universal_newlines (d # cs))
      else c # universal_newlines (d # cs))"

text \<open>\<open>s.find(c)\<close> for one character; \<open>None\<close> is \<open>-1\<close>.\<close>

fun find_char :: "char \<Rightarrow> string \<Rightarrow> nat option" where
  "find_char c [] = None"
| "find_char c (d # ds) = (if c = d then Some 0 else map_option Suc (find_char c ds))"

definition lower_char :: "char \<Rightarrow> char" where
  "lower_char c =
     (let n = code_point c in
      if (65 \<le> n \<and> n \<le> 90) \<or> (192 \<le> n \<and> n \<le> 222 \<and> n \<noteq> 215) then char_of (n + 32) else c)"

definition py_lower :: "string \<Rightarrow> string" where
  "py_lower s = map lower_char s"

definition lstrip :: "string \<Rightarrow> string" where
  "lstrip s = dropWhile py_isspace s"

definition rstrip :: "string \<Rightarrow> string" where
  "rstrip s = rev (dropWhile py_isspace (rev s))"

definition strip :: "string \<Rightarrow> string" where
  "strip s = rstrip (lstrip s)"

definition startswith :: "string \<Rightarrow> string \<Rightarrow> bool" where
  "startswith s p \<longleftrightarrow> take (length p) s = p"

definition endswith :: "string \<Rightarrow> string \<Rightarrow> bool" where
  "endswith s p \<longleftrightarrow> startswith (rev s) (rev p)"

fun py_join :: "string \<Rightarrow> string list \<Rightarrow> string" where
  "py_join sep [] = []"
| "py_join sep [w] = w"
| "py_join sep (w # ws) = w @ sep @ py_join sep ws"

text \<open>\<open>s.split()\<close>: maximal runs of non-space characters.\<close>

fun split_ws_acc :: "string \<Rightarrow> string \<Rightarrow> string list" where
  "split_ws_acc w [] = (if w = [] then [] else [rev w])"
| "split_ws_acc w (c # cs) =
     (if py_isspace c then (if w = [] then split_ws_acc [] cs else rev w # split_ws_acc [] cs)
      else split_ws_acc (c # w) cs)"

definition split_ws :: "string \<Rightarrow> string list" where
  "split_ws s = split_ws_acc [] s"

text \<open>\<open>s.split(sep)\<close> for a separator of one character.\<close>

fun split_on_acc :: "char \<Rightarrow> string \<Rightarrow> string \<Rightarrow> string list" where
  "split_on_acc d w [] = [rev w]"
| "split_on_acc d w (c # cs) =
     (if c = d then rev w # split_on_acc d [] cs else split_on_acc d (c # w) cs)"

definition split_on :: "char \<Rightarrow> string \<Rightarrow> string list" where
  "split_on d s = split_on_acc d [] s"

lemma length_rstrip: "length (rstrip s) \<le> length s"
  by (simp add: rstrip_def length_dropWhile_le [of _ "rev s", simplified])

lemma length_strip: "length (strip s) \<le> length s"
  using length_rstrip [of "lstrip s"] length_dropWhile_le [of py_isspace s]
  by (simp add: strip_def lstrip_def)

lemma dropWhile_idem: "dropWhile P (dropWhile P xs) = dropWhile P xs"
  by (induction xs) auto

lemma rstrip_idem [simp]: "rstrip (rstrip s) = rstrip s"
  by (simp add: rstrip_def dropWhile_idem)

lemma lstrip_rstrip: "lstrip (rstrip s) = rstrip (lstrip s)"
proof (cases "\<forall>c \<in> set s. py_isspace c")
  case True
  then have "dropWhile py_isspace s = []" "dropWhile py_isspace (rev s) = []"
    by (simp_all add: dropWhile_eq_Nil_conv)
  then show ?thesis by (simp only: lstrip_def rstrip_def rev.simps dropWhile.simps)
next
  case False
  then obtain c where c: "c \<in> set s" "\<not> py_isspace c" by blast
  have s: "s = takeWhile py_isspace s @ dropWhile py_isspace s" by simp
  have "c \<in> set (rev (dropWhile py_isspace s))"
    using c s set_takeWhileD [of c py_isspace s] by (metis Un_iff set_append set_rev)
  then have 1: "dropWhile py_isspace (rev s) =
      dropWhile py_isspace (rev (dropWhile py_isspace s)) @ rev (takeWhile py_isspace s)"
    using c(2) by (subst s, simp only: rev_append) (rule dropWhile_append1)
  have "\<exists>x xs. dropWhile py_isspace s = x # xs \<and> \<not> py_isspace x"
    using c by (metis dropWhile_eq_Nil_conv hd_dropWhile list.exhaust_sel)
  then obtain x xs where x: "dropWhile py_isspace s = x # xs" "\<not> py_isspace x" by blast
  have "rev (dropWhile py_isspace (rev (x # xs))) = x # rev (dropWhile py_isspace (rev xs))"
    using x(2) by (simp add: dropWhile_append)
  with 1 x show ?thesis
    by (simp add: lstrip_def rstrip_def dropWhile_append3) (blast dest: set_takeWhileD)
qed

lemma rstrip_snoc: "rstrip (s @ [x]) = (if py_isspace x then rstrip s else s @ [x])"
  by (simp add: rstrip_def)

lemma rstrip_prefix:
  assumes "p \<noteq> []" and "\<not> py_isspace (last p)"
  shows "\<exists>t. rstrip (p @ s) = p @ t"
proof (induction s rule: rev_induct)
  case Nil
  have "rstrip (butlast p @ [last p]) = butlast p @ [last p]" using assms(2) by (simp add: rstrip_snoc)
  then show ?case using assms(1) by simp
next
  case (snoc x xs)
  then show ?case using rstrip_snoc [of "p @ xs" x] by auto
qed

lemma strip_idem [simp]: "strip (strip s) = strip s"
  by (simp add: strip_def lstrip_rstrip) (simp add: lstrip_def dropWhile_idem)

lemma startswith_append [simp]: "startswith (p @ s) p"
  by (simp add: startswith_def)

lemma startswith_iff: "startswith s p \<longleftrightarrow> (\<exists>t. s = p @ t)"
  by (auto simp: startswith_def) (metis append_take_drop_id)

section \<open>Integers as text\<close>

definition digit_char :: "nat \<Rightarrow> char" where
  "digit_char d = char_of (48 + d)"

fun nat_str :: "nat \<Rightarrow> string" where
  "nat_str n = (if n < 10 then [digit_char n] else nat_str (n div 10) @ [digit_char (n mod 10)])"

declare nat_str.simps [simp del]

definition int_str :: "int \<Rightarrow> string" where
  "int_str i = (if i < 0 then CHR ''-'' # nat_str (nat (- i)) else nat_str (nat i))"

text \<open>\<open>int(s)\<close>: surrounding space, a sign, digits with single underscores between them.\<close>

fun digits_val :: "nat \<Rightarrow> bool \<Rightarrow> string \<Rightarrow> nat option" where
  "digits_val acc prev [] = (if prev then Some acc else None)"
| "digits_val acc prev (c # cs) =
     (if is_digit c then digits_val (acc * 10 + (code_point c - 48)) True cs
      else if c = CHR ''_'' \<and> prev then digits_val acc False cs
      else None)"

definition py_int_of_string :: "string \<Rightarrow> int option" where
  "py_int_of_string s =
     (case strip s of
        [] \<Rightarrow> None
      | c # cs \<Rightarrow>
          if c = CHR ''-'' then map_option (\<lambda>n. - int n) (digits_val 0 False cs)
          else if c = CHR ''+'' then map_option int (digits_val 0 False cs)
          else map_option int (digits_val 0 False (c # cs)))"

lemma code_point_digit [simp]: "d < 10 \<Longrightarrow> code_point (digit_char d) = 48 + d"
  by (simp add: code_point_def digit_char_def)

lemma is_digit_digit_char [simp]: "d < 10 \<Longrightarrow> is_digit (digit_char d)"
  by (simp add: is_digit_def)

lemma digits_val_nat_str:
  "digits_val acc p (nat_str n @ cs) = digits_val (acc * 10 ^ length (nat_str n) + n) True cs"
proof (induction n arbitrary: acc p cs rule: nat_str.induct)
  case (1 n)
  show ?case
  proof (cases "n < 10")
    case True
    then show ?thesis by (simp add: nat_str.simps [of n])
  next
    case False
    let ?k = "nat_str (n div 10)"
    have "digits_val acc p (nat_str n @ cs) =
        digits_val (acc * 10 ^ length ?k + n div 10) True (digit_char (n mod 10) # cs)"
      using False "1.IH" by (subst nat_str.simps) simp
    also have "\<dots> = digits_val ((acc * 10 ^ length ?k + n div 10) * 10 + n mod 10) True cs"
      by simp
    also have "(acc * 10 ^ length ?k + n div 10) * 10 + n mod 10 =
        acc * 10 ^ length (nat_str n) + n"
      using False by (subst (2) nat_str.simps) (simp add: algebra_simps)
    finally show ?thesis .
  qed
qed

lemma digits_val_nat_str0 [simp]: "digits_val 0 False (nat_str n) = Some n"
  using digits_val_nat_str [of 0 False n "[]"] by simp

lemma nat_str_digits: "c \<in> set (nat_str n) \<Longrightarrow> is_digit c"
proof (induction n rule: nat_str.induct)
  case (1 n)
  then show ?case
    by (cases "n < 10") (auto simp: nat_str.simps [of n])
qed

lemma nat_str_not_Nil [simp]: "nat_str n \<noteq> []"
  by (subst nat_str.simps) simp

lemma digit_not_space: "is_digit c \<Longrightarrow> \<not> py_isspace c"
  by (auto simp: is_digit_def py_isspace_def)

lemma not_space_strip: "(\<And>c. c \<in> set s \<Longrightarrow> \<not> py_isspace c) \<Longrightarrow> strip s = s"
proof -
  assume a: "\<And>c. c \<in> set s \<Longrightarrow> \<not> py_isspace c"
  have "dropWhile py_isspace t = t" if "set t \<subseteq> set s" for t
    using that a by (cases t) auto
  then show ?thesis by (simp add: strip_def lstrip_def rstrip_def)
qed

lemma minus_not_space: "\<not> py_isspace (CHR ''-'')"
  by (simp add: py_isspace_def code_point_def)

lemma sign_not_digit: "\<not> is_digit (CHR ''-'')" "\<not> is_digit (CHR ''+'')"
  by (simp_all add: is_digit_def code_point_def)

lemma int_str_not_space: "c \<in> set (int_str i) \<Longrightarrow> \<not> py_isspace c"
  using minus_not_space
  by (auto simp: int_str_def digit_not_space dest: nat_str_digits split: if_splits)

lemma py_int_of_int_str [simp]: "py_int_of_string (int_str i) = Some i"
proof (cases "i < 0")
  case True
  then show ?thesis
    by (simp add: py_int_of_string_def not_space_strip [OF int_str_not_space])
       (simp add: int_str_def)
next
  case False
  obtain c cs where n: "nat_str (nat i) = c # cs"
    using nat_str_not_Nil [of "nat i"] by (cases "nat_str (nat i)") auto
  then have "is_digit c" using nat_str_digits [of c "nat i"] by simp
  then have "c \<noteq> CHR ''-''" "c \<noteq> CHR ''+''" using sign_not_digit by auto
  with False n digits_val_nat_str0 [of "nat i"] show ?thesis
    by (simp add: py_int_of_string_def not_space_strip [OF int_str_not_space])
       (simp add: int_str_def)
qed

lemma int_str_inj: "int_str i = int_str j \<Longrightarrow> i = j"
  by (metis option.inject py_int_of_int_str)

section \<open>POSIX paths\<close>

definition slash :: char where
  "slash = CHR ''/''"

definition path_join :: "string \<Rightarrow> string \<Rightarrow> string" where
  "path_join a b =
     (if startswith b ''/'' then b
      else if a = [] \<or> endswith a ''/'' then a @ b
      else a @ ''/'' @ b)"

fun norm_components :: "bool \<Rightarrow> string list \<Rightarrow> string list \<Rightarrow> string list" where
  "norm_components absolute acc [] = rev acc"
| "norm_components absolute acc (c # cs) =
     (if c = [] \<or> c = ''.'' then norm_components absolute acc cs
      else if c \<noteq> ''..'' \<or> (\<not> absolute \<and> acc = []) \<or> (acc \<noteq> [] \<and> hd acc = ''..'')
           then norm_components absolute (c # acc) cs
      else norm_components absolute (tl acc) cs)"

definition initial_slashes :: "string \<Rightarrow> nat" where
  "initial_slashes p =
     (if \<not> startswith p ''/'' then 0
      else if startswith p ''//'' \<and> \<not> startswith p ''///'' then 2 else 1)"

definition normpath :: "string \<Rightarrow> string" where
  "normpath p =
     (let n = initial_slashes p;
          r = replicate n slash @ py_join ''/'' (norm_components (0 < n) [] (split_on slash p))
      in if p = [] \<or> r = [] then ''.'' else r)"

definition abspath :: "string \<Rightarrow> string \<Rightarrow> string" where
  "abspath cwd p = normpath (if startswith p ''/'' then p else path_join cwd p)"

fun common_prefix :: "'a list \<Rightarrow> 'a list \<Rightarrow> 'a list" where
  "common_prefix (x # xs) (y # ys) = (if x = y then x # common_prefix xs ys else [])"
| "common_prefix _ _ = []"

text \<open>Splitting at a separator undoes joining and terminating with it.\<close>

lemma split_on_acc_append:
  "d \<notin> set a \<Longrightarrow> split_on_acc d w (a @ d # s) = (rev w @ a) # split_on d s"
  by (induction a arbitrary: w) (auto simp: split_on_def)

lemma split_on_acc_last: "d \<notin> set a \<Longrightarrow> split_on_acc d w a = [rev w @ a]"
  by (induction a arbitrary: w) auto

lemma split_on_append [simp]: "d \<notin> set a \<Longrightarrow> split_on d (a @ d # s) = a # split_on d s"
  by (simp add: split_on_def [of d "a @ d # s"] split_on_acc_append)

lemma split_on_last [simp]: "d \<notin> set a \<Longrightarrow> split_on d a = [a]"
  by (simp add: split_on_def split_on_acc_last)

lemma split_on_join:
  "cs \<noteq> [] \<Longrightarrow> (\<And>c. c \<in> set cs \<Longrightarrow> d \<notin> set c) \<Longrightarrow> split_on d (py_join [d] cs) = cs"
  by (induction "[d]" cs rule: py_join.induct) auto

lemma split_on_terminated:
  "(\<And>c. c \<in> set cs \<Longrightarrow> d \<notin> set c) \<Longrightarrow>
     split_on d (concat (map (\<lambda>c. c @ [d]) cs) @ s) = cs @ split_on d s"
  by (induction cs) auto

lemma split_on_acc_free: "d \<notin> set w \<Longrightarrow> \<forall>c \<in> set (split_on_acc d w s). d \<notin> set c"
proof (induction s arbitrary: w)
  case (Cons x s)
  have "\<forall>c \<in> set (split_on_acc d [] s). d \<notin> set c" by (rule Cons.IH) simp
  moreover have "\<forall>c \<in> set (split_on_acc d (x # w) s). d \<notin> set c" if "x \<noteq> d"
    by (rule Cons.IH) (use that Cons.prems in simp)
  ultimately show ?case using Cons.prems by simp
qed simp

lemma split_on_free: "c \<in> set (split_on d s) \<Longrightarrow> d \<notin> set c"
  using split_on_acc_free [of d "[]" s] by (simp add: split_on_def)

text \<open>\<open>os.path.commonpath\<close> of two absolute paths.\<close>

definition path_parts :: "string \<Rightarrow> string list" where
  "path_parts p = filter (\<lambda>c. c \<noteq> [] \<and> c \<noteq> ''.'') (split_on slash p)"

definition commonpath :: "string \<Rightarrow> string \<Rightarrow> string" where
  "commonpath a b = ''/'' @ py_join ''/'' (common_prefix (path_parts a) (path_parts b))"

text \<open>
  A normalised absolute path is its components joined under the root, so comparing the common path
  of two paths with the second one tells whether the first lies at or below it.
\<close>

lemma norm_components_set:
  "set (norm_components a acc cs) \<subseteq> set acc \<union> {c \<in> set cs. c \<noteq> [] \<and> c \<noteq> ''.''}"
proof (induction a acc cs rule: norm_components.induct)
  case (2 a acc x xs)
  have "set (tl acc) \<subseteq> set acc" by (cases acc) auto
  then show ?case using 2 by auto
qed auto

lemma join_parts:
  assumes "\<And>c. c \<in> set cs \<Longrightarrow> c \<noteq> [] \<and> c \<noteq> ''.'' \<and> slash \<notin> set c"
  shows "path_parts (slash # py_join ''/'' cs) = cs"
proof -
  have "split_on slash ([] @ slash # py_join ''/'' cs) = [] # split_on slash (py_join ''/'' cs)"
    by (subst split_on_append) auto
  moreover have "split_on slash (py_join ''/'' cs) = (if cs = [] then [[]] else cs)"
    using split_on_join [of cs slash] assms by (auto simp: slash_def split_on_def)
  moreover have "filter (\<lambda>c. c \<noteq> [] \<and> c \<noteq> ''.'') cs = cs" using assms by (simp add: filter_id_conv)
  ultimately show ?thesis by (simp add: path_parts_def)
qed

lemma join_head:
  assumes "\<And>c. c \<in> set cs \<Longrightarrow> c \<noteq> [] \<and> c \<noteq> ''.'' \<and> slash \<notin> set c"
  shows "\<not> startswith (py_join ''/'' cs) ''/''"
proof (cases cs)
  case (Cons c ds)
  then obtain x c' where "c = x # c'" "x \<noteq> slash" using assms [of c] by (cases c) auto
  with Cons show ?thesis by (cases ds) (auto simp: startswith_def slash_def)
qed (simp add: startswith_def)

lemma abspath_parts:
  assumes "startswith (abspath cwd p) ''/''" and "\<not> startswith (abspath cwd p) ''//''"
  shows "abspath cwd p = ''/'' @ py_join ''/'' (path_parts (abspath cwd p))"
proof -
  let ?q = "if startswith p ''/'' then p else path_join cwd p"
  let ?n = "initial_slashes ?q"
  let ?cs = "norm_components (0 < ?n) [] (split_on slash ?q)"
  have good: "c \<noteq> [] \<and> c \<noteq> ''.'' \<and> slash \<notin> set c" if "c \<in> set ?cs" for c
    using norm_components_set [of "0 < ?n" "[]" "split_on slash ?q"] that split_on_free by fastforce
  have r: "abspath cwd p = (if ?q = [] \<or> replicate ?n slash @ py_join ''/'' ?cs = [] then ''.''
      else replicate ?n slash @ py_join ''/'' ?cs)"
    by (simp add: abspath_def normpath_def Let_def)
  have dot: "\<not> startswith ''.'' ''/''" by (simp add: startswith_def)
  have "?n = 0 \<or> ?n = 1 \<or> ?n = 2" by (simp add: initial_slashes_def)
  then show ?thesis
  proof (elim disjE)
    assume "?n = 0"
    then have "startswith (py_join ''/'' ?cs) ''/''" using assms(1) r dot by (auto split: if_splits)
    then show ?thesis using join_head [OF good] by blast
  next
    assume "?n = 1"
    then have "abspath cwd p = slash # py_join ''/'' ?cs" using r by (auto simp: initial_slashes_def startswith_def split: if_splits)
    then show ?thesis using join_parts [OF good] by (simp add: slash_def)
  next
    assume "?n = 2"
    then have "abspath cwd p = ''//'' @ py_join ''/'' ?cs"
      using r by (auto simp: initial_slashes_def startswith_def slash_def numeral_2_eq_2 split: if_splits)
    then show ?thesis using assms(2) by (simp add: startswith_def)
  qed
qed

lemma common_prefix_eq: "common_prefix xs ys = ys \<longleftrightarrow> take (length ys) xs = ys"
  by (induction xs ys rule: common_prefix.induct) auto

lemma commonpath_below:
  assumes "startswith ws ''/''" "\<not> startswith ws ''//''" "ws = abspath cwd p"
    and "take (length (path_parts ws)) (path_parts wt) = path_parts ws"
  shows "commonpath wt ws = ws"
proof -
  have "common_prefix (path_parts wt) (path_parts ws) = path_parts ws"
    using assms(4) common_prefix_eq by blast
  moreover have "ws = ''/'' @ py_join ''/'' (path_parts ws)"
    using assms(1,2) unfolding assms(3) by (rule abspath_parts)
  ultimately show ?thesis unfolding commonpath_def by (simp only:)
qed

section \<open>JSON values and dictionaries\<close>

datatype json =
    JNull
  | JBool bool
  | JInt int
  | JStr string
  | JList "json list"
  | JDict "(string \<times> json) list"

type_synonym dict = "(string \<times> json) list"

text \<open>\<open>bool(v)\<close>, \<open>d.get(k, default)\<close>, \<open>d.get(k)\<close> and \<open>d[k] = v\<close>.\<close>

fun py_truth :: "json \<Rightarrow> bool" where
  "py_truth JNull = False"
| "py_truth (JBool b) = b"
| "py_truth (JInt i) = (i \<noteq> 0)"
| "py_truth (JStr s) = (s \<noteq> [])"
| "py_truth (JList xs) = (xs \<noteq> [])"
| "py_truth (JDict d) = (d \<noteq> [])"

definition dget :: "dict \<Rightarrow> string \<Rightarrow> json \<Rightarrow> json" where
  "dget d k v = (case map_of d k of None \<Rightarrow> v | Some w \<Rightarrow> w)"

abbreviation dget0 :: "dict \<Rightarrow> string \<Rightarrow> json" where
  "dget0 d k \<equiv> dget d k JNull"

fun dset :: "'k \<Rightarrow> 'v \<Rightarrow> ('k \<times> 'v) list \<Rightarrow> ('k \<times> 'v) list" where
  "dset k v [] = [(k, v)]"
| "dset k v ((k', v') # d) = (if k = k' then (k, v) # d else (k', v') # dset k v d)"

text \<open>\<open>a or b\<close> on JSON values.\<close>

definition py_or :: "json \<Rightarrow> json \<Rightarrow> json" where
  "py_or a b = (if py_truth a then a else b)"

text \<open>
  \<open>repr\<close> of a string: single quotes unless the string holds one and no double quote; the
  backslash, the quote and the characters that are not printable are escaped.
\<close>

definition hex_digit :: "nat \<Rightarrow> char" where
  "hex_digit d = (if d < 10 then char_of (48 + d) else char_of (87 + d))"

definition py_printable :: "char \<Rightarrow> bool" where
  "py_printable c \<longleftrightarrow>
     (let n = code_point c in (32 \<le> n \<and> n \<le> 126) \<or> (161 \<le> n \<and> n \<noteq> 173))"

definition repr_char :: "char \<Rightarrow> char \<Rightarrow> string" where
  "repr_char q c =
     (let n = code_point c in
      if c = q \<or> n = 92 then [char_of (92::nat), c]
      else if n = 10 then [char_of (92::nat), CHR ''n'']
      else if n = 13 then [char_of (92::nat), CHR ''r'']
      else if n = 9 then [char_of (92::nat), CHR ''t'']
      else if py_printable c then [c]
      else [char_of (92::nat), CHR ''x'', hex_digit (n div 16), hex_digit (n mod 16)])"

definition repr_str :: "string \<Rightarrow> string" where
  "repr_str s =
     (let sq = char_of (39::nat); dq = char_of (34::nat);
          q = (if sq \<in> set s \<and> dq \<notin> set s then dq else sq)
      in q # concat (map (repr_char q) s) @ [q])"

fun py_repr :: "json \<Rightarrow> string"
  and py_repr_items :: "json list \<Rightarrow> string list"
  and py_repr_pairs :: "(string \<times> json) list \<Rightarrow> string list" where
  "py_repr JNull = ''None''"
| "py_repr (JBool b) = (if b then ''True'' else ''False'')"
| "py_repr (JInt i) = int_str i"
| "py_repr (JStr s) = repr_str s"
| "py_repr (JList xs) = ''['' @ py_join '', '' (py_repr_items xs) @ '']''"
| "py_repr (JDict d) = ''{'' @ py_join '', '' (py_repr_pairs d) @ ''}''"
| "py_repr_items [] = []"
| "py_repr_items (x # xs) = py_repr x # py_repr_items xs"
| "py_repr_pairs [] = []"
| "py_repr_pairs ((k, v) # d) = (repr_str k @ '': '' @ py_repr v) # py_repr_pairs d"

fun py_str :: "json \<Rightarrow> string" where
  "py_str (JStr s) = s"
| "py_str v = py_repr v"

text \<open>\<open>int(v)\<close>; \<open>None\<close> where Python raises a \<open>ValueError\<close> or a \<open>TypeError\<close>.\<close>

fun py_int :: "json \<Rightarrow> int option" where
  "py_int (JInt i) = Some i"
| "py_int (JBool b) = Some (if b then 1 else 0)"
| "py_int (JStr s) = py_int_of_string s"
| "py_int _ = None"

text \<open>\<open>json.dumps(v, ensure_ascii=False)\<close> with the separators as parameters.\<close>

definition dumps_char :: "char \<Rightarrow> string" where
  "dumps_char c =
     (let n = code_point c in
      if n = 34 \<or> n = 92 then [char_of (92::nat), c]
      else if n = 10 then [char_of (92::nat), CHR ''n'']
      else if n = 13 then [char_of (92::nat), CHR ''r'']
      else if n = 9 then [char_of (92::nat), CHR ''t'']
      else if n = 8 then [char_of (92::nat), CHR ''b'']
      else if n = 12 then [char_of (92::nat), CHR ''f'']
      else if n < 32 then
        [char_of (92::nat), CHR ''u'', CHR ''0'', CHR ''0'', hex_digit (n div 16), hex_digit (n mod 16)]
      else [c])"

definition dumps_str :: "string \<Rightarrow> string" where
  "dumps_str s = (let dq = char_of (34::nat) in dq # concat (map dumps_char s) @ [dq])"

fun json_dumps :: "string \<Rightarrow> string \<Rightarrow> json \<Rightarrow> string"
  and json_dumps_items :: "string \<Rightarrow> string \<Rightarrow> json list \<Rightarrow> string list"
  and json_dumps_pairs :: "string \<Rightarrow> string \<Rightarrow> (string \<times> json) list \<Rightarrow> string list" where
  "json_dumps sep col JNull = ''null''"
| "json_dumps sep col (JBool b) = (if b then ''true'' else ''false'')"
| "json_dumps sep col (JInt i) = int_str i"
| "json_dumps sep col (JStr s) = dumps_str s"
| "json_dumps sep col (JList xs) = ''['' @ py_join sep (json_dumps_items sep col xs) @ '']''"
| "json_dumps sep col (JDict d) = ''{'' @ py_join sep (json_dumps_pairs sep col d) @ ''}''"
| "json_dumps_items sep col [] = []"
| "json_dumps_items sep col (x # xs) = json_dumps sep col x # json_dumps_items sep col xs"
| "json_dumps_pairs sep col [] = []"
| "json_dumps_pairs sep col ((k, v) # d) =
     (dumps_str k @ col @ json_dumps sep col v) # json_dumps_pairs sep col d"

abbreviation dumps :: "json \<Rightarrow> string" where
  "dumps v \<equiv> json_dumps '', '' '': '' v"

lemma map_of_dset [simp]: "map_of (dset k v d) = (map_of d)(k \<mapsto> v)"
  by (induction d) auto

lemma dget_dset: "dget (dset k v d) k' w = (if k' = k then v else dget d k' w)"
  by (simp add: dget_def)

lemma dget_Nil [simp]: "dget [] k v = v"
  by (simp add: dget_def)

lemma dget_Cons [simp]: "dget ((k', w) # d) k v = (if k = k' then w else dget d k v)"
  by (simp add: dget_def)

section \<open>Tables\<close>

text \<open>
  A table is the list of its rows in insertion order. An \<open>UPDATE ... WHERE\<close> rewrites the rows
  that match in place; \<open>ORDER BY key DESC\<close> over a key that no two rows share is the reversed
  ascending sort.
\<close>

definition upd_rows :: "('r \<Rightarrow> bool) \<Rightarrow> ('r \<Rightarrow> 'r) \<Rightarrow> 'r list \<Rightarrow> 'r list" where
  "upd_rows P f rs = map (\<lambda>r. if P r then f r else r) rs"

definition order_desc :: "('r \<Rightarrow> 'k::linorder) \<Rightarrow> 'r list \<Rightarrow> 'r list" where
  "order_desc key rs = rev (sort_key key rs)"

fun first_row :: "'r list \<Rightarrow> 'r option" where
  "first_row [] = None"
| "first_row (r # rs) = Some r"

lemma length_upd_rows [simp, row_simps]: "length (upd_rows P f rs) = length rs"
  by (simp add: upd_rows_def)

lemma upd_rows_Nil [simp, row_simps]: "upd_rows P f [] = []"
  by (simp add: upd_rows_def)

lemma upd_rows_Cons [row_simps]:
  "upd_rows P f (r # rs) = (if P r then f r else r) # upd_rows P f rs"
  by (simp add: upd_rows_def)

lemma upd_rows_append [row_simps]: "upd_rows P f (rs @ ss) = upd_rows P f rs @ upd_rows P f ss"
  by (simp add: upd_rows_def)

lemma set_upd_rows: "set (upd_rows P f rs) = (\<lambda>r. if P r then f r else r) ` set rs"
  by (simp add: upd_rows_def)

lemma map_upd_rows [row_simps]:
  "(\<And>r. g (f r) = g r) \<Longrightarrow> map g (upd_rows P f rs) = map g rs"
  by (simp add: upd_rows_def)

lemma upd_rows_none: "(\<And>r. r \<in> set rs \<Longrightarrow> \<not> P r) \<Longrightarrow> upd_rows P f rs = rs"
  by (simp add: upd_rows_def map_idI)

text \<open>Lookup by a key an update leaves alone sees the updated row.\<close>

lemma find_upd_rows:
  assumes "\<And>r. key (f r) = key r"
  shows "find (\<lambda>r. key r = k) (upd_rows P f rs) =
    map_option (\<lambda>r. if P r then f r else r) (find (\<lambda>r. key r = k) rs)"
  by (induction rs) (auto simp: upd_rows_Cons assms)

lemma find_append: "find P (xs @ ys) = (case find P xs of None \<Rightarrow> find P ys | Some x \<Rightarrow> Some x)"
  by (induction xs) auto

lemma find_SomeD: "find P xs = Some x \<Longrightarrow> x \<in> set xs \<and> P x"
  by (induction xs) (auto split: if_splits)

lemma find_key_distinct:
  "distinct (map key rs) \<Longrightarrow> r \<in> set rs \<Longrightarrow> find (\<lambda>x. key x = key r) rs = Some r"
  by (induction rs) auto

lemma first_row_mem: "first_row rs = Some r \<Longrightarrow> r \<in> set rs"
  by (cases rs) auto

lemma first_row_None [simp]: "first_row rs = None \<longleftrightarrow> rs = []"
  by (cases rs) auto

lemma set_order_desc [simp]: "set (order_desc key rs) = set rs"
  by (simp add: order_desc_def)

lemma length_order_desc [simp]: "length (order_desc key rs) = length rs"
  by (simp add: order_desc_def)

lemma order_desc_Nil [simp]: "order_desc key rs = [] \<longleftrightarrow> rs = []"
  by (metis length_0_conv length_order_desc)

lemma order_desc_sorted: "sorted_wrt (\<lambda>x y. key y \<le> key x) (order_desc key rs)"
  by (simp add: order_desc_def sorted_wrt_rev) (simp add: sorted_wrt_map [symmetric] flip: sorted_wrt_map)

text \<open>The row an \<open>ORDER BY key DESC LIMIT 1\<close> returns has the greatest key.\<close>

lemma first_order_desc_max:
  assumes "first_row (order_desc key rs) = Some r"
  shows "r \<in> set rs \<and> (\<forall>x \<in> set rs. key x \<le> key r)"
proof -
  obtain ss where ss: "order_desc key rs = r # ss"
    using assms by (cases "order_desc key rs") auto
  then have "r \<in> set rs" by (metis list.set_intros(1) set_order_desc)
  moreover have "key x \<le> key r" if "x \<in> set rs" for x
    using that ss order_desc_sorted [of key rs] by (metis order_refl set_ConsD set_order_desc sorted_wrt.simps(2))
  ultimately show ?thesis by blast
qed

subsection \<open>Tables with an \<open>AUTOINCREMENT\<close> key\<close>

text \<open>\<open>ORDER BY key\<close> followed by a scan for the first row with a property: a least such row.\<close>

lemma find_sorted:
  assumes "find P (sort_key k xs) = Some x"
  shows "x \<in> set xs \<and> P x \<and> (\<forall>y \<in> set xs. P y \<longrightarrow> k x \<le> k y)"
proof -
  obtain i where i: "i < length (sort_key k xs)" "P (sort_key k xs ! i)" "x = sort_key k xs ! i"
      "\<forall>j < i. \<not> P (sort_key k xs ! j)"
    using assms by (auto simp: find_Some_iff)
  have "k x \<le> k y" if "y \<in> set xs" "P y" for y
  proof -
    have "y \<in> set (sort_key k xs)" using that(1) by simp
    then obtain j where j: "j < length (sort_key k xs)" "y = sort_key k xs ! j"
      unfolding in_set_conv_nth by blast
    then have "i \<le> j" using i(4) that(2) not_le by blast
    have "sorted (map k (sort_key k xs))" by simp
    then have "map k (sort_key k xs) ! i \<le> map k (sort_key k xs) ! j"
      using \<open>i \<le> j\<close> j(1) by (intro sorted_nth_mono) simp_all
    then show ?thesis using i(1,3) j by simp
  qed
  moreover have "x \<in> set (sort_key k xs)" using i(1,3) nth_mem by blast
  ultimately show ?thesis using i(2,3) by simp
qed

definition ids_ok :: "('r \<Rightarrow> nat) \<Rightarrow> 'r list \<Rightarrow> nat \<Rightarrow> bool" where
  "ids_ok key rs n \<longleftrightarrow> sorted_wrt (<) (map key rs) \<and> (\<forall>r \<in> set rs. key r < n)"

lemma ids_ok_Nil [simp]: "ids_ok key [] n"
  by (simp add: ids_ok_def)

lemma ids_ok_snoc: "ids_ok key rs n \<Longrightarrow> key r = n \<Longrightarrow> ids_ok key (rs @ [r]) (Suc n)"
  by (auto simp: ids_ok_def sorted_wrt_append less_Suc_eq)

lemma ids_ok_upd:
  assumes "ids_ok key rs n" and "\<And>r. key (f r) = key r"
  shows "ids_ok key (upd_rows P f rs) n"
  using assms by (auto simp: ids_ok_def map_upd_rows set_upd_rows)

lemma ids_ok_distinct: "ids_ok key rs n \<Longrightarrow> distinct (map key rs)"
  by (simp add: ids_ok_def strict_sorted_iff)

lemma ids_ok_inj: "ids_ok key rs n \<Longrightarrow> r \<in> set rs \<Longrightarrow> q \<in> set rs \<Longrightarrow> key r = key q \<Longrightarrow> r = q"
  using ids_ok_distinct [of key rs n] by (auto simp: distinct_map dest: inj_onD)

lemma ids_ok_fresh: "ids_ok key rs n \<Longrightarrow> find (\<lambda>r. key r = n) rs = None"
  by (auto simp: ids_ok_def find_None_iff)

text \<open>
  The contract of an insertion with a generated key: the new row goes to the end under the next
  key, which then moves on. Clients need nothing else to know that keys stay unique, that the new
  row is found under its key and that no other lookup changes.
\<close>

locale auto_table =
  fixes rows :: "'s \<Rightarrow> 'r list"
    and key :: "'r \<Rightarrow> nat"
    and next_key :: "'s \<Rightarrow> nat"
    and ins :: "'x \<Rightarrow> 's \<Rightarrow> 's"
    and mk :: "'x \<Rightarrow> 's \<Rightarrow> 'r"
  assumes rows_ins: "rows (ins x s) = rows s @ [mk x s]"
    and key_mk: "key (mk x s) = next_key s"
    and next_ins: "next_key (ins x s) = Suc (next_key s)"
begin

abbreviation ok :: "'s \<Rightarrow> bool" where
  "ok s \<equiv> ids_ok key (rows s) (next_key s)"

abbreviation lookup :: "'s \<Rightarrow> nat \<Rightarrow> 'r option" where
  "lookup s k \<equiv> find (\<lambda>r. key r = k) (rows s)"

lemma ok_ins: "ok s \<Longrightarrow> ok (ins x s)"
  by (simp add: rows_ins next_ins ids_ok_snoc key_mk)

lemma lookup_ins_new: "ok s \<Longrightarrow> lookup (ins x s) (next_key s) = Some (mk x s)"
  by (simp add: rows_ins find_append ids_ok_fresh key_mk)

lemma lookup_ins_old: "k \<noteq> next_key s \<Longrightarrow> lookup (ins x s) k = lookup s k"
  by (simp add: rows_ins find_append key_mk split: option.splits)

lemma key_fresh: "ok s \<Longrightarrow> r \<in> set (rows s) \<Longrightarrow> key r < next_key (ins x s)"
  by (auto simp: ids_ok_def next_ins)

end

end
