(* ===== verification/Task_Models.thy ===== *)
theory Task_Models
  imports Py_Data
begin

text \<open>
  The data model of \<^verbatim>\<open>wlcodex/models.py\<close>: task, approval and conversation states as datatypes with
  their stored values, and the rows the task ledger keeps as records. Instants are microseconds
  since the epoch (the stored ISO texts compare in the same order).
\<close>

type_synonym stamp = int
type_synonym row_id = nat

section \<open>Status enumerations\<close>

datatype task_status =
    QUEUED
  | RUNNING
  | WAITING_APPROVAL
  | PAUSED
  | WAITING_SLOT
  | DONE
  | FAILED
  | ABORTED
  | ARCHIVED

fun task_status_value :: "task_status \<Rightarrow> string" where
  "task_status_value QUEUED = ''queued''"
| "task_status_value RUNNING = ''running''"
| "task_status_value WAITING_APPROVAL = ''waiting_approval''"
| "task_status_value PAUSED = ''paused''"
| "task_status_value WAITING_SLOT = ''waiting_slot''"
| "task_status_value DONE = ''done''"
| "task_status_value FAILED = ''failed''"
| "task_status_value ABORTED = ''aborted''"
| "task_status_value ARCHIVED = ''archived''"

datatype approval_status = AP_PENDING | AP_APPROVED | AP_DENIED | AP_CANCELLED | AP_EXPIRED

fun approval_status_value :: "approval_status \<Rightarrow> string" where
  "approval_status_value AP_PENDING = ''pending''"
| "approval_status_value AP_APPROVED = ''approved''"
| "approval_status_value AP_DENIED = ''denied''"
| "approval_status_value AP_CANCELLED = ''cancelled''"
| "approval_status_value AP_EXPIRED = ''expired''"

datatype approval_kind = COMMAND | FILE_CHANGE | PERMISSIONS

text \<open>\<open>ApprovalKind(text)\<close>; \<open>None\<close> is the \<open>ValueError\<close> of an unknown value.\<close>

definition approval_kind_of :: "string \<Rightarrow> approval_kind option" where
  "approval_kind_of s =
     (if s = ''command'' then Some COMMAND
      else if s = ''file_change'' then Some FILE_CHANGE
      else if s = ''permissions'' then Some PERMISSIONS
      else None)"

datatype conversation_mode = CHIEF_ENGINEER | CODEX_DIRECT | CLAUDE_DIRECT

fun conversation_mode_value :: "conversation_mode \<Rightarrow> string" where
  "conversation_mode_value CHIEF_ENGINEER = ''chief_engineer''"
| "conversation_mode_value CODEX_DIRECT = ''codex_direct''"
| "conversation_mode_value CLAUDE_DIRECT = ''claude_direct''"

section \<open>Rows\<close>

record task =
  t_id :: row_id
  t_workspace_alias :: string
  t_workspace_path :: string
  t_title :: string
  t_status :: task_status
  t_codex_thread_id :: "string option"
  t_active_turn_id :: "string option"
  t_parent_task_id :: "row_id option"
  t_telegram_chat_id :: "int option"
  t_telegram_status_message_id :: "int option"
  t_created_at :: stamp
  t_updated_at :: stamp
  t_last_summary :: string
  t_last_phase :: string
  t_last_error :: string
  t_changed_file_count :: int
  t_pending_approval_count :: int
  t_token_input :: int
  t_token_output :: int
  t_worktree_path :: string
  t_worktree_branch :: string
  t_is_force_parallel :: bool

record task_event =
  e_id :: row_id
  e_task_id :: row_id
  e_event_type :: string
  e_payload :: dict
  e_created_at :: stamp

record approval_request =
  a_id :: row_id
  a_task_id :: row_id
  a_codex_request_id :: string
  a_codex_item_id :: "string option"
  a_codex_turn_id :: "string option"
  a_kind :: approval_kind
  a_summary :: string
  a_command_json :: string
  a_status :: approval_status
  a_telegram_message_id :: "int option"
  a_resolution :: "string option"
  a_created_at :: stamp
  a_resolved_at :: "stamp option"

record touched_file =
  f_id :: row_id
  f_task_id :: row_id
  f_path :: string
  f_change_kind :: string
  f_created_at :: stamp

record conversation_session =
  c_id :: row_id
  c_chat_id :: int
  c_user_id :: int
  c_title :: string
  c_mode :: string
  c_workspace_alias :: string
  c_active_codex_task_id :: "row_id option"
  c_active_claude_run_id :: "row_id option"
  c_conversation_summary :: string
  c_current_model :: string
  c_created_at :: stamp
  c_updated_at :: stamp
  c_archived_at :: "stamp option"
  c_codex_thread_id :: string
  c_codex_thread_policy :: string
  c_claude_session_id :: string
  c_legacy_compatible :: bool

record agent_run =
  r_id :: row_id
  r_conversation_id :: row_id
  r_agent :: string
  r_role :: string
  r_status :: string
  r_hidden_task_id :: "row_id option"
  r_external_session_id :: "string option"
  r_prompt_packet_summary :: string
  r_completion_summary :: string
  r_token_input :: int
  r_token_output :: int
  r_created_at :: stamp
  r_updated_at :: stamp

record orchestration_run =
  o_id :: row_id
  o_conversation_id :: row_id
  o_goal :: string
  o_status :: string
  o_current_step :: string
  o_verify_round :: int
  o_max_verify_rounds :: int
  o_last_codex_analysis :: string
  o_last_claude_summary :: string
  o_last_verification_result :: string
  o_diagnose_json :: string
  o_created_at :: stamp
  o_updated_at :: stamp

record usage_event =
  u_id :: row_id
  u_created_at :: stamp
  u_conversation_id :: "row_id option"
  u_orchestration_run_id :: "row_id option"
  u_agent_run_id :: "row_id option"
  u_task_id :: "row_id option"
  u_agent :: string
  u_role :: string
  u_phase :: string
  u_request_kind :: string
  u_request_index :: int
  u_model :: string
  u_external_thread_id :: "string option"
  u_external_turn_id :: "string option"
  u_external_session_id :: "string option"
  u_status :: string
  u_source :: string
  u_input_tokens :: int
  u_cached_input_tokens :: int
  u_output_tokens :: int
  u_reasoning_output_tokens :: int
  u_total_tokens :: int
  u_workflow_overhead_input_tokens :: int
  u_workflow_overhead_output_tokens :: int
  u_latency_ms :: int
  u_metadata_json :: string

lemma task_status_value_inj: "task_status_value a = task_status_value b \<Longrightarrow> a = b"
  by (cases a; cases b) simp_all

end
