(* ===== verification/Ledger.thy ===== *)
theory Ledger
  imports Task_Models
begin

text \<open>
  The durable ledger of \<^verbatim>\<open>wlcodex/db.py\<close> as far as tasks, their events, approvals, touched files,
  thread bindings and usage rows go, together with the maintenance gate of
  \<^verbatim>\<open>wlcodex/maintenance.py\<close> that every submission passes. Each \<open>Ledger\<close> method is one definition;
  each table is the list of its rows in insertion order beside the next \<open>AUTOINCREMENT\<close> key.
  \<open>db_now\<close> is the reading of the clock that the running operation sees.
\<close>

section \<open>State\<close>

record window_row =
  w_submissions_frozen :: bool
  w_opened_at :: "stamp option"
  w_closed_at :: "stamp option"
  w_operator_note :: string
  w_updated_at :: stamp

record window_db =
  db_now :: stamp
  db_window :: "window_row option"

record ledger = window_db +
  l_tasks :: "task list"
  l_next_task :: row_id
  l_events :: "task_event list"
  l_next_event :: row_id
  l_approvals :: "approval_request list"
  l_next_approval :: row_id
  l_touched :: "touched_file list"
  l_next_touched :: row_id
  l_bindings :: "(row_id \<times> string) list"
  l_conversations :: "conversation_session list"
  l_orchestrations :: "orchestration_run list"
  l_agent_runs :: "agent_run list"
  l_usage :: "usage_event list"
  l_next_usage :: row_id
  l_logs :: "(row_id \<times> string) list"
  l_next_conversation :: row_id
  l_next_orchestration :: row_id
  l_next_agent_run :: row_id

datatype runtime_reason =
    MissingStoredPrompt row_id
  | WorktreeInsideWorkspace string
  | WorktreeCreateFailed row_id
  | NoWorktreePath row_id
  | NoWorktreeBranch row_id
  | WorkspaceDirty row_id
  | BranchNotFound string
  | WorktreeRemoveFailed row_id
  | ContinueWaitingSlot row_id
  | ContinueArchived row_id
  | ContinueActive row_id task_status
  | ContinueNoThread row_id
  | SteerWaitingSlot row_id
  | SteerNoActiveTurn row_id
  | SteerNotRunning row_id task_status
  | CannotPause row_id task_status
  | CannotAbort row_id task_status
  | CannotArchive row_id task_status
  | CannotFail row_id task_status
  | BackendError string

text \<open>
  The exceptions, with the arguments their messages render. \<open>WorkspaceBusy\<close>,
  \<open>InvalidTransition\<close> and \<open>MaintenanceWindowError\<close> are subclasses of \<open>RuntimeError\<close>.
\<close>

datatype exn =
    KeyError string
  | PermissionError string
  | WorkspaceBusy string row_id
  | InvalidTransition row_id task_status task_status
  | NotWaitingSlot row_id task_status
  | MaintenanceWindowError
  | RuntimeError runtime_reason

fun is_runtime_error :: "exn \<Rightarrow> bool" where
  "is_runtime_error (KeyError _) = False"
| "is_runtime_error (PermissionError _) = False"
| "is_runtime_error _ = True"

section \<open>The maintenance gate\<close>

definition submissions_frozen :: "'a window_db_scheme \<Rightarrow> bool" where
  "submissions_frozen db = (case db_window db of None \<Rightarrow> False | Some w \<Rightarrow> w_submissions_frozen w)"

definition assert_submissions_open :: "'a window_db_scheme \<Rightarrow> exn + unit" where
  "assert_submissions_open db = (if submissions_frozen db then Inl MaintenanceWindowError else Inr ())"

section \<open>Tasks\<close>

definition new_task ::
  "row_id \<Rightarrow> stamp \<Rightarrow> string \<Rightarrow> string \<Rightarrow> string \<Rightarrow> string option \<Rightarrow> row_id option \<Rightarrow> int option
   \<Rightarrow> task_status \<Rightarrow> task" where
  "new_task i now alias path title thread parent chat st =
     \<lparr>t_id = i, t_workspace_alias = alias, t_workspace_path = path, t_title = title,
      t_status = st, t_codex_thread_id = thread, t_active_turn_id = None,
      t_parent_task_id = parent, t_telegram_chat_id = chat, t_telegram_status_message_id = None,
      t_created_at = now, t_updated_at = now, t_last_summary = [], t_last_phase = [],
      t_last_error = [], t_changed_file_count = 0, t_pending_approval_count = 0,
      t_token_input = 0, t_token_output = 0, t_worktree_path = [], t_worktree_branch = [],
      t_is_force_parallel = False\<rparr>"

text \<open>\<open>INSERT OR IGNORE\<close> under the unique index on \<open>thread_id\<close>.\<close>

definition bind_thread :: "row_id \<Rightarrow> string \<Rightarrow> ledger \<Rightarrow> ledger" where
  "bind_thread i thread l =
     (if thread \<in> snd ` set (l_bindings l) then l
      else l\<lparr>l_bindings := l_bindings l @ [(i, thread)]\<rparr>)"

definition create_task ::
  "string \<Rightarrow> string \<Rightarrow> string \<Rightarrow> string option \<Rightarrow> row_id option \<Rightarrow> int option \<Rightarrow> task_status
   \<Rightarrow> ledger \<Rightarrow> task \<times> ledger" where
  "create_task alias path title thread parent chat st l =
     (let i = l_next_task l;
          t = new_task i (db_now l) alias path title thread parent chat st;
          l1 = l\<lparr>l_tasks := l_tasks l @ [t], l_next_task := i + 1\<rparr>
      in (t, case thread of None \<Rightarrow> l1 | Some th \<Rightarrow> if th = [] then l1 else bind_thread i th l1))"

definition find_task :: "ledger \<Rightarrow> row_id \<Rightarrow> task option" where
  "find_task l i = find (\<lambda>t. t_id t = i) (l_tasks l)"

definition get_task :: "ledger \<Rightarrow> row_id \<Rightarrow> exn + task" where
  "get_task l i =
     (case find_task l i of
        None \<Rightarrow> Inl (KeyError (''unknown task id: '' @ nat_str i))
      | Some t \<Rightarrow> Inr t)"

definition list_tasks :: "nat \<Rightarrow> bool \<Rightarrow> ledger \<Rightarrow> task list" where
  "list_tasks limit include_archived l =
     take limit (order_desc (\<lambda>t. (t_updated_at t, t_id t))
       (if include_archived then l_tasks l else filter (\<lambda>t. t_status t \<noteq> ARCHIVED) (l_tasks l)))"

definition upd_task :: "row_id \<Rightarrow> (task \<Rightarrow> task) \<Rightarrow> ledger \<Rightarrow> ledger" where
  "upd_task i f l =
     l\<lparr>l_tasks := upd_rows (\<lambda>t. t_id t = i) (\<lambda>t. f t\<lparr>t_updated_at := db_now l\<rparr>) (l_tasks l)\<rparr>"

definition set_task_status ::
  "row_id \<Rightarrow> task_status \<Rightarrow> string \<Rightarrow> string \<Rightarrow> string \<Rightarrow> ledger \<Rightarrow> ledger" where
  "set_task_status i st phase summary error =
     upd_task i (\<lambda>t. t\<lparr>t_status := st, t_last_phase := phase, t_last_summary := summary,
                       t_last_error := error\<rparr>)"

definition set_active_turn :: "row_id \<Rightarrow> string \<Rightarrow> ledger \<Rightarrow> ledger" where
  "set_active_turn i turn = upd_task i (\<lambda>t. t\<lparr>t_active_turn_id := Some turn\<rparr>)"

definition clear_active_turn :: "row_id \<Rightarrow> ledger \<Rightarrow> ledger" where
  "clear_active_turn i = upd_task i (\<lambda>t. t\<lparr>t_active_turn_id := None\<rparr>)"

definition set_status_message :: "row_id \<Rightarrow> int \<Rightarrow> int \<Rightarrow> ledger \<Rightarrow> ledger" where
  "set_status_message i chat msg =
     upd_task i (\<lambda>t. t\<lparr>t_telegram_chat_id := Some chat, t_telegram_status_message_id := Some msg\<rparr>)"

definition increment_changed_files :: "row_id \<Rightarrow> int \<Rightarrow> ledger \<Rightarrow> ledger" where
  "increment_changed_files i d =
     upd_task i (\<lambda>t. t\<lparr>t_changed_file_count := t_changed_file_count t + d\<rparr>)"

definition increment_pending_approvals :: "row_id \<Rightarrow> int \<Rightarrow> ledger \<Rightarrow> ledger" where
  "increment_pending_approvals i d =
     upd_task i (\<lambda>t. t\<lparr>t_pending_approval_count := t_pending_approval_count t + d\<rparr>)"

definition decrement_pending_approvals :: "row_id \<Rightarrow> ledger \<Rightarrow> ledger" where
  "decrement_pending_approvals i =
     upd_task i (\<lambda>t. t\<lparr>t_pending_approval_count :=
       (if t_pending_approval_count t > 0 then t_pending_approval_count t - 1 else 0)\<rparr>)"

definition set_token_usage :: "row_id \<Rightarrow> int \<Rightarrow> int \<Rightarrow> ledger \<Rightarrow> ledger" where
  "set_token_usage i ti to = upd_task i (\<lambda>t. t\<lparr>t_token_input := ti, t_token_output := to\<rparr>)"

definition set_worktree_info :: "row_id \<Rightarrow> string \<Rightarrow> string \<Rightarrow> ledger \<Rightarrow> ledger" where
  "set_worktree_info i path branch =
     upd_task i (\<lambda>t. t\<lparr>t_worktree_path := path, t_worktree_branch := branch\<rparr>)"

definition set_force_parallel :: "row_id \<Rightarrow> ledger \<Rightarrow> ledger" where
  "set_force_parallel i = upd_task i (\<lambda>t. t\<lparr>t_is_force_parallel := True\<rparr>)"

definition set_thread_id :: "row_id \<Rightarrow> string \<Rightarrow> ledger \<Rightarrow> ledger" where
  "set_thread_id i thread l =
     bind_thread i thread (upd_task i (\<lambda>t. t\<lparr>t_codex_thread_id := Some thread\<rparr>) l)"

definition list_task_thread_ids :: "ledger \<Rightarrow> row_id \<Rightarrow> string list" where
  "list_task_thread_ids l i = map snd (filter (\<lambda>(j, _). j = i) (l_bindings l))"

definition is_active_status :: "task_status \<Rightarrow> bool" where
  "is_active_status st \<longleftrightarrow> st \<in> set [QUEUED, RUNNING, WAITING_APPROVAL, PAUSED]"

text \<open>\<open>ORDER BY CASE active THEN 0 ELSE 1 END, updated_at DESC, id DESC LIMIT 1\<close>.\<close>

definition thread_rank :: "task \<Rightarrow> nat \<times> stamp \<times> row_id" where
  "thread_rank t = (if is_active_status (t_status t) then 1 else 0, t_updated_at t, t_id t)"

definition find_task_by_thread_id :: "ledger \<Rightarrow> string \<Rightarrow> task option" where
  "find_task_by_thread_id l thread =
     (case first_row (order_desc thread_rank
              (filter (\<lambda>t. t_codex_thread_id t = Some thread) (l_tasks l))) of
        Some t \<Rightarrow> Some t
      | None \<Rightarrow> first_row (order_desc thread_rank
              (filter (\<lambda>t. (t_id t, thread) \<in> set (l_bindings l)) (l_tasks l))))"

definition list_active_tasks :: "nat \<Rightarrow> ledger \<Rightarrow> task list" where
  "list_active_tasks limit l =
     take limit (sort_key (\<lambda>t. (t_updated_at t, t_id t))
       (filter (\<lambda>t. is_active_status (t_status t)) (l_tasks l)))"

definition list_waiting_tasks :: "ledger \<Rightarrow> string \<Rightarrow> task list" where
  "list_waiting_tasks l alias =
     sort_key (\<lambda>t. (t_created_at t, t_id t))
       (filter (\<lambda>t. t_workspace_alias t = alias \<and> t_status t = WAITING_SLOT) (l_tasks l))"

section \<open>Events\<close>

definition list_events :: "nat \<Rightarrow> ledger \<Rightarrow> row_id \<Rightarrow> task_event list" where
  "list_events limit l i = take limit (filter (\<lambda>e. e_task_id e = i) (l_events l))"

definition insert_event :: "row_id \<Rightarrow> string \<Rightarrow> dict \<Rightarrow> ledger \<Rightarrow> ledger" where
  "insert_event i ty payload l =
     l\<lparr>l_events := l_events l @
         [\<lparr>e_id = l_next_event l, e_task_id = i, e_event_type = ty, e_payload = payload,
           e_created_at = db_now l\<rparr>],
       l_next_event := l_next_event l + 1\<rparr>"

text \<open>\<open>add_event\<close> answers with the last element of \<open>list_events(task_id)\<close>, limit 200.\<close>

definition add_event :: "row_id \<Rightarrow> string \<Rightarrow> dict \<Rightarrow> ledger \<Rightarrow> task_event \<times> ledger" where
  "add_event i ty payload l =
     (let l' = insert_event i ty payload l in (last (list_events 200 l' i), l'))"

section \<open>Approvals, touched files\<close>

definition get_approval_by_codex_id :: "ledger \<Rightarrow> string \<Rightarrow> row_id option \<Rightarrow> approval_request option" where
  "get_approval_by_codex_id l req task =
     first_row (order_desc a_id (filter (\<lambda>a. a_codex_request_id a = req \<and>
       (case task of None \<Rightarrow> True | Some i \<Rightarrow> a_task_id a = i)) (l_approvals l)))"

text \<open>\<open>INSERT OR IGNORE\<close> under the unique index on \<open>(task_id, codex_request_id)\<close>.\<close>

definition create_approval ::
  "row_id \<Rightarrow> string \<Rightarrow> string option \<Rightarrow> string option \<Rightarrow> approval_kind \<Rightarrow> string \<Rightarrow> string
   \<Rightarrow> int option \<Rightarrow> ledger \<Rightarrow> ledger" where
  "create_approval i req item turn kind summary cmd msg l =
     (if \<exists>a \<in> set (l_approvals l). a_task_id a = i \<and> a_codex_request_id a = req then l
      else l\<lparr>l_approvals := l_approvals l @
               [\<lparr>a_id = l_next_approval l, a_task_id = i, a_codex_request_id = req,
                 a_codex_item_id = item, a_codex_turn_id = turn, a_kind = kind,
                 a_summary = summary, a_command_json = cmd, a_status = AP_PENDING,
                 a_telegram_message_id = msg, a_resolution = None, a_created_at = db_now l,
                 a_resolved_at = None\<rparr>],
             l_next_approval := l_next_approval l + 1\<rparr>)"

definition get_approval :: "ledger \<Rightarrow> row_id \<Rightarrow> exn + approval_request" where
  "get_approval l i =
     (case find (\<lambda>a. a_id a = i) (l_approvals l) of
        None \<Rightarrow> Inl (KeyError (''unknown approval id: '' @ nat_str i))
      | Some a \<Rightarrow> Inr a)"

definition resolve_approval :: "row_id \<Rightarrow> approval_status \<Rightarrow> string \<Rightarrow> ledger \<Rightarrow> ledger" where
  "resolve_approval i st resolution l =
     l\<lparr>l_approvals := upd_rows (\<lambda>a. a_id a = i \<and> a_status a = AP_PENDING)
         (\<lambda>a. a\<lparr>a_status := st, a_resolution := Some resolution, a_resolved_at := Some (db_now l)\<rparr>)
         (l_approvals l)\<rparr>"

definition set_approval_error :: "row_id \<Rightarrow> string \<Rightarrow> ledger \<Rightarrow> ledger" where
  "set_approval_error i error l =
     l\<lparr>l_approvals := upd_rows (\<lambda>a. a_id a = i)
         (\<lambda>a. a\<lparr>a_resolution := Some (''error: '' @ take 240 error), a_resolved_at := Some (db_now l)\<rparr>)
         (l_approvals l)\<rparr>"

definition pending_approvals :: "ledger \<Rightarrow> row_id \<Rightarrow> approval_request list" where
  "pending_approvals l i =
     filter (\<lambda>a. a_task_id a = i \<and> a_status a = AP_PENDING) (l_approvals l)"

definition record_touched_file :: "row_id \<Rightarrow> string \<Rightarrow> string \<Rightarrow> ledger \<Rightarrow> ledger" where
  "record_touched_file i path kind l =
     (if \<exists>f \<in> set (l_touched l). f_task_id f = i \<and> f_path f = path \<and> f_change_kind f = kind then l
      else l\<lparr>l_touched := l_touched l @
               [\<lparr>f_id = l_next_touched l, f_task_id = i, f_path = path, f_change_kind = kind,
                 f_created_at = db_now l\<rparr>],
             l_next_touched := l_next_touched l + 1\<rparr>)"

definition list_touched_files :: "ledger \<Rightarrow> row_id \<Rightarrow> touched_file list" where
  "list_touched_files l i = filter (\<lambda>f. f_task_id f = i) (l_touched l)"

section \<open>Liveness and recovery\<close>

definition mark_task_timeout :: "row_id \<Rightarrow> task_status \<Rightarrow> int \<Rightarrow> int \<Rightarrow> ledger \<Rightarrow> ledger" where
  "mark_task_timeout i st age threshold l =
     (let error = ''task timed out in '' @ task_status_value st @ '' after '' @ int_str age @
                  ''s (limit '' @ int_str threshold @ ''s)'';
          l1 = set_task_status i FAILED ''timeout'' [] (take 240 error) l;
          l2 = insert_event i ''task_timeout''
                 [(''status'', JStr (task_status_value st)), (''age_seconds'', JInt age),
                  (''threshold_seconds'', JInt threshold)] l1
      in clear_active_turn i l2)"

definition mark_backend_dead :: "row_id \<Rightarrow> string \<Rightarrow> ledger \<Rightarrow> ledger" where
  "mark_backend_dead i summary l =
     (let error = ''backend dead: '' @ summary;
          l1 = set_task_status i FAILED ''backend_dead'' [] (take 240 error) l;
          l2 = insert_event i ''backend_dead'' [(''summary'', JStr (take 500 summary))] l1
      in clear_active_turn i l2)"

text \<open>
  Start-up recovery: every running, queued or waiting-approval task becomes paused, and each
  gets a \<open>recovery_paused\<close> event with its previous status.
\<close>

definition recovery_candidates :: "ledger \<Rightarrow> task list" where
  "recovery_candidates l =
     filter (\<lambda>t. t_status t \<in> set [RUNNING, QUEUED, WAITING_APPROVAL]) (l_tasks l)"

definition mark_active_tasks_recovery_paused :: "ledger \<Rightarrow> row_id list \<times> ledger" where
  "mark_active_tasks_recovery_paused l =
     (let rows = recovery_candidates l; ids = map t_id rows in
      if ids = [] then ([], l)
      else let l1 = l\<lparr>l_tasks := upd_rows (\<lambda>t. t_id t \<in> set ids)
                        (\<lambda>t. t\<lparr>t_status := PAUSED, t_updated_at := db_now l\<rparr>) (l_tasks l)\<rparr>
           in (ids, fold (\<lambda>t. insert_event (t_id t) ''recovery_paused''
                    [(''previous_status'', JStr (task_status_value (t_status t)))]) rows l1))"

definition mark_hanging_conversation_runs_recovery :: "ledger \<Rightarrow> (nat \<times> nat) \<times> ledger" where
  "mark_hanging_conversation_runs_recovery l =
     (let orch = filter (\<lambda>q. o_status q = ''running'') (l_orchestrations l);
          agents = filter (\<lambda>r. r_status r = ''running'') (l_agent_runs l)
      in ((length orch, length agents),
          l\<lparr>l_orchestrations := upd_rows (\<lambda>q. o_id q \<in> set (map o_id orch))
              (\<lambda>q. q\<lparr>o_status := ''failed'', o_updated_at := db_now l\<rparr>) (l_orchestrations l),
            l_agent_runs := upd_rows (\<lambda>r. r_id r \<in> set (map r_id agents))
              (\<lambda>r. r\<lparr>r_status := ''failed'', r_updated_at := db_now l\<rparr>) (l_agent_runs l)\<rparr>))"

section \<open>What an operation leaves alone\<close>

lemmas task_update_defs =
  set_task_status_def set_active_turn_def clear_active_turn_def set_status_message_def
  increment_changed_files_def increment_pending_approvals_def decrement_pending_approvals_def
  set_token_usage_def set_worktree_info_def set_force_parallel_def

lemma upd_task_fields [simp]:
  "db_now (upd_task i f l) = db_now l" "db_window (upd_task i f l) = db_window l"
  "l_next_task (upd_task i f l) = l_next_task l" "l_events (upd_task i f l) = l_events l"
  "l_next_event (upd_task i f l) = l_next_event l" "l_approvals (upd_task i f l) = l_approvals l"
  "l_next_approval (upd_task i f l) = l_next_approval l" "l_touched (upd_task i f l) = l_touched l"
  "l_bindings (upd_task i f l) = l_bindings l" "l_conversations (upd_task i f l) = l_conversations l"
  "l_orchestrations (upd_task i f l) = l_orchestrations l" "l_usage (upd_task i f l) = l_usage l"
  "l_next_usage (upd_task i f l) = l_next_usage l" "l_logs (upd_task i f l) = l_logs l"
  by (simp_all add: upd_task_def)

lemma insert_event_fields [simp]:
  "db_now (insert_event i ty p l) = db_now l" "db_window (insert_event i ty p l) = db_window l"
  "l_tasks (insert_event i ty p l) = l_tasks l" "l_next_task (insert_event i ty p l) = l_next_task l"
  "l_next_event (insert_event i ty p l) = Suc (l_next_event l)"
  "l_approvals (insert_event i ty p l) = l_approvals l"
  "l_next_approval (insert_event i ty p l) = l_next_approval l"
  "l_touched (insert_event i ty p l) = l_touched l" "l_bindings (insert_event i ty p l) = l_bindings l"
  "l_conversations (insert_event i ty p l) = l_conversations l"
  "l_orchestrations (insert_event i ty p l) = l_orchestrations l"
  by (simp_all add: insert_event_def)

lemma bind_thread_fields [simp]:
  "db_now (bind_thread i th l) = db_now l" "db_window (bind_thread i th l) = db_window l"
  "l_tasks (bind_thread i th l) = l_tasks l" "l_next_task (bind_thread i th l) = l_next_task l"
  "l_events (bind_thread i th l) = l_events l" "l_next_event (bind_thread i th l) = l_next_event l"
  "l_approvals (bind_thread i th l) = l_approvals l"
  "l_next_approval (bind_thread i th l) = l_next_approval l"
  "l_touched (bind_thread i th l) = l_touched l"
  "l_conversations (bind_thread i th l) = l_conversations l"
  "l_orchestrations (bind_thread i th l) = l_orchestrations l"
  by (simp_all add: bind_thread_def)

lemma create_approval_fields [simp]:
  "db_now (create_approval i rq it tu k su cm ms l) = db_now l"
  "l_tasks (create_approval i rq it tu k su cm ms l) = l_tasks l"
  "l_next_task (create_approval i rq it tu k su cm ms l) = l_next_task l"
  "l_events (create_approval i rq it tu k su cm ms l) = l_events l"
  "l_next_event (create_approval i rq it tu k su cm ms l) = l_next_event l"
  "l_touched (create_approval i rq it tu k su cm ms l) = l_touched l"
  "l_bindings (create_approval i rq it tu k su cm ms l) = l_bindings l"
  "l_conversations (create_approval i rq it tu k su cm ms l) = l_conversations l"
  "l_orchestrations (create_approval i rq it tu k su cm ms l) = l_orchestrations l"
  by (simp_all add: create_approval_def)

lemma record_touched_file_fields [simp]:
  "l_tasks (record_touched_file i p k l) = l_tasks l"
  "l_next_task (record_touched_file i p k l) = l_next_task l"
  "l_events (record_touched_file i p k l) = l_events l"
  "l_next_event (record_touched_file i p k l) = l_next_event l"
  "l_approvals (record_touched_file i p k l) = l_approvals l"
  "l_next_approval (record_touched_file i p k l) = l_next_approval l"
  "l_bindings (record_touched_file i p k l) = l_bindings l"
  "l_conversations (record_touched_file i p k l) = l_conversations l"
  "l_orchestrations (record_touched_file i p k l) = l_orchestrations l"
  by (simp_all add: record_touched_file_def)

lemma create_task_fields:
  assumes "create_task alias path title thread parent chat st l = (t, l')"
  shows "t = new_task (l_next_task l) (db_now l) alias path title thread parent chat st"
    "l_tasks l' = l_tasks l @ [t]" "l_next_task l' = Suc (l_next_task l)"
    "l_events l' = l_events l" "l_next_event l' = l_next_event l"
    "l_approvals l' = l_approvals l" "l_next_approval l' = l_next_approval l"
    "l_touched l' = l_touched l" "db_now l' = db_now l" "db_window l' = db_window l"
  using assms by (auto simp: create_task_def Let_def split: option.splits if_splits)

lemma pending_approvals_upd_task [simp]: "pending_approvals (upd_task i f l) j = pending_approvals l j"
  by (simp add: pending_approvals_def)

section \<open>Lookup after update\<close>

lemma find_task_upd_task [simp]:
  assumes "\<And>t. t_id (f t) = t_id t"
  shows "find_task (upd_task i f l) j =
    (if j = i then map_option (\<lambda>t. f t\<lparr>t_updated_at := db_now l\<rparr>) (find_task l i) else find_task l j)"
proof -
  have "find_task (upd_task i f l) j =
      map_option (\<lambda>t. if t_id t = i then f t\<lparr>t_updated_at := db_now l\<rparr> else t) (find_task l j)"
    unfolding find_task_def upd_task_def by (simp add: find_upd_rows [where key = t_id] assms)
  also have "\<dots> = (if j = i then map_option (\<lambda>t. f t\<lparr>t_updated_at := db_now l\<rparr>) (find_task l i)
      else find_task l j)"
    by (cases "find_task l j") (auto simp: find_task_def dest: find_SomeD)
  finally show ?thesis .
qed

lemma find_task_insert_event [simp]: "find_task (insert_event i ty p l) j = find_task l j"
  by (simp add: find_task_def)

lemma find_task_bind_thread [simp]: "find_task (bind_thread i th l) j = find_task l j"
  by (simp add: find_task_def)

lemma find_task_create_approval [simp]:
  "find_task (create_approval i rq it tu k su cm ms l) j = find_task l j"
  by (simp add: find_task_def)

lemma find_task_record_touched_file [simp]: "find_task (record_touched_file i p k l) j = find_task l j"
  by (simp add: find_task_def)

lemma find_task_id: "find_task l i = Some t \<Longrightarrow> t_id t = i"
  by (auto simp: find_task_def dest: find_SomeD)

lemma find_task_mem: "find_task l i = Some t \<Longrightarrow> t \<in> set (l_tasks l)"
  by (auto simp: find_task_def dest: find_SomeD)

lemma get_task_Inr: "get_task l i = Inr t \<longleftrightarrow> find_task l i = Some t"
  by (auto simp: get_task_def split: option.splits)

lemma get_task_Some: "find_task l i = Some t \<Longrightarrow> get_task l i = Inr t"
  by (simp add: get_task_def)

section \<open>The ledger invariant\<close>

text \<open>
  Keys are unique and below the next key, events and approvals stand in key order, and the unique
  indexes hold: one approval per task and request, one touched file per task, path and kind, one
  binding per thread.
\<close>

definition ledger_wf :: "ledger \<Rightarrow> bool" where
  "ledger_wf l \<longleftrightarrow>
     ids_ok t_id (l_tasks l) (l_next_task l) \<and>
     ids_ok e_id (l_events l) (l_next_event l) \<and>
     ids_ok a_id (l_approvals l) (l_next_approval l) \<and>
     distinct (map (\<lambda>a. (a_task_id a, a_codex_request_id a)) (l_approvals l)) \<and>
     distinct (map (\<lambda>f. (f_task_id f, f_path f, f_change_kind f)) (l_touched l)) \<and>
     distinct (map snd (l_bindings l))"

definition event_row :: "row_id \<times> string \<times> dict \<Rightarrow> ledger \<Rightarrow> task_event" where
  "event_row x l = (case x of (i, ty, p) \<Rightarrow>
     \<lparr>e_id = l_next_event l, e_task_id = i, e_event_type = ty, e_payload = p, e_created_at = db_now l\<rparr>)"

interpretation ev: auto_table l_events e_id l_next_event
  "\<lambda>x l. case x of (i, ty, p) \<Rightarrow> insert_event i ty p l" event_row
  by unfold_locales (auto simp: insert_event_def event_row_def split: prod.splits)

interpretation tk: auto_table l_tasks t_id l_next_task
  "\<lambda>x l. case x of (al, pa, ti, th, pr, ch, st) \<Rightarrow> snd (create_task al pa ti th pr ch st l)"
  "\<lambda>x l. case x of (al, pa, ti, th, pr, ch, st) \<Rightarrow> new_task (l_next_task l) (db_now l) al pa ti th pr ch st"
  by unfold_locales
     (auto simp: create_task_def new_task_def Let_def split: prod.splits option.splits)

lemma wf_ids [dest]: "ledger_wf l \<Longrightarrow> ids_ok t_id (l_tasks l) (l_next_task l)"
  by (simp add: ledger_wf_def)

lemma wf_distinct_tasks: "ledger_wf l \<Longrightarrow> distinct (map t_id (l_tasks l))"
  by (blast intro: ids_ok_distinct)

lemma wf_find_task: "ledger_wf l \<Longrightarrow> t \<in> set (l_tasks l) \<Longrightarrow> find_task l (t_id t) = Some t"
  by (simp add: find_task_def find_key_distinct [OF wf_distinct_tasks])

lemma wf_upd_task: "(\<And>t. t_id (f t) = t_id t) \<Longrightarrow> ledger_wf l \<Longrightarrow> ledger_wf (upd_task i f l)"
  by (simp add: ledger_wf_def) (simp add: upd_task_def ids_ok_upd)

lemma wf_insert_event: "ledger_wf l \<Longrightarrow> ledger_wf (insert_event i ty p l)"
  using ev.ok_ins [of l "(i, ty, p)"] by (simp add: ledger_wf_def)

lemma wf_bind_thread: "ledger_wf l \<Longrightarrow> ledger_wf (bind_thread i th l)"
  by (auto simp: ledger_wf_def bind_thread_def image_iff)

lemma wf_create_task:
  assumes "ledger_wf l"
  shows "ledger_wf (snd (create_task al pa ti th pr ch st l))"
proof -
  let ?l1 = "l\<lparr>l_tasks := l_tasks l @ [new_task (l_next_task l) (db_now l) al pa ti th pr ch st],
                l_next_task := Suc (l_next_task l)\<rparr>"
  have "ledger_wf ?l1"
    using assms by (simp add: ledger_wf_def ids_ok_snoc new_task_def)
  then show ?thesis
    by (cases th) (auto simp: create_task_def Let_def intro: wf_bind_thread)
qed

lemma wf_create_approval: "ledger_wf l \<Longrightarrow> ledger_wf (create_approval i rq it tu k su cm ms l)"
  by (auto simp: ledger_wf_def create_approval_def ids_ok_snoc)

lemma wf_resolve_approval: "ledger_wf l \<Longrightarrow> ledger_wf (resolve_approval i st r l)"
  by (simp add: ledger_wf_def resolve_approval_def ids_ok_upd map_upd_rows)

lemma wf_set_approval_error: "ledger_wf l \<Longrightarrow> ledger_wf (set_approval_error i e l)"
  by (simp add: ledger_wf_def set_approval_error_def ids_ok_upd map_upd_rows)

lemma wf_record_touched_file: "ledger_wf l \<Longrightarrow> ledger_wf (record_touched_file i p k l)"
  by (auto simp: ledger_wf_def record_touched_file_def)

lemma wf_set_thread_id: "ledger_wf l \<Longrightarrow> ledger_wf (set_thread_id i th l)"
  by (simp add: set_thread_id_def wf_bind_thread wf_upd_task)

lemma wf_task_updates:
  assumes "ledger_wf l"
  shows "ledger_wf (set_task_status i st ph su er l)" "ledger_wf (set_active_turn i tu l)"
    "ledger_wf (clear_active_turn i l)" "ledger_wf (increment_changed_files i d l)"
    "ledger_wf (increment_pending_approvals i d l)" "ledger_wf (decrement_pending_approvals i l)"
    "ledger_wf (set_token_usage i ti to l)" "ledger_wf (set_worktree_info i wp wb l)"
    "ledger_wf (set_force_parallel i l)" "ledger_wf (set_status_message i ch ms l)"
  using assms by (simp_all add: task_update_defs wf_upd_task)

lemma wf_liveness:
  assumes "ledger_wf l"
  shows "ledger_wf (mark_task_timeout i st age th l)" "ledger_wf (mark_backend_dead i su l)"
  using assms
  by (simp_all add: mark_task_timeout_def mark_backend_dead_def Let_def wf_task_updates wf_insert_event)

lemmas wf_intros =
  wf_task_updates wf_insert_event wf_create_task wf_create_approval wf_resolve_approval
  wf_set_approval_error wf_record_touched_file wf_set_thread_id wf_liveness

end
