(* ===== verification/Task_Service.thy ===== *)
theory Task_Service
  imports Ledger "HOL-Library.AList"
begin

text \<open>
  \<^verbatim>\<open>wlcodex/task_service.py\<close> and \<^verbatim>\<open>wlcodex/locks.py\<close>: the task state machine, the workspace write
  lock, the waiting queue, worktree isolation and the ingestion of backend events. Each method of
  \<open>TaskService\<close> is one action over the ledger; \<open>apply_backend_event\<close> is split into one action per
  event type. Git and the Codex backend are parameters: what a process run or a call returned.
\<close>

section \<open>Configuration and surroundings\<close>

record workspace_config =
  ws_alias :: string
  ws_path :: string
  ws_allow_write :: bool

record service =
  sv_workspaces :: "workspace_config list"
  sv_task_log_dir :: bool
  sv_worktree_root :: string
  sv_cwd :: string

text \<open>What \<open>subprocess.run\<close> did: it finished, or it raised (timeout, missing binary).\<close>

datatype proc = Ran (returncode: int) (stdout: string) (stderr: string) | RunRaised string

record git =
  g_rev_parse :: "string \<Rightarrow> proc"
  g_status_z :: "string \<Rightarrow> proc"
  g_status :: "string \<Rightarrow> proc"
  g_worktree_add :: "string \<Rightarrow> string \<Rightarrow> string \<Rightarrow> proc"
  g_worktree_remove :: "string \<Rightarrow> string \<Rightarrow> proc"
  g_branch_list :: "string \<Rightarrow> string \<Rightarrow> proc"
  g_branch_delete :: "string \<Rightarrow> string \<Rightarrow> proc"
  g_merge :: "string \<Rightarrow> string \<Rightarrow> proc"
  g_merge_abort :: "string \<Rightarrow> proc"

type_synonym 'a task_act = "(ledger, exn, 'a) act"

section \<open>The status machine and the write lock\<close>

fun valid_transitions :: "task_status \<Rightarrow> task_status list" where
  "valid_transitions QUEUED = [RUNNING, WAITING_APPROVAL, FAILED, ABORTED]"
| "valid_transitions RUNNING = [WAITING_APPROVAL, DONE, FAILED, PAUSED, ABORTED]"
| "valid_transitions WAITING_APPROVAL = [RUNNING, DONE, FAILED, PAUSED, ABORTED]"
| "valid_transitions DONE = [QUEUED, ARCHIVED]"
| "valid_transitions FAILED = [QUEUED, ARCHIVED]"
| "valid_transitions PAUSED = [QUEUED, DONE, ABORTED, ARCHIVED]"
| "valid_transitions ABORTED = [QUEUED, ARCHIVED]"
| "valid_transitions WAITING_SLOT = [QUEUED, FAILED, ABORTED, ARCHIVED]"
| "valid_transitions ARCHIVED = []"

definition active_write_statuses :: "task_status list" where
  "active_write_statuses = [QUEUED, RUNNING, WAITING_APPROVAL, PAUSED]"

fun active_write_task :: "task list \<Rightarrow> string \<Rightarrow> row_id option \<Rightarrow> task option" where
  "active_write_task [] alias exclude = None"
| "active_write_task (t # ts) alias exclude =
     (if exclude \<noteq> None \<and> t_id t = the exclude then active_write_task ts alias exclude
      else if t_workspace_alias t \<noteq> alias then active_write_task ts alias exclude
      else if t_status t \<notin> set active_write_statuses then active_write_task ts alias exclude
      else if t_worktree_path t \<noteq> [] then active_write_task ts alias exclude
      else Some t)"

definition transition :: "row_id \<Rightarrow> task_status \<Rightarrow> unit task_act" where
  "transition i new =
     bindA (liftA (\<lambda>l. get_task l i)) (\<lambda>t.
     thenA (guardA (new \<in> set (valid_transitions (t_status t)) \<or> t_status t = new)
                   (InvalidTransition i (t_status t) new))
     (modA (set_task_status i new [] [] [])))"

definition task_event_add :: "row_id \<Rightarrow> string \<Rightarrow> dict \<Rightarrow> unit task_act" where
  "task_event_add i ty payload = modA (insert_event i ty payload)"

lemma run_transition [run_simps]:
  "transition i new l =
     (case find_task l i of
        None \<Rightarrow> (Inl (KeyError (''unknown task id: '' @ nat_str i)), l)
      | Some t \<Rightarrow> if new \<in> set (valid_transitions (t_status t)) \<or> t_status t = new
                  then (Inr (), set_task_status i new [] [] [] l)
                  else (Inl (InvalidTransition i (t_status t) new), l))"
  "thenA (transition i new) k l =
     (case find_task l i of
        None \<Rightarrow> (Inl (KeyError (''unknown task id: '' @ nat_str i)), l)
      | Some t \<Rightarrow> if new \<in> set (valid_transitions (t_status t)) \<or> t_status t = new
                  then k (set_task_status i new [] [] [] l)
                  else (Inl (InvalidTransition i (t_status t) new), l))"
  by (simp_all add: transition_def get_task_def thenA_def bindA_def liftA_def guardA_def retA_def
      raiseA_def modA_def split: option.splits)

lemma run_event [run_simps]:
  "task_event_add i ty p l = (Inr (), insert_event i ty p l)"
  "thenA (task_event_add i ty p) k l = k (insert_event i ty p l)"
  by (simp_all add: task_event_add_def run_simps)

section \<open>Workspaces\<close>

text \<open>\<open>{w.alias: w for w in workspaces}\<close>: a later entry replaces an earlier one.\<close>

definition get_workspace :: "service \<Rightarrow> string \<Rightarrow> exn + workspace_config" where
  "get_workspace sv alias =
     (case find (\<lambda>w. ws_alias w = alias) (rev (sv_workspaces sv)) of
        None \<Rightarrow> Inl (KeyError (''unknown workspace alias: '' @ alias))
      | Some w \<Rightarrow> Inr w)"

definition ensure_workspace_writable :: "service \<Rightarrow> string \<Rightarrow> exn + workspace_config" where
  "ensure_workspace_writable sv alias =
     (case get_workspace sv alias of
        Inl e \<Rightarrow> Inl e
      | Inr w \<Rightarrow> if ws_allow_write w then Inr w else Inl (PermissionError alias))"

definition ensure_workspace_available :: "string \<Rightarrow> row_id option \<Rightarrow> unit task_act" where
  "ensure_workspace_available alias exclude =
     liftA (\<lambda>l. case active_write_task (list_tasks 100 False l) alias exclude of
        None \<Rightarrow> Inr ()
      | Some t \<Rightarrow> Inl (WorkspaceBusy alias (t_id t)))"

definition assert_submission_allowed :: "unit task_act" where
  "assert_submission_allowed = liftA assert_submissions_open"

definition task_title :: "string \<Rightarrow> string" where
  "task_title prompt = take 80 (py_join '' '' (split_ws prompt))"

section \<open>The workspace baseline\<close>

text \<open>
  \<open>git status --porcelain=v1 -z\<close>: entries of at least four characters, a rename or copy entry
  is followed by its source path.
\<close>

definition is_rename :: "string \<Rightarrow> bool" where
  "is_rename raw \<longleftrightarrow> raw ! 0 \<in> {CHR ''R'', CHR ''C''} \<or> raw ! 1 \<in> {CHR ''R'', CHR ''C''}"

fun parse_entries :: "string list \<Rightarrow> (string \<times> string) list" where
  "parse_entries [] = []"
| "parse_entries (e # es) =
     (if length e < 4 then parse_entries es
      else let raw = take 2 e; st = strip raw
           in (drop 3 e, if st = [] then raw else st) #
              (if is_rename raw then parse_entries (tl es) else parse_entries es))"

definition parse_porcelain_status_z :: "string \<Rightarrow> (string \<times> string) list" where
  "parse_porcelain_status_z out =
     parse_entries (filter (\<lambda>e. e \<noteq> []) (split_on (char_of (0::nat)) out))"

definition dirty_files_json :: "(string \<times> string) list \<Rightarrow> json" where
  "dirty_files_json ds =
     JList (map (\<lambda>(p, s). JDict [(''path'', JStr p), (''status'', JStr s)]) ds)"

definition baseline_payload :: "string \<Rightarrow> json \<Rightarrow> string option \<Rightarrow> dict" where
  "baseline_payload head dirty err =
     [(''baseline_version'', JInt 1), (''head_commit'', JStr head), (''dirty_files'', dirty)] @
     (case err of None \<Rightarrow> [] | Some e \<Rightarrow> [(''capture_error'', JStr e)])"

definition capture_workspace_baseline :: "git \<Rightarrow> string \<Rightarrow> dict" where
  "capture_workspace_baseline g path =
     (case g_rev_parse g path of
        RunRaised e \<Rightarrow> baseline_payload [] (JList []) (Some e)
      | Ran rc out _ \<Rightarrow>
          let head = (if rc = 0 then strip out else []) in
          (case g_status_z g path of
             RunRaised e \<Rightarrow> baseline_payload head (JList []) (Some e)
           | Ran rc2 out2 err2 \<Rightarrow>
               if rc2 \<noteq> 0
               then baseline_payload head (JList [])
                      (Some (if strip err2 = [] then ''git status failed'' else strip err2))
               else baseline_payload head (dirty_files_json (parse_porcelain_status_z out2)) None))"

definition record_workspace_baseline :: "git \<Rightarrow> row_id \<Rightarrow> workspace_config \<Rightarrow> string \<Rightarrow> unit task_act" where
  "record_workspace_baseline g i w phase =
     task_event_add i ''task_workspace_baseline''
       (dset ''workspace_path'' (JStr (ws_path w))
         (dset ''workspace_alias'' (JStr (ws_alias w))
           (dset ''phase'' (JStr phase) (capture_workspace_baseline g (ws_path w)))))"

section \<open>The waiting queue\<close>

definition reserve_waiting_task ::
  "service \<Rightarrow> string \<Rightarrow> string \<Rightarrow> int option \<Rightarrow> row_id option \<Rightarrow> row_id option \<Rightarrow> task task_act" where
  "reserve_waiting_task sv alias prompt chat parent blocker =
     thenA assert_submission_allowed
     (bindA (liftA (\<lambda>_. ensure_workspace_writable sv alias)) (\<lambda>w.
      bindA (stepA (create_task (ws_alias w) (ws_path w) (task_title prompt) None parent chat WAITING_SLOT))
        (\<lambda>t.
      thenA (task_event_add (t_id t) ''task_waiting_slot_created''
               ((''prompt'', JStr prompt) #
                (case blocker of None \<Rightarrow> [] | Some b \<Rightarrow> [(''blocker_task_id'', JInt (int b))])))
      (retA t))))"

definition stored_prompt_of :: "task_event \<Rightarrow> string option" where
  "stored_prompt_of e =
     (if e_event_type e \<in> {''task_waiting_slot_created'', ''task_reserved''}
      then (case dget0 (e_payload e) ''prompt'' of
              JStr s \<Rightarrow> if s = [] then None else Some s
            | _ \<Rightarrow> None)
      else None)"

definition get_stored_prompt :: "row_id \<Rightarrow> ledger \<Rightarrow> exn + string" where
  "get_stored_prompt i l =
     (case List.map_filter stored_prompt_of (list_events 200 l i) of
        [] \<Rightarrow> Inl (RuntimeError (MissingStoredPrompt i))
      | p # _ \<Rightarrow> Inr p)"

definition require_waiting_slot :: "row_id \<Rightarrow> task \<Rightarrow> unit task_act" where
  "require_waiting_slot i t = guardA (t_status t = WAITING_SLOT) (NotWaitingSlot i (t_status t))"

definition promote_waiting_task :: "service \<Rightarrow> git \<Rightarrow> row_id \<Rightarrow> (task \<times> string) task_act" where
  "promote_waiting_task sv g i =
     thenA assert_submission_allowed
     (bindA (liftA (\<lambda>l. get_task l i)) (\<lambda>t.
      thenA (require_waiting_slot i t)
      (bindA (liftA (get_stored_prompt i)) (\<lambda>prompt.
      thenA (transition i QUEUED)
      (thenA (task_event_add i ''task_promoted_from_waiting'' [])
      (bindA (liftA (\<lambda>_. get_workspace sv (t_workspace_alias t))) (\<lambda>w.
      thenA (record_workspace_baseline g i w ''task_promoted_from_waiting'')
      (bindA (liftA (\<lambda>l. get_task l i)) (\<lambda>t'. retA (t', prompt))))))))))"

definition list_worktree_tasks :: "ledger \<Rightarrow> string \<Rightarrow> task list" where
  "list_worktree_tasks l alias =
     filter (\<lambda>t. t_workspace_alias t = alias \<and> t_worktree_path t \<noteq> [] \<and>
                 t_status t \<in> set active_write_statuses) (list_tasks 100 False l)"

fun position_of :: "row_id \<Rightarrow> nat \<Rightarrow> task list \<Rightarrow> nat" where
  "position_of i n [] = 0"
| "position_of i n (t # ts) = (if t_id t = i then n else position_of i (n + 1) ts)"

definition waiting_position :: "ledger \<Rightarrow> row_id \<Rightarrow> exn + nat" where
  "waiting_position l i =
     (case get_task l i of
        Inl e \<Rightarrow> Inl e
      | Inr t \<Rightarrow>
          if t_status t \<noteq> WAITING_SLOT then Inr 0
          else Inr (position_of i 1 (list_waiting_tasks l (t_workspace_alias t))))"

definition blocker_for_workspace :: "ledger \<Rightarrow> string \<Rightarrow> task option" where
  "blocker_for_workspace l alias = active_write_task (list_tasks 100 False l) alias None"

definition force_parallel_start :: "service \<Rightarrow> git \<Rightarrow> row_id \<Rightarrow> (task \<times> string) task_act" where
  "force_parallel_start sv g i =
     thenA assert_submission_allowed
     (bindA (liftA (\<lambda>l. get_task l i)) (\<lambda>t.
      thenA (require_waiting_slot i t)
      (bindA (liftA (get_stored_prompt i)) (\<lambda>prompt.
      thenA (transition i QUEUED)
      (thenA (modA (set_force_parallel i))
      (thenA (task_event_add i ''force_parallel_started''
               [(''workspace_alias'', JStr (t_workspace_alias t)),
                (''workspace_path'', JStr (t_workspace_path t))])
      (bindA (liftA (\<lambda>_. get_workspace sv (t_workspace_alias t))) (\<lambda>w.
      thenA (record_workspace_baseline g i w ''force_parallel_started'')
      (bindA (liftA (\<lambda>l. get_task l i)) (\<lambda>t'. retA (t', prompt)))))))))))"

section \<open>Worktree isolation\<close>

definition clean_branch :: "string \<Rightarrow> string" where
  "clean_branch b = take 80 (filter (\<lambda>c. py_isalnum c \<or> c \<in> set ''/-_.'') b)"

definition worktree_branch_name :: "row_id \<Rightarrow> string \<Rightarrow> string" where
  "worktree_branch_name i slug =
     (if slug = [] then ''wlcodex/task-'' @ nat_str i
      else ''wlcodex/task-'' @ nat_str i @ ''-'' @ slug)"

definition worktree_location :: "service \<Rightarrow> string \<Rightarrow> row_id \<Rightarrow> string" where
  "worktree_location sv alias i =
     abspath (sv_cwd sv) (path_join (path_join (sv_worktree_root sv) alias) (''task-'' @ nat_str i))"

definition setup_worktree :: "service \<Rightarrow> git \<Rightarrow> row_id \<Rightarrow> string \<Rightarrow> (task \<times> string \<times> string) task_act" where
  "setup_worktree sv g i slug =
     bindA (liftA (\<lambda>l. get_task l i)) (\<lambda>t.
     thenA (require_waiting_slot i t)
     (bindA (liftA (\<lambda>_. get_workspace sv (t_workspace_alias t))) (\<lambda>w.
      let wt = worktree_location sv (t_workspace_alias t) i;
          ws = abspath (sv_cwd sv) (ws_path w);
          branch = clean_branch (worktree_branch_name i slug)
      in thenA (guardA (commonpath wt ws \<noteq> ws) (RuntimeError (WorktreeInsideWorkspace wt)))
         (case g_worktree_add g (ws_path w) branch wt of
            RunRaised e \<Rightarrow> raiseA (RuntimeError (BackendError e))
          | Ran rc out err \<Rightarrow>
              if rc \<noteq> 0 then raiseA (RuntimeError (WorktreeCreateFailed i))
              else thenA (modA (set_worktree_info i wt branch))
                   (thenA (task_event_add i ''worktree_created''
                            [(''worktree_path'', JStr wt), (''branch'', JStr branch),
                             (''original_path'', JStr (ws_path w))])
                   (bindA (liftA (\<lambda>l. get_task l i)) (\<lambda>t'. retA (t', wt, branch))))))))"

definition start_worktree_task :: "row_id \<Rightarrow> (task \<times> string \<times> string) task_act" where
  "start_worktree_task i =
     bindA (liftA (\<lambda>l. get_task l i)) (\<lambda>t.
     thenA (require_waiting_slot i t)
     (thenA (guardA (t_worktree_path t \<noteq> []) (RuntimeError (NoWorktreePath i)))
     (bindA (liftA (get_stored_prompt i)) (\<lambda>prompt.
      thenA (transition i QUEUED)
      (thenA (task_event_add i ''worktree_task_started''
               [(''worktree_path'', JStr (t_worktree_path t)), (''branch'', JStr (t_worktree_branch t))])
      (bindA (liftA (\<lambda>l. get_task l i)) (\<lambda>t'. retA (t', prompt, t_worktree_path t))))))))"

datatype merge_outcome = MergeConflict string string | Merged string

text \<open>A failed merge is aborted; the run of \<open>git merge --abort\<close> itself is not checked.\<close>

definition merge_worktree :: "service \<Rightarrow> git \<Rightarrow> row_id \<Rightarrow> merge_outcome task_act" where
  "merge_worktree sv g i =
     bindA (liftA (\<lambda>l. get_task l i)) (\<lambda>t.
     thenA (guardA (t_worktree_branch t \<noteq> []) (RuntimeError (NoWorktreeBranch i)))
     (thenA (guardA (t_worktree_path t \<noteq> []) (RuntimeError (NoWorktreePath i)))
     (bindA (liftA (\<lambda>_. get_workspace sv (t_workspace_alias t))) (\<lambda>w.
      case g_status g (ws_path w) of
        RunRaised e \<Rightarrow> raiseA (RuntimeError (BackendError e))
      | Ran _ out _ \<Rightarrow>
          thenA (guardA (strip out = []) (RuntimeError (WorkspaceDirty i)))
          (case g_branch_list g (ws_path w) (t_worktree_branch t) of
             RunRaised e \<Rightarrow> raiseA (RuntimeError (BackendError e))
           | Ran _ bout _ \<Rightarrow>
               thenA (guardA (strip bout \<noteq> []) (RuntimeError (BranchNotFound (t_worktree_branch t))))
               (case g_merge g (ws_path w) (t_worktree_branch t) of
                  RunRaised e \<Rightarrow> raiseA (RuntimeError (BackendError e))
                | Ran rc mout merr \<Rightarrow>
                    if rc \<noteq> 0 then
                      (case g_merge_abort g (ws_path w) of
                         RunRaised e \<Rightarrow> raiseA (RuntimeError (BackendError e))
                       | Ran _ _ _ \<Rightarrow>
                           thenA (task_event_add i ''worktree_merge_conflict''
                                    [(''stdout'', JStr (take 1000 mout)), (''stderr'', JStr (take 1000 merr))])
                           (retA (MergeConflict (take 500 mout) (take 500 merr))))
                    else thenA (task_event_add i ''worktree_merged''
                                  [(''branch'', JStr (t_worktree_branch t))])
                         (retA (Merged (take 500 mout)))))))))"

definition discard_worktree :: "service \<Rightarrow> git \<Rightarrow> row_id \<Rightarrow> string task_act" where
  "discard_worktree sv g i =
     bindA (liftA (\<lambda>l. get_task l i)) (\<lambda>t.
     thenA (guardA (t_worktree_path t \<noteq> []) (RuntimeError (NoWorktreePath i)))
     (bindA (liftA (\<lambda>_. get_workspace sv (t_workspace_alias t))) (\<lambda>w.
      case g_worktree_remove g (ws_path w) (t_worktree_path t) of
        RunRaised e \<Rightarrow> raiseA (RuntimeError (BackendError e))
      | Ran rc _ _ \<Rightarrow>
          (case (if t_worktree_branch t = [] then Ran 0 [] []
                 else g_branch_delete g (ws_path w) (t_worktree_branch t)) of
             RunRaised e \<Rightarrow> raiseA (RuntimeError (BackendError e))
           | Ran _ _ _ \<Rightarrow>
               thenA (guardA (rc = 0) (RuntimeError (WorktreeRemoveFailed i)))
               (thenA (task_event_add i ''worktree_discarded''
                        [(''worktree_path'', JStr (t_worktree_path t)), (''branch'', JStr (t_worktree_branch t))])
               (retA (t_worktree_path t)))))))"

end
