(* ===== verification/Task_Lifecycle.thy ===== *)
theory Task_Lifecycle
  imports Task_Service
begin

text \<open>
  The second half of \<^verbatim>\<open>wlcodex/task_service.py\<close>: reservation and the user operations on a task
  (continue, steer, pause, abort, archive, fail), the handler of every backend event type, the
  bounded task log, the usage ledger entry and the queue drain.
\<close>

section \<open>User operations\<close>

definition reserve_task ::
  "service \<Rightarrow> git \<Rightarrow> string \<Rightarrow> string \<Rightarrow> int option \<Rightarrow> row_id option \<Rightarrow> task task_act" where
  "reserve_task sv g alias prompt chat parent =
     thenA assert_submission_allowed
     (bindA (liftA (\<lambda>_. ensure_workspace_writable sv alias)) (\<lambda>w.
      thenA (ensure_workspace_available alias None)
      (bindA (stepA (create_task (ws_alias w) (ws_path w) (task_title prompt) None parent chat QUEUED))
        (\<lambda>t.
      thenA (task_event_add (t_id t) ''task_reserved''
               [(''prompt'', JStr prompt), (''context_policy'', JStr ''fresh_thread_by_default'')])
      (thenA (record_workspace_baseline g (t_id t) w ''task_reserved'')
      (retA t))))))"

definition set_task_thread :: "row_id \<Rightarrow> string \<Rightarrow> task task_act" where
  "set_task_thread i thread =
     thenA (modA (set_thread_id i thread))
     (thenA (task_event_add i ''thread_started'' [(''threadId'', JStr thread)])
     (liftA (\<lambda>l. get_task l i)))"

definition start_task ::
  "service \<Rightarrow> git \<Rightarrow> string \<Rightarrow> string \<Rightarrow> string option \<Rightarrow> int option \<Rightarrow> row_id option \<Rightarrow> task task_act" where
  "start_task sv g alias prompt thread chat parent =
     thenA assert_submission_allowed
     (bindA (liftA (\<lambda>_. get_workspace sv alias)) (\<lambda>w.
      thenA (ensure_workspace_available alias None)
      (bindA (stepA (create_task (ws_alias w) (ws_path w) (task_title prompt) thread parent chat QUEUED))
        (\<lambda>t.
      thenA (task_event_add (t_id t) ''task_created''
               [(''prompt'', JStr prompt), (''context_policy'', JStr ''fresh_thread_by_default'')])
      (thenA (record_workspace_baseline g (t_id t) w ''task_created'')
      (retA t))))))"

definition continue_task :: "service \<Rightarrow> row_id \<Rightarrow> string \<Rightarrow> string option \<Rightarrow> task task_act" where
  "continue_task sv i prompt new_thread =
     bindA (liftA (\<lambda>l. get_task l i)) (\<lambda>t.
     thenA (guardA (t_status t \<noteq> WAITING_SLOT) (RuntimeError (ContinueWaitingSlot i)))
     (thenA (guardA (t_status t \<noteq> ARCHIVED) (RuntimeError (ContinueArchived i)))
     (thenA (guardA (t_status t \<notin> {QUEUED, RUNNING, WAITING_APPROVAL})
                    (RuntimeError (ContinueActive i (t_status t))))
     (thenA (guardA (t_codex_thread_id t \<noteq> None \<or> new_thread \<noteq> None) (RuntimeError (ContinueNoThread i)))
     (thenA (liftA (\<lambda>_. ensure_workspace_writable sv (t_workspace_alias t)))
     (thenA (ensure_workspace_available (t_workspace_alias t) (Some i))
     (thenA (transition i QUEUED)
     (thenA (modA (clear_active_turn i))
     (thenA (task_event_add (t_id t) ''user_continue''
               [(''prompt'', JStr prompt), (''context_policy'', JStr ''explicit_resume_only'')])
     (liftA (\<lambda>l. get_task l i)))))))))))"

definition steer_task :: "service \<Rightarrow> row_id \<Rightarrow> string \<Rightarrow> task task_act" where
  "steer_task sv i prompt =
     bindA (liftA (\<lambda>l. get_task l i)) (\<lambda>t.
     thenA (guardA (t_status t \<noteq> WAITING_SLOT) (RuntimeError (SteerWaitingSlot i)))
     (thenA (guardA (t_active_turn_id t \<noteq> None) (RuntimeError (SteerNoActiveTurn i)))
     (thenA (guardA (t_status t \<in> {RUNNING, WAITING_APPROVAL}) (RuntimeError (SteerNotRunning i (t_status t))))
     (thenA (liftA (\<lambda>_. ensure_workspace_writable sv (t_workspace_alias t)))
     (thenA (task_event_add (t_id t) ''user_steer'' [(''prompt'', JStr prompt)])
     (retA t))))))"

definition pause_task :: "row_id \<Rightarrow> task task_act" where
  "pause_task i =
     bindA (liftA (\<lambda>l. get_task l i)) (\<lambda>t.
     thenA (guardA (t_status t \<in> {RUNNING, WAITING_APPROVAL, QUEUED}) (RuntimeError (CannotPause i (t_status t))))
     (thenA (transition i PAUSED)
     (thenA (task_event_add i ''user_paused'' [])
     (liftA (\<lambda>l. get_task l i)))))"

definition abort_task :: "row_id \<Rightarrow> task task_act" where
  "abort_task i =
     bindA (liftA (\<lambda>l. get_task l i)) (\<lambda>t.
     thenA (guardA (t_status t \<in> {RUNNING, WAITING_APPROVAL, QUEUED, PAUSED, WAITING_SLOT})
                   (RuntimeError (CannotAbort i (t_status t))))
     (thenA (modA (clear_active_turn i))
     (thenA (transition i ABORTED)
     (thenA (task_event_add i ''user_aborted'' [])
     (liftA (\<lambda>l. get_task l i))))))"

definition archive_task :: "row_id \<Rightarrow> task task_act" where
  "archive_task i =
     bindA (liftA (\<lambda>l. get_task l i)) (\<lambda>t.
     thenA (guardA (t_status t \<notin> {RUNNING, QUEUED, WAITING_APPROVAL}) (RuntimeError (CannotArchive i (t_status t))))
     (thenA (transition i ARCHIVED)
     (thenA (task_event_add i ''user_archived'' [])
     (liftA (\<lambda>l. get_task l i)))))"

definition fail_task :: "row_id \<Rightarrow> string \<Rightarrow> task task_act" where
  "fail_task i error =
     bindA (liftA (\<lambda>l. get_task l i)) (\<lambda>t.
     thenA (guardA (t_status t \<notin> {DONE, ARCHIVED}) (RuntimeError (CannotFail i (t_status t))))
     (thenA (transition i FAILED)
     (thenA (modA (set_task_status i FAILED [] [] (take 240 error)))
     (thenA (task_event_add i ''task_failed'' [(''error'', JStr error)])
     (liftA (\<lambda>l. get_task l i))))))"

section \<open>Reading backend payloads\<close>

definition turn_status :: "dict \<Rightarrow> string" where
  "turn_status p =
     (let top = (if py_truth (dget0 p ''status'') then py_str (dget0 p ''status'') else ''completed'')
      in case dget0 p ''turn'' of
           JDict turn \<Rightarrow> if py_truth (dget0 turn ''status'') then py_str (dget0 turn ''status'') else top
         | _ \<Rightarrow> top)"

definition turn_error_message :: "dict \<Rightarrow> string" where
  "turn_error_message p =
     (let error = (case dget0 p ''turn'' of
                     JDict turn \<Rightarrow> if dget0 turn ''error'' \<noteq> JNull then dget0 turn ''error'' else dget0 p ''error''
                   | _ \<Rightarrow> dget0 p ''error'')
      in case error of
           JDict err \<Rightarrow>
             let message = strip (py_str (dget err ''message'' (JStr [])));
                 details = strip (py_str (py_or (dget err ''additionalDetails'' (JStr [])) (JStr [])));
                 code = dget0 err ''codexErrorInfo''
             in py_join '' | '' (filter (\<lambda>s. s \<noteq> [])
                  [message, details, if py_truth code then py_str code else []])
         | _ \<Rightarrow> strip (py_str (py_or error (JStr []))))"

definition thread_status_type :: "dict \<Rightarrow> string" where
  "thread_status_type p =
     (case dget p ''status'' (dget p ''phase'' (JStr [])) of
        JDict st \<Rightarrow>
          let ty = py_str (dget st ''type'' (JStr [])) in
          (case dget0 st ''activeFlags'' of
             JList flags \<Rightarrow>
               if ty = ''active'' \<and> flags \<noteq> [] then ''active:'' @ py_join '','' (map py_str flags) else ty
           | _ \<Rightarrow> ty)
      | v \<Rightarrow> py_str v)"

definition compact_json :: "json \<Rightarrow> string" where
  "compact_json v = take 500 (json_dumps '','' '':'' v)"

definition item_event_payload :: "dict \<Rightarrow> dict" where
  "item_event_payload p =
     (case dget0 p ''item'' of
        JDict item \<Rightarrow>
          [(''type'', JStr (py_str (dget item ''type'' (JStr []))))] @
          concat (map (\<lambda>k. if dget0 item k \<noteq> JNull then [(k, JStr (py_str (dget0 item k)))] else [])
            [''status'', ''command'', ''tool'', ''path'']) @
          (case dget0 item ''changes'' of
             JList cs \<Rightarrow> [(''change_count'', JInt (int (length cs)))] | _ \<Rightarrow> []) @
          (if dget0 item ''error'' \<noteq> JNull then [(''error'', JStr (compact_json (dget0 item ''error'')))] else [])
      | _ \<Rightarrow> [(''type'', JStr (py_str (dget p ''type'' (JStr []))))])"

definition opt_str :: "string \<Rightarrow> string option" where
  "opt_str s = (if s = [] then None else Some s)"

definition payload_str :: "dict \<Rightarrow> string \<Rightarrow> string" where
  "payload_str p k = py_str (dget p k (JStr []))"

section \<open>The task log and the usage ledger\<close>

definition max_log_bytes :: nat where
  "max_log_bytes = 500 * 1024"

definition log_keep :: nat where
  "log_keep = 384000"

definition bound_log :: "string \<Rightarrow> string" where
  "bound_log file =
     (if utf8_length file \<le> max_log_bytes then file
      else let content = universal_newlines file;
               kept = drop (length content - log_keep) content
           in case find_char (char_of (10::nat)) kept of
                Some nl \<Rightarrow> if 0 < nl \<and> nl + 1 < length kept then drop (nl + 1) kept else kept
              | None \<Rightarrow> kept)"

definition log_of :: "ledger \<Rightarrow> row_id \<Rightarrow> string" where
  "log_of l i = (case map_of (l_logs l) i of None \<Rightarrow> [] | Some s \<Rightarrow> s)"

definition append_task_log :: "service \<Rightarrow> row_id \<Rightarrow> string \<Rightarrow> ledger \<Rightarrow> ledger" where
  "append_task_log sv i text l =
     (if text = [] \<or> \<not> sv_task_log_dir sv then l
      else let line = (if endswith text [char_of (10::nat)] then text else text @ [char_of (10::nat)])
           in l\<lparr>l_logs := AList.update i (bound_log (log_of l i @ line)) (l_logs l)\<rparr>)"

definition auto_stage_steps :: "string list" where
  "auto_stage_steps =
     [''route_select'', ''collecting_context'', ''draft_ready'', ''claude_running'', ''claude_done'',
      ''verifying'', ''retry_ready'', ''codex_takeover_running'', ''completed'']"

definition task_has_running_orchestration :: "ledger \<Rightarrow> row_id \<Rightarrow> bool" where
  "task_has_running_orchestration l i =
     (case [q. c \<leftarrow> l_conversations l, c_active_codex_task_id c = Some i,
               q \<leftarrow> l_orchestrations l, o_conversation_id q = c_id c, o_status q = ''running''] of
        [] \<Rightarrow> False
      | q # _ \<Rightarrow> o_current_step q \<notin> set auto_stage_steps)"

lemma orchestration_upd_task [simp]:
  "task_has_running_orchestration (upd_task i f l) j = task_has_running_orchestration l j"
  by (simp only: task_has_running_orchestration_def upd_task_fields)

record token_counts =
  k_input :: int
  k_cached :: int
  k_output :: int
  k_reasoning :: int
  k_total :: int
  k_source :: string

definition int_field :: "dict \<Rightarrow> string \<Rightarrow> int option" where
  "int_field d k = py_int (dget d k (JInt 0))"

text \<open>Flat counts of a payload without a \<open>last\<close> breakdown; all zero is no usable data.\<close>

definition flat_token_counts :: "dict \<Rightarrow> token_counts option" where
  "flat_token_counts p =
     (case (int_field p ''inputTokens'', int_field p ''outputTokens'') of
        (Some ti, Some to) \<Rightarrow>
          if ti = 0 \<and> to = 0 then None
          else Some \<lparr>k_input = ti, k_cached = 0, k_output = to, k_reasoning = 0,
                     k_total = ti + to, k_source = ''estimated''\<rparr>
      | _ \<Rightarrow> None)"

definition token_counts_of :: "dict \<Rightarrow> token_counts option" where
  "token_counts_of p =
     (case dget0 p ''tokenUsage'' of
        JDict tu \<Rightarrow>
          (case dget0 tu ''last'' of
             JDict la \<Rightarrow>
               (case (int_field la ''inputTokens'', int_field la ''cachedInputTokens'',
                      int_field la ''outputTokens'', int_field la ''reasoningOutputTokens'') of
                  (Some ti, Some ca, Some to, Some re) \<Rightarrow>
                    map_option (\<lambda>tt. \<lparr>k_input = ti, k_cached = ca, k_output = to, k_reasoning = re,
                                      k_total = tt, k_source = ''exact''\<rparr>)
                      (py_int (dget la ''totalTokens'' (JInt (ti + to))))
                | _ \<Rightarrow> None)
           | _ \<Rightarrow> flat_token_counts p)
      | _ \<Rightarrow> flat_token_counts p)"

definition record_usage_event :: "usage_event \<Rightarrow> ledger \<Rightarrow> ledger" where
  "record_usage_event u l =
     l\<lparr>l_usage := l_usage l @
         [u\<lparr>u_id := l_next_usage l, u_created_at := db_now l,
            u_total_tokens := (if u_total_tokens u > 0 then u_total_tokens u
                               else u_input_tokens u + u_output_tokens u)\<rparr>],
       l_next_usage := l_next_usage l + 1\<rparr>"

definition usage_model :: "dict \<Rightarrow> string" where
  "usage_model p =
     (case dget0 p ''tokenUsage'' of
        JDict tu \<Rightarrow> (let m = dget0 tu ''modelContextWindow'' in
                     if m \<noteq> JNull then ''context_window_'' @ py_str m else [])
      | _ \<Rightarrow> [])"

text \<open>The conversation, its latest orchestration run and the matching agent run of a task.\<close>

definition usage_links ::
  "ledger \<Rightarrow> row_id \<Rightarrow> row_id option \<times> row_id option \<times> row_id option \<times> string" where
  "usage_links l i =
     (case first_row (order_desc (\<lambda>c. (c_updated_at c, c_id c))
              (filter (\<lambda>c. c_active_codex_task_id c = Some i) (l_conversations l))) of
        None \<Rightarrow> (None, None, None, ''direct'')
      | Some c \<Rightarrow>
          let orch = first_row (order_desc o_id
                (filter (\<lambda>q. o_conversation_id q = c_id c) (l_orchestrations l)));
              run = first_row (order_desc r_id
                (filter (\<lambda>r. r_conversation_id r = c_id c \<and>
                             (r_hidden_task_id r = Some i \<or> r_hidden_task_id r = None)) (l_agent_runs l)))
          in (Some (c_id c), map_option o_id orch, map_option r_id run,
              case run of None \<Rightarrow> ''direct''
                        | Some r \<Rightarrow> if r_role r = [] then ''direct'' else r_role r))"

definition record_codex_usage_event :: "task \<Rightarrow> dict \<Rightarrow> ledger \<Rightarrow> ledger" where
  "record_codex_usage_event t p l =
     (case token_counts_of p of
        None \<Rightarrow> l
      | Some k \<Rightarrow>
          let turn = py_str (dget p ''turnId'' (JStr (case t_active_turn_id t of None \<Rightarrow> [] | Some s \<Rightarrow> s)));
              thread = py_str (dget p ''threadId'' (JStr (case t_codex_thread_id t of None \<Rightarrow> [] | Some s \<Rightarrow> s)));
              v2 = (case dget0 p ''tokenUsage'' of JDict _ \<Rightarrow> True | _ \<Rightarrow> False)
          in (case usage_links l (t_id t) of (conv, orch, run, role) \<Rightarrow>
                record_usage_event
                  \<lparr>u_id = 0, u_created_at = 0, u_conversation_id = conv, u_orchestration_run_id = orch,
                   u_agent_run_id = run, u_task_id = Some (t_id t), u_agent = ''codex'', u_role = role,
                   u_phase = t_last_phase t, u_request_kind = ''turn'', u_request_index = 1,
                   u_model = usage_model p, u_external_thread_id = opt_str thread,
                   u_external_turn_id = opt_str turn, u_external_session_id = None,
                   u_status = ''completed'', u_source = k_source k, u_input_tokens = k_input k,
                   u_cached_input_tokens = k_cached k, u_output_tokens = k_output k,
                   u_reasoning_output_tokens = k_reasoning k, u_total_tokens = k_total k,
                   u_workflow_overhead_input_tokens = 0, u_workflow_overhead_output_tokens = 0,
                   u_latency_ms = 0,
                   u_metadata_json = dumps (JDict [(''protocol_version'', JStr (if v2 then ''v2'' else ''legacy''))])\<rparr>
                  l))"

end
