(* ===== verification/Task_Events.thy ===== *)
theory Task_Events
  imports Task_Lifecycle
begin

text \<open>
  \<open>TaskService.apply_backend_event\<close>, one action per event type in the order of the source, and
  \<open>drain_workspace\<close>, the promotion of the next waiting task. A handler looks the task up once and
  keeps using that snapshot after it wrote, as the code does.
\<close>

section \<open>Backend events\<close>

definition with_task :: "dict \<Rightarrow> (task \<Rightarrow> unit task_act) \<Rightarrow> unit task_act" where
  "with_task p f =
     bindA (getA (\<lambda>l. find_task_by_thread_id l (payload_str p ''threadId'')))
       (\<lambda>r. case r of None \<Rightarrow> retA () | Some t \<Rightarrow> f t)"

definition mark_running_from_backend_activity :: "task \<Rightarrow> unit task_act" where
  "mark_running_from_backend_activity t = whenA (t_status t = QUEUED) (transition (t_id t) RUNNING)"

definition mark_backend_failed ::
  "row_id \<Rightarrow> string \<Rightarrow> string \<Rightarrow> string \<Rightarrow> dict \<Rightarrow> unit task_act" where
  "mark_backend_failed i error phase event_type payload =
     thenA (modA (set_task_status i FAILED (take 120 phase) [] (take 240 error)))
     (thenA (task_event_add i event_type payload)
     (task_event_add i ''task_failed'' [(''error'', JStr error)]))"

definition on_turn_started :: "dict \<Rightarrow> unit task_act" where
  "on_turn_started p = with_task p (\<lambda>t.
     let thread = payload_str p ''threadId''; turn = payload_str p ''turnId'' in
     thenA (modA (set_active_turn (t_id t) turn))
     (thenA (transition (t_id t) RUNNING)
     (task_event_add (t_id t) ''turn_started'' [(''threadId'', JStr thread), (''turnId'', JStr turn)])))"

text \<open>The completed branch: pending approvals, managed by an orchestration run, or done.\<close>

definition finish_completed_turn :: "task \<Rightarrow> unit task_act" where
  "finish_completed_turn t =
     bindA (getA (\<lambda>l. pending_approvals l (t_id t))) (\<lambda>pending.
     if pending \<noteq> [] then
       (if t_status t = PAUSED
        then modA (set_task_status (t_id t) PAUSED ''waiting_approval'' [] [])
        else transition (t_id t) WAITING_APPROVAL)
     else bindA (getA (\<lambda>l. task_has_running_orchestration l (t_id t))) (\<lambda>managed.
       if managed then modA (set_task_status (t_id t) RUNNING [] [] [])
       else thenA (transition (t_id t) DONE)
            (whenA (t_last_summary t \<noteq> [])
              (modA (set_task_status (t_id t) DONE [] (t_last_summary t) [])))))"

definition on_turn_completed :: "dict \<Rightarrow> unit task_act" where
  "on_turn_completed p = with_task p (\<lambda>t.
     let thread = payload_str p ''threadId''; st = turn_status p in
     thenA (mark_running_from_backend_activity t)
     (thenA (modA (clear_active_turn (t_id t)))
     (if st = ''failed'' then
        let error = turn_error_message p in
        mark_backend_failed (t_id t) (if error = [] then ''Codex turn failed'' else error) ''failed''
          ''turn_failed'' [(''threadId'', JStr thread), (''error'', JStr error)]
      else if st = ''interrupted'' then
        whenA (t_status t \<notin> {ABORTED, ARCHIVED})
          (thenA (modA (set_task_status (t_id t) ABORTED ''interrupted'' [] ''Codex turn interrupted''))
          (task_event_add (t_id t) ''turn_interrupted'' [(''threadId'', JStr thread)]))
      else if st = ''inProgress'' then
        modA (set_task_status (t_id t) (t_status t) ''inProgress'' [] [])
      else if t_status t \<in> {FAILED, ABORTED, ARCHIVED} then retA ()
      else thenA (finish_completed_turn t)
           (task_event_add (t_id t) ''turn_completed'' [(''threadId'', JStr thread)]))))"

definition approval_stored_payload :: "approval_kind \<Rightarrow> dict \<Rightarrow> string" where
  "approval_stored_payload kind p =
     (if kind = PERMISSIONS then
        (case dget p ''permissions'' (JDict []) of JDict d \<Rightarrow> dumps (JDict d) | v \<Rightarrow> py_str v)
      else if dget0 p ''responseSchema'' = JStr ''legacy_review_decision'' then
        dumps (JDict [(''response_schema'', JStr ''legacy_review_decision''),
                      (''command'', dget p ''command'' (JStr []))])
      else
        dumps (JDict [(''command'', dget p ''command'' (JStr [])),
                      (''available_decisions'', dget0 p ''availableDecisions''),
                      (''proposed_execpolicy_amendment'', dget0 p ''proposedExecpolicyAmendment'')]))"

definition approval_summary :: "dict \<Rightarrow> string" where
  "approval_summary p =
     py_str (py_or (dget0 p ''summary'') (py_or (dget0 p ''reason'') (py_or (dget0 p ''command'') (JStr []))))"

definition on_approval_requested :: "dict \<Rightarrow> unit task_act" where
  "on_approval_requested p = with_task p (\<lambda>t.
     let req = py_str (dget p ''codexRequestId'' (dget p ''id'' (JStr [])));
         item = opt_str (payload_str p ''codexItemId'');
         turn = opt_str (payload_str p ''codexTurnId'');
         kind = (case approval_kind_of (py_str (dget p ''kind'' (JStr ''command''))) of
                   None \<Rightarrow> COMMAND | Some k \<Rightarrow> k)
     in bindA (getA (\<lambda>l. get_approval_by_codex_id l req (Some (t_id t)))) (\<lambda>existing.
        thenA (whenA (turn \<noteq> None \<and> t_active_turn_id t = None) (modA (set_active_turn (t_id t) (the turn))))
        (thenA (modA (create_approval (t_id t) req item turn kind (approval_summary p)
                        (approval_stored_payload kind p) None))
        (thenA (whenA (existing = None) (modA (increment_pending_approvals (t_id t) 1)))
        (thenA (if t_status t = PAUSED
                then modA (set_task_status (t_id t) PAUSED ''active:waitingOnApproval'' [] [])
                else transition (t_id t) WAITING_APPROVAL)
        (task_event_add (t_id t) ''approval_requested'' (map (\<lambda>(k, v). (k, JStr (py_str v))) p)))))))"

definition on_plan_updated :: "dict \<Rightarrow> unit task_act" where
  "on_plan_updated p = with_task p (\<lambda>t.
     thenA (mark_running_from_backend_activity t)
     (modA (set_task_status (t_id t) (t_status t) ''planning''
              (py_str (dget p ''plan'' (dget p ''summary'' (JStr [])))) [])))"

definition on_diff_updated :: "dict \<Rightarrow> unit task_act" where
  "on_diff_updated p = with_task p (\<lambda>t.
     let diff = py_str (dget p ''diff'' (dget p ''summary'' (JStr []))) in
     thenA (mark_running_from_backend_activity t)
     (thenA (modA (increment_changed_files (t_id t) 1))
     (whenA (diff \<noteq> []) (task_event_add (t_id t) ''diff_updated'' [(''diff'', JStr (take 2000 diff))]))))"

definition on_file_change_delta :: "dict \<Rightarrow> unit task_act" where
  "on_file_change_delta p = with_task p (\<lambda>t.
     let path = payload_str p ''path''; kind = py_str (dget p ''kind'' (JStr ''modified'')) in
     thenA (mark_running_from_backend_activity t)
     (whenA (path \<noteq> []) (modA (record_touched_file (t_id t) path kind))))"

text \<open>The legacy token columns: the \<open>last\<close> breakdown if there is one, else the flat fields.\<close>

definition legacy_token_pair :: "dict \<Rightarrow> (int \<times> int) option" where
  "legacy_token_pair p =
     (let src = (case dget0 p ''tokenUsage'' of
                   JDict tu \<Rightarrow> (case dget0 tu ''last'' of JDict la \<Rightarrow> la | _ \<Rightarrow> p)
                 | _ \<Rightarrow> p)
      in case (int_field src ''inputTokens'', int_field src ''outputTokens'') of
           (Some ti, Some to) \<Rightarrow> Some (ti, to)
         | _ \<Rightarrow> None)"

definition on_token_usage_updated :: "dict \<Rightarrow> unit task_act" where
  "on_token_usage_updated p = with_task p (\<lambda>t.
     thenA (mark_running_from_backend_activity t)
     (thenA (case legacy_token_pair p of
               None \<Rightarrow> retA ()
             | Some (ti, to) \<Rightarrow> modA (set_token_usage (t_id t) ti to))
     (modA (record_codex_usage_event t p))))"

definition on_command_output_delta :: "service \<Rightarrow> dict \<Rightarrow> unit task_act" where
  "on_command_output_delta sv p = with_task p (\<lambda>t.
     let delta = py_str (dget p ''delta'' (dget p ''text'' (JStr []))) in
     thenA (mark_running_from_backend_activity t)
     (whenA (delta \<noteq> [])
       (thenA (task_event_add (t_id t) ''command_output'' [(''delta'', JStr (take 2000 delta))])
       (modA (append_task_log sv (t_id t) delta)))))"

definition on_agent_message_delta :: "service \<Rightarrow> dict \<Rightarrow> unit task_act" where
  "on_agent_message_delta sv p = with_task p (\<lambda>t.
     let delta = payload_str p ''delta'';
         summary = take 5000 (py_str (dget p ''summary'' (JStr delta))) in
     thenA (mark_running_from_backend_activity t)
     (whenA (delta \<noteq> [])
       (bindA (getA (\<lambda>l. task_has_running_orchestration l (t_id t))) (\<lambda>managed.
        thenA (whenA (\<not> managed) (modA (set_task_status (t_id t) (t_status t) [] summary [])))
        (thenA (task_event_add (t_id t) ''agent_message_delta''
                  [(''delta'', JStr delta), (''summary'', JStr summary)])
        (modA (append_task_log sv (t_id t) delta)))))))"

definition on_thread_status_changed :: "dict \<Rightarrow> unit task_act" where
  "on_thread_status_changed p = with_task p (\<lambda>t.
     let st = thread_status_type p in
     whenA (st \<noteq> [])
       (if st = ''systemError'' then
          thenA (modA (clear_active_turn (t_id t)))
          (mark_backend_failed (t_id t) ''Codex thread entered systemError'' st ''thread_system_error''
             [(''threadId'', JStr (payload_str p ''threadId'')), (''status'', JStr st)])
        else thenA (mark_running_from_backend_activity t)
             (modA (set_task_status (t_id t) (t_status t) (take 120 st) [] []))))"

definition on_item :: "string \<Rightarrow> dict \<Rightarrow> unit task_act" where
  "on_item event_type p = with_task p (\<lambda>t.
     thenA (mark_running_from_backend_activity t)
     (task_event_add (t_id t) event_type (item_event_payload p)))"

definition apply_backend_event :: "service \<Rightarrow> string \<Rightarrow> dict \<Rightarrow> unit task_act" where
  "apply_backend_event sv etype p =
     (if etype = ''turn_started'' then on_turn_started p
      else if etype = ''turn_completed'' then on_turn_completed p
      else if etype = ''approval_requested'' then on_approval_requested p
      else if etype = ''plan_updated'' then on_plan_updated p
      else if etype = ''diff_updated'' then on_diff_updated p
      else if etype = ''file_change_delta'' then on_file_change_delta p
      else if etype = ''token_usage_updated'' then on_token_usage_updated p
      else if etype = ''command_output_delta'' then on_command_output_delta sv p
      else if etype = ''agent_message_delta'' then on_agent_message_delta sv p
      else if etype = ''thread_status_changed'' then on_thread_status_changed p
      else if etype = ''item_started'' then on_item ''item_started'' p
      else if etype = ''item_completed'' then on_item ''item_completed'' p
      else retA ())"

section \<open>The queue drain\<close>

text \<open>
  The backend's answers are parameters; \<open>env1\<close> and \<open>env2\<close> are what other coroutines did to the
  ledger while the two awaits were suspended.
\<close>

record backend =
  b_create_thread :: "string \<Rightarrow> string + string"
  b_start_turn :: "string \<Rightarrow> string \<Rightarrow> string + unit"

definition drain_start ::
  "backend \<Rightarrow> (ledger \<Rightarrow> ledger) \<Rightarrow> (ledger \<Rightarrow> ledger) \<Rightarrow> row_id \<Rightarrow> string \<Rightarrow> string \<Rightarrow> unit task_act" where
  "drain_start b env1 env2 i path prompt =
     thenA (modA env1)
     (case b_create_thread b path of
        Inl e \<Rightarrow> raiseA (RuntimeError (BackendError e))
      | Inr thread \<Rightarrow>
          thenA (set_task_thread i thread)
          (thenA (modA env2)
          (case b_start_turn b thread prompt of
             Inl e \<Rightarrow> raiseA (RuntimeError (BackendError e))
           | Inr _ \<Rightarrow> retA ())))"

fun exn_text :: "exn \<Rightarrow> string" where
  "exn_text (KeyError s) = repr_str s"
| "exn_text (RuntimeError (BackendError e)) = e"
| "exn_text _ = []"

definition drain_workspace ::
  "service \<Rightarrow> git \<Rightarrow> backend \<Rightarrow> (ledger \<Rightarrow> ledger) \<Rightarrow> (ledger \<Rightarrow> ledger) \<Rightarrow> string
   \<Rightarrow> task option task_act" where
  "drain_workspace sv g b env1 env2 alias =
     bindA (getA (\<lambda>l. active_write_task (list_tasks 100 False l) alias None)) (\<lambda>blocker.
     if blocker \<noteq> None then retA None
     else bindA (getA (\<lambda>l. list_waiting_tasks l alias)) (\<lambda>waiting.
     case waiting of
       [] \<Rightarrow> retA None
     | next # _ \<Rightarrow>
         bindA (catchA (bindA (promote_waiting_task sv g (t_id next)) (\<lambda>r. retA (Some r)))
                  (\<lambda>e. if is_runtime_error e
                       then thenA (fail_task (t_id next) ''missing stored prompt'') (retA None)
                       else raiseA e))
         (\<lambda>promoted.
            case promoted of
              None \<Rightarrow> retA None
            | Some (t, prompt) \<Rightarrow>
                bindA (liftA (\<lambda>_. get_workspace sv alias)) (\<lambda>w.
                bindA (catchA (thenA (drain_start b env1 env2 (t_id t) (ws_path w) prompt) (retA True))
                         (\<lambda>e. thenA (fail_task (t_id t) (exn_text e)) (retA False)))
                (\<lambda>ok. if ok then bindA (liftA (\<lambda>l. get_task l (t_id t))) (\<lambda>t'. retA (Some t'))
                      else retA None)))))"

end
