(* ===== verification/Task_Machine.thy ===== *)
theory Task_Machine
  imports Task_Events "HOL-Library.Sublist"
begin

text \<open>
  The task service as a machine: every public operation as a command, their runs, and the contract
  between the service and the ledger. Whatever property the ledger's primitive writes keep, every
  operation of the service keeps (locale \<open>ledger_invariant\<close>); it is interpreted for the ledger's
  key and index invariant, for the maintenance gate, for the append-only event log and for the
  bound on the task logs.
\<close>

section \<open>Commands and runs\<close>

datatype task_cmd =
    Reserve string string "int option" "row_id option"
  | ReserveWaiting string string "int option" "row_id option" "row_id option"
  | Start string string "string option" "int option" "row_id option"
  | Promote row_id
  | ForceParallel row_id
  | SetupWorktree row_id string
  | StartWorktree row_id
  | MergeWorktree row_id
  | DiscardWorktree row_id
  | SetThread row_id string
  | Continue row_id string "string option"
  | Steer row_id string
  | Pause row_id
  | Abort row_id
  | Archive row_id
  | Fail row_id string
  | Backend string dict

fun exec_cmd :: "service \<Rightarrow> git \<Rightarrow> task_cmd \<Rightarrow> ledger \<Rightarrow> ledger" where
  "exec_cmd sv g (Reserve al p ch pa) l = snd (reserve_task sv g al p ch pa l)"
| "exec_cmd sv g (ReserveWaiting al p ch pa bl) l = snd (reserve_waiting_task sv al p ch pa bl l)"
| "exec_cmd sv g (Start al p th ch pa) l = snd (start_task sv g al p th ch pa l)"
| "exec_cmd sv g (Promote i) l = snd (promote_waiting_task sv g i l)"
| "exec_cmd sv g (ForceParallel i) l = snd (force_parallel_start sv g i l)"
| "exec_cmd sv g (SetupWorktree i slug) l = snd (setup_worktree sv g i slug l)"
| "exec_cmd sv g (StartWorktree i) l = snd (start_worktree_task i l)"
| "exec_cmd sv g (MergeWorktree i) l = snd (merge_worktree sv g i l)"
| "exec_cmd sv g (DiscardWorktree i) l = snd (discard_worktree sv g i l)"
| "exec_cmd sv g (SetThread i th) l = snd (set_task_thread i th l)"
| "exec_cmd sv g (Continue i p th) l = snd (continue_task sv i p th l)"
| "exec_cmd sv g (Steer i p) l = snd (steer_task sv i p l)"
| "exec_cmd sv g (Pause i) l = snd (pause_task i l)"
| "exec_cmd sv g (Abort i) l = snd (abort_task i l)"
| "exec_cmd sv g (Archive i) l = snd (archive_task i l)"
| "exec_cmd sv g (Fail i e) l = snd (fail_task i e l)"
| "exec_cmd sv g (Backend ty p) l = snd (apply_backend_event sv ty p l)"

text \<open>
  Runs of the service: commands in any order with any git and backend behaviour, start-up
  recovery, time-outs, the clock moving on, and queue drains whose awaits are interleaved with
  further runs.
\<close>

inductive ts_run :: "service \<Rightarrow> ledger \<Rightarrow> ledger \<Rightarrow> bool" where
  init: "ts_run sv l l"
| cmd: "ts_run sv l m \<Longrightarrow> ts_run sv l (exec_cmd sv g c m)"
| recover: "ts_run sv l m \<Longrightarrow> ts_run sv l (snd (mark_active_tasks_recovery_paused m))"
| timeout: "ts_run sv l m \<Longrightarrow> ts_run sv l (mark_task_timeout i st age th m)"
| backend_dead: "ts_run sv l m \<Longrightarrow> ts_run sv l (mark_backend_dead i summary m)"
| clock: "ts_run sv l m \<Longrightarrow> db_now m \<le> n \<Longrightarrow> ts_run sv l (m\<lparr>db_now := n\<rparr>)"
| drain: "ts_run sv l m \<Longrightarrow> (\<And>x. ts_run sv x (env1 x)) \<Longrightarrow> (\<And>x. ts_run sv x (env2 x)) \<Longrightarrow>
    ts_run sv l (snd (drain_workspace sv g b env1 env2 alias m))"

definition empty_ledger :: "stamp \<Rightarrow> ledger" where
  "empty_ledger now =
     \<lparr>db_now = now, db_window = None, l_tasks = [], l_next_task = 1, l_events = [], l_next_event = 1,
      l_approvals = [], l_next_approval = 1, l_touched = [], l_next_touched = 1, l_bindings = [],
      l_conversations = [], l_orchestrations = [], l_agent_runs = [], l_usage = [], l_next_usage = 1,
      l_logs = [], l_next_conversation = 1, l_next_orchestration = 1, l_next_agent_run = 1\<rparr>"

section \<open>Properties every operation keeps\<close>

locale ledger_invariant =
  fixes I :: "ledger \<Rightarrow> bool"
  assumes I_status: "I l \<Longrightarrow> I (set_task_status i st ph su er l)"
    and I_set_turn: "I l \<Longrightarrow> I (set_active_turn i tu l)"
    and I_clear_turn: "I l \<Longrightarrow> I (clear_active_turn i l)"
    and I_files: "I l \<Longrightarrow> I (increment_changed_files i d l)"
    and I_pending: "I l \<Longrightarrow> I (increment_pending_approvals i d l)"
    and I_tokens: "I l \<Longrightarrow> I (set_token_usage i ti to l)"
    and I_worktree: "I l \<Longrightarrow> I (set_worktree_info i wp wb l)"
    and I_force: "I l \<Longrightarrow> I (set_force_parallel i l)"
    and I_thread: "I l \<Longrightarrow> I (set_thread_id i thr l)"
    and I_event: "I l \<Longrightarrow> I (insert_event i ty p l)"
    and I_create: "I l \<Longrightarrow> I (snd (create_task al pa tt th pr ch st l))"
    and I_approval: "I l \<Longrightarrow> I (create_approval i rq it tur k su cm ms l)"
    and I_touched: "I l \<Longrightarrow> I (record_touched_file i fp fk l)"
    and I_usage: "I l \<Longrightarrow> I (record_codex_usage_event t pl l)"
    and I_log: "I l \<Longrightarrow> I (append_task_log sv i tx l)"
    and I_recover: "I l \<Longrightarrow> I (snd (mark_active_tasks_recovery_paused l))"
    and I_clock: "I l \<Longrightarrow> db_now l \<le> n \<Longrightarrow> I (l\<lparr>db_now := n\<rparr>)"
begin

lemmas keeps_writes =
  keepsA_mod [of I, OF I_status] keepsA_mod [of I, OF I_set_turn] keepsA_mod [of I, OF I_clear_turn]
  keepsA_mod [of I, OF I_files] keepsA_mod [of I, OF I_pending] keepsA_mod [of I, OF I_tokens]
  keepsA_mod [of I, OF I_worktree] keepsA_mod [of I, OF I_force] keepsA_mod [of I, OF I_thread]
  keepsA_mod [of I, OF I_event] keepsA_mod [of I, OF I_approval] keepsA_mod [of I, OF I_touched]
  keepsA_mod [of I, OF I_usage] keepsA_mod [of I, OF I_log] keepsA_step [of I, OF I_create]

lemma keeps_event: "keepsA I (task_event_add i ty p)"
  by (simp add: task_event_add_def keeps_writes)

lemma keeps_transition: "keepsA I (transition i st)"
  unfolding transition_def by (intro keeps_intros keeps_writes)

lemma keeps_baseline: "keepsA I (record_workspace_baseline g i w ph)"
  by (simp add: record_workspace_baseline_def keeps_event)

lemma keeps_checks:
  "keepsA I assert_submission_allowed" "keepsA I (ensure_workspace_available al ex)"
  "keepsA I (require_waiting_slot i t)"
  by (simp_all add: assert_submission_allowed_def ensure_workspace_available_def
      require_waiting_slot_def keepsA_lift keepsA_guard)

lemmas keeps_parts = keeps_intros keeps_writes keeps_event keeps_transition keeps_baseline keeps_checks

lemma keeps_reserve_waiting: "keepsA I (reserve_waiting_task sv al p ch pa bl)"
  unfolding reserve_waiting_task_def by (intro keeps_parts)

lemma keeps_promote: "keepsA I (promote_waiting_task sv g i)"
  unfolding promote_waiting_task_def by (intro keeps_parts)

lemma keeps_force_parallel: "keepsA I (force_parallel_start sv g i)"
  unfolding force_parallel_start_def by (intro keeps_parts)

lemma keeps_setup_worktree: "keepsA I (setup_worktree sv g i slug)"
  unfolding setup_worktree_def Let_def
  by (intro keeps_parts) (auto split: proc.splits intro!: keeps_parts)

lemma keeps_start_worktree: "keepsA I (start_worktree_task i)"
  unfolding start_worktree_task_def by (intro keeps_parts)

lemma keeps_merge_worktree: "keepsA I (merge_worktree sv g i)"
  unfolding merge_worktree_def
  by (intro keeps_parts) (auto split: proc.splits intro!: keeps_parts)

lemma keeps_discard_worktree: "keepsA I (discard_worktree sv g i)"
  unfolding discard_worktree_def
  by (intro keeps_parts) (auto split: proc.splits intro!: keeps_parts)

lemma keeps_reserve: "keepsA I (reserve_task sv g al p ch pa)"
  unfolding reserve_task_def by (intro keeps_parts)

lemma keeps_start: "keepsA I (start_task sv g al p th ch pa)"
  unfolding start_task_def by (intro keeps_parts)

lemma keeps_set_thread: "keepsA I (set_task_thread i th)"
  unfolding set_task_thread_def by (intro keeps_parts)

lemma keeps_continue: "keepsA I (continue_task sv i p th)"
  unfolding continue_task_def by (intro keeps_parts)

lemma keeps_steer: "keepsA I (steer_task sv i p)"
  unfolding steer_task_def by (intro keeps_parts)

lemma keeps_pause: "keepsA I (pause_task i)"
  unfolding pause_task_def by (intro keeps_parts)

lemma keeps_abort: "keepsA I (abort_task i)"
  unfolding abort_task_def by (intro keeps_parts)

lemma keeps_archive: "keepsA I (archive_task i)"
  unfolding archive_task_def by (intro keeps_parts)

lemma keeps_fail: "keepsA I (fail_task i e)"
  unfolding fail_task_def by (intro keeps_parts)

lemma keeps_with_task: "(\<And>t. keepsA I (f t)) \<Longrightarrow> keepsA I (with_task p f)"
  unfolding with_task_def by (intro keeps_parts)

lemma keeps_mark_running: "keepsA I (mark_running_from_backend_activity t)"
  unfolding mark_running_from_backend_activity_def by (intro keeps_parts)

lemma keeps_mark_failed: "keepsA I (mark_backend_failed i e ph ty p)"
  unfolding mark_backend_failed_def by (intro keeps_parts)

lemma keeps_finish: "keepsA I (finish_completed_turn t)"
  unfolding finish_completed_turn_def by (intro keeps_parts)

lemmas keeps_handler_parts =
  keeps_parts keeps_with_task keeps_mark_running keeps_mark_failed keeps_finish

lemma keeps_turn_started: "keepsA I (on_turn_started p)"
  unfolding on_turn_started_def Let_def by (intro keeps_handler_parts)

lemma keeps_turn_completed: "keepsA I (on_turn_completed p)"
  unfolding on_turn_completed_def Let_def by (intro keeps_handler_parts)

lemma keeps_approval_requested: "keepsA I (on_approval_requested p)"
  unfolding on_approval_requested_def Let_def by (intro keeps_handler_parts)

lemma keeps_plan_updated: "keepsA I (on_plan_updated p)"
  unfolding on_plan_updated_def Let_def by (intro keeps_handler_parts)

lemma keeps_diff_updated: "keepsA I (on_diff_updated p)"
  unfolding on_diff_updated_def Let_def by (intro keeps_handler_parts)

lemma keeps_file_change_delta: "keepsA I (on_file_change_delta p)"
  unfolding on_file_change_delta_def Let_def by (intro keeps_handler_parts)

lemma keeps_token_usage_updated: "keepsA I (on_token_usage_updated p)"
  unfolding on_token_usage_updated_def Let_def by (intro keeps_handler_parts)

lemma keeps_command_output_delta: "keepsA I (on_command_output_delta sv p)"
  unfolding on_command_output_delta_def Let_def by (intro keeps_handler_parts)

lemma keeps_agent_message_delta: "keepsA I (on_agent_message_delta sv p)"
  unfolding on_agent_message_delta_def Let_def by (intro keeps_handler_parts)

lemma keeps_thread_status_changed: "keepsA I (on_thread_status_changed p)"
  unfolding on_thread_status_changed_def Let_def by (intro keeps_handler_parts)

lemma keeps_item: "keepsA I (on_item ty p)"
  unfolding on_item_def Let_def by (intro keeps_handler_parts)

lemmas keeps_handlers =
  keeps_turn_started keeps_turn_completed keeps_approval_requested keeps_plan_updated keeps_diff_updated keeps_file_change_delta keeps_token_usage_updated keeps_command_output_delta keeps_agent_message_delta keeps_thread_status_changed keeps_item

lemma keeps_backend_event: "keepsA I (apply_backend_event sv ty p)"
  unfolding apply_backend_event_def by (intro keeps_intros keeps_handlers)

lemma exec_cmd_keeps: "I l \<Longrightarrow> I (exec_cmd sv g c l)"
  by (cases c)
     (simp_all add: keepsA_D [OF keeps_reserve] keepsA_D [OF keeps_reserve_waiting]
       keepsA_D [OF keeps_start] keepsA_D [OF keeps_promote] keepsA_D [OF keeps_force_parallel]
       keepsA_D [OF keeps_setup_worktree] keepsA_D [OF keeps_start_worktree]
       keepsA_D [OF keeps_merge_worktree] keepsA_D [OF keeps_discard_worktree]
       keepsA_D [OF keeps_set_thread] keepsA_D [OF keeps_continue] keepsA_D [OF keeps_steer]
       keepsA_D [OF keeps_pause] keepsA_D [OF keeps_abort] keepsA_D [OF keeps_archive]
       keepsA_D [OF keeps_fail] keepsA_D [OF keeps_backend_event])

lemma keeps_drain:
  assumes "\<And>x. I x \<Longrightarrow> I (env1 x)" and "\<And>x. I x \<Longrightarrow> I (env2 x)"
  shows "keepsA I (drain_workspace sv g b env1 env2 al)"
proof -
  have start: "keepsA I (drain_start b env1 env2 i path prompt)" for i path prompt
    unfolding drain_start_def
    by (intro keeps_parts keepsA_mod keeps_set_thread assms)
  show ?thesis
    unfolding drain_workspace_def
    by (intro keeps_parts keeps_promote keeps_fail start)
qed

lemma run_keeps: "ts_run sv l m \<Longrightarrow> I l \<Longrightarrow> I m"
proof (induction rule: ts_run.induct)
  case (drain sv l m env1 env2 g b al)
  then show ?case by (intro keepsA_D [OF keeps_drain]) auto
qed (auto simp: exec_cmd_keeps mark_task_timeout_def mark_backend_dead_def Let_def
     intro!: I_status I_event I_clear_turn I_recover I_clock)

end

section \<open>Interpretations\<close>

lemma record_codex_usage_event_frame [simp]:
  "l_tasks (record_codex_usage_event t p l) = l_tasks l"
  "l_next_task (record_codex_usage_event t p l) = l_next_task l"
  "l_events (record_codex_usage_event t p l) = l_events l"
  "l_next_event (record_codex_usage_event t p l) = l_next_event l"
  "l_approvals (record_codex_usage_event t p l) = l_approvals l"
  "l_next_approval (record_codex_usage_event t p l) = l_next_approval l"
  "l_touched (record_codex_usage_event t p l) = l_touched l"
  "l_bindings (record_codex_usage_event t p l) = l_bindings l"
  "l_conversations (record_codex_usage_event t p l) = l_conversations l"
  "l_orchestrations (record_codex_usage_event t p l) = l_orchestrations l"
  "l_logs (record_codex_usage_event t p l) = l_logs l"
  "db_window (record_codex_usage_event t p l) = db_window l"
  "db_now (record_codex_usage_event t p l) = db_now l"
  by (simp_all add: record_codex_usage_event_def record_usage_event_def Let_def
      split: option.splits prod.splits)

lemma append_task_log_frame [simp]:
  "l_tasks (append_task_log sv i tx l) = l_tasks l"
  "l_next_task (append_task_log sv i tx l) = l_next_task l"
  "l_events (append_task_log sv i tx l) = l_events l"
  "l_next_event (append_task_log sv i tx l) = l_next_event l"
  "l_approvals (append_task_log sv i tx l) = l_approvals l"
  "l_next_approval (append_task_log sv i tx l) = l_next_approval l"
  "l_touched (append_task_log sv i tx l) = l_touched l"
  "l_bindings (append_task_log sv i tx l) = l_bindings l"
  "l_conversations (append_task_log sv i tx l) = l_conversations l"
  "l_orchestrations (append_task_log sv i tx l) = l_orchestrations l"
  "db_window (append_task_log sv i tx l) = db_window l"
  "db_now (append_task_log sv i tx l) = db_now l"
  by (simp_all add: append_task_log_def Let_def)

text \<open>Recovery rewrites the status of the interrupted tasks and appends one event for each.\<close>

lemma fold_insert_event_frame:
  "l_tasks (fold (\<lambda>t. insert_event (i t) (ty t) (p t)) ts l) = l_tasks l"
  "l_next_task (fold (\<lambda>t. insert_event (i t) (ty t) (p t)) ts l) = l_next_task l"
  "db_window (fold (\<lambda>t. insert_event (i t) (ty t) (p t)) ts l) = db_window l"
  "l_logs (fold (\<lambda>t. insert_event (i t) (ty t) (p t)) ts l) = l_logs l"
  "db_now (fold (\<lambda>t. insert_event (i t) (ty t) (p t)) ts l) = db_now l"
  by (induction ts arbitrary: l) (simp_all add: insert_event_def)

lemma fold_insert_event_prefix:
  "prefix (l_events l) (l_events (fold (\<lambda>t. insert_event (i t) (ty t) (p t)) ts l))"
proof (induction ts arbitrary: l)
  case Nil
  then show ?case by simp
next
  case (Cons t ts)
  have "prefix (l_events l) (l_events (insert_event (i t) (ty t) (p t) l))"
    by (simp add: insert_event_def)
  then show ?case using Cons.IH prefix_order.trans by simp blast
qed

lemma recovery_events_prefix:
  "prefix (l_events l) (l_events (snd (mark_active_tasks_recovery_paused l)))"
  unfolding mark_active_tasks_recovery_paused_def Let_def
  by (auto intro!: fold_insert_event_prefix [THEN prefix_order.trans [rotated]])

lemma recovery_frame:
  "db_window (snd (mark_active_tasks_recovery_paused l)) = db_window l"
  "l_logs (snd (mark_active_tasks_recovery_paused l)) = l_logs l"
  "l_next_task (snd (mark_active_tasks_recovery_paused l)) = l_next_task l"
  by (simp_all add: mark_active_tasks_recovery_paused_def Let_def fold_insert_event_frame)

lemma recovery_tasks:
  "l_tasks (snd (mark_active_tasks_recovery_paused l)) =
     upd_rows (\<lambda>t. t_id t \<in> set (map t_id (recovery_candidates l)))
       (\<lambda>t. t\<lparr>t_status := PAUSED, t_updated_at := db_now l\<rparr>) (l_tasks l)"
proof (cases "recovery_candidates l")
  case Nil
  then show ?thesis
    by (simp add: mark_active_tasks_recovery_paused_def upd_rows_none)
next
  case Cons
  then show ?thesis
    by (simp add: mark_active_tasks_recovery_paused_def Let_def fold_insert_event_frame)
qed

lemma wf_fold_insert_event: "ledger_wf l \<Longrightarrow> ledger_wf (fold (\<lambda>t. insert_event (i t) (ty t) (p t)) ts l)"
  by (induction ts arbitrary: l) (simp_all add: wf_insert_event)

lemma wf_recovery: "ledger_wf l \<Longrightarrow> ledger_wf (snd (mark_active_tasks_recovery_paused l))"
  by (simp add: mark_active_tasks_recovery_paused_def Let_def)
     (intro impI wf_fold_insert_event, simp add: ledger_wf_def ids_ok_upd)

lemma wf_frame:
  "ledger_wf l \<Longrightarrow> ledger_wf (record_codex_usage_event t p l)"
  "ledger_wf l \<Longrightarrow> ledger_wf (append_task_log sv i tx l)"
  "ledger_wf l \<Longrightarrow> ledger_wf (l\<lparr>db_now := n\<rparr>)"
  by (simp_all add: ledger_wf_def)

interpretation wf: ledger_invariant ledger_wf
  by unfold_locales (simp_all add: wf_intros wf_frame wf_recovery)

interpretation gate: ledger_invariant "\<lambda>l. db_window l = w" for w
  by unfold_locales
     (simp_all add: task_update_defs set_thread_id_def recovery_frame create_approval_def
       record_touched_file_def create_task_def Let_def split: option.splits)

lemma prefix_snoc_right: "prefix es xs \<Longrightarrow> prefix es (xs @ [x])"
  by simp

interpretation audit: ledger_invariant "\<lambda>l. prefix es (l_events l)" for es
proof (unfold_locales, goal_cases)
  case (10 l i ty p)
  then show ?case by (simp add: insert_event_def)
next
  case (11 l al pa tt th pr ch st)
  then show ?case by (cases th) (simp_all add: create_task_def Let_def)
next
  case (16 l)
  then show ?case using recovery_events_prefix prefix_order.trans by blast
qed (simp_all add: task_update_defs set_thread_id_def)

lemma length_le_utf8: "length s \<le> utf8_length s"
  by (induction s) (auto simp: utf8_length_def)

lemma length_bound_log: "length (bound_log s) \<le> max_log_bytes"
proof (cases "utf8_length s \<le> max_log_bytes")
  case True
  then show ?thesis using length_le_utf8 [of s] by (simp add: bound_log_def)
next
  case False
  have keep: "log_keep \<le> max_log_bytes" by (simp add: log_keep_def max_log_bytes_def)
  let ?c = "universal_newlines s"
  have "length (bound_log s) \<le> length (drop (length ?c - log_keep) ?c)"
    using False by (auto simp: bound_log_def Let_def split: option.splits)
  also have "\<dots> \<le> log_keep" by simp
  finally show ?thesis using keep by simp
qed

definition logs_bounded :: "ledger \<Rightarrow> bool" where
  "logs_bounded l \<longleftrightarrow> (\<forall>(i, s) \<in> set (l_logs l). length s \<le> max_log_bytes)"

lemma alist_update_mem: "x \<in> set (AList.update k v al) \<Longrightarrow> x = (k, v) \<or> x \<in> set al"
  by (induction al) (auto split: if_splits)

lemma logs_bounded_append: "logs_bounded l \<Longrightarrow> logs_bounded (append_task_log sv i tx l)"
  using length_bound_log
  by (auto simp: logs_bounded_def append_task_log_def Let_def dest!: alist_update_mem)

lemma upd_task_logs: "logs_bounded (upd_task i f l) = logs_bounded l"
  by (simp add: logs_bounded_def)

interpretation logs: ledger_invariant logs_bounded
proof (unfold_locales, goal_cases)
  case (15 l sv i tx)
  then show ?case by (rule logs_bounded_append)
qed (auto simp: logs_bounded_def task_update_defs set_thread_id_def recovery_frame bind_thread_def
     insert_event_def create_approval_def record_touched_file_def create_task_def Let_def
     split: option.splits)

text \<open>What a task is, as opposed to how it is doing: fixed once the row is written.\<close>

definition task_identity ::
  "task \<Rightarrow> row_id \<times> string \<times> string \<times> string \<times> row_id option \<times> stamp" where
  "task_identity t = (t_id t, t_workspace_alias t, t_workspace_path t, t_title t, t_parent_task_id t, t_created_at t)"

lemma identity_upd_task:
  "(\<And>t. task_identity (f t) = task_identity t) \<Longrightarrow>
     map task_identity (l_tasks (upd_task i f l)) = map task_identity (l_tasks l)"
  by (simp add: upd_task_def map_upd_rows task_identity_def)

interpretation ident: ledger_invariant "\<lambda>l. prefix xs (map task_identity (l_tasks l))" for xs
proof (unfold_locales, goal_cases)
  case (11 l al pa tt th pr ch st)
  then show ?case
    using create_task_fields [OF surjective_pairing [of "create_task al pa tt th pr ch st l"]] by simp
next
  case (16 l)
  then show ?case by (simp add: recovery_tasks map_upd_rows task_identity_def)
qed (simp_all add: task_update_defs set_thread_id_def identity_upd_task task_identity_def)

end
