(* ===== verification/Task_Lock.thy ===== *)
theory Task_Lock
  imports Task_Machine
begin

text \<open>
  The workspace write lock over whole runs of the service: at most one task per workspace is active
  in place (a worktree task and a force-parallel task do not count). The argument is that only four
  operations can make a task active, and each of them looked for a holder before it did.
\<close>

section \<open>Holders\<close>

definition is_holder :: "task \<Rightarrow> bool" where
  "is_holder t \<longleftrightarrow> is_active_status (t_status t) \<and> t_worktree_path t = [] \<and> \<not> t_is_force_parallel t"

definition lock_exclusive :: "ledger \<Rightarrow> bool" where
  "lock_exclusive l \<longleftrightarrow>
     (\<forall>t \<in> set (l_tasks l). \<forall>u \<in> set (l_tasks l).
        is_holder t \<and> is_holder u \<and> t_workspace_alias t = t_workspace_alias u \<longrightarrow> t_id t = t_id u)"

text \<open>The lock looks at the hundred most recently updated tasks that are not archived.\<close>

definition within_scan :: "ledger \<Rightarrow> bool" where
  "within_scan l \<longleftrightarrow> length (filter (\<lambda>t. t_status t \<noteq> ARCHIVED) (l_tasks l)) \<le> 100"

text \<open>A task run by an orchestration is active.\<close>

definition managed_active :: "ledger \<Rightarrow> bool" where
  "managed_active l \<longleftrightarrow>
     (\<forall>t \<in> set (l_tasks l). task_has_running_orchestration l (t_id t) \<longrightarrow> is_active_status (t_status t))"

fun is_promote :: "task_cmd \<Rightarrow> bool" where
  "is_promote (Promote _) = True"
| "is_promote _ = False"

text \<open>Runs in which the lock's scan sees every task; promotion happens in a drain only.\<close>

inductive lock_run :: "service \<Rightarrow> ledger \<Rightarrow> ledger \<Rightarrow> bool" where
  init: "lock_run sv l l"
| cmd: "lock_run sv l m \<Longrightarrow> within_scan m \<Longrightarrow> managed_active m \<Longrightarrow> \<not> is_promote c \<Longrightarrow>
    lock_run sv l (exec_cmd sv g c m)"
| recover: "lock_run sv l m \<Longrightarrow> lock_run sv l (snd (mark_active_tasks_recovery_paused m))"
| timeout: "lock_run sv l m \<Longrightarrow> lock_run sv l (mark_task_timeout i st age th m)"
| backend_dead: "lock_run sv l m \<Longrightarrow> lock_run sv l (mark_backend_dead i summary m)"
| clock: "lock_run sv l m \<Longrightarrow> db_now m \<le> n \<Longrightarrow> lock_run sv l (m\<lparr>db_now := n\<rparr>)"
| drain: "lock_run sv l m \<Longrightarrow> within_scan m \<Longrightarrow>
    (\<And>x. lock_run sv x (env1 x)) \<Longrightarrow> (\<And>x. lock_run sv x (env2 x)) \<Longrightarrow>
    lock_run sv l (snd (drain_workspace sv g b env1 env2 alias m))"

section \<open>What the scan sees\<close>

lemma active_write_statuses_iff: "st \<in> set active_write_statuses \<longleftrightarrow> is_active_status st"
  by (simp add: active_write_statuses_def is_active_status_def)

lemma active_write_task_None:
  "active_write_task ts al ex = None \<longleftrightarrow>
     (\<forall>t \<in> set ts. t_workspace_alias t = al \<and> is_active_status (t_status t) \<and>
        t_worktree_path t = [] \<longrightarrow> ex = Some (t_id t))"
  by (induction ts al ex rule: active_write_task.induct)
     (auto simp: active_write_statuses_iff split: if_splits)

lemma active_write_task_Some:
  "active_write_task ts al ex = Some t \<Longrightarrow>
     t \<in> set ts \<and> t_workspace_alias t = al \<and> is_active_status (t_status t) \<and>
     t_worktree_path t = [] \<and> ex \<noteq> Some (t_id t)"
  by (induction ts al ex rule: active_write_task.induct)
     (auto simp: active_write_statuses_iff split: if_splits)

lemma scan_complete:
  assumes "within_scan l" and "t \<in> set (l_tasks l)" and "is_active_status (t_status t)"
  shows "t \<in> set (list_tasks 100 False l)"
  using assms by (auto simp: within_scan_def list_tasks_def is_active_status_def)

lemma scan_free:
  assumes "within_scan l" and "active_write_task (list_tasks 100 False l) alias ex = None"
    and "t \<in> set (l_tasks l)" and "is_holder t" and "t_workspace_alias t = alias"
  shows "ex = Some (t_id t)"
  using assms scan_complete [OF assms(1,3)] by (auto simp: active_write_task_None is_holder_def)

section \<open>Operations that activate nothing\<close>

text \<open>
  \<open>calm X l m\<close>: from \<open>l\<close> to \<open>m\<close> the tasks stayed the same ones in the same workspaces, and no task
  outside \<open>X\<close> became a holder.
\<close>

definition calm_task :: "row_id set \<Rightarrow> task \<Rightarrow> task \<Rightarrow> bool" where
  "calm_task X t t' \<longleftrightarrow>
     t_id t' = t_id t \<and> t_workspace_alias t' = t_workspace_alias t \<and>
     (t_worktree_path t' = [] \<longrightarrow> t_worktree_path t = []) \<and>
     (t_is_force_parallel t \<longrightarrow> t_is_force_parallel t') \<and>
     (t_id t \<in> X \<or> (is_holder t' \<longrightarrow> is_holder t))"

definition calm :: "row_id set \<Rightarrow> ledger \<Rightarrow> ledger \<Rightarrow> bool" where
  "calm X l m \<longleftrightarrow> list_all2 (calm_task X) (l_tasks l) (l_tasks m)"

lemma calm_refl [simp]: "calm X l l"
  by (simp add: calm_def calm_task_def list.rel_refl)

lemma calm_upd_rows:
  assumes "calm X l m"
    and "\<And>t t'. calm_task X t t' \<Longrightarrow> t \<in> set (l_tasks l) \<Longrightarrow> P t' \<Longrightarrow> calm_task X t (f t')"
  shows "list_all2 (calm_task X) (l_tasks l) (upd_rows P f (l_tasks m))"
  using assms by (auto simp: calm_def upd_rows_def list_all2_conv_all_nth)

lemma calm_upd_task:
  assumes "calm X l m"
    and "\<And>t t'. calm_task X t t' \<Longrightarrow> t \<in> set (l_tasks l) \<Longrightarrow> t_id t = i \<Longrightarrow>
           calm_task X t (f t'\<lparr>t_updated_at := db_now m\<rparr>)"
  shows "calm X l (upd_task i f m)"
proof -
  have "t_id t = t_id t'" if "calm_task X t t'" for t t' using that by (simp add: calm_task_def)
  then have "list_all2 (calm_task X) (l_tasks l)
      (upd_rows (\<lambda>t. t_id t = i) (\<lambda>t. f t\<lparr>t_updated_at := db_now m\<rparr>) (l_tasks m))"
    using assms(2) by (intro calm_upd_rows [OF assms(1)]) simp
  then show ?thesis by (simp add: calm_def upd_task_def)
qed

text \<open>Writing a status is calm if the status is inactive, the task is exempt, was active or isolated.\<close>

lemma calm_set_status:
  assumes "calm X l m"
    and "i \<in> X \<or> \<not> is_active_status st \<or>
      (\<forall>t \<in> set (l_tasks l). t_id t = i \<longrightarrow> is_active_status (t_status t) \<or> t_worktree_path t \<noteq> [])"
  shows "calm X l (set_task_status i st ph su er m)"
  unfolding set_task_status_def
proof (rule calm_upd_task [OF assms(1)])
  fix t t' assume c: "calm_task X t t'" and t: "t \<in> set (l_tasks l)" "t_id t = i"
  have "i \<in> X \<or> \<not> is_active_status st \<or> is_active_status (t_status t) \<or> t_worktree_path t \<noteq> []"
    using assms(2) t by blast
  with c t(2) show "calm_task X t (t'\<lparr>t_status := st, t_last_phase := ph, t_last_summary := su,
      t_last_error := er\<rparr>\<lparr>t_updated_at := db_now m\<rparr>)"
    by (simp add: calm_task_def is_holder_def) blast
qed

lemma calm_frame [simp]:
  "calm X l (insert_event j ty p m) = calm X l m"
  "calm X l (create_approval j rq it tur k su cm ms m) = calm X l m"
  "calm X l (record_touched_file j fp fk m) = calm X l m"
  "calm X l (record_codex_usage_event tk pl m) = calm X l m"
  "calm X l (append_task_log sv j tx m) = calm X l m"
  "calm X l (bind_thread j th m) = calm X l m"
  "calm X l (m\<lparr>db_now := n\<rparr>) = calm X l m"
  by (simp_all add: calm_def)

text \<open>Writes that leave status, workspace and worktree alone and never clear the parallel mark.\<close>

definition neutral :: "(task \<Rightarrow> task) \<Rightarrow> bool" where
  "neutral f \<longleftrightarrow> (\<forall>t. t_id (f t) = t_id t \<and> t_workspace_alias (f t) = t_workspace_alias t \<and>
     t_status (f t) = t_status t \<and> t_worktree_path (f t) = t_worktree_path t \<and>
     (t_is_force_parallel t \<longrightarrow> t_is_force_parallel (f t)))"

lemma calm_neutral:
  assumes "calm X l m" and "neutral f"
  shows "calm X l (upd_task i f m)"
proof (rule calm_upd_task [OF assms(1)])
  fix t t' assume "calm_task X t t'"
  moreover have "t_id (f t') = t_id t'" "t_workspace_alias (f t') = t_workspace_alias t'"
    "t_status (f t') = t_status t'" "t_worktree_path (f t') = t_worktree_path t'"
    "t_is_force_parallel t' \<longrightarrow> t_is_force_parallel (f t')"
    using assms(2) by (simp_all add: neutral_def)
  ultimately show "calm_task X t (f t'\<lparr>t_updated_at := db_now m\<rparr>)"
    unfolding calm_task_def is_holder_def by simp blast
qed

lemma calm_writes:
  assumes "calm X l m"
  shows "calm X l (set_active_turn i tu m)" "calm X l (clear_active_turn i m)"
    "calm X l (increment_changed_files i d m)" "calm X l (increment_pending_approvals i d m)"
    "calm X l (set_token_usage i ti to m)" "calm X l (set_force_parallel i m)"
    "calm X l (set_thread_id i th m)"
  unfolding task_update_defs set_thread_id_def calm_frame
  by (rule calm_neutral [OF assms], simp add: neutral_def)+

lemma calm_set_worktree:
  assumes "calm X l m" and "wp \<noteq> []"
  shows "calm X l (set_worktree_info i wp wb m)"
  unfolding set_worktree_info_def
proof (rule calm_upd_task [OF assms(1)])
  fix t t' assume "calm_task X t t'"
  then show "calm_task X t (t'\<lparr>t_worktree_path := wp, t_worktree_branch := wb\<rparr>\<lparr>t_updated_at := db_now m\<rparr>)"
    using assms(2) unfolding calm_task_def is_holder_def by simp
qed

text \<open>The same through the state the write sees: a task that is active there may stay active.\<close>

lemma calm_keep_active:
  assumes "calm X l m" and "\<And>t'. t' \<in> set (l_tasks m) \<Longrightarrow> t_id t' = i \<Longrightarrow> is_active_status (t_status t')"
  shows "calm X l (set_task_status i st ph su er m)"
proof -
  have "list_all2 (calm_task X) (l_tasks l)
      (map (\<lambda>t. if t_id t = i then t\<lparr>t_status := st, t_last_phase := ph, t_last_summary := su,
         t_last_error := er\<rparr>\<lparr>t_updated_at := db_now m\<rparr> else t) (l_tasks m))"
    unfolding list_all2_map2
  proof (rule list.rel_mono_strong [OF assms(1) [unfolded calm_def]])
    fix t t' assume "t' \<in> set (l_tasks m)" "calm_task X t t'"
    then show "calm_task X t (if t_id t' = i then t'\<lparr>t_status := st, t_last_phase := ph,
        t_last_summary := su, t_last_error := er\<rparr>\<lparr>t_updated_at := db_now m\<rparr> else t')"
      using assms(2) [of t'] by (simp add: calm_task_def is_holder_def) blast
  qed
  then show ?thesis by (simp add: calm_def set_task_status_def upd_task_def upd_rows_def)
qed

definition calm_wf :: "row_id set \<Rightarrow> ledger \<Rightarrow> ledger \<Rightarrow> bool" where
  "calm_wf X l m \<longleftrightarrow> ledger_wf m \<and> calm X l m \<and>
     l_conversations m = l_conversations l \<and> l_orchestrations m = l_orchestrations l"

lemma activating: "is_active_status new \<Longrightarrow> new \<noteq> QUEUED \<Longrightarrow>
    new \<in> set (valid_transitions st) \<or> st = new \<Longrightarrow> is_active_status st"
  by (cases st) (auto simp: is_active_status_def)

lemma wf_unique: "ledger_wf m \<Longrightarrow> find_task m i = Some u \<Longrightarrow> t \<in> set (l_tasks m) \<Longrightarrow> t_id t = i \<Longrightarrow> t = u"
  using wf_find_task [of m t] by simp

lemma calm_wf_status:
  assumes "calm_wf X l m" and "calm X l (set_task_status i st ph su er m)"
  shows "calm_wf X l (set_task_status i st ph su er m)"
  using assms by (simp add: calm_wf_def wf_intros) (simp add: set_task_status_def)

lemma calm_transition:
  assumes "new \<noteq> QUEUED \<or> i \<in> X \<or> (\<forall>t \<in> set (l_tasks l). t_id t = i \<longrightarrow> t_worktree_path t \<noteq> [])"
  shows "keepsA (calm_wf X l) (transition i new)"
  unfolding transition_def
proof (rule keepsA_lift_bind)
  fix m u assume m: "calm_wf X l m" and u: "get_task m i = Inr u"
  let ?ok = "new \<in> set (valid_transitions (t_status u)) \<or> t_status u = new"
  have "calm X l (set_task_status i new [] [] [] m)" if ?ok
  proof (cases "is_active_status new \<and> new \<noteq> QUEUED")
    case True
    then have "is_active_status (t_status u)" using that activating by blast
    then show ?thesis using m u by (intro calm_keep_active) (auto simp: calm_wf_def get_task_Inr dest: wf_unique)
  next
    case False
    then show ?thesis using m assms by (intro calm_set_status) (auto simp: calm_wf_def is_active_status_def)
  qed
  then show "calm_wf X l (snd (thenA (guardA ?ok (InvalidTransition i (t_status u) new))
      (modA (set_task_status i new [] [] [])) m))"
    using m by (auto simp: thenA_def bindA_def guardA_def retA_def raiseA_def modA_def intro: calm_wf_status)
qed

lemma calm_wf_writes:
  assumes "calm_wf X l m"
  shows "calm_wf X l (set_active_turn i tu m)" "calm_wf X l (clear_active_turn i m)"
    "calm_wf X l (increment_changed_files i d m)" "calm_wf X l (increment_pending_approvals i d m)"
    "calm_wf X l (set_token_usage i ti to m)" "calm_wf X l (set_force_parallel i m)"
    "calm_wf X l (set_thread_id i th m)" "calm_wf X l (insert_event j ty p m)"
    "calm_wf X l (create_approval j rq it tur k su cm ms m)" "calm_wf X l (record_touched_file j fp fk m)"
    "calm_wf X l (record_codex_usage_event tk pl m)" "calm_wf X l (append_task_log sv j tx m)"
  using assms by (simp_all add: calm_wf_def wf_intros wf_frame calm_writes)
    (simp_all add: task_update_defs set_thread_id_def)

lemmas calm_keeps_writes =
keepsA_mod [of "calm_wf X l", OF calm_wf_writes(1)] keepsA_mod [of "calm_wf X l", OF calm_wf_writes(2)]
  keepsA_mod [of "calm_wf X l", OF calm_wf_writes(3)] keepsA_mod [of "calm_wf X l", OF calm_wf_writes(4)]
  keepsA_mod [of "calm_wf X l", OF calm_wf_writes(5)] keepsA_mod [of "calm_wf X l", OF calm_wf_writes(6)]
  keepsA_mod [of "calm_wf X l", OF calm_wf_writes(7)] keepsA_mod [of "calm_wf X l", OF calm_wf_writes(8)]
  keepsA_mod [of "calm_wf X l", OF calm_wf_writes(9)] keepsA_mod [of "calm_wf X l", OF calm_wf_writes(10)]
  keepsA_mod [of "calm_wf X l", OF calm_wf_writes(11)] keepsA_mod [of "calm_wf X l", OF calm_wf_writes(12)]
  for X l

lemma calm_keeps_status:
  assumes "i \<in> X \<or> \<not> is_active_status st \<or>
      (\<forall>t \<in> set (l_tasks l). t_id t = i \<longrightarrow> is_active_status (t_status t) \<or> t_worktree_path t \<noteq> [])"
  shows "keepsA (calm_wf X l) (modA (set_task_status i st ph su er))"
  using assms by (intro keepsA_mod calm_wf_status calm_set_status) (auto simp: calm_wf_def)

lemma inactive_keeps_status:
  "\<not> is_active_status st \<Longrightarrow> keepsA (calm_wf X l) (modA (set_task_status i st ph su er))"
  by (simp add: calm_keeps_status)

text \<open>A task of the ledger may be written back with the status it had there.\<close>

lemma snapshot_keeps_status:
  assumes "ledger_wf l" and "t \<in> set (l_tasks l)" and "is_active_status st \<Longrightarrow> is_active_status (t_status t)"
  shows "keepsA (calm_wf X l) (modA (set_task_status (t_id t) st ph su er))"
  using assms wf_unique [OF assms(1) wf_find_task [OF assms(1,2)]]
  by (intro calm_keeps_status) blast

lemma calm_event: "keepsA (calm_wf X l) (task_event_add i ty p)"
  by (simp add: task_event_add_def calm_keeps_writes)

lemma calm_checks:
  "keepsA (calm_wf X l) assert_submission_allowed" "keepsA (calm_wf X l) (ensure_workspace_available al ex)"
  "keepsA (calm_wf X l) (require_waiting_slot i t)" "keepsA (calm_wf X l) (record_workspace_baseline g i w ph)"
  by (simp_all add: assert_submission_allowed_def ensure_workspace_available_def
      require_waiting_slot_def record_workspace_baseline_def keepsA_lift keepsA_guard calm_event)

lemma inactive_statuses [simp]:
  "\<not> is_active_status DONE" "\<not> is_active_status FAILED" "\<not> is_active_status ABORTED"
  "\<not> is_active_status ARCHIVED" "\<not> is_active_status WAITING_SLOT"
  "is_active_status QUEUED" "is_active_status RUNNING" "is_active_status PAUSED"
  "is_active_status WAITING_APPROVAL"
  by (simp_all add: is_active_status_def)

lemma calm_transition_away: "new \<noteq> QUEUED \<Longrightarrow> keepsA (calm_wf X l) (transition i new)"
  by (simp add: calm_transition)

lemmas calm_parts = keeps_intros calm_keeps_writes calm_event calm_checks

subsection \<open>Backend events\<close>

lemma calm_mark_running: "keepsA (calm_wf X l) (mark_running_from_backend_activity t)"
  unfolding mark_running_from_backend_activity_def by (intro calm_parts calm_transition_away) simp

lemma calm_mark_failed: "keepsA (calm_wf X l) (mark_backend_failed i e ph ty p)"
  unfolding mark_backend_failed_def by (intro calm_parts inactive_keeps_status) simp

lemma calm_finish:
  assumes "ledger_wf l" and "managed_active l" and t: "t \<in> set (l_tasks l)"
  shows "keepsA (calm_wf {} l) (finish_completed_turn t)"
  unfolding finish_completed_turn_def
proof (rule keepsA_bind [OF keepsA_get], rule keepsA_if)
  show "keepsA (calm_wf {} l) (if t_status t = PAUSED
      then modA (set_task_status (t_id t) PAUSED ''waiting_approval'' [] [])
      else transition (t_id t) WAITING_APPROVAL)"
    by (cases "t_status t = PAUSED")
       (simp_all add: snapshot_keeps_status [OF assms(1) t] calm_transition_away)
next
  have fin: "keepsA (calm_wf {} l) (thenA (transition (t_id t) DONE)
      (whenA (t_last_summary t \<noteq> []) (modA (set_task_status (t_id t) DONE [] (t_last_summary t) []))))"
    by (intro calm_parts calm_transition_away inactive_keeps_status) simp_all
  have run: "keepsA (calm_wf {} l) (modA (set_task_status (t_id t) RUNNING [] [] []))"
    if "task_has_running_orchestration l (t_id t)"
    using that assms(2) t by (intro snapshot_keeps_status [OF assms(1) t]) (auto simp: managed_active_def)
  show "keepsA (calm_wf {} l) (bindA (getA (\<lambda>l. task_has_running_orchestration l (t_id t))) (\<lambda>managed.
       if managed then modA (set_task_status (t_id t) RUNNING [] [] [])
       else thenA (transition (t_id t) DONE)
            (whenA (t_last_summary t \<noteq> []) (modA (set_task_status (t_id t) DONE [] (t_last_summary t) [])))))"
  proof (rule keepsA_get_bind)
    fix m assume m: "calm_wf {} l m"
    then have "task_has_running_orchestration m (t_id t) = task_has_running_orchestration l (t_id t)"
      unfolding task_has_running_orchestration_def calm_wf_def by (simp only:)
    then show "calm_wf {} l (snd ((if task_has_running_orchestration m (t_id t)
        then modA (set_task_status (t_id t) RUNNING [] [] [])
        else thenA (transition (t_id t) DONE)
            (whenA (t_last_summary t \<noteq> []) (modA (set_task_status (t_id t) DONE [] (t_last_summary t) [])))) m))"
      using keepsA_D [OF fin m] keepsA_D [OF run m]
      by (cases "task_has_running_orchestration l (t_id t)") simp_all
  qed
qed

lemma calm_with_task:
  assumes "ledger_wf l" and "\<And>t. t \<in> set (l_tasks l) \<Longrightarrow> keepsA (calm_wf {} l) (f t)"
  shows "calm_wf {} l (snd (with_task p f l))"
proof (cases "find_task_by_thread_id l (payload_str p ''threadId'')")
  case None
  then show ?thesis
    using assms(1) by (simp add: with_task_def bindA_def getA_def retA_def calm_wf_def)
next
  case (Some t)
  then have "t \<in> set (l_tasks l)"
    by (auto simp: find_task_by_thread_id_def split: option.splits dest!: first_order_desc_max)
  then have "keepsA (calm_wf {} l) (f t)" by (rule assms(2))
  then show ?thesis
    using Some assms(1) keepsA_D [of "calm_wf {} l" "f t" l]
    by (simp add: with_task_def bindA_def getA_def calm_wf_def)
qed

lemma calm_backend_event:
  assumes l: "ledger_wf l" and m: "managed_active l"
  shows "calm_wf {} l (snd (apply_backend_event sv ty p l))"
proof -
  note parts = calm_parts calm_mark_running calm_mark_failed calm_finish [OF l m]
    calm_transition_away inactive_keeps_status snapshot_keeps_status [OF l]
  have "calm_wf {} l (snd (on_turn_started p l))"
    unfolding on_turn_started_def Let_def by (rule calm_with_task [OF l], intro parts) simp_all
  moreover have "calm_wf {} l (snd (on_turn_completed p l))"
    unfolding on_turn_completed_def Let_def
    by (rule calm_with_task [OF l], intro parts) simp_all
  moreover have "calm_wf {} l (snd (on_approval_requested p l))"
    unfolding on_approval_requested_def Let_def
    by (rule calm_with_task [OF l], intro parts) simp_all
  moreover have "calm_wf {} l (snd (on_plan_updated p l))"
    unfolding on_plan_updated_def by (rule calm_with_task [OF l], intro parts)
  moreover have "calm_wf {} l (snd (on_diff_updated p l))"
    unfolding on_diff_updated_def Let_def by (rule calm_with_task [OF l], intro parts)
  moreover have "calm_wf {} l (snd (on_file_change_delta p l))"
    unfolding on_file_change_delta_def Let_def by (rule calm_with_task [OF l], intro parts)
  moreover have "calm_wf {} l (snd (on_token_usage_updated p l))"
    unfolding on_token_usage_updated_def by (rule calm_with_task [OF l], intro parts)
  moreover have "calm_wf {} l (snd (on_command_output_delta sv p l))"
    unfolding on_command_output_delta_def Let_def by (rule calm_with_task [OF l], intro parts)
  moreover have "calm_wf {} l (snd (on_agent_message_delta sv p l))"
    unfolding on_agent_message_delta_def Let_def by (rule calm_with_task [OF l], intro parts)
  moreover have "calm_wf {} l (snd (on_thread_status_changed p l))"
    unfolding on_thread_status_changed_def Let_def
    by (rule calm_with_task [OF l], intro parts)
  moreover have "calm_wf {} l (snd (on_item e p l))" for e
    unfolding on_item_def by (rule calm_with_task [OF l], intro parts)
  moreover have "calm_wf {} l (snd ((retA () :: unit task_act) l))"
    using l by (simp add: retA_def calm_wf_def)
  ultimately show ?thesis by (simp add: apply_backend_event_def)
qed

subsection \<open>User operations\<close>

lemma transition_Inl: "transition i new m = (Inl e, m') \<Longrightarrow> m' = m"
  by (auto simp: transition_def thenA_def bindA_def liftA_def guardA_def retA_def raiseA_def modA_def
      split: sum.splits if_splits)

lemma transition_Inr: "transition i new m = (Inr r, m') \<Longrightarrow> m' = set_task_status i new [] [] [] m"
  by (auto simp: transition_def thenA_def bindA_def liftA_def guardA_def retA_def raiseA_def modA_def
      split: sum.splits if_splits)

lemma normpath_not_Nil: "normpath p \<noteq> []"
  by (simp add: normpath_def Let_def)

lemma calm_abort: "keepsA (calm_wf X l) (abort_task i)"
  unfolding abort_task_def by (intro calm_parts calm_transition_away inactive_keeps_status) simp_all

lemma calm_archive: "keepsA (calm_wf X l) (archive_task i)"
  unfolding archive_task_def by (intro calm_parts calm_transition_away inactive_keeps_status) simp_all

lemma calm_pause: "keepsA (calm_wf X l) (pause_task i)"
  unfolding pause_task_def by (intro calm_parts calm_transition_away inactive_keeps_status) simp_all

lemma calm_fail: "keepsA (calm_wf X l) (fail_task i e)"
  unfolding fail_task_def by (intro calm_parts calm_transition_away inactive_keeps_status) simp_all

lemma calm_steer: "keepsA (calm_wf X l) (steer_task sv i pr)"
  unfolding steer_task_def by (intro calm_parts calm_transition_away inactive_keeps_status)

lemma calm_set_thread: "keepsA (calm_wf X l) (set_task_thread i th)"
  unfolding set_task_thread_def by (intro calm_parts calm_transition_away inactive_keeps_status)

lemma calm_merge: "keepsA (calm_wf X l) (merge_worktree sv g i)"
  unfolding merge_worktree_def
  by (intro calm_parts) (auto split: proc.splits intro!: calm_parts)

lemma calm_discard: "keepsA (calm_wf X l) (discard_worktree sv g i)"
  unfolding discard_worktree_def
  by (intro calm_parts) (auto split: proc.splits intro!: calm_parts)

lemma calm_wf_worktree: "calm_wf X l m \<Longrightarrow> wp \<noteq> [] \<Longrightarrow> calm_wf X l (set_worktree_info i wp wb m)"
  by (simp add: calm_wf_def wf_intros calm_set_worktree) (simp add: set_worktree_info_def)

lemma calm_setup_worktree: "keepsA (calm_wf X l) (setup_worktree sv g i slug)"
  unfolding setup_worktree_def Let_def
  by (intro calm_parts)
     (auto split: proc.splits simp: worktree_location_def abspath_def normpath_not_Nil
       intro!: calm_parts keepsA_mod calm_wf_worktree)

lemma calm_start_worktree:
  assumes "ledger_wf l"
  shows "calm_wf {} l (snd (start_worktree_task i l))"
proof -
  have l: "calm_wf {} l l" using assms by (simp add: calm_wf_def)
  show ?thesis
  proof (cases "find_task l i")
    case None
    then show ?thesis using l
      by (simp add: start_worktree_task_def bindA_def liftA_def get_task_def)
  next
    case (Some t)
    have "keepsA (calm_wf {} l) (thenA (require_waiting_slot i t)
       (thenA (guardA (t_worktree_path t \<noteq> []) (RuntimeError (NoWorktreePath i)))
       (bindA (liftA (get_stored_prompt i)) (\<lambda>prompt.
        thenA (transition i QUEUED)
        (thenA (task_event_add i ''worktree_task_started''
               [(''worktree_path'', JStr (t_worktree_path t)), (''branch'', JStr (t_worktree_branch t))])
        (bindA (liftA (\<lambda>l. get_task l i)) (\<lambda>t'. retA (t', prompt, t_worktree_path t))))))))"
      using wf_unique [OF assms Some]
      by (intro calm_parts keepsA_guard_then calm_transition) auto
    from keepsA_D [OF this l] show ?thesis
      using Some by (simp add: start_worktree_task_def bindA_def liftA_def get_task_Some)
  qed
qed

lemma calm_force:
  assumes "calm_wf {i} l m"
  shows "calm_wf {} l (set_force_parallel i m)"
proof -
  have "list_all2 (calm_task {}) (l_tasks l)
      (map (\<lambda>t. if t_id t = i then t\<lparr>t_is_force_parallel := True\<rparr>\<lparr>t_updated_at := db_now m\<rparr> else t) (l_tasks m))"
    unfolding list_all2_map2
  proof (rule list.rel_mono_strong)
    show "list_all2 (calm_task {i}) (l_tasks l) (l_tasks m)"
      using assms by (simp add: calm_wf_def calm_def)
  qed (auto simp: calm_task_def is_holder_def)
  moreover have "ledger_wf (set_force_parallel i m)" using assms by (simp add: calm_wf_def wf_intros)
  ultimately show ?thesis
    using assms by (simp add: calm_wf_def) (simp add: calm_def set_force_parallel_def upd_task_def upd_rows_def)
qed

lemma calm_mono: "calm_wf {} l m \<Longrightarrow> calm_wf X l m"
  by (auto simp: calm_wf_def calm_def calm_task_def elim!: list.rel_mono_strong)

lemma calm_force_transition:
  assumes "keepsA (calm_wf {} l) k"
  shows "keepsA (calm_wf {} l) (thenA (transition i QUEUED) (thenA (modA (set_force_parallel i)) k))"
proof (unfold keepsA_def, intro allI impI)
  fix m assume m: "calm_wf {} l m"
  obtain r m' where tr: "transition i QUEUED m = (r, m')" by (cases "transition i QUEUED m")
  have c: "calm_wf {i} l m'"
    using keepsA_D [OF calm_transition [of QUEUED i "{i}" l] calm_mono [OF m]] tr by simp
  show "calm_wf {} l (snd (thenA (transition i QUEUED) (thenA (modA (set_force_parallel i)) k) m))"
  proof (cases r)
    case (Inl e)
    with tr have "m' = m" by (auto dest: transition_Inl)
    with tr Inl m show ?thesis by (simp add: thenA_def bindA_def)
  next
    case (Inr u)
    with tr keepsA_D [OF assms calm_force [OF c]] show ?thesis
      by (simp add: thenA_def bindA_def modA_def)
  qed
qed

lemma calm_force_parallel: "keepsA (calm_wf {} l) (force_parallel_start sv g i)"
  unfolding force_parallel_start_def
  by (intro keepsA_then keepsA_bind keepsA_lift calm_checks calm_force_transition calm_event keepsA_ret)

section \<open>Exclusiveness\<close>

lemma calm_D:
  assumes "calm X l m" and "t' \<in> set (l_tasks m)"
  obtains t where "t \<in> set (l_tasks l)" "calm_task X t t'"
proof -
  from assms(2) obtain k where k: "k < length (l_tasks m)" "t' = l_tasks m ! k"
    by (auto simp: in_set_conv_nth)
  then have "k < length (l_tasks l)" and "calm_task X (l_tasks l ! k) t'"
    using assms(1) by (auto simp: calm_def list_all2_conv_all_nth)
  then show ?thesis using that nth_mem by blast
qed

lemma exclusive_calm_one:
  assumes c: "calm {i} l m" and l: "lock_exclusive l"
    and al: "\<And>t. t \<in> set (l_tasks l) \<Longrightarrow> t_id t = i \<Longrightarrow> t_workspace_alias t = al"
    and free: "\<And>t. t \<in> set (l_tasks l) \<Longrightarrow> is_holder t \<Longrightarrow> t_workspace_alias t = al \<Longrightarrow> t_id t = i"
  shows "lock_exclusive m"
  unfolding lock_exclusive_def
proof (intro ballI impI)
  fix t' u' assume m: "t' \<in> set (l_tasks m)" "u' \<in> set (l_tasks m)"
    and h: "is_holder t' \<and> is_holder u' \<and> t_workspace_alias t' = t_workspace_alias u'"
  obtain t where t: "t \<in> set (l_tasks l)" "calm_task {i} t t'" using calm_D [OF c m(1)] .
  obtain u where u: "u \<in> set (l_tasks l)" "calm_task {i} u u'" using calm_D [OF c m(2)] .
  have same: "t_id t' = t_id t" "t_id u' = t_id u" "t_workspace_alias t = t_workspace_alias u"
    and ht: "t_id t = i \<or> is_holder t" and hu: "t_id u = i \<or> is_holder u"
    using t u h by (auto simp: calm_task_def)
  have "t_id t = t_id u"
    using ht hu same(3) al free t(1) u(1) l unfolding lock_exclusive_def by metis
  then show "t_id t' = t_id u'" by (simp add: same)
qed

lemma exclusive_calm:
  assumes c: "calm {} l m" and l: "lock_exclusive l"
  shows "lock_exclusive m"
  unfolding lock_exclusive_def
proof (intro ballI impI)
  fix t' u' assume m: "t' \<in> set (l_tasks m)" "u' \<in> set (l_tasks m)"
    and h: "is_holder t' \<and> is_holder u' \<and> t_workspace_alias t' = t_workspace_alias u'"
  obtain t where t: "t \<in> set (l_tasks l)" "calm_task {} t t'" using calm_D [OF c m(1)] .
  obtain u where u: "u \<in> set (l_tasks l)" "calm_task {} u u'" using calm_D [OF c m(2)] .
  have "is_holder t" "is_holder u" "t_workspace_alias t = t_workspace_alias u"
    and same: "t_id t' = t_id t" "t_id u' = t_id u"
    using t(2) u(2) h by (simp_all add: calm_task_def)
  then have "t_id t = t_id u" using l t(1) u(1) unfolding lock_exclusive_def by blast
  then show "t_id t' = t_id u'" by (simp add: same)
qed

lemma exclusive_create:
  assumes "lock_exclusive l" and "l_tasks m = l_tasks l @ [t]"
    and "\<And>u. is_holder t \<Longrightarrow> u \<in> set (l_tasks l) \<Longrightarrow> is_holder u \<Longrightarrow> t_workspace_alias u \<noteq> t_workspace_alias t"
  shows "lock_exclusive m"
  unfolding lock_exclusive_def
proof (intro ballI impI)
  fix x y assume m: "x \<in> set (l_tasks m)" "y \<in> set (l_tasks m)"
    and h: "is_holder x \<and> is_holder y \<and> t_workspace_alias x = t_workspace_alias y"
  consider "x = t" "y = t" | "x = t" "y \<in> set (l_tasks l)" | "x \<in> set (l_tasks l)" "y = t"
    | "x \<in> set (l_tasks l)" "y \<in> set (l_tasks l)"
    using m assms(2) by auto
  then show "t_id x = t_id y"
  proof cases
    case 4
    then show ?thesis using assms(1) h unfolding lock_exclusive_def by blast
  qed (use h assms(3) in \<open>fastforce+\<close>)
qed

lemma exclusive_same: "l_tasks m = l_tasks l \<Longrightarrow> lock_exclusive m = lock_exclusive l"
  by (simp add: lock_exclusive_def)

text \<open>The invariant of a run.\<close>

definition lock_inv :: "ledger \<Rightarrow> bool" where
  "lock_inv l \<longleftrightarrow> ledger_wf l \<and> lock_exclusive l"

lemma lock_inv_calm: "calm_wf {} l m \<Longrightarrow> lock_inv l \<Longrightarrow> lock_inv m"
  by (auto simp: lock_inv_def calm_wf_def intro: exclusive_calm)

lemma lock_inv_refl: "lock_inv l \<Longrightarrow> calm_wf X l l"
  by (simp add: lock_inv_def calm_wf_def)

lemma keeps_calm:
  assumes "\<And>l. keepsA (calm_wf {} l) a"
  shows "keepsA lock_inv a"
proof (unfold keepsA_def, intro allI impI)
  fix l assume l: "lock_inv l"
  show "lock_inv (snd (a l))"
    using keepsA_D [OF assms lock_inv_refl [OF l]] l by (rule lock_inv_calm)
qed

lemma workspace_alias: "get_workspace sv al = Inr w \<Longrightarrow> ws_alias w = al"
  by (auto simp: get_workspace_def split: option.splits dest: find_SomeD)

lemma writable_alias: "ensure_workspace_writable sv al = Inr w \<Longrightarrow> ws_alias w = al"
  by (auto simp: ensure_workspace_writable_def workspace_alias split: sum.splits if_splits)

lemma create_tasks: "l_tasks (snd (create_task al pa tt th pr ch st l)) =
    l_tasks l @ [new_task (l_next_task l) (db_now l) al pa tt th pr ch st]"
  using create_task_fields [OF surjective_pairing [of "create_task al pa tt th pr ch st l"]] by simp

lemma reserve_tasks:
  "l_tasks (snd (reserve_task sv g al p ch pa l)) = l_tasks l \<or>
   active_write_task (list_tasks 100 False l) al None = None \<and>
   (\<exists>t. l_tasks (snd (reserve_task sv g al p ch pa l)) = l_tasks l @ [t] \<and> t_workspace_alias t = al)"
  using create_task_fields
  by (fastforce simp: reserve_task_def thenA_def bindA_def liftA_def stepA_def retA_def modA_def
      assert_submission_allowed_def ensure_workspace_available_def task_event_add_def
      record_workspace_baseline_def create_tasks case_prod_beta new_task_def
      split: sum.splits option.splits dest: writable_alias)

lemma start_tasks:
  "l_tasks (snd (start_task sv g al p th ch pa l)) = l_tasks l \<or>
   active_write_task (list_tasks 100 False l) al None = None \<and>
   (\<exists>t. l_tasks (snd (start_task sv g al p th ch pa l)) = l_tasks l @ [t] \<and> t_workspace_alias t = al)"
  by (fastforce simp: start_task_def thenA_def bindA_def liftA_def stepA_def retA_def modA_def
      assert_submission_allowed_def ensure_workspace_available_def task_event_add_def
      record_workspace_baseline_def create_tasks case_prod_beta new_task_def
      split: sum.splits option.splits dest: workspace_alias)

lemma reserve_waiting_tasks:
  "l_tasks (snd (reserve_waiting_task sv al p ch pa bl l)) = l_tasks l \<or>
   (\<exists>t. l_tasks (snd (reserve_waiting_task sv al p ch pa bl l)) = l_tasks l @ [t] \<and> \<not> is_holder t)"
  by (fastforce simp: reserve_waiting_task_def thenA_def bindA_def liftA_def stepA_def retA_def modA_def
      assert_submission_allowed_def task_event_add_def is_holder_def
      create_tasks case_prod_beta new_task_def split: sum.splits)

lemma lock_inv_create:
  assumes "within_scan l" "lock_inv l" "ledger_wf m"
    and "l_tasks m = l_tasks l \<or> active_write_task (list_tasks 100 False l) al None = None \<and>
      (\<exists>t. l_tasks m = l_tasks l @ [t] \<and> t_workspace_alias t = al)"
  shows "lock_inv m"
proof (cases "l_tasks m = l_tasks l")
  case True
  then show ?thesis using assms(2,3) exclusive_same [of m l] by (simp add: lock_inv_def)
next
  case False
  then obtain t where t: "l_tasks m = l_tasks l @ [t]" "t_workspace_alias t = al"
    and free: "active_write_task (list_tasks 100 False l) al None = None"
    using assms(4) by blast
  have "lock_exclusive m"
    using assms(2) t scan_free [OF assms(1) free]
    by (intro exclusive_create [of l m t]) (auto simp: lock_inv_def)
  then show ?thesis using assms(3) by (simp add: lock_inv_def)
qed

lemma lock_inv_waiting:
  assumes "lock_inv l" "ledger_wf m"
    and "l_tasks m = l_tasks l \<or> (\<exists>t. l_tasks m = l_tasks l @ [t] \<and> \<not> is_holder t)"
  shows "lock_inv m"
  using assms exclusive_same [of m l] exclusive_create [of l m] by (auto simp: lock_inv_def)

subsection \<open>Continuing a task\<close>

lemma calm_continue_tail:
  "keepsA (calm_wf {i} l) (thenA (transition i QUEUED) (thenA (modA (clear_active_turn i))
     (thenA (task_event_add j ty p) (liftA (\<lambda>l. get_task l i)))))"
  by (intro calm_parts calm_transition) simp

lemma lock_inv_one:
  assumes "calm_wf {i} l m" and l: "lock_inv l" and t: "find_task l i = Some t"
    and free: "\<And>u. u \<in> set (l_tasks l) \<Longrightarrow> is_holder u \<Longrightarrow> t_workspace_alias u = t_workspace_alias t \<Longrightarrow> t_id u = i"
  shows "lock_inv m"
proof -
  have "u = t" if "u \<in> set (l_tasks l)" "t_id u = i" for u
    using wf_unique [OF _ t that] l by (simp add: lock_inv_def)
  then have al: "\<And>u. u \<in> set (l_tasks l) \<Longrightarrow> t_id u = i \<Longrightarrow> t_workspace_alias u = t_workspace_alias t"
    by blast
  have "calm {i} l m" "lock_exclusive l" using assms(1) l by (simp_all add: calm_wf_def lock_inv_def)
  then have "lock_exclusive m" using al free by (rule exclusive_calm_one)
  then show ?thesis using assms(1) by (simp add: lock_inv_def calm_wf_def)
qed

lemma lock_inv_continue:
  assumes "within_scan l" and l: "lock_inv l"
  shows "lock_inv (snd (continue_task sv i p th l))"
proof (cases "find_task l i")
  case None
  then show ?thesis using l by (simp add: continue_task_def bindA_def liftA_def get_task_def)
next
  case (Some t)
  let ?tail = "thenA (transition i QUEUED) (thenA (modA (clear_active_turn i))
     (thenA (task_event_add (t_id t) ''user_continue''
        [(''prompt'', JStr p), (''context_policy'', JStr ''explicit_resume_only'')])
     (liftA (\<lambda>l. get_task l i))))"
  have cases: "snd (continue_task sv i p th l) = l \<or>
      active_write_task (list_tasks 100 False l) (t_workspace_alias t) (Some i) = None \<and>
      snd (continue_task sv i p th l) = snd (?tail l)"
    using Some by (simp add: continue_task_def run_simps ensure_workspace_available_def get_task_Some
        split: sum.splits option.splits)
  show ?thesis
  proof (cases "snd (continue_task sv i p th l) = l")
    case True
    with l show ?thesis by simp
  next
    case False
    with cases have free: "active_write_task (list_tasks 100 False l) (t_workspace_alias t) (Some i) = None"
      and eq: "snd (continue_task sv i p th l) = snd (?tail l)" by auto
    have "calm_wf {i} l (snd (?tail l))"
      by (rule keepsA_D [OF calm_continue_tail lock_inv_refl [OF l]])
    moreover have "t_id u = i" if "u \<in> set (l_tasks l)" "is_holder u"
        "t_workspace_alias u = t_workspace_alias t" for u
      using scan_free [OF assms(1) free that] by simp
    ultimately show ?thesis unfolding eq using l Some by (blast intro: lock_inv_one)
  qed
qed

subsection \<open>Draining the queue\<close>

lemma calm_promote:
  assumes "ledger_wf l"
  shows "keepsA (calm_wf {i} l) (promote_waiting_task sv g i)"
  unfolding promote_waiting_task_def by (intro calm_parts calm_transition) simp

lemma waiting_mem: "list_waiting_tasks l al = t # ts \<Longrightarrow>
    t \<in> set (l_tasks l) \<and> t_workspace_alias t = al \<and> t_status t = WAITING_SLOT"
proof -
  assume "list_waiting_tasks l al = t # ts"
  then have "t \<in> set (list_waiting_tasks l al)" by simp
  then show ?thesis by (auto simp: list_waiting_tasks_def)
qed

lemma keeps_drain_start:
  assumes "\<And>x. lock_inv x \<Longrightarrow> lock_inv (env1 x)" "\<And>x. lock_inv x \<Longrightarrow> lock_inv (env2 x)"
  shows "keepsA lock_inv (drain_start b env1 env2 i path prompt)"
  unfolding drain_start_def by (intro keeps_intros keepsA_mod assms keeps_calm [OF calm_set_thread])

lemma lock_inv_drain:
  assumes "within_scan l" and l: "lock_inv l"
    and env: "\<And>x. lock_inv x \<Longrightarrow> lock_inv (env1 x)" "\<And>x. lock_inv x \<Longrightarrow> lock_inv (env2 x)"
  shows "lock_inv (snd (drain_workspace sv g b env1 env2 al l))"
proof (cases "active_write_task (list_tasks 100 False l) al None")
  case (Some t)
  then show ?thesis using l by (simp add: drain_workspace_def run_simps)
next
  case None
  show ?thesis
  proof (cases "list_waiting_tasks l al")
    case Nil
    then show ?thesis using None l by (simp add: drain_workspace_def run_simps)
  next
    case (Cons t ts)
    let ?h = "\<lambda>e. if is_runtime_error e
       then thenA (fail_task (t_id t) ''missing stored prompt'') (retA None) else raiseA e"
    let ?k = "\<lambda>promoted. case promoted of None \<Rightarrow> retA None
      | Some (t, prompt) \<Rightarrow> bindA (liftA (\<lambda>_. get_workspace sv al)) (\<lambda>w.
          bindA (catchA (thenA (drain_start b env1 env2 (t_id t) (ws_path w) prompt) (retA True))
                   (\<lambda>e. thenA (fail_task (t_id t) (exn_text e)) (retA False)))
          (\<lambda>ok. if ok then bindA (liftA (\<lambda>l. get_task l (t_id t))) (\<lambda>t'. retA (Some t'))
                else retA None))"
    let ?p = "bindA (promote_waiting_task sv g (t_id t)) (\<lambda>r. retA (Some r))"
    have t: "find_task l (t_id t) = Some t" "t_workspace_alias t = al"
      using waiting_mem [OF Cons] l by (simp_all add: lock_inv_def wf_find_task)
    have free: "t_id u = t_id t" if "u \<in> set (l_tasks l)" "is_holder u"
        "t_workspace_alias u = t_workspace_alias t" for u
      using scan_free [OF assms(1) None that(1,2)] that(3) t(2) by simp
    have "keepsA (calm_wf {t_id t} l) (catchA ?p ?h)"
      by (intro keeps_intros calm_promote calm_fail) (use l in \<open>simp add: lock_inv_def\<close>)
    then have "calm_wf {t_id t} l (snd (catchA ?p ?h l))"
      using lock_inv_refl [OF l] by (rule keepsA_D)
    then have "lock_inv (snd (catchA ?p ?h l))" using l t(1) free by (blast intro: lock_inv_one)
    moreover have "keepsA lock_inv (?k x)" for x
      by (intro keeps_intros keeps_drain_start env keeps_calm [OF calm_fail])
    ultimately have "lock_inv (snd (bindA (catchA ?p ?h) ?k l))"
      by (rule keepsA_after)
    moreover have "drain_workspace sv g b env1 env2 al l = bindA (catchA ?p ?h) ?k l"
      using None Cons by (simp add: drain_workspace_def run_simps)
    ultimately show ?thesis by simp
  qed
qed

section \<open>Whole runs\<close>

lemma keeps_recovery: "lock_inv l \<Longrightarrow> lock_inv (snd (mark_active_tasks_recovery_paused l))"
proof -
  assume l: "lock_inv l"
  have "calm {} l (snd (mark_active_tasks_recovery_paused l))"
    unfolding calm_def recovery_tasks upd_rows_def list_all2_map2
  proof (intro list.rel_refl_strong)
    fix t assume t: "t \<in> set (l_tasks l)"
    have "is_active_status (t_status t)" if "t_id t = t_id u" "u \<in> set (recovery_candidates l)" for u
    proof -
      have "u \<in> set (l_tasks l)" "t_status u \<in> {RUNNING, QUEUED, WAITING_APPROVAL}"
        using that(2) by (auto simp: recovery_candidates_def)
      moreover have "t = u"
        using wf_unique [of l "t_id u" u t] wf_find_task [of l u] t l that(1) calculation(1)
        unfolding lock_inv_def by blast
      ultimately show ?thesis by (auto simp: is_active_status_def)
    qed
    then show "calm_task {} t (if t_id t \<in> set (map t_id (recovery_candidates l))
        then t\<lparr>t_status := PAUSED, t_updated_at := db_now l\<rparr> else t)"
      by (auto simp: calm_task_def is_holder_def)
  qed
  then show ?thesis
    using l exclusive_calm wf_recovery by (auto simp: lock_inv_def)
qed

lemma keeps_liveness:
  assumes "lock_inv l"
  shows "lock_inv (mark_task_timeout i st age th l)" "lock_inv (mark_backend_dead i summary l)"
proof -
  have "calm {} l (mark_task_timeout i st age th l)" "calm {} l (mark_backend_dead i summary l)"
    by (simp_all add: mark_task_timeout_def mark_backend_dead_def Let_def calm_writes calm_set_status)
  then show "lock_inv (mark_task_timeout i st age th l)" "lock_inv (mark_backend_dead i summary l)"
    using assms exclusive_calm by (auto simp: lock_inv_def wf_liveness)
qed

lemma lock_inv_cmd:
  assumes "within_scan l" and "managed_active l" and "\<not> is_promote c" and l: "lock_inv l"
  shows "lock_inv (exec_cmd sv g c l)"
proof -
  have wf: "ledger_wf l" using l by (simp add: lock_inv_def)
  note calm_op = keepsA_D [OF keeps_calm]
  show ?thesis
  proof (cases c)
    case (Reserve al p ch pa)
    show ?thesis unfolding Reserve exec_cmd.simps
      using assms(1) l keepsA_D [OF wf.keeps_reserve wf] reserve_tasks by (rule lock_inv_create)
  next
    case (Start al p th ch pa)
    show ?thesis unfolding Start exec_cmd.simps
      using assms(1) l keepsA_D [OF wf.keeps_start wf] start_tasks by (rule lock_inv_create)
  next
    case (ReserveWaiting al p ch pa bl)
    show ?thesis unfolding ReserveWaiting exec_cmd.simps
      using l keepsA_D [OF wf.keeps_reserve_waiting wf] reserve_waiting_tasks by (rule lock_inv_waiting)
  qed (use assms in \<open>simp_all add: lock_inv_continue calm_op [OF calm_force_parallel]
      calm_op [OF calm_setup_worktree] calm_op [OF calm_merge] calm_op [OF calm_discard]
      calm_op [OF calm_set_thread] calm_op [OF calm_steer] calm_op [OF calm_pause]
      calm_op [OF calm_abort] calm_op [OF calm_archive] calm_op [OF calm_fail]
      lock_inv_calm [OF calm_start_worktree [OF wf]]
      lock_inv_calm [OF calm_backend_event [OF wf assms(2)]]\<close>)
qed

lemma lock_run_inv: "lock_run sv l m \<Longrightarrow> lock_inv l \<Longrightarrow> lock_inv m"
proof (induction rule: lock_run.induct)
  case (drain sv l m env1 env2 g b al)
  then show ?case by (intro lock_inv_drain) auto
next
  case (clock sv l m n)
  then show ?case by (simp add: lock_inv_def wf_frame exclusive_same [of "m\<lparr>db_now := n\<rparr>" m])
qed (simp_all add: lock_inv_cmd keeps_recovery keeps_liveness)

end
