(* ===== verification/Task_Properties.thy ===== *)
theory Task_Properties
  imports Task_Lock
begin

text \<open>
  What the task service guarantees: invariants of whole runs, the behaviour of each operation on
  its branches, the order of the waiting queue, and the places where the code does something other
  than its comments or its transition table say. A small concrete service and ledger serve as the
  input on which each hypothesis is met.
\<close>

section \<open>A concrete service\<close>

definition demo_service :: service where
  "demo_service = \<lparr>sv_workspaces = [\<lparr>ws_alias = ''app'', ws_path = ''/srv/app'', ws_allow_write = True\<rparr>],
     sv_task_log_dir = True, sv_worktree_root = ''/srv/wt'', sv_cwd = ''/srv''\<rparr>"

definition demo_git :: git where
  "demo_git = \<lparr>g_rev_parse = (\<lambda>_. Ran 0 ''abc'' []), g_status_z = (\<lambda>_. Ran 0 [] []),
     g_status = (\<lambda>_. Ran 0 [] []), g_worktree_add = (\<lambda>_ _ _. Ran 0 [] []),
     g_worktree_remove = (\<lambda>_ _. Ran 0 [] []), g_branch_list = (\<lambda>_ b. Ran 0 b []),
     g_branch_delete = (\<lambda>_ _. Ran 0 [] []), g_merge = (\<lambda>_ _. Ran 0 [] []),
     g_merge_abort = (\<lambda>_. Ran 0 [] [])\<rparr>"

definition demo_backend :: backend where
  "demo_backend = \<lparr>b_create_thread = (\<lambda>_. Inr ''th''), b_start_turn = (\<lambda>_ _. Inr ())\<rparr>"

definition demo_task :: "row_id \<Rightarrow> task_status \<Rightarrow> task" where
  "demo_task i st = new_task i 0 ''app'' ''/srv/app'' ''title'' None None None st"

definition demo_ledger :: "task list \<Rightarrow> ledger" where
  "demo_ledger ts = (empty_ledger 0)\<lparr>l_tasks := ts, l_next_task := length ts + 1\<rparr>"

lemmas demo_defs = demo_service_def demo_git_def demo_backend_def demo_task_def demo_ledger_def
  empty_ledger_def new_task_def



section \<open>Whole runs\<close>







text \<open>No operation of the task service opens or closes the maintenance window, and a task's
  log never exceeds the configured cap.\<close>

theorem run_keeps_gate_and_logs:
  assumes "ts_run sv l m" and "logs_bounded l"
  shows "submissions_frozen m = submissions_frozen l \<and> (\<forall>i. length (log_of m i) \<le> max_log_bytes)"
proof
  have "db_window m = db_window l" using gate.run_keeps [OF assms(1), of "db_window l"] by simp
  then show "submissions_frozen m = submissions_frozen l" by (simp add: submissions_frozen_def)
  have "logs_bounded m" using logs.run_keeps [OF assms] .
  then show "\<forall>i. length (log_of m i) \<le> max_log_bytes"
    by (fastforce simp: log_of_def logs_bounded_def split: option.splits dest: map_of_SomeD)
qed

theorem run_keeps_gate_and_logs_witness:
  "let m = exec_cmd demo_service demo_git (Backend ''command_output_delta'' [(''delta'', JStr ''x'')])
             (empty_ledger 0)
   in submissions_frozen m = submissions_frozen (empty_ledger 0) \<and>
      (\<forall>i. length (log_of m i) \<le> max_log_bytes)"
  unfolding Let_def
  by (rule run_keeps_gate_and_logs [where sv = demo_service, OF ts_run.cmd [OF ts_run.init]])
     (simp add: logs_bounded_def empty_ledger_def)

section \<open>Submission\<close>

text \<open>C10. While the maintenance window is open, every operation that would put work on a backend
  (reserve, reserve for the queue, start, promote, force-parallel start) raises
  \<open>MaintenanceWindowError\<close> and leaves the ledger exactly as it was.\<close>

theorem frozen_blocks_submissions:
  assumes "submissions_frozen l"
  shows "reserve_task sv g al p ch pa l = (Inl MaintenanceWindowError, l) \<and>
    reserve_waiting_task sv al p ch pa bl l = (Inl MaintenanceWindowError, l) \<and>
    start_task sv g al p th ch pa l = (Inl MaintenanceWindowError, l) \<and>
    promote_waiting_task sv g i l = (Inl MaintenanceWindowError, l) \<and>
    force_parallel_start sv g i l = (Inl MaintenanceWindowError, l)"
  using assms by (simp add: reserve_task_def reserve_waiting_task_def start_task_def
      promote_waiting_task_def force_parallel_start_def assert_submission_allowed_def
      assert_submissions_open_def run_simps)

definition demo_frozen :: "task list \<Rightarrow> ledger" where
  "demo_frozen ts = (demo_ledger ts)\<lparr>db_window := Some \<lparr>w_submissions_frozen = True,
     w_opened_at = Some 0, w_closed_at = None, w_operator_note = [], w_updated_at = 0\<rparr>\<rparr>"

theorem frozen_blocks_submissions_witness:
  "submissions_frozen (demo_frozen []) \<and>
   reserve_task demo_service demo_git ''app'' ''p'' None None (demo_frozen []) =
     (Inl MaintenanceWindowError, demo_frozen [])"
proof -
  have "submissions_frozen (demo_frozen [])" by (simp add: demo_frozen_def submissions_frozen_def)
  then show ?thesis using frozen_blocks_submissions by blast
qed

text \<open>Reserving a task succeeds exactly when submissions are open, the workspace is known and
  writable and no active in-place task is in the scan; it then appends one queued task for that
  workspace under the next key, with a \<open>task_reserved\<close> event holding the prompt followed by the
  baseline event. A held lock is reported with the alias and the holder, and nothing is written.\<close>

theorem reserve_task_outcome:
  assumes "\<not> submissions_frozen l" and "ensure_workspace_writable sv al = Inr w"
  shows "case active_write_task (list_tasks 100 False l) al None of
      Some b \<Rightarrow> reserve_task sv g al p ch pa l = (Inl (WorkspaceBusy al (t_id b)), l)
    | None \<Rightarrow> \<exists>m t. reserve_task sv g al p ch pa l = (Inr t, m) \<and> t_status t = QUEUED \<and>
        t_workspace_alias t = al \<and> t_id t = l_next_task l \<and> l_tasks m = l_tasks l @ [t] \<and>
        map (\<lambda>e. (e_task_id e, e_event_type e)) (l_events m) =
          map (\<lambda>e. (e_task_id e, e_event_type e)) (l_events l) @
          [(t_id t, ''task_reserved''), (t_id t, ''task_workspace_baseline'')]"
proof (cases "active_write_task (list_tasks 100 False l) al None")
  case None
  obtain t m where cr: "create_task al (ws_path w) (task_title p) None pa ch QUEUED l = (t, m)"
    by fastforce
  show ?thesis
    using assms None writable_alias [OF assms(2)] create_task_fields [OF cr]
    by (simp add: reserve_task_def run_simps assert_submission_allowed_def assert_submissions_open_def
        ensure_workspace_available_def cr task_event_add_def record_workspace_baseline_def new_task_def)
       (simp add: insert_event_def)
next
  case (Some b)
  with assms show ?thesis
    by (simp add: reserve_task_def run_simps assert_submission_allowed_def assert_submissions_open_def
        ensure_workspace_available_def)
qed

theorem reserve_task_outcome_witness:
  "reserve_task demo_service demo_git ''app'' ''p'' None None (demo_ledger [demo_task 1 PAUSED]) =
     (Inl (WorkspaceBusy ''app'' 1), demo_ledger [demo_task 1 PAUSED])"
proof -
  have "\<not> submissions_frozen (demo_ledger [demo_task 1 PAUSED])"
    by (simp add: submissions_frozen_def demo_defs)
  moreover have "\<exists>w. ensure_workspace_writable demo_service ''app'' = Inr w"
    by (simp add: ensure_workspace_writable_def get_workspace_def demo_defs)
  moreover have "active_write_task (list_tasks 100 False (demo_ledger [demo_task 1 PAUSED])) ''app'' None =
      Some (demo_task 1 PAUSED)"
    by (simp add: list_tasks_def order_desc_def demo_defs active_write_statuses_def)
  ultimately show ?thesis
    using reserve_task_outcome [of "demo_ledger [demo_task 1 PAUSED]" demo_service "''app''"]
    by (auto simp: demo_task_def new_task_def)
qed

section \<open>The status machine\<close>

fun is_backend_cmd :: "task_cmd \<Rightarrow> bool" where
  "is_backend_cmd (Backend _ _) = True"
| "is_backend_cmd _ = False"

definition along_table :: "ledger \<Rightarrow> ledger \<Rightarrow> bool" where
  "along_table l m \<longleftrightarrow> (\<forall>i t. find_task l i = Some t \<longrightarrow>
     (\<exists>t'. find_task m i = Some t' \<and>
        (t_status t' = t_status t \<or> t_status t' \<in> set (valid_transitions (t_status t)))))"

lemma along_append:
  "l_tasks m = l_tasks l \<or> (\<exists>t. l_tasks m = l_tasks l @ [t]) \<Longrightarrow> along_table l m"
  by (auto simp: along_table_def find_task_def find_append)

lemmas status_defs = along_table_def run_simps get_task_def set_task_status_def clear_active_turn_def
  set_force_parallel_def set_thread_id_def set_worktree_info_def assert_submission_allowed_def
  require_waiting_slot_def record_workspace_baseline_def ensure_workspace_available_def

lemma along_user_ops:
  "along_table l (snd (pause_task i l))" "along_table l (snd (abort_task i l))"
  "along_table l (snd (archive_task i l))" "along_table l (snd (fail_task i e l))"
  "along_table l (snd (steer_task sv i p l))" "along_table l (snd (set_task_thread i th l))"
  "along_table l (snd (continue_task sv i p nt l))"
  by (auto simp: pause_task_def abort_task_def archive_task_def fail_task_def steer_task_def
      set_task_thread_def continue_task_def status_defs split: option.splits sum.splits)

lemma along_queue_ops:
  "along_table l (snd (promote_waiting_task sv g i l))" "along_table l (snd (force_parallel_start sv g i l))"
  "along_table l (snd (start_worktree_task i l))"
  by (auto simp: promote_waiting_task_def force_parallel_start_def start_worktree_task_def status_defs
      split: option.splits sum.splits)

lemma along_worktree_ops:
  "along_table l (snd (setup_worktree sv g i slug l))" "along_table l (snd (merge_worktree sv g i l))"
  "along_table l (snd (discard_worktree sv g i l))"
  by (auto simp: setup_worktree_def merge_worktree_def discard_worktree_def Let_def status_defs
      split: option.splits sum.splits proc.splits)

text \<open>Whatever a user command does, a task that existed keeps existing, and its status is the old
  one or a successor of the old one in the transition table; in particular an archived task stays
  archived.\<close>

theorem user_commands_follow_table:
  assumes "\<not> is_backend_cmd c" and "find_task l i = Some t"
  shows "\<exists>t'. find_task (exec_cmd sv g c l) i = Some t' \<and>
     (t_status t' = t_status t \<or> t_status t' \<in> set (valid_transitions (t_status t)))"
proof -
  have "along_table l (exec_cmd sv g c l)"
    using assms(1) along_user_ops along_queue_ops along_worktree_ops
      reserve_tasks [of sv g _ _ _ _ l] start_tasks [of sv g _ _ _ _ _ l] reserve_waiting_tasks [of sv _ _ _ _ _ l]
    by (cases c) (simp_all, (metis along_append)+)
  then show ?thesis using assms(2) by (simp add: along_table_def)
qed

theorem user_commands_follow_table_witness:
  "\<exists>t'. find_task (exec_cmd demo_service demo_git (Archive 1) (demo_ledger [demo_task 1 DONE])) 1 = Some t' \<and>
     (t_status t' = DONE \<or> t_status t' \<in> set (valid_transitions DONE))"
proof -
  have "find_task (demo_ledger [demo_task 1 DONE]) 1 = Some (demo_task 1 DONE)"
    and st: "t_status (demo_task 1 DONE) = DONE"
    by (simp_all add: find_task_def demo_defs)
  then show ?thesis
    using user_commands_follow_table [of "Archive 1" "demo_ledger [demo_task 1 DONE]" 1 "demo_task 1 DONE"]
    by (simp del: exec_cmd.simps valid_transitions.simps)
qed

text \<open>A task's identity (key, workspace, path, title, parent, creation time) never changes, no
  task is ever removed, and new tasks are added behind the existing ones.\<close>

theorem task_identity_immutable:
  assumes "ts_run sv l m"
  shows "prefix (map task_identity (l_tasks l)) (map task_identity (l_tasks m))"
  using ident.run_keeps [OF assms, of "map task_identity (l_tasks l)"] by simp

theorem task_identity_immutable_witness:
  "prefix [(1, ''app'', ''/srv/app'', ''title'', None, 0)]
     (map task_identity (l_tasks (exec_cmd demo_service demo_git (Abort 1) (demo_ledger [demo_task 1 RUNNING]))))"
  using task_identity_immutable [where sv = demo_service, OF ts_run.cmd [OF ts_run.init],
      of "demo_ledger [demo_task 1 RUNNING]" demo_git "Abort 1"]
  by (simp add: task_identity_def demo_defs)

section \<open>Backend events\<close>

lemma wf_thread_task: "find_task_by_thread_id l th = Some t \<Longrightarrow> ledger_wf l \<Longrightarrow> find_task l (t_id t) = Some t"
  by (auto simp: find_task_by_thread_id_def split: option.splits dest!: first_order_desc_max intro: wf_find_task)

text \<open>A completed turn of an active task that has no pending approval and no running orchestration
  ends the task: status done, no active turn, the summary the task had before, no error, and a
  \<open>turn_completed\<close> event for it as the last event.\<close>

theorem turn_completed_finishes:
  assumes "ledger_wf l" and t: "find_task_by_thread_id l (payload_str p ''threadId'') = Some t"
    and "turn_status p \<notin> {''failed'', ''interrupted'', ''inProgress''}"
    and "is_active_status (t_status t)"
    and "pending_approvals l (t_id t) = []" and "\<not> task_has_running_orchestration l (t_id t)"
  shows "\<exists>m t'. apply_backend_event sv ''turn_completed'' p l = (Inr (), m) \<and>
     find_task m (t_id t) = Some t' \<and> t_status t' = DONE \<and> t_active_turn_id t' = None \<and>
     t_last_summary t' = t_last_summary t \<and> t_last_error t' = [] \<and>
     e_event_type (last (l_events m)) = ''turn_completed'' \<and> e_task_id (last (l_events m)) = t_id t"
proof -
  have f: "find_task l (t_id t) = Some t" using wf_thread_task [OF t assms(1)] .
  have ok: "t_status t \<in> {QUEUED, RUNNING, WAITING_APPROVAL, PAUSED}"
    using assms(4) by (simp add: is_active_status_def)
  have run: "apply_backend_event sv ''turn_completed'' p l =
      (let l1 = (if t_status t = QUEUED then set_task_status (t_id t) RUNNING [] [] [] l else l);
           l2 = set_task_status (t_id t) DONE [] [] [] (clear_active_turn (t_id t) l1);
           l3 = (if t_last_summary t \<noteq> [] then set_task_status (t_id t) DONE [] (t_last_summary t) [] l2 else l2)
       in (Inr (), insert_event (t_id t) ''turn_completed'' [(''threadId'', JStr (payload_str p ''threadId''))] l3))"
    using assms(3,5,6) t f ok
    by (auto simp: apply_backend_event_def on_turn_completed_def with_task_def Let_def run_simps
         mark_running_from_backend_activity_def finish_completed_turn_def task_update_defs)
  show ?thesis unfolding run Let_def
    using f by (simp add: task_update_defs) (simp add: insert_event_def)
qed

definition demo_turn :: "task_status \<Rightarrow> task" where
  "demo_turn st = (demo_task 1 st)\<lparr>t_codex_thread_id := Some ''th'', t_active_turn_id := Some ''tu'',
     t_last_summary := ''sum''\<rparr>"

definition demo_event :: dict where
  "demo_event = [(''threadId'', JStr ''th''), (''id'', JStr ''r1'')]"

lemma demo_turn_facts:
  "ledger_wf (demo_ledger [demo_turn st])"
  "find_task_by_thread_id (demo_ledger [demo_turn st]) (payload_str demo_event ''threadId'') = Some (demo_turn st)"
  "find_task (demo_ledger [demo_turn st]) 1 = Some (demo_turn st)"
  "turn_status demo_event = ''completed''" "t_status (demo_turn st) = st" "t_id (demo_turn st) = 1"
  by (simp_all add: ledger_wf_def ids_ok_def demo_turn_def demo_defs demo_event_def payload_str_def
      find_task_by_thread_id_def order_desc_def turn_status_def find_task_def)

theorem turn_completed_finishes_witness:
  "\<exists>m t'. apply_backend_event demo_service ''turn_completed'' demo_event (demo_ledger [demo_turn RUNNING]) =
       (Inr (), m) \<and> find_task m 1 = Some t' \<and> t_status t' = DONE \<and> t_last_summary t' = ''sum''"
proof -
  have "pending_approvals (demo_ledger [demo_turn RUNNING]) (t_id (demo_turn RUNNING)) = []"
    "\<not> task_has_running_orchestration (demo_ledger [demo_turn RUNNING]) (t_id (demo_turn RUNNING))"
    "t_last_summary (demo_turn RUNNING) = ''sum''"
    by (simp_all add: pending_approvals_def task_has_running_orchestration_def demo_defs demo_turn_def)
  then show ?thesis
    using turn_completed_finishes [OF demo_turn_facts(1,2), of RUNNING demo_service]
    by (auto simp: demo_turn_facts(4-6))
qed

text \<open>A backend approval request is recorded once: if the task already has a request with that
  id, the approvals and the pending counter stay as they are; otherwise one pending approval for the
  task is added and the counter goes up by one. Either way the task then waits for approval (a paused
  task stays paused).\<close>

theorem approval_request_idempotent:
  assumes "ledger_wf l" and t: "find_task_by_thread_id l (payload_str p ''threadId'') = Some t"
    and "is_active_status (t_status t)"
    and "req = py_str (dget p ''codexRequestId'' (dget p ''id'' (JStr [])))"
  shows "\<exists>m t'. apply_backend_event sv ''approval_requested'' p l = (Inr (), m) \<and>
     find_task m (t_id t) = Some t' \<and>
     t_status t' = (if t_status t = PAUSED then PAUSED else WAITING_APPROVAL) \<and>
     (if \<exists>a \<in> set (l_approvals l). a_task_id a = t_id t \<and> a_codex_request_id a = req
      then l_approvals m = l_approvals l \<and> t_pending_approval_count t' = t_pending_approval_count t
      else (\<exists>a. l_approvals m = l_approvals l @ [a] \<and> a_task_id a = t_id t \<and>
              a_codex_request_id a = req \<and> a_status a = AP_PENDING) \<and>
           t_pending_approval_count t' = t_pending_approval_count t + 1)"
proof -
  have f: "find_task l (t_id t) = Some t" using wf_thread_task [OF t assms(1)] .
  have ok: "t_status t \<in> {QUEUED, RUNNING, WAITING_APPROVAL, PAUSED}"
    using assms(3) by (simp add: is_active_status_def)
  have ex: "get_approval_by_codex_id l req (Some (t_id t)) = None \<longleftrightarrow>
      \<not> (\<exists>a \<in> set (l_approvals l). a_task_id a = t_id t \<and> a_codex_request_id a = req)"
    by (auto simp: get_approval_by_codex_id_def filter_empty_conv)
  let ?turn = "opt_str (payload_str p ''codexTurnId'')"
  let ?kind = "case approval_kind_of (py_str (dget p ''kind'' (JStr ''command''))) of None \<Rightarrow> COMMAND | Some k \<Rightarrow> k"
  let ?l1 = "if ?turn \<noteq> None \<and> t_active_turn_id t = None then set_active_turn (t_id t) (the ?turn) l else l"
  let ?l2 = "create_approval (t_id t) req (opt_str (payload_str p ''codexItemId'')) ?turn ?kind
      (approval_summary p) (approval_stored_payload ?kind p) None ?l1"
  let ?l3 = "if get_approval_by_codex_id l req (Some (t_id t)) = None
      then increment_pending_approvals (t_id t) 1 ?l2 else ?l2"
  let ?l4 = "if t_status t = PAUSED then set_task_status (t_id t) PAUSED ''active:waitingOnApproval'' [] [] ?l3
      else set_task_status (t_id t) WAITING_APPROVAL [] [] [] ?l3"
  obtain t1 where t1: "find_task ?l1 (t_id t) = Some t1" "t_status t1 = t_status t"
      "t_pending_approval_count t1 = t_pending_approval_count t"
    by (cases "?turn \<noteq> None \<and> t_active_turn_id t = None") (use f in \<open>auto simp: task_update_defs\<close>)
  then have t2: "find_task ?l2 (t_id t) = Some t1" by simp
  obtain t3 where t3: "find_task ?l3 (t_id t) = Some t3" "t_status t3 = t_status t"
      "t_pending_approval_count t3 = (if get_approval_by_codex_id l req (Some (t_id t)) = None
         then t_pending_approval_count t + 1 else t_pending_approval_count t)"
    by (cases "get_approval_by_codex_id l req (Some (t_id t)) = None")
       (use t1(2,3) t2 in \<open>auto simp: increment_pending_approvals_def\<close>)
  have run: "apply_backend_event sv ''approval_requested'' p l =
      (Inr (), insert_event (t_id t) ''approval_requested'' (map (\<lambda>(k, v). (k, JStr (py_str v))) p) ?l4)"
  proof (cases "t_status t = PAUSED")
    case True
    then show ?thesis
      unfolding assms(4)
      by (simp add: apply_backend_event_def on_approval_requested_def with_task_def Let_def run_bind t
          whenA_mod run_then run_event run_leaves del: not_None_eq split del: if_split)
  next
    case False
    then have "WAITING_APPROVAL \<in> set (valid_transitions (t_status t3)) \<or> t_status t3 = WAITING_APPROVAL"
      using t3(2) ok by auto
    then show ?thesis
      using False t3(1) unfolding assms(4)
      by (simp add: apply_backend_event_def on_approval_requested_def with_task_def Let_def run_bind t
          whenA_mod run_then run_event run_leaves run_transition del: not_None_eq split del: if_split)
  qed
  define m where "m = insert_event (t_id t) ''approval_requested'' (map (\<lambda>(k, v). (k, JStr (py_str v))) p) ?l4"
  obtain t4 where t4: "find_task m (t_id t) = Some t4"
      "t_status t4 = (if t_status t = PAUSED then PAUSED else WAITING_APPROVAL)"
      "t_pending_approval_count t4 = t_pending_approval_count t3"
    unfolding m_def by (cases "t_status t = PAUSED") (use t3(1) in \<open>auto simp: set_task_status_def\<close>)
  have ap: "if \<exists>a \<in> set (l_approvals l). a_task_id a = t_id t \<and> a_codex_request_id a = req
      then l_approvals m = l_approvals l
      else \<exists>a. l_approvals m = l_approvals l @ [a] \<and> a_task_id a = t_id t \<and>
              a_codex_request_id a = req \<and> a_status a = AP_PENDING"
    by (simp add: m_def create_approval_def task_update_defs)
  show ?thesis
    using run [folded m_def] t4 t3(3) ap ex
    by (cases "\<exists>a \<in> set (l_approvals l). a_task_id a = t_id t \<and> a_codex_request_id a = req") auto
qed

theorem approval_request_idempotent_witness:
  "\<exists>m t'. apply_backend_event demo_service ''approval_requested'' demo_event (demo_ledger [demo_turn RUNNING]) =
       (Inr (), m) \<and> find_task m 1 = Some t' \<and> t_status t' = WAITING_APPROVAL \<and> t_pending_approval_count t' = 1"
proof -
  have a: "l_approvals (demo_ledger [demo_turn RUNNING]) = []" "t_pending_approval_count (demo_turn RUNNING) = 0"
    by (simp_all add: demo_defs demo_turn_def)
  show ?thesis
    using approval_request_idempotent [OF demo_turn_facts(1,2) _ refl, of RUNNING demo_service]
    by (auto simp: demo_turn_facts a)
qed

text \<open>An event is routed to the right task: if some task currently has the thread, the result
  is one of those; if one of them is active, the result is active; and among equally active ones none
  was updated later.\<close>

theorem thread_lookup_prefers_active:
  assumes "u \<in> set (l_tasks l)" and "t_codex_thread_id u = Some th"
  shows "\<exists>t. find_task_by_thread_id l th = Some t \<and> t_codex_thread_id t = Some th \<and>
    (is_active_status (t_status u) \<longrightarrow> is_active_status (t_status t)) \<and>
    (is_active_status (t_status u) = is_active_status (t_status t) \<longrightarrow> t_updated_at u \<le> t_updated_at t)"
proof -
  let ?rs = "filter (\<lambda>t. t_codex_thread_id t = Some th) (l_tasks l)"
  have u: "u \<in> set ?rs" using assms by simp
  then obtain t where t: "first_row (order_desc thread_rank ?rs) = Some t"
    by (metis empty_iff first_row_None list.set(1) not_None_eq order_desc_Nil)
  from first_order_desc_max [OF t] have "t \<in> set ?rs" "thread_rank u \<le> thread_rank t" using u by auto
  then show ?thesis using t
    by (auto simp: find_task_by_thread_id_def thread_rank_def less_eq_prod_def split: if_splits)
qed

theorem thread_lookup_prefers_active_witness:
  "\<exists>t. find_task_by_thread_id (demo_ledger [demo_turn DONE, (demo_turn RUNNING)\<lparr>t_id := 2\<rparr>]) ''th'' = Some t \<and>
     is_active_status (t_status t)"
  using thread_lookup_prefers_active [of "(demo_turn RUNNING)\<lparr>t_id := 2\<rparr>"
      "demo_ledger [demo_turn DONE, (demo_turn RUNNING)\<lparr>t_id := 2\<rparr>]" "''th''"]
  by (auto simp: demo_defs demo_turn_def)

section \<open>The waiting queue\<close>

definition queue_key :: "task \<Rightarrow> stamp \<times> row_id" where
  "queue_key t = (t_created_at t, t_id t)"

lemma list_waiting_tasks_key:
  "list_waiting_tasks l al =
     sort_key queue_key (filter (\<lambda>t. t_workspace_alias t = al \<and> t_status t = WAITING_SLOT) (l_tasks l))"
  by (simp add: list_waiting_tasks_def queue_key_def [abs_def])

lemma position_sorted:
  assumes "sorted_wrt (\<lambda>x y. queue_key x < queue_key y) ts" and "t \<in> set ts"
    and "\<And>u. u \<in> set ts \<Longrightarrow> t_id u = t_id t \<Longrightarrow> u = t"
  shows "position_of (t_id t) n ts = n + length (filter (\<lambda>u. queue_key u < queue_key t) ts)"
  using assms
proof (induction ts arbitrary: n)
  case (Cons u us)
  show ?case
  proof (cases "t_id u = t_id t")
    case True
    then have "u = t" using Cons.prems by simp
    then have "\<not> queue_key v < queue_key t" if "v \<in> set us" for v
      using Cons.prems(1) that by (auto dest: order.asym)
    then have "filter (\<lambda>u. queue_key u < queue_key t) us = []" by (simp add: filter_empty_conv)
    then show ?thesis using \<open>u = t\<close> by simp
  next
    case False
    then have "t \<in> set us" using Cons.prems(2) by auto
    moreover have "queue_key u < queue_key t" using Cons.prems(1) \<open>t \<in> set us\<close> by simp
    ultimately show ?thesis using Cons False by simp
  qed
qed simp

lemma strict_sort_key:
  assumes "inj_on key (set ts)" and "distinct ts"
  shows "sorted_wrt (\<lambda>x y. key x < key y) (sort_key key ts)"
proof -
  have "sorted (map key (sort_key key ts))" by simp
  moreover have "distinct (map key (sort_key key ts))" using assms by (simp add: distinct_map)
  ultimately have "sorted_wrt (<) (map key (sort_key key ts))" by (simp add: strict_sorted_iff)
  then show ?thesis by (simp add: sorted_wrt_map)
qed

text \<open>The position reported for a waiting task is one more than the number of tasks waiting for
  the same workspace that were created before it (ties by key); any other task has position 0.\<close>

theorem waiting_position_counts:
  assumes "ledger_wf l" and "find_task l i = Some t"
  shows "waiting_position l i = Inr (if t_status t = WAITING_SLOT
    then 1 + length (filter (\<lambda>u. t_workspace_alias u = t_workspace_alias t \<and> t_status u = WAITING_SLOT \<and>
                                 (t_created_at u, t_id u) < (t_created_at t, t_id t)) (l_tasks l))
    else 0)"
proof (cases "t_status t = WAITING_SLOT")
  case True
  let ?w = "filter (\<lambda>u. t_workspace_alias u = t_workspace_alias t \<and> t_status u = WAITING_SLOT) (l_tasks l)"
  have t: "t \<in> set ?w" "t_id t = i" using True find_task_mem [OF assms(2)] find_task_id [OF assms(2)] by auto
  have d: "distinct (map t_id (l_tasks l))" using assms(1) by (rule wf_distinct_tasks)
  have uniq: "u = t" if "u \<in> set ?w" "t_id u = t_id t" for u
    using that t(2) wf_unique [OF assms] by simp
  have "inj_on queue_key (set ?w)"
    using d by (auto simp: inj_on_def queue_key_def distinct_map)
  then have "sorted_wrt (\<lambda>x y. queue_key x < queue_key y) (sort_key queue_key ?w)"
    using d by (intro strict_sort_key) (auto simp: distinct_map)
  then have "position_of (t_id t) 1 (sort_key queue_key ?w) =
      1 + length (filter (\<lambda>u. queue_key u < queue_key t) (sort_key queue_key ?w))"
    using t(1) uniq by (intro position_sorted) auto
  also have "length (filter (\<lambda>u. queue_key u < queue_key t) (sort_key queue_key ?w)) =
      length (filter (\<lambda>u. queue_key u < queue_key t) ?w)"
    by (simp add: filter_sort)
  finally show ?thesis
    using True t(2) assms(2)
    by (simp add: waiting_position_def get_task_Some list_waiting_tasks_key queue_key_def [abs_def] conj_ac)
next
  case False
  then show ?thesis using assms(2) by (simp add: waiting_position_def get_task_Some)
qed

theorem waiting_position_counts_witness:
  "waiting_position (demo_ledger [demo_task 1 RUNNING, demo_task 2 WAITING_SLOT, demo_task 3 WAITING_SLOT]) 3 = Inr 2"
  using waiting_position_counts [of "demo_ledger [demo_task 1 RUNNING, demo_task 2 WAITING_SLOT, demo_task 3 WAITING_SLOT]"
      3 "demo_task 3 WAITING_SLOT"]
  by (simp add: ledger_wf_def ids_ok_def demo_defs find_task_def)

lemma get_task_id: "get_task l i = Inr t \<Longrightarrow> t_id t = i"
  using find_task_id by (auto simp: get_task_Inr)

lemma promote_id: "promote_waiting_task sv g i l = (Inr (t, p), m) \<Longrightarrow> t_id t = i"
  by (auto simp: promote_waiting_task_def run_simps assert_submission_allowed_def require_waiting_slot_def
      record_workspace_baseline_def dest: get_task_id split: sum.splits option.splits if_splits)

text \<open>The drain is first-in first-out and respects the lock: when it returns a task, no active
  in-place task was in the scan, and the returned task is a waiting one of the workspace with no older
  waiting one, whatever ran while the backend calls were suspended. With a holder in the scan or an
  empty queue it returns nothing and changes nothing.\<close>

theorem drain_fifo:
  shows "(active_write_task (list_tasks 100 False l) al None \<noteq> None \<or> list_waiting_tasks l al = [] \<longrightarrow>
      drain_workspace sv g b env1 env2 al l = (Inr None, l)) \<and>
    (drain_workspace sv g b env1 env2 al l = (Inr (Some t'), m) \<longrightarrow>
      active_write_task (list_tasks 100 False l) al None = None \<and>
      (\<exists>t \<in> set (l_tasks l). t_id t = t_id t' \<and> t_workspace_alias t = al \<and> t_status t = WAITING_SLOT \<and>
        (\<forall>u \<in> set (l_tasks l). t_workspace_alias u = al \<and> t_status u = WAITING_SLOT \<longrightarrow>
           (t_created_at t, t_id t) \<le> (t_created_at u, t_id u))))"
proof (intro conjI impI)
  assume "active_write_task (list_tasks 100 False l) al None \<noteq> None \<or> list_waiting_tasks l al = []"
  then show "drain_workspace sv g b env1 env2 al l = (Inr None, l)"
    by (auto simp: drain_workspace_def run_simps)
next
  assume d: "drain_workspace sv g b env1 env2 al l = (Inr (Some t'), m)"
  show free: "active_write_task (list_tasks 100 False l) al None = None"
    using d by (cases "active_write_task (list_tasks 100 False l) al None") (auto simp: drain_workspace_def run_simps)
  obtain t ts where w: "list_waiting_tasks l al = t # ts"
    using d free by (cases "list_waiting_tasks l al") (auto simp: drain_workspace_def run_simps)
  have "t_id t' = t_id t"
    using d free w
    by (auto simp: drain_workspace_def run_simps bindA_def catchA_def then_ret dest!: promote_id get_task_id
        split: sum.splits prod.splits option.splits if_splits)
  moreover have "queue_key t \<le> queue_key u"
    if "u \<in> set (l_tasks l)" "t_workspace_alias u = al" "t_status u = WAITING_SLOT" for u
  proof -
    have "sorted (map queue_key (t # ts))" unfolding w [symmetric] list_waiting_tasks_key by simp
    moreover have "u \<in> set (t # ts)" unfolding w [symmetric] using that by (simp add: list_waiting_tasks_def)
    ultimately show ?thesis by auto
  qed
  ultimately show "\<exists>t \<in> set (l_tasks l). t_id t = t_id t' \<and> t_workspace_alias t = al \<and> t_status t = WAITING_SLOT \<and>
        (\<forall>u \<in> set (l_tasks l). t_workspace_alias u = al \<and> t_status u = WAITING_SLOT \<longrightarrow>
           (t_created_at t, t_id t) \<le> (t_created_at u, t_id u))"
    using waiting_mem [OF w] unfolding queue_key_def by metis
qed

theorem drain_fifo_witness:
  "\<exists>t' m. drain_workspace demo_service demo_git demo_backend (\<lambda>x. x) (\<lambda>x. x) ''app''
      (insert_event 2 ''task_waiting_slot_created'' [(''prompt'', JStr ''p'')]
        (demo_ledger [demo_task 1 DONE, demo_task 2 WAITING_SLOT, demo_task 3 WAITING_SLOT])) =
      (Inr (Some t'), m) \<and> t_id t' = 2"
proof -
  let ?l = "insert_event 2 ''task_waiting_slot_created'' [(''prompt'', JStr ''p'')]
        (demo_ledger [demo_task 1 DONE, demo_task 2 WAITING_SLOT, demo_task 3 WAITING_SLOT])"
  let ?d = "drain_workspace demo_service demo_git demo_backend (\<lambda>x. x) (\<lambda>x. x) ''app'' ?l"
  have "(case fst ?d of Inr (Some t) \<Rightarrow> True | _ \<Rightarrow> False)" by code_simp
  then obtain t' m where d: "?d = (Inr (Some t'), m)"
    by (cases ?d) (auto split: sum.splits option.splits)
  have "\<exists>t \<in> set (l_tasks ?l). t_id t = t_id t' \<and> t_workspace_alias t = ''app'' \<and> t_status t = WAITING_SLOT \<and>
        (\<forall>u \<in> set (l_tasks ?l). t_workspace_alias u = ''app'' \<and> t_status u = WAITING_SLOT \<longrightarrow>
           (t_created_at t, t_id t) \<le> (t_created_at u, t_id u))"
    using drain_fifo [of ?l "''app''" demo_service demo_git demo_backend "\<lambda>x. x" "\<lambda>x. x" t' m] d by blast
  then have "t_id t' = 2" by (auto simp: demo_defs)
  with d show ?thesis by blast
qed

section \<open>Worktrees and baselines\<close>

text \<open>A worktree is set up only outside the workspace: if the setup returns, the worktree path is
  the configured location, it does not lie at or below the workspace directory, the branch name has at
  most 80 characters, all letters, digits or one of \<open>/-_.\<close>, and the task carries both.\<close>

theorem setup_worktree_outside:
  assumes "setup_worktree sv g i slug l = (Inr (t', wt, branch), m)"
    and "find_task l i = Some t" and "get_workspace sv (t_workspace_alias t) = Inr w"
    and "ws = abspath (sv_cwd sv) (ws_path w)" and "startswith ws ''/''" and "\<not> startswith ws ''//''"
  shows "wt = worktree_location sv (t_workspace_alias t) i \<and>
    take (length (path_parts ws)) (path_parts wt) \<noteq> path_parts ws \<and>
    length branch \<le> 80 \<and> (\<forall>c \<in> set branch. py_isalnum c \<or> c \<in> set ''/-_.'') \<and>
    t_worktree_path t' = wt \<and> t_worktree_branch t' = branch \<and> t_status t' = WAITING_SLOT"
proof -
  let ?wt = "worktree_location sv (t_workspace_alias t) i"
  have run: "t_status t = WAITING_SLOT" "commonpath ?wt ws \<noteq> ws" "wt = ?wt"
      "branch = clean_branch (worktree_branch_name i slug)"
      "t' = t\<lparr>t_worktree_path := wt, t_worktree_branch := branch\<rparr>\<lparr>t_updated_at := db_now l\<rparr>"
    using assms(1-3) unfolding assms(4)
    by (auto simp: setup_worktree_def Let_def run_simps get_task_def require_waiting_slot_def
        set_worktree_info_def split: if_splits proc.splits)
  have "take (length (path_parts ws)) (path_parts wt) \<noteq> path_parts ws"
    using commonpath_below [OF assms(5,6,4)] run(2,3) by blast
  moreover have "length branch \<le> 80 \<and> (\<forall>c \<in> set branch. py_isalnum c \<or> c \<in> set ''/-_.'')"
    unfolding run(4) clean_branch_def by (auto dest: in_set_takeD)
  ultimately show ?thesis using run by simp
qed

theorem setup_worktree_outside_witness:
  "\<exists>t' wt branch m. setup_worktree demo_service demo_git 1 ''fix'' (demo_ledger [demo_task 1 WAITING_SLOT]) =
      (Inr (t', wt, branch), m) \<and> take 2 (path_parts wt) \<noteq> [''srv'', ''app''] \<and> t_worktree_path t' = wt"
proof -
  let ?l = "demo_ledger [demo_task 1 WAITING_SLOT]"
  let ?d = "setup_worktree demo_service demo_git 1 ''fix'' ?l"
  have "(case fst ?d of Inr (t, w, b) \<Rightarrow> True | _ \<Rightarrow> False)" by code_simp
  then obtain t' wt branch m where d: "?d = (Inr (t', wt, branch), m)"
    by (cases ?d) (auto split: sum.splits option.splits)
  let ?w = "\<lparr>ws_alias = ''app'', ws_path = ''/srv/app'', ws_allow_write = True\<rparr>"
  have f: "find_task ?l 1 = Some (demo_task 1 WAITING_SLOT)"
    "get_workspace demo_service (t_workspace_alias (demo_task 1 WAITING_SLOT)) = Inr ?w"
    by (simp_all add: find_task_def get_workspace_def demo_defs)
  have a: "abspath (sv_cwd demo_service) (ws_path ?w) = ''/srv/app''" by code_simp
  have p: "path_parts ''/srv/app'' = [''srv'', ''app'']" by code_simp
  have s: "startswith ''/srv/app'' ''/''" "\<not> startswith ''/srv/app'' ''//''" by (simp_all add: startswith_def)
  have "take (length (path_parts ''/srv/app'')) (path_parts wt) \<noteq> path_parts ''/srv/app'' \<and> t_worktree_path t' = wt"
    using setup_worktree_outside [OF d f a [symmetric] s] by blast
  with d p show ?thesis by (auto simp: numeral_2_eq_2)
qed

text \<open>What git prints for one changed path: two status characters, a space and the path, and for a
  rename or copy the source path as a second record; every record ends with NUL.\<close>

record status_entry =
  se_x :: char
  se_y :: char
  se_path :: string
  se_src :: string

definition entry_renamed :: "status_entry \<Rightarrow> bool" where
  "entry_renamed e \<longleftrightarrow> se_x e \<in> {CHR ''R'', CHR ''C''} \<or> se_y e \<in> {CHR ''R'', CHR ''C''}"

definition entry_records :: "status_entry \<Rightarrow> string list" where
  "entry_records e = ([se_x e, se_y e, CHR '' ''] @ se_path e) # (if entry_renamed e then [se_src e] else [])"

definition print_status_z :: "status_entry list \<Rightarrow> string" where
  "print_status_z es = concat (map (\<lambda>r. r @ [char_of (0::nat)]) (concat (map entry_records es)))"

definition entry_ok :: "status_entry \<Rightarrow> bool" where
  "entry_ok e \<longleftrightarrow> char_of (0::nat) \<notin> {se_x e, se_y e} \<union> set (se_path e) \<union> set (se_src e) \<and>
     se_path e \<noteq> [] \<and> se_src e \<noteq> []"

lemma parse_entry: "entry_ok e \<Longrightarrow>
   parse_entries (entry_records e @ rest) =
     (se_path e, if strip [se_x e, se_y e] = [] then [se_x e, se_y e] else strip [se_x e, se_y e]) #
     parse_entries rest"
  by (cases "se_path e") (auto simp: entry_records_def entry_ok_def entry_renamed_def is_rename_def Let_def)

lemma records_ok:
  assumes "\<forall>e \<in> set es. entry_ok e" and "r \<in> set (concat (map entry_records es))"
  shows "r \<noteq> [] \<and> char_of (0::nat) \<notin> set r"
proof -
  obtain e where "e \<in> set es" "r \<in> set (entry_records e)" using assms(2) by auto
  moreover have "CHR '' '' \<noteq> char_of (0::nat)" by code_simp
  ultimately show ?thesis using assms(1) by (auto simp: entry_records_def entry_ok_def split: if_splits)
qed

text \<open>Reading back what git printed: for every list of changed paths without NUL characters, the
  parser returns each path with its stripped status letters, in order, and skips the source of a
  rename or copy.\<close>

theorem porcelain_roundtrip:
  assumes "\<forall>e \<in> set es. entry_ok e"
  shows "parse_porcelain_status_z (print_status_z es) =
    map (\<lambda>e. (se_path e, if strip [se_x e, se_y e] = [] then [se_x e, se_y e]
                         else strip [se_x e, se_y e])) es"
proof -
  let ?rs = "concat (map entry_records es)"
  have "split_on (char_of (0::nat)) (print_status_z es @ []) = ?rs @ split_on (char_of (0::nat)) []"
    unfolding print_status_z_def by (rule split_on_terminated) (use records_ok [OF assms] in blast)
  moreover have "filter (\<lambda>e. e \<noteq> []) ?rs = ?rs" using records_ok [OF assms] by (auto simp: filter_id_conv)
  ultimately have "parse_porcelain_status_z (print_status_z es) = parse_entries ?rs"
    by (simp add: parse_porcelain_status_z_def)
  moreover have "parse_entries ?rs = map (\<lambda>e. (se_path e, if strip [se_x e, se_y e] = [] then [se_x e, se_y e]
      else strip [se_x e, se_y e])) es"
    using assms by (induction es) (auto simp: parse_entry)
  ultimately show ?thesis by simp
qed

theorem porcelain_roundtrip_witness:
  "parse_porcelain_status_z (print_status_z
     [\<lparr>se_x = CHR ''R'', se_y = CHR '' '', se_path = ''b.py'', se_src = ''a.py''\<rparr>,
      \<lparr>se_x = CHR ''?'', se_y = CHR ''?'', se_path = ''c'', se_src = ''x''\<rparr>]) = [(''b.py'', ''R''), (''c'', ''??'')]"
proof -
  let ?es = "[\<lparr>se_x = CHR ''R'', se_y = CHR '' '', se_path = ''b.py'', se_src = ''a.py''\<rparr>,
      \<lparr>se_x = CHR ''?'', se_y = CHR ''?'', se_path = ''c'', se_src = ''x''\<rparr>]"
  have ok: "\<forall>e \<in> set ?es. entry_ok e" by code_simp
  have "map (\<lambda>e. (se_path e, if strip [se_x e, se_y e] = [] then [se_x e, se_y e]
      else strip [se_x e, se_y e])) ?es = [(''b.py'', ''R''), (''c'', ''??'')]" by code_simp
  with porcelain_roundtrip [OF ok] show ?thesis by simp
qed

section \<open>Recovery\<close>

lemma fold_insert_event_events:
  "map (\<lambda>e. (e_task_id e, e_event_type e)) (l_events (fold (\<lambda>t. insert_event (i t) (ty t) (p t)) ts l)) =
     map (\<lambda>e. (e_task_id e, e_event_type e)) (l_events l) @ map (\<lambda>t. (i t, ty t)) ts"
  by (induction ts arbitrary: l) (simp_all add: insert_event_def)

text \<open>Start-up recovery leaves no task running, queued or waiting for approval: each of them, and
  no other, is now paused and reported, the others are untouched, and each reported task got one
  \<open>recovery_paused\<close> event, in order.\<close>

theorem recovery_pauses_interrupted:
  assumes "ledger_wf l" and "mark_active_tasks_recovery_paused l = (ids, m)"
  shows "ids = map t_id (filter (\<lambda>t. t_status t \<in> {RUNNING, QUEUED, WAITING_APPROVAL}) (l_tasks l)) \<and>
    (\<forall>t \<in> set (l_tasks m). t_status t \<notin> {RUNNING, QUEUED, WAITING_APPROVAL}) \<and>
    (\<forall>i. find_task m i = (if i \<in> set ids
        then map_option (\<lambda>t. t\<lparr>t_status := PAUSED, t_updated_at := db_now l\<rparr>) (find_task l i)
        else find_task l i)) \<and>
    map (\<lambda>e. (e_task_id e, e_event_type e)) (l_events m) =
      map (\<lambda>e. (e_task_id e, e_event_type e)) (l_events l) @ map (\<lambda>i. (i, ''recovery_paused'')) ids"
proof -
  let ?P = "\<lambda>t. t_status t \<in> {RUNNING, QUEUED, WAITING_APPROVAL}"
  have cand: "recovery_candidates l = filter ?P (l_tasks l)" by (simp add: recovery_candidates_def)
  have ids: "ids = map t_id (filter ?P (l_tasks l))"
    using assms(2) by (auto simp: mark_active_tasks_recovery_paused_def Let_def cand split: if_splits)
  have tasks: "l_tasks m = upd_rows (\<lambda>t. t_id t \<in> set ids)
      (\<lambda>t. t\<lparr>t_status := PAUSED, t_updated_at := db_now l\<rparr>) (l_tasks l)"
    using recovery_tasks [of l] assms(2) by (simp add: ids cand)
  have "t_status t \<notin> {RUNNING, QUEUED, WAITING_APPROVAL}" if "t \<in> set (l_tasks m)" for t
    using that unfolding tasks set_upd_rows by (auto simp: ids)
  moreover have "find_task m i = (if i \<in> set ids
        then map_option (\<lambda>t. t\<lparr>t_status := PAUSED, t_updated_at := db_now l\<rparr>) (find_task l i)
        else find_task l i)" for i
    unfolding find_task_def tasks
    by (subst find_upd_rows [where key = t_id])
       (auto dest!: find_SomeD simp: option.map_id0 id_def [symmetric] cong: option.map_cong
         intro!: option.map_cong0 option.map_ident_strong)
  moreover have "map (\<lambda>e. (e_task_id e, e_event_type e)) (l_events m) =
      map (\<lambda>e. (e_task_id e, e_event_type e)) (l_events l) @ map (\<lambda>i. (i, ''recovery_paused'')) ids"
    using assms(2) by (auto simp: mark_active_tasks_recovery_paused_def Let_def fold_insert_event_events ids cand
        split: if_splits)
  ultimately show ?thesis using ids by blast
qed

theorem recovery_pauses_interrupted_witness:
  "fst (mark_active_tasks_recovery_paused (demo_ledger [demo_task 1 RUNNING, demo_task 2 DONE])) = [1] \<and>
   RUNNING \<notin> t_status ` set (l_tasks (snd (mark_active_tasks_recovery_paused
      (demo_ledger [demo_task 1 RUNNING, demo_task 2 DONE]))))"
proof -
  let ?l = "demo_ledger [demo_task 1 RUNNING, demo_task 2 DONE]"
  obtain ids m where r: "mark_active_tasks_recovery_paused ?l = (ids, m)" by fastforce
  have "ledger_wf ?l" by (simp add: ledger_wf_def ids_ok_def demo_defs)
  from recovery_pauses_interrupted [OF this r] show ?thesis
    unfolding r by (auto simp: demo_defs)
qed

section \<open>Where the code departs from its own rules\<close>

text \<open>Pausing a queued task is offered by the guard of \<open>pause_task\<close> but is not in the transition
  table, so it always raises \<open>InvalidTransition\<close> and changes nothing; a paused or aborted task cannot
  be failed for the same reason.\<close>

theorem pause_queued_always_raises:
  assumes "find_task l i = Some t"
  shows "(t_status t = QUEUED \<longrightarrow> pause_task i l = (Inl (InvalidTransition i QUEUED PAUSED), l)) \<and>
    (t_status t \<in> {PAUSED, ABORTED} \<longrightarrow> fail_task i e l = (Inl (InvalidTransition i (t_status t) FAILED), l))"
  using assms by (auto simp: pause_task_def fail_task_def run_simps get_task_def)

theorem pause_queued_always_raises_witness:
  "pause_task 1 (demo_ledger [demo_task 1 QUEUED]) =
     (Inl (InvalidTransition 1 QUEUED PAUSED), demo_ledger [demo_task 1 QUEUED])"
proof -
  have "find_task (demo_ledger [demo_task 1 QUEUED]) 1 = Some (demo_task 1 QUEUED)"
    by (simp add: find_task_def demo_defs)
  from pause_queued_always_raises [OF this] show ?thesis by (simp add: demo_task_def new_task_def)
qed

text \<open>Draining a workspace during maintenance fails the oldest waiting task: the promotion raises
  \<open>MaintenanceWindowError\<close>, which the drain takes for a missing prompt, so the task is marked failed with
  that message although its prompt is stored.\<close>

theorem drain_in_maintenance_fails_waiting:
  assumes "ledger_wf l" and "submissions_frozen l"
    and "active_write_task (list_tasks 100 False l) al None = None"
    and "list_waiting_tasks l al = t # ts"
  shows "\<exists>m t'. drain_workspace sv g b env1 env2 al l = (Inr None, m) \<and> find_task m (t_id t) = Some t' \<and>
    t_status t' = FAILED \<and> t_last_error t' = ''missing stored prompt''"
proof -
  have f: "find_task l (t_id t) = Some t" "t_status t = WAITING_SLOT"
    using waiting_mem [OF assms(4)] assms(1) by (simp_all add: wf_find_task)
  have p: "promote_waiting_task sv g (t_id t) l = (Inl MaintenanceWindowError, l)"
    using assms(2) by (simp add: promote_waiting_task_def run_simps assert_submission_allowed_def
        assert_submissions_open_def)
  have fl: "fail_task (t_id t) ''missing stored prompt'' l = (Inr t1, m1) \<Longrightarrow>
     find_task m1 (t_id t) = Some t1 \<and> t_status t1 = FAILED \<and> t_last_error t1 = ''missing stored prompt''"
    and ok: "\<exists>t1 m1. fail_task (t_id t) ''missing stored prompt'' l = (Inr t1, m1)" for t1 m1
    using f by (auto simp: fail_task_def run_simps get_task_def set_task_status_def)
  obtain t1 m1 where r: "fail_task (t_id t) ''missing stored prompt'' l = (Inr t1, m1)" using ok by blast
  have "drain_workspace sv g b env1 env2 al l = (Inr None, m1)"
    using assms(3,4) p r
    by (simp add: drain_workspace_def run_simps) (simp add: bindA_def catchA_def thenA_def retA_def)
  with fl [OF r] show ?thesis by blast
qed

theorem drain_in_maintenance_fails_waiting_witness:
  "\<exists>m t'. drain_workspace demo_service demo_git demo_backend (\<lambda>x. x) (\<lambda>x. x) ''app''
      (demo_frozen [demo_task 1 WAITING_SLOT]) = (Inr None, m) \<and> find_task m 1 = Some t' \<and> t_status t' = FAILED"
proof -
  let ?l = "demo_frozen [demo_task 1 WAITING_SLOT]"
  have "ledger_wf ?l" "submissions_frozen ?l"
    "active_write_task (list_tasks 100 False ?l) ''app'' None = None"
    "list_waiting_tasks ?l ''app'' = [demo_task 1 WAITING_SLOT]" "t_id (demo_task 1 WAITING_SLOT) = 1"
    by (simp_all add: demo_frozen_def ledger_wf_def ids_ok_def demo_defs submissions_frozen_def
        list_tasks_def order_desc_def active_write_statuses_def list_waiting_tasks_def)
  then show ?thesis
    using drain_in_maintenance_fails_waiting [of ?l "''app''" "demo_task 1 WAITING_SLOT" "[]"
        demo_service demo_git demo_backend "\<lambda>x. x" "\<lambda>x. x"] by fastforce
qed

text \<open>A failed turn or a system error moves the task to failed without consulting the transition
  table: an archived task, for which the table has no successor, leaves the archive.\<close>

theorem backend_failure_bypasses_table:
  assumes "ledger_wf l" and t: "find_task_by_thread_id l (payload_str p ''threadId'') = Some t"
    and "t_status t \<noteq> QUEUED" and "turn_status p = ''failed''"
  shows "\<exists>m t'. apply_backend_event sv ''turn_completed'' p l = (Inr (), m) \<and>
    find_task m (t_id t) = Some t' \<and> t_status t' = FAILED"
  using assms wf_thread_task [OF t assms(1)]
  by (simp add: apply_backend_event_def on_turn_completed_def with_task_def Let_def run_simps
      mark_running_from_backend_activity_def mark_backend_failed_def task_update_defs)

theorem backend_failure_bypasses_table_witness:
  "\<exists>m t'. apply_backend_event demo_service ''turn_completed'' (demo_event @ [(''status'', JStr ''failed'')])
      (demo_ledger [demo_turn ARCHIVED]) = (Inr (), m) \<and> find_task m 1 = Some t' \<and> t_status t' = FAILED \<and>
      valid_transitions ARCHIVED = []"
proof -
  let ?p = "demo_event @ [(''status'', JStr ''failed'')]"
  have th: "payload_str ?p ''threadId'' = payload_str demo_event ''threadId''"
    and ts: "turn_status ?p = ''failed''"
    by (simp_all add: payload_str_def demo_event_def turn_status_def)
  from backend_failure_bypasses_table [of "demo_ledger [demo_turn ARCHIVED]" ?p "demo_turn ARCHIVED" demo_service]
  show ?thesis by (simp add: demo_turn_facts th ts)
qed

text \<open>\<open>add_event\<close> answers with the newest of the first two hundred events of the task, not with the
  event it wrote, once the task has two hundred events.\<close>

lemma add_event_stale_answer:
  assumes "200 \<le> length (filter (\<lambda>e. e_task_id e = i) (l_events l))"
  shows "fst (add_event i ty p l) = filter (\<lambda>e. e_task_id e = i) (l_events l) ! 199"
  using assms by (simp add: add_event_def list_events_def insert_event_def Let_def)
     (subst last_conv_nth, auto)

end
