(* ===== verification/Maintenance.thy ===== *)
theory Maintenance
  imports Ledger
begin

text \<open>
  \<^verbatim>\<open>wlcodex/maintenance.py\<close>: the durable maintenance window. The store extends the window row that
  the ledger's submission gate reads with the columns the quiescence queries look at; a table that the
  database does not have yet is \<open>None\<close>. Timestamps are stored as text; the empty text is \<open>None\<close>.
  A call owns its transaction unless the connection is already in one. Installing the schema uses
  \<open>executescript\<close>, which first commits whatever transaction is open; the next \<open>INSERT\<close> then opens
  an implicit one, and a rollback returns to the store as it was after the schema.
\<close>

section \<open>State\<close>

record native_session =
  ns_thread_id :: string
  ns_status :: string

record turn_candidate =
  tc_opened_at :: "stamp option"
  tc_provider :: string
  tc_thread_id :: string
  tc_status :: string
  tc_captured_at :: stamp

record turn_probe =
  tp_opened_at :: "stamp option"
  tp_provider :: string
  tp_thread_id :: string
  tp_turn_id :: string
  tp_verdict :: string
  tp_observed_status :: string
  tp_diagnostic :: string
  tp_checked_at :: stamp

record event_link =
  el_id :: string
  el_type :: string
  el_causation :: "string option"

record maintenance_db = window_db +
  m_in_transaction :: bool
  m_tasks :: "string list option"
  m_approvals :: "string list option"
  m_agent_runs :: "(string \<times> string) list option"
  m_orchestration_runs :: "string list option"
  m_team_runs :: "string list option"
  m_pending_inputs :: "string list option"
  m_queue_leases :: "nat option"
  m_queue_locks :: "nat option"
  m_creation_leases :: "nat option"
  m_completion_claims :: "string list option"
  m_completion_event_claims :: "string list option"
  m_runtime_events :: "event_link list option"
  m_mutations :: "string list option"
  m_backend_requests :: "string list option"
  m_workflow_runs :: "string list option"
  m_native_sessions :: "native_session list option"
  m_candidates :: "turn_candidate list option"
  m_probes :: "turn_probe list option"

datatype maintenance_exn =
    WindowFrozen
  | WindowNotActive
  | WindowNotDrained "(string \<times> nat) list"
  | InvalidVerdict string
  | NoSuchTable string

record window_status =
  st_submissions_frozen :: bool
  st_opened_at :: "stamp option"
  st_closed_at :: "stamp option"
  st_operator_note :: string
  st_updated_at :: "stamp option"
  st_active_work :: "(string \<times> nat) list"

type_synonym 'a maintenance_act = "(maintenance_db, maintenance_exn, 'a) act"

text \<open>SQLite's \<open>lower\<close> folds ASCII letters only; its \<open>trim\<close> removes spaces only.\<close>

definition sql_lower :: "string \<Rightarrow> string" where
  "sql_lower s = map (\<lambda>c. if 65 \<le> code_point c \<and> code_point c \<le> 90 then char_of (code_point c + 32) else c) s"

definition sql_trim :: "string \<Rightarrow> string" where
  "sql_trim s = rev (dropWhile (\<lambda>c. c = CHR '' '') (rev (dropWhile (\<lambda>c. c = CHR '' '') s)))"

section \<open>Active work\<close>

definition terminal_task_statuses :: "string list" where
  "terminal_task_statuses = [''done'', ''failed'', ''aborted'', ''archived'', ''completed'', ''interrupted'',
     ''cancelled'', ''superseded'']"

definition terminal_agent_statuses :: "string list" where
  "terminal_agent_statuses = [''done'', ''failed'', ''aborted'', ''completed'', ''interrupted'',
     ''cancelled'', ''superseded'']"

definition terminal_orchestration_statuses :: "string list" where
  "terminal_orchestration_statuses = [''passed'', ''failed'', ''aborted'', ''completed'', ''interrupted'',
     ''cancelled'', ''superseded'']"

definition terminal_workflow_statuses :: "string list" where
  "terminal_workflow_statuses = [''done'', ''completed'', ''failed'', ''error'', ''aborted'', ''interrupted'',
     ''cancelled'', ''superseded'']"

definition count_in :: "string list \<Rightarrow> string list \<Rightarrow> nat" where
  "count_in xs rows = length (filter (\<lambda>s. s \<in> set xs) rows)"

definition count_not_in :: "string list \<Rightarrow> string list \<Rightarrow> nat" where
  "count_not_in xs rows = length (filter (\<lambda>s. s \<notin> set xs) rows)"

text \<open>A queued run with no later event that it caused.\<close>

definition unconsumed_queued :: "event_link list \<Rightarrow> nat" where
  "unconsumed_queued evs =
     length (filter (\<lambda>q. el_type q = ''run.queued'' \<and>
       \<not> (\<exists>c \<in> set evs. el_causation c = Some (el_id q) \<and>
             el_type c \<in> {''run.queued.consumed'', ''run.started'', ''run.recovery.required''})) evs)"

definition active_work_queries :: "maintenance_db \<Rightarrow> (string \<times> nat option) list" where
  "active_work_queries db =
     [(''tasks'', map_option (count_not_in terminal_task_statuses) (m_tasks db)),
      (''approvals'', map_option (count_in [''pending'']) (m_approvals db)),
      (''agent_runs'', map_option (\<lambda>rs. length (filter (\<lambda>(s, role). s \<notin> set terminal_agent_statuses \<and>
           \<not> endswith (sql_lower role) ''_native'') rs)) (m_agent_runs db)),
      (''orchestration_runs'', map_option (count_not_in terminal_orchestration_statuses) (m_orchestration_runs db)),
      (''Relay task runs'', map_option (count_in [''queued'', ''running'', ''waiting_approval'', ''paused''])
           (m_team_runs db)),
      (''Relay queued inputs'', map_option (count_in [''pending'', ''claimed'', ''steered'']) (m_pending_inputs db)),
      (''Relay queue leases'', m_queue_leases db),
      (''Relay workspace queue locks'', m_queue_locks db),
      (''Relay workspace creation leases'', m_creation_leases db),
      (''Relay completion claims'', map_option (count_in [''claimed'']) (m_completion_claims db)),
      (''Relay completion event claims'', map_option (count_in [''claimed'']) (m_completion_event_claims db)),
      (''legacy queued runs'', map_option unconsumed_queued (m_runtime_events db)),
      (''Relay mutations'', map_option (count_in [''in_progress'']) (m_mutations db)),
      (''backend requests'', map_option (count_in [''pending'']) (m_backend_requests db)),
      (''workflow handoffs'', map_option (count_not_in terminal_workflow_statuses) (m_workflow_runs db))]"

definition native_turn_candidate_statuses :: "string list" where
  "native_turn_candidate_statuses = [''running'', ''active'', ''waiting_user'', ''waiting_approval'', ''paused'']"

definition in_flight :: "native_session \<Rightarrow> bool" where
  "in_flight s \<longleftrightarrow> sql_lower (ns_status s) \<in> set native_turn_candidate_statuses"

definition native_turn_probe_candidates :: "maintenance_db \<Rightarrow> string list" where
  "native_turn_probe_candidates db =
     (case m_native_sessions db of
        None \<Rightarrow> []
      | Some ss \<Rightarrow> filter (\<lambda>t. strip t \<noteq> []) (map ns_thread_id (filter in_flight ss)))"

definition window_candidates :: "maintenance_db \<Rightarrow> stamp option \<Rightarrow> string list option" where
  "window_candidates db opened =
     map_option (\<lambda>cs. filter (\<lambda>t. strip t \<noteq> []) (sort (map tc_thread_id
       (filter (\<lambda>c. tc_opened_at c = opened \<and> tc_provider c = ''codex'') cs)))) (m_candidates db)"

text \<open>The verdicts of this window's probes of the given threads; the key is unique.\<close>

definition window_verdict :: "turn_probe list \<Rightarrow> stamp option \<Rightarrow> string \<Rightarrow> string option" where
  "window_verdict ps opened t =
     map_option tp_verdict
       (find (\<lambda>p. tp_opened_at p = opened \<and> tp_provider p = ''codex'' \<and> tp_thread_id p = t) ps)"

definition native_turn_probe_work :: "maintenance_db \<Rightarrow> stamp option \<Rightarrow> (string \<times> nat) list" where
  "native_turn_probe_work db opened =
     (case window_candidates db opened of
        None \<Rightarrow> [(''native Codex turn probes pending'', 1)]
      | Some [] \<Rightarrow> []
      | Some cands \<Rightarrow>
          (case m_probes db of
             None \<Rightarrow> [(''native Codex turn probes pending'', 1)]
           | Some ps \<Rightarrow>
               let active = length (filter (\<lambda>t. window_verdict ps opened t = Some ''active'') cands);
                   pending = length (filter (\<lambda>t. window_verdict ps opened t \<notin>
                     {Some ''active'', Some ''terminal''}) cands)
               in (if active = 0 then [] else [(''native Codex turns'', active)]) @
                  (if pending = 0 then [] else [(''native Codex turn probes pending'', pending)])))"

definition active_work_counts :: "maintenance_db \<Rightarrow> (string \<times> nat) list" where
  "active_work_counts db =
     concat (map (\<lambda>(label, n). case n of None \<Rightarrow> [] | Some 0 \<Rightarrow> [] | Some k \<Rightarrow> [(label, k)])
       (active_work_queries db)) @
     (case db_window db of
        None \<Rightarrow> []
      | Some w \<Rightarrow> if w_submissions_frozen w \<and> w_opened_at w \<noteq> None
                  then native_turn_probe_work db (w_opened_at w) else [])"

definition maintenance_window_status :: "maintenance_db \<Rightarrow> bool \<Rightarrow> window_status" where
  "maintenance_window_status db include_active_work =
     (let work = (if include_active_work then active_work_counts db else []) in
      case db_window db of
        None \<Rightarrow> \<lparr>st_submissions_frozen = False, st_opened_at = None, st_closed_at = None,
                 st_operator_note = [], st_updated_at = None, st_active_work = work\<rparr>
      | Some w \<Rightarrow> \<lparr>st_submissions_frozen = w_submissions_frozen w, st_opened_at = w_opened_at w,
                   st_closed_at = w_closed_at w, st_operator_note = w_operator_note w,
                   st_updated_at = Some (w_updated_at w), st_active_work = work\<rparr>)"

definition status_ready :: "window_status \<Rightarrow> bool" where
  "status_ready st \<longleftrightarrow> st_submissions_frozen st \<and> st_active_work st = []"

section \<open>Operations\<close>

text \<open>
  \<open>_finish_transaction\<close> and \<open>_rollback_transaction\<close> around a body that started from a committed
  store; \<open>owns\<close> is what \<open>_begin_immediate\<close> answered.
\<close>

definition in_transaction :: "bool \<Rightarrow> 'a maintenance_act \<Rightarrow> 'a maintenance_act" where
  "in_transaction owns body = (\<lambda>db.
     case body db of
       (Inl e, db') \<Rightarrow> (Inl e, if owns then db\<lparr>m_in_transaction := False\<rparr> else db')
     | (Inr a, db') \<Rightarrow> (Inr a, if owns then db'\<lparr>m_in_transaction := False\<rparr> else db'))"

definition ensure_maintenance_schema :: "maintenance_db \<Rightarrow> maintenance_db" where
  "ensure_maintenance_schema db =
     db\<lparr>m_in_transaction := False,
        m_candidates := Some (case m_candidates db of None \<Rightarrow> [] | Some cs \<Rightarrow> cs),
        m_probes := Some (case m_probes db of None \<Rightarrow> [] | Some ps \<Rightarrow> ps)\<rparr>"

definition open_window :: "string \<Rightarrow> maintenance_db \<Rightarrow> maintenance_db" where
  "open_window note db =
     db\<lparr>m_in_transaction := True, db_window := Some
       (case db_window db of
          None \<Rightarrow> \<lparr>w_submissions_frozen = True, w_opened_at = Some (db_now db), w_closed_at = None,
                   w_operator_note = note, w_updated_at = db_now db\<rparr>
        | Some w \<Rightarrow> w\<lparr>w_submissions_frozen := True,
            w_opened_at := (if w_submissions_frozen w \<and> w_opened_at w \<noteq> None then w_opened_at w
                            else Some (db_now db)),
            w_closed_at := None,
            w_operator_note := (if note = [] then w_operator_note w else note),
            w_updated_at := db_now db\<rparr>)\<rparr>"

text \<open>\<open>INSERT OR IGNORE\<close> under the primary key (window, provider, thread).\<close>

definition insert_candidate :: "turn_candidate \<Rightarrow> turn_candidate list \<Rightarrow> turn_candidate list" where
  "insert_candidate c cs =
     (if \<exists>d \<in> set cs. tc_opened_at d = tc_opened_at c \<and> tc_provider d = tc_provider c \<and>
                      tc_thread_id d = tc_thread_id c then cs else cs @ [c])"

definition capture_candidates :: "stamp option \<Rightarrow> native_session list \<Rightarrow> maintenance_db \<Rightarrow> maintenance_db" where
  "capture_candidates opened ss db =
     db\<lparr>m_candidates := map_option
       (fold (\<lambda>s. insert_candidate \<lparr>tc_opened_at = opened, tc_provider = ''codex'',
                tc_thread_id = ns_thread_id s, tc_status = sql_lower (ns_status s),
                tc_captured_at = db_now db\<rparr>)
         (filter (\<lambda>s. in_flight s \<and> sql_trim (ns_thread_id s) \<noteq> []) ss)) (m_candidates db)\<rparr>"

definition begin_maintenance_window :: "string \<Rightarrow> window_status maintenance_act" where
  "begin_maintenance_window operator_note =
     bindA (getA (\<lambda>db. \<not> m_in_transaction db)) (\<lambda>owns.
     thenA (modA ensure_maintenance_schema)
     (in_transaction owns
       (thenA (modA (open_window (take 1000 (strip operator_note))))
       (bindA (getA (\<lambda>db. case db_window db of None \<Rightarrow> Some (db_now db) | Some w \<Rightarrow> w_opened_at w)) (\<lambda>opened.
        bindA (liftA (\<lambda>db. case m_native_sessions db of
                             None \<Rightarrow> Inl (NoSuchTable ''native_codex_sessions'')
                           | Some ss \<Rightarrow> Inr ss)) (\<lambda>ss.
        thenA (modA (capture_candidates opened ss))
        (getA (\<lambda>db. maintenance_window_status db True))))))))"

definition close_window :: "maintenance_db \<Rightarrow> maintenance_db" where
  "close_window db =
     db\<lparr>m_in_transaction := True, db_window := Some
       (case db_window db of
          None \<Rightarrow> \<lparr>w_submissions_frozen = False, w_opened_at = None, w_closed_at = Some (db_now db),
                   w_operator_note = [], w_updated_at = db_now db\<rparr>
        | Some w \<Rightarrow> w\<lparr>w_submissions_frozen := False, w_closed_at := Some (db_now db),
                      w_updated_at := db_now db\<rparr>)\<rparr>"

definition cancel_maintenance_window :: "window_status maintenance_act" where
  "cancel_maintenance_window =
     bindA (getA (\<lambda>db. \<not> m_in_transaction db)) (\<lambda>owns.
     thenA (modA ensure_maintenance_schema)
     (in_transaction owns
       (thenA (modA close_window)
       (getA (\<lambda>db. maintenance_window_status db True)))))"

definition clean_provider :: "string \<Rightarrow> string" where
  "clean_provider p =
     (let q = py_lower (strip (if p = [] then ''codex'' else p)) in if q = [] then ''codex'' else q)"

text \<open>\<open>INSERT ... ON CONFLICT DO UPDATE\<close>: the row of the key is overwritten in place.\<close>

definition upsert_probe :: "turn_probe \<Rightarrow> turn_probe list \<Rightarrow> turn_probe list" where
  "upsert_probe p ps =
     (let same = (\<lambda>q. tp_opened_at q = tp_opened_at p \<and> tp_provider q = tp_provider p \<and>
                      tp_thread_id q = tp_thread_id p)
      in if \<exists>q \<in> set ps. same q then upd_rows same (\<lambda>_. p) ps else ps @ [p])"

definition record_native_turn_probe ::
  "stamp option \<Rightarrow> string \<Rightarrow> string \<Rightarrow> string \<Rightarrow> string \<Rightarrow> string \<Rightarrow> string \<Rightarrow> unit maintenance_act" where
  "record_native_turn_probe opened provider thread turn verdict observed diagnostic =
     (let clean = py_lower (strip verdict) in
      thenA (guardA (clean \<in> {''active'', ''terminal'', ''unknown''}) (InvalidVerdict verdict))
      (thenA (modA ensure_maintenance_schema)
      (modA (\<lambda>db. db\<lparr>m_in_transaction := True, m_probes := map_option (upsert_probe
         \<lparr>tp_opened_at = opened, tp_provider = clean_provider provider, tp_thread_id = strip thread,
          tp_turn_id = strip turn, tp_verdict = clean, tp_observed_status = take 120 (strip observed),
          tp_diagnostic = take 500 (strip diagnostic), tp_checked_at = db_now db\<rparr>) (m_probes db)\<rparr>))))"

definition assert_maintenance_window_ready :: "window_status maintenance_act" where
  "assert_maintenance_window_ready =
     bindA (getA (\<lambda>db. \<not> m_in_transaction db)) (\<lambda>owns.
     in_transaction owns
       (bindA (getA (\<lambda>db. maintenance_window_status db True)) (\<lambda>st.
        thenA (guardA (st_submissions_frozen st) WindowNotActive)
        (thenA (guardA (st_active_work st = []) (WindowNotDrained (st_active_work st)))
        (retA st)))))"

section \<open>Lemmas\<close>

lemma frozen_iff: "submissions_frozen db \<longleftrightarrow> (\<exists>w. db_window db = Some w \<and> w_submissions_frozen w)"
  by (simp add: submissions_frozen_def split: option.splits)

lemma schema_frame [simp]:
  "db_window (ensure_maintenance_schema db) = db_window db" "db_now (ensure_maintenance_schema db) = db_now db"
  "m_native_sessions (ensure_maintenance_schema db) = m_native_sessions db"
  "m_tasks (ensure_maintenance_schema db) = m_tasks db"
  by (simp_all add: ensure_maintenance_schema_def)

lemma status_frozen [simp]: "st_submissions_frozen (maintenance_window_status db b) = submissions_frozen db"
  by (simp add: maintenance_window_status_def submissions_frozen_def Let_def split: option.splits)

lemma status_work [simp]: "st_active_work (maintenance_window_status db True) = active_work_counts db"
  by (simp add: maintenance_window_status_def Let_def split: option.splits)

text \<open>The queries report exactly the labels with a positive count.\<close>

lemma queries_empty:
  "concat (map (\<lambda>(label, n). case n of None \<Rightarrow> [] | Some 0 \<Rightarrow> [] | Some k \<Rightarrow> [(label, k)]) qs) = [] \<longleftrightarrow>
     (\<forall>(label, n) \<in> set qs. n = None \<or> n = Some (0::nat))"
  by (auto split: option.splits nat.splits)

lemma count_not_in_0: "count_not_in xs rows = 0 \<longleftrightarrow> set rows \<subseteq> set xs"
  by (auto simp: count_not_in_def filter_empty_conv)

lemma count_in_0: "count_in xs rows = 0 \<longleftrightarrow> set rows \<inter> set xs = {}"
  by (auto simp: count_in_def filter_empty_conv)

lemma drained_iff:
  "filter (\<lambda>t. v t = Some ''active'') cands = [] \<and>
   filter (\<lambda>t. v t \<notin> {Some ''active'', Some ''terminal''}) cands = [] \<longleftrightarrow>
     (\<forall>t \<in> set cands. v t = Some ''terminal'')"
  by (auto simp: filter_empty_conv)

lemma native_work_empty:
  "native_turn_probe_work db opened = [] \<longleftrightarrow>
     (\<exists>cands. window_candidates db opened = Some cands \<and>
        (cands = [] \<or> (\<exists>ps. m_probes db = Some ps \<and>
           (\<forall>t \<in> set cands. window_verdict ps opened t = Some ''terminal''))))"
proof (cases "window_candidates db opened")
  case (Some cands)
  show ?thesis
  proof (cases "cands = [] \<or> m_probes db = None")
    case True
    with Some show ?thesis by (cases cands) (auto simp: native_turn_probe_work_def)
  next
    case False
    then obtain c cs ps where c: "cands = c # cs" and ps: "m_probes db = Some ps"
      by (metis neq_Nil_conv not_None_eq)
    have "native_turn_probe_work db opened = [] \<longleftrightarrow>
        filter (\<lambda>t. window_verdict ps opened t = Some ''active'') cands = [] \<and>
        filter (\<lambda>t. window_verdict ps opened t \<notin> {Some ''active'', Some ''terminal''}) cands = []"
      unfolding native_turn_probe_work_def Some ps option.case c list.case Let_def
      by (simp only: length_0_conv append_is_Nil_conv split: if_split) simp
    also have "\<dots> \<longleftrightarrow> (\<forall>t \<in> set cands. window_verdict ps opened t = Some ''terminal'')"
      by (rule drained_iff)
    finally show ?thesis using Some ps c by auto
  qed
qed (simp add: native_turn_probe_work_def)

lemma window_candidates_mem:
  assumes "m_candidates db = Some cs" "c \<in> set cs" "tc_opened_at c = op" "tc_provider c = ''codex''"
    "strip (tc_thread_id c) \<noteq> []"
  shows "\<exists>cands. window_candidates db op = Some cands \<and> tc_thread_id c \<in> set cands"
  using assms unfolding window_candidates_def by simp

lemma find_upsert:
  "find (\<lambda>q. tp_opened_at q = o' \<and> tp_provider q = pr \<and> tp_thread_id q = t) (upsert_probe p ps) =
     (if tp_opened_at p = o' \<and> tp_provider p = pr \<and> tp_thread_id p = t then Some p
      else find (\<lambda>q. tp_opened_at q = o' \<and> tp_provider q = pr \<and> tp_thread_id q = t) ps)"
proof (cases "\<exists>q \<in> set ps. tp_opened_at q = tp_opened_at p \<and> tp_provider q = tp_provider p \<and>
    tp_thread_id q = tp_thread_id p")
  case True
  have "find (\<lambda>q. tp_opened_at q = o' \<and> tp_provider q = pr \<and> tp_thread_id q = t)
      (upd_rows (\<lambda>q. tp_opened_at q = tp_opened_at p \<and> tp_provider q = tp_provider p \<and>
         tp_thread_id q = tp_thread_id p) (\<lambda>_. p) qs) =
    (if tp_opened_at p = o' \<and> tp_provider p = pr \<and> tp_thread_id p = t \<and>
        (\<exists>q \<in> set qs. tp_opened_at q = tp_opened_at p \<and> tp_provider q = tp_provider p \<and> tp_thread_id q = tp_thread_id p)
     then Some p else find (\<lambda>q. tp_opened_at q = o' \<and> tp_provider q = pr \<and> tp_thread_id q = t) qs)" for qs
    by (induction qs) (auto simp: upd_rows_Cons)
  with True show ?thesis by (simp add: upsert_probe_def Let_def)
next
  case False
  then have e: "upsert_probe p ps = ps @ [p]" by (simp only: upsert_probe_def Let_def if_False)
  have "find (\<lambda>q. tp_opened_at q = tp_opened_at p \<and> tp_provider q = tp_provider p \<and>
      tp_thread_id q = tp_thread_id p) ps = None"
    using False by (auto simp: find_None_iff)
  then show ?thesis unfolding e find_append by (auto split: option.splits)
qed

lemma insert_candidate_keeps: "c \<in> set cs \<Longrightarrow> c \<in> set (insert_candidate d cs)"
  by (simp add: insert_candidate_def)

lemma fold_candidates_keep: "c \<in> set cs \<Longrightarrow> c \<in> set (fold (\<lambda>s. insert_candidate (f s)) ss cs)"
  by (induction ss arbitrary: cs) (simp_all add: insert_candidate_keeps)

lemma fold_candidates_add:
  "s \<in> set ss \<Longrightarrow> \<exists>c \<in> set (fold (\<lambda>s. insert_candidate (f s)) ss cs).
     tc_opened_at c = tc_opened_at (f s) \<and> tc_provider c = tc_provider (f s) \<and> tc_thread_id c = tc_thread_id (f s)"
proof (induction ss arbitrary: cs)
  case (Cons x ss)
  have "\<exists>c \<in> set (insert_candidate (f x) cs). tc_opened_at c = tc_opened_at (f x) \<and>
      tc_provider c = tc_provider (f x) \<and> tc_thread_id c = tc_thread_id (f x)"
    by (auto simp: insert_candidate_def)
  then have "\<exists>c \<in> set (fold (\<lambda>s. insert_candidate (f s)) (x # ss) cs). tc_opened_at c = tc_opened_at (f x) \<and>
      tc_provider c = tc_provider (f x) \<and> tc_thread_id c = tc_thread_id (f x)"
    using fold_candidates_keep [of _ "insert_candidate (f x) cs" f ss] by fastforce
  moreover have "\<exists>c \<in> set (fold (\<lambda>s. insert_candidate (f s)) (x # ss) cs). tc_opened_at c = tc_opened_at (f s) \<and>
      tc_provider c = tc_provider (f s) \<and> tc_thread_id c = tc_thread_id (f s)" if "s \<in> set ss"
    using Cons.IH [OF that, of "insert_candidate (f x) cs"] by simp
  ultimately show ?case using Cons.prems by auto
qed simp

lemma dropWhile_all: "dropWhile P (rev (dropWhile P t)) = [] \<longleftrightarrow> (\<forall>c \<in> set t. P c)"
proof
  assume "dropWhile P (rev (dropWhile P t)) = []"
  then have "\<forall>c \<in> set (dropWhile P t). P c" by (simp add: dropWhile_eq_Nil_conv)
  moreover have "set t = set (takeWhile P t) \<union> set (dropWhile P t)"
    by (metis set_append takeWhile_dropWhile_id)
  ultimately show "\<forall>c \<in> set t. P c" by (auto dest: set_takeWhileD)
next
  assume "\<forall>c \<in> set t. P c"
  then have "dropWhile P t = []" by (simp add: dropWhile_eq_Nil_conv)
  then show "dropWhile P (rev (dropWhile P t)) = []" by (simp only: rev.simps dropWhile.simps)
qed

lemma strip_trim: "strip t \<noteq> [] \<Longrightarrow> sql_trim t \<noteq> []"
proof -
  assume "strip t \<noteq> []"
  then have "\<exists>c \<in> set t. \<not> py_isspace c"
    unfolding strip_def lstrip_def rstrip_def rev_is_Nil_conv dropWhile_all by blast
  moreover have "py_isspace (CHR '' '')" by code_simp
  ultimately have "\<not> (\<forall>c \<in> set t. c = CHR '' '')" by metis
  then show ?thesis unfolding sql_trim_def rev_is_Nil_conv dropWhile_all .
qed

end
