(* ===== verification/Maintenance_Properties.thy ===== *)
theory Maintenance_Properties
  imports Maintenance
begin

text \<open>
  What the maintenance window guarantees: opening it freezes submissions and fixes the set of native
  turns that must be observed, the readiness check passes only on a frozen and fully drained store,
  and observations of an earlier window never count for a later one.
\<close>

definition demo_store :: "native_session list \<Rightarrow> maintenance_db" where
  "demo_store ss = \<lparr>db_now = 7, db_window = None, m_in_transaction = False, m_tasks = Some [''done''],
     m_approvals = Some [], m_agent_runs = None, m_orchestration_runs = None, m_team_runs = None,
     m_pending_inputs = None, m_queue_leases = None, m_queue_locks = None, m_creation_leases = None,
     m_completion_claims = None, m_completion_event_claims = None, m_runtime_events = None,
     m_mutations = None, m_backend_requests = None, m_workflow_runs = None,
     m_native_sessions = Some ss, m_candidates = None, m_probes = None\<rparr>"

definition demo_session :: native_session where
  "demo_session = \<lparr>ns_thread_id = ''t1'', ns_status = ''Running''\<rparr>"

section \<open>Readiness\<close>

lemma ready_run:
  "assert_maintenance_window_ready db =
     (if \<not> submissions_frozen db then (Inl WindowNotActive, db)
      else if active_work_counts db \<noteq> [] then (Inl (WindowNotDrained (active_work_counts db)), db)
      else (Inr (maintenance_window_status db True), db))"
  by (cases "m_in_transaction db")
     (auto simp: assert_maintenance_window_ready_def run_simps in_transaction_def)



section \<open>Opening and cancelling\<close>

definition opened_store :: "string \<Rightarrow> native_session list \<Rightarrow> maintenance_db \<Rightarrow> maintenance_db" where
  "opened_store note ss db =
     (let db1 = open_window (take 1000 (strip note)) (ensure_maintenance_schema db)
      in capture_candidates (w_opened_at (the (db_window db1))) ss db1)"

lemma open_window_window:
  "\<exists>w. db_window (open_window n db) = Some w \<and> w_submissions_frozen w \<and> w_opened_at w \<noteq> None"
  by (simp add: open_window_def split: option.split)

lemma begin_run:
  "begin_maintenance_window note db =
     (case m_native_sessions db of
        None \<Rightarrow> (Inl (NoSuchTable ''native_codex_sessions''),
                 if m_in_transaction db then open_window (take 1000 (strip note)) (ensure_maintenance_schema db)
                 else ensure_maintenance_schema db)
      | Some ss \<Rightarrow> (Inr (maintenance_window_status (opened_store note ss db) True),
                   (opened_store note ss db)\<lparr>m_in_transaction := m_in_transaction db\<rparr>))"
proof -
  obtain w where w: "db_window (open_window (take 1000 (strip note)) (ensure_maintenance_schema db)) = Some w"
    using open_window_window by blast
  have "m_native_sessions (open_window n (ensure_maintenance_schema db)) = m_native_sessions db" for n
    by (simp add: open_window_def)
  moreover have "m_in_transaction (opened_store note ss db)" for ss
    by (simp add: opened_store_def capture_candidates_def open_window_def Let_def)
  moreover have "ensure_maintenance_schema db\<lparr>m_in_transaction := False\<rparr> = ensure_maintenance_schema db"
    by (simp add: ensure_maintenance_schema_def)
  ultimately show ?thesis
    using w
    by (auto simp: begin_maintenance_window_def run_simps in_transaction_def opened_store_def Let_def
        split: option.splits)
qed

lemma begin_captures:
  assumes "m_native_sessions db = Some ss"
  shows "\<exists>st db' w. begin_maintenance_window note db = (Inr st, db') \<and> db_window db' = Some w \<and>
    assert_submissions_open db' = Inl MaintenanceWindowError \<and>
    (\<forall>s \<in> set ss. in_flight s \<and> strip (ns_thread_id s) \<noteq> [] \<longrightarrow>
       (\<exists>cands. window_candidates db' (w_opened_at w) = Some cands \<and> ns_thread_id s \<in> set cands))"
proof -
  let ?db1 = "open_window (take 1000 (strip note)) (ensure_maintenance_schema db)"
  let ?f = "\<lambda>s. \<lparr>tc_opened_at = w_opened_at (the (db_window ?db1)), tc_provider = ''codex'',
      tc_thread_id = ns_thread_id s, tc_status = sql_lower (ns_status s), tc_captured_at = db_now ?db1\<rparr>"
  let ?db' = "(opened_store note ss db)\<lparr>m_in_transaction := m_in_transaction db\<rparr>"
  obtain w where w: "db_window ?db1 = Some w" "w_submissions_frozen w" using open_window_window by blast
  have win: "db_window ?db' = Some w" by (simp add: opened_store_def capture_candidates_def Let_def w(1))
  have "m_candidates ?db1 = Some (case m_candidates db of None \<Rightarrow> [] | Some cs \<Rightarrow> cs)"
    by (simp add: open_window_def ensure_maintenance_schema_def)
  then have cs: "m_candidates ?db' = Some (fold (\<lambda>s. insert_candidate (?f s))
      (filter (\<lambda>s. in_flight s \<and> sql_trim (ns_thread_id s) \<noteq> []) ss)
      (case m_candidates db of None \<Rightarrow> [] | Some cs \<Rightarrow> cs))"
    by (simp add: opened_store_def capture_candidates_def Let_def)
  have cap: "\<exists>cands. window_candidates ?db' (w_opened_at w) = Some cands \<and> ns_thread_id s \<in> set cands"
    if "s \<in> set ss" "in_flight s" "strip (ns_thread_id s) \<noteq> []" for s
  proof -
    have "s \<in> set (filter (\<lambda>s. in_flight s \<and> sql_trim (ns_thread_id s) \<noteq> []) ss)"
      using that strip_trim by simp
    from fold_candidates_add [OF this, of ?f "case m_candidates db of None \<Rightarrow> [] | Some cs \<Rightarrow> cs"]
    obtain c where c: "c \<in> set (the (m_candidates ?db'))" "tc_opened_at c = w_opened_at w"
        "tc_provider c = ''codex''" "tc_thread_id c = ns_thread_id s"
      unfolding cs w(1) by auto
    have "strip (tc_thread_id c) \<noteq> []" using c(4) that(3) by simp
    then show ?thesis
      using window_candidates_mem [of ?db' "the (m_candidates ?db')" c "w_opened_at w"] cs c by simp
  qed
  show ?thesis
    using assms win w(2) cap
    by (auto simp: begin_run assert_submissions_open_def submissions_frozen_def)
qed

text \<open>Opening the window closes the submission gate and captures every native session that looks in
  flight at that moment: its thread is among the candidates of this window.\<close>

theorem begin_freezes_and_captures:
  assumes "m_native_sessions db = Some ss"
  shows "\<exists>st db' w. begin_maintenance_window note db = (Inr st, db') \<and> db_window db' = Some w \<and>
    assert_submissions_open db' = Inl MaintenanceWindowError \<and>
    (\<forall>s \<in> set ss. in_flight s \<and> strip (ns_thread_id s) \<noteq> [] \<longrightarrow>
       (\<exists>cands. window_candidates db' (w_opened_at w) = Some cands \<and> ns_thread_id s \<in> set cands))"
  using assms by (rule begin_captures)

theorem begin_freezes_and_captures_witness:
  "\<exists>st db' w. begin_maintenance_window ''note'' (demo_store [demo_session]) = (Inr st, db') \<and>
     db_window db' = Some w \<and> assert_submissions_open db' = Inl MaintenanceWindowError \<and>
     (\<exists>cands. window_candidates db' (w_opened_at w) = Some cands \<and> ''t1'' \<in> set cands)"
proof -
  have s: "m_native_sessions (demo_store [demo_session]) = Some [demo_session]" by (simp add: demo_store_def)
  have f: "in_flight demo_session" "strip (ns_thread_id demo_session) \<noteq> []" by code_simp+
  have "ns_thread_id demo_session = ''t1''" by (simp add: demo_session_def)
  then show ?thesis using begin_freezes_and_captures [OF s, of "''note''"] f by fastforce
qed

text \<open>Opening an already open window again keeps its opening time and every candidate captured before,
  and cancelling it reopens submissions.\<close>

theorem begin_again_keeps_window:
  assumes "m_native_sessions db = Some ss" and "db_window db = Some w"
    and "w_submissions_frozen w" and "w_opened_at w = Some op"
    and "m_candidates db = Some cs" and "c \<in> set cs"
  shows "\<exists>st db' w' cs'. begin_maintenance_window note db = (Inr st, db') \<and> db_window db' = Some w' \<and>
    w_opened_at w' = Some op \<and> m_candidates db' = Some cs' \<and> c \<in> set cs' \<and>
    assert_submissions_open (snd (cancel_maintenance_window db')) = Inr ()"
proof -
  let ?db' = "(opened_store note ss db)\<lparr>m_in_transaction := m_in_transaction db\<rparr>"
  have w': "\<exists>w'. db_window ?db' = Some w' \<and> w_opened_at w' = Some op"
    using assms(2-4) by (simp add: opened_store_def open_window_def capture_candidates_def Let_def)
  have cs': "\<exists>cs'. m_candidates ?db' = Some cs' \<and> c \<in> set cs'"
    using assms(5,6) by (simp add: opened_store_def open_window_def capture_candidates_def Let_def
        ensure_maintenance_schema_def fold_candidates_keep)
  have "assert_submissions_open (snd (cancel_maintenance_window d)) = Inr ()" for d
    by (auto simp: cancel_maintenance_window_def run_simps in_transaction_def assert_submissions_open_def
        submissions_frozen_def close_window_def split: option.split)
  then show ?thesis using w' cs' assms(1) by (auto simp: begin_run)
qed

theorem begin_again_keeps_window_witness:
  "\<exists>st db' w'. begin_maintenance_window [] (snd (begin_maintenance_window [] (demo_store [demo_session]))) =
     (Inr st, db') \<and> db_window db' = Some w' \<and> w_opened_at w' = Some 7"
proof -
  let ?db = "snd (begin_maintenance_window [] (demo_store [demo_session]))"
  let ?w = "\<lparr>w_submissions_frozen = True, w_opened_at = Some 7, w_closed_at = None, w_operator_note = [],
      w_updated_at = 7\<rparr>"
  let ?c = "\<lparr>tc_opened_at = Some 7, tc_provider = ''codex'', tc_thread_id = ''t1'', tc_status = ''running'',
      tc_captured_at = 7\<rparr>"
  have "m_native_sessions ?db = Some [demo_session]" "db_window ?db = Some ?w" "m_candidates ?db = Some [?c]"
    by code_simp+
  from begin_again_keeps_window [OF this(1,2) _ _ this(3), of 7 ?c "[]"] show ?thesis by auto
qed

text \<open>An observation of an earlier window never authorises a later one: after opening a window at a
  time no probe was recorded for, the readiness check is refused as long as some session was in flight at
  the opening.\<close>

theorem stale_probes_do_not_count:
  assumes "m_native_sessions db = Some ss" and "\<not> submissions_frozen db"
    and "s \<in> set ss" and "in_flight s" and "strip (ns_thread_id s) \<noteq> []"
    and "\<And>ps p. m_probes db = Some ps \<Longrightarrow> p \<in> set ps \<Longrightarrow> tp_opened_at p \<noteq> Some (db_now db)"
  shows "\<exists>work db'. assert_maintenance_window_ready (snd (begin_maintenance_window note db)) =
    (Inl (WindowNotDrained work), db') \<and> work \<noteq> []"
proof -
  obtain st db' w where b: "begin_maintenance_window note db = (Inr st, db')" "db_window db' = Some w"
      "assert_submissions_open db' = Inl MaintenanceWindowError"
      "\<exists>cands. window_candidates db' (w_opened_at w) = Some cands \<and> ns_thread_id s \<in> set cands"
    using begin_captures [OF assms(1), of "note"] assms(3-5) by blast
  have db': "db' = (opened_store note ss db)\<lparr>m_in_transaction := m_in_transaction db\<rparr>"
    using b(1) assms(1) by (simp add: begin_run)
  have op: "w_opened_at w = Some (db_now db)"
    using b(2) assms(2) unfolding db'
    by (auto simp: opened_store_def open_window_def capture_candidates_def Let_def submissions_frozen_def
        split: option.splits)
  have ps: "m_probes db' = Some (case m_probes db of None \<Rightarrow> [] | Some ps \<Rightarrow> ps)"
    unfolding db' by (simp add: opened_store_def open_window_def capture_candidates_def Let_def
        ensure_maintenance_schema_def)
  have "window_verdict (case m_probes db of None \<Rightarrow> [] | Some ps \<Rightarrow> ps) (Some (db_now db)) t = None" for t
    using assms(6) by (cases "m_probes db") (auto simp: window_verdict_def find_None_iff)
  then have "native_turn_probe_work db' (Some (db_now db)) \<noteq> []"
    using b(4) ps op by (auto simp: native_work_empty)
  then have "active_work_counts db' \<noteq> []"
    using b(2,3) op by (auto simp: active_work_counts_def assert_submissions_open_def submissions_frozen_def
        split: if_splits)
  moreover have "submissions_frozen db'" using b(3) by (simp add: assert_submissions_open_def split: if_splits)
  ultimately show ?thesis using b(1) by (simp add: ready_run)
qed

theorem stale_probes_do_not_count_witness:
  "\<exists>work db'. assert_maintenance_window_ready (snd (begin_maintenance_window [] (demo_store [demo_session]))) =
    (Inl (WindowNotDrained work), db') \<and> work \<noteq> []"
proof -
  have "m_native_sessions (demo_store [demo_session]) = Some [demo_session]"
    "\<not> submissions_frozen (demo_store [demo_session])"
    "in_flight demo_session" "strip (ns_thread_id demo_session) \<noteq> []" by code_simp+
  then show ?thesis
    by (intro stale_probes_do_not_count [where s = demo_session and ss = "[demo_session]"]) (simp_all add: demo_store_def)
qed

text \<open>Recording an observation: a verdict outside active, terminal and unknown is refused and nothing
  is written; otherwise exactly the verdict of that window, provider and thread becomes the new one,
  whatever was recorded before, and every other verdict stays.\<close>

theorem record_probe_upserts:
  assumes "m_probes db = Some ps"
  shows "if py_lower (strip verdict) \<in> {''active'', ''terminal'', ''unknown''}
    then \<exists>db' ps'. record_native_turn_probe op provider thread turn verdict obs diag db = (Inr (), db') \<and>
      m_probes db' = Some ps' \<and>
      (\<forall>op' t. window_verdict ps' op' t =
         (if op' = op \<and> t = strip thread \<and> clean_provider provider = ''codex''
          then Some (py_lower (strip verdict)) else window_verdict ps op' t))
    else record_native_turn_probe op provider thread turn verdict obs diag db = (Inl (InvalidVerdict verdict), db)"
  using assms
  by (auto simp: record_native_turn_probe_def run_simps Let_def window_verdict_def find_upsert
      ensure_maintenance_schema_def)

theorem record_probe_upserts_witness:
  "record_native_turn_probe (Some 7) ''codex'' ''t1'' [] ''gone'' [] []
     ((demo_store [])\<lparr>m_probes := Some []\<rparr>) = (Inl (InvalidVerdict ''gone''), (demo_store [])\<lparr>m_probes := Some []\<rparr>)"
proof -
  have p: "m_probes ((demo_store [])\<lparr>m_probes := Some []\<rparr>) = Some []" by simp
  have v: "py_lower (strip ''gone'') \<notin> {''active'', ''terminal'', ''unknown''}" by code_simp
  show ?thesis
    using record_probe_upserts [OF p, of "''gone''" "Some 7" "''codex''" "''t1''" "[]" "[]" "[]"] v
    by (simp only: if_False)
qed

end
