(* ===== verification/Conversations.thy ===== *)
theory Conversations
  imports Task_Lifecycle
begin

text \<open>
  Conversations: the conversation, agent-run and orchestration-run tables of \<^verbatim>\<open>wlcodex/db.py\<close>, the pure
  helpers of \<^verbatim>\<open>wlcodex/conversation.py\<close>, the message router of
  \<^verbatim>\<open>wlcodex/conversation_state_machine.py\<close> and the lease scheduler of \<^verbatim>\<open>wlcodex/execution_scheduler.py\<close>.
  Texts outside Latin-1 are arguments (the ellipsis, the default workbench title) or constructors
  (button labels, the acknowledgement).
\<close>

section \<open>The conversation table\<close>

definition new_conversation :: "row_id \<Rightarrow> stamp \<Rightarrow> int \<Rightarrow> int \<Rightarrow> string \<Rightarrow> string \<Rightarrow> string \<Rightarrow> bool
  \<Rightarrow> conversation_session" where
  "new_conversation i now chat user title mode alias legacy =
     \<lparr>c_id = i, c_chat_id = chat, c_user_id = user, c_title = title, c_mode = mode,
      c_workspace_alias = alias, c_active_codex_task_id = None, c_active_claude_run_id = None,
      c_conversation_summary = [], c_current_model = [], c_created_at = now, c_updated_at = now,
      c_archived_at = None, c_codex_thread_id = [], c_codex_thread_policy = [], c_claude_session_id = [],
      c_legacy_compatible = legacy\<rparr>"

definition create_conversation ::
  "int \<Rightarrow> int \<Rightarrow> string \<Rightarrow> string \<Rightarrow> string \<Rightarrow> bool \<Rightarrow> ledger \<Rightarrow> conversation_session \<times> ledger" where
  "create_conversation chat user title mode alias legacy l =
     (let c = new_conversation (l_next_conversation l) (db_now l) chat user title mode alias legacy
      in (c, l\<lparr>l_conversations := l_conversations l @ [c], l_next_conversation := l_next_conversation l + 1\<rparr>))"

definition find_conversation :: "ledger \<Rightarrow> row_id \<Rightarrow> conversation_session option" where
  "find_conversation l i = find (\<lambda>c. c_id c = i) (l_conversations l)"

definition get_conversation :: "ledger \<Rightarrow> row_id \<Rightarrow> exn + conversation_session" where
  "get_conversation l i =
     (case find_conversation l i of
        None \<Rightarrow> Inl (KeyError (''unknown conversation id: '' @ nat_str i))
      | Some c \<Rightarrow> Inr c)"

definition get_active_conversation :: "ledger \<Rightarrow> int \<Rightarrow> conversation_session option" where
  "get_active_conversation l chat =
     first_row (order_desc (\<lambda>c. (c_updated_at c, c_id c))
       (filter (\<lambda>c. c_chat_id c = chat \<and> c_archived_at c = None) (l_conversations l)))"

definition upd_conversation ::
  "row_id \<Rightarrow> (conversation_session \<Rightarrow> conversation_session) \<Rightarrow> ledger \<Rightarrow> ledger" where
  "upd_conversation i f l =
     l\<lparr>l_conversations := upd_rows (\<lambda>c. c_id c = i) (\<lambda>c. f c\<lparr>c_updated_at := db_now l\<rparr>) (l_conversations l)\<rparr>"

definition then_get_conversation :: "row_id \<Rightarrow> (ledger \<Rightarrow> ledger) \<Rightarrow> (ledger, exn, conversation_session) act" where
  "then_get_conversation i f = thenA (modA f) (liftA (\<lambda>l. get_conversation l i))"

definition set_active_conversation_mode :: "row_id \<Rightarrow> string \<Rightarrow> (ledger, exn, conversation_session) act" where
  "set_active_conversation_mode i mode = then_get_conversation i (upd_conversation i (\<lambda>c. c\<lparr>c_mode := mode\<rparr>))"

definition set_conversation_workspace :: "row_id \<Rightarrow> string \<Rightarrow> (ledger, exn, conversation_session) act" where
  "set_conversation_workspace i alias =
     then_get_conversation i (upd_conversation i (\<lambda>c. c\<lparr>c_workspace_alias := alias\<rparr>))"

definition update_conversation_summary :: "row_id \<Rightarrow> string \<Rightarrow> (ledger, exn, conversation_session) act" where
  "update_conversation_summary i s =
     then_get_conversation i (upd_conversation i (\<lambda>c. c\<lparr>c_conversation_summary := s\<rparr>))"

definition update_conversation_title :: "row_id \<Rightarrow> string \<Rightarrow> (ledger, exn, conversation_session) act" where
  "update_conversation_title i title =
     then_get_conversation i (upd_conversation i (\<lambda>c. c\<lparr>c_title := title\<rparr>))"

definition set_conversation_codex_thread ::
  "row_id \<Rightarrow> string \<Rightarrow> string option \<Rightarrow> (ledger, exn, conversation_session) act" where
  "set_conversation_codex_thread i thread policy =
     then_get_conversation i (upd_conversation i (\<lambda>c. case policy of
        None \<Rightarrow> c\<lparr>c_codex_thread_id := thread\<rparr>
      | Some p \<Rightarrow> c\<lparr>c_codex_thread_id := thread, c_codex_thread_policy := p\<rparr>))"

definition set_conversation_claude_session :: "row_id \<Rightarrow> string \<Rightarrow> (ledger, exn, conversation_session) act" where
  "set_conversation_claude_session i s =
     then_get_conversation i (upd_conversation i (\<lambda>c. c\<lparr>c_claude_session_id := s\<rparr>))"

definition archive_conversation :: "row_id \<Rightarrow> (ledger, exn, conversation_session) act" where
  "archive_conversation i =
     bindA (getA db_now) (\<lambda>now.
     then_get_conversation i (upd_conversation i (\<lambda>c. c\<lparr>c_archived_at := Some now\<rparr>)))"

definition list_conversations :: "nat \<Rightarrow> ledger \<Rightarrow> conversation_session list" where
  "list_conversations limit l = take limit (order_desc (\<lambda>c. (c_updated_at c, c_id c)) (l_conversations l))"

definition list_conversations_by_chat :: "int \<Rightarrow> nat \<Rightarrow> bool \<Rightarrow> ledger \<Rightarrow> conversation_session list" where
  "list_conversations_by_chat chat limit include_archived l =
     take limit (order_desc (\<lambda>c. (c_updated_at c, c_id c))
       (filter (\<lambda>c. c_chat_id c = chat \<and> (include_archived \<or> c_archived_at c = None)) (l_conversations l)))"

text \<open>Restoring archives every other open conversation of the chat first.\<close>

definition restore_conversation :: "row_id \<Rightarrow> (ledger, exn, conversation_session) act" where
  "restore_conversation i =
     bindA (liftA (\<lambda>l. get_conversation l i)) (\<lambda>c.
     thenA (modA (\<lambda>l. l\<lparr>l_conversations := upd_rows
              (\<lambda>d. c_chat_id d = c_chat_id c \<and> c_id d \<noteq> i \<and> c_archived_at d = None)
              (\<lambda>d. d\<lparr>c_archived_at := Some (db_now l), c_updated_at := db_now l\<rparr>) (l_conversations l)\<rparr>))
     (then_get_conversation i (upd_conversation i (\<lambda>c. c\<lparr>c_archived_at := None\<rparr>))))"

definition set_conversation_active_task :: "row_id \<Rightarrow> row_id \<Rightarrow> ledger \<Rightarrow> ledger" where
  "set_conversation_active_task i task = upd_conversation i (\<lambda>c. c\<lparr>c_active_codex_task_id := Some task\<rparr>)"

definition set_conversation_active_claude_run :: "row_id \<Rightarrow> row_id \<Rightarrow> ledger \<Rightarrow> ledger" where
  "set_conversation_active_claude_run i run = upd_conversation i (\<lambda>c. c\<lparr>c_active_claude_run_id := Some run\<rparr>)"

section \<open>Agent runs and orchestration runs\<close>

definition create_agent_run ::
  "row_id \<Rightarrow> string \<Rightarrow> string \<Rightarrow> row_id option \<Rightarrow> string option \<Rightarrow> string \<Rightarrow> ledger \<Rightarrow> agent_run \<times> ledger" where
  "create_agent_run conv agent role hidden session packet l =
     (let r = \<lparr>r_id = l_next_agent_run l, r_conversation_id = conv, r_agent = agent, r_role = role,
               r_status = ''queued'', r_hidden_task_id = hidden, r_external_session_id = session,
               r_prompt_packet_summary = packet, r_completion_summary = [], r_token_input = 0,
               r_token_output = 0, r_created_at = db_now l, r_updated_at = db_now l\<rparr>
      in (r, l\<lparr>l_agent_runs := l_agent_runs l @ [r], l_next_agent_run := l_next_agent_run l + 1\<rparr>))"

definition get_agent_run :: "ledger \<Rightarrow> row_id \<Rightarrow> exn + agent_run" where
  "get_agent_run l i =
     (case find (\<lambda>r. r_id r = i) (l_agent_runs l) of
        None \<Rightarrow> Inl (KeyError (''unknown agent run id: '' @ nat_str i))
      | Some r \<Rightarrow> Inr r)"

definition update_agent_run_status ::
  "row_id \<Rightarrow> string \<Rightarrow> int \<Rightarrow> int \<Rightarrow> string option \<Rightarrow> string option \<Rightarrow> (ledger, exn, agent_run) act" where
  "update_agent_run_status i status ti to session summary =
     thenA (modA (\<lambda>l. l\<lparr>l_agent_runs := upd_rows (\<lambda>r. r_id r = i)
       (\<lambda>r. r\<lparr>r_status := status, r_token_input := ti, r_token_output := to,
              r_external_session_id := (case session of None \<Rightarrow> r_external_session_id r | Some s \<Rightarrow> Some s),
              r_completion_summary := (case summary of None \<Rightarrow> r_completion_summary r | Some s \<Rightarrow> s),
              r_updated_at := db_now l\<rparr>) (l_agent_runs l)\<rparr>))
     (liftA (\<lambda>l. get_agent_run l i))"

definition list_agent_runs :: "ledger \<Rightarrow> row_id \<Rightarrow> nat \<Rightarrow> agent_run list" where
  "list_agent_runs l conv limit =
     take limit (sort_key r_id (filter (\<lambda>r. r_conversation_id r = conv) (l_agent_runs l)))"

definition list_recent_agent_runs :: "ledger \<Rightarrow> row_id \<Rightarrow> nat \<Rightarrow> agent_run list" where
  "list_recent_agent_runs l conv limit =
     take limit (order_desc r_id (filter (\<lambda>r. r_conversation_id r = conv) (l_agent_runs l)))"

definition create_orchestration_run ::
  "row_id \<Rightarrow> string \<Rightarrow> int \<Rightarrow> ledger \<Rightarrow> orchestration_run \<times> ledger" where
  "create_orchestration_run conv goal rounds l =
     (let q = \<lparr>o_id = l_next_orchestration l, o_conversation_id = conv, o_goal = goal, o_status = ''running'',
               o_current_step = [], o_verify_round = 0, o_max_verify_rounds = rounds,
               o_last_codex_analysis = [], o_last_claude_summary = [], o_last_verification_result = [],
               o_diagnose_json = [], o_created_at = db_now l, o_updated_at = db_now l\<rparr>
      in (q, l\<lparr>l_orchestrations := l_orchestrations l @ [q],
               l_next_orchestration := l_next_orchestration l + 1\<rparr>))"

definition get_orchestration_run :: "ledger \<Rightarrow> row_id \<Rightarrow> exn + orchestration_run" where
  "get_orchestration_run l i =
     (case find (\<lambda>q. o_id q = i) (l_orchestrations l) of
        None \<Rightarrow> Inl (KeyError (''unknown orchestration run id: '' @ nat_str i))
      | Some q \<Rightarrow> Inr q)"

definition keep :: "'a option \<Rightarrow> 'a \<Rightarrow> 'a" where
  "keep new old = (case new of None \<Rightarrow> old | Some v \<Rightarrow> v)"

definition update_orchestration_run ::
  "row_id \<Rightarrow> string option \<Rightarrow> string option \<Rightarrow> int option \<Rightarrow> string option \<Rightarrow> string option
   \<Rightarrow> string option \<Rightarrow> string option \<Rightarrow> (ledger, exn, orchestration_run) act" where
  "update_orchestration_run i status step round analysis summary result diagnose =
     thenA (modA (\<lambda>l. l\<lparr>l_orchestrations := upd_rows (\<lambda>q. o_id q = i)
       (\<lambda>q. q\<lparr>o_updated_at := db_now l, o_status := keep status (o_status q),
              o_current_step := keep step (o_current_step q), o_verify_round := keep round (o_verify_round q),
              o_last_codex_analysis := keep analysis (o_last_codex_analysis q),
              o_last_claude_summary := keep summary (o_last_claude_summary q),
              o_last_verification_result := keep result (o_last_verification_result q),
              o_diagnose_json := keep diagnose (o_diagnose_json q)\<rparr>) (l_orchestrations l)\<rparr>))
     (liftA (\<lambda>l. get_orchestration_run l i))"

definition list_orchestration_runs :: "ledger \<Rightarrow> row_id \<Rightarrow> nat \<Rightarrow> orchestration_run list" where
  "list_orchestration_runs l conv limit =
     take limit (order_desc o_id (filter (\<lambda>q. o_conversation_id q = conv) (l_orchestrations l)))"

definition get_latest_active_auto_run :: "ledger \<Rightarrow> row_id \<Rightarrow> orchestration_run option" where
  "get_latest_active_auto_run l conv =
     first_row (order_desc o_id (filter (\<lambda>q. o_conversation_id q = conv \<and>
       o_status q \<in> {''running'', ''needs_user''} \<and> o_current_step q \<in> set auto_stage_steps)
       (l_orchestrations l)))"

section \<open>Titles, modes and relative time\<close>

definition default_title :: "char \<Rightarrow> string \<Rightarrow> string" where
  "default_title ell prompt =
     (let cleaned = py_join '' '' (split_ws prompt) in
      if length cleaned \<le> 40 then cleaned else rstrip (take 39 cleaned) @ [ell])"

text \<open>\<open>s.rfind(c)\<close>, \<open>None\<close> for -1.\<close>

definition rfind_char :: "char \<Rightarrow> string \<Rightarrow> nat option" where
  "rfind_char c s = map_option (\<lambda>k. length s - 1 - k) (find_char c (rev s))"

fun break_title :: "char \<Rightarrow> string \<Rightarrow> char list \<Rightarrow> string" where
  "break_title ell s [] = s @ [ell]"
| "break_title ell s (sep # seps) =
     (case rfind_char sep s of
        Some idx \<Rightarrow> if idx > 10 then rstrip (take idx s) @ [ell] else break_title ell s seps
      | None \<Rightarrow> break_title ell s seps)"

text \<open>The four Chinese separators tried first do not occur in Latin-1 text.\<close>

definition workbench_title_from_task :: "char \<Rightarrow> string \<Rightarrow> string" where
  "workbench_title_from_task ell prompt =
     (let cleaned = py_join '' '' (split_ws prompt) in
      if length cleaned \<le> 30 then cleaned
      else break_title ell (rstrip (take 30 cleaned)) [CHR ''.'', CHR '','', CHR '';'', CHR '' ''])"

definition mode_from_command :: "string \<Rightarrow> conversation_mode" where
  "mode_from_command name =
     (let n = py_lower name in
      if n = ''codex'' then CODEX_DIRECT else if n = ''claude'' then CLAUDE_DIRECT else CHIEF_ENGINEER)"

definition is_direct_agent_mode :: "string \<Rightarrow> bool" where
  "is_direct_agent_mode mode \<longleftrightarrow>
     mode \<in> {conversation_mode_value CODEX_DIRECT, conversation_mode_value CLAUDE_DIRECT}"

datatype relative_label = JustNow | Ago nat string

text \<open>\<open>int(delta.total_seconds())\<close> truncates towards zero; anything under a minute is just now.\<close>

definition relative_time :: "stamp \<Rightarrow> stamp \<Rightarrow> relative_label" where
  "relative_time now dt =
     (let seconds = nat ((now - dt) div 1000000);
          minutes = seconds div 60; hours = minutes div 60; days = hours div 24; months = days div 30
      in if seconds < 60 then JustNow
         else if minutes < 60 then Ago minutes ''min''
         else if hours < 24 then Ago hours ''h''
         else if days < 30 then Ago days ''d''
         else Ago months ''mo'')"

end
