(* ===== verification/Message_Router.thy ===== *)
theory Message_Router
  imports Conversations
begin

text \<open>
  \<^verbatim>\<open>wlcodex/conversation_state_machine.py\<close>: the pure decision engine that routes an inbound message, and
  the workspace-busy buttons with their callback codec; \<^verbatim>\<open>wlcodex/execution_scheduler.py\<close>: the lease of a
  workspace for a conversation.
\<close>

section \<open>Routing\<close>

definition conversation_terminal_states :: "string list" where
  "conversation_terminal_states = [''passed'', ''failed'', ''aborted'', ''done'']"

definition diagnostic_commands :: "string list" where
  "diagnostic_commands =
     [''/status'', ''/trace'', ''/health'', ''/diff'', ''/files'', ''/tail'', ''/events'', ''/list'', ''/help'',
      ''/start'', ''/model'', ''/sessions'', ''/stop'', ''/switch'', ''/codex'', ''/claude'', ''/auto'',
      ''/verify'', ''/pause'', ''/abort'', ''/archive'', ''/fork'', ''/continue'', ''/steer'', ''/task'',
      ''/show'', ''/permission'']"

definition immediate_review_states :: "string list" where
  "immediate_review_states = [''new'', ''analysis'', ''waiting_approval'', ''needs_user'']"

definition phase_boundary_states :: "string list" where
  "phase_boundary_states = [''implementation'', ''verification'']"

datatype acknowledgement = MidRunAcknowledgement

record busy_event =
  be_event_type :: string
  be_blocking_task_id :: "int option"
  be_blocking_run_id :: "int option"
  be_conversation_state :: "string option"

record route_decision =
  rd_route :: string
  rd_reason :: string
  rd_new_conversation :: bool
  rd_intent :: string
  rd_conversation_state :: "string option"
  rd_delivery_policy :: "string option"
  rd_user_acknowledgement :: "acknowledgement option"
  rd_requires_approval_supersession :: bool
  rd_expected_events :: "busy_event list"

definition decision :: "string \<Rightarrow> string \<Rightarrow> bool \<Rightarrow> string \<Rightarrow> route_decision" where
  "decision route reason new intent =
     \<lparr>rd_route = route, rd_reason = reason, rd_new_conversation = new, rd_intent = intent,
      rd_conversation_state = None, rd_delivery_policy = None, rd_user_acknowledgement = None,
      rd_requires_approval_supersession = False, rd_expected_events = []\<rparr>"

definition classify_intent :: "string \<Rightarrow> string" where
  "classify_intent text =
     (let normalized = strip text in
      if startswith normalized ''/new'' then ''new_trigger''
      else let cmd = (case split_ws normalized of [] \<Rightarrow> [] | w # _ \<Rightarrow> w) in
           if cmd \<in> set diagnostic_commands then ''diagnostic'' else ''normal_text'')"

definition delivery_policy :: "string option \<Rightarrow> string" where
  "delivery_policy st =
     (case st of
        Some s \<Rightarrow> if s \<in> set immediate_review_states then ''codex_immediate_review''
                  else if s \<in> set phase_boundary_states then ''codex_phase_boundary_review''
                  else ''codex_immediate_review''
      | None \<Rightarrow> ''codex_immediate_review'')"

definition busy_decision :: "string option \<Rightarrow> int option \<Rightarrow> int option \<Rightarrow> route_decision" where
  "busy_decision st task run =
     (decision ''workspace_busy'' ''workspace_locked'' False ''new_trigger'')
       \<lparr>rd_conversation_state := st,
        rd_expected_events := [\<lparr>be_event_type = ''workspace.busy.detected'', be_blocking_task_id = task,
                                be_blocking_run_id = run, be_conversation_state = st\<rparr>]\<rparr>"

definition route_message ::
  "string \<Rightarrow> string option \<Rightarrow> bool \<Rightarrow> int option \<Rightarrow> int option \<Rightarrow> route_decision" where
  "route_message text state busy task run =
     (let intent = classify_intent text in
      if intent = ''diagnostic'' then decision ''diagnostic'' ''inspection_command'' False intent
      else if intent = ''new_trigger'' then
        (if busy then busy_decision state task run
         else decision ''new_conversation'' ''explicit_new_trigger'' True intent)
      else case state of
        None \<Rightarrow> if busy then busy_decision None task run
                else decision ''new_conversation'' ''no_active_conversation'' True intent
      | Some s \<Rightarrow>
          if s \<in> set conversation_terminal_states then
            (if busy then busy_decision state task run
             else (decision ''append_active_conversation'' (''active_conversation_terminal_'' @ s) False intent)
                    \<lparr>rd_conversation_state := state,
                     rd_delivery_policy := Some ''codex_immediate_review''\<rparr>)
          else (decision ''append_active_conversation'' ''active_conversation_non_terminal'' False intent)
                 \<lparr>rd_conversation_state := state, rd_delivery_policy := Some (delivery_policy state),
                  rd_user_acknowledgement :=
                    (if s \<in> set phase_boundary_states then Some MidRunAcknowledgement else None),
                  rd_requires_approval_supersession := (s = ''waiting_approval'')\<rparr>)"

section \<open>Workspace-busy buttons\<close>

definition busy_actions :: "string list" where
  "busy_actions = [''busy_append'', ''busy_interrupt'', ''busy_queue'', ''busy_cancel'', ''busy_new_session'']"

datatype busy_label = SendToCurrent string | InterruptAndRun | QueueForLater | NewIsolated | NotNow

definition busy_callback :: "string \<Rightarrow> int \<Rightarrow> string" where
  "busy_callback action conv = action @ '':'' @ int_str conv"

definition build_workspace_busy_buttons :: "int \<Rightarrow> string \<Rightarrow> (busy_label \<times> string) list list" where
  "build_workspace_busy_buttons conv agent_label =
     [[(SendToCurrent agent_label, busy_callback ''busy_append'' conv),
       (InterruptAndRun, busy_callback ''busy_interrupt'' conv)],
      [(QueueForLater, busy_callback ''busy_queue'' conv),
       (NewIsolated, busy_callback ''busy_new_session'' conv)],
      [(NotNow, busy_callback ''busy_cancel'' conv)]]"

fun decode_with :: "string list \<Rightarrow> string \<Rightarrow> (string \<times> int) option" where
  "decode_with [] data = None"
| "decode_with (p # ps) data =
     (if startswith data (p @ '':'')
      then map_option (\<lambda>n. (p, n)) (py_int_of_string (drop (length p + 1) data))
      else decode_with ps data)"

definition decode_busy_callback :: "string \<Rightarrow> (string \<times> int) option" where
  "decode_busy_callback data = decode_with busy_actions data"

section \<open>Execution leases\<close>

record run_intent =
  ri_conversation_id :: row_id
  ri_workspace_alias :: string
  ri_prompt :: string
  ri_telegram_chat_id :: "int option"
  ri_purpose :: string

record execution_lease =
  el_hidden_task_id :: row_id
  el_workspace_alias :: string
  el_prompt :: string
  el_purpose :: string
  el_task :: task

text \<open>\<open>wb\<close> is the title of a fresh workbench, \<open>ell\<close> the ellipsis.\<close>

definition scheduler_reserve ::
  "service \<Rightarrow> git \<Rightarrow> string \<Rightarrow> char \<Rightarrow> run_intent \<Rightarrow> execution_lease task_act" where
  "scheduler_reserve sv g wb ell ri =
     bindA (reserve_task sv g (ri_workspace_alias ri) (ri_prompt ri) (ri_telegram_chat_id ri) None) (\<lambda>t.
     thenA (modA (set_conversation_active_task (ri_conversation_id ri) (t_id t)))
     (bindA (liftA (\<lambda>l. get_conversation l (ri_conversation_id ri))) (\<lambda>convo.
      bindA (if c_title convo = wb
             then bindA (update_conversation_title (ri_conversation_id ri)
                           (workbench_title_from_task ell (ri_prompt ri))) (\<lambda>_. retA ())
             else retA ()) (\<lambda>_.
      retA \<lparr>el_hidden_task_id = t_id t, el_workspace_alias = ri_workspace_alias ri,
            el_prompt = ri_prompt ri, el_purpose = ri_purpose ri, el_task = t\<rparr>))))"

end
