(* ===== verification/Conversation_Properties.thy ===== *)
theory Conversation_Properties
  imports Message_Router Task_Properties
begin

text \<open>
  Properties of conversations: which messages start, continue or inspect a conversation, the callback
  codec of the busy buttons, at most one open conversation per chat after a restore, the bounds on
  titles, and what a lease leaves behind when its conversation is unknown.
\<close>

section \<open>Routing\<close>

lemma classify_range: "classify_intent text \<in> {''new_trigger'', ''diagnostic'', ''normal_text''}"
  by (simp add: classify_intent_def Let_def)

text \<open>The router on every branch: a new conversation is started exactly for a \<open>/new\<close> trigger, or for
  normal text with no active conversation, and never in a busy workspace; inspection commands touch
  nothing; a busy event is emitted exactly for the busy route; approvals are superseded exactly by normal
  text to a conversation that waits for approval; and the mid-run acknowledgement goes exactly to normal
  text during implementation or verification.\<close>

theorem route_message_cases:
  "let d = route_message text state busy task run; i = classify_intent text in
     (rd_new_conversation d \<longleftrightarrow> \<not> busy \<and> (i = ''new_trigger'' \<or> i = ''normal_text'' \<and> state = None)) \<and>
     (rd_route d = ''diagnostic'' \<longleftrightarrow> i = ''diagnostic'') \<and>
     (rd_expected_events d = [] \<longleftrightarrow> rd_route d \<noteq> ''workspace_busy'') \<and>
     (rd_requires_approval_supersession d \<longleftrightarrow> i = ''normal_text'' \<and> state = Some ''waiting_approval'') \<and>
     (rd_user_acknowledgement d = Some MidRunAcknowledgement \<longleftrightarrow>
        i = ''normal_text'' \<and> state \<in> {Some ''implementation'', Some ''verification''}) \<and>
     (rd_route d = ''append_active_conversation'' \<longleftrightarrow>
        i = ''normal_text'' \<and> state \<noteq> None \<and>
        (busy = False \<or> the state \<notin> set conversation_terminal_states))"
  using classify_range [of "text"]
  by (cases state)
     (auto simp: route_message_def decision_def busy_decision_def Let_def conversation_terminal_states_def
       phase_boundary_states_def)

theorem route_message_cases_witness:
  "rd_route (route_message ''fix it'' (Some ''analysis'') True (Some 1) None) = ''append_active_conversation''"
proof -
  have i: "classify_intent ''fix it'' = ''normal_text''" by code_simp
  show ?thesis
    using route_message_cases [where state = "Some ''analysis''" and busy = True and task = "Some 1" and run = None,
        of "''fix it''"] i
    by (simp add: Let_def conversation_terminal_states_def)
qed

lemma strip_slash: "startswith (strip (''/new'' @ s)) ''/new''"
proof -
  have sp: "\<not> py_isspace (CHR ''/'')" "\<not> py_isspace (last ''/new'')" by code_simp+
  then have l: "lstrip (''/new'' @ s) = ''/new'' @ s" by (simp add: lstrip_def)
  obtain t where "rstrip (''/new'' @ s) = ''/new'' @ t" using rstrip_prefix [of "''/new''" s] sp by auto
  then show ?thesis unfolding strip_def l by (simp add: startswith_def)
qed

text \<open>Everything that begins with \<open>/new\<close> is a new-conversation trigger, \<open>/newsletter\<close> included.\<close>

theorem new_prefix_triggers: "classify_intent (''/new'' @ s) = ''new_trigger''"
  using strip_slash [of s] by (simp add: classify_intent_def Let_def)

section \<open>Busy buttons\<close>

lemma decode_with_hit:
  assumes "a \<in> set ps" and "\<And>p q t. p \<in> set ps \<Longrightarrow> q \<in> set ps \<Longrightarrow> startswith (p @ '':'' @ t) (q @ '':'') \<Longrightarrow> p = q"
  shows "decode_with ps (a @ '':'' @ int_str n) = Some (a, n)"
  using assms
proof (induction ps)
  case (Cons p ps)
  show ?case
  proof (cases "p = a")
    case True
    then show ?thesis by (simp add: startswith_def)
  next
    case False
    then have "\<not> startswith (a @ '':'' @ int_str n) (p @ '':'')" using Cons.prems by (metis list.set_intros(1))
    moreover have "decode_with ps (a @ '':'' @ int_str n) = Some (a, n)"
      using Cons False by (metis list.set_intros(2) set_ConsD)
    ultimately show ?thesis by simp
  qed
qed simp

lemma busy_actions_free:
  "p \<in> set busy_actions \<Longrightarrow> q \<in> set busy_actions \<Longrightarrow> startswith (p @ '':'' @ t) (q @ '':'') \<Longrightarrow> p = q"
  by (auto simp: busy_actions_def startswith_def)

text \<open>Pressing a busy button is understood as the choice it shows: the callback data of every button
  of the keyboard decodes to its action and the conversation it was built for, for every conversation id.\<close>

theorem busy_buttons_decode:
  "map (map (decode_busy_callback \<circ> snd)) (build_workspace_busy_buttons conv lab) =
     [[Some (''busy_append'', conv), Some (''busy_interrupt'', conv)],
      [Some (''busy_queue'', conv), Some (''busy_new_session'', conv)], [Some (''busy_cancel'', conv)]]"
proof -
  have hit: "decode_busy_callback (busy_callback a conv) = Some (a, conv)" if "a \<in> set busy_actions" for a
    unfolding decode_busy_callback_def busy_callback_def
    using that busy_actions_free by (intro decode_with_hit) auto
  have "''busy_append'' \<in> set busy_actions" "''busy_interrupt'' \<in> set busy_actions"
    "''busy_queue'' \<in> set busy_actions" "''busy_new_session'' \<in> set busy_actions"
    "''busy_cancel'' \<in> set busy_actions" by (simp_all add: busy_actions_def)
  from this [THEN hit] show ?thesis
    unfolding build_workspace_busy_buttons_def list.map comp_def snd_conv by (simp only:)
qed

section \<open>Restoring a conversation\<close>

definition open_in_chat :: "ledger \<Rightarrow> int \<Rightarrow> conversation_session list" where
  "open_in_chat l chat = filter (\<lambda>c. c_chat_id c = chat \<and> c_archived_at c = None) (l_conversations l)"

lemma filter_single:
  assumes "distinct xs" and "x \<in> set xs" and "P x" and "\<And>y. y \<in> set xs \<Longrightarrow> P y \<Longrightarrow> y = x"
  shows "filter P xs = [x]"
proof -
  obtain ys zs where xs: "xs = ys @ x # zs" using split_list [OF assms(2)] by blast
  have "\<not> P y" if "y \<in> set ys \<union> set zs" for y
  proof
    assume "P y"
    then have "y = x" using assms(4) [of y] that xs by simp
    then show False using that assms(1) xs by auto
  qed
  then have "filter P ys = []" "filter P zs = []" by (simp_all add: filter_empty_conv)
  then show ?thesis using xs assms(3) by simp
qed

lemma map_filter_same:
  "(\<And>x. x \<in> set xs \<Longrightarrow> P (g x) = P x \<and> (P x \<longrightarrow> g x = x)) \<Longrightarrow> map g (filter (P \<circ> g) xs) = filter P xs"
  by (induction xs) auto

lemma restore_rows:
  assumes "find_conversation l i = Some c"
  shows "\<exists>c'. fst (restore_conversation i l) = Inr c' \<and> c_id c' = i \<and> c_chat_id c' = c_chat_id c \<and>
    c_archived_at c' = None \<and>
    find_conversation (snd (restore_conversation i l)) i = Some c' \<and>
    l_conversations (snd (restore_conversation i l)) =
      map (\<lambda>d. if c_id d = i then d\<lparr>c_archived_at := None\<rparr>\<lparr>c_updated_at := db_now l\<rparr>
               else if c_chat_id d = c_chat_id c \<and> c_archived_at d = None
               then d\<lparr>c_archived_at := Some (db_now l), c_updated_at := db_now l\<rparr> else d) (l_conversations l)"
proof -
  let ?P = "\<lambda>d. c_chat_id d = c_chat_id c \<and> c_id d \<noteq> i \<and> c_archived_at d = None"
  let ?arch = "\<lambda>d. d\<lparr>c_archived_at := Some (db_now l), c_updated_at := db_now l\<rparr>"
  let ?open = "\<lambda>d. d\<lparr>c_archived_at := None\<rparr>\<lparr>c_updated_at := db_now l\<rparr>"
  let ?rows = "upd_rows (\<lambda>d. c_id d = i) ?open (upd_rows ?P ?arch (l_conversations l))"
  have c: "c_id c = i" using assms by (auto simp: find_conversation_def dest: find_SomeD)
  have f: "find (\<lambda>d. c_id d = i) ?rows = Some (?open c)"
    using assms c unfolding find_conversation_def
    by (subst find_upd_rows [where key = c_id], simp, subst find_upd_rows [where key = c_id], simp) simp
  have m: "?rows = map (\<lambda>d. if c_id d = i then ?open d
      else if c_chat_id d = c_chat_id c \<and> c_archived_at d = None then ?arch d else d) (l_conversations l)"
    by (auto simp: upd_rows_def)
  show ?thesis
    using assms c f m
    by (simp add: restore_conversation_def run_simps then_get_conversation_def get_conversation_def
        upd_conversation_def find_conversation_def)
qed

text \<open>Restoring a conversation makes it the one open conversation of its chat, the one the chat's next
  message goes to; conversations of other chats stay as they were.\<close>

theorem restore_makes_single_open:
  assumes "distinct (map c_id (l_conversations l))" and "find_conversation l i = Some c"
  shows "\<exists>c' m. restore_conversation i l = (Inr c', m) \<and> c_id c' = i \<and>
    open_in_chat m (c_chat_id c) = [c'] \<and> get_active_conversation m (c_chat_id c) = Some c' \<and>
    (\<forall>chat. chat \<noteq> c_chat_id c \<longrightarrow> open_in_chat m chat = open_in_chat l chat)"
proof -
  let ?m = "snd (restore_conversation i l)"
  let ?g = "\<lambda>d. if c_id d = i then d\<lparr>c_archived_at := None\<rparr>\<lparr>c_updated_at := db_now l\<rparr>
     else if c_chat_id d = c_chat_id c \<and> c_archived_at d = None
     then d\<lparr>c_archived_at := Some (db_now l), c_updated_at := db_now l\<rparr> else d"
  obtain c' where c': "fst (restore_conversation i l) = Inr c'" "c_id c' = i" "c_chat_id c' = c_chat_id c"
      "c_archived_at c' = None" "find_conversation ?m i = Some c'" "l_conversations ?m = map ?g (l_conversations l)"
    using restore_rows [OF assms(2)] by blast
  have c: "c \<in> set (l_conversations l)" "c_id c = i"
    using assms(2) by (auto simp: find_conversation_def dest: find_SomeD)
  have g: "c_id (?g d) = c_id d" for d by simp
  have d: "distinct (map c_id (l_conversations ?m))"
    unfolding c'(6) map_map comp_def g by (rule assms(1))
  have mem: "c' \<in> set (l_conversations ?m)" using c'(5) by (auto simp: find_conversation_def dest: find_SomeD)
  have only: "x = c'" if "x \<in> set (l_conversations ?m)" "c_chat_id x = c_chat_id c" "c_archived_at x = None" for x
  proof -
    have "x \<in> ?g ` set (l_conversations l)" using that(1) unfolding c'(6) by simp
    then obtain d where x: "x = ?g d" by blast
    have "c_id x = i"
    proof (rule ccontr)
      assume "c_id x \<noteq> i"
      then have "c_id d \<noteq> i" unfolding x by (cases "c_id d = i") simp_all
      then show False
        using that(2,3) unfolding x by (cases "c_chat_id d = c_chat_id c \<and> c_archived_at d = None") auto
    qed
    then show ?thesis using d mem c'(2) that(1) by (metis find_key_distinct option.inject)
  qed
  have dm: "distinct (l_conversations ?m)" using d by (simp add: distinct_map)
  have one: "open_in_chat ?m (c_chat_id c) = [c']"
    unfolding open_in_chat_def
    by (rule filter_single [OF dm mem]) (use only c'(3,4) in blast)+
  have "open_in_chat ?m chat = open_in_chat l chat" if "chat \<noteq> c_chat_id c" for chat
  proof -
    have "c_chat_id d = c_chat_id c" if "d \<in> set (l_conversations l)" "c_id d = i" for d
      using that assms(1) c by (metis find_key_distinct option.inject)
    then show ?thesis
      unfolding open_in_chat_def c'(6) filter_map
      using that by (intro map_filter_same) auto
  qed
  then show ?thesis
    using c' one by (cases "restore_conversation i l")
      (auto simp: get_active_conversation_def open_in_chat_def order_desc_def)
qed

definition demo_conversation :: "row_id \<Rightarrow> stamp option \<Rightarrow> conversation_session" where
  "demo_conversation i archived = (new_conversation i 0 5 9 ''wb'' ''chief_engineer'' ''app'' False)\<lparr>c_archived_at := archived\<rparr>"

definition demo_conversations :: ledger where
  "demo_conversations = (empty_ledger 3)\<lparr>l_conversations := [demo_conversation 1 (Some 2), demo_conversation 2 None],
     l_next_conversation := 3\<rparr>"

theorem restore_makes_single_open_witness:
  "\<exists>c' m. restore_conversation 1 demo_conversations = (Inr c', m) \<and> c_id c' = 1 \<and>
     open_in_chat m 5 = [c'] \<and> get_active_conversation m 5 = Some c'"
proof -
  have "distinct (map c_id (l_conversations demo_conversations))"
    "find_conversation demo_conversations 1 = Some (demo_conversation 1 (Some 2))"
    and ch: "c_chat_id (demo_conversation 1 (Some 2)) = 5"
    by (simp_all add: demo_conversations_def demo_conversation_def new_conversation_def find_conversation_def)
  from restore_makes_single_open [OF this(1,2)] show ?thesis unfolding ch by blast
qed

section \<open>Leases and titles\<close>

lemma reserve_conversations: "l_conversations (snd (reserve_task sv g al p ch pa l)) = l_conversations l"
  by (auto simp: reserve_task_def run_simps assert_submission_allowed_def ensure_workspace_available_def
      record_workspace_baseline_def create_task_def Let_def split: sum.splits option.splits)

text \<open>A lease for a known conversation: when the reservation succeeds, the lease names the new queued
  task and the conversation's active task is that task; when the reservation raises, the lease raises the
  same exception and the ledger is the one the reservation left.\<close>

theorem lease_binds_task:
  assumes "find_conversation l (ri_conversation_id ri) = Some c"
  shows "case reserve_task sv g (ri_workspace_alias ri) (ri_prompt ri) (ri_telegram_chat_id ri) None l of
      (Inl e, m) \<Rightarrow> scheduler_reserve sv g wb ell ri l = (Inl e, m)
    | (Inr t, m) \<Rightarrow> \<exists>lease m' c'. scheduler_reserve sv g wb ell ri l = (Inr lease, m') \<and>
        el_hidden_task_id lease = t_id t \<and> el_task lease = t \<and> l_tasks m' = l_tasks m \<and>
        find_conversation m' (ri_conversation_id ri) = Some c' \<and> c_active_codex_task_id c' = Some (t_id t) \<and>
        c_title c' = (if c_title c = wb then workbench_title_from_task ell (ri_prompt ri) else c_title c)"
proof (cases "reserve_task sv g (ri_workspace_alias ri) (ri_prompt ri) (ri_telegram_chat_id ri) None l")
  case (Pair r m)
  have conv: "l_conversations m = l_conversations l"
    using reserve_conversations Pair by (metis snd_conv)
  have f: "find_conversation m (ri_conversation_id ri) = Some c"
    using assms by (simp add: find_conversation_def conv)
  have upd: "find_conversation (upd_conversation i h n) i = map_option (\<lambda>c. h c\<lparr>c_updated_at := db_now n\<rparr>) (find_conversation n i)"
    if "\<And>c. c_id (h c) = c_id c" for i h n
    using that by (auto simp: find_conversation_def upd_conversation_def find_upd_rows [where key = c_id]
        dest: find_SomeD intro!: option.map_cong)
  have fr: "l_tasks (upd_conversation i h n) = l_tasks n" for i h n by (simp add: upd_conversation_def)
  show ?thesis
  proof (cases r)
    case (Inl e)
    then show ?thesis using Pair by (simp add: scheduler_reserve_def bindA_def)
  next
    case (Inr t)
    let ?m1 = "set_conversation_active_task (ri_conversation_id ri) (t_id t) m"
    have g1: "find_conversation ?m1 (ri_conversation_id ri) =
        Some (c\<lparr>c_active_codex_task_id := Some (t_id t)\<rparr>\<lparr>c_updated_at := db_now m\<rparr>)"
      using f by (simp add: set_conversation_active_task_def upd)
    have run: "scheduler_reserve sv g wb ell ri l =
        (Inr \<lparr>el_hidden_task_id = t_id t, el_workspace_alias = ri_workspace_alias ri,
            el_prompt = ri_prompt ri, el_purpose = ri_purpose ri, el_task = t\<rparr>,
         if c_title c = wb then upd_conversation (ri_conversation_id ri)
           (\<lambda>c. c\<lparr>c_title := workbench_title_from_task ell (ri_prompt ri)\<rparr>) ?m1 else ?m1)"
      using Pair Inr g1
      by (simp add: scheduler_reserve_def bindA_def [of "reserve_task sv g _ _ _ _"] run_simps
          get_conversation_def update_conversation_title_def then_get_conversation_def upd)
    show ?thesis
      unfolding Pair Inr prod.case sum.case run using g1
      by (simp add: upd fr) (simp add: set_conversation_active_task_def fr)
  qed
qed

definition demo_intent :: "row_id \<Rightarrow> run_intent" where
  "demo_intent i = \<lparr>ri_conversation_id = i, ri_workspace_alias = ''app'', ri_prompt = ''fix it'',
     ri_telegram_chat_id = Some 5, ri_purpose = ''codex''\<rparr>"

definition demo_reserved :: "(exn + task) \<times> ledger" where
  "demo_reserved = reserve_task demo_service demo_git ''app'' ''fix it'' (Some 5) None demo_conversations"

lemma demo_reserved_ok: "\<exists>t m. demo_reserved = (Inr t, m)"
proof -
  have "(case fst demo_reserved of Inr t \<Rightarrow> True | Inl e \<Rightarrow> False)" by code_simp
  then show ?thesis by (metis (no_types, lifting) prod.collapse sum.case_eq_if sum.collapse(2))
qed

theorem lease_binds_task_witness:
  "\<exists>lease m' c'. scheduler_reserve demo_service demo_git ''wb'' (CHR ''.'') (demo_intent 2) demo_conversations =
     (Inr lease, m') \<and> find_conversation m' 2 = Some c' \<and>
     c_active_codex_task_id c' = Some (el_hidden_task_id lease) \<and> c_title c' = ''fix it''"
proof -
  obtain t m where r: "demo_reserved = (Inr t, m)" using demo_reserved_ok by blast
  have f: "find_conversation demo_conversations (ri_conversation_id (demo_intent 2)) = Some (demo_conversation 2 None)"
    by (simp add: demo_conversations_def demo_conversation_def new_conversation_def find_conversation_def demo_intent_def)
  have ti: "workbench_title_from_task (CHR ''.'') ''fix it'' = ''fix it''" by code_simp
  have "c_title (demo_conversation 2 None) = ''wb''" by (simp add: demo_conversation_def new_conversation_def)
  then show ?thesis
    using lease_binds_task [OF f, of demo_service demo_git "''wb''" "CHR ''.''"] r ti
    by (auto simp: demo_reserved_def demo_intent_def)
qed

text \<open>A lease for an unknown conversation raises \<open>KeyError\<close> after the task was reserved: the queued
  task stays behind and goes on holding the workspace.\<close>

theorem lease_unknown_conversation_leaks:
  assumes "find_conversation l (ri_conversation_id ri) = None"
    and "reserve_task sv g (ri_workspace_alias ri) (ri_prompt ri) (ri_telegram_chat_id ri) None l = (Inr t, m)"
  shows "\<exists>k m'. scheduler_reserve sv g wb ell ri l = (Inl (KeyError k), m') \<and> l_tasks m' = l_tasks m"
proof -
  have conv: "l_conversations m = l_conversations l"
    using reserve_conversations assms(2) by (metis snd_conv)
  let ?m1 = "set_conversation_active_task (ri_conversation_id ri) (t_id t) m"
  have "find_conversation ?m1 (ri_conversation_id ri) = None"
    using assms(1) by (simp add: find_conversation_def set_conversation_active_task_def upd_conversation_def
        conv find_upd_rows [where key = c_id])
  then show ?thesis
    using assms(2)
    by (simp add: scheduler_reserve_def bindA_def [of "reserve_task sv g _ _ _ _"] run_simps get_conversation_def)
       (simp add: set_conversation_active_task_def upd_conversation_def)
qed

theorem lease_unknown_conversation_leaks_witness:
  "\<exists>k m'. scheduler_reserve demo_service demo_git ''wb'' (CHR ''.'') (demo_intent 9) demo_conversations =
     (Inl (KeyError k), m') \<and> l_tasks m' = l_tasks (snd demo_reserved)"
proof -
  obtain t m where r: "demo_reserved = (Inr t, m)" using demo_reserved_ok by blast
  have "find_conversation demo_conversations (ri_conversation_id (demo_intent 9)) = None"
    by (simp add: demo_conversations_def demo_conversation_def new_conversation_def find_conversation_def demo_intent_def)
  moreover have "reserve_task demo_service demo_git (ri_workspace_alias (demo_intent 9)) (ri_prompt (demo_intent 9))
      (ri_telegram_chat_id (demo_intent 9)) None demo_conversations = (Inr t, m)"
    using r by (simp add: demo_reserved_def demo_intent_def)
  ultimately show ?thesis
    using lease_unknown_conversation_leaks [of demo_conversations "demo_intent 9" demo_service demo_git t m "''wb''" "CHR ''.''"]
    unfolding r snd_conv by blast
qed

lemma break_title_length: "length s \<le> 30 \<Longrightarrow> length (break_title ell s seps) \<le> 31"
proof (induction ell s seps rule: break_title.induct)
  case (2 ell s sep seps)
  show ?case
  proof (cases "rfind_char sep s")
    case None
    then show ?thesis using 2 by simp
  next
    case (Some idx)
    have "length (rstrip (take idx s)) \<le> 30" using length_rstrip [of "take idx s"] 2(3) by simp
    then show ?thesis using 2 Some by simp
  qed
qed simp

text \<open>Derived titles are bounded whatever the prompt: at most 40 characters for a conversation, at most
  31 for a workbench, the ellipsis included.\<close>

theorem titles_bounded:
  "length (default_title ell prompt) \<le> 40 \<and> length (workbench_title_from_task ell prompt) \<le> 31"
proof
  let ?c = "py_join '' '' (split_ws prompt)"
  have "length (rstrip (take 39 ?c)) \<le> 39" using length_rstrip [of "take 39 ?c"] by simp
  then show "length (default_title ell prompt) \<le> 40" by (simp add: default_title_def Let_def)
  have "length (rstrip (take 30 ?c)) \<le> 30" using length_rstrip [of "take 30 ?c"] by simp
  from break_title_length [OF this] show "length (workbench_title_from_task ell prompt) \<le> 31"
    by (simp add: workbench_title_from_task_def Let_def del: break_title.simps)
qed

end
