(* ===== verification/Redaction.thy ===== *)
theory Redaction
  imports Py_Data
begin

text \<open>
  Payload redaction of \<^verbatim>\<open>wlcodex/runtime_events.py\<close>: values under sensitive keys are replaced at every
  depth, other strings are content-redacted and capped. The content redaction (three regular
  expressions) is the argument \<open>rt\<close>.
\<close>

definition replace_char :: "char \<Rightarrow> char \<Rightarrow> string \<Rightarrow> string" where
  "replace_char a b s = map (\<lambda>c. if c = a then b else c) s"

definition split_key :: "string \<Rightarrow> string list" where
  "split_key key = split_on (CHR ''_'') (replace_char (CHR ''-'') (CHR ''_'') (py_lower key))"

definition token_metric_segments :: "string list" where
  "token_metric_segments = [''input'', ''output'', ''total'', ''cached'', ''reasoning'', ''workflow'', ''overhead'']"

definition key_sensitive_modifiers :: "string list" where
  "key_sensitive_modifiers = [''api'', ''sign'', ''signing'', ''auth'', ''secret'', ''private'', ''master'', ''encrypt'']"

fun contains :: "string \<Rightarrow> string \<Rightarrow> bool" where
  "contains [] p = (p = [])"
| "contains (c # s) p = (startswith (c # s) p \<or> contains s p)"

definition find_from :: "string \<Rightarrow> nat \<Rightarrow> string \<Rightarrow> nat option" where
  "find_from p i s = find (\<lambda>j. startswith (drop j s) p) [i..<Suc (length s)]"

definition is_sensitive_key :: "string \<Rightarrow> bool" where
  "is_sensitive_key key =
     (let seg = set (split_key key) in
      if seg \<inter> {''secret'', ''secrets'', ''password'', ''passwords'', ''credential'', ''credentials''} \<noteq> {} then True
      else if ''auth'' \<in> seg \<or> (\<exists>s \<in> seg. contains s ''auth'') then True
      else if (''token'' \<in> seg \<or> ''tokens'' \<in> seg) \<and> seg \<inter> set token_metric_segments = {} then True
      else if (''key'' \<in> seg \<or> ''keys'' \<in> seg) \<and> seg \<inter> set key_sensitive_modifiers \<noteq> {} then True
      else False)"

definition max_payload_string_length :: nat where
  "max_payload_string_length = 10000"

definition redacted_placeholder :: string where
  "redacted_placeholder = ''[REDACTED]''"

definition cap_string :: "string \<Rightarrow> nat \<Rightarrow> string" where
  "cap_string s n = (if length s \<le> n then s else take n s @ ''...<truncated>'')"

fun redact_value :: "(string \<Rightarrow> string) \<Rightarrow> nat \<Rightarrow> json \<Rightarrow> json"
and redact_dict :: "(string \<Rightarrow> string) \<Rightarrow> nat \<Rightarrow> dict \<Rightarrow> dict" where
  "redact_value rt n (JDict d) = JDict (redact_dict rt n d)"
| "redact_value rt n (JList vs) = JList (map (redact_value rt n) vs)"
| "redact_value rt n (JStr s) = JStr (cap_string (rt s) n)"
| "redact_value rt n v = v"
| "redact_dict rt n [] = []"
| "redact_dict rt n ((k, v) # d) =
     (k, if is_sensitive_key k then JStr redacted_placeholder else redact_value rt n v) # redact_dict rt n d"

definition redact_payload :: "(string \<Rightarrow> string) \<Rightarrow> dict \<Rightarrow> dict" where
  "redact_payload rt p = redact_dict rt max_payload_string_length p"

section \<open>What redaction leaves\<close>

text \<open>Nothing but the placeholder under a sensitive key, at any depth; no string beyond the cap.\<close>

fun clean_value :: "nat \<Rightarrow> json \<Rightarrow> bool"
and clean_dict :: "nat \<Rightarrow> dict \<Rightarrow> bool" where
  "clean_value n (JDict d) = clean_dict n d"
| "clean_value n (JList vs) = list_all (clean_value n) vs"
| "clean_value n (JStr s) = (length s \<le> n + 14)"
| "clean_value n v = True"
| "clean_dict n [] = True"
| "clean_dict n ((k, v) # d) =
     ((if is_sensitive_key k then v = JStr redacted_placeholder else clean_value n v) \<and> clean_dict n d)"

lemma contains_iff: "contains s p \<longleftrightarrow> (\<exists>a b. s = a @ p @ b)"
proof (induction s)
  case (Cons c s)
  then show ?case by (auto simp: startswith_iff Cons_eq_append_conv)
qed auto

lemma contains_suffix: "contains s p \<Longrightarrow> contains (a @ s) p"
  unfolding contains_iff by (metis append.assoc)

lemma contains_prefix: "contains s p \<Longrightarrow> contains (s @ b) p"
  unfolding contains_iff by (metis append.assoc)

lemma contains_drop: "\<not> contains s p \<Longrightarrow> \<not> contains (drop n s) p"
  using contains_suffix [of "drop n s" p "take n s"] by auto

lemma length_cap: "length (cap_string s n) \<le> n + 14"
  by (simp add: cap_string_def)

lemma redact_clean: "clean_value n (redact_value rt n v)" "clean_dict n (redact_dict rt n d)"
  by (induction rt n v and rt n d rule: redact_value_redact_dict.induct)
     (simp_all add: length_cap list_all_iff)

lemma redact_keys [simp]: "map fst (redact_dict rt n d) = map fst d"
  by (induction d) auto

text \<open>Looking a key up after redaction.\<close>

lemma dget_redact:
  "\<not> is_sensitive_key k \<Longrightarrow> k \<in> set (map fst d) \<Longrightarrow>
     dget (redact_dict rt n d) k w = redact_value rt n (dget d k w)"
  by (induction d) (auto simp: rev_image_eqI)

lemma dget_redact_none: "k \<notin> set (map fst d) \<Longrightarrow> dget (redact_dict rt n d) k w = w"
  by (induction d) auto

end
