(* ===== verification/Run_Queue.thy ===== *)
theory Run_Queue
  imports Redaction Task_Models
begin

text \<open>
  The durable queue of \<^verbatim>\<open>wlcodex/runtime_event_store.py\<close>: queued runs are immutable events, and a claim,
  its release and its consumption are companion events linked by \<open>causation_id\<close>. Every operation runs in
  one immediate transaction, so it is one step on the store. The lease expiry written into a claim's
  payload as ISO text is kept as the instant it denotes; \<open>None\<close> is missing or unreadable text.
\<close>

section \<open>Events\<close>

record runtime_event =
  v_id :: nat
  v_event_type :: string
  v_aggregate_type :: string
  v_aggregate_id :: string
  v_conversation_id :: "nat option"
  v_orchestration_run_id :: "nat option"
  v_agent_run_id :: "nat option"
  v_task_id :: "nat option"
  v_correlation_id :: string
  v_causation_id :: "nat option"
  v_source :: string
  v_actor :: string
  v_visibility :: string
  v_payload :: dict
  v_lease_expires_at :: "stamp option"
  v_occurred_at :: stamp

record event_store =
  es_now :: stamp
  es_events :: "runtime_event list"
  es_next :: nat
  es_conversations :: "(nat \<times> string \<times> bool) list"

record queued_run_claim =
  qc_queued_event :: runtime_event
  qc_claim_event :: runtime_event
  qc_workspace_alias :: string
  qc_lease_owner :: string

definition append_event :: "(string \<Rightarrow> string) \<Rightarrow> runtime_event \<Rightarrow> event_store \<Rightarrow> runtime_event \<times> event_store" where
  "append_event rt e st =
     (let e' = e\<lparr>v_payload := redact_payload rt (v_payload e), v_id := es_next st\<rparr>
      in (e', st\<lparr>es_events := es_events st @ [e'], es_next := es_next st + 1\<rparr>))"

section \<open>Reading the queue\<close>

definition queued_run_is_consumed :: "event_store \<Rightarrow> runtime_event \<Rightarrow> bool" where
  "queued_run_is_consumed st q \<longleftrightarrow>
     (\<exists>e \<in> set (es_events st). v_causation_id e = Some (v_id q) \<and>
        v_event_type e \<in> {''run.queued.consumed'', ''run.started'', ''run.recovery.required''}) \<or>
     (\<exists>e \<in> set (es_events st). v_conversation_id q \<noteq> None \<and> v_conversation_id e = v_conversation_id q \<and>
        v_id q < v_id e \<and> v_causation_id e = None \<and>
        v_event_type e \<in> {''run.queued.consumed'', ''run.started''})"

definition is_lease_event :: "nat \<Rightarrow> runtime_event \<Rightarrow> bool" where
  "is_lease_event i e \<longleftrightarrow> v_causation_id e = Some i \<and>
     v_event_type e \<in> {''run.queued.claimed'', ''run.queued.released'', ''run.queued.consumed''}"

definition latest_queued_run_lease_event :: "event_store \<Rightarrow> nat \<Rightarrow> runtime_event option" where
  "latest_queued_run_lease_event st i = first_row (order_desc v_id (filter (is_lease_event i) (es_events st)))"

definition lease_blocks :: "event_store \<Rightarrow> nat \<Rightarrow> bool" where
  "lease_blocks st i =
     (case latest_queued_run_lease_event st i of
        None \<Rightarrow> False
      | Some e \<Rightarrow> v_event_type e = ''run.queued.claimed'' \<and>
          (case v_lease_expires_at e of None \<Rightarrow> True | Some t \<Rightarrow> es_now st < t))"

definition conversation_of :: "event_store \<Rightarrow> runtime_event \<Rightarrow> (nat \<times> string \<times> bool) option" where
  "conversation_of st q =
     (case v_conversation_id q of
        None \<Rightarrow> None
      | Some c \<Rightarrow> find (\<lambda>(i, _, _). i = c) (es_conversations st))"

definition in_workspace :: "event_store \<Rightarrow> string \<Rightarrow> runtime_event \<Rightarrow> bool" where
  "in_workspace st ws q = (case conversation_of st q of None \<Rightarrow> False | Some (_, w, _) \<Rightarrow> w = ws)"

definition queued_rows :: "event_store \<Rightarrow> string \<Rightarrow> runtime_event list" where
  "queued_rows st ws =
     sort_key v_id (filter (\<lambda>q. v_event_type q = ''run.queued'' \<and> in_workspace st ws q) (es_events st))"

section \<open>Claim, release, consume\<close>

definition lease_event ::
  "string \<Rightarrow> runtime_event \<Rightarrow> dict \<Rightarrow> stamp option \<Rightarrow> stamp \<Rightarrow> runtime_event" where
  "lease_event ty q payload expires now =
     \<lparr>v_id = 0, v_event_type = ty, v_aggregate_type = ''orchestration_run'',
      v_aggregate_id = ''queued-'' @ nat_str (v_id q), v_conversation_id = v_conversation_id q,
      v_orchestration_run_id = None, v_agent_run_id = None, v_task_id = None,
      v_correlation_id = v_correlation_id q, v_causation_id = Some (v_id q), v_source = ''controller'',
      v_actor = ''controller'', v_visibility = ''operator'', v_payload = payload,
      v_lease_expires_at = expires, v_occurred_at = now\<rparr>"

definition claim_payload :: "runtime_event \<Rightarrow> string \<Rightarrow> string \<Rightarrow> dict" where
  "claim_payload q ws owner =
     [(''queued_event_id'', JInt (int (v_id q))), (''workspace_alias'', JStr ws), (''lease_owner'', JStr owner)]"

text \<open>The seconds a claim is leased for: the default for zero, at least one.\<close>

definition lease_length :: "int \<Rightarrow> int" where
  "lease_length secs = max 1 (if secs = 0 then 300 else secs)"

definition claim_next_queued_run_for_workspace ::
  "(string \<Rightarrow> string) \<Rightarrow> string \<Rightarrow> string \<Rightarrow> int \<Rightarrow> event_store \<Rightarrow> queued_run_claim option \<times> event_store" where
  "claim_next_queued_run_for_workspace rt alias lease_owner secs st =
     (let ws = strip alias; owner = strip lease_owner in
      if ws = [] \<or> owner = [] then (None, st)
      else case find (\<lambda>q. \<not> queued_run_is_consumed st q \<and> \<not> lease_blocks st (v_id q)) (queued_rows st ws) of
             None \<Rightarrow> (None, st)
           | Some q \<Rightarrow>
               let (stored, st') = append_event rt (lease_event ''run.queued.claimed'' q (claim_payload q ws owner)
                     (Some (es_now st + lease_length secs * 1000000)) (es_now st)) st
               in (Some \<lparr>qc_queued_event = q, qc_claim_event = stored, qc_workspace_alias = ws,
                         qc_lease_owner = owner\<rparr>, st'))"

definition owns_claim :: "event_store \<Rightarrow> queued_run_claim \<Rightarrow> bool" where
  "owns_claim st c =
     (case latest_queued_run_lease_event st (v_id (qc_queued_event c)) of
        None \<Rightarrow> False
      | Some e \<Rightarrow> v_event_type e = ''run.queued.claimed'' \<and>
          py_str (py_or (dget0 (v_payload e) ''lease_owner'') (JStr [])) = qc_lease_owner c)"

definition release_queued_run_claim ::
  "(string \<Rightarrow> string) \<Rightarrow> queued_run_claim \<Rightarrow> string \<Rightarrow> event_store \<Rightarrow> runtime_event option \<times> event_store" where
  "release_queued_run_claim rt c error st =
     (if \<not> owns_claim st c then (None, st)
      else let (stored, st') = append_event rt (lease_event ''run.queued.released'' (qc_queued_event c)
             (claim_payload (qc_queued_event c) (qc_workspace_alias c) (qc_lease_owner c) @
               [(''error'', JStr (take 500 (if error = [] then ''queued launch failed'' else error)))])
             None (es_now st)) st
           in (Some stored, st'))"

definition already_consumed :: "event_store \<Rightarrow> nat \<Rightarrow> bool" where
  "already_consumed st i \<longleftrightarrow>
     (\<exists>e \<in> set (es_events st). v_causation_id e = Some i \<and> v_event_type e = ''run.queued.consumed'')"

definition consume_queued_run_claim ::
  "(string \<Rightarrow> string) \<Rightarrow> queued_run_claim \<Rightarrow> dict \<Rightarrow> event_store \<Rightarrow> runtime_event option \<times> event_store" where
  "consume_queued_run_claim rt c payload st =
     (if already_consumed st (v_id (qc_queued_event c)) then (None, st)
      else if \<not> owns_claim st c then (None, st)
      else let (stored, st') = append_event rt (lease_event ''run.queued.consumed'' (qc_queued_event c)
             (fold (\<lambda>(k, v). dset k v) payload
               (claim_payload (qc_queued_event c) (qc_workspace_alias c) (qc_lease_owner c)))
             None (es_now st)) st
           in (Some stored, st'))"

section \<open>Recovery\<close>

definition recovery_event :: "event_store \<Rightarrow> string \<Rightarrow> string \<Rightarrow> string \<Rightarrow> runtime_event \<Rightarrow> runtime_event" where
  "recovery_event st reason blocking next_action q =
     (let missing = (conversation_of st q = None);
          alias = (case conversation_of st q of None \<Rightarrow> [] | Some (_, w, _) \<Rightarrow> w) in
      \<lparr>v_id = 0, v_event_type = ''run.recovery.required'', v_aggregate_type = ''orchestration_run'',
       v_aggregate_id = ''legacy-queued-'' @ nat_str (v_id q), v_conversation_id = v_conversation_id q,
       v_orchestration_run_id = None, v_agent_run_id = None, v_task_id = None,
       v_correlation_id = (if v_correlation_id q = [] then ''legacy-queue-recovery-'' @ nat_str (v_id q)
                           else v_correlation_id q),
       v_causation_id = Some (v_id q), v_source = ''system'', v_actor = ''system'', v_visibility = ''user'',
       v_payload = [(''state'', JStr ''needs_recovery''), (''recovery_state'', JStr ''needs_recovery''),
         (''reason'', JStr reason), (''blocking_reason'', JStr blocking), (''next_action'', JStr next_action),
         (''queue_kind'', JStr (if missing then ''legacy_telegram_orphaned'' else ''legacy_telegram'')),
         (''queued_event_id'', JInt (int (v_id q))), (''workspace_alias'', JStr alias),
         (''conversation_missing'', JBool missing)],
       v_lease_expires_at = None, v_occurred_at = es_now st\<rparr>)"

definition is_legacy_queued :: "event_store \<Rightarrow> runtime_event \<Rightarrow> bool" where
  "is_legacy_queued st q \<longleftrightarrow> v_event_type q = ''run.queued'' \<and>
     (case conversation_of st q of None \<Rightarrow> True | Some (_, _, legacy) \<Rightarrow> legacy)"

text \<open>The rows are selected once; whether each is consumed is looked up as the loop reaches it.\<close>

definition recover_one ::
  "(string \<Rightarrow> string) \<Rightarrow> string \<Rightarrow> string \<Rightarrow> string \<Rightarrow> runtime_event
   \<Rightarrow> runtime_event list \<times> event_store \<Rightarrow> runtime_event list \<times> event_store" where
  "recover_one rt reason blocking next_action q acc =
     (case acc of (stored, st) \<Rightarrow>
        if queued_run_is_consumed st q then (stored, st)
        else let (e, st') = append_event rt (recovery_event st reason blocking next_action q) st
             in (stored @ [e], st'))"

definition mark_unconsumed_legacy_queued_runs_needing_recovery ::
  "(string \<Rightarrow> string) \<Rightarrow> string \<Rightarrow> string \<Rightarrow> string \<Rightarrow> event_store \<Rightarrow> runtime_event list \<times> event_store" where
  "mark_unconsumed_legacy_queued_runs_needing_recovery rt reason blocking next_action st =
     fold (recover_one rt reason blocking next_action)
       (sort_key v_id (filter (is_legacy_queued st) (es_events st))) ([], st)"

end
