(* ===== verification/Run_Queue_Properties.thy ===== *)
theory Run_Queue_Properties
  imports Run_Queue "HOL-Library.Sublist"
begin

text \<open>
  What the run queue guarantees over any interleaving of workers: first-in first-out claims per workspace,
  a lease that excludes others until it expires or its owner gives it up, and at most one consumption of
  every queued run.
\<close>

section \<open>Interleavings\<close>

datatype queue_cmd =
    Claim string string int
  | Release queued_run_claim string
  | Consume queued_run_claim dict
  | Recover string string string
  | Append runtime_event
  | Tick int
  | Conversations "(nat \<times> string \<times> bool) list"

fun exec_queue :: "(string \<Rightarrow> string) \<Rightarrow> queue_cmd \<Rightarrow> event_store \<Rightarrow> event_store" where
  "exec_queue rt (Claim ws ow secs) st = snd (claim_next_queued_run_for_workspace rt ws ow secs st)"
| "exec_queue rt (Release c e) st = snd (release_queued_run_claim rt c e st)"
| "exec_queue rt (Consume c p) st = snd (consume_queued_run_claim rt c p st)"
| "exec_queue rt (Recover r b n) st = snd (mark_unconsumed_legacy_queued_runs_needing_recovery rt r b n st)"
| "exec_queue rt (Append e) st = snd (append_event rt e st)"
| "exec_queue rt (Tick d) st = st\<lparr>es_now := es_now st + max 0 d\<rparr>"
| "exec_queue rt (Conversations cs) st = st\<lparr>es_conversations := cs\<rparr>"

definition run_queue :: "(string \<Rightarrow> string) \<Rightarrow> queue_cmd list \<Rightarrow> event_store \<Rightarrow> event_store" where
  "run_queue rt cs st = fold (exec_queue rt) cs st"

section \<open>Appending\<close>

lemma append_fields:
  assumes "append_event rt e st = (e', st')"
  shows "es_events st' = es_events st @ [e']" "es_next st' = Suc (es_next st)" "es_now st' = es_now st"
    "es_conversations st' = es_conversations st" "v_id e' = es_next st"
    "v_event_type e' = v_event_type e" "v_causation_id e' = v_causation_id e"
    "v_payload e' = redact_payload rt (v_payload e)" "v_lease_expires_at e' = v_lease_expires_at e"
  using assms by (auto simp: append_event_def Let_def)

interpretation evs: auto_table es_events v_id es_next
  "\<lambda>e st. snd (append_event rt e st)"
  "\<lambda>e st. e\<lparr>v_payload := redact_payload rt (v_payload e), v_id := es_next st\<rparr>" for rt
  by unfold_locales (simp_all add: append_event_def Let_def)

text \<open>Every command only appends, and what it appends names its cause.\<close>

lemma lease_event_fields [simp]:
  "v_event_type (lease_event ty q p x n) = ty" "v_causation_id (lease_event ty q p x n) = Some (v_id q)"
  "v_payload (lease_event ty q p x n) = p" "v_lease_expires_at (lease_event ty q p x n) = x"
  by (simp_all add: lease_event_def)

lemma recover_fold_induct:
  assumes "P st" and "\<And>st q. P st \<Longrightarrow> \<not> queued_run_is_consumed st q \<Longrightarrow> P (snd (append_event rt (recovery_event st r b n q) st))"
  shows "P (snd (fold (recover_one rt r b n) qs (acc, st)))"
  using assms(1)
proof (induction qs arbitrary: acc st)
  case (Cons q qs)
  obtain acc' st' where s: "recover_one rt r b n q (acc, st) = (acc', st')" by fastforce
  have "P st'"
    using s Cons.prems assms(2) [OF Cons.prems, of q]
    by (auto simp: recover_one_def Let_def case_prod_beta split: if_splits)
  from Cons.IH [OF this] s show ?case by simp
qed simp

locale queue_invariant =
  fixes I :: "event_store \<Rightarrow> bool" and rt :: "string \<Rightarrow> string" and allowed :: "queue_cmd \<Rightarrow> bool"
  assumes claim_keeps: "I st \<Longrightarrow> allowed (Claim ws ow secs) \<Longrightarrow>
      I (snd (claim_next_queued_run_for_workspace rt ws ow secs st))"
    and release_keeps: "I st \<Longrightarrow> allowed (Release c e) \<Longrightarrow> I (snd (release_queued_run_claim rt c e st))"
    and consume_keeps: "I st \<Longrightarrow> allowed (Consume c p) \<Longrightarrow> I (snd (consume_queued_run_claim rt c p st))"
    and recovery_keeps: "I st \<Longrightarrow> I (snd (append_event rt (recovery_event st r b n q) st))"
    and append_keeps: "I st \<Longrightarrow> allowed (Append ev) \<Longrightarrow> I (snd (append_event rt ev st))"
    and tick_keeps: "I st \<Longrightarrow> 0 \<le> d \<Longrightarrow> I (st\<lparr>es_now := es_now st + d\<rparr>)"
    and conversations_keep: "I st \<Longrightarrow> I (st\<lparr>es_conversations := cs\<rparr>)"
begin

lemma exec_keeps: "I st \<Longrightarrow> allowed c \<Longrightarrow> I (exec_queue rt c st)"
  by (cases c)
     (simp_all add: claim_keeps release_keeps consume_keeps append_keeps tick_keeps conversations_keep
       mark_unconsumed_legacy_queued_runs_needing_recovery_def recover_fold_induct [where P = I] recovery_keeps)

lemma run_keeps: "I st \<Longrightarrow> list_all allowed cs \<Longrightarrow> I (run_queue rt cs st)"
  unfolding run_queue_def by (induction cs arbitrary: st) (simp_all add: exec_keeps)

end

section \<open>Consumption\<close>

definition consumptions :: "event_store \<Rightarrow> nat \<Rightarrow> nat" where
  "consumptions st i = length (filter (\<lambda>e. v_causation_id e = Some i \<and> v_event_type e = ''run.queued.consumed'') (es_events st))"

definition queue_ok :: "event_store \<Rightarrow> bool" where
  "queue_ok st \<longleftrightarrow> ids_ok v_id (es_events st) (es_next st) \<and> (\<forall>i. consumptions st i \<le> 1)"

fun foreign :: "queue_cmd \<Rightarrow> bool" where
  "foreign (Append e) = (v_event_type e \<noteq> ''run.queued.consumed'')"
| "foreign _ = True"

lemma queue_ok_append:
  assumes "queue_ok st"
    and "v_event_type e = ''run.queued.consumed'' \<Longrightarrow> \<exists>i. v_causation_id e = Some i \<and> consumptions st i = 0"
  shows "queue_ok (snd (append_event rt e st))"
proof -
  obtain e' st' where a: "append_event rt e st = (e', st')" by fastforce
  have "ids_ok v_id (es_events st') (es_next st')"
    using evs.ok_ins [of st rt e] assms(1) a by (simp add: queue_ok_def)
  moreover have "consumptions st' i \<le> 1" for i
    using assms append_fields [OF a] unfolding queue_ok_def consumptions_def
    by (auto simp: filter_empty_conv le_Suc_eq)
  ultimately show ?thesis by (simp add: queue_ok_def a)
qed

lemma claim_keeps_ok: "queue_ok st \<Longrightarrow> queue_ok (snd (claim_next_queued_run_for_workspace rt ws ow secs st))"
proof -
  assume ok: "queue_ok st"
  have "queue_ok (snd (append_event rt (lease_event ''run.queued.claimed'' q p x n) st))" for q p x n
    by (rule queue_ok_append [OF ok]) simp
  then show ?thesis using ok
    by (auto simp: claim_next_queued_run_for_workspace_def Let_def case_prod_beta split: option.splits)
qed

lemma release_keeps_ok: "queue_ok st \<Longrightarrow> queue_ok (snd (release_queued_run_claim rt c e st))"
proof -
  assume ok: "queue_ok st"
  have "queue_ok (snd (append_event rt (lease_event ''run.queued.released'' q p x n) st))" for q p x n
    by (rule queue_ok_append [OF ok]) simp
  then show ?thesis using ok by (simp add: release_queued_run_claim_def Let_def case_prod_beta)
qed

lemma not_consumed_0: "\<not> already_consumed st i \<Longrightarrow> consumptions st i = 0"
  by (auto simp: already_consumed_def consumptions_def filter_empty_conv)

lemma consume_keeps_ok: "queue_ok st \<Longrightarrow> queue_ok (snd (consume_queued_run_claim rt c p st))"
proof -
  assume ok: "queue_ok st"
  have "queue_ok (snd (append_event rt (lease_event ''run.queued.consumed'' q pl x n) st))"
    if "\<not> already_consumed st (v_id q)" for q pl x n
    by (rule queue_ok_append [OF ok]) (simp add: not_consumed_0 that)
  then show ?thesis using ok by (simp add: consume_queued_run_claim_def Let_def case_prod_beta)
qed

lemma recovery_event_fields [simp]:
  "v_event_type (recovery_event st r b n q) = ''run.recovery.required''"
  "v_causation_id (recovery_event st r b n q) = Some (v_id q)"
  by (simp_all add: recovery_event_def Let_def)

interpretation ok: queue_invariant queue_ok rt foreign for rt
proof unfold_locales
  fix st :: event_store and d assume "queue_ok st"
  then show "queue_ok (st\<lparr>es_now := es_now st + d\<rparr>)" by (simp add: queue_ok_def consumptions_def)
next
  fix st :: event_store and cs assume "queue_ok st"
  then show "queue_ok (st\<lparr>es_conversations := cs\<rparr>)" by (simp add: queue_ok_def consumptions_def)
next
  fix st r b n q assume "queue_ok st"
  then show "queue_ok (snd (append_event rt (recovery_event st r b n q) st))"
    by (rule queue_ok_append) simp
qed (simp_all add: claim_keeps_ok release_keeps_ok consume_keeps_ok queue_ok_append)

text \<open>C4. A queued run is consumed at most once, whatever the interleaving of claims, releases,
  consumptions (also with stale or forged claims), recovery, clock ticks and other appended events.\<close>

theorem consumed_at_most_once:
  assumes "queue_ok st" and "list_all foreign cs"
  shows "consumptions (run_queue rt cs st) i \<le> 1"
  using ok.run_keeps [OF assms] by (simp add: queue_ok_def)

definition demo_event_row :: "nat \<Rightarrow> string \<Rightarrow> runtime_event" where
  "demo_event_row i ty = \<lparr>v_id = i, v_event_type = ty, v_aggregate_type = [], v_aggregate_id = [],
     v_conversation_id = Some 1, v_orchestration_run_id = None, v_agent_run_id = None, v_task_id = None,
     v_correlation_id = [], v_causation_id = None, v_source = [], v_actor = [], v_visibility = [],
     v_payload = [], v_lease_expires_at = None, v_occurred_at = 0\<rparr>"

definition demo_queue :: event_store where
  "demo_queue = \<lparr>es_now = 0, es_events = [demo_event_row 1 ''run.queued'', demo_event_row 2 ''run.queued''],
     es_next = 3, es_conversations = [(1, ''app'', True)]\<rparr>"

lemma demo_queue_ok: "queue_ok demo_queue"
  by (simp add: queue_ok_def demo_queue_def ids_ok_def consumptions_def demo_event_row_def)

definition demo_claim :: queued_run_claim where
  "demo_claim = \<lparr>qc_queued_event = demo_event_row 1 ''run.queued'', qc_claim_event = demo_event_row 3 ''run.queued.claimed'',
     qc_workspace_alias = ''app'', qc_lease_owner = ''w1''\<rparr>"

theorem consumed_at_most_once_witness:
  "consumptions (run_queue (\<lambda>s. s) [Claim ''app'' ''w1'' 60, Consume demo_claim [], Consume demo_claim []]
     demo_queue) 1 \<le> 1"
  by (rule consumed_at_most_once [OF demo_queue_ok]) simp

section \<open>Claims\<close>

definition runnable :: "event_store \<Rightarrow> string \<Rightarrow> runtime_event \<Rightarrow> bool" where
  "runnable st ws q \<longleftrightarrow> q \<in> set (es_events st) \<and> v_event_type q = ''run.queued'' \<and> in_workspace st ws q \<and>
     \<not> queued_run_is_consumed st q \<and> \<not> lease_blocks st (v_id q)"

lemma claim_Some:
  assumes "claim_next_queued_run_for_workspace rt ws ow secs st = (Some c, st')"
  shows "runnable st (strip ws) (qc_queued_event c)"
    and "runnable st (strip ws) q \<Longrightarrow> v_id (qc_queued_event c) \<le> v_id q"
    and "append_event rt (lease_event ''run.queued.claimed'' (qc_queued_event c)
        (claim_payload (qc_queued_event c) (strip ws) (strip ow))
        (Some (es_now st + lease_length secs * 1000000)) (es_now st)) st = (qc_claim_event c, st')"
    and "qc_lease_owner c = strip ow"
proof -
  obtain r where f: "find (\<lambda>q. \<not> queued_run_is_consumed st q \<and> \<not> lease_blocks st (v_id q))
        (queued_rows st (strip ws)) = Some r"
      and c: "qc_queued_event c = r" "qc_lease_owner c = strip ow"
      "append_event rt (lease_event ''run.queued.claimed'' r (claim_payload r (strip ws) (strip ow))
        (Some (es_now st + lease_length secs * 1000000)) (es_now st)) st = (qc_claim_event c, st')"
    using assms by (auto simp: claim_next_queued_run_for_workspace_def Let_def
        split: if_splits option.splits prod.splits)
  from find_sorted [OF f [unfolded queued_rows_def]]
  show "runnable st (strip ws) (qc_queued_event c)"
    and "runnable st (strip ws) q \<Longrightarrow> v_id (qc_queued_event c) \<le> v_id q"
    by (auto simp: runnable_def c(1))
qed (use assms in \<open>auto simp: claim_next_queued_run_for_workspace_def Let_def
        split: if_splits option.splits prod.splits\<close>)

text \<open>A worker gets the oldest runnable run of its workspace and nothing else: a claim returns a queued
  run of the workspace that is neither consumed nor under a live lease, with no older such run; and it
  returns nothing only if the workspace or owner is blank or there is no such run.\<close>

theorem claim_is_oldest_runnable:
  "case claim_next_queued_run_for_workspace rt ws ow secs st of
     (Some c, st') \<Rightarrow> runnable st (strip ws) (qc_queued_event c) \<and>
       (\<forall>q. runnable st (strip ws) q \<longrightarrow> v_id (qc_queued_event c) \<le> v_id q)
   | (None, st') \<Rightarrow> st' = st \<and> (strip ws = [] \<or> strip ow = [] \<or> (\<nexists>q. runnable st (strip ws) q))"
proof (cases "claim_next_queued_run_for_workspace rt ws ow secs st")
  case (Pair r st')
  show ?thesis
  proof (cases r)
    case None
    then show ?thesis
      using Pair by (auto simp: claim_next_queued_run_for_workspace_def Let_def runnable_def queued_rows_def
          find_None_iff split: if_splits option.splits prod.splits)
  next
    case (Some c)
    then have "claim_next_queued_run_for_workspace rt ws ow secs st = (Some c, st')" using Pair by simp
    then show ?thesis using claim_Some(1,2) by simp
  qed
qed

theorem claim_is_oldest_runnable_witness:
  "(case claim_next_queued_run_for_workspace (\<lambda>s. s) ''app'' ''w1'' 60 demo_queue of
      (Some c, _) \<Rightarrow> v_id (qc_queued_event c) \<le> 2 | (None, _) \<Rightarrow> False)"
proof -
  have "(case fst (claim_next_queued_run_for_workspace (\<lambda>s. s) ''app'' ''w1'' 60 demo_queue) of
      Some c \<Rightarrow> True | None \<Rightarrow> False)" by code_simp
  moreover have "runnable demo_queue (strip ''app'') (demo_event_row 2 ''run.queued'')" by code_simp
  moreover have "v_id (demo_event_row 2 ''run.queued'') = 2" by code_simp
  ultimately show ?thesis
    using claim_is_oldest_runnable [where rt = "\<lambda>s. s" and ws = "''app''" and ow = "''w1''" and secs = 60
        and st = demo_queue]
    by (auto split: prod.splits option.splits)
qed

section \<open>Leases\<close>

lemma latest_append:
  assumes "append_event rt e st = (e', st')"
  shows "\<not> is_lease_event i e \<Longrightarrow> latest_queued_run_lease_event st' i = latest_queued_run_lease_event st i"
    and "is_lease_event i e \<Longrightarrow> ids_ok v_id (es_events st) (es_next st) \<Longrightarrow>
      latest_queued_run_lease_event st' i = Some e'"
proof -
  note f = append_fields [OF assms]
  have l: "is_lease_event i e' = is_lease_event i e" by (simp add: is_lease_event_def f)
  show "latest_queued_run_lease_event st' i = latest_queued_run_lease_event st i" if "\<not> is_lease_event i e"
    using that by (simp add: latest_queued_run_lease_event_def f l)
  show "latest_queued_run_lease_event st' i = Some e'"
    if "is_lease_event i e" "ids_ok v_id (es_events st) (es_next st)"
  proof -
    have "latest_queued_run_lease_event st' i \<noteq> None"
      using that(1) l by (simp add: latest_queued_run_lease_event_def f del: not_None_eq)
    then obtain r where r: "latest_queued_run_lease_event st' i = Some r" by blast
    have "r \<in> set (es_events st) \<or> r = e'" "v_id e' \<le> v_id r"
      using first_order_desc_max [OF r [unfolded latest_queued_run_lease_event_def]] that(1) l
      by (auto simp: f)
    then show ?thesis using r that(2) by (auto simp: ids_ok_def f)
  qed
qed

lemma consumed_append:
  assumes "append_event rt e st = (e', st')"
  shows "already_consumed st' i \<longleftrightarrow> already_consumed st i \<or>
    v_causation_id e = Some i \<and> v_event_type e = ''run.queued.consumed''"
  by (auto simp: already_consumed_def append_fields [OF assms])

lemma is_lease_lease_event:
  "is_lease_event i (lease_event ty q p x n) \<longleftrightarrow>
     v_id q = i \<and> ty \<in> {''run.queued.claimed'', ''run.queued.released'', ''run.queued.consumed''}"
  by (auto simp: is_lease_event_def)

text \<open>The lease of run \<open>i\<close> is held by \<open>ow\<close> until \<open>t\<close>.\<close>

definition held :: "nat \<Rightarrow> string \<Rightarrow> stamp \<Rightarrow> event_store \<Rightarrow> bool" where
  "held i ow t st \<longleftrightarrow> \<not> already_consumed st i \<and>
     (case latest_queued_run_lease_event st i of
        None \<Rightarrow> False
      | Some e \<Rightarrow> v_event_type e = ''run.queued.claimed'' \<and> v_lease_expires_at e = Some t \<and>
          py_str (py_or (dget0 (v_payload e) ''lease_owner'') (JStr [])) = ow)"

definition lease_inv :: "nat \<Rightarrow> string \<Rightarrow> stamp \<Rightarrow> event_store \<Rightarrow> bool" where
  "lease_inv i ow t st \<longleftrightarrow> es_now st < t \<longrightarrow> held i ow t st"

fun lease_respecting :: "nat \<Rightarrow> string \<Rightarrow> queue_cmd \<Rightarrow> bool" where
  "lease_respecting i ow (Release c e) = (v_id (qc_queued_event c) \<noteq> i \<or> qc_lease_owner c \<noteq> ow)"
| "lease_respecting i ow (Consume c p) = (v_id (qc_queued_event c) \<noteq> i \<or> qc_lease_owner c \<noteq> ow)"
| "lease_respecting i ow (Append e) = (\<not> is_lease_event i e)"
| "lease_respecting i ow _ = True"

lemma held_append:
  "\<not> is_lease_event i e \<Longrightarrow> held i ow t (snd (append_event rt e st)) = held i ow t st"
proof (cases "append_event rt e st")
  case (Pair e' st')
  assume "\<not> is_lease_event i e"
  then show ?thesis
    using latest_append(1) [OF Pair, of i] consumed_append [OF Pair, of i]
    by (auto simp: held_def Pair is_lease_event_def)
qed

lemma lease_inv_append:
  "\<not> is_lease_event i e \<Longrightarrow> lease_inv i ow t st \<Longrightarrow> lease_inv i ow t (snd (append_event rt e st))"
  unfolding lease_inv_def held_append by (simp add: append_event_def Let_def)

lemma held_blocks: "held i ow t st \<Longrightarrow> es_now st < t \<Longrightarrow> lease_blocks st i"
  by (auto simp: held_def lease_blocks_def split: option.splits)

lemma held_owner: "held i ow t st \<Longrightarrow> v_id (qc_queued_event c) = i \<Longrightarrow> owns_claim st c \<longleftrightarrow> qc_lease_owner c = ow"
  by (auto simp: held_def owns_claim_def split: option.splits)

lemma lease_inv_claim:
  assumes "lease_inv i ow t st"
  shows "lease_inv i ow t (snd (claim_next_queued_run_for_workspace rt ws o' secs st))"
proof (cases "claim_next_queued_run_for_workspace rt ws o' secs st")
  case (Pair r st')
  show ?thesis
  proof (cases r)
    case None
    then show ?thesis
      using Pair assms by (auto simp: claim_next_queued_run_for_workspace_def Let_def
          split: if_splits option.splits prod.splits)
  next
    case (Some c)
    then have cl: "claim_next_queued_run_for_workspace rt ws o' secs st = (Some c, st')" using Pair by simp
    note a = claim_Some(3) [OF cl]
    show ?thesis
    proof (cases "es_now st < t")
      case True
      have "v_id (qc_queued_event c) \<noteq> i"
        using held_blocks [of i ow t st] True assms claim_Some(1) [OF cl]
        by (auto simp: lease_inv_def runnable_def)
      then show ?thesis
        using lease_inv_append [OF _ assms] a cl by (metis is_lease_lease_event snd_conv)
    next
      case False
      then show ?thesis using append_fields(3) [OF a] cl by (simp add: lease_inv_def)
    qed
  qed
qed

lemma lease_inv_given_up:
  assumes "lease_inv i ow t st" and "v_id (qc_queued_event c) \<noteq> i \<or> qc_lease_owner c \<noteq> ow"
    and "owns_claim st c"
  shows "lease_inv i ow t (snd (append_event rt (lease_event ty (qc_queued_event c) p x n) st))"
proof (cases "v_id (qc_queued_event c) = i")
  case True
  then have "\<not> es_now st < t" using assms held_owner [of i ow t st c] by (auto simp: lease_inv_def)
  then show ?thesis by (simp add: lease_inv_def append_event_def Let_def)
next
  case False
  then show ?thesis using lease_inv_append [OF _ assms(1)] is_lease_lease_event by blast
qed

interpretation lease: queue_invariant "lease_inv i ow t" rt "lease_respecting i ow" for i ow t rt
proof unfold_locales
  fix st :: event_store and d :: int assume "lease_inv i ow t st" "0 \<le> d"
  then show "lease_inv i ow t (st\<lparr>es_now := es_now st + d\<rparr>)"
    by (simp add: lease_inv_def held_def already_consumed_def latest_queued_run_lease_event_def)
next
  fix st :: event_store and cs assume "lease_inv i ow t st"
  then show "lease_inv i ow t (st\<lparr>es_conversations := cs\<rparr>)"
    by (simp add: lease_inv_def held_def already_consumed_def latest_queued_run_lease_event_def)
next
  fix st r b n q assume "lease_inv i ow t st"
  then show "lease_inv i ow t (snd (append_event rt (recovery_event st r b n q) st))"
    by (intro lease_inv_append) (simp_all add: is_lease_event_def)
next
  fix st c e assume "lease_inv i ow t st" "lease_respecting i ow (Release c e)"
  then show "lease_inv i ow t (snd (release_queued_run_claim rt c e st))"
    by (simp add: release_queued_run_claim_def case_prod_beta lease_inv_given_up)
next
  fix st c p assume "lease_inv i ow t st" "lease_respecting i ow (Consume c p)"
  then show "lease_inv i ow t (snd (consume_queued_run_claim rt c p st))"
    by (simp add: consume_queued_run_claim_def case_prod_beta lease_inv_given_up)
qed (simp_all add: lease_inv_claim lease_inv_append)

lemma owner_after_redaction:
  assumes "rt ow = ow" "length ow \<le> max_payload_string_length"
  shows "py_str (py_or (dget0 (redact_payload rt (claim_payload q ws ow)) ''lease_owner'') (JStr [])) = ow"
proof -
  have "\<not> is_sensitive_key ''lease_owner''" by code_simp
  moreover have "''lease_owner'' \<in> set (map fst (claim_payload q ws ow))" by (simp add: claim_payload_def)
  ultimately have "dget0 (redact_payload rt (claim_payload q ws ow)) ''lease_owner'' = JStr (cap_string (rt ow) max_payload_string_length)"
    using dget_redact [of "''lease_owner''" "claim_payload q ws ow" rt max_payload_string_length JNull]
    by (simp add: redact_payload_def claim_payload_def)
  then show ?thesis using assms by (cases ow) (simp_all add: cap_string_def py_or_def)
qed

lemma not_run_consumed: "\<not> queued_run_is_consumed st q \<Longrightarrow> \<not> already_consumed st (v_id q)"
  by (auto simp: queued_run_is_consumed_def already_consumed_def)

lemma claim_holds:
  assumes cl: "claim_next_queued_run_for_workspace rt ws ow secs st = (Some c, st')"
    and ok: "ids_ok v_id (es_events st) (es_next st)"
    and own: "rt (strip ow) = strip ow" "length (strip ow) \<le> max_payload_string_length"
  shows "held (v_id (qc_queued_event c)) (strip ow) (es_now st + lease_length secs * 1000000) st'"
proof -
  note a = claim_Some(3) [OF cl]
  have "latest_queued_run_lease_event st' (v_id (qc_queued_event c)) = Some (qc_claim_event c)"
    using latest_append(2) [OF a _ ok] by (simp add: is_lease_lease_event)
  moreover have "\<not> already_consumed st' (v_id (qc_queued_event c))"
    using claim_Some(1) [OF cl] not_run_consumed consumed_append [OF a] by (simp add: runnable_def)
  ultimately show ?thesis
    by (simp add: held_def append_fields [OF a] owner_after_redaction own)
qed

text \<open>C19. A lease protects its owner: from a claim until it expires, whatever other workers claim, release
  or consume and whatever else is appended (short of lease events for this run), no worker is handed the
  run again and the owner's own consumption succeeds.\<close>

theorem lease_protects_owner:
  assumes "claim_next_queued_run_for_workspace rt ws ow secs st = (Some c, st1)"
    and "ids_ok v_id (es_events st) (es_next st)"
    and "rt (strip ow) = strip ow" "length (strip ow) \<le> max_payload_string_length"
    and "list_all (lease_respecting (v_id (qc_queued_event c)) (strip ow)) cs"
    and "st2 = run_queue rt cs st1"
    and "es_now st2 < es_now st + lease_length secs * 1000000"
  shows "fst (consume_queued_run_claim rt c p st2) \<noteq> None \<and>
    (\<forall>ws' ow' secs' c' st3. claim_next_queued_run_for_workspace rt ws' ow' secs' st2 = (Some c', st3) \<longrightarrow>
       v_id (qc_queued_event c') \<noteq> v_id (qc_queued_event c))"
proof -
  let ?i = "v_id (qc_queued_event c)" and ?t = "es_now st + lease_length secs * 1000000"
  have "lease_inv ?i (strip ow) ?t st1" using claim_holds [OF assms(1-4)] by (simp add: lease_inv_def)
  from lease.run_keeps [OF this assms(5), of rt] assms(6,7)
  have h: "held ?i (strip ow) ?t st2" by (simp add: lease_inv_def)
  have "owns_claim st2 c" using held_owner [OF h refl] claim_Some(4) [OF assms(1)] by simp
  moreover have "\<not> already_consumed st2 ?i" using h by (simp add: held_def)
  ultimately have "fst (consume_queued_run_claim rt c p st2) \<noteq> None"
    by (simp add: consume_queued_run_claim_def case_prod_beta)
  moreover have "v_id (qc_queued_event c') \<noteq> ?i"
    if "claim_next_queued_run_for_workspace rt ws' ow' secs' st2 = (Some c', st3)" for ws' ow' secs' c' st3
    using claim_Some(1) [OF that] held_blocks [OF h assms(7)] by (auto simp: runnable_def)
  ultimately show ?thesis by blast
qed

definition demo_claimed :: "queued_run_claim option \<times> event_store" where
  "demo_claimed = claim_next_queued_run_for_workspace (\<lambda>s. s) ''app'' ''w1'' 60 demo_queue"

theorem lease_protects_owner_witness:
  "fst (consume_queued_run_claim (\<lambda>s. s) (the (fst demo_claimed)) []
     (run_queue (\<lambda>s. s) [Tick 59000000, Claim ''app'' ''w2'' 60] (snd demo_claimed))) \<noteq> None"
proof -
  let ?cs = "[Tick 59000000, Claim ''app'' ''w2'' 60]"
  have c: "claim_next_queued_run_for_workspace (\<lambda>s. s) ''app'' ''w1'' 60 demo_queue =
      (Some (the (fst demo_claimed)), snd demo_claimed)"
  proof -
    have "(case fst demo_claimed of Some _ \<Rightarrow> True | None \<Rightarrow> False)" by code_simp
    then show ?thesis by (cases demo_claimed) (auto simp: demo_claimed_def split: option.splits)
  qed
  have i: "ids_ok v_id (es_events demo_queue) (es_next demo_queue)"
    using demo_queue_ok by (simp add: queue_ok_def)
  have l: "length (strip ''w1'') \<le> max_payload_string_length" by code_simp
  have t: "es_now (run_queue (\<lambda>s. s) ?cs (snd demo_claimed)) < es_now demo_queue + lease_length 60 * 1000000"
    by code_simp
  show ?thesis
    using lease_protects_owner [OF c i refl l _ refl t, of "[]"] by simp
qed

section \<open>Finished runs\<close>

definition finished :: "runtime_event \<Rightarrow> event_store \<Rightarrow> bool" where
  "finished q st \<longleftrightarrow> ids_ok v_id (es_events st) (es_next st) \<and> q \<in> set (es_events st) \<and> queued_run_is_consumed st q"

lemma consumed_mono:
  "set (es_events st) \<subseteq> set (es_events st') \<Longrightarrow> queued_run_is_consumed st q \<Longrightarrow> queued_run_is_consumed st' q"
  unfolding queued_run_is_consumed_def by blast

lemma finished_append: "finished q st \<Longrightarrow> finished q (snd (append_event rt e st))"
  using evs.ok_ins [of st rt e] consumed_mono [of st "snd (append_event rt e st)" q]
  unfolding finished_def by (auto simp: append_event_def Let_def)

interpretation fin: queue_invariant "finished q" rt "\<lambda>_. True" for q rt
proof unfold_locales
  fix st ws ow secs assume "finished q st"
  then show "finished q (snd (claim_next_queued_run_for_workspace rt ws ow secs st))"
    by (simp add: claim_next_queued_run_for_workspace_def Let_def case_prod_beta finished_append split: option.splits)
qed (simp_all add: release_queued_run_claim_def consume_queued_run_claim_def case_prod_beta finished_append,
     simp_all add: finished_def queued_run_is_consumed_def)

text \<open>A run that was consumed, started or stopped for recovery is never handed out again, after any
  further commands of any kind.\<close>

theorem finished_never_claimed:
  assumes "ids_ok v_id (es_events st) (es_next st)" "q \<in> set (es_events st)" "queued_run_is_consumed st q"
    and "claim_next_queued_run_for_workspace rt ws ow secs (run_queue rt cs st) = (Some c, st')"
  shows "v_id (qc_queued_event c) \<noteq> v_id q"
proof
  assume e: "v_id (qc_queued_event c) = v_id q"
  have "finished q (run_queue rt cs st)"
    using fin.run_keeps [of q st cs rt] assms(1-3) by (simp add: finished_def list_all_iff)
  moreover have "runnable (run_queue rt cs st) (strip ws) (qc_queued_event c)" by (rule claim_Some(1) [OF assms(4)])
  ultimately have "qc_queued_event c = q"
    using e ids_ok_inj [of v_id "es_events (run_queue rt cs st)" "es_next (run_queue rt cs st)"]
    by (simp add: finished_def runnable_def)
  then show False using \<open>finished q _\<close> \<open>runnable _ _ _\<close> by (simp add: finished_def runnable_def)
qed

definition demo_started :: event_store where
  "demo_started = demo_queue\<lparr>es_events := es_events demo_queue @
     [demo_event_row 3 ''run.started''\<lparr>v_causation_id := Some 1\<rparr>], es_next := 4\<rparr>"

theorem finished_never_claimed_witness:
  "(case fst (claim_next_queued_run_for_workspace (\<lambda>s. s) ''app'' ''w1'' 60 demo_started) of
      None \<Rightarrow> False | Some c \<Rightarrow> v_id (qc_queued_event c) = 2 \<and> v_id (qc_queued_event c) \<noteq> 1)"
proof (cases "claim_next_queued_run_for_workspace (\<lambda>s. s) ''app'' ''w1'' 60 demo_started")
  case (Pair r st')
  have two: "(case fst (claim_next_queued_run_for_workspace (\<lambda>s. s) ''app'' ''w1'' 60 demo_started) of
      None \<Rightarrow> False | Some c \<Rightarrow> v_id (qc_queued_event c) = 2)" by code_simp
  then obtain c where r: "r = Some c" using Pair by (cases r) simp_all
  have i: "ids_ok v_id (es_events demo_started) (es_next demo_started)" by code_simp
  have q: "demo_event_row 1 ''run.queued'' \<in> set (es_events demo_started)"
    by (simp add: demo_started_def demo_queue_def)
  have f: "queued_run_is_consumed demo_started (demo_event_row 1 ''run.queued'')" by code_simp
  have "v_id (qc_queued_event c) \<noteq> v_id (demo_event_row 1 ''run.queued'')"
    using finished_never_claimed [OF i q f, where cs = "[]" and rt = "\<lambda>s. s"] Pair r
    by (simp add: run_queue_def)
  then show ?thesis using two Pair r by (simp add: demo_event_row_def)
qed

section \<open>Recovery\<close>

lemma conversation_of_append [simp]: "conversation_of (snd (append_event rt e st)) q = conversation_of st q"
  by (simp add: conversation_of_def append_event_def Let_def split: option.splits)

lemma consumed_by_recovery:
  assumes "append_event rt (recovery_event st r b n q) st = (e', st')"
  shows "queued_run_is_consumed st' p \<longleftrightarrow> queued_run_is_consumed st p \<or> v_id p = v_id q"
  by (auto simp: queued_run_is_consumed_def append_fields [OF assms])

lemma recover_fold:
  assumes "fold (recover_one rt r b n) qs (acc, st) = (out, st')" and "distinct (map v_id qs)"
  shows "map v_causation_id out = map v_causation_id acc @
           map (\<lambda>q. Some (v_id q)) (filter (\<lambda>q. \<not> queued_run_is_consumed st q) qs)"
    and "p \<in> set qs \<or> queued_run_is_consumed st p \<Longrightarrow> queued_run_is_consumed st' p"
  using assms
proof (induction qs arbitrary: acc st)
  case (Cons q qs)
  {
    case (1 acc st)
    obtain e st1 where a: "append_event rt (recovery_event st r b n q) st = (e, st1)" by fastforce
    have "filter (\<lambda>p. \<not> queued_run_is_consumed st1 p) qs = filter (\<lambda>p. \<not> queued_run_is_consumed st p) qs"
    proof (rule filter_cong [OF refl])
      fix p assume "p \<in> set qs"
      then have "v_id p \<noteq> v_id q" using 1(2) by (metis distinct.simps(2) imageI list.simps(9) list.set_map)
      then show "(\<not> queued_run_is_consumed st1 p) = (\<not> queued_run_is_consumed st p)"
        using consumed_by_recovery [OF a, of p] by simp
    qed
    then show ?case
      using Cons.IH(1) [of "acc @ [e]" st1] Cons.IH(1) [of acc st] 1 a append_fields(7) [OF a]
      by (simp add: recover_one_def split: if_splits)
  next
    case (2 acc st)
    obtain e st1 where a: "append_event rt (recovery_event st r b n q) st = (e, st1)" by fastforce
    from 2 show ?case
      using Cons.IH(2) [of st1 "acc @ [e]"] Cons.IH(2) [of st acc] a consumed_by_recovery [OF a, of p]
      by (auto simp: recover_one_def split: if_splits)
  }
qed simp_all

lemma recover_nothing:
  "(\<And>q. q \<in> set qs \<Longrightarrow> queued_run_is_consumed st q) \<Longrightarrow> fold (recover_one rt r b n) qs (acc, st) = (acc, st)"
  by (induction qs) (simp_all add: recover_one_def)

lemma queue_recovery_frame:
  "es_conversations (snd (fold (recover_one rt r b n) qs (acc, st))) = es_conversations st \<and>
   filter (\<lambda>e. v_event_type e = ''run.queued'') (es_events (snd (fold (recover_one rt r b n) qs (acc, st)))) =
     filter (\<lambda>e. v_event_type e = ''run.queued'') (es_events st)"
  by (rule recover_fold_induct) (simp_all add: append_event_def Let_def)

lemma legacy_rows:
  assumes "es_conversations st' = es_conversations st"
    and "filter (\<lambda>e. v_event_type e = ''run.queued'') (es_events st') = filter (\<lambda>e. v_event_type e = ''run.queued'') (es_events st)"
  shows "filter (is_legacy_queued st') (es_events st') = filter (is_legacy_queued st) (es_events st)"
proof -
  have c: "is_legacy_queued st' = is_legacy_queued st"
    unfolding fun_eq_iff is_legacy_queued_def conversation_of_def assms(1) by simp
  have "filter (is_legacy_queued st) xs = filter (is_legacy_queued st) (filter (\<lambda>e. v_event_type e = ''run.queued'') xs)"
    for xs by (auto simp: is_legacy_queued_def intro!: filter_cong)
  then show ?thesis by (metis c assms(2))
qed

text \<open>Startup recovery stops exactly the unconsumed queued runs of legacy or missing conversations, oldest
  first, one marker each; afterwards none of them can be claimed, and a second pass (an overlapping
  startup) writes nothing.\<close>

theorem recovery_complete_and_idempotent:
  assumes "ids_ok v_id (es_events st) (es_next st)"
    and "mark_unconsumed_legacy_queued_runs_needing_recovery rt r b n st = (out, st')"
  shows "map v_causation_id out = map (\<lambda>q. Some (v_id q))
           (filter (\<lambda>q. is_legacy_queued st q \<and> \<not> queued_run_is_consumed st q) (es_events st)) \<and>
    (\<forall>ws q. is_legacy_queued st' q \<longrightarrow> \<not> runnable st' ws q) \<and>
    mark_unconsumed_legacy_queued_runs_needing_recovery rt r' b' n' st' = ([], st')"
proof -
  let ?qs = "filter (is_legacy_queued st) (es_events st)"
  have srt: "sort_key v_id ?qs = ?qs"
    using assms(1) by (auto simp: ids_ok_def strict_sorted_iff intro!: sort_key_id_if_sorted sorted_filter)
  have d: "distinct (map v_id ?qs)" using ids_ok_distinct [OF assms(1)] by (simp add: distinct_map_filter)
  have f: "fold (recover_one rt r b n) ?qs ([], st) = (out, st')"
    using assms(2) srt by (simp add: mark_unconsumed_legacy_queued_runs_needing_recovery_def)
  have l: "filter (is_legacy_queued st') (es_events st') = ?qs"
    using queue_recovery_frame [of rt r b n ?qs "[]" st] f by (intro legacy_rows) simp_all
  have done': "queued_run_is_consumed st' q" if "q \<in> set ?qs" for q
    using recover_fold(2) [OF f d] that by blast
  then have "\<forall>ws q. is_legacy_queued st' q \<longrightarrow> \<not> runnable st' ws q"
    using l [THEN arg_cong, of set] by (auto simp: runnable_def)
  moreover have "mark_unconsumed_legacy_queued_runs_needing_recovery rt r' b' n' st' = ([], st')"
    unfolding mark_unconsumed_legacy_queued_runs_needing_recovery_def l srt by (rule recover_nothing) (rule done')
  ultimately show ?thesis
    using recover_fold(1) [OF f d] by (simp add: conj_commute)
qed

theorem recovery_complete_and_idempotent_witness:
  "map v_causation_id (fst (mark_unconsumed_legacy_queued_runs_needing_recovery (\<lambda>s. s) [] [] [] demo_started)) = [Some 2]"
proof -
  have i: "ids_ok v_id (es_events demo_started) (es_next demo_started)" by code_simp
  have "map v_causation_id (fst (mark_unconsumed_legacy_queued_runs_needing_recovery (\<lambda>s. s) [] [] [] demo_started)) =
      map (\<lambda>q. Some (v_id q)) (filter (\<lambda>q. is_legacy_queued demo_started q \<and> \<not> queued_run_is_consumed demo_started q)
        (es_events demo_started))"
    using recovery_complete_and_idempotent [OF i surjective_pairing] by blast
  also have "\<dots> = [Some 2]" by code_simp
  finally show ?thesis .
qed

section \<open>The log\<close>

definition log_grows :: "runtime_event list \<Rightarrow> event_store \<Rightarrow> bool" where
  "log_grows es st \<longleftrightarrow> (\<exists>new. es_events st = es @ new \<and>
     list_all (\<lambda>e. clean_dict max_payload_string_length (v_payload e)) new)"

lemma log_grows_append: "log_grows es st \<Longrightarrow> log_grows es (snd (append_event rt e st))"
  by (auto simp: log_grows_def append_event_def Let_def redact_payload_def redact_clean)

interpretation log: queue_invariant "log_grows es" rt "\<lambda>_. True" for es rt
proof unfold_locales
  fix st ws ow secs assume "log_grows es st"
  then show "log_grows es (snd (claim_next_queued_run_for_workspace rt ws ow secs st))"
    by (simp add: claim_next_queued_run_for_workspace_def Let_def case_prod_beta log_grows_append split: option.splits)
qed (simp_all add: release_queued_run_claim_def consume_queued_run_claim_def case_prod_beta log_grows_append,
     simp_all add: log_grows_def)

text \<open>The event log only grows, and whatever any sequence of commands adds to it is redacted: at no depth
  of a stored payload does a sensitive key carry anything but the placeholder, and no string exceeds
  the cap.\<close>

theorem log_append_only_and_clean:
  "\<exists>new. es_events (run_queue rt cs st) = es_events st @ new \<and>
     list_all (\<lambda>e. clean_dict max_payload_string_length (v_payload e)) new"
proof -
  have "log_grows (es_events st) (run_queue rt cs st)"
    by (rule log.run_keeps) (simp_all add: log_grows_def list_all_iff)
  then show ?thesis by (simp add: log_grows_def)
qed

end
