(* ===== verification/Relay_Models.thy ===== *)
theory Relay_Models
  imports Py_Data
begin

text \<open>
  The relay's vocabulary and its normalisers from \<^verbatim>\<open>wlcodex/relay/models.py\<close> and
  \<^verbatim>\<open>wlcodex/relay/artifact_types.py\<close>: roles, execution modes, acceptance criteria, the goal-acceptance
  declaration a provider may submit, and role envelopes with their cleaned fields. Provider input is
  arbitrary JSON; iterating a number or a truth value raises a \<open>TypeError\<close>, the left injection here.
\<close>

section \<open>Failing computations\<close>

datatype relay_exn = NotIterable json | BadInt json | ValueError string

section \<open>Roles and vocabularies\<close>

definition relay_role_ids :: "string list" where
  "relay_role_ids = [''director'', ''architect'', ''implementer'', ''tester'', ''auditor'']"

definition role_envelope_artifact_types :: "string list" where
  "role_envelope_artifact_types =
     [''relay_board'', ''routing_decision'', ''role_dispatch_metadata'', ''architecture_plan'',
      ''implementation_report'', ''test_report'', ''audit_report'', ''handoff_packet'', ''final_summary'']"

definition internal_relay_artifact_types :: "string list" where
  "internal_relay_artifact_types =
     [''role_error'', ''role_artifact_invalid'', ''role_resume'', ''user_attachments'',
      ''pending_input_transition'', ''user_followup'', ''followup_response'']"

definition is_relay_artifact_type :: "string \<Rightarrow> bool" where
  "is_relay_artifact_type v = (v \<in> set (role_envelope_artifact_types @ internal_relay_artifact_types))"

definition is_role_envelope_artifact_type :: "string \<Rightarrow> bool" where
  "is_role_envelope_artifact_type v = (v \<in> set role_envelope_artifact_types)"

text \<open>\<open>d.get(k, default)\<close> on a constant table of strings.\<close>

definition tget :: "(string \<times> string) list \<Rightarrow> string \<Rightarrow> string \<Rightarrow> string" where
  "tget t k v = (case map_of t k of None \<Rightarrow> v | Some w \<Rightarrow> w)"

text \<open>\<open>str(v or "").strip()\<close>.\<close>

definition clean_str :: "json \<Rightarrow> string" where
  "clean_str v = strip (py_str (py_or v (JStr [])))"

definition normalize_relay_execution_mode :: "json \<Rightarrow> string" where
  "normalize_relay_execution_mode v =
     tget [([], ''standard''), (''simple'', ''standard''), (''auto'', ''standard''), (''team'', ''standard''),
           (''standard'', ''standard''), (''plan'', ''plan_first''), (''plan_first'', ''plan_first''),
           (''goal'', ''goal'')] (py_lower (clean_str v)) ''standard''"

section \<open>Acceptance criteria and the goal declaration\<close>

fun add_criteria :: "string list \<Rightarrow> json list \<Rightarrow> string list" where
  "add_criteria acc [] = acc"
| "add_criteria acc (v # vs) =
     (let c = clean_str v in
      add_criteria (if c \<noteq> [] \<and> c \<notin> set acc then acc @ [c] else acc) vs)"

definition normalize_acceptance_criteria :: "json \<Rightarrow> string list" where
  "normalize_acceptance_criteria v = (case v of JList vs \<Rightarrow> add_criteria [] vs | _ \<Rightarrow> [])"

definition goal_acceptance_test_kinds :: "string list" where
  "goal_acceptance_test_kinds = [''pytest'', ''unittest'', ''npm_test'', ''pnpm_test'']"

text \<open>\<open>sorted(set(d) - allowed)\<close>.\<close>

definition unknown_keys :: "dict \<Rightarrow> string list \<Rightarrow> string list" where
  "unknown_keys d allowed = sort (remdups (filter (\<lambda>k. k \<notin> set allowed) (map fst d)))"

definition has_key :: "dict \<Rightarrow> string \<Rightarrow> bool" where
  "has_key d k = (k \<in> set (map fst d))"

fun clean_test_args :: "json list \<Rightarrow> string + string list" where
  "clean_test_args [] = Inr []"
| "clean_test_args (JStr s # vs) =
     (let arg = strip s in
      if arg = [] \<or> length arg > 512 then Inl ''goal_acceptance.test.args contains an invalid value''
      else bindE (clean_test_args vs) (\<lambda>args. Inr (arg # args)))"
| "clean_test_args (_ # vs) = Inl ''goal_acceptance.test.args must contain only strings''"

text \<open>The \<open>test\<close> object: kind, arguments and package script.\<close>

definition finish_goal_test :: "string \<Rightarrow> string list \<Rightarrow> string \<Rightarrow> string + dict" where
  "finish_goal_test kind args script =
     (let out = [(''kind'', JStr kind), (''args'', JList (map JStr args))] @
                (if script \<noteq> [] then [(''script'', JStr script)] else []) in
      if kind \<in> {''npm_test'', ''pnpm_test''} then
        (if args \<noteq> [] then Inl ''package-manager goal tests do not accept free-form args''
         else if script \<notin> {''test'', ''test:e2e''} then Inl ''package-manager goal tests require an approved script''
         else Inr out)
      else if script \<noteq> [] then Inl ''python goal tests do not accept a package script''
      else Inr out)"

definition normalize_goal_test :: "dict \<Rightarrow> string + dict" where
  "normalize_goal_test t =
     (let unknown = unknown_keys t [''kind'', ''args'', ''script''];
          kind = clean_str (dget0 t ''kind'') in
      if unknown \<noteq> [] then Inl (''goal_acceptance.test has unsupported fields: '' @ py_join '', '' unknown)
      else if kind \<notin> set goal_acceptance_test_kinds then Inl ''goal_acceptance.test.kind is not an approved test kind''
      else case dget t ''args'' (JList []) of
        JList vs \<Rightarrow>
          if length vs > 32 then Inl ''goal_acceptance.test.args must be a list of at most 32 values''
          else bindE (clean_test_args vs) (\<lambda>args. finish_goal_test kind args (clean_str (dget0 t ''script'')))
      | _ \<Rightarrow> Inl ''goal_acceptance.test.args must be a list of at most 32 values'')"

definition normalize_goal_criteria :: "dict \<Rightarrow> string + dict" where
  "normalize_goal_criteria d =
     (if \<not> has_key d ''criteria'' then Inr []
      else case dget0 d ''criteria'' of
        JList vs \<Rightarrow>
          if vs = [] then Inl ''goal_acceptance.criteria must be a non-empty list''
          else let criteria = normalize_acceptance_criteria (JList vs) in
               if length criteria \<noteq> length vs \<or> length criteria > 64
               then Inl ''goal_acceptance.criteria must contain at most 64 unique non-empty strings''
               else Inr [(''criteria'', JList (map JStr criteria))]
      | _ \<Rightarrow> Inl ''goal_acceptance.criteria must be a non-empty list'')"

definition add_goal_test :: "dict \<Rightarrow> dict \<Rightarrow> string + dict" where
  "add_goal_test d base =
     (if \<not> has_key d ''test'' \<or> dget0 d ''test'' = JNull then Inr base
      else case dget0 d ''test'' of
        JDict t \<Rightarrow> bindE (normalize_goal_test t) (\<lambda>t'. Inr (base @ [(''test'', JDict t')]))
      | _ \<Rightarrow> Inl ''goal_acceptance.test must be an object'')"

definition normalize_goal_acceptance_declaration :: "json \<Rightarrow> string + dict" where
  "normalize_goal_acceptance_declaration v =
     (case v of
        JDict d \<Rightarrow>
          let unknown = unknown_keys d [''implementation_run_id'', ''test'', ''criteria''] in
          if unknown \<noteq> [] then Inl (''goal_acceptance has unsupported fields: '' @ py_join '', '' unknown)
          else (case dget0 d ''implementation_run_id'' of
            JInt i \<Rightarrow>
              if i \<le> 0 then Inl ''goal_acceptance requires a positive implementation_run_id''
              else bindE (normalize_goal_criteria d) (\<lambda>criteria.
                add_goal_test d ((''implementation_run_id'', JInt i) # criteria))
          | _ \<Rightarrow> Inl ''goal_acceptance requires a positive implementation_run_id'')
      | _ \<Rightarrow> Inl ''goal_acceptance must be an object'')"

section \<open>Cleaned lists and confirmation options\<close>

text \<open>What a \<open>for\<close> loop over a JSON value visits.\<close>

fun py_iter :: "json \<Rightarrow> relay_exn + json list" where
  "py_iter (JList vs) = Inr vs"
| "py_iter (JStr s) = Inr (map (\<lambda>c. JStr [c]) s)"
| "py_iter (JDict d) = Inr (map (JStr \<circ> fst) d)"
| "py_iter v = Inl (NotIterable v)"

definition clean_list :: "json \<Rightarrow> relay_exn + string list" where
  "clean_list v =
     (if \<not> py_truth v then Inr []
      else bindE (py_iter v) (\<lambda>vs. Inr (filter (\<lambda>s. strip s \<noteq> []) (map py_str vs))))"

record confirmation_option =
  co_id :: string
  co_label :: string
  co_summary :: string
  co_instruction :: string

definition option_name :: "nat \<Rightarrow> string" where
  "option_name i = ''option_'' @ nat_str i"

fun option_fields :: "nat \<Rightarrow> json \<Rightarrow> confirmation_option option" where
  "option_fields i (JStr s) =
     (let label = strip s in
      Some \<lparr>co_id = option_name i, co_label = label, co_summary = [], co_instruction = label\<rparr>)"
| "option_fields i (JDict d) =
     (let oid = strip (py_str (py_or (dget0 d ''id'') (JStr (option_name i))));
          label = strip (py_str (py_or (dget0 d ''label'') (py_or (dget0 d ''title'') (py_or (dget0 d ''name'')
                    (py_or (dget0 d ''summary'') (JStr oid))))));
          summary = clean_str (py_or (dget0 d ''summary'') (dget0 d ''description''));
          instruction = strip (py_str (py_or (dget0 d ''instruction'') (py_or (dget0 d ''prompt'')
                    (py_or (dget0 d ''value'') (py_or (dget0 d ''text'') (JStr label))))))
      in Some \<lparr>co_id = oid, co_label = label, co_summary = summary, co_instruction = instruction\<rparr>)"
| "option_fields i _ = None"

definition finish_option :: "nat \<Rightarrow> confirmation_option \<Rightarrow> confirmation_option list" where
  "finish_option i c =
     (if co_label c = [] \<and> co_instruction c = [] then []
      else [\<lparr>co_id = (if co_id c = [] then option_name i else co_id c),
             co_label = (if co_label c = [] then co_instruction c else co_label c),
             co_summary = co_summary c,
             co_instruction = (if co_instruction c = [] then co_label c else co_instruction c)\<rparr>])"

fun clean_options_from :: "nat \<Rightarrow> json list \<Rightarrow> confirmation_option list" where
  "clean_options_from i [] = []"
| "clean_options_from i (v # vs) =
     (case option_fields i v of None \<Rightarrow> [] | Some c \<Rightarrow> finish_option i c) @ clean_options_from (Suc i) vs"

definition clean_confirmation_options :: "json \<Rightarrow> confirmation_option list" where
  "clean_confirmation_options v = (case v of JList vs \<Rightarrow> clean_options_from 1 (take 6 vs) | _ \<Rightarrow> [])"

section \<open>Role envelopes and handoff packets\<close>

record role_envelope =
  re_status :: string
  re_reason :: string
  re_role :: string
  re_artifact_type :: string
  re_handoff_to :: string
  re_summary :: string
  re_evidence_refs :: "string list"
  re_open_questions :: "string list"
  re_next_action :: string
  re_confirmation_options :: "confirmation_option list"

text \<open>\<open>str(payload.get(k, "")).strip()\<close>: a \<open>null\<close> becomes the text \<open>None\<close>.\<close>

definition text_field :: "dict \<Rightarrow> string \<Rightarrow> string" where
  "text_field p k = strip (py_str (dget p k (JStr [])))"

definition role_envelope_from_payload :: "dict \<Rightarrow> relay_exn + role_envelope" where
  "role_envelope_from_payload p =
     bindE (clean_list (dget0 p ''evidence_refs'')) (\<lambda>refs.
     bindE (clean_list (dget0 p ''open_questions'')) (\<lambda>questions.
       Inr \<lparr>re_status = text_field p ''status'', re_reason = text_field p ''reason'',
            re_role = text_field p ''role'', re_artifact_type = text_field p ''artifact_type'',
            re_handoff_to = text_field p ''handoff_to'', re_summary = text_field p ''summary'',
            re_evidence_refs = refs, re_open_questions = questions,
            re_next_action = text_field p ''next_action'',
            re_confirmation_options = clean_confirmation_options (dget0 p ''confirmation_options'')\<rparr>))"

definition option_json :: "confirmation_option \<Rightarrow> json" where
  "option_json c = JDict [(''id'', JStr (co_id c)), (''label'', JStr (co_label c)),
     (''summary'', JStr (co_summary c)), (''instruction'', JStr (co_instruction c))]"

definition role_envelope_json :: "role_envelope \<Rightarrow> dict" where
  "role_envelope_json e =
     [(''status'', JStr (re_status e)), (''reason'', JStr (re_reason e)), (''role'', JStr (re_role e)),
      (''artifact_type'', JStr (re_artifact_type e)), (''handoff_to'', JStr (re_handoff_to e)),
      (''summary'', JStr (re_summary e)), (''evidence_refs'', JList (map JStr (re_evidence_refs e))),
      (''open_questions'', JList (map JStr (re_open_questions e))), (''next_action'', JStr (re_next_action e)),
      (''confirmation_options'', JList (map option_json (re_confirmation_options e)))]"

record handoff_packet =
  hp_from_role :: string
  hp_to_role :: string
  hp_summary :: string
  hp_confirmed_facts :: "string list"
  hp_open_questions :: "string list"
  hp_evidence_refs :: "string list"
  hp_next_action :: string

definition handoff_packet_json :: "handoff_packet \<Rightarrow> dict" where
  "handoff_packet_json h =
     [(''from_role'', JStr (hp_from_role h)), (''to_role'', JStr (hp_to_role h)), (''summary'', JStr (hp_summary h)),
      (''confirmed_facts'', JList (map JStr (hp_confirmed_facts h))),
      (''open_questions'', JList (map JStr (hp_open_questions h))),
      (''evidence_refs'', JList (map JStr (hp_evidence_refs h))), (''next_action'', JStr (hp_next_action h))]"

definition handoff_packet_from_payload :: "dict \<Rightarrow> relay_exn + handoff_packet" where
  "handoff_packet_from_payload p =
     bindE (clean_list (dget0 p ''confirmed_facts'')) (\<lambda>facts.
     bindE (clean_list (dget0 p ''open_questions'')) (\<lambda>questions.
     bindE (clean_list (dget0 p ''evidence_refs'')) (\<lambda>refs.
       Inr \<lparr>hp_from_role = text_field p ''from_role'', hp_to_role = text_field p ''to_role'',
            hp_summary = text_field p ''summary'', hp_confirmed_facts = facts, hp_open_questions = questions,
            hp_evidence_refs = refs, hp_next_action = text_field p ''next_action''\<rparr>)))"

end
