(* ===== verification/Relay_Envelopes.thy ===== *)
theory Relay_Envelopes
  imports Relay_Models
begin

text \<open>
  The parser of role outputs, \<^verbatim>\<open>wlcodex/relay/envelopes.py\<close>: aliases are normalised, the required fields
  and vocabularies checked, and the default handoff filled in. The JSON decoder is the argument \<open>loads\<close>:
  its value or the message of the decoding error.
\<close>

section \<open>The parser\<close>

definition required_fields :: "string list" where
  "required_fields = [''status'', ''reason'', ''role'', ''artifact_type'', ''handoff_to'', ''summary'',
     ''evidence_refs'', ''open_questions'', ''next_action'']"

definition default_handoffs :: "(string \<times> string) list" where
  "default_handoffs = [(''architect'', ''implementer''), (''implementer'', ''tester''), (''tester'', ''auditor''),
     (''auditor'', ''director'')]"

definition valid_envelope_statuses :: "string list" where
  "valid_envelope_statuses = [''passed'', ''failed'', ''blocked'', ''waiting'']"

definition artifact_type_aliases :: "(string \<times> string) list" where
  "artifact_type_aliases =
     [(''backend_patch'', ''implementation_report''), (''code_patch'', ''implementation_report''),
      (''frontend_patch'', ''implementation_report''), (''implementation'', ''implementation_report''),
      (''implementation_patch'', ''implementation_report'')]"

definition role_id_aliases :: "(string \<times> string) list" where
  "role_id_aliases =
     [(''chief_engineer'', ''director''), (''lead_engineer'', ''director''), (''developer'', ''implementer''),
      (''developer_engineer'', ''implementer''), (''development_engineer'', ''implementer''),
      (''dev_engineer'', ''implementer''), (''implement_engineer'', ''implementer''),
      (''audit_engineer'', ''auditor''), (''review_engineer'', ''auditor''), (''reviewer'', ''auditor''),
      (''qa_engineer'', ''tester''), (''test_engineer'', ''tester'')]"

definition role_output_artifact_types :: "(string \<times> string) list" where
  "role_output_artifact_types =
     [(''architect'', ''architecture_plan''), (''implementer'', ''implementation_report''),
      (''tester'', ''test_report''), (''auditor'', ''audit_report'')]"

definition default_handoff_target :: "string \<Rightarrow> string option" where
  "default_handoff_target role = map_of default_handoffs role"

definition alias_field :: "string \<Rightarrow> dict \<Rightarrow> dict" where
  "alias_field k p =
     (case map_of role_id_aliases (clean_str (dget0 p k)) of None \<Rightarrow> p | Some r \<Rightarrow> dset k (JStr r) p)"

definition alias_required_roles :: "dict \<Rightarrow> dict" where
  "alias_required_roles p =
     (case dget0 p ''required_roles'' of
        JList rs \<Rightarrow> dset ''required_roles'' (JList (map (\<lambda>r.
          case map_of role_id_aliases (strip (py_str r)) of None \<Rightarrow> r | Some a \<Rightarrow> JStr a) rs)) p
      | _ \<Rightarrow> p)"

definition alias_artifact_type :: "dict \<Rightarrow> dict" where
  "alias_artifact_type p =
     (let ty = clean_str (dget0 p ''artifact_type'') in
      case map_of artifact_type_aliases ty of
        Some a \<Rightarrow> dset ''artifact_type'' (JStr a) p
      | None \<Rightarrow>
          if ty = ''relay artifact type'' then
            (case map_of role_output_artifact_types (clean_str (dget0 p ''role'')) of
               None \<Rightarrow> p | Some a \<Rightarrow> dset ''artifact_type'' (JStr a) p)
          else p)"

definition normalize_role_envelope_payload :: "dict \<Rightarrow> dict" where
  "normalize_role_envelope_payload p =
     alias_artifact_type (alias_required_roles (alias_field ''handoff_to'' (alias_field ''role'' p)))"

record envelope_parse_result =
  pr_ok :: bool
  pr_envelope :: "role_envelope option"
  pr_next_role :: "string option"
  pr_error :: string
  pr_payload :: dict

definition parse_failed :: "string \<Rightarrow> envelope_parse_result" where
  "parse_failed err = \<lparr>pr_ok = False, pr_envelope = None, pr_next_role = None, pr_error = err, pr_payload = []\<rparr>"

fun is_list :: "json \<Rightarrow> bool" where
  "is_list (JList _) = True"
| "is_list _ = False"

definition check_role_envelope :: "dict \<Rightarrow> role_envelope \<Rightarrow> envelope_parse_result" where
  "check_role_envelope p e =
     (if re_role e \<notin> set relay_role_ids then parse_failed (''unknown role: '' @ re_role e)
      else if re_status e \<notin> set valid_envelope_statuses then parse_failed (''invalid status: '' @ re_status e)
      else if re_artifact_type e \<notin> set role_envelope_artifact_types
        then parse_failed (''invalid artifact_type: '' @ re_artifact_type e)
      else if re_handoff_to e \<noteq> [] \<and> re_handoff_to e \<notin> set relay_role_ids
        then parse_failed (''unknown handoff_to role: '' @ re_handoff_to e)
      else if \<not> is_list (dget0 p ''evidence_refs'') \<or> \<not> is_list (dget0 p ''open_questions'')
        then parse_failed ''evidence_refs and open_questions must be lists''
      else if has_key p ''confirmation_options'' \<and> \<not> is_list (dget0 p ''confirmation_options'')
        then parse_failed ''confirmation_options must be a list''
      else \<lparr>pr_ok = True, pr_envelope = Some e,
            pr_next_role = (if re_handoff_to e \<noteq> [] then Some (re_handoff_to e)
                            else default_handoff_target (re_role e)),
            pr_error = [], pr_payload = p\<rparr>)"

definition unwrap_role_envelope :: "dict \<Rightarrow> dict" where
  "unwrap_role_envelope p = (case dget0 p ''role_envelope'' of JDict q \<Rightarrow> q | _ \<Rightarrow> p)"

definition parse_role_envelope_payload :: "json \<Rightarrow> relay_exn + envelope_parse_result" where
  "parse_role_envelope_payload v =
     (case v of
        JDict d \<Rightarrow>
          let p = normalize_role_envelope_payload (unwrap_role_envelope d);
              missing = filter (\<lambda>f. \<not> has_key p f) required_fields in
          if missing \<noteq> [] then Inr (parse_failed (''missing required fields: '' @ py_join '', '' missing))
          else bindE (role_envelope_from_payload p) (\<lambda>e. Inr (check_role_envelope p e))
      | _ \<Rightarrow> Inr (parse_failed ''role envelope must be a JSON object''))"

datatype role_output = OutText string | OutPayload json

definition parse_value :: "json \<Rightarrow> relay_exn + envelope_parse_result" where
  "parse_value v =
     bindE (parse_role_envelope_payload v) (\<lambda>r.
       Inr (if pr_ok r then r
            else parse_failed (if pr_error r = [] then ''role envelope must be a JSON object'' else pr_error r)))"

fun parse_role_envelope :: "(string \<Rightarrow> string + json) \<Rightarrow> role_output \<Rightarrow> relay_exn + envelope_parse_result" where
  "parse_role_envelope loads (OutPayload v) = parse_value v"
| "parse_role_envelope loads (OutText s) =
     (case loads s of Inl msg \<Rightarrow> Inr (parse_failed (''invalid json: '' @ msg)) | Inr v \<Rightarrow> parse_value v)"

section \<open>What is parsed is well formed\<close>

definition option_wf :: "confirmation_option \<Rightarrow> bool" where
  "option_wf c \<longleftrightarrow> co_id c \<noteq> [] \<and> co_label c \<noteq> [] \<and> co_instruction c \<noteq> [] \<and>
     strip (co_id c) = co_id c \<and> strip (co_label c) = co_label c \<and> strip (co_summary c) = co_summary c \<and>
     strip (co_instruction c) = co_instruction c"

definition envelope_wf :: "role_envelope \<Rightarrow> bool" where
  "envelope_wf e \<longleftrightarrow> re_role e \<in> set relay_role_ids \<and> re_status e \<in> set valid_envelope_statuses \<and>
     re_artifact_type e \<in> set role_envelope_artifact_types \<and>
     (re_handoff_to e = [] \<or> re_handoff_to e \<in> set relay_role_ids) \<and>
     list_all (\<lambda>s. strip s = s) [re_reason e, re_summary e, re_next_action e] \<and>
     list_all (\<lambda>s. strip s \<noteq> []) (re_evidence_refs e @ re_open_questions e) \<and>
     list_all option_wf (re_confirmation_options e) \<and> length (re_confirmation_options e) \<le> 6"

lemma option_name_not_Nil [simp]: "option_name i \<noteq> []"
  by (simp add: option_name_def)

lemma strip_option_name [simp]: "strip (option_name i) = option_name i"
proof (rule not_space_strip)
  fix c assume "c \<in> set (option_name i)"
  then consider "c \<in> set ''option_''" | "c \<in> set (nat_str i)" unfolding option_name_def set_append by blast
  then show "\<not> py_isspace c"
  proof cases
    case 1
    then show ?thesis by (auto simp: py_isspace_def code_point_def)
  next
    case 2
    then show ?thesis by (rule digit_not_space [OF nat_str_digits])
  qed
qed

lemma strip_Nil [simp]: "strip [] = []"
  by (simp add: strip_def lstrip_def rstrip_def)

lemma option_fields_stripped:
  "option_fields i v = Some c \<Longrightarrow> strip (co_id c) = co_id c \<and> strip (co_label c) = co_label c \<and>
     strip (co_summary c) = co_summary c \<and> strip (co_instruction c) = co_instruction c"
  by (cases v) (auto simp: Let_def clean_str_def)

lemma finish_option_wf:
  "option_fields i v = Some c \<Longrightarrow> list_all option_wf (finish_option i c)"
  using option_fields_stripped [of i v c] by (simp add: finish_option_def option_wf_def)

lemma clean_options_from_wf:
  "list_all option_wf (clean_options_from i vs) \<and> length (clean_options_from i vs) \<le> length vs"
proof (induction vs arbitrary: i)
  case (Cons v vs)
  show ?case
  proof (cases "option_fields i v")
    case (Some c)
    have "length (finish_option i c) \<le> 1" by (simp add: finish_option_def)
    then show ?thesis using Cons [of "Suc i"] finish_option_wf [OF Some] Some by simp
  qed (use Cons [of "Suc i"] in simp)
qed simp

lemma clean_options_wf:
  "list_all option_wf (clean_confirmation_options v) \<and> length (clean_confirmation_options v) \<le> 6"
proof (cases v)
  case (JList vs)
  then show ?thesis using clean_options_from_wf [of 1 "take 6 vs"] by (simp add: clean_confirmation_options_def)
qed (simp_all add: clean_confirmation_options_def)

lemma clean_list_nonblank: "clean_list v = Inr xs \<Longrightarrow> list_all (\<lambda>s. strip s \<noteq> []) xs"
  by (auto simp: clean_list_def bindE_Inr list_all_iff split: if_splits)

lemma from_payload_clean:
  assumes "role_envelope_from_payload p = Inr e"
  shows "list_all (\<lambda>s. strip s = s) [re_reason e, re_summary e, re_next_action e]"
    and "list_all (\<lambda>s. strip s \<noteq> []) (re_evidence_refs e @ re_open_questions e)"
    and "list_all option_wf (re_confirmation_options e) \<and> length (re_confirmation_options e) \<le> 6"
  using assms clean_list_nonblank clean_options_wf
  by (auto simp: role_envelope_from_payload_def bindE_Inr text_field_def)

lemma check_ok:
  assumes "pr_ok (check_role_envelope p e)"
  shows "check_role_envelope p e = \<lparr>pr_ok = True, pr_envelope = Some e,
      pr_next_role = (if re_handoff_to e \<noteq> [] then Some (re_handoff_to e) else default_handoff_target (re_role e)),
      pr_error = [], pr_payload = p\<rparr>"
    and "re_role e \<in> set relay_role_ids" "re_status e \<in> set valid_envelope_statuses"
    "re_artifact_type e \<in> set role_envelope_artifact_types"
    "re_handoff_to e = [] \<or> re_handoff_to e \<in> set relay_role_ids"
  using assms by (auto simp: check_role_envelope_def parse_failed_def split: if_splits)

lemma parse_value_ok:
  assumes "parse_value v = Inr r" and "pr_ok r"
  obtains d p e where "v = JDict d" "p = normalize_role_envelope_payload (unwrap_role_envelope d)"
    "role_envelope_from_payload p = Inr e" "r = check_role_envelope p e"
  using assms
  by (auto simp: parse_value_def parse_role_envelope_payload_def bindE_Inr parse_failed_def Let_def
      split: json.splits if_splits)

lemma default_handoff_is_role: "default_handoff_target r = Some r' \<Longrightarrow> r' \<in> set relay_role_ids"
  by (auto simp: default_handoff_target_def default_handoffs_def relay_role_ids_def split: if_splits)

lemma parse_value_wf:
  assumes "parse_value v = Inr r" "pr_ok r"
  shows "\<exists>e. pr_envelope r = Some e \<and> envelope_wf e \<and> pr_error r = [] \<and>
    (case pr_next_role r of None \<Rightarrow> re_role e = ''director'' \<and> re_handoff_to e = []
     | Some n \<Rightarrow> n \<in> set relay_role_ids \<and> (re_handoff_to e \<noteq> [] \<longrightarrow> n = re_handoff_to e))"
proof -
  obtain d p e where *: "role_envelope_from_payload p = Inr e" "r = check_role_envelope p e"
    using assms by (rule parse_value_ok)
  note ok = check_ok [of p e, folded *(2), OF assms(2)]
  have "envelope_wf e" using ok(2-5) from_payload_clean [OF *(1)] by (simp add: envelope_wf_def)
  moreover have "re_role e = ''director''" if "default_handoff_target (re_role e) = None"
    using that ok(2) by (auto simp: default_handoff_target_def default_handoffs_def relay_role_ids_def split: if_splits)
  ultimately show ?thesis
    using ok default_handoff_is_role by (auto split: option.splits)
qed

section \<open>Printing and parsing\<close>

lemma clean_str_JStr [simp]: "clean_str (JStr s) = strip s"
  by (simp add: clean_str_def py_or_def)

lemma strip_vocabulary:
  "r \<in> set relay_role_ids \<Longrightarrow> strip r = r" "t \<in> set role_envelope_artifact_types \<Longrightarrow> strip t = t"
  "v \<in> set valid_envelope_statuses \<Longrightarrow> strip v = v"
proof -
  have "list_all (\<lambda>s. strip s = s) (relay_role_ids @ role_envelope_artifact_types @ valid_envelope_statuses)"
    by code_simp
  then show "r \<in> set relay_role_ids \<Longrightarrow> strip r = r" "t \<in> set role_envelope_artifact_types \<Longrightarrow> strip t = t"
    "v \<in> set valid_envelope_statuses \<Longrightarrow> strip v = v"
    by (simp_all add: list_all_iff)
qed

lemma role_not_alias: "r = [] \<or> r \<in> set relay_role_ids \<Longrightarrow> map_of role_id_aliases r = None"
proof -
  have "list_all (\<lambda>r. map_of role_id_aliases r = None) ([] # relay_role_ids)" by code_simp
  then show "r = [] \<or> r \<in> set relay_role_ids \<Longrightarrow> map_of role_id_aliases r = None"
    unfolding list_all_iff list.set insert_iff by (rule bspec) (simp only: insert_iff)
qed

lemma artifact_type_not_alias:
  "t \<in> set role_envelope_artifact_types \<Longrightarrow> map_of artifact_type_aliases t = None \<and> t \<noteq> ''relay artifact type''"
  by (auto simp: role_envelope_artifact_types_def artifact_type_aliases_def)

lemma clean_list_strings: "list_all (\<lambda>s. strip s \<noteq> []) xs \<Longrightarrow> clean_list (JList (map JStr xs)) = Inr xs"
proof -
  assume a: "list_all (\<lambda>s. strip s \<noteq> []) xs"
  have "map py_str (map JStr xs) = xs" by (simp add: comp_def)
  then show ?thesis using a by (simp add: clean_list_def list_all_iff del: map_map)
qed

lemma clean_option_json: "option_wf c \<Longrightarrow>
    option_fields i (option_json c) = Some c \<and> finish_option i c = [c]"
  by (simp add: option_json_def option_wf_def finish_option_def Let_def py_or_def clean_str_def)

lemma clean_options_json: "list_all option_wf cs \<Longrightarrow> clean_options_from i (map option_json cs) = cs"
  by (induction cs arbitrary: i) (simp_all add: clean_option_json del: option_fields.simps)

lemma clean_confirmation_options_json:
  "list_all option_wf cs \<Longrightarrow> length cs \<le> 6 \<Longrightarrow> clean_confirmation_options (JList (map option_json cs)) = cs"
  by (simp add: clean_confirmation_options_def clean_options_json)

lemma from_payload_json:
  assumes "envelope_wf e"
  shows "role_envelope_from_payload (role_envelope_json e) = Inr e"
proof -
  have "re_handoff_to e = [] \<or> strip (re_handoff_to e) = re_handoff_to e"
    using assms strip_vocabulary(1) by (auto simp: envelope_wf_def)
  then show ?thesis
    using assms strip_vocabulary
    by (auto simp: envelope_wf_def role_envelope_from_payload_def role_envelope_json_def text_field_def
        clean_list_strings clean_confirmation_options_json)
qed

lemma normalize_json:
  assumes "envelope_wf e"
  shows "normalize_role_envelope_payload (unwrap_role_envelope (role_envelope_json e)) = role_envelope_json e"
proof -
  let ?p = "role_envelope_json e"
  have g: "dget0 ?p ''role'' = JStr (re_role e)" "dget0 ?p ''handoff_to'' = JStr (re_handoff_to e)"
    "dget0 ?p ''artifact_type'' = JStr (re_artifact_type e)" "dget0 ?p ''required_roles'' = JNull"
    "dget0 ?p ''role_envelope'' = JNull"
    by (simp_all add: role_envelope_json_def)
  have "map_of role_id_aliases (strip (re_role e)) = None" "map_of role_id_aliases (strip (re_handoff_to e)) = None"
    using assms strip_vocabulary(1) role_not_alias unfolding envelope_wf_def by auto
  moreover have "map_of artifact_type_aliases (strip (re_artifact_type e)) = None"
    "strip (re_artifact_type e) \<noteq> ''relay artifact type''"
    using assms strip_vocabulary(2) artifact_type_not_alias unfolding envelope_wf_def by auto
  ultimately show ?thesis
    by (simp add: normalize_role_envelope_payload_def unwrap_role_envelope_def alias_field_def
        alias_required_roles_def alias_artifact_type_def g Let_def)
qed

lemma parse_printed:
  assumes "envelope_wf e"
  shows "parse_value (JDict (role_envelope_json e)) =
    Inr \<lparr>pr_ok = True, pr_envelope = Some e,
         pr_next_role = (if re_handoff_to e \<noteq> [] then Some (re_handoff_to e) else default_handoff_target (re_role e)),
         pr_error = [], pr_payload = role_envelope_json e\<rparr>"
proof -
  have "filter (\<lambda>f. \<not> has_key (role_envelope_json e) f) required_fields = []"
    by (simp add: filter_empty_conv required_fields_def has_key_def role_envelope_json_def)
  moreover have "check_role_envelope (role_envelope_json e) e = \<lparr>pr_ok = True, pr_envelope = Some e,
         pr_next_role = (if re_handoff_to e \<noteq> [] then Some (re_handoff_to e) else default_handoff_target (re_role e)),
         pr_error = [], pr_payload = role_envelope_json e\<rparr>"
    using assms by (auto simp: envelope_wf_def check_role_envelope_def role_envelope_json_def)
  ultimately show ?thesis
    by (simp add: parse_value_def parse_role_envelope_payload_def normalize_json [OF assms]
        from_payload_json [OF assms] Let_def)
qed

end
