(* ===== verification/Relay_Graph.thy ===== *)
theory Relay_Graph
  imports Relay_Envelopes
begin

text \<open>
  What a role's output does to its relay task: the guardrails of \<^verbatim>\<open>wlcodex/relay/guardrails.py\<close> and the
  transitions of \<^verbatim>\<open>wlcodex/relay/graph.py\<close>, with the pure read model of the relay state. Updates and
  events are the dictionaries the code builds; a repeated key of a display keeps its first place and its
  last value.
\<close>

section \<open>Guardrails\<close>

datatype role_guardrail_action = ACCEPTED | RETRY_ROLE | GR_WAITING_USER | GR_BLOCKED

fun guardrail_action_value :: "role_guardrail_action \<Rightarrow> string" where
  "guardrail_action_value ACCEPTED = ''accepted''"
| "guardrail_action_value RETRY_ROLE = ''retry_role''"
| "guardrail_action_value GR_WAITING_USER = ''waiting_user''"
| "guardrail_action_value GR_BLOCKED = ''blocked''"

record relay_role_spec =
  rs_role :: string
  rs_allowed_artifacts :: "string list"
  rs_requires_evidence_on_pass :: bool
  rs_can_complete_task :: bool

record role_guardrail_result =
  gr_action :: role_guardrail_action
  gr_reason :: string
  gr_open_questions :: "string list"
  gr_confirmation_options :: "confirmation_option list"

definition role_spec :: "string \<Rightarrow> string list \<Rightarrow> bool \<Rightarrow> bool \<Rightarrow> relay_role_spec" where
  "role_spec r as ev fin = \<lparr>rs_role = r, rs_allowed_artifacts = as, rs_requires_evidence_on_pass = ev,
     rs_can_complete_task = fin\<rparr>"

definition role_specs :: "(string \<times> relay_role_spec) list" where
  "role_specs =
     [(''director'', role_spec ''director'' [''routing_decision'', ''final_summary''] False True),
      (''architect'', role_spec ''architect'' [''architecture_plan''] False False),
      (''implementer'', role_spec ''implementer'' [''implementation_report''] True False),
      (''tester'', role_spec ''tester'' [''test_report''] True False),
      (''auditor'', role_spec ''auditor'' [''audit_report''] True False)]"

definition role_spec_for :: "string \<Rightarrow> relay_role_spec" where
  "role_spec_for role =
     (case map_of role_specs (strip role) of None \<Rightarrow> role_spec (strip role) [] False False | Some s \<Rightarrow> s)"

text \<open>\<open>str(a or b or "").strip()\<close> on strings.\<close>

definition or_strip :: "string \<Rightarrow> string \<Rightarrow> string" where
  "or_strip a b = strip (if a \<noteq> [] then a else b)"

definition guardrail :: "role_guardrail_action \<Rightarrow> string \<Rightarrow> role_guardrail_result" where
  "guardrail a reason = \<lparr>gr_action = a, gr_reason = reason, gr_open_questions = [], gr_confirmation_options = []\<rparr>"

definition guardrail_role_envelope :: "role_envelope \<Rightarrow> string \<Rightarrow> role_guardrail_result" where
  "guardrail_role_envelope e role =
     (let role_id = or_strip role (re_role e);
          spec = role_spec_for role_id in
      if rs_allowed_artifacts spec = [] then guardrail GR_BLOCKED (''unknown relay role for guardrail: '' @ role_id)
      else if re_role e \<noteq> [] \<and> re_role e \<noteq> role_id
        then guardrail RETRY_ROLE (role_id @ '' output declared role '' @ re_role e)
      else if re_artifact_type e \<notin> set (rs_allowed_artifacts spec)
        then guardrail RETRY_ROLE (role_id @ '' may not produce '' @ re_artifact_type e @ ''; expected one of '' @
               py_join '', '' (rs_allowed_artifacts spec))
      else if re_artifact_type e = ''final_summary'' \<and> \<not> rs_can_complete_task spec
        then guardrail RETRY_ROLE (role_id @ '' may not complete task with final_summary'')
      else if re_status e = ''passed'' \<and> rs_requires_evidence_on_pass spec \<and> re_evidence_refs e = [] then
        (let reason = role_id @ '' passed '' @ re_artifact_type e @ '' without evidence_refs'' in
         if re_open_questions e \<noteq> []
         then \<lparr>gr_action = GR_WAITING_USER, gr_reason = reason, gr_open_questions = re_open_questions e,
               gr_confirmation_options = re_confirmation_options e\<rparr>
         else guardrail GR_BLOCKED reason)
      else guardrail ACCEPTED [])"

section \<open>Transitions\<close>

record relay_interrupt =
  ri_kind :: string
  ri_role :: string
  ri_reason :: string
  ri_artifact_type :: string
  ri_artifact_id :: int
  ri_open_questions :: "string list"
  ri_confirmation_options :: "dict list"
  ri_source :: string
  ri_payload :: dict

definition interrupt_json :: "relay_interrupt \<Rightarrow> json" where
  "interrupt_json i = JDict
     [(''kind'', JStr (ri_kind i)), (''role'', JStr (ri_role i)), (''reason'', JStr (ri_reason i)),
      (''artifact_type'', JStr (ri_artifact_type i)), (''artifact_id'', JInt (ri_artifact_id i)),
      (''open_questions'', JList (map JStr (ri_open_questions i))),
      (''confirmation_options'', JList (map JDict (ri_confirmation_options i))),
      (''source'', JStr (ri_source i)), (''payload'', JDict (ri_payload i))]"

record relay_transition =
  rt_update :: dict
  rt_goto :: string
  rt_interrupt :: "relay_interrupt option"
  rt_terminal :: string
  rt_events :: "dict list"

definition relay_transition_json :: "relay_transition \<Rightarrow> dict" where
  "relay_transition_json t =
     [(''update'', JDict (rt_update t)), (''goto'', JStr (rt_goto t)),
      (''interrupt'', case rt_interrupt t of None \<Rightarrow> JNull | Some i \<Rightarrow> interrupt_json i),
      (''terminal'', JStr (rt_terminal t)), (''events'', JList (map JDict (rt_events t)))]"

text \<open>A dictionary display, and \<open>{**base, ...}\<close>.\<close>

definition mk_dict :: "dict \<Rightarrow> dict" where
  "mk_dict kvs = fold (\<lambda>(k, v). dset k v) kvs []"

definition with_items :: "dict \<Rightarrow> dict \<Rightarrow> dict" where
  "with_items base kvs = fold (\<lambda>(k, v). dset k v) kvs base"

definition mk_transition :: "dict \<Rightarrow> string \<Rightarrow> relay_interrupt option \<Rightarrow> string \<Rightarrow> dict list \<Rightarrow> relay_transition" where
  "mk_transition u g i t es = \<lparr>rt_update = u, rt_goto = g, rt_interrupt = i, rt_terminal = t, rt_events = es\<rparr>"

definition status_map :: "(string \<times> string) list \<Rightarrow> json" where
  "status_map kvs = JDict (mk_dict (map (\<lambda>(k, v). (k, JStr v)) kvs))"

fun option_dict :: "confirmation_option \<Rightarrow> dict" where
  "option_dict c = (case option_json c of JDict d \<Rightarrow> d | _ \<Rightarrow> [])"

definition role_status_for_envelope :: "role_envelope \<Rightarrow> string" where
  "role_status_for_envelope e =
     (if re_status e = ''passed'' then ''passed''
      else if re_status e = ''waiting'' \<and> re_handoff_to e \<noteq> [] then ''passed''
      else re_status e)"

definition handoff_source_status :: "role_envelope \<Rightarrow> bool \<Rightarrow> string" where
  "handoff_source_status e prefer =
     (if prefer \<and> re_status e \<in> {''blocked'', ''failed''} then re_status e else ''passed'')"

definition has_human_interrupt :: "role_envelope \<Rightarrow> bool" where
  "has_human_interrupt e \<longleftrightarrow> re_open_questions e \<noteq> [] \<or> re_confirmation_options e \<noteq> []"

definition interrupt_kind :: "role_envelope \<Rightarrow> string" where
  "interrupt_kind e =
     (if re_status e = ''blocked'' \<and> re_open_questions e \<noteq> [] then ''blocked_question''
      else if re_artifact_type e = ''architecture_plan'' then ''plan_approval''
      else if re_confirmation_options e \<noteq> [] then ''confirmation_options''
      else ''user_input'')"

definition interrupt_from_envelope :: "role_envelope \<Rightarrow> string \<Rightarrow> int \<Rightarrow> relay_interrupt" where
  "interrupt_from_envelope e role artifact_id =
     \<lparr>ri_kind = interrupt_kind e, ri_role = role, ri_reason = re_reason e, ri_artifact_type = re_artifact_type e,
      ri_artifact_id = artifact_id, ri_open_questions = re_open_questions e,
      ri_confirmation_options = map option_dict (re_confirmation_options e), ri_source = ''role_envelope'',
      ri_payload = role_envelope_json e\<rparr>"

definition terminal_event :: "string \<Rightarrow> string \<Rightarrow> int \<Rightarrow> role_envelope \<Rightarrow> dict" where
  "terminal_event ty role round e =
     [(''event_type'', JStr ty), (''role'', JStr role), (''round_id'', JInt round), (''summary'', JStr (re_summary e))]"

definition handoff_event :: "string \<Rightarrow> int \<Rightarrow> string \<Rightarrow> role_envelope \<Rightarrow> dict" where
  "handoff_event role round target e =
     [(''event_type'', JStr ''handoff.created''), (''role'', JStr role), (''round_id'', JInt round),
      (''to_role'', JStr target), (''summary'', JStr (re_summary e))]"

definition waiting_event :: "string \<Rightarrow> int \<Rightarrow> relay_interrupt \<Rightarrow> dict" where
  "waiting_event role round i =
     [(''event_type'', JStr ''task.waiting_user''), (''role'', JStr role), (''round_id'', JInt round),
      (''interrupt'', interrupt_json i)]"

definition transition_from_role_envelope ::
  "role_envelope \<Rightarrow> string \<Rightarrow> int \<Rightarrow> string \<Rightarrow> int \<Rightarrow> bool \<Rightarrow> relay_transition" where
  "transition_from_role_envelope e role round next_role artifact_id prefer =
     (let role_id = or_strip role (re_role e);
          target = or_strip (re_handoff_to e) next_role;
          base = [(''round_id'', JInt round), (''artifact_type'', JStr (re_artifact_type e)),
                  (''role_statuses'', status_map [(role_id, role_status_for_envelope e)])];
          interrupt = interrupt_from_envelope e role_id artifact_id in
      if target \<noteq> [] \<and> prefer then
        mk_transition (with_items base [(''task_status'', JStr ''running''),
            (''role_statuses'', status_map [(role_id, handoff_source_status e True), (target, ''queued'')])])
          target None [] [handoff_event role_id round target e]
      else if re_status e = ''waiting'' \<and> target = [] then
        mk_transition (with_items base [(''task_status'', JStr ''waiting_user'')]) ''waiting_user'' (Some interrupt) []
          [waiting_event role_id round interrupt]
      else if re_status e = ''blocked'' \<and> target = [] \<and> has_human_interrupt e then
        mk_transition (with_items base [(''task_status'', JStr ''waiting_user''),
            (''role_statuses'', status_map [(role_id, ''waiting'')])]) ''waiting_user'' (Some interrupt) []
          [waiting_event role_id round interrupt]
      else if re_status e = ''blocked'' then
        mk_transition (with_items base [(''task_status'', JStr ''blocked'')]) ''blocked'' None ''blocked''
          [terminal_event ''task.blocked'' role_id round e]
      else if re_status e = ''failed'' then
        mk_transition (with_items base [(''task_status'', JStr ''failed'')]) ''blocked'' None ''failed''
          [terminal_event ''task.failed'' role_id round e]
      else if re_status e = ''passed'' \<and> role_id = ''director'' \<and> re_artifact_type e = ''final_summary'' \<and> target = [] then
        mk_transition (with_items base [(''task_status'', JStr ''completed'')]) ''completed'' None ''completed''
          [terminal_event ''task.completed'' role_id round e]
      else if target \<noteq> [] then
        mk_transition (with_items base [(''task_status'', JStr ''running''),
            (''role_statuses'', status_map [(role_id, handoff_source_status e False), (target, ''queued'')])])
          target None [] [handoff_event role_id round target e]
      else if re_status e = ''waiting'' then
        mk_transition (with_items base [(''task_status'', JStr ''waiting_user'')]) ''waiting_user'' None []
          [[(''event_type'', JStr ''task.waiting_user''), (''role'', JStr role_id), (''round_id'', JInt round)]]
      else mk_transition base [] None [] [])"

definition transition_from_role_parse_result ::
  "envelope_parse_result \<Rightarrow> string \<Rightarrow> int \<Rightarrow> int \<Rightarrow> bool \<Rightarrow> relay_transition" where
  "transition_from_role_parse_result r role round artifact_id prefer =
     (case (pr_ok r, pr_envelope r) of
        (True, Some e) \<Rightarrow>
          let next_role = (if re_status e \<in> {''blocked'', ''waiting''} \<and> re_handoff_to e = [] then []
                           else case pr_next_role r of None \<Rightarrow> [] | Some n \<Rightarrow> n)
          in transition_from_role_envelope e role round next_role artifact_id prefer
      | _ \<Rightarrow>
          let err = (if pr_error r = [] then ''invalid role envelope'' else pr_error r) in
          mk_transition [(''round_id'', JInt round), (''role_statuses'', status_map [(role, ''blocked'')]),
              (''task_status'', JStr ''blocked''), (''error'', JStr err)] ''blocked'' None ''blocked''
            [[(''event_type'', JStr ''role.error''), (''role'', JStr role), (''round_id'', JInt round),
              (''error'', JStr err)]])"

definition transition_from_guardrail_result ::
  "string \<Rightarrow> string \<Rightarrow> int \<Rightarrow> string \<Rightarrow> string list \<Rightarrow> dict list \<Rightarrow> relay_transition" where
  "transition_from_guardrail_result action role round reason questions options =
     (let action_id = strip action; role_id = strip role;
          base = [(''round_id'', JInt round), (''guardrail_action'', JStr action_id), (''guardrail_reason'', JStr reason)] in
      if action_id = ''retry_role'' then
        mk_transition (with_items base [(''task_status'', JStr ''running''),
            (''role_statuses'', status_map [(role_id, ''queued'')])]) role_id None []
          [[(''event_type'', JStr ''role.retrying''), (''role'', JStr role_id), (''round_id'', JInt round),
            (''retry_kind'', JStr ''guardrail''), (''error'', JStr reason)]]
      else if action_id = ''waiting_user'' then
        let interrupt = \<lparr>ri_kind = ''guardrail_question'', ri_role = role_id, ri_reason = reason,
              ri_artifact_type = ''role_error'', ri_artifact_id = 0,
              ri_open_questions = (if questions \<noteq> [] then questions else if reason \<noteq> [] then [reason] else []),
              ri_confirmation_options = options, ri_source = ''guardrail'',
              ri_payload = [(''guardrail_action'', JStr action_id), (''retry_kind'', JStr ''guardrail''),
                (''round_id'', JInt round)]\<rparr> in
        mk_transition (with_items base [(''task_status'', JStr ''waiting_user''),
            (''role_statuses'', status_map [(role_id, ''waiting'')])]) ''waiting_user'' (Some interrupt) []
          [[(''event_type'', JStr ''task.waiting_user''), (''role'', JStr role_id), (''round_id'', JInt round),
            (''interrupt'', interrupt_json interrupt), (''retry_kind'', JStr ''guardrail'')]]
      else if action_id = ''blocked'' then
        mk_transition (with_items base [(''task_status'', JStr ''blocked''),
            (''role_statuses'', status_map [(role_id, ''blocked'')])]) ''blocked'' None ''blocked''
          [[(''event_type'', JStr ''role.status''), (''role'', JStr role_id), (''round_id'', JInt round),
            (''status'', JStr ''blocked''), (''error'', JStr reason), (''retry_kind'', JStr ''guardrail'')]]
      else mk_transition base [] None [] [])"

definition transition_from_round_control :: "string \<Rightarrow> string \<Rightarrow> int \<Rightarrow> string \<Rightarrow> relay_transition" where
  "transition_from_round_control decision role round next_role =
     (let decision_id = strip decision; role_id = strip role; target = or_strip next_role role_id;
          control = [(''event_type'', JStr ''round.control''), (''decision'', JStr decision_id), (''round_id'', JInt round)] in
      if decision_id = ''cancel_plan'' then
        mk_transition [(''round_id'', JInt round), (''task_status'', JStr ''interrupted'')] ''interrupted'' None
          ''interrupted'' [control]
      else if decision_id \<in> {''continue'', ''revise_plan''} then
        mk_transition [(''round_id'', JInt round), (''task_status'', JStr ''running''),
            (''role_statuses'', status_map (if role_id \<noteq> [] then [(role_id, ''queued'')] else []))] role_id None []
          [control @ [(''role'', JStr role_id)],
           [(''event_type'', JStr ''role.queued''), (''role'', JStr role_id), (''round_id'', JInt round)]]
      else if decision_id = ''approve_plan'' then
        mk_transition [(''round_id'', JInt round), (''task_status'', JStr ''running''),
            (''role_statuses'', status_map ((if role_id \<noteq> [] then [(role_id, ''passed'')] else []) @
               (if target \<noteq> [] then [(target, ''queued'')] else [])))] target None []
          [control @ [(''role'', JStr role_id), (''next_role'', JStr target)]]
      else mk_transition [(''round_id'', JInt round)] [] None [] [control])"

section \<open>The decision on a role's output\<close>

text \<open>
  The first half of \<open>handle_role_output\<close> of \<^verbatim>\<open>wlcodex/relay/service.py\<close>, up to the point where it acts on
  its decision: parse, guard, and only then compute the transition.
\<close>

datatype output_decision =
    FormatError string
  | Guarded role_guardrail_result relay_transition
  | Accepted role_envelope relay_transition

definition decide_parsed :: "string \<Rightarrow> int \<Rightarrow> envelope_parse_result \<Rightarrow> output_decision" where
  "decide_parsed role round r =
     (case (if pr_ok r then pr_envelope r else None) of
        None \<Rightarrow> FormatError (if pr_error r = [] then ''invalid role envelope'' else pr_error r)
      | Some e \<Rightarrow>
          let g = guardrail_role_envelope e role in
          if gr_action g \<noteq> ACCEPTED then
            Guarded g (transition_from_guardrail_result (guardrail_action_value (gr_action g)) role round
              (gr_reason g) (gr_open_questions g) (map option_dict (gr_confirmation_options g)))
          else Accepted e (transition_from_role_parse_result r role round 0 False))"

definition decide_role_output ::
  "(string \<Rightarrow> string + json) \<Rightarrow> string \<Rightarrow> int \<Rightarrow> string \<Rightarrow> relay_exn + output_decision" where
  "decide_role_output loads role round output =
     bindE (parse_role_envelope loads (OutText output)) (\<lambda>r. Inr (decide_parsed role round r))"

section \<open>Shape of transitions\<close>

lemma with_items_simps [simp]:
  "with_items b [] = b" "with_items b ((k, v) # kvs) = with_items (dset k v b) kvs"
  by (simp_all add: with_items_def)

lemma status_map_get: "\<exists>d. status_map kvs = JDict d \<and> map_of d r = map_option JStr (map_of (rev kvs) r)"
proof -
  have "map_of (fold (\<lambda>(k, v). dset k v) (map (\<lambda>(k, v). (k, JStr v)) kvs) acc) =
      map_of acc ++ (\<lambda>r. map_option JStr (map_of (rev kvs) r))" for acc
  proof (induction kvs arbitrary: acc)
    case (Cons kv kvs)
    then show ?case by (cases kv) (auto simp: map_add_def fun_eq_iff split: option.splits)
  qed (simp add: map_add_def)
  from this [of "[]"] show ?thesis by (simp add: status_map_def mk_dict_def)
qed

definition update_status :: "relay_transition \<Rightarrow> json" where
  "update_status t = dget0 (rt_update t) ''task_status''"

definition role_status_in :: "relay_transition \<Rightarrow> string \<Rightarrow> json" where
  "role_status_in t r = (case dget0 (rt_update t) ''role_statuses'' of JDict d \<Rightarrow> dget0 d r | _ \<Rightarrow> JNull)"

definition relay_nodes :: "string list" where
  "relay_nodes = [''blocked'', ''waiting_user'', ''completed'', ''interrupted'']"

text \<open>
  A transition is consistent: a terminal one sets the same task status, asks nobody and queues nobody; one
  that interrupts waits for the user; one that names a role to run next keeps the task running with that
  role queued.
\<close>

definition transition_ok :: "relay_transition \<Rightarrow> bool" where
  "transition_ok t \<longleftrightarrow>
     (if rt_terminal t \<noteq> [] then rt_interrupt t = None \<and> update_status t = JStr (rt_terminal t) \<and>
        rt_goto t \<in> {''blocked'', ''completed'', ''interrupted''}
      else if rt_interrupt t \<noteq> None then rt_goto t = ''waiting_user'' \<and> update_status t = JStr ''waiting_user''
      else rt_goto t \<in> {[], ''waiting_user''} \<or>
           update_status t = JStr ''running'' \<and> role_status_in t (rt_goto t) = JStr ''queued'')"

lemma status_map_dget: "(case status_map kvs of JDict d \<Rightarrow> dget0 d r | _ \<Rightarrow> JNull) =
    (case map_of (rev kvs) r of None \<Rightarrow> JNull | Some v \<Rightarrow> JStr v)"
proof -
  obtain d where d: "status_map kvs = JDict d" "map_of d r = map_option JStr (map_of (rev kvs) r)"
    using status_map_get by blast
  then show ?thesis by (cases "map_of (rev kvs) r") (simp_all add: dget_def)
qed

lemmas transition_simps = mk_transition_def transition_ok_def update_status_def role_status_in_def status_map_dget

lemma role_envelope_transition_ok: "transition_ok (transition_from_role_envelope e role round next_role aid prefer)"
  by (simp add: transition_from_role_envelope_def transition_simps Let_def)

lemma guardrail_transition_ok: "transition_ok (transition_from_guardrail_result action role round reason qs os)"
  by (simp add: transition_from_guardrail_result_def transition_simps Let_def)

lemma round_control_transition_ok: "transition_ok (transition_from_round_control decision role round next_role)"
  by (simp add: transition_from_round_control_def transition_simps Let_def or_strip_def)

lemma parse_result_transition_ok: "transition_ok (transition_from_role_parse_result r role round aid prefer)"
  by (simp add: transition_from_role_parse_result_def role_envelope_transition_ok Let_def split: prod.splits bool.splits option.splits)
     (simp add: transition_simps)

end
