(* ===== verification/Relay_State.thy ===== *)
theory Relay_State
  imports Relay_Graph Task_Models
begin

text \<open>
  The pure projections of a relay task: the graph state of \<^verbatim>\<open>wlcodex/relay/graph.py\<close>
  (\<open>build_marvis_relay_state\<close>) and the user-facing presentation of \<^verbatim>\<open>wlcodex/relay/models.py\<close>
  (\<open>build_relay_presentation\<close>). A timestamp text is kept as what it denotes: nothing, unreadable text, or an
  instant. The fixed Chinese texts are constructors, and whether an error message carries one of the two
  recovery markers is the argument \<open>marked\<close>.
\<close>

section \<open>Records\<close>

datatype iso_text = NoText | Unreadable string | Instant stamp

record relay_task =
  tk_id :: int
  tk_title :: string
  tk_prompt :: string
  tk_workspace :: string
  tk_provider :: string
  tk_status :: string
  tk_phase :: string
  tk_created_at :: iso_text
  tk_updated_at :: iso_text
  tk_role_providers :: "(string \<times> string) list"

record relay_role_job =
  rj_id :: int
  rj_role :: string
  rj_status :: string
  rj_error_message :: string
  rj_display_name :: string

record relay_board =
  bd_current_goal :: string
  bd_phase :: string
  bd_latest_user_input :: string
  bd_open_questions :: "string list"
  bd_next_step :: string

record relay_task_detail =
  de_task :: relay_task
  de_board :: relay_board
  de_role_jobs :: "relay_role_job list"
  de_artifacts :: "dict list"
  de_routing_decision :: "dict option"
  de_current_round_id :: int
  de_round_execution :: json

section \<open>The graph state\<close>

definition terminal_task_statuses_relay :: "string list" where
  "terminal_task_statuses_relay = [''completed'', ''blocked'', ''failed'', ''interrupted'', ''superseded'']"

definition active_role_statuses :: "string list" where
  "active_role_statuses = [''streaming'', ''queued'', ''waiting'', ''blocked'', ''failed'']"

record marvis_relay_state =
  ms_task_id :: int
  ms_round_id :: int
  ms_current_node :: string
  ms_route :: string
  ms_required_roles :: "string list"
  ms_role_statuses :: "(string \<times> string) list"
  ms_active_role :: string
  ms_latest_user_input :: string
  ms_handoffs :: "dict list"
  ms_artifacts :: "dict list"
  ms_pending_interrupt :: "relay_interrupt option"
  ms_terminal_status :: string

definition int_or :: "json \<Rightarrow> int \<Rightarrow> relay_exn + int" where
  "int_or v i =
     (let w = py_or v (JInt i) in case py_int w of None \<Rightarrow> Inl (BadInt w) | Some n \<Rightarrow> Inr n)"

definition str_or :: "json \<Rightarrow> string" where
  "str_or v = py_str (py_or v (JStr []))"

definition state_artifact_keys :: "string list" where
  "state_artifact_keys = [''id'', ''artifact_type'', ''relay_role'', ''role'', ''status'', ''summary'', ''handoff_to'',
     ''from_role'', ''to_role'', ''round_id'', ''open_questions'', ''confirmation_options'', ''created_at'']"

definition state_artifact :: "dict \<Rightarrow> dict" where
  "state_artifact a = map (\<lambda>k. (k, dget0 a k)) (filter (has_key a) state_artifact_keys)"

definition state_handoff :: "dict \<Rightarrow> relay_exn + dict" where
  "state_handoff a =
     bindE (int_or (dget0 a ''id'') 0) (\<lambda>i.
     bindE (int_or (dget0 a ''round_id'') 1) (\<lambda>r.
       Inr [(''artifact_id'', JInt i),
            (''from_role'', JStr (str_or (py_or (dget0 a ''from_role'') (dget0 a ''relay_role'')))),
            (''to_role'', JStr (str_or (py_or (dget0 a ''to_role'') (dget0 a ''handoff_to'')))),
            (''summary'', JStr (str_or (dget0 a ''summary''))), (''round_id'', JInt r)]))"

fun clean_string_list :: "json \<Rightarrow> string list" where
  "clean_string_list (JList vs) = filter (\<lambda>s. s \<noteq> []) (map (\<lambda>v. strip (py_str v)) vs)"
| "clean_string_list _ = []"

definition as_dict :: "json \<Rightarrow> dict" where
  "as_dict v = (case v of JDict d \<Rightarrow> d | _ \<Rightarrow> [])"

definition confirmation_of :: "relay_task_detail \<Rightarrow> dict" where
  "confirmation_of de = as_dict (dget0 (as_dict (de_round_execution de)) ''confirmation'')"

definition job_statuses :: "relay_role_job list \<Rightarrow> (string \<times> string) list" where
  "job_statuses js = fold (\<lambda>j. dset (rj_role j) (rj_status j)) js []"

fun first_job_with :: "string list \<Rightarrow> relay_role_job list \<Rightarrow> (relay_role_job \<Rightarrow> string) \<Rightarrow> relay_role_job option" where
  "first_job_with [] js st = None"
| "first_job_with (s # ss) js st =
     (case find (\<lambda>j. st j = s) js of Some j \<Rightarrow> Some j | None \<Rightarrow> first_job_with ss js st)"

definition active_role :: "relay_task_detail \<Rightarrow> (string \<times> string) list \<Rightarrow> string" where
  "active_role de statuses =
     (let role = strip (str_or (dget0 (confirmation_of de) ''role'')) in
      if tk_status (de_task de) = ''waiting_user'' \<and> role \<noteq> [] then role
      else case first_job_with active_role_statuses (de_role_jobs de)
                  (\<lambda>j. case map_of statuses (rj_role j) of None \<Rightarrow> [] | Some s \<Rightarrow> s) of
             None \<Rightarrow> [] | Some j \<Rightarrow> rj_role j)"

definition current_node :: "string \<Rightarrow> dict \<Rightarrow> string \<Rightarrow> relay_interrupt option \<Rightarrow> string" where
  "current_node status routing active pending =
     (if pending \<noteq> None then ''waiting_user''
      else if status = ''completed'' then ''completed''
      else if status \<in> {''blocked'', ''failed''} then ''blocked''
      else if status = ''interrupted'' then ''interrupted''
      else if status = ''superseded'' then ''interrupted''
      else if active \<noteq> [] then active
      else if routing = [] then ''director_routing''
      else ''director_final'')"

text \<open>The loop over the artifacts from the newest: the first one that counts decides.\<close>

fun waiting_artifact :: "string \<Rightarrow> dict list \<Rightarrow> dict" where
  "waiting_artifact role [] = []"
| "waiting_artifact role (a # as) =
     (let ty = str_or (dget0 a ''artifact_type'') in
      if role \<noteq> [] \<and> str_or (py_or (dget0 a ''relay_role'') (dget0 a ''role'')) \<noteq> role then waiting_artifact role as
      else if ty \<in> {''relay_board'', ''handoff_packet'', ''routing_decision''} then waiting_artifact role as
      else if ty = ''user_followup'' then []
      else if str_or (dget0 a ''status'') = ''waiting'' then a
      else [])"

definition latest_waiting_artifact :: "dict list \<Rightarrow> string \<Rightarrow> dict" where
  "latest_waiting_artifact as role = waiting_artifact role (rev as)"

definition pending_interrupt :: "relay_task_detail \<Rightarrow> dict list \<Rightarrow> string \<Rightarrow> relay_exn + relay_interrupt option" where
  "pending_interrupt de artifacts active =
     (if tk_status (de_task de) \<in> set terminal_task_statuses_relay then Inr None
      else
        let execution = as_dict (de_round_execution de);
            reason0 = strip (py_str (py_or (dget0 execution ''waiting_reason'') (JStr ''none'')));
            waiting_reason = (if reason0 = [] then ''none'' else reason0);
            conf = confirmation_of de;
            role = strip (str_or (py_or (dget0 conf ''role'') (JStr active)));
            has_conf = list_ex (\<lambda>k. strip (str_or (dget0 conf k)) \<noteq> []) [''source'', ''kind'', ''role'', ''provider_request_id''];
            artifact = latest_waiting_artifact artifacts role;
            ty = str_or (dget0 artifact ''artifact_type'');
            kind0 = strip (str_or (dget0 conf ''kind''));
            kind1 = (if kind0 = [] then (if ty = ''architecture_plan'' then ''plan_approval'' else waiting_reason) else kind0);
            kind2 = (if kind1 \<in> {[], ''none'', ''relay_question''} then
                       (if waiting_reason \<notin> {[], ''none'', ''relay_question''} then waiting_reason
                        else if ty = ''architecture_plan'' then ''plan_approval'' else ''user_input'')
                     else kind1) in
        if waiting_reason = ''none'' \<and> \<not> has_conf then Inr None
        else if artifact = [] \<and> waiting_reason = ''none'' then Inr None
        else
          bindE (int_or (dget0 artifact ''id'') 0) (\<lambda>i.
          bindE (py_iter (dget artifact ''confirmation_options'' (JList []))) (\<lambda>options.
            Inr (Some \<lparr>ri_kind = kind2, ri_role = role, ri_reason = waiting_reason, ri_artifact_type = ty,
              ri_artifact_id = i, ri_open_questions = clean_string_list (dget0 artifact ''open_questions''),
              ri_confirmation_options = List.map_filter (\<lambda>v. case v of JDict d \<Rightarrow> Some d | _ \<Rightarrow> None) options,
              ri_source = str_or (dget0 conf ''source''), ri_payload = conf\<rparr>))))"

fun keep_round :: "int \<Rightarrow> dict list \<Rightarrow> relay_exn + dict list" where
  "keep_round r [] = Inr []"
| "keep_round r (a # as) =
     bindE (int_or (dget0 a ''round_id'') r) (\<lambda>i.
     bindE (keep_round r as) (\<lambda>bs. Inr (if i = r then state_artifact a # bs else bs)))"

definition build_marvis_relay_state :: "relay_task_detail \<Rightarrow> int option \<Rightarrow> relay_exn + marvis_relay_state" where
  "build_marvis_relay_state de round =
     (let detail_round = (if de_current_round_id de = 0 then 1 else de_current_round_id de);
          current = (case round of None \<Rightarrow> detail_round | Some r \<Rightarrow> if r = 0 then detail_round else r);
          routing = (case de_routing_decision de of None \<Rightarrow> [] | Some d \<Rightarrow> d);
          statuses = job_statuses (de_role_jobs de);
          active = active_role de statuses in
      bindE (keep_round current (de_artifacts de)) (\<lambda>artifacts.
      bindE (mapE state_handoff (filter (\<lambda>a. dget0 a ''artifact_type'' = JStr ''handoff_packet'') artifacts)) (\<lambda>handoffs.
      bindE (pending_interrupt de artifacts active) (\<lambda>pending.
        Inr \<lparr>ms_task_id = tk_id (de_task de), ms_round_id = current,
             ms_current_node = current_node (tk_status (de_task de)) routing active pending,
             ms_route = str_or (dget0 routing ''route''),
             ms_required_roles = clean_string_list (dget0 routing ''required_roles''),
             ms_role_statuses = statuses, ms_active_role = active,
             ms_latest_user_input = (if bd_latest_user_input (de_board de) \<noteq> [] then bd_latest_user_input (de_board de)
                                     else tk_prompt (de_task de)),
             ms_handoffs = handoffs, ms_artifacts = artifacts, ms_pending_interrupt = pending,
             ms_terminal_status = (if tk_status (de_task de) \<in> set terminal_task_statuses_relay
                                   then tk_status (de_task de) else [])\<rparr>))))"

section \<open>The presentation\<close>

datatype pres_text =
    Plain string
  | UnknownStatus string
  | NoUpdateTime
  | UnreadableUpdateTime
  | NoUpdateFor30Minutes
  | ApprovalUnacknowledged
  | OperationUnacknowledged
  | TaskStopped
  | WaitingForUser
  | JoinedQuestions "string list"
  | WaitForApprovalReceipt
  | CheckProviderEvidence
  | ReviewAndConfirm
  | AddInformation
  | RecoverOrAdd
  | DoneSendMore
  | InterruptedResume
  | RefreshStatus
  | WaitForActor string
  | WaitForSystem

record freshness =
  fr_source :: string
  fr_updated_at :: iso_text
  fr_is_stale :: bool
  fr_reason :: pres_text
  fr_recovery_required :: bool
  fr_recovery_state :: string

record current_actor =
  ca_role :: string
  ca_label :: string
  ca_status :: string

record relay_presentation =
  pp_state :: string
  pp_freshness :: freshness
  pp_current_actor :: current_actor
  pp_blocking_reason :: pres_text
  pp_next_action :: pres_text
  pp_allowed_actions :: "string list"

definition presentation_stale_reason :: "stamp \<Rightarrow> iso_text \<Rightarrow> pres_text" where
  "presentation_stale_reason now t =
     (case t of
        NoText \<Rightarrow> NoUpdateTime
      | Unreadable _ \<Rightarrow> UnreadableUpdateTime
      | Instant at \<Rightarrow> if now - at > 30 * 60 * 1000000 then NoUpdateFor30Minutes else Plain [])"

definition presentation_current_actor :: "relay_role_job list \<Rightarrow> string \<Rightarrow> current_actor" where
  "presentation_current_actor jobs state =
     (let preferred =
        (if state = ''blocked'' then [''blocked'', ''failed'', ''waiting'', ''streaming'', ''queued'']
         else if state = ''failed'' then [''failed'', ''blocked'', ''waiting'', ''streaming'', ''queued'']
         else if state \<in> {''waiting_user'', ''waiting_approval''} then [''waiting'', ''streaming'', ''queued'']
         else [''streaming'', ''queued'', ''waiting'', ''blocked'', ''failed'']) in
      case first_job_with preferred jobs rj_status of
        None \<Rightarrow> \<lparr>ca_role = [], ca_label = [], ca_status = []\<rparr>
      | Some j \<Rightarrow> \<lparr>ca_role = rj_role j, ca_label = rj_display_name j, ca_status = rj_status j\<rparr>)"

definition first_error :: "relay_role_job list \<Rightarrow> string option" where
  "first_error jobs = map_option rj_error_message (find (\<lambda>j. rj_error_message j \<noteq> []) jobs)"

definition recovery_sources :: "string list" where
  "recovery_sources = [''provider_native_resolving'', ''provider_native_superseding'']"

definition presentation_blocking_reason ::
  "relay_role_job list \<Rightarrow> string \<Rightarrow> string \<Rightarrow> relay_board \<Rightarrow> bool \<Rightarrow> string \<Rightarrow> pres_text" where
  "presentation_blocking_reason jobs state waiting_reason board recovery source =
     (if recovery then
        (case first_error jobs of
           Some e \<Rightarrow> Plain e
         | None \<Rightarrow> if source \<in> set recovery_sources then ApprovalUnacknowledged else OperationUnacknowledged)
      else if state \<in> {''blocked'', ''failed''} then
        (case first_error jobs of Some e \<Rightarrow> Plain e | None \<Rightarrow> TaskStopped)
      else if state \<in> {''waiting_user'', ''waiting_approval''} then
        (if bd_open_questions board \<noteq> [] then JoinedQuestions (filter (\<lambda>q. strip q \<noteq> []) (bd_open_questions board))
         else if waiting_reason \<noteq> [] then Plain waiting_reason
         else WaitingForUser)
      else Plain [])"

definition presentation_next_action ::
  "string \<Rightarrow> relay_board \<Rightarrow> dict option \<Rightarrow> current_actor \<Rightarrow> pres_text \<Rightarrow> bool \<Rightarrow> string \<Rightarrow> pres_text" where
  "presentation_next_action state board handoff actor blocking recovery source =
     (if recovery then
        (if source \<in> set recovery_sources then WaitForApprovalReceipt else CheckProviderEvidence)
      else if state = ''waiting_approval'' then ReviewAndConfirm
      else if state = ''waiting_user'' then AddInformation
      else if state \<in> {''blocked'', ''failed''} then RecoverOrAdd
      else if state = ''completed'' then DoneSendMore
      else if state = ''interrupted'' then InterruptedResume
      else if state = ''stale'' then RefreshStatus
      else if bd_next_step board \<noteq> [] then Plain (bd_next_step board)
      else case handoff of
        Some h \<Rightarrow> if py_truth (dget0 h ''next_action'') then Plain (py_str (dget0 h ''next_action''))
                 else if ca_label actor \<noteq> [] then WaitForActor (ca_label actor)
                 else if blocking \<noteq> Plain [] then blocking else WaitForSystem
      | None \<Rightarrow> if ca_label actor \<noteq> [] then WaitForActor (ca_label actor)
                 else if blocking \<noteq> Plain [] then blocking else WaitForSystem)"

definition presentation_allowed_actions :: "string \<Rightarrow> bool \<Rightarrow> string list" where
  "presentation_allowed_actions state recovery =
     (if recovery then [''refresh'']
      else if state = ''running'' then [''add_input'', ''interrupt'']
      else if state \<in> {''waiting_user'', ''waiting_approval''} then [''add_input'', ''resolve'']
      else if state \<in> {''blocked'', ''failed''} then [''resume'', ''add_input'', ''archive'']
      else if state \<in> {''completed'', ''interrupted''} then [''add_input'', ''archive'']
      else [''refresh''])"

definition raw_presentation_state :: "string \<Rightarrow> bool \<Rightarrow> string" where
  "raw_presentation_state raw approval_wait =
     (if raw \<in> {''queued'', ''running''} then ''running''
      else if raw = ''waiting_user'' then (if approval_wait then ''waiting_approval'' else ''waiting_user'')
      else if raw \<in> {''blocked'', ''failed'', ''completed'', ''interrupted''} then raw
      else ''stale'')"

definition presentation_recovery :: "(string \<Rightarrow> bool) \<Rightarrow> string \<Rightarrow> relay_role_job list \<Rightarrow> bool" where
  "presentation_recovery marked source jobs \<longleftrightarrow>
     source \<in> set recovery_sources \<or> list_ex (\<lambda>j. marked (rj_error_message j)) jobs"

definition build_relay_presentation ::
  "(string \<Rightarrow> bool) \<Rightarrow> stamp \<Rightarrow> relay_task \<Rightarrow> relay_role_job list \<Rightarrow> relay_board \<Rightarrow> json \<Rightarrow> dict option \<Rightarrow> string
   \<Rightarrow> relay_presentation" where
  "build_relay_presentation marked now task jobs board execution handoff source =
     (let ex = as_dict execution;
          raw = strip (tk_status task);
          conf = as_dict (dget0 ex ''confirmation'');
          waiting_reason = clean_str (dget0 ex ''waiting_reason'');
          kind = clean_str (dget0 conf ''kind'');
          conf_source = clean_str (dget0 conf ''source'');
          recovery = presentation_recovery marked conf_source jobs;
          approval_wait = (waiting_reason \<in> {''plan_approval'', ''provider_approval''} \<or> endswith kind ''_approval'');
          state1 = (if recovery then ''blocked'' else raw_presentation_state raw approval_wait);
          reason1 = (if state1 = ''running'' then presentation_stale_reason now (tk_updated_at task) else Plain []);
          state = (if reason1 \<noteq> Plain [] \<and> state1 = ''running'' then ''stale'' else state1);
          reason = (if state = ''stale'' \<and> reason1 = Plain [] then UnknownStatus raw else reason1);
          actor = presentation_current_actor jobs state;
          blocking = presentation_blocking_reason jobs state waiting_reason board recovery conf_source in
      \<lparr>pp_state = state,
       pp_freshness = \<lparr>fr_source = source, fr_updated_at = tk_updated_at task,
         fr_is_stale = (state = ''stale'' \<or> reason \<noteq> Plain []), fr_reason = reason,
         fr_recovery_required = recovery, fr_recovery_state = (if recovery then ''needs_recovery'' else [])\<rparr>,
       pp_current_actor = actor, pp_blocking_reason = blocking,
       pp_next_action = presentation_next_action state board handoff actor blocking recovery conf_source,
       pp_allowed_actions = presentation_allowed_actions state recovery\<rparr>)"

end
