(* ===== verification/Goal_Acceptance.thy ===== *)
theory Goal_Acceptance
  imports Relay_Models Redaction
begin

text \<open>
  The goal-acceptance executor of \<^verbatim>\<open>wlcodex/relay/goal_acceptance.py\<close>: from the normalised declaration to an
  argument vector confined to the workspace, and the bounded capture of what the test prints. The file
  system (path resolution, which follows links) and the outcome of the started process are parameters.
\<close>

section \<open>Building the argument vector\<close>

record fs =
  fs_resolve :: "string \<Rightarrow> string"
  fs_is_dir :: "string \<Rightarrow> bool"
  fs_is_file :: "string \<Rightarrow> bool"
  fs_python :: string

definition shell_control_chars :: string where
  "shell_control_chars = '';|&><`$''"

definition pytest_flags :: "string list" where
  "pytest_flags = [''-q'', ''-v'', ''-vv'', ''-x'', ''-s'', ''--disable-warnings'', ''--no-header'', ''--no-summary'']"

definition assert_shell_free :: "string \<Rightarrow> string + unit" where
  "assert_shell_free v =
     (if v = [] \<or> (\<exists>c \<in> set v. code_point c \<in> {0, 10, 13}) then Inl ''test declaration contains a control character''
      else if \<exists>c \<in> set v. c \<in> set shell_control_chars
        then Inl ''test declaration contains shell or redirection syntax''
      else Inr ())"

text \<open>\<open>s.split("::", 1)[0]\<close>.\<close>

fun before_colons :: "string \<Rightarrow> string" where
  "before_colons (c # d # cs) = (if c = CHR '':'' \<and> d = CHR '':'' then [] else c # before_colons (d # cs))"
| "before_colons cs = cs"

text \<open>\<open>candidate.relative_to(cwd)\<close> succeeds on absolute paths.\<close>

definition path_below :: "string \<Rightarrow> string \<Rightarrow> bool" where
  "path_below cwd p \<longleftrightarrow> take (length (path_parts cwd)) (path_parts p) = path_parts cwd"

definition assert_workspace_target :: "fs \<Rightarrow> string \<Rightarrow> string \<Rightarrow> string + unit" where
  "assert_workspace_target f cwd raw =
     (let target = strip raw; p = before_colons target in
      bindE (assert_shell_free target) (\<lambda>_.
        if p = [] then Inl ''test target is missing''
        else if startswith p ''/'' \<or> ''..'' \<in> set (split_on (CHR ''/'') p)
          then Inl ''test target must remain inside the task workspace''
        else if \<not> path_below cwd (fs_resolve f (path_join cwd p)) then Inl ''test target escapes the task workspace''
        else Inr ()))"

definition py_isdigit :: "string \<Rightarrow> bool" where
  "py_isdigit s \<longleftrightarrow> s \<noteq> [] \<and> list_all (\<lambda>c. is_digit c \<or> code_point c \<in> {178, 179, 185}) s"

definition check_maxfail :: "string \<Rightarrow> string + unit" where
  "check_maxfail v =
     (if \<not> py_isdigit v then Inl ''pytest --maxfail must be a positive integer''
      else case py_int_of_string v of
        None \<Rightarrow> Inl (''invalid literal for int() with base 10: '' @ repr_str v)
      | Some i \<Rightarrow> if i < 1 then Inl ''pytest --maxfail must be a positive integer'' else Inr ())"

fun validate_pytest_args :: "fs \<Rightarrow> string \<Rightarrow> string list \<Rightarrow> string + unit" where
  "validate_pytest_args f cwd [] = Inr ()"
| "validate_pytest_args f cwd (a # as) =
     (if a \<in> set pytest_flags then validate_pytest_args f cwd as
      else if a = ''-k'' then
        (case as of
           [] \<Rightarrow> Inl (''pytest option '' @ a @ '' requires a value'')
         | v # rest \<Rightarrow> bindE (assert_shell_free v) (\<lambda>_. validate_pytest_args f cwd rest))
      else if startswith a ''--maxfail='' then
        bindE (check_maxfail (drop 10 a)) (\<lambda>_. validate_pytest_args f cwd as)
      else if startswith a ''-'' then Inl (''pytest option is not approved: '' @ a)
      else bindE (assert_workspace_target f cwd a) (\<lambda>_. validate_pytest_args f cwd as))"

definition check_pattern :: "string \<Rightarrow> string + unit" where
  "check_pattern p =
     bindE (assert_shell_free p) (\<lambda>_.
       if CHR ''/'' \<in> set p \<or> char_of (92::nat) \<in> set p \<or> contains p ''..''
       then Inl ''unittest discovery pattern may not escape the workspace'' else Inr ())"

fun validate_discover_args :: "fs \<Rightarrow> string \<Rightarrow> string list \<Rightarrow> string + unit" where
  "validate_discover_args f cwd [] = Inr ()"
| "validate_discover_args f cwd (a # as) =
     (if a \<in> {''-v'', ''-q''} then validate_discover_args f cwd as
      else if a \<in> {''-s'', ''-t''} then
        (case as of
           [] \<Rightarrow> Inl (''unittest option '' @ a @ '' requires a workspace path'')
         | v # rest \<Rightarrow> bindE (assert_workspace_target f cwd v) (\<lambda>_. validate_discover_args f cwd rest))
      else if a = ''-p'' then
        (case as of
           [] \<Rightarrow> Inl ''unittest option -p requires a pattern''
         | v # rest \<Rightarrow> bindE (check_pattern v) (\<lambda>_. validate_discover_args f cwd rest))
      else Inl (''unittest argument is not approved: '' @ a))"

definition validate_unittest_args :: "fs \<Rightarrow> string \<Rightarrow> string list \<Rightarrow> string + unit" where
  "validate_unittest_args f cwd args =
     (case args of
        [] \<Rightarrow> Inr ()
      | a # as \<Rightarrow> if a \<noteq> ''discover'' then Inl ''unittest goal tests only allow discovery mode''
                  else validate_discover_args f cwd as)"

fun string_args :: "json list \<Rightarrow> string list option" where
  "string_args [] = Some []"
| "string_args (JStr s # vs) = map_option ((#) (strip s)) (string_args vs)"
| "string_args (_ # vs) = None"

fun assert_all_shell_free :: "string list \<Rightarrow> string + unit" where
  "assert_all_shell_free [] = Inr ()"
| "assert_all_shell_free (a # as) = bindE (assert_shell_free a) (\<lambda>_. assert_all_shell_free as)"

definition build_test_argv :: "fs \<Rightarrow> string \<Rightarrow> dict \<Rightarrow> string list \<Rightarrow> string + string \<times> string list" where
  "build_test_argv f cwd t args =
     (let kind = clean_str (dget0 t ''kind'') in
      if kind = ''pytest'' then
        bindE (validate_pytest_args f cwd args) (\<lambda>_. Inr (cwd, [fs_python f, ''-m'', ''pytest''] @ args))
      else if kind = ''unittest'' then
        bindE (validate_unittest_args f cwd args) (\<lambda>_. Inr (cwd, [fs_python f, ''-m'', ''unittest''] @ args))
      else if kind \<in> {''npm_test'', ''pnpm_test''} then
        (let script = clean_str (dget0 t ''script'') in
         if args \<noteq> [] then Inl ''package-manager goal tests do not accept free-form args''
         else if script \<notin> {''test'', ''test:e2e''} then Inl ''package-manager goal tests require an approved script''
         else if \<not> fs_is_file f (path_join cwd ''package.json'')
           then Inl ''package-manager test requires package.json in the task workspace''
         else Inr (cwd, [if kind = ''npm_test'' then ''npm'' else ''pnpm'', ''run'', script]))
      else Inl ''goal acceptance test kind is not approved'')"

definition build_argv :: "fs \<Rightarrow> string \<Rightarrow> json \<Rightarrow> string + string \<times> string list" where
  "build_argv f workspace declaration =
     (let raw = strip workspace; cwd = fs_resolve f raw in
      if raw = [] then Inl ''goal acceptance workspace is missing''
      else if \<not> fs_is_dir f cwd then Inl ''goal acceptance workspace is not an existing directory''
      else case (case declaration of JDict d \<Rightarrow> dget0 d ''test'' | _ \<Rightarrow> JNull) of
        JDict t \<Rightarrow>
          (case (case dget0 t ''args'' of JList vs \<Rightarrow> string_args vs | _ \<Rightarrow> None) of
             None \<Rightarrow> Inl ''goal acceptance test args are invalid''
           | Some args \<Rightarrow> bindE (assert_all_shell_free args) (\<lambda>_. build_test_argv f cwd t args))
      | _ \<Rightarrow> Inl ''goal acceptance test declaration is missing'')"

section \<open>Bounded capture\<close>

datatype read = Data string | ReadError

fun drain_bounded :: "nat \<Rightarrow> read list \<Rightarrow> string \<times> bool \<Rightarrow> string \<times> bool" where
  "drain_bounded limit [] st = st"
| "drain_bounded limit (ReadError # rs) (buf, tr) = (buf, True)"
| "drain_bounded limit (Data chunk # rs) (buf, tr) =
     (if chunk = [] then (buf, tr)
      else let remaining = limit - length buf in
           drain_bounded limit rs (buf @ take remaining chunk, tr \<or> length chunk > remaining))"

definition clip_output :: "(string \<Rightarrow> string) \<Rightarrow> (string \<Rightarrow> string) \<Rightarrow> nat \<Rightarrow> string \<times> bool \<Rightarrow> string" where
  "clip_output decode rt limit captured =
     (case captured of (bytes, truncated) \<Rightarrow>
        let text = rt (decode bytes) in
        if length text \<le> limit \<and> \<not> truncated then text
        else take limit text @ [char_of (10::nat)] @ ''[output truncated]'')"

datatype spawned =
    ExecutableMissing string
  | SpawnFailed string
  | NoPipes
  | Exited "int option" bool "read list" "read list"

record test_result =
  tr_executed :: bool
  tr_status :: string
  tr_argv :: "string list"
  tr_timed_out :: bool
  tr_exit_code :: "int option"
  tr_stdout :: string
  tr_stderr :: string
  tr_reason :: string

record executor =
  ex_timeout_text :: string
  ex_max_output_chars :: nat
  ex_decode :: "string \<Rightarrow> string"
  ex_redact :: "string \<Rightarrow> string"
  ex_spawn :: "string \<Rightarrow> string list \<Rightarrow> spawned"

definition not_run_result :: "string \<Rightarrow> string list \<Rightarrow> test_result" where
  "not_run_result reason argv =
     \<lparr>tr_executed = False, tr_status = ''not_run'', tr_argv = argv, tr_timed_out = False, tr_exit_code = None,
      tr_stdout = [], tr_stderr = [], tr_reason = (if reason = [] then ''approved test was not run'' else reason)\<rparr>"

definition run_test :: "executor \<Rightarrow> string \<Rightarrow> string list \<Rightarrow> test_result" where
  "run_test x cwd argv =
     (let capture = (\<lambda>rs. clip_output (ex_decode x) (ex_redact x) (ex_max_output_chars x)
                       (drain_bounded (4 * ex_max_output_chars x) rs ([], False))) in
      case ex_spawn x cwd argv of
        ExecutableMissing name \<Rightarrow> not_run_result (''approved test executable is unavailable: '' @
          (if name = [] then (case argv of [] \<Rightarrow> [] | a # _ \<Rightarrow> a) else name)) argv
      | SpawnFailed msg \<Rightarrow> not_run_result (''approved test could not start: '' @ msg) argv
      | NoPipes \<Rightarrow> not_run_result ''approved test did not expose capture pipes'' argv
      | Exited code timed_out out err \<Rightarrow>
          \<lparr>tr_executed = True,
           tr_status = (if \<not> timed_out \<and> code = Some 0 then ''passed'' else ''failed''),
           tr_argv = argv, tr_timed_out = timed_out, tr_exit_code = code,
           tr_stdout = capture out, tr_stderr = capture err,
           tr_reason = (if timed_out then ''approved test timed out after '' @ ex_timeout_text x @ ''s''
                        else if code = Some 0 then []
                        else ''approved test exited with '' @
                          (case code of None \<Rightarrow> ''None'' | Some c \<Rightarrow> int_str c))\<rparr>)"

definition execute_goal_test :: "fs \<Rightarrow> executor \<Rightarrow> string \<Rightarrow> json \<Rightarrow> test_result" where
  "execute_goal_test f x workspace declaration =
     (case build_argv f workspace declaration of
        Inl err \<Rightarrow> not_run_result err []
      | Inr (cwd, argv) \<Rightarrow> run_test x cwd argv)"

section \<open>Facts\<close>

definition shell_free :: "string \<Rightarrow> bool" where
  "shell_free s \<longleftrightarrow> s \<noteq> [] \<and> list_all (\<lambda>c. c \<notin> set shell_control_chars \<and> code_point c \<notin> {0, 10, 13}) s"

lemma assert_shell_free_iff: "assert_shell_free s = Inr () \<longleftrightarrow> shell_free s"
  by (auto simp: assert_shell_free_def shell_free_def list_all_iff)

lemma assert_all_shell_free_iff: "assert_all_shell_free as = Inr () \<longleftrightarrow> list_all shell_free as"
  by (induction as) (auto simp: bindE_Inr assert_shell_free_iff)

definition target_inside :: "fs \<Rightarrow> string \<Rightarrow> string \<Rightarrow> bool" where
  "target_inside f cwd a \<longleftrightarrow> path_below cwd (fs_resolve f (path_join cwd (before_colons (strip a)))) \<and>
     \<not> startswith (before_colons (strip a)) ''/''"

lemma assert_workspace_target_inside: "assert_workspace_target f cwd a = Inr () \<Longrightarrow> target_inside f cwd a"
  by (auto simp: assert_workspace_target_def target_inside_def bindE_Inr Let_def split: if_splits)

lemma drain_spec:
  assumes "list_all (\<lambda>c. c \<noteq> []) chunks" "length buf \<le> limit"
  shows "drain_bounded limit (map Data chunks) (buf, tr) =
    (take limit (buf @ concat chunks), tr \<or> length (buf @ concat chunks) > limit)"
  using assms
proof (induction chunks arbitrary: buf tr)
  case (Cons c cs)
  let ?b = "buf @ take (limit - length buf) c"
  have "length ?b \<le> limit" using Cons.prems(2) by simp
  then have "drain_bounded limit (map Data cs) (?b, tr \<or> length c > limit - length buf) =
      (take limit (?b @ concat cs), (tr \<or> length c > limit - length buf) \<or> length (?b @ concat cs) > limit)"
    using Cons.prems by (intro Cons.IH) simp_all
  then show ?case using Cons.prems by (cases "length c \<le> limit - length buf") (auto simp: Let_def)
qed simp

lemma drain_limit: "length buf \<le> limit \<Longrightarrow> length (fst (drain_bounded limit rs (buf, tr))) \<le> limit"
proof (induction limit rs "(buf, tr)" arbitrary: buf tr rule: drain_bounded.induct)
  case (3 limit chunk rs buf tr)
  then show ?case by (simp add: Let_def)
qed simp_all

end
