(* ===== verification/Relay_Queue.thy ===== *)
theory Relay_Queue
  imports Py_Data Task_Models
begin

text \<open>
  The workspace queue of \<^verbatim>\<open>wlcodex/relay/store.py\<close>: follow-up inputs of relay tasks, the per-input leases,
  the workspace fence and the short task-creation leases. Each operation runs in a transaction of its own,
  so it is one step and a raise leaves the tables as they were. ISO times are kept as instants, whose text
  order in SQL is their order; \<open>None\<close> is a time that cannot be read, which counts as expired (the empty text
  and other malformed times sort arbitrarily in SQL and are treated as expired there too).
\<close>

section \<open>Tables\<close>

record pending_input =
  pi_id :: nat
  pi_task_id :: nat
  pi_queued_after_round_id :: int
  pi_status :: string
  pi_text :: string
  pi_attachments :: dict
  pi_created_at :: stamp
  pi_updated_at :: stamp
  pi_consumed_round_id :: "int option"
  pi_steered_round_id :: "int option"
  pi_steered_role :: string
  pi_steered_attempt_no :: "int option"

record queue_lease =
  ql_pending_input_id :: nat
  ql_team_run_id :: nat
  ql_workspace :: string
  ql_owner :: string
  ql_expires_at :: "stamp option"
  ql_attempt_count :: int
  ql_last_error :: string
  ql_created_at :: stamp
  ql_updated_at :: stamp

record queue_lock =
  qk_workspace :: string
  qk_pending_input_id :: nat
  qk_team_run_id :: nat
  qk_owner :: string
  qk_expires_at :: "stamp option"
  qk_created_at :: stamp
  qk_updated_at :: stamp

record creation_lease =
  cl_workspace :: string
  cl_owner :: string
  cl_expires_at :: stamp

record relay_queue =
  rq_now :: stamp
  rq_tasks :: "(nat \<times> string) list"
  rq_inputs :: "pending_input list"
  rq_next_input :: nat
  rq_leases :: "queue_lease list"
  rq_locks :: "queue_lock list"
  rq_creation :: "creation_lease list"

record pending_input_claim =
  pc_input :: pending_input
  pc_workspace :: string
  pc_owner :: string
  pc_expires_at :: "stamp option"
  pc_attempt_count :: int

datatype queue_exn =
    ValueRequired
  | WorkspaceLockLost
  | ClaimNotOwned
  | NotConsumable
  | LockConflict
  | UnknownPendingInput nat

text \<open>\<open>_relay_lease_is_active\<close>.\<close>

definition lease_is_active :: "stamp option \<Rightarrow> stamp \<Rightarrow> bool" where
  "lease_is_active t now = (case t of None \<Rightarrow> False | Some e \<Rightarrow> now < e)"

text \<open>\<open>_workspace_for_task_locked\<close>: the relay tasks with their (possibly blank) workspace.\<close>

definition workspace_for_task :: "relay_queue \<Rightarrow> nat \<Rightarrow> string" where
  "workspace_for_task st i =
     (case map_of (rq_tasks st) i of
        None \<Rightarrow> []
      | Some w \<Rightarrow> if strip w = [] then ''relay-task:'' @ nat_str i else strip w)"

section \<open>Inputs\<close>

definition queue_pending_input :: "nat \<Rightarrow> string \<Rightarrow> dict \<Rightarrow> int \<Rightarrow> relay_queue \<Rightarrow> pending_input \<times> relay_queue" where
  "queue_pending_input task txt attachments round st =
     (let p = \<lparr>pi_id = rq_next_input st, pi_task_id = task, pi_queued_after_round_id = round, pi_status = ''pending'',
               pi_text = txt, pi_attachments = attachments, pi_created_at = rq_now st, pi_updated_at = rq_now st,
               pi_consumed_round_id = None, pi_steered_round_id = None, pi_steered_role = [],
               pi_steered_attempt_no = None\<rparr>
      in (p, st\<lparr>rq_inputs := rq_inputs st @ [p], rq_next_input := rq_next_input st + 1\<rparr>))"

definition get_pending_input :: "relay_queue \<Rightarrow> nat \<Rightarrow> nat \<Rightarrow> queue_exn + pending_input" where
  "get_pending_input st task i =
     (case find (\<lambda>p. pi_id p = i \<and> pi_task_id p = task) (rq_inputs st) of
        None \<Rightarrow> Inl (UnknownPendingInput i) | Some p \<Rightarrow> Inr p)"

definition list_pending_inputs :: "relay_queue \<Rightarrow> nat \<Rightarrow> string \<Rightarrow> pending_input list" where
  "list_pending_inputs st task status =
     sort_key pi_id (filter (\<lambda>p. pi_task_id p = task \<and> (status = [] \<or> pi_status p = status)) (rq_inputs st))"

definition first_pending_input_after_round :: "relay_queue \<Rightarrow> nat \<Rightarrow> int \<Rightarrow> pending_input option" where
  "first_pending_input_after_round st task round =
     first_row (sort_key (\<lambda>p. (pi_queued_after_round_id p, pi_id p))
       (filter (\<lambda>p. pi_task_id p = task \<and> pi_queued_after_round_id p \<le> round \<and> pi_status p = ''pending'') (rq_inputs st)))"

definition upd_pending :: "nat \<Rightarrow> nat \<Rightarrow> (pending_input \<Rightarrow> pending_input) \<Rightarrow> relay_queue \<Rightarrow> relay_queue" where
  "upd_pending task i f st =
     st\<lparr>rq_inputs := upd_rows (\<lambda>p. pi_id p = i \<and> pi_task_id p = task \<and> pi_status p = ''pending'')
          (\<lambda>p. f p\<lparr>pi_updated_at := rq_now st\<rparr>) (rq_inputs st)\<rparr>"

definition mark_pending_input_steered ::
  "nat \<Rightarrow> nat \<Rightarrow> int \<Rightarrow> string \<Rightarrow> int \<Rightarrow> relay_queue \<Rightarrow> (queue_exn + pending_input) \<times> relay_queue" where
  "mark_pending_input_steered task i round role attempt st =
     (let st' = upd_pending task i (\<lambda>p. p\<lparr>pi_status := ''steered'', pi_steered_round_id := Some round,
            pi_steered_role := role, pi_steered_attempt_no := Some attempt\<rparr>) st
      in (get_pending_input st' task i, st'))"

definition mark_pending_input_consumed ::
  "nat \<Rightarrow> nat \<Rightarrow> int \<Rightarrow> relay_queue \<Rightarrow> (queue_exn + pending_input) \<times> relay_queue" where
  "mark_pending_input_consumed task i round st =
     (let st' = upd_pending task i (\<lambda>p. p\<lparr>pi_status := ''consumed'', pi_consumed_round_id := Some round\<rparr>) st
      in (get_pending_input st' task i, st'))"

definition cancel_pending_input :: "nat \<Rightarrow> nat \<Rightarrow> relay_queue \<Rightarrow> (queue_exn + pending_input) \<times> relay_queue" where
  "cancel_pending_input task i st =
     (let st' = upd_pending task i (\<lambda>p. p\<lparr>pi_status := ''cancelled''\<rparr>) st in (get_pending_input st' task i, st'))"

section \<open>Claims\<close>

definition lease_of :: "relay_queue \<Rightarrow> nat \<Rightarrow> queue_lease option" where
  "lease_of st i = find (\<lambda>q. ql_pending_input_id q = i) (rq_leases st)"

record claim_filter =
  cf_task :: "nat option"
  cf_input :: "nat option"
  cf_through_round :: "int option"

definition candidate_workspace :: "relay_queue \<Rightarrow> pending_input \<Rightarrow> string" where
  "candidate_workspace st p =
     (case lease_of st (pi_id p) of
        None \<Rightarrow> workspace_for_task st (pi_task_id p)
      | Some q \<Rightarrow> if strip (ql_workspace q) = [] then workspace_for_task st (pi_task_id p) else strip (ql_workspace q))"

definition eligible :: "relay_queue \<Rightarrow> string \<Rightarrow> claim_filter \<Rightarrow> pending_input \<Rightarrow> bool" where
  "eligible st ws f p \<longleftrightarrow>
     (case cf_task f of None \<Rightarrow> True | Some t \<Rightarrow> pi_task_id p = t) \<and>
     (case cf_input f of None \<Rightarrow> True | Some i \<Rightarrow> pi_id p = i) \<and>
     (case cf_through_round f of None \<Rightarrow> True
      | Some r \<Rightarrow> (if pi_queued_after_round_id p = 0 then 1 else pi_queued_after_round_id p) \<le> r) \<and>
     candidate_workspace st p = ws \<and>
     (case lease_of st (pi_id p) of None \<Rightarrow> True
      | Some q \<Rightarrow> strip (ql_owner q) = [] \<or> \<not> lease_is_active (ql_expires_at q) (rq_now st))"

definition pending_rows :: "relay_queue \<Rightarrow> pending_input list" where
  "pending_rows st = sort_key (\<lambda>p. (pi_created_at p, pi_id p)) (filter (\<lambda>p. pi_status p = ''pending'') (rq_inputs st))"

definition live_in_workspace :: "relay_queue \<Rightarrow> string \<Rightarrow> queue_lease \<Rightarrow> bool" where
  "live_in_workspace st ws q \<longleftrightarrow>
     ql_workspace q = ws \<and> ql_owner q \<noteq> [] \<and> lease_is_active (ql_expires_at q) (rq_now st)"

definition set_lease :: "pending_input \<Rightarrow> string \<Rightarrow> string \<Rightarrow> stamp \<Rightarrow> relay_queue \<Rightarrow> relay_queue" where
  "set_lease p ws owner expires st =
     (case lease_of st (pi_id p) of
        Some _ \<Rightarrow> st\<lparr>rq_leases := upd_rows (\<lambda>q. ql_pending_input_id q = pi_id p)
            (\<lambda>q. q\<lparr>ql_workspace := ws, ql_owner := owner, ql_expires_at := Some expires,
                   ql_attempt_count := ql_attempt_count q + 1, ql_last_error := [], ql_updated_at := rq_now st\<rparr>) (rq_leases st)\<rparr>
      | None \<Rightarrow> st\<lparr>rq_leases := rq_leases st @
            [\<lparr>ql_pending_input_id = pi_id p, ql_team_run_id = pi_task_id p, ql_workspace = ws, ql_owner = owner,
              ql_expires_at = Some expires, ql_attempt_count = 1, ql_last_error = [], ql_created_at = rq_now st,
              ql_updated_at = rq_now st\<rparr>]\<rparr>)"

definition lease_seconds_of :: "int \<Rightarrow> int" where
  "lease_seconds_of secs = max 1 (if secs = 0 then 300 else secs)"

definition claim_pending_input_for_workspace ::
  "string \<Rightarrow> string \<Rightarrow> claim_filter \<Rightarrow> int \<Rightarrow> relay_queue \<Rightarrow> (queue_exn + pending_input_claim option) \<times> relay_queue" where
  "claim_pending_input_for_workspace workspace lease_owner f secs st =
     (let ws = strip workspace; owner = strip lease_owner;
          expires = rq_now st + lease_seconds_of secs * 1000000 in
      if ws = [] \<or> owner = [] then (Inr None, st)
      else if \<exists>k \<in> set (rq_locks st). qk_workspace k = ws \<and> lease_is_active (qk_expires_at k) (rq_now st)
        then (Inr None, st)
      else
        let st1 = st\<lparr>rq_locks := filter (\<lambda>k. qk_workspace k \<noteq> ws) (rq_locks st)\<rparr> in
        if \<exists>q \<in> set (rq_leases st1). live_in_workspace st1 ws q then (Inr None, st1)
        else case find (eligible st1 ws f) (pending_rows st1) of
          None \<Rightarrow> (Inr None, st1)
        | Some p \<Rightarrow>
            if \<exists>k \<in> set (rq_locks st1). qk_pending_input_id k = pi_id p then (Inl LockConflict, st)
            else
              let st2 = set_lease p ws owner expires st1;
                  st3 = st2\<lparr>rq_locks := rq_locks st2 @
                    [\<lparr>qk_workspace = ws, qk_pending_input_id = pi_id p, qk_team_run_id = pi_task_id p, qk_owner = owner,
                      qk_expires_at = Some expires, qk_created_at = rq_now st, qk_updated_at = rq_now st\<rparr>]\<rparr> in
              (Inr (Some \<lparr>pc_input = p, pc_workspace = ws, pc_owner = owner, pc_expires_at = Some expires,
                 pc_attempt_count = (case lease_of st2 (pi_id p) of None \<Rightarrow> 1 | Some q \<Rightarrow>
                   if ql_attempt_count q = 0 then 1 else ql_attempt_count q)\<rparr>), st3))"

definition owns_lease :: "pending_input_claim \<Rightarrow> queue_lease \<Rightarrow> bool" where
  "owns_lease c q \<longleftrightarrow> ql_pending_input_id q = pi_id (pc_input c) \<and> ql_team_run_id q = pi_task_id (pc_input c) \<and>
     ql_workspace q = pc_workspace c \<and> ql_owner q = pc_owner c"

definition owns_lock :: "pending_input_claim \<Rightarrow> queue_lock \<Rightarrow> bool" where
  "owns_lock c k \<longleftrightarrow> qk_workspace k = pc_workspace c \<and> qk_pending_input_id k = pi_id (pc_input c) \<and>
     qk_team_run_id k = pi_task_id (pc_input c) \<and> qk_owner k = pc_owner c"

definition renew_pending_input_claim ::
  "pending_input_claim \<Rightarrow> int \<Rightarrow> relay_queue \<Rightarrow> (queue_exn + pending_input_claim option) \<times> relay_queue" where
  "renew_pending_input_claim c secs st =
     (let expires = rq_now st + lease_seconds_of secs * 1000000;
          live_lease = (\<lambda>q. owns_lease c q \<and> lease_is_active (ql_expires_at q) (rq_now st));
          live_lock = (\<lambda>k. owns_lock c k \<and> lease_is_active (qk_expires_at k) (rq_now st)) in
      if length (filter live_lease (rq_leases st)) \<noteq> 1 then
        (Inr None, st\<lparr>rq_leases := upd_rows live_lease (\<lambda>q. q\<lparr>ql_expires_at := Some expires, ql_updated_at := rq_now st\<rparr>)
                        (rq_leases st)\<rparr>)
      else if length (filter live_lock (rq_locks st)) \<noteq> 1 then (Inl WorkspaceLockLost, st)
      else (Inr (Some (c\<lparr>pc_expires_at := Some expires\<rparr>)),
            st\<lparr>rq_leases := upd_rows live_lease (\<lambda>q. q\<lparr>ql_expires_at := Some expires, ql_updated_at := rq_now st\<rparr>) (rq_leases st),
               rq_locks := upd_rows live_lock (\<lambda>k. k\<lparr>qk_expires_at := Some expires, qk_updated_at := rq_now st\<rparr>) (rq_locks st)\<rparr>))"

definition release_pending_input_claim :: "pending_input_claim \<Rightarrow> relay_queue \<Rightarrow> bool \<times> relay_queue" where
  "release_pending_input_claim c st =
     (let n = length (filter (owns_lease c) (rq_leases st));
          st1 = st\<lparr>rq_leases := filter (\<lambda>q. \<not> owns_lease c q) (rq_leases st)\<rparr> in
      (n = 1, if n = 1 then st1\<lparr>rq_locks := filter (\<lambda>k. \<not> owns_lock c k) (rq_locks st1)\<rparr> else st1))"

definition consume_pending_input_claim ::
  "pending_input_claim \<Rightarrow> int \<Rightarrow> relay_queue \<Rightarrow> (queue_exn + pending_input) \<times> relay_queue" where
  "consume_pending_input_claim c round st =
     (let i = pi_id (pc_input c); task = pi_task_id (pc_input c) in
      if \<not> (\<exists>q \<in> set (rq_leases st). owns_lease c q \<and> lease_is_active (ql_expires_at q) (rq_now st))
        then (Inl ClaimNotOwned, st)
      else if length (filter (\<lambda>p. pi_id p = i \<and> pi_task_id p = task \<and> pi_status p = ''pending'') (rq_inputs st)) \<noteq> 1
        then (Inl NotConsumable, st)
      else
        let st1 = upd_pending task i (\<lambda>p. p\<lparr>pi_status := ''consumed'', pi_consumed_round_id := Some round\<rparr>) st;
            st2 = st1\<lparr>rq_leases := filter (\<lambda>q. \<not> (ql_pending_input_id q = i \<and> ql_owner q = pc_owner c)) (rq_leases st1),
                      rq_locks := filter (\<lambda>k. \<not> owns_lock c k) (rq_locks st1)\<rparr> in
        (case find (\<lambda>p. pi_id p = i) (rq_inputs st2) of
           None \<Rightarrow> Inl (UnknownPendingInput i) | Some p \<Rightarrow> Inr p, st2))"

section \<open>Task-creation leases\<close>

text \<open>A database that is locked by another process answers \<open>False\<close>: the argument \<open>busy\<close>.\<close>

definition claim_workspace_creation_lease ::
  "bool \<Rightarrow> string \<Rightarrow> string \<Rightarrow> int \<Rightarrow> relay_queue \<Rightarrow> (queue_exn + bool) \<times> relay_queue" where
  "claim_workspace_creation_lease busy workspace lease_owner secs st =
     (let ws = strip workspace; owner = strip lease_owner in
      if ws = [] \<or> owner = [] then (Inl ValueRequired, st)
      else if busy then (Inr False, st)
      else
        let kept = filter (\<lambda>c. \<not> (cl_workspace c = ws \<and> cl_expires_at c \<le> rq_now st)) (rq_creation st) in
        if \<exists>c \<in> set kept. cl_workspace c = ws then (Inr False, st\<lparr>rq_creation := kept\<rparr>)
        else (Inr True, st\<lparr>rq_creation := kept @ [\<lparr>cl_workspace = ws, cl_owner = owner,
                cl_expires_at = rq_now st + max 1 secs * 1000000\<rparr>]\<rparr>))"

definition release_workspace_creation_lease :: "string \<Rightarrow> string \<Rightarrow> relay_queue \<Rightarrow> relay_queue" where
  "release_workspace_creation_lease workspace lease_owner st =
     st\<lparr>rq_creation := filter (\<lambda>c. \<not> (cl_workspace c = strip workspace \<and> cl_owner c = strip lease_owner)) (rq_creation st)\<rparr>"

end
