(* ===== verification/Relay_Queue_Properties.thy ===== *)
theory Relay_Queue_Properties
  imports Relay_Queue
begin

text \<open>
  The workspace queue refines a fence: per workspace at most one holder at a time, who can only be replaced
  after letting go or running out. The fence is the abstract state, the tables the concrete one, and every
  operation, clock ticks included, is a step of the fence.
\<close>

section \<open>The fence\<close>

type_synonym holder = "string \<times> nat \<times> stamp"
type_synonym fence = "string \<Rightarrow> holder option"

inductive fence_step :: "fence \<Rightarrow> fence \<Rightarrow> bool" where
  grant: "a ws = None \<Longrightarrow> fence_step a (a(ws \<mapsto> h))"
| extend: "a ws = Some (ow, i, t) \<Longrightarrow> fence_step a (a(ws \<mapsto> (ow, i, t')))"
| let_go: "(\<And>ws. b ws = None \<or> b ws = a ws) \<Longrightarrow> fence_step a b"

definition holds :: "relay_queue \<Rightarrow> string \<Rightarrow> holder \<Rightarrow> bool" where
  "holds st ws h \<longleftrightarrow> (\<exists>q \<in> set (rq_leases st). live_in_workspace st ws q \<and>
     h = (ql_owner q, ql_pending_input_id q, the (ql_expires_at q)))"

definition fence_of :: "relay_queue \<Rightarrow> fence" where
  "fence_of st ws = map_option (\<lambda>q. (ql_owner q, ql_pending_input_id q, the (ql_expires_at q)))
     (find (live_in_workspace st ws) (rq_leases st))"

definition relay_wf :: "relay_queue \<Rightarrow> bool" where
  "relay_wf st \<longleftrightarrow> ids_ok pi_id (rq_inputs st) (rq_next_input st) \<and> distinct (map ql_pending_input_id (rq_leases st)) \<and>
     (\<forall>q \<in> set (rq_leases st). strip (ql_workspace q) = ql_workspace q \<and> strip (ql_owner q) = ql_owner q) \<and>
     (\<forall>ws h h'. holds st ws h \<longrightarrow> holds st ws h' \<longrightarrow> h = h')"

lemma fence_of_iff: "relay_wf st \<Longrightarrow> fence_of st ws = Some h \<longleftrightarrow> holds st ws h"
proof
  assume "fence_of st ws = Some h"
  then show "holds st ws h" by (auto simp: fence_of_def holds_def dest: find_SomeD)
next
  assume wf: "relay_wf st" and h: "holds st ws h"
  then obtain q where f: "find (live_in_workspace st ws) (rq_leases st) = Some q"
    by (cases "find (live_in_workspace st ws) (rq_leases st)") (auto simp: holds_def find_None_iff)
  from f have "holds st ws (ql_owner q, ql_pending_input_id q, the (ql_expires_at q))"
    by (auto simp: holds_def dest: find_SomeD)
  then have "h = (ql_owner q, ql_pending_input_id q, the (ql_expires_at q))"
    using wf h unfolding relay_wf_def by blast
  then show "fence_of st ws = Some h" using f by (simp add: fence_of_def)
qed

lemma fence_of_None: "relay_wf st \<Longrightarrow> fence_of st ws = None \<longleftrightarrow> (\<nexists>h. holds st ws h)"
  using fence_of_iff [of st ws] by (metis not_None_eq)

section \<open>Effects of the operations\<close>

lemma find_lease_unique:
  assumes "distinct (map ql_pending_input_id ls)" "q \<in> set ls" "q' \<in> set ls" "ql_pending_input_id q = ql_pending_input_id q'"
  shows "q = q'"
  using assms by (auto simp: distinct_map dest: inj_onD)

lemma drop_step:
  assumes "relay_wf st" "rq_now st \<le> rq_now st'"
    and "set (rq_leases st') \<subseteq> set (rq_leases st)" "distinct (map ql_pending_input_id (rq_leases st'))"
    and "ids_ok pi_id (rq_inputs st') (rq_next_input st')"
  shows "relay_wf st' \<and> fence_step (fence_of st) (fence_of st')"
proof -
  have sub: "holds st ws h" if "holds st' ws h" for ws h
    using that assms(2,3) by (fastforce simp: holds_def live_in_workspace_def lease_is_active_def split: option.splits)
  have wf: "relay_wf st'" using assms sub unfolding relay_wf_def by blast
  have "fence_of st' ws = None \<or> fence_of st' ws = fence_of st ws" for ws
  proof (cases "fence_of st' ws")
    case (Some h)
    then have "fence_of st ws = Some h" using sub fence_of_iff wf assms(1) by blast
    then show ?thesis using Some by simp
  qed simp
  then show ?thesis using wf by (auto intro: let_go)
qed

lemma lease_seconds_pos: "1 \<le> lease_seconds_of secs"
  by (simp add: lease_seconds_of_def)

lemma set_lease_holds:
  assumes wf: "relay_wf st" and free: "\<nexists>h. holds st ws h" and dead: "\<And>q. lease_of st (pi_id p) = Some q \<Longrightarrow>
      ql_owner q = [] \<or> \<not> lease_is_active (ql_expires_at q) (rq_now st)"
    and "owner \<noteq> []" "rq_now st < expires"
  shows "holds (set_lease p ws owner expires st) w h \<longleftrightarrow> holds st w h \<or> w = ws \<and> h = (owner, pi_id p, expires)"
proof (cases "lease_of st (pi_id p)")
  case None
  then show ?thesis using assms(4,5)
    by (auto simp: set_lease_def holds_def live_in_workspace_def lease_is_active_def)
next
  case (Some q)
  then have q: "q \<in> set (rq_leases st)" "ql_pending_input_id q = pi_id p"
    by (auto simp: lease_of_def dest: find_SomeD)
  have other: "q' \<noteq> q" if "q' \<in> set (rq_leases st)" "live_in_workspace st w q'" for q'
    using that dead [OF Some] by (auto simp: live_in_workspace_def)
  have same: "q' = q" if "q' \<in> set (rq_leases st)" "ql_pending_input_id q' = pi_id p" for q'
    using that q find_lease_unique wf by (metis relay_wf_def)
  show ?thesis (is "?l \<longleftrightarrow> ?r")
  proof
    assume ?l
    then show ?r using Some assms(4,5)
      by (auto simp: set_lease_def holds_def live_in_workspace_def set_upd_rows split: if_splits)
  next
    let ?q = "q\<lparr>ql_workspace := ws, ql_owner := owner, ql_expires_at := Some expires,
                   ql_attempt_count := ql_attempt_count q + 1, ql_last_error := [], ql_updated_at := rq_now st\<rparr>"
    have new: "set (rq_leases (set_lease p ws owner expires st)) =
        (\<lambda>q'. if q' = q then ?q else q') ` set (rq_leases st)"
    proof -
      have "(if ql_pending_input_id q' = pi_id p then q'\<lparr>ql_workspace := ws, ql_owner := owner,
            ql_expires_at := Some expires, ql_attempt_count := ql_attempt_count q' + 1, ql_last_error := [],
            ql_updated_at := rq_now st\<rparr> else q') = (if q' = q then ?q else q')" if "q' \<in> set (rq_leases st)" for q'
        using same [OF that] q(2) by metis
      then show ?thesis using Some by (simp add: set_lease_def set_upd_rows)
    qed
    assume ?r
    then show ?l
    proof
      assume "holds st w h"
      then obtain q' where q': "q' \<in> set (rq_leases st)" "live_in_workspace st w q'"
          "h = (ql_owner q', ql_pending_input_id q', the (ql_expires_at q'))" by (auto simp: holds_def)
      then have "q' \<in> set (rq_leases (set_lease p ws owner expires st))" using other new by auto
      moreover have "live_in_workspace (set_lease p ws owner expires st) w q'"
        using q'(2) Some by (simp add: set_lease_def live_in_workspace_def)
      ultimately show ?l using q'(3) by (auto simp: holds_def)
    next
      assume "w = ws \<and> h = (owner, pi_id p, expires)"
      moreover have "?q \<in> set (rq_leases (set_lease p ws owner expires st))" using new q(1) by auto
      moreover have "live_in_workspace (set_lease p ws owner expires st) ws ?q"
        using Some assms(4,5) by (simp add: set_lease_def live_in_workspace_def lease_is_active_def)
      ultimately show ?l using q(2) by (force simp: holds_def)
    qed
  qed
qed

lemma fence_ext:
  assumes "relay_wf st" "relay_wf st'" "\<And>w h. holds st' w h \<longleftrightarrow> a w = Some h"
  shows "fence_of st' = a"
proof
  fix w
  have "fence_of st' w = Some h \<longleftrightarrow> a w = Some h" for h using fence_of_iff assms(2,3) by metis
  then show "fence_of st' w = a w" by (metis not_None_eq)
qed

lemma set_lease_rows:
  "rq_inputs (set_lease p ws ow e st) = rq_inputs st" "rq_next_input (set_lease p ws ow e st) = rq_next_input st"
  "rq_now (set_lease p ws ow e st) = rq_now st" "rq_locks (set_lease p ws ow e st) = rq_locks st"
  by (auto simp: set_lease_def split: option.splits)

lemma set_lease_keys:
  assumes "relay_wf st" "strip ws = ws" "strip ow = ow"
  shows "distinct (map ql_pending_input_id (rq_leases (set_lease p ws ow e st)))"
    "q \<in> set (rq_leases (set_lease p ws ow e st)) \<Longrightarrow> strip (ql_workspace q) = ql_workspace q \<and> strip (ql_owner q) = ql_owner q"
proof -
  show "distinct (map ql_pending_input_id (rq_leases (set_lease p ws ow e st)))"
  proof (cases "lease_of st (pi_id p)")
    case None
    then have "pi_id p \<notin> ql_pending_input_id ` set (rq_leases st)" by (auto simp: lease_of_def find_None_iff)
    then show ?thesis using assms(1) None by (simp add: set_lease_def relay_wf_def)
  next
    case (Some q)
    then show ?thesis using assms(1) by (simp add: set_lease_def relay_wf_def map_upd_rows)
  qed
  show "q \<in> set (rq_leases (set_lease p ws ow e st)) \<Longrightarrow> strip (ql_workspace q) = ql_workspace q \<and> strip (ql_owner q) = ql_owner q"
    using assms by (auto simp: set_lease_def set_upd_rows relay_wf_def split: option.splits if_splits)
qed

lemma grant_step:
  assumes wf: "relay_wf st" and free: "\<nexists>h. holds st ws h" and dead: "\<And>q. lease_of st (pi_id p) = Some q \<Longrightarrow>
      ql_owner q = [] \<or> \<not> lease_is_active (ql_expires_at q) (rq_now st)"
    and ow: "owner \<noteq> []" "rq_now st < expires" "strip ws = ws" "strip owner = owner"
  shows "relay_wf (set_lease p ws owner expires st)"
    "fence_of (set_lease p ws owner expires st) = (fence_of st)(ws \<mapsto> (owner, pi_id p, expires))"
proof -
  have h: "holds (set_lease p ws owner expires st) w x \<longleftrightarrow> holds st w x \<or> w = ws \<and> x = (owner, pi_id p, expires)" for w x
    by (rule set_lease_holds [OF wf free _ ow(1,2)]) (rule dead)
  have uniq: "x = y" if "holds (set_lease p ws owner expires st) w x" "holds (set_lease p ws owner expires st) w y" for w x y
    using that wf free unfolding h relay_wf_def by blast
  show wf': "relay_wf (set_lease p ws owner expires st)"
    unfolding relay_wf_def using set_lease_keys [OF wf ow(3,4)] uniq wf
    by (auto simp: set_lease_rows relay_wf_def)
  show "fence_of (set_lease p ws owner expires st) = (fence_of st)(ws \<mapsto> (owner, pi_id p, expires))"
  proof (rule fence_ext [OF wf wf'])
    fix w x
    show "holds (set_lease p ws owner expires st) w x \<longleftrightarrow> ((fence_of st)(ws \<mapsto> (owner, pi_id p, expires))) w = Some x"
      using h [of w x] fence_of_iff [OF wf, of w x] free
      by (metis fun_upd_apply option.inject)
  qed
qed

lemma locks_irrelevant: "relay_wf (st\<lparr>rq_locks := ks\<rparr>) = relay_wf st" "fence_of (st\<lparr>rq_locks := ks\<rparr>) = fence_of st"
  by (simp_all add: relay_wf_def fence_of_def holds_def live_in_workspace_def [abs_def] fun_eq_iff)

lemma locks_ignored: "lease_of (st\<lparr>rq_locks := ks\<rparr>) = lease_of st" "pending_rows (st\<lparr>rq_locks := ks\<rparr>) = pending_rows st"
  "live_in_workspace (st\<lparr>rq_locks := ks\<rparr>) = live_in_workspace st" "eligible (st\<lparr>rq_locks := ks\<rparr>) = eligible st"
  "set_lease p ws ow e (st\<lparr>rq_locks := ks\<rparr>) = (set_lease p ws ow e st)\<lparr>rq_locks := ks\<rparr>"
  by (auto simp: lease_of_def pending_rows_def live_in_workspace_def eligible_def candidate_workspace_def set_lease_def
      workspace_for_task_def fun_eq_iff split: option.splits)

lemma claim_kept:
  assumes "claim_pending_input_for_workspace workspace lease_owner f secs st = (r, st')" "\<And>c. r \<noteq> Inr (Some c)"
  shows "\<exists>ks. st' = st\<lparr>rq_locks := ks\<rparr>"
proof -
  have same: "\<exists>ks. st = st\<lparr>rq_locks := ks\<rparr>" by (rule exI [of _ "rq_locks st"]) simp
  show ?thesis
    using assms same
    by (auto simp: claim_pending_input_for_workspace_def Let_def locks_ignored split: if_splits option.splits)
qed

lemma claim_got:
  assumes "claim_pending_input_for_workspace workspace lease_owner f secs st = (Inr (Some c), st')"
  shows "strip workspace \<noteq> []" "strip lease_owner \<noteq> []"
      "pc_workspace c = strip workspace" "pc_owner c = strip lease_owner"
      "find (eligible st (strip workspace) f) (pending_rows st) = Some (pc_input c)"
      "\<forall>q \<in> set (rq_leases st). \<not> live_in_workspace st (strip workspace) q"
      "pc_expires_at c = Some (rq_now st + lease_seconds_of secs * 1000000)"
      "\<exists>ks. st' = (set_lease (pc_input c) (strip workspace) (strip lease_owner)
           (rq_now st + lease_seconds_of secs * 1000000) st)\<lparr>rq_locks := ks\<rparr>"
proof -
  note d = claim_pending_input_for_workspace_def Let_def locks_ignored
  show "strip workspace \<noteq> []" "strip lease_owner \<noteq> []" using assms by (auto simp: d)
  then show "pc_workspace c = strip workspace" "pc_owner c = strip lease_owner"
      "find (eligible st (strip workspace) f) (pending_rows st) = Some (pc_input c)"
      "\<forall>q \<in> set (rq_leases st). \<not> live_in_workspace st (strip workspace) q"
      "pc_expires_at c = Some (rq_now st + lease_seconds_of secs * 1000000)"
      "\<exists>ks. st' = (set_lease (pc_input c) (strip workspace) (strip lease_owner)
           (rq_now st + lease_seconds_of secs * 1000000) st)\<lparr>rq_locks := ks\<rparr>"
    using assms by (auto simp: d split: if_splits option.splits)
qed

lemma claim_fence:
  assumes wf: "relay_wf st"
    and c: "claim_pending_input_for_workspace workspace lease_owner f secs st = (Inr (Some c), st')"
  shows "relay_wf st'" "fence_of st (pc_workspace c) = None"
    "fence_of st' = (fence_of st)(pc_workspace c \<mapsto> (pc_owner c, pi_id (pc_input c), the (pc_expires_at c)))"
proof -
  note g = claim_got [OF c]
  have free: "\<nexists>h. holds st (strip workspace) h" using g(6) by (auto simp: holds_def)
  then show "fence_of st (pc_workspace c) = None" using fence_of_None [OF wf] g(3) by simp
  have el: "eligible st (strip workspace) f (pc_input c)" using g(5) by (auto dest: find_SomeD)
  have dead: "ql_owner q = [] \<or> \<not> lease_is_active (ql_expires_at q) (rq_now st)"
    if "lease_of st (pi_id (pc_input c)) = Some q" for q
  proof -
    have "q \<in> set (rq_leases st)" using that by (auto simp: lease_of_def dest: find_SomeD)
    then have "strip (ql_owner q) = ql_owner q" using wf by (auto simp: relay_wf_def)
    then show ?thesis using el that by (auto simp: eligible_def)
  qed
  have later: "rq_now st < rq_now st + lease_seconds_of secs * 1000000" using lease_seconds_pos [of secs] by simp
  obtain ks where st': "st' = (set_lease (pc_input c) (strip workspace) (strip lease_owner)
      (rq_now st + lease_seconds_of secs * 1000000) st)\<lparr>rq_locks := ks\<rparr>" using g(8) by blast
  note step = grant_step [where p = "pc_input c", OF wf free _ g(2) later strip_idem strip_idem]
  show "relay_wf st'" unfolding st' locks_irrelevant by (rule step(1)) (rule dead)
  show "fence_of st' = (fence_of st)(pc_workspace c \<mapsto> (pc_owner c, pi_id (pc_input c), the (pc_expires_at c)))"
    unfolding st' locks_irrelevant g(3,4,7) option.sel by (rule step(2)) (rule dead)
qed

lemma renew_leases:
  assumes "renew_pending_input_claim c secs st = (r, st')"
  shows "rq_inputs st' = rq_inputs st \<and> rq_next_input st' = rq_next_input st \<and> rq_now st' = rq_now st \<and>
    (rq_leases st' = rq_leases st \<or>
     rq_leases st' = upd_rows (\<lambda>q. owns_lease c q \<and> lease_is_active (ql_expires_at q) (rq_now st))
       (\<lambda>q. q\<lparr>ql_expires_at := Some (rq_now st + lease_seconds_of secs * 1000000), ql_updated_at := rq_now st\<rparr>)
       (rq_leases st))"
  using assms unfolding renew_pending_input_claim_def Let_def by (auto split: if_splits)

lemma live_lease_holds:
  "q \<in> set (rq_leases st) \<Longrightarrow> lease_is_active (ql_expires_at q) (rq_now st) \<Longrightarrow> ql_owner q \<noteq> [] \<Longrightarrow>
    holds st (ql_workspace q) (ql_owner q, ql_pending_input_id q, the (ql_expires_at q))"
  by (auto simp: holds_def live_in_workspace_def)

lemma live_lease_only:
  assumes wf: "relay_wf st" and q: "q \<in> set (rq_leases st)" "lease_is_active (ql_expires_at q) (rq_now st)" "ql_owner q \<noteq> []"
    and q': "q' \<in> set (rq_leases st)" "live_in_workspace st (ql_workspace q) q'"
  shows "q' = q"
proof -
  have "holds st (ql_workspace q) (ql_owner q', ql_pending_input_id q', the (ql_expires_at q'))"
    using q' by (auto simp: holds_def)
  then have "ql_pending_input_id q' = ql_pending_input_id q"
    using live_lease_holds [OF q] wf unfolding relay_wf_def by blast
  then show ?thesis using find_lease_unique q'(1) q(1) wf by (metis relay_wf_def)
qed

lemma extend_step:
  assumes wf: "relay_wf st" and e: "rq_now st < e" and q: "q \<in> set (rq_leases st)" "lease_is_active (ql_expires_at q) (rq_now st)"
    and st': "rq_inputs st' = rq_inputs st" "rq_next_input st' = rq_next_input st" "rq_now st' = rq_now st"
      "set (rq_leases st') = (\<lambda>q'. if q' = q then q\<lparr>ql_expires_at := Some e, ql_updated_at := u\<rparr> else q') ` set (rq_leases st)"
      "distinct (map ql_pending_input_id (rq_leases st'))"
  shows "relay_wf st' \<and> fence_step (fence_of st) (fence_of st')"
proof -
  let ?q = "q\<lparr>ql_expires_at := Some e, ql_updated_at := u\<rparr>"
  have old: "holds st w x" if "holds st' w x" "w \<noteq> ql_workspace q \<or> ql_owner q = []" for w x
    using that st'(3,4) by (auto simp: holds_def live_in_workspace_def split: if_splits)
  have new: "holds st' w x" if h: "holds st w x" and w: "w \<noteq> ql_workspace q \<or> ql_owner q = []" for w x
  proof -
    obtain q' where q': "q' \<in> set (rq_leases st)" "live_in_workspace st w q'"
        "x = (ql_owner q', ql_pending_input_id q', the (ql_expires_at q'))" using h by (auto simp: holds_def)
    then have "q' \<noteq> q" using w by (auto simp: live_in_workspace_def)
    then have "q' \<in> set (rq_leases st')" using q'(1) st'(4) by auto
    then show ?thesis using q'(2,3) st'(3) by (auto simp: holds_def live_in_workspace_def)
  qed
  note held = live_lease_holds [OF q]
  note only = live_lease_only [OF wf q]
  have mine: "holds st' (ql_workspace q) x \<longleftrightarrow> x = (ql_owner q, ql_pending_input_id q, e)" if o: "ql_owner q \<noteq> []" for x
  proof
    assume "holds st' (ql_workspace q) x"
    then obtain q' where "q' \<in> set (rq_leases st')" "live_in_workspace st' (ql_workspace q) q'"
        "x = (ql_owner q', ql_pending_input_id q', the (ql_expires_at q'))" by (auto simp: holds_def)
    then show "x = (ql_owner q, ql_pending_input_id q, e)"
      using only [OF o] st'(3,4) by (auto simp: live_in_workspace_def split: if_splits)
  next
    have "?q \<in> set (rq_leases st')" using st'(4) q(1) by auto
    moreover have "live_in_workspace st' (ql_workspace q) ?q"
      using o e st'(3) by (simp add: live_in_workspace_def lease_is_active_def)
    ultimately show "x = (ql_owner q, ql_pending_input_id q, e) \<Longrightarrow> holds st' (ql_workspace q) x"
      by (force simp: holds_def)
  qed
  have uniq: "x = y" if "holds st' w x" "holds st' w y" for w x y
    using that old mine wf unfolding relay_wf_def by metis
  have wf': "relay_wf st'" unfolding relay_wf_def
    using wf st' uniq by (auto simp: relay_wf_def)
  show ?thesis
  proof (cases "ql_owner q = []")
    case True
    then have "fence_of st' = fence_of st"
      using old new fence_of_iff [OF wf] by (intro fence_ext [OF wf wf']) blast
    then show ?thesis using wf' by (auto intro: let_go)
  next
    case False
    have "fence_of st' = (fence_of st)(ql_workspace q \<mapsto> (ql_owner q, ql_pending_input_id q, e))"
    proof (rule fence_ext [OF wf wf'])
      fix w x
      show "holds st' w x \<longleftrightarrow> ((fence_of st)(ql_workspace q \<mapsto> (ql_owner q, ql_pending_input_id q, e))) w = Some x"
        using old [of w x] new [of w x] mine [OF False, of x] fence_of_iff [OF wf, of w x] by (cases "w = ql_workspace q") auto
    qed
    moreover have "fence_of st (ql_workspace q) = Some (ql_owner q, ql_pending_input_id q, the (ql_expires_at q))"
      using held [OF False] fence_of_iff [OF wf] by blast
    ultimately show ?thesis using wf' by (auto intro: extend)
  qed
qed

lemma renew_step:
  assumes wf: "relay_wf st" and r: "renew_pending_input_claim c secs st = (r, st')"
  shows "relay_wf st' \<and> fence_step (fence_of st) (fence_of st')"
proof -
  let ?live = "\<lambda>q. owns_lease c q \<and> lease_is_active (ql_expires_at q) (rq_now st)"
  let ?e = "rq_now st + lease_seconds_of secs * 1000000"
  let ?upd = "\<lambda>q. q\<lparr>ql_expires_at := Some ?e, ql_updated_at := rq_now st\<rparr>"
  note rows = renew_leases [OF r]
  show ?thesis
  proof (cases "rq_leases st' = rq_leases st")
    case True
    then show ?thesis using rows wf by (intro drop_step [OF wf]) (auto simp: relay_wf_def)
  next
    case False
    then have upd: "rq_leases st' = upd_rows ?live ?upd (rq_leases st)" using rows by blast
    have "\<exists>q \<in> set (rq_leases st). ?live q"
    proof (rule ccontr)
      assume "\<not> ?thesis"
      then have "upd_rows ?live ?upd (rq_leases st) = rq_leases st" by (intro upd_rows_none) blast
      then show False using upd False by simp
    qed
    then obtain q where q: "q \<in> set (rq_leases st)" "?live q" by blast
    have uniq: "?live q' \<longleftrightarrow> q' = q" if "q' \<in> set (rq_leases st)" for q'
      using that q wf find_lease_unique [of "rq_leases st" q q'] by (auto simp: owns_lease_def relay_wf_def)
    have "(if ?live q' then ?upd q' else q') = (if q' = q then ?upd q else q')" if "q' \<in> set (rq_leases st)" for q'
      using uniq [OF that] by simp
    then have rs: "set (rq_leases st') = (\<lambda>q'. if q' = q then ?upd q else q') ` set (rq_leases st)"
      unfolding upd set_upd_rows by (rule image_cong [OF refl])
    have dis: "distinct (map ql_pending_input_id (rq_leases st'))"
      unfolding upd using wf by (simp add: map_upd_rows relay_wf_def)
    have "rq_now st < ?e" using lease_seconds_pos [of secs] by simp
    then show ?thesis
      by (rule extend_step [OF wf _ q(1) conjunct2 [OF q(2)] _ _ _ rs dis]) (simp_all add: rows)
  qed
qed

lemma upd_pending_rows [simp]:
  "rq_leases (upd_pending t i f st) = rq_leases st" "rq_next_input (upd_pending t i f st) = rq_next_input st"
  "rq_now (upd_pending t i f st) = rq_now st" "rq_locks (upd_pending t i f st) = rq_locks st"
  by (simp_all add: upd_pending_def)

lemma upd_pending_ids:
  "ids_ok pi_id (rq_inputs st) n \<Longrightarrow> (\<And>p. pi_id (f p) = pi_id p) \<Longrightarrow> ids_ok pi_id (rq_inputs (upd_pending t i f st)) n"
  by (simp add: upd_pending_def ids_ok_upd)

section \<open>The queue as a machine\<close>

text \<open>Every public operation on the queue, with any arguments (a claim handed in need not be one the queue gave
  out), and the passing of time.\<close>

datatype queue_command =
    QueueInput nat string dict int
  | Steer nat nat int string int
  | MarkConsumed nat nat int
  | CancelInput nat nat
  | Claim string string claim_filter int
  | Renew pending_input_claim int
  | Release pending_input_claim
  | Consume pending_input_claim int
  | ClaimCreation bool string string int
  | ReleaseCreation string string
  | Tick nat

fun run_command :: "queue_command \<Rightarrow> relay_queue \<Rightarrow> relay_queue" where
  "run_command (QueueInput t x a r) st = snd (queue_pending_input t x a r st)"
| "run_command (Steer t i r role n) st = snd (mark_pending_input_steered t i r role n st)"
| "run_command (MarkConsumed t i r) st = snd (mark_pending_input_consumed t i r st)"
| "run_command (CancelInput t i) st = snd (cancel_pending_input t i st)"
| "run_command (Claim w ow f s) st = snd (claim_pending_input_for_workspace w ow f s st)"
| "run_command (Renew c s) st = snd (renew_pending_input_claim c s st)"
| "run_command (Release c) st = snd (release_pending_input_claim c st)"
| "run_command (Consume c r) st = snd (consume_pending_input_claim c r st)"
| "run_command (ClaimCreation b w ow s) st = snd (claim_workspace_creation_lease b w ow s st)"
| "run_command (ReleaseCreation w ow) st = release_workspace_creation_lease w ow st"
| "run_command (Tick d) st = st\<lparr>rq_now := rq_now st + int d\<rparr>"

lemma command_step:
  assumes wf: "relay_wf st"
  shows "relay_wf (run_command cmd st) \<and> fence_step (fence_of st) (fence_of (run_command cmd st))"
proof -
  have ids: "ids_ok pi_id (rq_inputs st) (rq_next_input st)" and dis: "distinct (map ql_pending_input_id (rq_leases st))"
    using wf by (simp_all add: relay_wf_def)
  note drop = drop_step [OF wf]
  show ?thesis
  proof (cases cmd)
    case (QueueInput t x a r)
    then show ?thesis using ids dis by (intro drop) (auto simp: queue_pending_input_def Let_def intro: ids_ok_snoc)
  next
    case (Steer t i r role n)
    then show ?thesis using ids dis
      by (intro drop) (auto simp: mark_pending_input_steered_def Let_def intro: upd_pending_ids)
  next
    case (MarkConsumed t i r)
    then show ?thesis using ids dis
      by (intro drop) (auto simp: mark_pending_input_consumed_def Let_def intro: upd_pending_ids)
  next
    case (CancelInput t i)
    then show ?thesis using ids dis
      by (intro drop) (auto simp: cancel_pending_input_def Let_def intro: upd_pending_ids)
  next
    case (Claim w ow f s)
    obtain r st' where c: "claim_pending_input_for_workspace w ow f s st = (r, st')" by fastforce
    show ?thesis
    proof (cases "\<exists>cl. r = Inr (Some cl)")
      case True
      then obtain cl where "claim_pending_input_for_workspace w ow f s st = (Inr (Some cl), st')" using c by blast
      note g = claim_fence [OF wf this]
      show ?thesis using Claim c g by (simp add: grant)
    next
      case False
      then obtain ks where "st' = st\<lparr>rq_locks := ks\<rparr>" using claim_kept [OF c] by blast
      then show ?thesis using Claim c wf by (auto simp: locks_irrelevant intro: let_go)
    qed
  next
    case (Renew c s)
    then show ?thesis using renew_step [OF wf, of c s] by (metis prod.collapse run_command.simps(6))
  next
    case (Release c)
    then show ?thesis using ids dis
      by (intro drop) (auto simp: release_pending_input_claim_def Let_def distinct_map_filter)
  next
    case (Consume c r)
    then show ?thesis using ids dis
      by (intro drop) (auto simp: consume_pending_input_claim_def Let_def distinct_map_filter intro: upd_pending_ids
          split: if_splits)
  next
    case (ClaimCreation b w ow s)
    then show ?thesis using ids dis
      by (intro drop) (auto simp: claim_workspace_creation_lease_def Let_def)
  next
    case (ReleaseCreation w ow)
    then show ?thesis using ids dis by (intro drop) (auto simp: release_workspace_creation_lease_def)
  next
    case (Tick d)
    then show ?thesis using ids dis by (intro drop) auto
  qed
qed

lemma holder_lease:
  assumes "relay_wf st" "fence_of st ws = Some (ow, i, t)"
  obtains q where "q \<in> set (rq_leases st)" "ql_workspace q = ws" "ql_owner q = ow" "ow \<noteq> []" "ql_pending_input_id q = i"
    "ql_expires_at q = Some t" "rq_now st < t"
  using assms by (auto simp: fence_of_iff holds_def live_in_workspace_def lease_is_active_def split: option.splits)

lemma lease_holder:
  assumes "relay_wf st'" "q \<in> set (rq_leases st')" "ql_owner q \<noteq> []" "ql_expires_at q = Some t" "rq_now st' < t"
  shows "fence_of st' (ql_workspace q) = Some (ql_owner q, ql_pending_input_id q, t)"
  using assms by (auto simp: fence_of_iff holds_def live_in_workspace_def lease_is_active_def)

definition touches_claim :: "queue_command \<Rightarrow> string \<Rightarrow> nat \<Rightarrow> bool" where
  "touches_claim cmd ow i = (case cmd of
       Renew c s \<Rightarrow> pc_owner c = ow \<and> pi_id (pc_input c) = i
     | Release c \<Rightarrow> pc_owner c = ow \<and> pi_id (pc_input c) = i
     | Consume c r \<Rightarrow> pc_owner c = ow \<and> pi_id (pc_input c) = i
     | _ \<Rightarrow> False)"

lemma lease_kept:
  assumes q: "q \<in> set (rq_leases st)" and nt: "\<not> touches_claim cmd (ql_owner q) (ql_pending_input_id q)"
    and nc: "\<And>w ow f s. cmd \<noteq> Claim w ow f s"
  shows "q \<in> set (rq_leases (run_command cmd st))"
proof (cases cmd)
  case (Renew c s)
  obtain r st' where r: "renew_pending_input_claim c s st = (r, st')" by fastforce
  have "\<not> owns_lease c q" using nt Renew by (auto simp: touches_claim_def owns_lease_def)
  then show ?thesis using renew_leases [OF r] r Renew q by (auto simp: set_upd_rows image_iff)
qed (use q nt nc in \<open>auto simp: queue_pending_input_def mark_pending_input_steered_def mark_pending_input_consumed_def
    cancel_pending_input_def release_pending_input_claim_def consume_pending_input_claim_def touches_claim_def owns_lease_def
    claim_workspace_creation_lease_def release_workspace_creation_lease_def Let_def\<close>)

lemma run_command_now: "rq_now (run_command cmd st) = (case cmd of Tick d \<Rightarrow> rq_now st + int d | _ \<Rightarrow> rq_now st)"
proof (cases cmd)
  case (Claim w ow f s)
  then show ?thesis
    by (auto simp: claim_pending_input_for_workspace_def Let_def set_lease_rows split: option.splits)
next
  case (Renew c s)
  obtain r st' where "renew_pending_input_claim c s st = (r, st')" by fastforce
  then show ?thesis using renew_leases [of c s st r st'] Renew by simp
qed (auto simp: queue_pending_input_def mark_pending_input_steered_def mark_pending_input_consumed_def
    cancel_pending_input_def release_pending_input_claim_def consume_pending_input_claim_def
    claim_workspace_creation_lease_def release_workspace_creation_lease_def Let_def)

lemma holder_protected:
  assumes wf: "relay_wf st" and h: "fence_of st ws = Some (ow, i, t)" and nt: "\<not> touches_claim cmd ow i"
    and time: "rq_now (run_command cmd st) < t"
  shows "fence_of (run_command cmd st) ws = Some (ow, i, t)"
proof (cases "\<exists>w ow' f s. cmd = Claim w ow' f s")
  case False
  obtain q where q: "q \<in> set (rq_leases st)" "ql_workspace q = ws" "ql_owner q = ow" "ow \<noteq> []" "ql_pending_input_id q = i"
    "ql_expires_at q = Some t" by (rule holder_lease [OF wf h])
  have "q \<in> set (rq_leases (run_command cmd st))" using lease_kept [OF q(1)] nt q False by blast
  from lease_holder [OF conjunct1 [OF command_step [OF wf]] this] show ?thesis using q time by simp
next
  case True
  then obtain w ow' f s where cmd: "cmd = Claim w ow' f s" by blast
  obtain r st' where c: "claim_pending_input_for_workspace w ow' f s st = (r, st')" by fastforce
  show ?thesis
  proof (cases "\<exists>cl. r = Inr (Some cl)")
    case True
    then obtain cl where "claim_pending_input_for_workspace w ow' f s st = (Inr (Some cl), st')" using c by blast
    note g = claim_fence [OF wf this]
    have "pc_workspace cl \<noteq> ws" using g(2) h by auto
    then show ?thesis using g(3) c cmd h by simp
  next
    case False
    then obtain ks where "st' = st\<lparr>rq_locks := ks\<rparr>" using claim_kept [OF c] by blast
    then show ?thesis using c cmd h by (simp add: locks_irrelevant)
  qed
qed

section \<open>Leases over runs\<close>

text \<open>What a worker relies on between two calls: a store with a clock and a holder per key promises, for one step,
  that the invariant stays, that time does not run backwards, and that a step which does not touch the
  holder's claim leaves the holder in place as long as the lease has not run out. The client's view over any
  number of steps of other workers follows.\<close>

locale lease_store =
  fixes step :: "'c \<Rightarrow> 's \<Rightarrow> 's" and inv :: "'s \<Rightarrow> bool" and clock :: "'s \<Rightarrow> stamp"
    and holder :: "'s \<Rightarrow> 'k \<Rightarrow> ('o \<times> 'i \<times> stamp) option" and touches :: "'c \<Rightarrow> 'o \<Rightarrow> 'i \<Rightarrow> bool"
  assumes inv_step: "inv st \<Longrightarrow> inv (step c st)"
    and clock_step: "clock st \<le> clock (step c st)"
    and holder_step: "inv st \<Longrightarrow> holder st k = Some (ow, i, t) \<Longrightarrow> \<not> touches c ow i \<Longrightarrow> clock (step c st) < t \<Longrightarrow>
      holder (step c st) k = Some (ow, i, t)"
begin

lemma inv_run: "inv st \<Longrightarrow> inv (fold step cs st)"
  by (induction cs arbitrary: st) (simp_all add: inv_step)

lemma clock_run: "clock st \<le> clock (fold step cs st)"
proof (induction cs arbitrary: st)
  case (Cons c cs)
  show ?case using Cons [of "step c st"] clock_step [of st c] by simp
qed simp

lemma holder_run:
  "inv st \<Longrightarrow> holder st k = Some (ow, i, t) \<Longrightarrow> list_all (\<lambda>c. \<not> touches c ow i) cs \<Longrightarrow> clock (fold step cs st) < t \<Longrightarrow>
    holder (fold step cs st) k = Some (ow, i, t)"
proof (induction cs arbitrary: st)
  case (Cons c cs)
  have "clock (step c st) < t" using Cons.prems(4) clock_run [of "step c st" cs] by simp
  then show ?case using Cons inv_step holder_step by simp
qed simp

end

interpretation fence: lease_store run_command relay_wf rq_now fence_of touches_claim
proof
  show "rq_now st \<le> rq_now (run_command c st)" for st c
    by (simp add: run_command_now split: queue_command.split)
qed (simp_all add: command_step holder_protected)

section \<open>Inputs\<close>

lemma run_command_inputs:
  assumes "p \<in> set (rq_inputs st)" "pi_status p \<noteq> ''pending''"
  shows "p \<in> set (rq_inputs (run_command cmd st))"
proof -
  have upd: "p \<in> set (rq_inputs (upd_pending t i f st))" for t i f
    using assms by (auto simp: upd_pending_def set_upd_rows image_iff)
  show ?thesis
  proof (cases cmd)
    case (Claim w ow f s)
    then show ?thesis using assms(1)
      by (auto simp: claim_pending_input_for_workspace_def Let_def set_lease_rows split: option.splits)
  next
    case (Renew c s)
    obtain r st' where "renew_pending_input_claim c s st = (r, st')" by fastforce
    then show ?thesis using renew_leases [of c s st r st'] Renew assms(1) by simp
  qed (use assms(1) upd in \<open>auto simp: queue_pending_input_def mark_pending_input_steered_def mark_pending_input_consumed_def
      cancel_pending_input_def release_pending_input_claim_def consume_pending_input_claim_def
      claim_workspace_creation_lease_def release_workspace_creation_lease_def Let_def\<close>)
qed

lemma command_input_ids:
  assumes "relay_wf st"
  shows "ids_ok pi_id (rq_inputs (run_command cmd st)) (rq_next_input (run_command cmd st))"
  using command_step [OF assms] by (simp add: relay_wf_def)

lemma consume_ok:
  assumes "consume_pending_input_claim c r st = (Inr p, st')"
  obtains q p0 where "q \<in> set (rq_leases st)" "owns_lease c q" "lease_is_active (ql_expires_at q) (rq_now st)"
    "p0 \<in> set (rq_inputs st)" "pi_id p0 = pi_id (pc_input c)" "pi_task_id p0 = pi_task_id (pc_input c)" "pi_status p0 = ''pending''"
proof -
  let ?P = "\<lambda>p. pi_id p = pi_id (pc_input c) \<and> pi_task_id p = pi_task_id (pc_input c) \<and> pi_status p = ''pending''"
  from assms obtain q where "q \<in> set (rq_leases st)" "owns_lease c q" "lease_is_active (ql_expires_at q) (rq_now st)"
    by (auto simp: consume_pending_input_claim_def Let_def split: if_splits)
  moreover have "length (filter ?P (rq_inputs st)) = 1"
    using assms by (auto simp: consume_pending_input_claim_def Let_def split: if_splits)
  then obtain p0 where "filter ?P (rq_inputs st) = [p0]" by (auto simp: length_Suc_conv)
  then have "p0 \<in> set (rq_inputs st)" "?P p0" by (auto simp: filter_eq_Cons_iff)
  ultimately show thesis using that by blast
qed

lemma run_commands_inputs:
  "p \<in> set (rq_inputs st) \<Longrightarrow> pi_status p \<noteq> ''pending'' \<Longrightarrow> p \<in> set (rq_inputs (fold run_command cmds st))"
  by (induction cmds arbitrary: st) (simp_all add: run_command_inputs)

lemma consume_result:
  assumes wf: "relay_wf st" and c: "consume_pending_input_claim c r st = (Inr p, st')"
  shows "p \<in> set (rq_inputs st')" "pi_id p = pi_id (pc_input c)" "pi_status p = ''consumed''" "pi_consumed_round_id p = Some r"
proof -
  obtain q p0 where p0: "p0 \<in> set (rq_inputs st)" "pi_id p0 = pi_id (pc_input c)" "pi_task_id p0 = pi_task_id (pc_input c)"
    "pi_status p0 = ''pending''" by (rule consume_ok [OF c])
  let ?u = "p0\<lparr>pi_status := ''consumed'', pi_consumed_round_id := Some r, pi_updated_at := rq_now st\<rparr>"
  have ins: "rq_inputs st' = rq_inputs (upd_pending (pi_task_id (pc_input c)) (pi_id (pc_input c))
      (\<lambda>p. p\<lparr>pi_status := ''consumed'', pi_consumed_round_id := Some r\<rparr>) st)"
    and f: "find (\<lambda>p. pi_id p = pi_id (pc_input c)) (rq_inputs st') = Some p"
    using c by (auto simp: consume_pending_input_claim_def Let_def split: if_splits option.splits)
  from f show p: "p \<in> set (rq_inputs st')" and id: "pi_id p = pi_id (pc_input c)" by (auto dest: find_SomeD)
  have "?u \<in> set (rq_inputs st')" using p0 by (force simp: ins upd_pending_def set_upd_rows)
  moreover have "ids_ok pi_id (rq_inputs st') (rq_next_input st')"
    using command_input_ids [OF wf, of "Consume c r"] c by simp
  ultimately have "p = ?u" using ids_ok_inj p id p0(2) by fastforce
  then show "pi_status p = ''consumed''" "pi_consumed_round_id p = Some r" by simp_all
qed

definition demo_queue :: relay_queue where
  "demo_queue = \<lparr>rq_now = 0, rq_tasks = [(1, ''app''), (2, [])], rq_inputs = [], rq_next_input = 1, rq_leases = [],
     rq_locks = [], rq_creation = []\<rparr>"

definition any_input :: claim_filter where
  "any_input = \<lparr>cf_task = None, cf_input = None, cf_through_round = None\<rparr>"

definition demo_cmds :: "queue_command list" where
  "demo_cmds = [QueueInput 1 ''first'' [] 1, Tick 5, QueueInput 1 ''second'' [] 1]"

definition demo_two :: relay_queue where
  "demo_two = fold run_command demo_cmds demo_queue"

definition demo_claim :: pending_input_claim where
  "demo_claim = (case claim_pending_input_for_workspace ''app '' ''w1'' any_input 10 demo_two of
     (Inr (Some c), _) \<Rightarrow> c | _ \<Rightarrow> \<lparr>pc_input = hd (rq_inputs demo_two), pc_workspace = [], pc_owner = [],
        pc_expires_at = None, pc_attempt_count = 0\<rparr>)"

definition demo_held :: relay_queue where
  "demo_held = run_command (Claim ''app '' ''w1'' any_input 10) demo_two"

lemma demo_wf: "relay_wf demo_two" "relay_wf demo_held"
proof -
  have "relay_wf demo_queue" by (simp add: relay_wf_def holds_def demo_queue_def)
  then show "relay_wf demo_two" unfolding demo_two_def by (rule fence.inv_run)
  then show "relay_wf demo_held" unfolding demo_held_def using command_step by blast
qed

section \<open>Properties\<close>

text \<open>C5. The relay queue implements a per-workspace fence. From an empty queue, after any sequence of operations with
  any arguments and any passing of time, each further operation leaves the tables well formed and is one step of
  the abstract fence: a free workspace is granted to one holder, the holder's time is changed, or holders go;
  the holder of a workspace is never exchanged in one step.\<close>

theorem relay_queue_refines_fence:
  assumes "rq_inputs st0 = []" "rq_leases st0 = []"
  shows "relay_wf (fold run_command cmds st0) \<and>
    fence_step (fence_of (fold run_command cmds st0)) (fence_of (run_command cmd (fold run_command cmds st0)))"
proof -
  have "relay_wf st0" using assms by (simp add: relay_wf_def holds_def)
  then show ?thesis using fence.inv_run command_step by blast
qed

theorem relay_queue_refines_fence_witness:
  "fence_step (fence_of demo_two) (fence_of demo_held) \<and> fence_of demo_two ''app'' = None \<and>
     fence_of demo_held ''app'' = Some (''w1'', 1, 10000005)"
proof -
  have "fence_step (fence_of demo_two) (fence_of demo_held)"
    using relay_queue_refines_fence [of demo_queue demo_cmds "Claim ''app '' ''w1'' any_input 10"]
    unfolding demo_two_def demo_held_def by (simp add: demo_queue_def)
  moreover have "fence_of demo_two ''app'' = None" "fence_of demo_held ''app'' = Some (''w1'', 1, 10000005)" by code_simp+
  ultimately show ?thesis by blast
qed

text \<open>C6. A lease protects its holder: while time has not run out, the holder of a workspace keeps it, with the same
  input and expiry, through any sequence of operations that do not name that owner and that input.\<close>

theorem relay_holder_protected:
  assumes "relay_wf st" "fence_of st ws = Some (ow, i, t)"
    and "list_all (\<lambda>cmd. \<not> touches_claim cmd ow i) cmds" "rq_now (fold run_command cmds st) < t"
  shows "fence_of (fold run_command cmds st) ws = Some (ow, i, t)"
  using assms by (rule fence.holder_run)

theorem relay_holder_protected_witness:
  "fence_of (fold run_command [Claim ''app'' ''w2'' any_input 60, Tick 9, CancelInput 1 2] demo_held) ''app'' =
     Some (''w1'', 1, 10000005)"
proof -
  let ?cmds = "[Claim ''app'' ''w2'' any_input 60, Tick 9, CancelInput 1 2]"
  have "fence_of demo_held ''app'' = Some (''w1'', 1, 10000005)"
    "list_all (\<lambda>cmd. \<not> touches_claim cmd ''w1'' 1) ?cmds"
    "rq_now (fold run_command ?cmds demo_held) < 10000005" by code_simp+
  then show ?thesis by (rule relay_holder_protected [OF demo_wf(2)])
qed

text \<open>A granted claim is the oldest eligible pending input of its workspace, its owner is the new holder of a
  workspace that was free, until the requested number of seconds from now; and nothing is granted exactly when
  an argument is blank, the workspace is fenced, or no pending input is eligible.\<close>

theorem relay_claim_oldest:
  assumes "relay_wf st" "claim_pending_input_for_workspace workspace lease_owner f secs st = (Inr r, st')"
  shows "(case r of
      Some c \<Rightarrow> pc_input c \<in> set (rq_inputs st) \<and> pi_status (pc_input c) = ''pending'' \<and>
        eligible st (strip workspace) f (pc_input c) \<and>
        (\<forall>p \<in> set (rq_inputs st). pi_status p = ''pending'' \<and> eligible st (strip workspace) f p \<longrightarrow>
           (pi_created_at (pc_input c), pi_id (pc_input c)) \<le> (pi_created_at p, pi_id p)) \<and>
        fence_of st (strip workspace) = None \<and>
        fence_of st' (strip workspace) =
          Some (strip lease_owner, pi_id (pc_input c), rq_now st + lease_seconds_of secs * 1000000)
    | None \<Rightarrow> strip workspace = [] \<or> strip lease_owner = [] \<or>
        (\<exists>k \<in> set (rq_locks st). qk_workspace k = strip workspace \<and> lease_is_active (qk_expires_at k) (rq_now st)) \<or>
        fence_of st (strip workspace) \<noteq> None \<or>
        (\<forall>p \<in> set (rq_inputs st). pi_status p = ''pending'' \<longrightarrow> \<not> eligible st (strip workspace) f p))"
proof (cases r)
  case (Some c)
  have c: "claim_pending_input_for_workspace workspace lease_owner f secs st = (Inr (Some c), st')"
    using assms(2) Some by simp
  note g = claim_got [OF c] and fe = claim_fence [OF assms(1) c]
  show ?thesis using find_sorted [OF g(5) [unfolded pending_rows_def]] fe g Some by auto
next
  case None
  have "fence_of st w = None \<longleftrightarrow> (\<forall>q \<in> set (rq_leases st). \<not> live_in_workspace st w q)" for w
    by (auto simp: fence_of_def find_None_iff)
  then show ?thesis using assms(2) None
    by (auto simp: claim_pending_input_for_workspace_def Let_def locks_ignored find_None_iff pending_rows_def
        split: if_splits option.splits)
qed

theorem relay_claim_oldest_witness:
  "pi_text (pc_input demo_claim) = ''first'' \<and> fence_of demo_held ''app'' = Some (''w1'', 1, 10000005)"
proof -
  have "claim_pending_input_for_workspace ''app '' ''w1'' any_input 10 demo_two = (Inr (Some demo_claim), demo_held)"
    and id: "pi_id (pc_input demo_claim) = 1" "strip ''app '' = ''app''" "strip ''w1'' = ''w1''"
      "rq_now demo_two + lease_seconds_of 10 * 1000000 = 10000005" "pi_text (pc_input demo_claim) = ''first''"
    by code_simp+
  from relay_claim_oldest [OF demo_wf(1) this(1)] id show ?thesis by simp
qed

text \<open>C11. An input is consumed at most once, and only under a live lease: a consumption that succeeds was made by the
  holder of the workspace on a pending input, leaves it consumed in the given round, and after any further
  operations that row is unchanged and no consumption of it succeeds again.\<close>

theorem relay_input_consumed_once:
  assumes "relay_wf st" "consume_pending_input_claim c r st = (Inr p, st')" "pc_owner c \<noteq> []"
  shows "(\<exists>t. fence_of st (pc_workspace c) = Some (pc_owner c, pi_id (pc_input c), t)) \<and>
    pi_status p = ''consumed'' \<and> pi_consumed_round_id p = Some r \<and>
    p \<in> set (rq_inputs (fold run_command cmds st')) \<and>
    (\<forall>c' r'. pi_id (pc_input c') = pi_id (pc_input c) \<longrightarrow>
       isl (fst (consume_pending_input_claim c' r' (fold run_command cmds st'))))"
proof -
  let ?st = "fold run_command cmds st'"
  note res = consume_result [OF assms(1,2)]
  have wf: "relay_wf st'" using command_step [OF assms(1), of "Consume c r"] assms(2) by simp
  have kept: "p \<in> set (rq_inputs ?st)" using run_commands_inputs res by simp
  have ids: "ids_ok pi_id (rq_inputs ?st) (rq_next_input ?st)"
    using fence.inv_run [OF wf] by (simp add: relay_wf_def)
  have again: "isl (fst (consume_pending_input_claim c' r' ?st))" if same: "pi_id (pc_input c') = pi_id (pc_input c)" for c' r'
  proof (rule ccontr)
    assume "\<not> ?thesis"
    then obtain p' st2 where "consume_pending_input_claim c' r' ?st = (Inr p', st2)"
      by (metis isl_def old.sum.exhaust prod.collapse)
    then obtain q p0 where "p0 \<in> set (rq_inputs ?st)" "pi_id p0 = pi_id (pc_input c')" "pi_status p0 = ''pending''"
      by (rule consume_ok)
    moreover from this have "p0 = p" using ids_ok_inj [OF ids] kept same res(2) by simp
    ultimately show False using res(3) by simp
  qed
  obtain q where q: "q \<in> set (rq_leases st)" "owns_lease c q" "lease_is_active (ql_expires_at q) (rq_now st)"
    by (rule consume_ok [OF assms(2)])
  then obtain t where "ql_expires_at q = Some t" "rq_now st < t" by (auto simp: lease_is_active_def split: option.splits)
  from lease_holder [OF assms(1) q(1) _ this] have "fence_of st (pc_workspace c) = Some (pc_owner c, pi_id (pc_input c), t)"
    using q(2) assms(3) by (simp add: owns_lease_def)
  then show ?thesis using res kept again by blast
qed

theorem relay_input_consumed_once_witness:
  "\<exists>p. fst (consume_pending_input_claim demo_claim 2 demo_held) = Inr p \<and> pi_consumed_round_id p = Some 2 \<and>
     isl (fst (consume_pending_input_claim demo_claim 3 (snd (consume_pending_input_claim demo_claim 2 demo_held))))"
proof -
  have "\<not> isl (fst (consume_pending_input_claim demo_claim 2 demo_held))" "pc_owner demo_claim \<noteq> []" by code_simp+
  then obtain p st' where c: "consume_pending_input_claim demo_claim 2 demo_held = (Inr p, st')"
    by (metis isl_def old.sum.exhaust prod.collapse)
  then show ?thesis
    using relay_input_consumed_once [OF demo_wf(2) c \<open>pc_owner demo_claim \<noteq> []\<close>, of "[]"] by auto
qed

end
