(* ===== verification/Watchdog.thy ===== *)
theory Watchdog
  imports Ledger Run_Queue
begin

text \<open>
  The task watchdog of \<^verbatim>\<open>wlcodex/watchdog.py\<close> and the health summary of \<^verbatim>\<open>wlcodex/health_snapshot.py\<close>. The
  backend's answer to \<open>health()\<close> (healthy or not, and its summary) is an argument that stays the same during
  one scan; \<open>stamp_text\<close> prints an instant.
\<close>

section \<open>State\<close>

record task_liveness_config =
  lc_max_running_seconds :: int
  lc_max_queued_seconds :: int
  lc_max_waiting_approval_seconds :: int
  lc_backend_dead_grace_seconds :: int

record watchdog =
  wd_ledger :: ledger
  wd_runtime_store :: "event_store option"
  wd_unhealthy_since :: "stamp option"

text \<open>\<open>int(delta.total_seconds())\<close> on a difference in microseconds.\<close>

definition whole_seconds :: "int \<Rightarrow> int" where
  "whole_seconds d = (if 0 \<le> d then d div 1000000 else - ((- d) div 1000000))"

definition threshold_for :: "task_liveness_config \<Rightarrow> task_status \<Rightarrow> int option" where
  "threshold_for c st =
     (if st = RUNNING then Some (lc_max_running_seconds c)
      else if st = QUEUED then Some (lc_max_queued_seconds c)
      else if st = WAITING_APPROVAL then None
      else None)"

section \<open>Timeout events\<close>

definition last_runtime_event_for_task :: "event_store \<Rightarrow> nat \<Rightarrow> runtime_event option" where
  "last_runtime_event_for_task st i = first_row (order_desc v_id (filter (\<lambda>e. v_task_id e = Some i) (es_events st)))"

definition elapsed_hard_seconds :: "event_store \<Rightarrow> nat option \<Rightarrow> int \<Rightarrow> stamp \<Rightarrow> int" where
  "elapsed_hard_seconds st run fallback now =
     (case run of
        None \<Rightarrow> fallback
      | Some r \<Rightarrow>
          (case first_row (sort_key v_id (filter (\<lambda>e. v_agent_run_id e = Some r \<and> v_event_type e = ''agent.run.started'')
                  (es_events st))) of
             None \<Rightarrow> fallback
           | Some e \<Rightarrow> max 0 (whole_seconds (now - v_occurred_at e))))"

definition opt_int_json :: "nat option \<Rightarrow> json" where
  "opt_int_json v = (case v of None \<Rightarrow> JNull | Some n \<Rightarrow> JInt (int n))"

definition watchdog_event ::
  "string \<Rightarrow> string \<Rightarrow> string \<Rightarrow> nat \<Rightarrow> nat option \<Rightarrow> nat option \<Rightarrow> nat option \<Rightarrow> dict \<Rightarrow> stamp \<Rightarrow> runtime_event" where
  "watchdog_event ty agg corr task conv run cause payload now =
     \<lparr>v_id = 0, v_event_type = ty, v_aggregate_type = ''agent_run'', v_aggregate_id = agg, v_conversation_id = conv,
      v_orchestration_run_id = None, v_agent_run_id = run, v_task_id = Some task, v_correlation_id = corr,
      v_causation_id = cause, v_source = ''watchdog'', v_actor = ''watchdog'', v_visibility = ''operator'',
      v_payload = payload, v_lease_expires_at = None, v_occurred_at = now\<rparr>"

definition emit_timeout_event ::
  "(string \<Rightarrow> string) \<Rightarrow> (stamp \<Rightarrow> string) \<Rightarrow> bool \<Rightarrow> nat option \<Rightarrow> nat \<Rightarrow> string \<Rightarrow> int \<Rightarrow> int \<Rightarrow> stamp
   \<Rightarrow> event_store \<Rightarrow> event_store" where
  "emit_timeout_event rt stamp_text healthy conversation task timeout_type threshold age now st =
     (let last = last_runtime_event_for_task st task;
          corr = ''watchdog-'' @ nat_str task @ ''-'' @ stamp_text (es_now st);
          run = (case last of None \<Rightarrow> None | Some e \<Rightarrow> v_agent_run_id e);
          conv = (case last of None \<Rightarrow> conversation
                  | Some e \<Rightarrow> (case v_conversation_id e of None \<Rightarrow> conversation | Some c \<Rightarrow> Some c));
          last_id = (case last of None \<Rightarrow> 0 | Some e \<Rightarrow> int (v_id e));
          last_type = (case last of None \<Rightarrow> [] | Some e \<Rightarrow> v_event_type e);
          idle = (case last of None \<Rightarrow> age | Some e \<Rightarrow> whole_seconds (now - v_occurred_at e));
          hard = elapsed_hard_seconds st run age now;
          status = (if healthy then ''healthy'' else ''unhealthy'');
          ty = (if timeout_type = ''hard'' then ''watchdog.hard_timeout'' else ''watchdog.idle_timeout'');
          agg = (case run of None \<Rightarrow> nat_str task | Some r \<Rightarrow> if r = 0 then nat_str task else nat_str r);
          (stored, st1) = append_event rt (watchdog_event ty agg corr task conv run None
            [(''task_id'', JInt (int task)), (''agent_run_id'', opt_int_json run), (''last_event_id'', JInt last_id),
             (''last_event_type'', JStr last_type), (''elapsed_hard_seconds'', JInt hard),
             (''elapsed_idle_seconds'', JInt (max 0 idle)), (''subprocess_status'', JStr status),
             (''timeout_type'', JStr timeout_type), (''threshold_seconds'', JInt threshold), (''age_seconds'', JInt age),
             (''reason'', JStr (''task timed out after '' @ int_str age @ ''s (limit '' @ int_str threshold @ ''s)''))]
            (es_now st)) st in
      case run of
        None \<Rightarrow> st1
      | Some r \<Rightarrow> snd (append_event rt (watchdog_event ''agent.run.timed_out'' (nat_str r) corr task conv run (Some (v_id stored))
            [(''agent_run_id'', JInt (int r)), (''reason'', JStr (timeout_type @ ''_timeout'')),
             (''threshold_seconds'', JInt threshold), (''last_event_id'', JInt last_id), (''last_event_type'', JStr last_type),
             (''elapsed_hard_seconds'', JInt hard), (''elapsed_idle_seconds'', JInt (max 0 idle)),
             (''subprocess_status'', JStr status)] (es_now st)) st1))"

section \<open>Scanning\<close>

definition is_stale :: "task_liveness_config \<Rightarrow> stamp \<Rightarrow> task \<Rightarrow> bool" where
  "is_stale c now t =
     (case threshold_for c (t_status t) of None \<Rightarrow> False | Some th \<Rightarrow> whole_seconds (now - t_updated_at t) > th)"

definition mark_stale_one ::
  "(string \<Rightarrow> string) \<Rightarrow> (stamp \<Rightarrow> string) \<Rightarrow> bool \<Rightarrow> nat option \<Rightarrow> task_liveness_config \<Rightarrow> stamp \<Rightarrow> task
   \<Rightarrow> nat \<times> watchdog \<Rightarrow> nat \<times> watchdog" where
  "mark_stale_one rt stamp_text healthy conversation c now t acc =
     (case (threshold_for c (t_status t), acc) of
        (None, _) \<Rightarrow> acc
      | (Some th, (n, w)) \<Rightarrow>
          let age = whole_seconds (now - t_updated_at t) in
          if age > th then
            (n + 1, w\<lparr>wd_ledger := mark_task_timeout (t_id t) (t_status t) age th (wd_ledger w),
                      wd_runtime_store := map_option (emit_timeout_event rt stamp_text healthy conversation (t_id t) ''hard'' th age now)
                        (wd_runtime_store w)\<rparr>)
          else acc)"

definition mark_stale_tasks ::
  "(string \<Rightarrow> string) \<Rightarrow> (stamp \<Rightarrow> string) \<Rightarrow> bool \<Rightarrow> nat option \<Rightarrow> task_liveness_config \<Rightarrow> stamp \<Rightarrow> watchdog \<Rightarrow> nat \<times> watchdog" where
  "mark_stale_tasks rt stamp_text healthy conversation c now w =
     fold (mark_stale_one rt stamp_text healthy conversation c now) (list_active_tasks 100 (wd_ledger w)) (0, w)"

definition mark_dead_one :: "string \<Rightarrow> task \<Rightarrow> nat \<times> ledger \<Rightarrow> nat \<times> ledger" where
  "mark_dead_one summary t acc =
     (case (t_codex_thread_id t, acc) of
        (Some (_ # _), (n, l)) \<Rightarrow> (n + 1, mark_backend_dead (t_id t) summary l)
      | _ \<Rightarrow> acc)"

definition mark_backend_dead_if_sustained :: "bool \<times> string \<Rightarrow> task_liveness_config \<Rightarrow> stamp \<Rightarrow> watchdog \<Rightarrow> nat \<times> watchdog" where
  "mark_backend_dead_if_sustained health c now w =
     (if fst health then (0, w\<lparr>wd_unhealthy_since := None\<rparr>)
      else case wd_unhealthy_since w of
        None \<Rightarrow> (0, w\<lparr>wd_unhealthy_since := Some now\<rparr>)
      | Some since \<Rightarrow>
          if whole_seconds (now - since) \<le> lc_backend_dead_grace_seconds c then (0, w)
          else let (n, l) = fold (mark_dead_one (snd health)) (list_active_tasks 100 (wd_ledger w)) (0, wd_ledger w)
               in (n, w\<lparr>wd_ledger := l\<rparr>))"

definition scan_once ::
  "(string \<Rightarrow> string) \<Rightarrow> (stamp \<Rightarrow> string) \<Rightarrow> bool \<times> string \<Rightarrow> nat option \<Rightarrow> task_liveness_config \<Rightarrow> stamp \<Rightarrow> watchdog \<Rightarrow> nat \<times> watchdog" where
  "scan_once rt stamp_text health conversation c now w =
     (let (a, w1) = mark_stale_tasks rt stamp_text (fst health) conversation c now w;
          (b, w2) = mark_backend_dead_if_sustained health c now w1
      in (a + b, w2))"

section \<open>Health snapshot\<close>

record health_snapshot =
  hs_backend_healthy :: bool
  hs_backend_summary :: string
  hs_active_task_count :: nat
  hs_queued_count :: nat
  hs_running_count :: nat
  hs_waiting_approval_count :: nat
  hs_paused_count :: nat
  hs_waiting_count :: nat
  hs_isolated_running_count :: nat

definition count_of :: "('a \<Rightarrow> bool) \<Rightarrow> 'a list \<Rightarrow> nat" where
  "count_of P xs = length (filter P xs)"

definition build_health_snapshot :: "bool \<times> string \<Rightarrow> ledger \<Rightarrow> health_snapshot" where
  "build_health_snapshot health l =
     (let active = list_active_tasks 100 l; all = list_tasks 100 False l in
      \<lparr>hs_backend_healthy = fst health, hs_backend_summary = snd health, hs_active_task_count = length active,
       hs_queued_count = count_of (\<lambda>t. t_status t = QUEUED) active,
       hs_running_count = count_of (\<lambda>t. t_status t = RUNNING) active,
       hs_waiting_approval_count = count_of (\<lambda>t. t_status t = WAITING_APPROVAL) active,
       hs_paused_count = count_of (\<lambda>t. t_status t = PAUSED) active,
       hs_waiting_count = count_of (\<lambda>t. t_status t = WAITING_SLOT) all,
       hs_isolated_running_count = count_of (\<lambda>t. t_worktree_path t \<noteq> [] \<and> is_active_status (t_status t)) all\<rparr>)"

section \<open>What a scan changes\<close>

definition limit_of :: "task_liveness_config \<Rightarrow> task \<Rightarrow> int" where
  "limit_of c t = (case threshold_for c (t_status t) of None \<Rightarrow> 0 | Some th \<Rightarrow> th)"

definition timed_out :: "task_liveness_config \<Rightarrow> stamp \<Rightarrow> stamp \<Rightarrow> task \<Rightarrow> task \<Rightarrow> task" where
  "timed_out c now clock u t =
     t\<lparr>t_status := FAILED, t_last_phase := ''timeout'', t_last_summary := [],
       t_last_error := take 240 (''task timed out in '' @ task_status_value (t_status u) @ '' after '' @
         int_str (whole_seconds (now - t_updated_at u)) @ ''s (limit '' @ int_str (limit_of c u) @ ''s)''),
       t_active_turn_id := None, t_updated_at := clock\<rparr>"

definition time_out :: "task_liveness_config \<Rightarrow> stamp \<Rightarrow> task \<Rightarrow> ledger \<Rightarrow> ledger" where
  "time_out c now u = mark_task_timeout (t_id u) (t_status u) (whole_seconds (now - t_updated_at u)) (limit_of c u)"

lemma time_out_fields:
  "l_tasks (time_out c now u l) = upd_rows (\<lambda>t. t_id t = t_id u) (timed_out c now (db_now l) u) (l_tasks l)"
  "db_now (time_out c now u l) = db_now l"
  by (simp_all add: time_out_def timed_out_def mark_task_timeout_def clear_active_turn_def set_task_status_def
      upd_task_def insert_event_def Let_def upd_rows_def comp_def)

lemma mark_stale_fold:
  "wd_ledger (snd (fold (mark_stale_one rt f healthy conv c now) ts (n, w))) =
     fold (time_out c now) (filter (is_stale c now) ts) (wd_ledger w)"
  "fst (fold (mark_stale_one rt f healthy conv c now) ts (n, w)) = n + length (filter (is_stale c now) ts)"
  "wd_unhealthy_since (snd (fold (mark_stale_one rt f healthy conv c now) ts (n, w))) = wd_unhealthy_since w"
  by (induction ts arbitrary: n w)
     (auto simp: mark_stale_one_def is_stale_def time_out_def limit_of_def Let_def split: option.splits)

lemma find_none_distinct: "u \<notin> f ` set us \<Longrightarrow> find (\<lambda>v. f v = u) us = None"
  by (auto simp: find_None_iff)

lemma time_out_all:
  assumes "distinct (map t_id us)"
  shows "l_tasks (fold (time_out c now) us l) =
    map (\<lambda>t. case find (\<lambda>u. t_id u = t_id t) us of None \<Rightarrow> t | Some u \<Rightarrow> timed_out c now (db_now l) u t) (l_tasks l)"
  using assms
proof (induction us arbitrary: l)
  case (Cons u us)
  have "find (\<lambda>v. t_id v = t_id u) us = None" using Cons.prems by (intro find_none_distinct) simp
  then show ?case
    using Cons by (auto simp: time_out_fields upd_rows_def timed_out_def split: option.splits)
qed (simp add: map_idI)

lemma active_mem: "t \<in> set (list_active_tasks n l) \<Longrightarrow> t \<in> set (l_tasks l) \<and> is_active_status (t_status t)"
  by (auto simp: list_active_tasks_def dest: in_set_takeD)

lemma active_distinct:
  assumes "ledger_wf l"
  shows "distinct (map t_id (filter P (list_active_tasks n l)))"
proof -
  have "distinct (map t_id (sort_key k (filter Q (l_tasks l))))" for k :: "task \<Rightarrow> stamp \<times> row_id" and Q
  proof -
    have "distinct (map t_id (filter Q (l_tasks l)))"
      using wf_distinct_tasks [OF assms] by (simp add: distinct_map_filter)
    then show ?thesis by (simp add: distinct_map)
  qed
  then have "distinct (map t_id (list_active_tasks n l))"
    unfolding list_active_tasks_def by (simp add: take_map [symmetric] distinct_take)
  then show ?thesis by (simp add: distinct_map_filter)
qed

lemma stale_rows:
  assumes "ledger_wf l"
  shows "l_tasks (fold (time_out c now) (filter (is_stale c now) (list_active_tasks n l)) l) =
    map (\<lambda>t. if t \<in> set (list_active_tasks n l) \<and> is_stale c now t then timed_out c now (db_now l) t t else t) (l_tasks l)"
proof -
  let ?us = "filter (is_stale c now) (list_active_tasks n l)"
  have "(case find (\<lambda>u. t_id u = t_id t) ?us of None \<Rightarrow> t | Some u \<Rightarrow> timed_out c now (db_now l) u t) =
      (if t \<in> set ?us then timed_out c now (db_now l) t t else t)" if "t \<in> set (l_tasks l)" for t
  proof (cases "find (\<lambda>u. t_id u = t_id t) ?us")
    case None
    then have "t \<notin> set ?us" by (auto simp: find_None_iff)
    with None show ?thesis by (simp del: set_filter)
  next
    case (Some u)
    then have u: "u \<in> set ?us" "t_id u = t_id t" by (auto dest: find_SomeD)
    then have "u \<in> set (l_tasks l)" using active_mem by auto
    then have "u = t" using wf_find_task [OF assms] that u(2) by (metis option.inject)
    then show ?thesis using Some u(1) by (simp del: set_filter)
  qed
  then show ?thesis using time_out_all [OF active_distinct [OF assms], of c now "is_stale c now" n l]
    by (auto intro: map_cong)
qed

end
