(* ===== verification/Watchdog_Properties.thy ===== *)
theory Watchdog_Properties
  imports Watchdog Task_Properties
begin

text \<open>
  The watchdog fails exactly the stale tasks it looks at, and blames the backend only after an unbroken
  stretch of unhealthy scans longer than the grace period.
\<close>

text \<open>A scan fails exactly the stale tasks among the hundred oldest active ones: each gets the timeout phase
  and error and loses its active turn, every other task is untouched, the reported number is the number of
  tasks failed, and only running and queued tasks can be stale.\<close>

theorem watchdog_times_out_exactly:
  assumes "ledger_wf (wd_ledger w)" and "mark_stale_tasks rt f healthy conv c now w = (n, w')"
  shows "l_tasks (wd_ledger w') =
      map (\<lambda>t. if t \<in> set (list_active_tasks 100 (wd_ledger w)) \<and> is_stale c now t
               then timed_out c now (db_now (wd_ledger w)) t t else t) (l_tasks (wd_ledger w)) \<and>
    n = length (filter (is_stale c now) (list_active_tasks 100 (wd_ledger w))) \<and>
    (\<forall>t. is_stale c now t \<longrightarrow> t_status t = RUNNING \<or> t_status t = QUEUED)"
proof -
  note m = mark_stale_fold [of rt f healthy conv c now "list_active_tasks 100 (wd_ledger w)" 0 w]
  have s: "snd (mark_stale_tasks rt f healthy conv c now w) = w'" "fst (mark_stale_tasks rt f healthy conv c now w) = n"
    by (simp_all add: assms(2))
  have "\<forall>t. is_stale c now t \<longrightarrow> t_status t = RUNNING \<or> t_status t = QUEUED"
    by (simp add: is_stale_def threshold_for_def)
  then show ?thesis
    using stale_rows [OF assms(1), of c now 100] m s unfolding mark_stale_tasks_def by simp
qed

definition demo_liveness :: task_liveness_config where
  "demo_liveness = \<lparr>lc_max_running_seconds = 10, lc_max_queued_seconds = 10, lc_max_waiting_approval_seconds = 10,
     lc_backend_dead_grace_seconds = 5\<rparr>"

definition demo_watchdog :: watchdog where
  "demo_watchdog = \<lparr>wd_ledger = demo_ledger [demo_task 1 RUNNING, demo_task 2 PAUSED], wd_runtime_store = None, wd_unhealthy_since = None\<rparr>"

theorem watchdog_times_out_exactly_witness:
  "map t_status (l_tasks (wd_ledger (snd (mark_stale_tasks (\<lambda>s. s) (\<lambda>_. []) True None demo_liveness 11000000 demo_watchdog)))) =
     [FAILED, PAUSED]"
proof -
  have "ledger_wf (wd_ledger demo_watchdog)" by code_simp
  from watchdog_times_out_exactly [OF this surjective_pairing, of "\<lambda>s. s" "\<lambda>_. []" True None demo_liveness 11000000]
  have "l_tasks (wd_ledger (snd (mark_stale_tasks (\<lambda>s. s) (\<lambda>_. []) True None demo_liveness 11000000 demo_watchdog))) =
    map (\<lambda>t. if t \<in> set (list_active_tasks 100 (wd_ledger demo_watchdog)) \<and> is_stale demo_liveness 11000000 t
         then timed_out demo_liveness 11000000 (db_now (wd_ledger demo_watchdog)) t t else t) (l_tasks (wd_ledger demo_watchdog))"
    by blast
  also have "map t_status \<dots> = [FAILED, PAUSED]" by code_simp
  finally show ?thesis .
qed

section \<open>Sustained unhealthiness\<close>

text \<open>A sequence of scans, each with the health it saw and its time.\<close>

definition run_scans ::
  "(string \<Rightarrow> string) \<Rightarrow> (stamp \<Rightarrow> string) \<Rightarrow> nat option \<Rightarrow> task_liveness_config \<Rightarrow> ((bool \<times> string) \<times> stamp) list
   \<Rightarrow> watchdog \<Rightarrow> watchdog" where
  "run_scans rt f conv c scans w = fold (\<lambda>(h, now) w. snd (scan_once rt f h conv c now w)) scans w"

text \<open>The specification: when the unbroken run of unhealthy scans at the end began.\<close>

definition unhealthy_block :: "((bool \<times> string) \<times> stamp) list \<Rightarrow> stamp option" where
  "unhealthy_block scans =
     (case takeWhile (\<lambda>(h, _). \<not> fst h) (rev scans) of [] \<Rightarrow> None | xs \<Rightarrow> Some (snd (last xs)))"

lemma scan_since:
  "wd_unhealthy_since (snd (scan_once rt f h conv c now w)) =
     (if fst h then None else case wd_unhealthy_since w of None \<Rightarrow> Some now | Some s \<Rightarrow> Some s)"
  using mark_stale_fold(3) [of rt f "fst h" conv c now "list_active_tasks 100 (wd_ledger w)" 0 w]
  by (auto simp: scan_once_def mark_stale_tasks_def mark_backend_dead_if_sustained_def Let_def case_prod_beta split: option.splits)

lemma block_snoc:
  "unhealthy_block (scans @ [(h, now)]) =
     (if fst h then None else case unhealthy_block scans of None \<Rightarrow> Some now | Some s \<Rightarrow> Some s)"
  by (auto simp: unhealthy_block_def split: list.splits)

text \<open>The backend is blamed only after sustained trouble: what the watchdog remembers is exactly when the
  unbroken run of unhealthy scans at the end began (one healthy scan forgets it), and it fails tasks as
  backend-dead only in an unhealthy scan more than the grace period after that moment.\<close>

theorem backend_dead_needs_sustained:
  assumes "wd_unhealthy_since w0 = None" and "w = run_scans rt f conv c scans w0"
    and "mark_backend_dead_if_sustained h c now w = (n, w')"
  shows "wd_unhealthy_since w = unhealthy_block scans \<and>
    (wd_ledger w' \<noteq> wd_ledger w \<longrightarrow> \<not> fst h \<and>
       (\<exists>s. unhealthy_block scans = Some s \<and> lc_backend_dead_grace_seconds c < whole_seconds (now - s)))"
proof -
  have s: "wd_unhealthy_since w = unhealthy_block scans"
    unfolding assms(2)
  proof (induction scans rule: rev_induct)
    case Nil
    then show ?case by (simp add: run_scans_def unhealthy_block_def assms(1))
  next
    case (snoc x xs)
    then show ?case by (cases x) (simp add: run_scans_def scan_since block_snoc)
  qed
  moreover have "\<not> fst h \<and> (\<exists>s. wd_unhealthy_since w = Some s \<and> lc_backend_dead_grace_seconds c < whole_seconds (now - s))"
    if "wd_ledger w' \<noteq> wd_ledger w"
    using assms(3) that by (auto simp: mark_backend_dead_if_sustained_def split: if_splits option.splits)
  ultimately show ?thesis by simp
qed

theorem backend_dead_needs_sustained_witness:
  "wd_unhealthy_since (run_scans (\<lambda>s. s) (\<lambda>_. []) None demo_liveness
     [((False, []), 1), ((True, []), 2), ((False, []), 3), ((False, []), 4)] demo_watchdog) = Some 3"
proof -
  have "wd_unhealthy_since demo_watchdog = None" by (simp add: demo_watchdog_def)
  from backend_dead_needs_sustained [OF this refl surjective_pairing, of "\<lambda>s. s" "\<lambda>_. []" None demo_liveness
      "[((False, []), 1), ((True, []), 2), ((False, []), 3), ((False, []), 4)]" "(True, [])" 4]
  show ?thesis by (simp add: unhealthy_block_def)
qed

end
