(* ===== verification/Runtime_State.thy ===== *)
theory Runtime_State
  imports Run_Queue
begin

text \<open>
  The replay reducers of \<^verbatim>\<open>wlcodex/runtime_state.py\<close>: from the event log to the state of orchestrations, agents,
  approvals and conversations, to the per-chat surface state and to the workbench state. The reducers mutate
  dataclasses held in dictionaries; here a dictionary is an association list in insertion order and an update
  writes the changed object back under its key. \<open>int(...)\<close> of a payload value that has no integer value raises,
  and the replay with it: the left injection carries the value.
\<close>

section \<open>Reading events\<close>

text \<open>A time attribute is the \<open>occurred_at\<close> of an event or a text from a payload; the initial value is the empty text.\<close>

datatype time_text = At stamp | Text string

definition pstr :: "runtime_event \<Rightarrow> string \<Rightarrow> string \<Rightarrow> string" where
  "pstr e k d = py_str (dget (v_payload e) k (JStr d))"

definition pint :: "runtime_event \<Rightarrow> string \<Rightarrow> int \<Rightarrow> json + int" where
  "pint e k d = (let v = dget (v_payload e) k (JInt d) in case py_int v of None \<Rightarrow> Inl v | Some n \<Rightarrow> Inr n)"

text \<open>\<open>a or b\<close> for optional row ids.\<close>

definition id_or :: "nat option \<Rightarrow> nat option \<Rightarrow> nat option" where
  "id_or a b = (case a of Some n \<Rightarrow> if n = 0 then b else a | None \<Rightarrow> b)"

text \<open>The loop over the values of a dictionary that updates the first hit and breaks.\<close>

definition upd_first :: "('v \<Rightarrow> bool) \<Rightarrow> ('v \<Rightarrow> 'v) \<Rightarrow> ('k \<times> 'v) list \<Rightarrow> ('k \<times> 'v) list" where
  "upd_first P f d = (case find (\<lambda>(k, v). P v) d of None \<Rightarrow> d | Some (k, v) \<Rightarrow> dset k (f v) d)"

definition upd_firstE :: "('v \<Rightarrow> bool) \<Rightarrow> ('v \<Rightarrow> 'e + 'v) \<Rightarrow> ('k \<times> 'v) list \<Rightarrow> 'e + ('k \<times> 'v) list" where
  "upd_firstE P f d =
     (case find (\<lambda>(k, v). P v) d of None \<Rightarrow> Inr d | Some (k, v) \<Rightarrow> bindE (f v) (\<lambda>w. Inr (dset k w d)))"

text \<open>Equality of JSON values: \<open>True == 1\<close>, and dictionaries compare without their order.\<close>

fun json_norm :: "json \<Rightarrow> json" where
  "json_norm (JBool b) = JInt (if b then 1 else 0)"
| "json_norm (JList vs) = JList (map json_norm vs)"
| "json_norm (JDict d) = JDict (sort_key fst (map (\<lambda>(k, v). (k, json_norm v)) d))"
| "json_norm v = v"

definition py_eq :: "json \<Rightarrow> json \<Rightarrow> bool" where
  "py_eq a b \<longleftrightarrow> json_norm a = json_norm b"

section \<open>State\<close>

definition agent_terminal_states :: "string list" where
  "agent_terminal_states = [''completed'', ''failed'', ''timed_out'', ''cancelled'', ''orphaned'']"

definition orchestration_terminal_states :: "string list" where
  "orchestration_terminal_states = [''completed'', ''failed'', ''cancelled'']"

definition approval_terminal_states :: "string list" where
  "approval_terminal_states = [''resolved'', ''expired'', ''cancelled'']"

definition replay_conversation_terminal_states :: "string list" where
  "replay_conversation_terminal_states = [''passed'', ''failed'', ''aborted'', ''done'']"

definition orch_phase_to_conversation_state :: "(string \<times> string) list" where
  "orch_phase_to_conversation_state =
     [(''queued'', ''new''), (''running_analysis'', ''analysis''), (''running_implementation'', ''implementation''),
      (''running_verification'', ''verification''), (''retrying_implementation'', ''implementation''),
      (''completed'', ''passed''), (''failed'', ''failed''), (''cancelled'', ''aborted'')]"

definition agent_status_map :: "(string \<times> string) list" where
  "agent_status_map =
     [(''agent.run.queued'', ''queued''), (''agent.run.started'', ''running''), (''agent.run.activity'', ''running''),
      (''agent.run.heartbeat'', ''running''), (''agent.run.waiting_for_approval'', ''waiting_for_approval''),
      (''agent.run.completed'', ''completed''), (''agent.run.failed'', ''failed''),
      (''agent.run.timed_out'', ''timed_out''), (''agent.run.orphaned'', ''orphaned'')]"

definition valid_orchestration_phases :: "string list" where
  "valid_orchestration_phases =
     [''queued'', ''running_analysis'', ''running_implementation'', ''running_verification'', ''retrying_implementation'',
      ''completed'', ''failed'', ''cancelled'', ''needs_recovery'']"

record runtime_agent_state =
  ag_aggregate_id :: string
  ag_agent :: string
  ag_role :: string
  ag_status :: string
  ag_conversation_id :: "nat option"
  ag_orchestration_run_id :: "nat option"
  ag_agent_run_id :: "nat option"
  ag_task_id :: "nat option"
  ag_last_activity_id :: nat
  ag_last_activity_type :: string
  ag_last_activity_at :: time_text
  ag_started_at :: time_text
  ag_completed_at :: time_text
  ag_completion_summary :: string
  ag_token_input :: int
  ag_token_output :: int
  ag_cached_input_tokens :: int
  ag_reasoning_output_tokens :: int
  ag_total_tokens :: int
  ag_model :: string
  ag_external_session_id :: string
  ag_idle_timeout_at :: time_text
  ag_hard_timeout_at :: time_text

definition new_agent_state :: "string \<Rightarrow> runtime_agent_state" where
  "new_agent_state i = \<lparr>ag_aggregate_id = i, ag_agent = [], ag_role = [], ag_status = ''queued'',
     ag_conversation_id = None, ag_orchestration_run_id = None, ag_agent_run_id = None, ag_task_id = None,
     ag_last_activity_id = 0, ag_last_activity_type = [], ag_last_activity_at = Text [], ag_started_at = Text [],
     ag_completed_at = Text [], ag_completion_summary = [], ag_token_input = 0, ag_token_output = 0,
     ag_cached_input_tokens = 0, ag_reasoning_output_tokens = 0, ag_total_tokens = 0, ag_model = [],
     ag_external_session_id = [], ag_idle_timeout_at = Text [], ag_hard_timeout_at = Text []\<rparr>"

definition agent_is_terminal :: "runtime_agent_state \<Rightarrow> bool" where
  "agent_is_terminal a \<longleftrightarrow> ag_status a \<in> set agent_terminal_states"

record runtime_orchestration_state =
  oc_aggregate_id :: string
  oc_goal :: string
  oc_status :: string
  oc_current_phase :: string
  oc_verify_round :: int
  oc_max_verify_rounds :: int
  oc_conversation_id :: "nat option"
  oc_orchestration_run_id :: "nat option"
  oc_last_codex_analysis :: string
  oc_last_claude_summary :: string
  oc_last_verification_result :: string
  oc_last_event_id :: nat
  oc_last_event_type :: string
  oc_last_event_at :: time_text
  oc_started_at :: time_text
  oc_completed_at :: time_text
  oc_failure_reason :: string
  oc_last_active_agent :: string

definition new_orchestration_state :: "string \<Rightarrow> runtime_orchestration_state" where
  "new_orchestration_state i = \<lparr>oc_aggregate_id = i, oc_goal = [], oc_status = ''queued'', oc_current_phase = [],
     oc_verify_round = 0, oc_max_verify_rounds = 0, oc_conversation_id = None, oc_orchestration_run_id = None,
     oc_last_codex_analysis = [], oc_last_claude_summary = [], oc_last_verification_result = [], oc_last_event_id = 0,
     oc_last_event_type = [], oc_last_event_at = Text [], oc_started_at = Text [], oc_completed_at = Text [],
     oc_failure_reason = [], oc_last_active_agent = []\<rparr>"

definition orchestration_is_terminal :: "runtime_orchestration_state \<Rightarrow> bool" where
  "orchestration_is_terminal o1 \<longleftrightarrow> oc_status o1 \<in> set orchestration_terminal_states"

record runtime_approval_state =
  pa_aggregate_id :: string
  pa_status :: string
  pa_kind :: string
  pa_summary :: string
  pa_command_summary :: string
  pa_tool_name :: string
  pa_conversation_id :: "nat option"
  pa_orchestration_run_id :: "nat option"
  pa_agent_run_id :: "nat option"
  pa_task_id :: "nat option"
  pa_decision :: string
  pa_resolver :: string
  pa_telegram_callback_id :: string
  pa_requested_at :: time_text
  pa_resolved_at :: time_text
  pa_error :: string

definition new_approval_state :: "string \<Rightarrow> runtime_approval_state" where
  "new_approval_state i = \<lparr>pa_aggregate_id = i, pa_status = ''requested'', pa_kind = [], pa_summary = [],
     pa_command_summary = [], pa_tool_name = [], pa_conversation_id = None, pa_orchestration_run_id = None,
     pa_agent_run_id = None, pa_task_id = None, pa_decision = [], pa_resolver = [], pa_telegram_callback_id = [],
     pa_requested_at = Text [], pa_resolved_at = Text [], pa_error = []\<rparr>"

definition approval_is_terminal :: "runtime_approval_state \<Rightarrow> bool" where
  "approval_is_terminal a \<longleftrightarrow> pa_status a \<in> set approval_terminal_states"

record pending_item =
  pn_telegram_message_id :: json
  pn_text_preview :: string
  pn_delivery_policy :: string
  pn_at :: time_text

record runtime_conversation_state =
  cs_aggregate_id :: string
  cs_conversation_id :: "nat option"
  cs_chat_id :: int
  cs_state :: string
  cs_title :: string
  cs_mode :: string
  cs_workspace_alias :: string
  cs_active_task_id :: "nat option"
  cs_pending_context :: "pending_item list"
  cs_last_event_id :: nat
  cs_last_event_type :: string
  cs_last_event_at :: time_text
  cs_started_at :: time_text
  cs_closed_at :: time_text
  cs_has_pass_verification :: bool

definition new_conversation_state :: "string \<Rightarrow> runtime_conversation_state" where
  "new_conversation_state i = \<lparr>cs_aggregate_id = i, cs_conversation_id = None, cs_chat_id = 0, cs_state = ''new'',
     cs_title = [], cs_mode = [], cs_workspace_alias = [], cs_active_task_id = None, cs_pending_context = [],
     cs_last_event_id = 0, cs_last_event_type = [], cs_last_event_at = Text [], cs_started_at = Text [],
     cs_closed_at = Text [], cs_has_pass_verification = False\<rparr>"

definition conversation_is_terminal :: "runtime_conversation_state \<Rightarrow> bool" where
  "conversation_is_terminal c \<longleftrightarrow> cs_state c \<in> set replay_conversation_terminal_states"

record token_total =
  tt_input_tokens :: int
  tt_output_tokens :: int
  tt_cached_input_tokens :: int
  tt_reasoning_output_tokens :: int
  tt_total_tokens :: int
  tt_requests :: int

definition zero_total :: token_total where
  "zero_total = \<lparr>tt_input_tokens = 0, tt_output_tokens = 0, tt_cached_input_tokens = 0, tt_reasoning_output_tokens = 0,
     tt_total_tokens = 0, tt_requests = 0\<rparr>"

record runtime_snapshot =
  sn_agents :: "(string \<times> runtime_agent_state) list"
  sn_orchestrations :: "(string \<times> runtime_orchestration_state) list"
  sn_approvals :: "(string \<times> runtime_approval_state) list"
  sn_conversations :: "(string \<times> runtime_conversation_state) list"
  sn_token_totals :: "(string \<times> token_total) list"
  sn_last_event_id :: nat
  sn_last_event_at :: time_text

definition empty_snapshot :: runtime_snapshot where
  "empty_snapshot = \<lparr>sn_agents = [], sn_orchestrations = [], sn_approvals = [], sn_conversations = [],
     sn_token_totals = [], sn_last_event_id = 0, sn_last_event_at = Text []\<rparr>"

definition active_conversation_for_chat :: "runtime_snapshot \<Rightarrow> int \<Rightarrow> runtime_conversation_state option" where
  "active_conversation_for_chat s chat =
     find (\<lambda>c. cs_chat_id c = chat \<and> \<not> conversation_is_terminal c) (map snd (sn_conversations s))"

section \<open>Orchestrations\<close>

definition propagate_conversation_state :: "runtime_event \<Rightarrow> string \<Rightarrow> runtime_snapshot \<Rightarrow> runtime_snapshot" where
  "propagate_conversation_state e state s =
     (if v_conversation_id e = None then s
      else s\<lparr>sn_conversations := upd_first
        (\<lambda>c. cs_conversation_id c = v_conversation_id e \<and> \<not> conversation_is_terminal c)
        (\<lambda>c. c\<lparr>cs_state := state, cs_last_event_id := v_id e, cs_last_event_at := At (v_occurred_at e)\<rparr>)
        (sn_conversations s)\<rparr>)"

definition put_orchestration :: "runtime_orchestration_state \<Rightarrow> string \<Rightarrow> runtime_snapshot \<Rightarrow> runtime_snapshot" where
  "put_orchestration oc i s = s\<lparr>sn_orchestrations := dset i oc (sn_orchestrations s)\<rparr>"

definition touch_orchestration :: "runtime_event \<Rightarrow> runtime_orchestration_state \<Rightarrow> runtime_orchestration_state" where
  "touch_orchestration e oc =
     oc\<lparr>oc_last_event_id := v_id e, oc_last_event_type := v_event_type e, oc_last_event_at := At (v_occurred_at e),
       oc_conversation_id := id_or (v_conversation_id e) (oc_conversation_id oc),
       oc_orchestration_run_id := id_or (v_orchestration_run_id e) (oc_orchestration_run_id oc)\<rparr>"

definition on_phase_changed :: "runtime_event \<Rightarrow> runtime_orchestration_state \<Rightarrow> runtime_snapshot \<Rightarrow> json + runtime_snapshot" where
  "on_phase_changed e oc s =
     (let i = v_aggregate_id e; phase = pstr e ''phase'' [] in
      bindE (pint e ''verify_round'' (oc_verify_round oc)) (\<lambda>n.
        let oc' = oc\<lparr>oc_current_phase := (if phase \<in> set valid_orchestration_phases then phase else oc_current_phase oc),
              oc_verify_round := n,
              oc_last_codex_analysis := pstr e ''codex_analysis'' (oc_last_codex_analysis oc),
              oc_last_claude_summary := pstr e ''claude_summary'' (oc_last_claude_summary oc)\<rparr>;
            s' = put_orchestration oc' i s in
        Inr (case map_of orch_phase_to_conversation_state phase of
               None \<Rightarrow> s' | Some st \<Rightarrow> propagate_conversation_state e st s')))"

definition on_run_completed :: "runtime_event \<Rightarrow> runtime_orchestration_state \<Rightarrow> runtime_snapshot \<Rightarrow> runtime_snapshot" where
  "on_run_completed e oc s =
     (if oc_last_verification_result oc \<noteq> ''pass'' then
        propagate_conversation_state e ''failed''
          (put_orchestration (oc\<lparr>oc_status := ''failed'', oc_completed_at := At (v_occurred_at e),
             oc_failure_reason := ''run_completed_without_verification_pass'', oc_current_phase := ''failed''\<rparr>) (v_aggregate_id e) s)
      else
        propagate_conversation_state e ''passed''
          (put_orchestration (oc\<lparr>oc_status := ''completed'', oc_completed_at := At (v_occurred_at e),
             oc_current_phase := ''completed''\<rparr>) (v_aggregate_id e) s))"

definition run_end_events :: "string list" where
  "run_end_events = [''run.completed'', ''run.failed'', ''run.cancelled'']"

definition apply_orchestration_event :: "runtime_event \<Rightarrow> runtime_snapshot \<Rightarrow> json + runtime_snapshot" where
  "apply_orchestration_event e s =
     (let i = v_aggregate_id e; ty = v_event_type e;
          oc0 = (case map_of (sn_orchestrations s) i of None \<Rightarrow> new_orchestration_state i | Some oc \<Rightarrow> oc) in
      if orchestration_is_terminal oc0 \<and> ty \<notin> set run_end_events then Inr (put_orchestration oc0 i s)
      else let oc = touch_orchestration e oc0; at = At (v_occurred_at e) in
        if ty = ''run.requested'' then
          bindE (pint e ''max_verify_rounds'' (oc_max_verify_rounds oc)) (\<lambda>n.
            Inr (put_orchestration (oc\<lparr>oc_status := ''queued'', oc_goal := pstr e ''goal'' (oc_goal oc), oc_max_verify_rounds := n\<rparr>) i s))
        else if ty = ''run.started'' then
          Inr (put_orchestration (oc\<lparr>oc_status := ''running'', oc_started_at := at,
            oc_current_phase := pstr e ''phase'' ''running_analysis'', oc_goal := pstr e ''goal'' (oc_goal oc)\<rparr>) i s)
        else if ty = ''run.phase.changed'' then on_phase_changed e oc s
        else if ty = ''run.completed'' then Inr (on_run_completed e oc s)
        else if ty = ''run.failed'' then
          Inr (propagate_conversation_state e ''failed''
            (put_orchestration (oc\<lparr>oc_status := ''failed'', oc_completed_at := at, oc_failure_reason := pstr e ''reason'' [],
               oc_last_active_agent := pstr e ''last_active_agent'' (oc_last_active_agent oc)\<rparr>) i s))
        else if ty = ''run.recovery.required'' then
          Inr (propagate_conversation_state e ''needs_recovery''
            (put_orchestration (oc\<lparr>oc_status := ''needs_user'', oc_current_phase := ''needs_recovery'',
               oc_failure_reason := pstr e ''reason'' ''runtime hand-off requires recovery''\<rparr>) i s))
        else if ty = ''run.cancelled'' then
          Inr (propagate_conversation_state e ''aborted''
            (put_orchestration (oc\<lparr>oc_status := ''cancelled'', oc_completed_at := at\<rparr>) i s))
        else Inr (put_orchestration oc i s))"

section \<open>Agents and usage\<close>

definition agent_end_events :: "string list" where
  "agent_end_events = [''agent.run.completed'', ''agent.run.failed'', ''agent.run.timed_out'', ''agent.run.orphaned'']"

definition touch_agent :: "runtime_event \<Rightarrow> runtime_agent_state \<Rightarrow> runtime_agent_state" where
  "touch_agent e a =
     a\<lparr>ag_last_activity_id := v_id e, ag_last_activity_type := v_event_type e, ag_last_activity_at := At (v_occurred_at e),
       ag_conversation_id := id_or (v_conversation_id e) (ag_conversation_id a),
       ag_orchestration_run_id := id_or (v_orchestration_run_id e) (ag_orchestration_run_id a),
       ag_agent_run_id := id_or (v_agent_run_id e) (ag_agent_run_id a),
       ag_task_id := id_or (v_task_id e) (ag_task_id a),
       ag_agent := (if ag_agent a = [] then pstr e ''agent'' [] else ag_agent a),
       ag_role := (if ag_role a = [] then pstr e ''role'' [] else ag_role a),
       ag_status := (case map_of agent_status_map (v_event_type e) of None \<Rightarrow> ag_status a | Some st \<Rightarrow> st)\<rparr>"

definition finish_agent :: "runtime_event \<Rightarrow> runtime_agent_state \<Rightarrow> runtime_agent_state" where
  "finish_agent e a =
     (let ty = v_event_type e; at = At (v_occurred_at e) in
      if ty = ''agent.run.started'' then
        a\<lparr>ag_started_at := (if ag_started_at a = Text [] then at else ag_started_at a),
          ag_external_session_id := pstr e ''external_session_id'' (ag_external_session_id a)\<rparr>
      else if ty = ''agent.run.completed'' then
        a\<lparr>ag_completed_at := at,
          ag_completion_summary := py_str (dget (v_payload e) ''summary'' (dget (v_payload e) ''completion_summary'' (JStr [])))\<rparr>
      else if ty = ''agent.run.failed'' then a\<lparr>ag_completed_at := at\<rparr>
      else if ty = ''agent.run.timed_out'' then
        a\<lparr>ag_completed_at := at, ag_idle_timeout_at := Text (pstr e ''idle_timeout_at'' []),
          ag_hard_timeout_at := Text (pstr e ''hard_timeout_at'' [])\<rparr>
      else if ty = ''agent.run.orphaned'' then a\<lparr>ag_completed_at := at\<rparr>
      else a)"

definition apply_agent_event :: "runtime_event \<Rightarrow> runtime_snapshot \<Rightarrow> runtime_snapshot" where
  "apply_agent_event e s =
     (let i = v_aggregate_id e;
          a = (case map_of (sn_agents s) i of None \<Rightarrow> new_agent_state i | Some a \<Rightarrow> a);
          a' = (if agent_is_terminal a \<and> v_event_type e \<notin> set agent_end_events then a
                else finish_agent e (touch_agent e a)) in
      s\<lparr>sn_agents := dset i a' (sn_agents s)\<rparr>)"

definition add_usage :: "int \<Rightarrow> int \<Rightarrow> int \<Rightarrow> int \<Rightarrow> int \<Rightarrow> token_total \<Rightarrow> token_total" where
  "add_usage i u c r t x =
     x\<lparr>tt_input_tokens := tt_input_tokens x + i, tt_output_tokens := tt_output_tokens x + u,
       tt_cached_input_tokens := tt_cached_input_tokens x + c, tt_reasoning_output_tokens := tt_reasoning_output_tokens x + r,
       tt_total_tokens := tt_total_tokens x + t, tt_requests := tt_requests x + 1\<rparr>"

definition add_agent_usage ::
  "runtime_event \<Rightarrow> int \<Rightarrow> int \<Rightarrow> int \<Rightarrow> int \<Rightarrow> int \<Rightarrow> runtime_agent_state \<Rightarrow> runtime_agent_state" where
  "add_agent_usage e i u c r t a =
     a\<lparr>ag_token_input := ag_token_input a + i, ag_token_output := ag_token_output a + u,
       ag_cached_input_tokens := ag_cached_input_tokens a + c,
       ag_reasoning_output_tokens := ag_reasoning_output_tokens a + r,
       ag_total_tokens := ag_total_tokens a + t, ag_model := pstr e ''model'' (ag_model a)\<rparr>"

definition usage_agent :: "runtime_event \<Rightarrow> string" where
  "usage_agent e = pstr e ''agent'' (v_actor e)"

definition apply_usage_event :: "runtime_event \<Rightarrow> runtime_snapshot \<Rightarrow> json + runtime_snapshot" where
  "apply_usage_event e s =
     bindE (pint e ''input_tokens'' 0) (\<lambda>i.
     bindE (pint e ''output_tokens'' 0) (\<lambda>u.
     bindE (pint e ''total_tokens'' (i + u)) (\<lambda>t.
     bindE (pint e ''cached_input_tokens'' 0) (\<lambda>c.
     bindE (pint e ''reasoning_output_tokens'' 0) (\<lambda>r.
       let agents = (if v_agent_run_id e = None then sn_agents s
             else upd_first (\<lambda>a. ag_agent_run_id a = v_agent_run_id e)
               (add_agent_usage e i u c r t) (sn_agents s));
           name = usage_agent e;
           old = (case map_of (sn_token_totals s) name of None \<Rightarrow> zero_total | Some x \<Rightarrow> x) in
       Inr (s\<lparr>sn_agents := agents, sn_token_totals := dset name (add_usage i u c r t old) (sn_token_totals s)\<rparr>))))))"

section \<open>Approvals, timeouts, verification\<close>

definition apply_approval_event :: "runtime_event \<Rightarrow> runtime_snapshot \<Rightarrow> runtime_snapshot" where
  "apply_approval_event e s =
     (let i = v_aggregate_id e; ty = v_event_type e; at = At (v_occurred_at e);
          a0 = (case map_of (sn_approvals s) i of None \<Rightarrow> new_approval_state i | Some a \<Rightarrow> a);
          a = a0\<lparr>pa_conversation_id := id_or (v_conversation_id e) (pa_conversation_id a0),
                 pa_orchestration_run_id := id_or (v_orchestration_run_id e) (pa_orchestration_run_id a0),
                 pa_agent_run_id := id_or (v_agent_run_id e) (pa_agent_run_id a0),
                 pa_task_id := id_or (v_task_id e) (pa_task_id a0)\<rparr>;
          a' = (if approval_is_terminal a0 then a0
                else if ty = ''approval.requested'' then
                  a\<lparr>pa_status := ''requested'', pa_kind := pstr e ''kind'' [], pa_summary := pstr e ''summary'' [],
                    pa_command_summary := py_str (dget (v_payload e) ''command_summary'' (dget (v_payload e) ''command'' (JStr []))),
                    pa_tool_name := pstr e ''tool_name'' [], pa_telegram_callback_id := pstr e ''telegram_callback_id'' [],
                    pa_requested_at := at\<rparr>
                else if ty = ''approval.resolved'' then
                  a\<lparr>pa_status := ''resolved'', pa_decision := pstr e ''decision'' [], pa_resolver := pstr e ''resolver'' [],
                    pa_resolved_at := at\<rparr>
                else if ty = ''approval.expired'' then a\<lparr>pa_status := ''expired'', pa_resolved_at := at\<rparr>
                else a) in
      s\<lparr>sn_approvals := dset i a' (sn_approvals s)\<rparr>)"

definition apply_approval_superseded :: "runtime_event \<Rightarrow> runtime_snapshot \<Rightarrow> runtime_snapshot" where
  "apply_approval_superseded e s =
     s\<lparr>sn_approvals := map (\<lambda>(k, a).
          (k, if pa_conversation_id a = v_conversation_id e \<and> \<not> approval_is_terminal a
              then a\<lparr>pa_status := ''cancelled'', pa_error := ''superseded_by_user_context''\<rparr> else a)) (sn_approvals s)\<rparr>"

definition note_timeout :: "runtime_event \<Rightarrow> runtime_agent_state \<Rightarrow> runtime_agent_state" where
  "note_timeout e a =
     (if v_event_type e = ''watchdog.idle_timeout'' then a\<lparr>ag_idle_timeout_at := At (v_occurred_at e)\<rparr>
      else if v_event_type e = ''watchdog.hard_timeout'' then a\<lparr>ag_hard_timeout_at := At (v_occurred_at e)\<rparr>
      else a)"

definition apply_timeout_event :: "runtime_event \<Rightarrow> runtime_snapshot \<Rightarrow> runtime_snapshot" where
  "apply_timeout_event e s =
     (if v_agent_run_id e = None then s
      else s\<lparr>sn_agents := upd_first (\<lambda>a. ag_agent_run_id a = v_agent_run_id e \<and> \<not> agent_is_terminal a)
        (note_timeout e) (sn_agents s)\<rparr>)"

definition verify_orchestration :: "runtime_event \<Rightarrow> runtime_orchestration_state \<Rightarrow> json + runtime_orchestration_state" where
  "verify_orchestration e oc0 =
     (let oc = oc0\<lparr>oc_last_event_id := v_id e, oc_last_event_type := v_event_type e, oc_last_event_at := At (v_occurred_at e)\<rparr> in
      if v_event_type e = ''verification.decision.recorded'' then
        Inr (oc\<lparr>oc_last_verification_result := pstr e ''decision'' []\<rparr>)
      else if v_event_type e = ''verification.retry.requested'' then
        bindE (pint e ''verify_round'' (oc_verify_round oc)) (\<lambda>n. Inr (oc\<lparr>oc_verify_round := n\<rparr>))
      else Inr oc)"

definition apply_verification_event :: "runtime_event \<Rightarrow> runtime_snapshot \<Rightarrow> json + runtime_snapshot" where
  "apply_verification_event e s =
     bindE (if v_orchestration_run_id e = None then Inr (sn_orchestrations s)
            else upd_firstE (\<lambda>oc. oc_orchestration_run_id oc = v_orchestration_run_id e \<and> \<not> orchestration_is_terminal oc)
              (verify_orchestration e) (sn_orchestrations s)) (\<lambda>ocs.
       let s' = s\<lparr>sn_orchestrations := ocs\<rparr> in
       Inr (if v_event_type e = ''verification.decision.recorded'' \<and> v_conversation_id e \<noteq> None
            then s'\<lparr>sn_conversations := upd_first (\<lambda>c. cs_conversation_id c = v_conversation_id e)
                  (\<lambda>c. if pstr e ''decision'' [] = ''pass'' then c\<lparr>cs_has_pass_verification := True\<rparr> else c)
                  (sn_conversations s')\<rparr>
            else s'))"

section \<open>Conversations\<close>

definition pending_of :: "runtime_event \<Rightarrow> string \<Rightarrow> pending_item" where
  "pending_of e policy = \<lparr>pn_telegram_message_id = dget (v_payload e) ''telegram_message_id'' (JInt 0),
     pn_text_preview = pstr e ''text_preview'' [], pn_delivery_policy = policy, pn_at = At (v_occurred_at e)\<rparr>"

definition change_conversation_state :: "runtime_event \<Rightarrow> runtime_conversation_state \<Rightarrow> runtime_conversation_state" where
  "change_conversation_state e c =
     (let new_state = pstr e ''to'' [];
          c' = (if new_state = [] then c else c\<lparr>cs_state := new_state\<rparr>) in
      case map_of orch_phase_to_conversation_state (pstr e ''phase'' []) of
        None \<Rightarrow> c' | Some m \<Rightarrow> c'\<lparr>cs_state := m\<rparr>)"

definition update_conversation :: "runtime_event \<Rightarrow> runtime_conversation_state \<Rightarrow> json + runtime_conversation_state" where
  "update_conversation e c =
     (let ty = v_event_type e in
      if ty = ''conversation.started'' then
        bindE (pint e ''chat_id'' (cs_chat_id c)) (\<lambda>n.
          Inr (c\<lparr>cs_state := ''new'', cs_chat_id := n, cs_title := pstr e ''title'' (cs_title c),
            cs_mode := pstr e ''mode'' (cs_mode c), cs_workspace_alias := pstr e ''workspace_alias'' (cs_workspace_alias c),
            cs_started_at := (if cs_started_at c = Text [] then At (v_occurred_at e) else cs_started_at c)\<rparr>))
      else if ty = ''conversation.activated'' then Inr (c\<lparr>cs_state := pstr e ''state'' (cs_state c)\<rparr>)
      else if ty = ''conversation.state.changed'' then Inr (change_conversation_state e c)
      else if ty = ''conversation.closed'' then
        Inr (c\<lparr>cs_state := pstr e ''reason'' (cs_state c), cs_closed_at := At (v_occurred_at e)\<rparr>)
      else if ty = ''user.context.appended'' then
        Inr (c\<lparr>cs_pending_context := cs_pending_context c @ [pending_of e (pstr e ''delivery_policy'' [])]\<rparr>)
      else if ty = ''conversation.pending_context.recorded'' then
        Inr (c\<lparr>cs_pending_context := cs_pending_context c @ [pending_of e ''codex_phase_boundary_review'']\<rparr>)
      else if ty = ''conversation.mode.switched'' then
        Inr (let m = pstr e ''to_mode'' [] in if m = [] then c else c\<lparr>cs_mode := m\<rparr>)
      else if ty = ''conversation.pending_context.reviewed'' then
        Inr (c\<lparr>cs_pending_context := filter (\<lambda>p.
          \<not> py_eq (pn_telegram_message_id p) (dget0 (v_payload e) ''telegram_message_id'')) (cs_pending_context c)\<rparr>)
      else Inr c)"

definition apply_conversation_event :: "runtime_event \<Rightarrow> runtime_snapshot \<Rightarrow> json + runtime_snapshot" where
  "apply_conversation_event e s =
     (let i = v_aggregate_id e;
          c0 = (case map_of (sn_conversations s) i of None \<Rightarrow> new_conversation_state i | Some c \<Rightarrow> c);
          c = c0\<lparr>cs_last_event_id := v_id e, cs_last_event_type := v_event_type e, cs_last_event_at := At (v_occurred_at e),
                 cs_conversation_id := id_or (v_conversation_id e) (cs_conversation_id c0)\<rparr> in
      bindE (if conversation_is_terminal c0 \<and> v_event_type e \<notin> {''conversation.closed'', ''conversation.state.changed''}
             then Inr c0 else update_conversation e c)
        (\<lambda>c'. Inr (s\<lparr>sn_conversations := dset i c' (sn_conversations s)\<rparr>)))"

section \<open>Replay\<close>

definition orchestration_events :: "string list" where
  "orchestration_events = [''run.requested'', ''run.started'', ''run.phase.changed'', ''run.completed'', ''run.failed'',
     ''run.recovery.required'', ''run.cancelled'', ''run.cancel.requested'']"

definition conversation_events :: "string list" where
  "conversation_events = [''conversation.started'', ''conversation.activated'', ''conversation.state.changed'',
     ''conversation.closed'', ''conversation.mode.switched'', ''user.context.appended'',
     ''conversation.pending_context.recorded'', ''conversation.pending_context.reviewed'']"

definition verification_events :: "string list" where
  "verification_events = [''verification.started'', ''verification.decision.recorded'', ''verification.completed'',
     ''verification.retry.requested'']"

text \<open>Every other event type only moves the position of the snapshot.\<close>

definition apply_event :: "runtime_event \<Rightarrow> runtime_snapshot \<Rightarrow> json + runtime_snapshot" where
  "apply_event e s0 =
     (let s = s0\<lparr>sn_last_event_id := v_id e, sn_last_event_at := At (v_occurred_at e)\<rparr>; ty = v_event_type e in
      if ty \<in> set orchestration_events then apply_orchestration_event e s
      else if ty \<in> set (map fst agent_status_map) then Inr (apply_agent_event e s)
      else if ty = ''model.usage.updated'' then apply_usage_event e s
      else if ty \<in> {''approval.requested'', ''approval.resolved'', ''approval.expired''} then Inr (apply_approval_event e s)
      else if ty \<in> {''watchdog.idle_timeout'', ''watchdog.hard_timeout''} then Inr (apply_timeout_event e s)
      else if ty \<in> set verification_events then apply_verification_event e s
      else if ty \<in> set conversation_events then apply_conversation_event e s
      else if ty = ''approval.superseded'' then Inr (apply_approval_superseded e s)
      else Inr s)"

definition replay_events :: "runtime_event list \<Rightarrow> json + runtime_snapshot" where
  "replay_events es = foldE apply_event es empty_snapshot"

section \<open>Surfaces\<close>

record terminal_session_info =
  ti_agent :: string
  ti_external_session_id :: string
  ti_strategy :: string
  ti_status :: string
  ti_conversation_id :: "nat option"
  ti_chat_id :: int
  ti_last_event_id :: nat
  ti_last_event_at :: time_text

record surface_cursor_state =
  cu_surface :: string
  cu_position :: int

record surface_view_state =
  sv_chat_id :: int
  sv_conversation_id :: "nat option"
  sv_active_mode :: string
  sv_selected_terminal_agent :: string
  sv_cursors :: "(string \<times> surface_cursor_state) list"
  sv_terminal_sessions :: "(string \<times> terminal_session_info) list"
  sv_pending_context :: "pending_item list"
  sv_last_event_id :: nat
  sv_last_event_at :: time_text

record surface_snapshot =
  ss_by_chat :: "(int \<times> surface_view_state) list"
  ss_last_event_id :: nat
  ss_last_event_at :: time_text

definition empty_surface_snapshot :: surface_snapshot where
  "empty_surface_snapshot = \<lparr>ss_by_chat = [], ss_last_event_id = 0, ss_last_event_at = Text []\<rparr>"

definition new_cursor :: "string \<Rightarrow> surface_cursor_state" where
  "new_cursor surface = \<lparr>cu_surface = surface, cu_position = 0\<rparr>"

definition get_or_create_chat :: "surface_snapshot \<Rightarrow> int \<Rightarrow> surface_view_state" where
  "get_or_create_chat s chat =
     (case map_of (ss_by_chat s) chat of
        Some v \<Rightarrow> v
      | None \<Rightarrow> \<lparr>sv_chat_id = chat, sv_conversation_id = None, sv_active_mode = ''product'', sv_selected_terminal_agent = [],
          sv_cursors = [(''product'', new_cursor ''product''), (''terminal'', new_cursor ''terminal'')],
          sv_terminal_sessions = [], sv_pending_context = [], sv_last_event_id = 0, sv_last_event_at = Text []\<rparr>)"

definition ensure_cursor :: "surface_view_state \<Rightarrow> string \<Rightarrow> surface_cursor_state" where
  "ensure_cursor v surface = (case map_of (sv_cursors v) surface of None \<Rightarrow> new_cursor surface | Some c \<Rightarrow> c)"

definition advance_cursor :: "string \<Rightarrow> int \<Rightarrow> surface_view_state \<Rightarrow> surface_view_state" where
  "advance_cursor surface position v =
     (let c = ensure_cursor v surface in
      v\<lparr>sv_cursors := dset surface (if cu_position c < position then c\<lparr>cu_position := position\<rparr> else c) (sv_cursors v)\<rparr>)"

definition set_session_status :: "runtime_event \<Rightarrow> string \<Rightarrow> surface_view_state \<Rightarrow> surface_view_state" where
  "set_session_status e status v =
     (let agent = pstr e ''agent'' [] in
      case map_of (sv_terminal_sessions v) agent of
        None \<Rightarrow> v
      | Some t \<Rightarrow> if agent = [] then v
          else v\<lparr>sv_terminal_sessions := dset agent (t\<lparr>ti_status := status, ti_last_event_id := v_id e,
                 ti_last_event_at := At (v_occurred_at e)\<rparr>) (sv_terminal_sessions v)\<rparr>)"

definition update_surface_view :: "runtime_event \<Rightarrow> int \<Rightarrow> surface_view_state \<Rightarrow> json + surface_view_state" where
  "update_surface_view e chat v =
     (let ty = v_event_type e; agent = pstr e ''agent'' [] in
      if ty = ''conversation.mode.switched'' then
        (let active = pstr e ''active_agent'' [] in
         Inr (v\<lparr>sv_active_mode := pstr e ''to_mode'' (sv_active_mode v),
                sv_selected_terminal_agent := (if active = [] then sv_selected_terminal_agent v else active)\<rparr>))
      else if ty = ''surface.cursor.advanced'' then
        (let surface = pstr e ''surface'' [] in
         bindE (pint e ''position'' 0) (\<lambda>n. Inr (if surface = [] then v else advance_cursor surface n v)))
      else if ty = ''terminal.session.attached'' then
        Inr (if agent = [] then v
             else v\<lparr>sv_terminal_sessions := dset agent
               \<lparr>ti_agent = agent, ti_external_session_id = pstr e ''external_session_id'' [], ti_strategy = pstr e ''strategy'' [],
                ti_status = ''attached'', ti_conversation_id = v_conversation_id e, ti_chat_id = chat,
                ti_last_event_id = v_id e, ti_last_event_at = At (v_occurred_at e)\<rparr> (sv_terminal_sessions v)\<rparr>)
      else if ty = ''terminal.session.detached'' then Inr (set_session_status e (pstr e ''status'' ''detached'') v)
      else if ty = ''terminal.session.aborted'' then Inr (set_session_status e ''aborted'' v)
      else if ty = ''product.display.frame'' then
        bindE (pint e ''position'' 0) (\<lambda>n. Inr (advance_cursor (pstr e ''surface'' ''product'') n v))
      else if ty = ''terminal.session.output.frame'' then
        bindE (pint e ''position'' 0) (\<lambda>n. Inr (advance_cursor (pstr e ''surface'' ''terminal'') n v))
      else if ty = ''product.pending_context.recorded'' then
        Inr (v\<lparr>sv_pending_context := sv_pending_context v @ [pending_of e []]\<rparr>)
      else Inr v)"

definition apply_surface_event :: "runtime_event \<Rightarrow> surface_snapshot \<Rightarrow> json + surface_snapshot" where
  "apply_surface_event e s0 =
     (let s = s0\<lparr>ss_last_event_id := v_id e, ss_last_event_at := At (v_occurred_at e)\<rparr> in
      bindE (pint e ''chat_id'' 0) (\<lambda>chat.
        if chat = 0 then Inr s
        else let v = get_or_create_chat s chat in
          bindE (update_surface_view e chat (v\<lparr>sv_last_event_id := v_id e, sv_last_event_at := At (v_occurred_at e),
                   sv_conversation_id := id_or (v_conversation_id e) (sv_conversation_id v)\<rparr>))
            (\<lambda>v'. Inr (s\<lparr>ss_by_chat := dset chat v' (ss_by_chat s)\<rparr>))))"

definition replay_surface_events :: "runtime_event list \<Rightarrow> json + surface_snapshot" where
  "replay_surface_events es = foldE apply_surface_event es empty_surface_snapshot"

section \<open>The workbench\<close>

definition view_mode_map :: "(string \<times> string) list" where
  "view_mode_map = [(''product'', ''cockpit''), (''terminal'', ''onsite''), (''cockpit'', ''cockpit''), (''onsite'', ''onsite'')]"

definition valid_execution_modes :: "string list" where
  "valid_execution_modes = [''orchestrated'', ''codex_direct'', ''claude_direct'']"

definition cockpit_surfaces :: "string list" where
  "cockpit_surfaces = [''product'', ''cockpit'']"

definition onsite_surfaces :: "string list" where
  "onsite_surfaces = [''terminal'', ''onsite'']"

record workbench_runtime_state =
  wb_view :: string
  wb_execution_mode :: string
  wb_active_agent :: string
  wb_cockpit_cursor :: int
  wb_onsite_cursor :: int
  wb_onsite_session_status :: string
  wb_onsite_external_session_id :: string
  wb_onsite_orphan_reason :: string

definition new_workbench :: workbench_runtime_state where
  "new_workbench = \<lparr>wb_view = ''cockpit'', wb_execution_mode = ''orchestrated'', wb_active_agent = [], wb_cockpit_cursor = 0,
     wb_onsite_cursor = 0, wb_onsite_session_status = ''detached'', wb_onsite_external_session_id = [],
     wb_onsite_orphan_reason = []\<rparr>"

definition switch_view :: "string \<Rightarrow> workbench_runtime_state \<Rightarrow> workbench_runtime_state" where
  "switch_view m w = (case map_of view_mode_map m of None \<Rightarrow> w | Some v \<Rightarrow> w\<lparr>wb_view := v\<rparr>)"

definition advance_workbench :: "string \<Rightarrow> int \<Rightarrow> workbench_runtime_state \<Rightarrow> workbench_runtime_state" where
  "advance_workbench surface n w =
     (if surface \<in> set cockpit_surfaces \<and> wb_cockpit_cursor w < n then w\<lparr>wb_cockpit_cursor := n\<rparr>
      else if surface \<in> set onsite_surfaces \<and> wb_onsite_cursor w < n then w\<lparr>wb_onsite_cursor := n\<rparr>
      else w)"

definition orphan_active :: "string \<Rightarrow> workbench_runtime_state \<Rightarrow> workbench_runtime_state" where
  "orphan_active agent w =
     (if agent \<noteq> [] \<and> agent = wb_active_agent w then w\<lparr>wb_onsite_session_status := ''orphaned''\<rparr>
      else if agent \<noteq> [] \<and> wb_active_agent w = [] then w\<lparr>wb_active_agent := agent, wb_onsite_session_status := ''orphaned''\<rparr>
      else w)"

definition apply_workbench_event :: "runtime_event \<Rightarrow> workbench_runtime_state \<Rightarrow> json + workbench_runtime_state" where
  "apply_workbench_event e w =
     (let ty = v_event_type e; agent = pstr e ''agent'' [] in
      if ty = ''conversation.mode.switched'' then
        (let w' = switch_view (pstr e ''to_mode'' []) w; active = pstr e ''active_agent'' [] in
         Inr (if active = [] then w' else w'\<lparr>wb_active_agent := active\<rparr>))
      else if ty = ''workbench.execution_mode.selected'' then
        (let m = pstr e ''execution_mode'' [] in
         Inr (if m \<in> set valid_execution_modes then w\<lparr>wb_execution_mode := m\<rparr> else w))
      else if ty = ''workbench.view.changed'' then Inr (switch_view (pstr e ''view'' []) w)
      else if ty = ''surface.cursor.advanced'' then
        bindE (pint e ''position'' 0) (\<lambda>n. Inr (advance_workbench (pstr e ''surface'' []) n w))
      else if ty = ''terminal.session.attached'' then
        Inr (if agent = [] then w
             else w\<lparr>wb_active_agent := agent, wb_onsite_session_status := ''attached'',
               wb_onsite_external_session_id := pstr e ''external_session_id'' [], wb_onsite_orphan_reason := []\<rparr>)
      else if ty = ''terminal.session.detached'' then
        Inr (if agent \<noteq> [] \<and> agent = wb_active_agent w \<and> wb_onsite_session_status w \<noteq> ''orphaned''
             then w\<lparr>wb_onsite_session_status := pstr e ''status'' ''detached''\<rparr> else w)
      else if ty = ''terminal.session.aborted'' then
        Inr (if agent \<noteq> [] \<and> agent = wb_active_agent w then w\<lparr>wb_onsite_session_status := ''aborted''\<rparr> else w)
      else if ty = ''onsite.session.orphaned'' then
        Inr (if agent = [] then w
             else w\<lparr>wb_active_agent := agent, wb_onsite_session_status := ''orphaned'', wb_onsite_orphan_reason := pstr e ''reason'' []\<rparr>)
      else if ty = ''agent.run.orphaned'' then Inr (orphan_active agent w)
      else if ty = ''system.recovery.started'' then
        Inr (if wb_onsite_session_status w = ''attached''
             then w\<lparr>wb_onsite_session_status := ''orphaned'',
                    wb_onsite_orphan_reason := (if wb_onsite_orphan_reason w = [] then pstr e ''reason'' ''daemon_restart''
                                                else wb_onsite_orphan_reason w)\<rparr> else w)
      else Inr w)"

definition replay_workbench_events :: "runtime_event list \<Rightarrow> json + workbench_runtime_state" where
  "replay_workbench_events es = foldE apply_workbench_event es new_workbench"

end
