(* ===== verification/Runtime_State_Properties.thy ===== *)
theory Runtime_State_Properties
  imports Runtime_State
begin

text \<open>
  What a replay of the event log guarantees: dictionaries keyed by the aggregate they hold, terminal states that no
  later event undoes, completion only after a passed verification, token totals and cursors that are the sums and
  maxima of the log, and failure only on a number that cannot be read.
\<close>

section \<open>Dictionaries under the reducers\<close>

definition rel_dict :: "('v \<Rightarrow> 'v \<Rightarrow> bool) \<Rightarrow> ('k \<times> 'v) list \<Rightarrow> ('k \<times> 'v) list \<Rightarrow> bool" where
  "rel_dict R d d' \<longleftrightarrow> (\<forall>i v. map_of d i = Some v \<longrightarrow> (\<exists>v'. map_of d' i = Some v' \<and> R v v'))"

definition all_dict :: "('k \<Rightarrow> 'v \<Rightarrow> bool) \<Rightarrow> ('k \<times> 'v) list \<Rightarrow> bool" where
  "all_dict Q d \<longleftrightarrow> distinct (map fst d) \<and> (\<forall>i v. map_of d i = Some v \<longrightarrow> Q i v)"

lemma keys_dset: "fst ` set (dset k v d) = insert k (fst ` set d)"
  by (induction k v d rule: dset.induct) auto

lemma distinct_dset: "distinct (map fst d) \<Longrightarrow> distinct (map fst (dset k v d))"
  by (induction k v d rule: dset.induct) (auto simp: keys_dset)

lemma rel_dict_refl: "(\<And>v. R v v) \<Longrightarrow> rel_dict R d d"
  by (simp add: rel_dict_def)

lemma rel_dict_trans:
  "(\<And>u v w. R u v \<Longrightarrow> R v w \<Longrightarrow> R u w) \<Longrightarrow> rel_dict R d d' \<Longrightarrow> rel_dict R d' d'' \<Longrightarrow> rel_dict R d d''"
  unfolding rel_dict_def by meson

lemma rel_dict_dset:
  "(\<And>v. R v v) \<Longrightarrow> (\<And>v. map_of d k = Some v \<Longrightarrow> R v w) \<Longrightarrow> rel_dict R d (dset k w d)"
  by (auto simp: rel_dict_def)

lemma all_dict_dset: "all_dict Q d \<Longrightarrow> Q k w \<Longrightarrow> all_dict Q (dset k w d)"
  by (auto simp: all_dict_def distinct_dset)

lemma find_dict:
  assumes "distinct (map fst d)" "find (\<lambda>(k, v). P v) d = Some (k, v)"
  shows "map_of d k = Some v" "P v"
  using find_SomeD [OF assms(2)] assms(1) by (auto intro: map_of_is_SomeI)

lemma upd_first_cases:
  assumes "distinct (map fst d)"
  obtains "upd_first P f d = d" | k v where "map_of d k = Some v" "P v" "upd_first P f d = dset k (f v) d"
proof (cases "find (\<lambda>(k, v). P v) d")
  case None
  then show ?thesis using that(1) by (simp add: upd_first_def)
next
  case (Some kv)
  obtain k v where "kv = (k, v)" by fastforce
  with Some have f: "find (\<lambda>(k, v). P v) d = Some (k, v)" by simp
  show ?thesis using find_dict [OF assms f] f by (intro that(2)) (simp_all add: upd_first_def)
qed

lemma upd_firstE_cases:
  assumes "distinct (map fst d)" "upd_firstE P f d = Inr d'"
  obtains "d' = d" | k v w where "map_of d k = Some v" "P v" "f v = Inr w" "d' = dset k w d"
proof (cases "find (\<lambda>(k, v). P v) d")
  case None
  then show ?thesis using that(1) assms(2) by (simp add: upd_firstE_def)
next
  case (Some kv)
  obtain k v where "kv = (k, v)" by fastforce
  with Some have f: "find (\<lambda>(k, v). P v) d = Some (k, v)" by simp
  with assms(2) obtain w where "f v = Inr w" "d' = dset k w d" by (auto simp: upd_firstE_def bindE_Inr)
  with find_dict [OF assms(1) f] show ?thesis by (rule that(2))
qed

lemma rel_dict_upd_first:
  assumes "distinct (map fst d)" "\<And>v. R v v" "\<And>v. P v \<Longrightarrow> R v (f v)"
  shows "rel_dict R d (upd_first P f d)"
  by (rule upd_first_cases [OF assms(1), of P f]) (use assms in \<open>auto intro: rel_dict_refl rel_dict_dset\<close>)

lemma all_dict_upd_first:
  assumes "all_dict Q d" "\<And>i v. Q i v \<Longrightarrow> P v \<Longrightarrow> Q i (f v)"
  shows "all_dict Q (upd_first P f d)"
proof -
  have "distinct (map fst d)" using assms(1) by (simp add: all_dict_def)
  then show ?thesis
    by (rule upd_first_cases [of d P f]) (use assms in \<open>auto simp: all_dict_def distinct_dset\<close>)
qed

lemma map_of_map_values: "map_of (map (\<lambda>(k, v). (k, f v)) d) i = map_option f (map_of d i)"
  by (induction d) auto

lemma keys_map_values: "map fst (map (\<lambda>(k, v). (k, f v)) d) = map fst d"
  by (induction d) auto

section \<open>Which reducer writes which dictionary\<close>

lemma propagate_fields [simp]:
  "sn_agents (propagate_conversation_state e st s) = sn_agents s"
  "sn_orchestrations (propagate_conversation_state e st s) = sn_orchestrations s"
  "sn_approvals (propagate_conversation_state e st s) = sn_approvals s"
  "sn_token_totals (propagate_conversation_state e st s) = sn_token_totals s"
  "sn_last_event_id (propagate_conversation_state e st s) = sn_last_event_id s"
  by (simp_all add: propagate_conversation_state_def)

lemma put_orchestration_fields [simp]:
  "sn_agents (put_orchestration oc i s) = sn_agents s"
  "sn_orchestrations (put_orchestration oc i s) = dset i oc (sn_orchestrations s)"
  "sn_approvals (put_orchestration oc i s) = sn_approvals s"
  "sn_conversations (put_orchestration oc i s) = sn_conversations s"
  "sn_token_totals (put_orchestration oc i s) = sn_token_totals s"
  "sn_last_event_id (put_orchestration oc i s) = sn_last_event_id s"
  by (simp_all add: put_orchestration_def)

lemma agent_reducer_fields [simp]:
  "sn_orchestrations (apply_agent_event e s) = sn_orchestrations s"
  "sn_approvals (apply_agent_event e s) = sn_approvals s"
  "sn_conversations (apply_agent_event e s) = sn_conversations s"
  "sn_token_totals (apply_agent_event e s) = sn_token_totals s"
  by (simp_all add: apply_agent_event_def Let_def)

lemma timeout_reducer_fields [simp]:
  "sn_orchestrations (apply_timeout_event e s) = sn_orchestrations s"
  "sn_approvals (apply_timeout_event e s) = sn_approvals s"
  "sn_conversations (apply_timeout_event e s) = sn_conversations s"
  "sn_token_totals (apply_timeout_event e s) = sn_token_totals s"
  by (simp_all add: apply_timeout_event_def)

lemma approval_reducer_fields [simp]:
  "sn_agents (apply_approval_event e s) = sn_agents s"
  "sn_orchestrations (apply_approval_event e s) = sn_orchestrations s"
  "sn_conversations (apply_approval_event e s) = sn_conversations s"
  "sn_token_totals (apply_approval_event e s) = sn_token_totals s"
  "sn_agents (apply_approval_superseded e s) = sn_agents s"
  "sn_orchestrations (apply_approval_superseded e s) = sn_orchestrations s"
  "sn_conversations (apply_approval_superseded e s) = sn_conversations s"
  "sn_token_totals (apply_approval_superseded e s) = sn_token_totals s"
  by (simp_all add: apply_approval_event_def apply_approval_superseded_def Let_def)

lemma usage_reducer_fields:
  assumes "apply_usage_event e s = Inr s'"
  shows "sn_orchestrations s' = sn_orchestrations s" "sn_approvals s' = sn_approvals s"
    "sn_conversations s' = sn_conversations s"
  using assms by (auto simp: apply_usage_event_def Let_def bindE_Inr)

lemma verification_reducer_fields:
  assumes "apply_verification_event e s = Inr s'"
  shows "sn_agents s' = sn_agents s" "sn_approvals s' = sn_approvals s" "sn_token_totals s' = sn_token_totals s"
  using assms by (auto simp: apply_verification_event_def Let_def bindE_Inr split: if_splits)

lemma conversation_reducer_fields:
  assumes "apply_conversation_event e s = Inr s'"
  shows "sn_agents s' = sn_agents s" "sn_orchestrations s' = sn_orchestrations s"
    "sn_approvals s' = sn_approvals s" "sn_token_totals s' = sn_token_totals s"
  using assms by (auto simp: apply_conversation_event_def Let_def bindE_Inr split: if_splits)

lemma phase_reducer_fields:
  assumes "on_phase_changed e oc s = Inr s'"
  shows "sn_agents s' = sn_agents s" "sn_approvals s' = sn_approvals s" "sn_token_totals s' = sn_token_totals s"
  using assms by (auto simp: on_phase_changed_def Let_def bindE_Inr split: option.splits)

lemma orchestration_reducer_fields:
  assumes "apply_orchestration_event e s = Inr s'"
  shows "sn_agents s' = sn_agents s" "sn_approvals s' = sn_approvals s" "sn_token_totals s' = sn_token_totals s"
  using assms
  by (auto simp: apply_orchestration_event_def Let_def bindE_Inr on_run_completed_def phase_reducer_fields
      split: if_splits)

lemmas reducer_fields = usage_reducer_fields verification_reducer_fields conversation_reducer_fields
  orchestration_reducer_fields

text \<open>The dispatch, as a case rule.\<close>

definition at_event :: "runtime_event \<Rightarrow> runtime_snapshot \<Rightarrow> runtime_snapshot" where
  "at_event e s = s\<lparr>sn_last_event_id := v_id e, sn_last_event_at := At (v_occurred_at e)\<rparr>"

lemma at_event_fields [simp]:
  "sn_agents (at_event e s) = sn_agents s" "sn_orchestrations (at_event e s) = sn_orchestrations s"
  "sn_approvals (at_event e s) = sn_approvals s" "sn_conversations (at_event e s) = sn_conversations s"
  "sn_token_totals (at_event e s) = sn_token_totals s"
  by (simp_all add: at_event_def)

lemma dispatch_disj:
  "(if c1 then x1 else if c2 then Inr y2 else if c3 then x3 else if c4 then Inr y4 else if c5 then Inr y5 else if c6 then x6
    else if c7 then x7 else if c8 then Inr y8 else Inr y9) = Inr (r :: 'r) \<Longrightarrow>
   x1 = Inr r \<or> r = y2 \<or> (c3 \<and> x3 = Inr r) \<or> r = y4 \<or> r = y5 \<or> x6 = Inr r \<or> x7 = Inr r \<or> r = y8 \<or> r = y9"
  by (auto split: if_splits)

lemma apply_event_cases:
  assumes "apply_event e s = Inr s'"
  obtains (orch) "apply_orchestration_event e (at_event e s) = Inr s'"
  | (agent) "s' = apply_agent_event e (at_event e s)"
  | (usage) "v_event_type e = ''model.usage.updated''" "apply_usage_event e (at_event e s) = Inr s'"
  | (approval) "s' = apply_approval_event e (at_event e s)"
  | (timeout) "s' = apply_timeout_event e (at_event e s)"
  | (verification) "apply_verification_event e (at_event e s) = Inr s'"
  | (conversation) "apply_conversation_event e (at_event e s) = Inr s'"
  | (superseded) "s' = apply_approval_superseded e (at_event e s)"
  | (other) "s' = at_event e s"
proof -
  note d = dispatch_disj [OF assms [unfolded apply_event_def Let_def, folded at_event_def]]
  then show thesis
    by (elim disjE conjE) (erule orch, erule agent, (erule usage, assumption), erule approval, erule timeout, erule verification,
        erule conversation, erule superseded, erule other)
qed

section \<open>Terminal states\<close>

definition agent_rel :: "runtime_agent_state \<Rightarrow> runtime_agent_state \<Rightarrow> bool" where
  "agent_rel a a' \<longleftrightarrow> ag_aggregate_id a' = ag_aggregate_id a \<and> (agent_is_terminal a \<longrightarrow> agent_is_terminal a')"

definition orch_rel :: "runtime_orchestration_state \<Rightarrow> runtime_orchestration_state \<Rightarrow> bool" where
  "orch_rel oc oc' \<longleftrightarrow> oc_aggregate_id oc' = oc_aggregate_id oc \<and>
     (orchestration_is_terminal oc \<longrightarrow> orchestration_is_terminal oc')"

definition appr_rel :: "runtime_approval_state \<Rightarrow> runtime_approval_state \<Rightarrow> bool" where
  "appr_rel a a' \<longleftrightarrow> pa_aggregate_id a' = pa_aggregate_id a \<and> (approval_is_terminal a \<longrightarrow> a' = a)"

lemma rel_refls: "agent_rel a a" "orch_rel oc oc" "appr_rel p p"
  by (simp_all add: agent_rel_def orch_rel_def appr_rel_def)

definition orch_ok :: "string \<Rightarrow> runtime_orchestration_state \<Rightarrow> bool" where
  "orch_ok i oc \<longleftrightarrow> oc_aggregate_id oc = i \<and> (oc_status oc = ''completed'' \<longrightarrow> oc_last_verification_result oc = ''pass'')"

definition snapshot_wf :: "runtime_snapshot \<Rightarrow> bool" where
  "snapshot_wf s \<longleftrightarrow> all_dict (\<lambda>i a. ag_aggregate_id a = i) (sn_agents s) \<and> all_dict orch_ok (sn_orchestrations s) \<and>
     all_dict (\<lambda>i a. pa_aggregate_id a = i) (sn_approvals s) \<and> all_dict (\<lambda>i c. cs_aggregate_id c = i) (sn_conversations s) \<and>
     all_dict (\<lambda>_ _. True) (sn_token_totals s)"

subsection \<open>Agents\<close>

lemma finish_agent_keeps [simp]:
  "ag_status (finish_agent e a) = ag_status a" "ag_aggregate_id (finish_agent e a) = ag_aggregate_id a"
  by (simp_all add: finish_agent_def Let_def)

lemma touch_agent_id [simp]: "ag_aggregate_id (touch_agent e a) = ag_aggregate_id a"
  by (simp add: touch_agent_def)

lemma end_event_terminal:
  assumes "v_event_type e \<in> set agent_end_events"
  shows "agent_is_terminal (finish_agent e (touch_agent e a))"
proof -
  have "list_all (\<lambda>t. case map_of agent_status_map t of None \<Rightarrow> False | Some st \<Rightarrow> st \<in> set agent_terminal_states) agent_end_events"
    by code_simp
  then obtain st where "map_of agent_status_map (v_event_type e) = Some st" "st \<in> set agent_terminal_states"
    using assms by (auto simp: list_all_iff split: option.splits)
  then show ?thesis by (simp add: agent_is_terminal_def touch_agent_def)
qed

lemma agents_step:
  assumes "apply_event e s = Inr s'" "snapshot_wf s"
  shows "rel_dict agent_rel (sn_agents s) (sn_agents s') \<and> all_dict (\<lambda>i a. ag_aggregate_id a = i) (sn_agents s')"
proof -
  have wf: "all_dict (\<lambda>i a. ag_aggregate_id a = i) (sn_agents s)" and dis: "distinct (map fst (sn_agents s))"
    using assms(2) by (auto simp: snapshot_wf_def all_dict_def)
  have same: ?thesis if "sn_agents s' = sn_agents s" using that wf by (simp add: rel_dict_refl rel_refls)
  have first: ?thesis if "sn_agents s' = upd_first P f (sn_agents s)"
      "\<And>a. ag_aggregate_id (f a) = ag_aggregate_id a" "\<And>a. ag_status (f a) = ag_status a" for P f
    using that(2,3) wf unfolding that(1)
    by (auto intro!: rel_dict_upd_first [OF dis] all_dict_upd_first simp: agent_rel_def agent_is_terminal_def)
  from assms(1) show ?thesis
  proof (cases rule: apply_event_cases)
    case agent
    let ?i = "v_aggregate_id e"
    let ?a = "case map_of (sn_agents s) ?i of None \<Rightarrow> new_agent_state ?i | Some a \<Rightarrow> a"
    let ?a' = "if agent_is_terminal ?a \<and> v_event_type e \<notin> set agent_end_events then ?a else finish_agent e (touch_agent e ?a)"
    have ag: "sn_agents s' = dset ?i ?a' (sn_agents s)" unfolding agent by (simp add: apply_agent_event_def Let_def)
    have "agent_rel ?a ?a'" using end_event_terminal [of e ?a] by (simp add: agent_rel_def)
    moreover have "ag_aggregate_id ?a = ?i" using wf by (auto simp: all_dict_def new_agent_state_def split: option.splits)
    ultimately show ?thesis unfolding ag
      by (intro conjI rel_dict_dset all_dict_dset wf) (auto simp: rel_refls)
  next
    case usage
    show ?thesis
    proof (cases "sn_agents s' = sn_agents s")
      case False
      then obtain i u c r t where "sn_agents s' = upd_first (\<lambda>a. ag_agent_run_id a = v_agent_run_id e)
          (add_agent_usage e i u c r t) (sn_agents s)"
        using usage(2) by (auto simp: apply_usage_event_def Let_def bindE_Inr split: if_splits)
      then show ?thesis by (rule first) (simp_all add: add_agent_usage_def)
    qed (rule same)
  next
    case timeout
    show ?thesis
    proof (cases "sn_agents s' = sn_agents s")
      case False
      then have "sn_agents s' = upd_first (\<lambda>a. ag_agent_run_id a = v_agent_run_id e \<and> \<not> agent_is_terminal a)
          (note_timeout e) (sn_agents s)"
        using timeout by (auto simp: apply_timeout_event_def split: if_splits)
      then show ?thesis by (rule first) (simp_all add: note_timeout_def)
    qed (rule same)
  qed (use same in \<open>simp_all add: reducer_fields\<close>)
qed

subsection \<open>Orchestrations\<close>

text \<open>One step of an orchestration under its reducer: it is started new or found, and ends as one of these.\<close>

definition orch_of :: "runtime_snapshot \<Rightarrow> string \<Rightarrow> runtime_orchestration_state" where
  "orch_of s i = (case map_of (sn_orchestrations s) i of None \<Rightarrow> new_orchestration_state i | Some oc \<Rightarrow> oc)"

lemma touch_orchestration_keeps [simp]:
  "oc_aggregate_id (touch_orchestration e oc) = oc_aggregate_id oc" "oc_status (touch_orchestration e oc) = oc_status oc"
  "oc_last_verification_result (touch_orchestration e oc) = oc_last_verification_result oc"
  by (simp_all add: touch_orchestration_def)

lemma terminal_words: "''completed'' \<in> set orchestration_terminal_states" "''failed'' \<in> set orchestration_terminal_states"
  "''cancelled'' \<in> set orchestration_terminal_states"
  by code_simp+

lemma open_words: "''queued'' \<noteq> ''completed''" "''running'' \<noteq> ''completed''" "''needs_user'' \<noteq> ''completed''"
  "''failed'' \<noteq> ''completed''" "''cancelled'' \<noteq> ''completed''"
  by code_simp+

lemma phase_changed_orch:
  assumes "on_phase_changed e oc s = Inr s'"
  shows "\<exists>oc'. sn_orchestrations s' = dset (v_aggregate_id e) oc' (sn_orchestrations s) \<and>
    oc_aggregate_id oc' = oc_aggregate_id oc \<and> oc_status oc' = oc_status oc \<and>
    oc_last_verification_result oc' = oc_last_verification_result oc"
proof -
  from assms obtain n where "s' = (let oc' = oc\<lparr>oc_current_phase := (if pstr e ''phase'' [] \<in> set valid_orchestration_phases
          then pstr e ''phase'' [] else oc_current_phase oc), oc_verify_round := n,
        oc_last_codex_analysis := pstr e ''codex_analysis'' (oc_last_codex_analysis oc),
        oc_last_claude_summary := pstr e ''claude_summary'' (oc_last_claude_summary oc)\<rparr>;
      t = put_orchestration oc' (v_aggregate_id e) s in
      (case map_of orch_phase_to_conversation_state (pstr e ''phase'' []) of
         None \<Rightarrow> t | Some st \<Rightarrow> propagate_conversation_state e st t))"
    by (auto simp: on_phase_changed_def Let_def bindE_Inr)
  then show ?thesis
    by (auto simp: Let_def intro!: exI split: option.splits)
qed

definition orch_good :: "runtime_orchestration_state \<Rightarrow> runtime_orchestration_state \<Rightarrow> bool" where
  "orch_good oc oc' \<longleftrightarrow> oc_aggregate_id oc' = oc_aggregate_id oc \<and>
     oc_last_verification_result oc' = oc_last_verification_result oc \<and>
     (oc_status oc' = oc_status oc \<or> \<not> orchestration_is_terminal oc \<and> oc_status oc' \<noteq> ''completed'' \<or>
      orchestration_is_terminal oc' \<and> (oc_status oc' = ''completed'' \<longrightarrow> oc_last_verification_result oc = ''pass''))"

lemma orch_good_rel: "orch_good oc oc' \<Longrightarrow> orch_rel oc oc'"
  unfolding orch_good_def orch_rel_def orchestration_is_terminal_def by auto

lemma orch_good_ok: "orch_good oc oc' \<Longrightarrow> orch_ok i oc \<Longrightarrow> orch_ok i oc'"
  unfolding orch_good_def orch_ok_def by auto

lemma run_completed_orch:
  "\<exists>oc'. sn_orchestrations (on_run_completed e oc s) = dset (v_aggregate_id e) oc' (sn_orchestrations s) \<and>
     oc_aggregate_id oc' = oc_aggregate_id oc \<and> oc_last_verification_result oc' = oc_last_verification_result oc \<and>
     oc_status oc' = (if oc_last_verification_result oc = ''pass'' then ''completed'' else ''failed'')"
  unfolding on_run_completed_def by (cases "oc_last_verification_result oc = ''pass''") (auto intro!: exI)

lemma orch_terminalI: "oc_status oc \<in> {''completed'', ''failed'', ''cancelled''} \<Longrightarrow> orchestration_is_terminal oc"
  using terminal_words by (auto simp: orchestration_is_terminal_def)

lemma orch_good_end:
  "oc_aggregate_id oc' = oc_aggregate_id oc \<Longrightarrow> oc_last_verification_result oc' = oc_last_verification_result oc \<Longrightarrow>
    oc_status oc' = ''failed'' \<or> oc_status oc' = ''cancelled'' \<Longrightarrow> orch_good oc oc'"
  using orch_terminalI [of oc'] by (auto simp: orch_good_def)

text \<open>The branches of the reducer, by the type of the event.\<close>

lemma open_event:
  assumes "\<not> (orchestration_is_terminal oc \<and> ty \<notin> set run_end_events)" "ty \<in> {''run.requested'', ''run.started'', ''run.recovery.required''}"
  shows "\<not> orchestration_is_terminal oc"
proof -
  have "list_all (\<lambda>t. t \<notin> set run_end_events) [''run.requested'', ''run.started'', ''run.recovery.required'']" by code_simp
  then show ?thesis using assms by (auto simp: list_all_iff)
qed

lemma orchestration_shape:
  assumes "apply_orchestration_event e s = Inr s'"
  shows "\<exists>oc'. sn_orchestrations s' = dset (v_aggregate_id e) oc' (sn_orchestrations s) \<and> orch_good (orch_of s (v_aggregate_id e)) oc'"
proof -
  let ?ty = "v_event_type e" let ?oc = "orch_of s (v_aggregate_id e)"
  note d = assms [unfolded apply_orchestration_event_def Let_def, folded orch_of_def]
  show ?thesis
  proof (cases "orchestration_is_terminal ?oc \<and> ?ty \<notin> set run_end_events")
    case True
    then show ?thesis using d by (auto simp: orch_good_def)
  next
    case False
    note d' = d [unfolded if_not_P [OF False]]
    note op = open_event [OF False]
    consider "?ty = ''run.requested''" | "?ty = ''run.started''" | "?ty = ''run.recovery.required''"
      | "?ty = ''run.phase.changed''" | "?ty = ''run.completed''" | "?ty = ''run.failed''" | "?ty = ''run.cancelled''"
      | "?ty \<notin> {''run.requested'', ''run.started'', ''run.recovery.required'', ''run.phase.changed'', ''run.completed'',
          ''run.failed'', ''run.cancelled''}" by blast
    then show ?thesis
    proof cases
      case 1
      then show ?thesis using d' op by (auto simp: bindE_Inr orch_good_def)
    next
      case 2
      then show ?thesis using d' op by (auto simp: orch_good_def)
    next
      case 3
      then show ?thesis using d' op by (auto simp: orch_good_def)
    next
      case 4
      then show ?thesis using d' phase_changed_orch [of e "touch_orchestration e ?oc" s s'] by (auto simp: orch_good_def)
    next
      case 5
      then have "s' = on_run_completed e (touch_orchestration e ?oc) s" using d' by simp
      then show ?thesis using run_completed_orch [of e "touch_orchestration e ?oc" s]
        by (auto simp: orch_good_def intro: orch_terminalI split: if_splits)
    next
      case 6
      then show ?thesis using d' by (auto intro!: exI orch_good_end)
    next
      case 7
      then show ?thesis using d' by (auto intro!: exI orch_good_end)
    next
      case 8
      then show ?thesis using d' by (auto simp: orch_good_def)
    qed
  qed
qed

lemma verify_orch:
  assumes "verify_orchestration e oc = Inr oc'"
  shows "oc_aggregate_id oc' = oc_aggregate_id oc" "oc_status oc' = oc_status oc"
  using assms by (auto simp: verify_orchestration_def Let_def bindE_Inr split: if_splits)

lemma orchestrations_step:
  assumes "apply_event e s = Inr s'" "snapshot_wf s"
  shows "rel_dict orch_rel (sn_orchestrations s) (sn_orchestrations s') \<and> all_dict orch_ok (sn_orchestrations s')"
proof -
  have wf: "all_dict orch_ok (sn_orchestrations s)" and dis: "distinct (map fst (sn_orchestrations s))"
    using assms(2) by (auto simp: snapshot_wf_def all_dict_def)
  have same: ?thesis if "sn_orchestrations s' = sn_orchestrations s" using that wf by (simp add: rel_dict_refl rel_refls)
  from assms(1) show ?thesis
  proof (cases rule: apply_event_cases)
    case orch
    let ?i = "v_aggregate_id e"
    obtain oc' where oc': "sn_orchestrations s' = dset ?i oc' (sn_orchestrations s)" "orch_good (orch_of s ?i) oc'"
      using orchestration_shape [OF orch] by (auto simp: orch_of_def)
    have "orch_ok ?i (orch_of s ?i)"
      using wf by (auto simp: all_dict_def orch_of_def orch_ok_def new_orchestration_state_def split: option.splits)
    then have "orch_ok ?i oc'" by (rule orch_good_ok [OF oc'(2)])
    moreover have "orch_rel v oc'" if "map_of (sn_orchestrations s) ?i = Some v" for v
      using orch_good_rel [OF oc'(2)] that by (simp add: orch_of_def)
    ultimately show ?thesis using wf unfolding oc'(1) by (intro conjI rel_dict_dset all_dict_dset) (auto simp: rel_refls)
  next
    case verification
    then obtain ocs where ocs: "sn_orchestrations s' = ocs" "ocs = sn_orchestrations s \<or>
        upd_firstE (\<lambda>oc. oc_orchestration_run_id oc = v_orchestration_run_id e \<and> \<not> orchestration_is_terminal oc)
          (verify_orchestration e) (sn_orchestrations s) = Inr ocs"
      by (auto simp: apply_verification_event_def Let_def bindE_Inr split: if_splits)
    from ocs(2) show ?thesis
    proof
      assume "upd_firstE (\<lambda>oc. oc_orchestration_run_id oc = v_orchestration_run_id e \<and> \<not> orchestration_is_terminal oc)
          (verify_orchestration e) (sn_orchestrations s) = Inr ocs"
      from dis this show ?thesis
      proof (cases rule: upd_firstE_cases)
        case (2 k v w)
        note vw = verify_orch [OF 2(3)]
        have "oc_status v \<noteq> ''completed''" using 2(2) terminal_words by (auto simp: orchestration_is_terminal_def)
        moreover have "orch_ok k v" using wf 2(1) by (simp add: all_dict_def)
        ultimately have "orch_ok k w" "orch_rel v w" using vw 2(2)
          by (simp_all add: orch_ok_def orch_rel_def)
        then show ?thesis using wf 2(1) unfolding ocs(1) 2(4)
          by (intro conjI rel_dict_dset all_dict_dset) (auto simp: rel_refls)
      qed (use same ocs in simp)
    qed (use same ocs in simp)
  qed (use same in \<open>simp_all add: reducer_fields\<close>)
qed

subsection \<open>Approvals and conversations\<close>

lemma approvals_step:
  assumes "apply_event e s = Inr s'" "snapshot_wf s"
  shows "rel_dict appr_rel (sn_approvals s) (sn_approvals s') \<and> all_dict (\<lambda>i a. pa_aggregate_id a = i) (sn_approvals s')"
proof -
  have wf: "all_dict (\<lambda>i a. pa_aggregate_id a = i) (sn_approvals s)"
    using assms(2) by (auto simp: snapshot_wf_def)
  have same: ?thesis if "sn_approvals s' = sn_approvals s" using that wf by (simp add: rel_dict_refl rel_refls)
  from assms(1) show ?thesis
  proof (cases rule: apply_event_cases)
    case approval
    let ?i = "v_aggregate_id e"
    let ?a = "case map_of (sn_approvals s) ?i of None \<Rightarrow> new_approval_state ?i | Some a \<Rightarrow> a"
    obtain a' where a': "sn_approvals s' = dset ?i a' (sn_approvals s)" "appr_rel ?a a'"
      unfolding approval by (simp add: apply_approval_event_def Let_def appr_rel_def)
    moreover have "pa_aggregate_id ?a = ?i" using wf by (auto simp: all_dict_def new_approval_state_def split: option.splits)
    ultimately show ?thesis using wf unfolding a'(1)
      by (intro conjI rel_dict_dset all_dict_dset) (auto simp: rel_refls appr_rel_def)
  next
    case superseded
    let ?f = "\<lambda>a. if pa_conversation_id a = v_conversation_id e \<and> \<not> approval_is_terminal a
              then a\<lparr>pa_status := ''cancelled'', pa_error := ''superseded_by_user_context''\<rparr> else a"
    have eq: "sn_approvals s' = map (\<lambda>(k, a). (k, ?f a)) (sn_approvals s)"
      unfolding superseded by (simp add: apply_approval_superseded_def)
    show ?thesis using wf unfolding eq rel_dict_def all_dict_def map_of_map_values keys_map_values
      by (auto simp: appr_rel_def)
  qed (use same in \<open>simp_all add: reducer_fields\<close>)
qed

abbreviation conv_ok :: "string \<Rightarrow> runtime_conversation_state \<Rightarrow> bool" where
  "conv_ok i c \<equiv> cs_aggregate_id c = i"

lemma propagate_conv: "all_dict conv_ok (sn_conversations s) \<Longrightarrow> all_dict conv_ok (sn_conversations (propagate_conversation_state e st s))"
  by (auto simp: propagate_conversation_state_def intro: all_dict_upd_first)

lemma phase_changed_conv:
  assumes "on_phase_changed e oc s = Inr s'" "all_dict conv_ok (sn_conversations s)"
  shows "all_dict conv_ok (sn_conversations s')"
  using assms by (auto simp: on_phase_changed_def Let_def bindE_Inr propagate_conv split: option.splits)

lemma orchestration_conv:
  assumes "apply_orchestration_event e s = Inr s'" "all_dict conv_ok (sn_conversations s)"
  shows "all_dict conv_ok (sn_conversations s')"
  using assms phase_changed_conv [of e _ s s']
  by (auto simp: apply_orchestration_event_def Let_def bindE_Inr on_run_completed_def propagate_conv split: if_splits)

lemma change_state_id: "cs_aggregate_id (change_conversation_state e c) = cs_aggregate_id c"
  by (simp add: change_conversation_state_def Let_def split: option.splits)

lemma update_conversation_id:
  "update_conversation e c = Inr c' \<Longrightarrow> cs_aggregate_id c' = cs_aggregate_id c"
  unfolding update_conversation_def Let_def by (auto simp: bindE_Inr change_state_id split: if_splits)

lemma conversation_event_conv:
  assumes "apply_conversation_event e s = Inr s'" "all_dict conv_ok (sn_conversations s)"
  shows "all_dict conv_ok (sn_conversations s')"
proof -
  let ?i = "v_aggregate_id e"
  let ?c = "case map_of (sn_conversations s) ?i of None \<Rightarrow> new_conversation_state ?i | Some c \<Rightarrow> c"
  have "cs_aggregate_id ?c = ?i" using assms(2) by (auto simp: all_dict_def new_conversation_state_def split: option.splits)
  moreover obtain c' where "sn_conversations s' = dset ?i c' (sn_conversations s)" "cs_aggregate_id c' = cs_aggregate_id ?c"
    using assms(1) by (auto simp: apply_conversation_event_def Let_def bindE_Inr dest: update_conversation_id split: if_splits)
  ultimately show ?thesis using assms(2) by (simp add: all_dict_dset)
qed

lemma conversations_step:
  assumes "apply_event e s = Inr s'" "snapshot_wf s"
  shows "all_dict conv_ok (sn_conversations s')"
proof -
  have wf: "all_dict conv_ok (sn_conversations s)" using assms(2) by (simp add: snapshot_wf_def)
  from assms(1) show ?thesis
  proof (cases rule: apply_event_cases)
    case orch
    then show ?thesis using orchestration_conv wf by fastforce
  next
    case conversation
    then show ?thesis using conversation_event_conv wf by fastforce
  next
    case verification
    then show ?thesis using wf
      by (auto simp: apply_verification_event_def Let_def bindE_Inr intro!: all_dict_upd_first split: if_splits)
  qed (use wf in \<open>simp_all add: reducer_fields\<close>)
qed

lemma totals_step:
  assumes "apply_event e s = Inr s'" "snapshot_wf s"
  shows "all_dict (\<lambda>_ _. True) (sn_token_totals s')"
proof -
  have wf: "all_dict (\<lambda>_ _. True) (sn_token_totals s)" using assms(2) by (simp add: snapshot_wf_def)
  from assms(1) show ?thesis
  proof (cases rule: apply_event_cases)
    case usage
    then show ?thesis using wf by (auto simp: apply_usage_event_def Let_def bindE_Inr intro: all_dict_dset)
  qed (use wf in \<open>simp_all add: reducer_fields\<close>)
qed

lemma snapshot_wf_step: "apply_event e s = Inr s' \<Longrightarrow> snapshot_wf s \<Longrightarrow> snapshot_wf s'"
  using agents_step orchestrations_step approvals_step conversations_step totals_step
  unfolding snapshot_wf_def by blast

lemma snapshot_wf_empty: "snapshot_wf empty_snapshot"
  by (simp add: snapshot_wf_def empty_snapshot_def all_dict_def)

lemma replay_wf: "replay_events es = Inr s \<Longrightarrow> snapshot_wf s"
  unfolding replay_events_def using foldE_keeps [where P = snapshot_wf] snapshot_wf_empty snapshot_wf_step by metis

definition only_grows :: "runtime_snapshot \<Rightarrow> runtime_snapshot \<Rightarrow> bool" where
  "only_grows s s' \<longleftrightarrow> rel_dict agent_rel (sn_agents s) (sn_agents s') \<and>
     rel_dict orch_rel (sn_orchestrations s) (sn_orchestrations s') \<and> rel_dict appr_rel (sn_approvals s) (sn_approvals s')"

lemma only_grows_refl: "only_grows s s"
  by (simp add: only_grows_def rel_dict_refl rel_refls)

lemma only_grows_trans:
  assumes "only_grows s t" "only_grows t u"
  shows "only_grows s u"
proof -
  have "agent_rel a c" if "agent_rel a b" "agent_rel b c" for a b c using that by (simp add: agent_rel_def)
  moreover have "orch_rel a c" if "orch_rel a b" "orch_rel b c" for a b c using that by (simp add: orch_rel_def)
  moreover have "appr_rel a c" if "appr_rel a b" "appr_rel b c" for a b c using that by (auto simp: appr_rel_def)
  ultimately show ?thesis using assms unfolding only_grows_def by (meson rel_dict_trans)
qed

lemma later_grows:
  "foldE apply_event es s = Inr s' \<Longrightarrow> snapshot_wf s \<Longrightarrow> only_grows s s'"
proof (induction es arbitrary: s)
  case Nil
  then show ?case by (simp add: only_grows_refl)
next
  case (Cons e es)
  then obtain t where t: "apply_event e s = Inr t" "foldE apply_event es t = Inr s'" by (auto simp: bindE_Inr)
  have "only_grows s t"
    using agents_step [OF t(1) Cons.prems(2)] orchestrations_step [OF t(1) Cons.prems(2)]
      approvals_step [OF t(1) Cons.prems(2)] by (simp add: only_grows_def)
  with Cons.IH [OF t(2) snapshot_wf_step [OF t(1) Cons.prems(2)]] show ?case using only_grows_trans by blast
qed

section \<open>Token totals\<close>

definition count_of_event :: "string \<Rightarrow> int \<Rightarrow> runtime_event \<Rightarrow> int" where
  "count_of_event k d e = (case pint e k d of Inl _ \<Rightarrow> 0 | Inr n \<Rightarrow> n)"

definition is_usage :: "string \<Rightarrow> runtime_event \<Rightarrow> bool" where
  "is_usage name e \<longleftrightarrow> v_event_type e = ''model.usage.updated'' \<and> usage_agent e = name"

text \<open>The reference: what the usage events of one agent add up to.\<close>

definition usage_sum :: "runtime_event list \<Rightarrow> token_total" where
  "usage_sum us =
     \<lparr>tt_input_tokens = (\<Sum>e\<leftarrow>us. count_of_event ''input_tokens'' 0 e),
      tt_output_tokens = (\<Sum>e\<leftarrow>us. count_of_event ''output_tokens'' 0 e),
      tt_cached_input_tokens = (\<Sum>e\<leftarrow>us. count_of_event ''cached_input_tokens'' 0 e),
      tt_reasoning_output_tokens = (\<Sum>e\<leftarrow>us. count_of_event ''reasoning_output_tokens'' 0 e),
      tt_total_tokens = (\<Sum>e\<leftarrow>us. count_of_event ''total_tokens''
         (count_of_event ''input_tokens'' 0 e + count_of_event ''output_tokens'' 0 e) e),
      tt_requests = int (length us)\<rparr>"

definition usage_total :: "runtime_event list \<Rightarrow> string \<Rightarrow> token_total option" where
  "usage_total es name = (let us = filter (is_usage name) es in if us = [] then None else Some (usage_sum us))"

lemma usage_sum_Nil: "usage_sum [] = zero_total"
  by (simp add: usage_sum_def zero_total_def)

lemma total_or_zero: "(case usage_total es name of None \<Rightarrow> zero_total | Some x \<Rightarrow> x) = usage_sum (filter (is_usage name) es)"
  by (simp add: usage_total_def Let_def usage_sum_Nil)

lemma totals_event:
  assumes "apply_event e s = Inr s'" "map_of (sn_token_totals s) = usage_total es"
  shows "map_of (sn_token_totals s') = usage_total (es @ [e])"
proof -
  have other: ?thesis if "v_event_type e \<noteq> ''model.usage.updated''" "sn_token_totals s' = sn_token_totals s"
    using that assms(2) by (auto simp: usage_total_def is_usage_def fun_eq_iff Let_def)
  show ?thesis
  proof (cases "v_event_type e = ''model.usage.updated''")
    case True
    have no: "''model.usage.updated'' \<notin> set orchestration_events" "''model.usage.updated'' \<notin> set (map fst agent_status_map)"
      by code_simp+
    have "apply_usage_event e (at_event e s) = Inr s'"
      using assms(1) no by (simp add: apply_event_def Let_def True at_event_def del: set_map)
    then obtain i u c r t where n: "pint e ''input_tokens'' 0 = Inr i" "pint e ''output_tokens'' 0 = Inr u"
        "pint e ''total_tokens'' (i + u) = Inr t" "pint e ''cached_input_tokens'' 0 = Inr c"
        "pint e ''reasoning_output_tokens'' 0 = Inr r"
      and s': "sn_token_totals s' = dset (usage_agent e) (add_usage i u c r t
        (usage_sum (filter (is_usage (usage_agent e)) es))) (sn_token_totals s)"
      by (auto simp: apply_usage_event_def Let_def bindE_Inr assms(2) total_or_zero split: if_splits)
    have "add_usage i u c r t (usage_sum us) = usage_sum (us @ [e])" for us
      using n by (simp add: add_usage_def usage_sum_def count_of_event_def)
    then show ?thesis using s' assms(2) True
      by (auto simp: fun_eq_iff usage_total_def is_usage_def Let_def)
  next
    case False
    from assms(1) have "sn_token_totals s' = sn_token_totals s"
      by (cases rule: apply_event_cases) (use False in \<open>simp_all add: reducer_fields\<close>)
    with False show ?thesis by (rule other)
  qed
qed

lemma replay_totals:
  "foldE apply_event es s = Inr s' \<Longrightarrow> map_of (sn_token_totals s) = usage_total es0 \<Longrightarrow>
    map_of (sn_token_totals s') = usage_total (es0 @ es)"
proof (induction es arbitrary: s es0)
  case (Cons e es)
  then obtain t where t: "apply_event e s = Inr t" "foldE apply_event es t = Inr s'" by (auto simp: bindE_Inr)
  from Cons.IH [OF t(2) totals_event [OF t(1) Cons.prems(2)]] show ?case by simp
qed simp

section \<open>Cursors\<close>

definition cursor_positions :: "string list \<Rightarrow> runtime_event list \<Rightarrow> int list" where
  "cursor_positions surfaces es = map (count_of_event ''position'' 0)
     (filter (\<lambda>e. v_event_type e = ''surface.cursor.advanced'' \<and> pstr e ''surface'' [] \<in> set surfaces) es)"

definition max_position :: "int list \<Rightarrow> int" where
  "max_position ps = fold max ps 0"

lemma max_position_snoc: "max_position (ps @ [p]) = max p (max_position ps)"
  by (simp add: max_position_def)

lemma disjoint_surfaces: "set cockpit_surfaces \<inter> set onsite_surfaces = {}"
proof -
  have "list_all (\<lambda>x. x \<notin> set onsite_surfaces) cockpit_surfaces" by code_simp
  then show ?thesis by (auto simp: list_all_iff)
qed

definition wb_ok :: "runtime_event list \<Rightarrow> workbench_runtime_state \<Rightarrow> bool" where
  "wb_ok es w \<longleftrightarrow> wb_view w \<in> {''cockpit'', ''onsite''} \<and> wb_execution_mode w \<in> set valid_execution_modes \<and>
     wb_cockpit_cursor w = max_position (cursor_positions cockpit_surfaces es) \<and>
     wb_onsite_cursor w = max_position (cursor_positions onsite_surfaces es)"

lemma view_range: "map_of view_mode_map m = Some v \<Longrightarrow> v \<in> {''cockpit'', ''onsite''}"
  by (drule map_of_SomeD) (auto simp: view_mode_map_def)

lemma switch_view_keeps:
  "wb_ok es w \<Longrightarrow> wb_ok es (switch_view m w)"
  using view_range [of m] by (auto simp: wb_ok_def switch_view_def split: option.splits)

lemma quiet_positions:
  "v_event_type e \<noteq> ''surface.cursor.advanced'' \<Longrightarrow> cursor_positions ss (es @ [e]) = cursor_positions ss es"
  by (simp add: cursor_positions_def)

lemma wb_ok_quiet: "v_event_type e \<noteq> ''surface.cursor.advanced'' \<Longrightarrow> wb_ok es w \<Longrightarrow> wb_ok (es @ [e]) w"
  by (simp add: wb_ok_def quiet_positions)

lemma wb_ok_session:
  "wb_ok es w \<Longrightarrow> wb_ok es (w\<lparr>wb_active_agent := a\<rparr>)" "wb_ok es w \<Longrightarrow> wb_ok es (w\<lparr>wb_onsite_session_status := b\<rparr>)"
  "wb_ok es w \<Longrightarrow> wb_ok es (w\<lparr>wb_onsite_external_session_id := c\<rparr>)" "wb_ok es w \<Longrightarrow> wb_ok es (w\<lparr>wb_onsite_orphan_reason := d\<rparr>)"
  "wb_ok es w \<Longrightarrow> m \<in> set valid_execution_modes \<Longrightarrow> wb_ok es (w\<lparr>wb_execution_mode := m\<rparr>)"
  by (simp_all add: wb_ok_def)

lemma advance_ok:
  assumes "wb_ok es w" "v_event_type e = ''surface.cursor.advanced''" "pint e ''position'' 0 = Inr n"
  shows "wb_ok (es @ [e]) (advance_workbench (pstr e ''surface'' []) n w)"
proof -
  have n: "count_of_event ''position'' 0 e = n" using assms(3) by (simp add: count_of_event_def)
  have pos: "cursor_positions ss (es @ [e]) = cursor_positions ss es @ (if pstr e ''surface'' [] \<in> set ss then [n] else [])" for ss
    using assms(2) n by (simp add: cursor_positions_def)
  show ?thesis using assms(1) disjoint_surfaces
    by (auto simp: wb_ok_def advance_workbench_def pos max_position_snoc)
qed

lemma workbench_event:
  assumes "apply_workbench_event e w = Inr w'" "wb_ok es w"
  shows "wb_ok (es @ [e]) w'"
proof (cases "v_event_type e = ''surface.cursor.advanced''")
  case True
  then obtain n where "pint e ''position'' 0 = Inr n" "w' = advance_workbench (pstr e ''surface'' []) n w"
    using assms(1) by (auto simp: apply_workbench_event_def Let_def bindE_Inr)
  then show ?thesis using advance_ok [OF assms(2) True] by simp
next
  case False
  have "wb_ok es w'"
    using assms False unfolding apply_workbench_event_def Let_def
    by (auto simp: wb_ok_session switch_view_keeps orphan_active_def split: if_splits)
  then show ?thesis by (rule wb_ok_quiet [OF False])
qed

lemma replay_workbench:
  "foldE apply_workbench_event es w = Inr w' \<Longrightarrow> wb_ok es0 w \<Longrightarrow> wb_ok (es0 @ es) w'"
proof (induction es arbitrary: w es0)
  case (Cons e es)
  then obtain t where t: "apply_workbench_event e w = Inr t" "foldE apply_workbench_event es t = Inr w'" by (auto simp: bindE_Inr)
  from Cons.IH [OF t(2) workbench_event [OF t(1) Cons.prems(2)]] show ?case by simp
qed simp

lemma new_workbench_ok: "wb_ok [] new_workbench"
  by (simp add: wb_ok_def new_workbench_def cursor_positions_def max_position_def valid_execution_modes_def)

text \<open>The surface cursors of a chat never move back.\<close>

definition cursor_at :: "surface_view_state \<Rightarrow> string \<Rightarrow> int" where
  "cursor_at v x = cu_position (ensure_cursor v x)"

definition view_rel :: "surface_view_state \<Rightarrow> surface_view_state \<Rightarrow> bool" where
  "view_rel v v' \<longleftrightarrow> (\<forall>x. cursor_at v x \<le> cursor_at v' x)"

lemma view_rel_same: "sv_cursors v' = sv_cursors v \<Longrightarrow> view_rel v v'"
  by (simp add: view_rel_def cursor_at_def ensure_cursor_def)

lemma advance_cursor_at: "cursor_at (advance_cursor x n v) y = (if y = x then max n (cursor_at v x) else cursor_at v y)"
  by (simp add: cursor_at_def advance_cursor_def ensure_cursor_def [of "_\<lparr>sv_cursors := _\<rparr>"] Let_def)
     (simp add: ensure_cursor_def)

lemma advance_view_rel: "view_rel v (advance_cursor x n v)"
  by (simp add: view_rel_def advance_cursor_at)

lemma set_session_cursors [simp]: "sv_cursors (set_session_status e st v) = sv_cursors v"
  by (simp add: set_session_status_def Let_def split: option.splits)

lemma update_surface_view_rel: "update_surface_view e chat v = Inr v' \<Longrightarrow> view_rel v v'"
  unfolding update_surface_view_def Let_def
  by (auto simp: bindE_Inr view_rel_same advance_view_rel split: if_splits)

lemma surface_event_rel:
  assumes "apply_surface_event e s = Inr s'"
  shows "rel_dict view_rel (ss_by_chat s) (ss_by_chat s')"
proof -
  have refl: "view_rel v v" for v by (rule view_rel_same) simp
  from assms obtain chat where c: "pint e ''chat_id'' 0 = Inr chat"
    by (auto simp: apply_surface_event_def Let_def bindE_Inr)
  show ?thesis
  proof (cases "chat = 0")
    case True
    then show ?thesis using assms c rel_dict_refl [of view_rel, OF refl]
      by (auto simp: apply_surface_event_def Let_def bindE_Inr)
  next
    case False
    let ?s = "s\<lparr>ss_last_event_id := v_id e, ss_last_event_at := At (v_occurred_at e)\<rparr>"
    let ?v = "get_or_create_chat ?s chat"
    obtain v' where v': "update_surface_view e chat (?v\<lparr>sv_last_event_id := v_id e, sv_last_event_at := At (v_occurred_at e),
        sv_conversation_id := id_or (v_conversation_id e) (sv_conversation_id ?v)\<rparr>) = Inr v'"
      "ss_by_chat s' = dset chat v' (ss_by_chat s)"
      using assms c False by (auto simp: apply_surface_event_def Let_def bindE_Inr)
    have "view_rel ?v v'" using update_surface_view_rel [OF v'(1)]
      by (simp add: view_rel_def cursor_at_def ensure_cursor_def)
    then have "view_rel v v'" if "map_of (ss_by_chat s) chat = Some v" for v
      using that by (simp add: get_or_create_chat_def)
    then show ?thesis unfolding v'(2) using refl by (intro rel_dict_dset)
  qed
qed

lemma surface_later:
  "foldE apply_surface_event es s = Inr s' \<Longrightarrow> rel_dict view_rel (ss_by_chat s) (ss_by_chat s')"
proof (induction es arbitrary: s)
  case Nil
  then show ?case by (simp add: rel_dict_refl view_rel_same)
next
  case (Cons e es)
  then obtain t where t: "apply_surface_event e s = Inr t" "foldE apply_surface_event es t = Inr s'" by (auto simp: bindE_Inr)
  have "view_rel u w" if "view_rel u v" "view_rel v w" for u v w using that order_trans unfolding view_rel_def by blast
  then show ?case using rel_dict_trans [OF _ surface_event_rel [OF t(1)] Cons.IH [OF t(2)]] by blast
qed

section \<open>Failures\<close>

definition numeric_keys :: "string list" where
  "numeric_keys = [''chat_id'', ''position'', ''verify_round'', ''max_verify_rounds'', ''input_tokens'', ''output_tokens'',
     ''total_tokens'', ''cached_input_tokens'', ''reasoning_output_tokens'']"

definition unreadable :: "json \<Rightarrow> runtime_event \<Rightarrow> bool" where
  "unreadable v e \<longleftrightarrow> (\<exists>k \<in> set numeric_keys. map_of (v_payload e) k = Some v \<and> py_int v = None)"

lemma pint_Inl: "pint e k d = Inl v \<Longrightarrow> k \<in> set numeric_keys \<Longrightarrow> unreadable v e"
  by (auto simp: pint_def unreadable_def dget_def Let_def split: option.splits)

lemma numeric:
  "''chat_id'' \<in> set numeric_keys" "''position'' \<in> set numeric_keys" "''verify_round'' \<in> set numeric_keys"
  "''max_verify_rounds'' \<in> set numeric_keys" "''input_tokens'' \<in> set numeric_keys" "''output_tokens'' \<in> set numeric_keys"
  "''total_tokens'' \<in> set numeric_keys" "''cached_input_tokens'' \<in> set numeric_keys"
  "''reasoning_output_tokens'' \<in> set numeric_keys"
  by code_simp+

lemmas pint_fails = pint_Inl [OF _ numeric(1)] pint_Inl [OF _ numeric(2)] pint_Inl [OF _ numeric(3)] pint_Inl [OF _ numeric(4)]
  pint_Inl [OF _ numeric(5)] pint_Inl [OF _ numeric(6)] pint_Inl [OF _ numeric(7)] pint_Inl [OF _ numeric(8)]
  pint_Inl [OF _ numeric(9)]

lemma phase_fails: "on_phase_changed e oc s = Inl v \<Longrightarrow> unreadable v e"
  by (auto simp: on_phase_changed_def Let_def bindE_Inl dest: pint_fails split: option.splits)

lemma orchestration_fails: "apply_orchestration_event e s = Inl v \<Longrightarrow> unreadable v e"
  unfolding apply_orchestration_event_def Let_def
  by (auto simp: bindE_Inl dest: pint_fails phase_fails split: if_splits)

lemma usage_fails: "apply_usage_event e s = Inl v \<Longrightarrow> unreadable v e"
  unfolding apply_usage_event_def Let_def by (auto simp: bindE_Inl dest: pint_fails)

lemma verification_fails: "apply_verification_event e s = Inl v \<Longrightarrow> unreadable v e"
  unfolding apply_verification_event_def upd_firstE_def verify_orchestration_def Let_def
  by (auto simp: bindE_Inl dest: pint_fails split: if_splits option.splits)

lemma conversation_fails: "apply_conversation_event e s = Inl v \<Longrightarrow> unreadable v e"
  unfolding apply_conversation_event_def update_conversation_def Let_def
  by (auto simp: bindE_Inl dest: pint_fails split: if_splits)

lemma dispatch_fail:
  "(if c1 then x1 else if c2 then Inr y2 else if c3 then x3 else if c4 then Inr y4 else if c5 then Inr y5 else if c6 then x6
    else if c7 then x7 else if c8 then Inr y8 else Inr y9) = Inl (r :: 'r) \<Longrightarrow> x1 = Inl r \<or> x3 = Inl r \<or> x6 = Inl r \<or> x7 = Inl r"
  by (auto split: if_splits)

lemma event_fails: "apply_event e s = Inl v \<Longrightarrow> unreadable v e"
  unfolding apply_event_def Let_def
  by (drule dispatch_fail) (blast dest: orchestration_fails usage_fails verification_fails conversation_fails)

lemma surface_fails: "apply_surface_event e s = Inl v \<Longrightarrow> unreadable v e"
  unfolding apply_surface_event_def update_surface_view_def Let_def
  by (auto simp: bindE_Inl dest: pint_fails split: if_splits)

lemma workbench_fails: "apply_workbench_event e s = Inl v \<Longrightarrow> unreadable v e"
  unfolding apply_workbench_event_def Let_def
  by (auto simp: bindE_Inl dest: pint_fails split: if_splits)

section \<open>Properties\<close>

definition demo_ev :: "nat \<Rightarrow> string \<Rightarrow> string \<Rightarrow> dict \<Rightarrow> runtime_event" where
  "demo_ev i ty agg p = \<lparr>v_id = i, v_event_type = ty, v_aggregate_type = [], v_aggregate_id = agg, v_conversation_id = Some 4,
     v_orchestration_run_id = Some 7, v_agent_run_id = Some 9, v_task_id = None, v_correlation_id = [], v_causation_id = None,
     v_source = [], v_actor = ''codex'', v_visibility = [], v_payload = p, v_lease_expires_at = None, v_occurred_at = int i\<rparr>"

definition demo_log :: "runtime_event list" where
  "demo_log = [demo_ev 1 ''run.started'' ''r'' [], demo_ev 2 ''agent.run.started'' ''a'' [],
     demo_ev 3 ''verification.decision.recorded'' ''r'' [(''decision'', JStr ''pass'')],
     demo_ev 4 ''model.usage.updated'' ''a'' [(''input_tokens'', JInt 3), (''output_tokens'', JInt 2)],
     demo_ev 5 ''agent.run.completed'' ''a'' [], demo_ev 6 ''approval.expired'' ''p'' [], demo_ev 7 ''run.completed'' ''r'' []]"

definition demo_late :: "runtime_event list" where
  "demo_late = [demo_ev 8 ''agent.run.heartbeat'' ''a'' [], demo_ev 9 ''approval.resolved'' ''p'' [], demo_ev 10 ''run.started'' ''r'' [],
     demo_ev 11 ''model.usage.updated'' ''a'' [(''input_tokens'', JInt 1)]]"

text \<open>C34. Terminal states are final in a replay, however the log goes on: a finished agent and a finished orchestration
  stay finished, and a settled approval is not touched again.\<close>

theorem terminal_states_final:
  assumes "replay_events es = Inr s" "replay_events (es @ es') = Inr s'"
  shows "(map_of (sn_agents s) i = Some a \<and> agent_is_terminal a \<longrightarrow>
      (\<exists>a'. map_of (sn_agents s') i = Some a' \<and> agent_is_terminal a')) \<and>
    (map_of (sn_orchestrations s) i = Some oc \<and> orchestration_is_terminal oc \<longrightarrow>
      (\<exists>oc'. map_of (sn_orchestrations s') i = Some oc' \<and> orchestration_is_terminal oc')) \<and>
    (map_of (sn_approvals s) i = Some p \<and> approval_is_terminal p \<longrightarrow> map_of (sn_approvals s') i = Some p)"
proof -
  have "foldE apply_event es' s = Inr s'" using assms by (simp add: replay_events_def foldE_append)
  from later_grows [OF this replay_wf [OF assms(1)]] show ?thesis
    unfolding only_grows_def rel_dict_def agent_rel_def orch_rel_def appr_rel_def by blast
qed

theorem terminal_states_final_witness:
  "\<exists>s s' a'. replay_events demo_log = Inr s \<and> replay_events (demo_log @ demo_late) = Inr s' \<and>
     map_of (sn_agents s') ''a'' = Some a' \<and> agent_is_terminal a'"
proof -
  have "\<not> isl (replay_events demo_log)" "\<not> isl (replay_events (demo_log @ demo_late))" by code_simp+
  then obtain s s' where r: "replay_events demo_log = Inr s" "replay_events (demo_log @ demo_late) = Inr s'"
    by (metis isl_def old.sum.exhaust)
  have "case map_of (sn_agents (projr (replay_events demo_log))) ''a'' of None \<Rightarrow> False | Some a \<Rightarrow> agent_is_terminal a"
    by code_simp
  then obtain a where "map_of (sn_agents s) ''a'' = Some a" "agent_is_terminal a" using r by (auto split: option.splits)
  then show ?thesis using terminal_states_final [OF r] r by blast
qed

text \<open>A replayed orchestration is completed only if its last recorded verification decision was a pass; every entry of
  the four dictionaries stands under its own aggregate id, and no id occurs twice.\<close>

theorem completed_needs_pass:
  assumes "replay_events es = Inr s"
  shows "(map_of (sn_orchestrations s) i = Some oc \<longrightarrow> oc_aggregate_id oc = i \<and>
      (oc_status oc = ''completed'' \<longrightarrow> oc_last_verification_result oc = ''pass'')) \<and>
    (map_of (sn_agents s) i = Some a \<longrightarrow> ag_aggregate_id a = i) \<and> (map_of (sn_approvals s) i = Some p \<longrightarrow> pa_aggregate_id p = i) \<and>
    (map_of (sn_conversations s) i = Some c \<longrightarrow> cs_aggregate_id c = i) \<and>
    distinct (map fst (sn_orchestrations s)) \<and> distinct (map fst (sn_agents s)) \<and>
    distinct (map fst (sn_approvals s)) \<and> distinct (map fst (sn_conversations s))"
  using replay_wf [OF assms] unfolding snapshot_wf_def all_dict_def orch_ok_def by blast

theorem completed_needs_pass_witness:
  "\<exists>s oc. replay_events demo_log = Inr s \<and> map_of (sn_orchestrations s) ''r'' = Some oc \<and> oc_status oc = ''completed'' \<and>
     oc_last_verification_result oc = ''pass''"
proof -
  have "\<not> isl (replay_events demo_log)" by code_simp
  then obtain s where r: "replay_events demo_log = Inr s" by (metis isl_def old.sum.exhaust)
  have "case map_of (sn_orchestrations (projr (replay_events demo_log))) ''r'' of None \<Rightarrow> False | Some oc \<Rightarrow> oc_status oc = ''completed''"
    by code_simp
  then obtain oc where "map_of (sn_orchestrations s) ''r'' = Some oc" "oc_status oc = ''completed''"
    using r by (auto split: option.splits)
  then show ?thesis using completed_needs_pass [OF r] r by blast
qed

text \<open>The token totals of a replay are exactly the sums over the usage events of each agent, one request per event, a
  missing total counting as input plus output; an agent without usage events has no entry.\<close>

theorem token_totals_are_sums:
  assumes "replay_events es = Inr s"
  shows "map_of (sn_token_totals s) name =
    (let us = filter (\<lambda>e. v_event_type e = ''model.usage.updated'' \<and> usage_agent e = name) es
     in if us = [] then None else Some (usage_sum us))"
proof -
  have "map_of (sn_token_totals empty_snapshot) = usage_total []"
    by (simp add: empty_snapshot_def usage_total_def fun_eq_iff)
  from replay_totals [OF assms [unfolded replay_events_def] this] show ?thesis
    by (simp add: usage_total_def is_usage_def [abs_def])
qed

theorem token_totals_are_sums_witness:
  "\<exists>s x. replay_events (demo_log @ demo_late) = Inr s \<and> map_of (sn_token_totals s) ''codex'' = Some x \<and> tt_total_tokens x = 6 \<and>
     tt_requests x = 2"
proof -
  let ?us = "filter (\<lambda>e. v_event_type e = ''model.usage.updated'' \<and> usage_agent e = ''codex'') (demo_log @ demo_late)"
  have "\<not> isl (replay_events (demo_log @ demo_late))" by code_simp
  then obtain s where r: "replay_events (demo_log @ demo_late) = Inr s" by (metis isl_def old.sum.exhaust)
  moreover have "?us \<noteq> []" "tt_total_tokens (usage_sum ?us) = 6" "tt_requests (usage_sum ?us) = 2" by code_simp+
  ultimately show ?thesis using token_totals_are_sums [OF r, of "''codex''"] by (simp add: Let_def)
qed

text \<open>The cursors are the furthest positions of the log: each workbench cursor is the maximum of zero and the positions
  reported for its surfaces, the view and the execution mode stay within their vocabularies, and a surface cursor of a
  chat never moves back as the log goes on.\<close>

theorem cursors_are_maxima:
  assumes "replay_workbench_events es = Inr w" "replay_surface_events es = Inr s" "replay_surface_events (es @ es') = Inr s'"
  shows "wb_cockpit_cursor w = max_position (cursor_positions cockpit_surfaces es) \<and>
    wb_onsite_cursor w = max_position (cursor_positions onsite_surfaces es) \<and>
    wb_view w \<in> {''cockpit'', ''onsite''} \<and> wb_execution_mode w \<in> set valid_execution_modes \<and>
    (map_of (ss_by_chat s) chat = Some v \<longrightarrow>
      (\<exists>v'. map_of (ss_by_chat s') chat = Some v' \<and> cu_position (ensure_cursor v x) \<le> cu_position (ensure_cursor v' x)))"
proof -
  have "foldE apply_surface_event es' s = Inr s'" using assms(2,3) by (simp add: replay_surface_events_def foldE_append)
  from surface_later [OF this] have "\<exists>v'. map_of (ss_by_chat s') chat = Some v' \<and> cursor_at v x \<le> cursor_at v' x"
    if "map_of (ss_by_chat s) chat = Some v" using that unfolding rel_dict_def view_rel_def by blast
  moreover have "wb_ok es w" using replay_workbench [OF assms(1) [unfolded replay_workbench_events_def] new_workbench_ok] by simp
  ultimately show ?thesis unfolding wb_ok_def cursor_at_def by blast
qed

definition demo_moves :: "runtime_event list" where
  "demo_moves = map (\<lambda>(i, n). demo_ev i ''surface.cursor.advanced'' []
      [(''chat_id'', JInt 5), (''surface'', JStr ''product''), (''position'', JInt n)]) [(1, 4), (2, 9), (3, 6)]"

theorem cursors_are_maxima_witness:
  "\<exists>w. replay_workbench_events demo_moves = Inr w \<and> wb_cockpit_cursor w = 9"
proof -
  have "\<not> isl (replay_workbench_events demo_moves)" "\<not> isl (replay_surface_events demo_moves)"
    "\<not> isl (replay_surface_events (demo_moves @ []))" by code_simp+
  then obtain w s s' where r: "replay_workbench_events demo_moves = Inr w" "replay_surface_events demo_moves = Inr s"
      "replay_surface_events (demo_moves @ []) = Inr s'" by (metis isl_def old.sum.exhaust)
  moreover have "max_position (cursor_positions cockpit_surfaces demo_moves) = 9" by code_simp
  ultimately show ?thesis using cursors_are_maxima [OF r] by simp
qed

text \<open>A replay fails only on the number that broke it: the three replays give a state for every log, unless one of the
  named numeric fields of some event holds a value that Python's \<open>int\<close> rejects, and then they report that value.\<close>

theorem replay_fails_only_on_numbers:
  "(case replay_events es of Inr _ \<Rightarrow> True | Inl v \<Rightarrow> \<exists>e \<in> set es. unreadable v e) \<and>
   (case replay_surface_events es of Inr _ \<Rightarrow> True | Inl v \<Rightarrow> \<exists>e \<in> set es. unreadable v e) \<and>
   (case replay_workbench_events es of Inr _ \<Rightarrow> True | Inl v \<Rightarrow> \<exists>e \<in> set es. unreadable v e)"
  unfolding replay_events_def replay_surface_events_def replay_workbench_events_def
  by (auto split: sum.splits dest!: foldE_Inl intro: event_fails surface_fails workbench_fails)

end
