(* ===== verification/Approvals.thy ===== *)
theory Approvals
  imports Task_Service
begin

text \<open>
  \<^verbatim>\<open>wlcodex/approval.py\<close>: the callback codec and the resolution of approvals, with the response builders of
  \<^verbatim>\<open>wlcodex/codex_backend.py\<close>. The agent backend is a parameter: a call to it answers or fails, and because it is
  awaited other operations may have changed the ledger when it returns. The world records what was sent. JSON
  decoding is the argument \<open>loads\<close>, \<open>None\<close> being a decoding error. The Chinese replies are constructors.
\<close>

section \<open>The callback codec\<close>

record approval_callback =
  cb_approval_id :: int
  cb_action :: string

definition encode_approval_callback :: "int \<Rightarrow> string \<Rightarrow> string" where
  "encode_approval_callback i action = ''approval'' @ '':'' @ int_str i @ '':'' @ action"

definition decode_approval_callback :: "string \<Rightarrow> approval_callback option" where
  "decode_approval_callback data =
     (case split_on (CHR '':'') data of
        [p, i, action] \<Rightarrow>
          if p \<noteq> ''approval'' then None
          else map_option (\<lambda>n. \<lparr>cb_approval_id = n, cb_action = action\<rparr>) (py_int_of_string i)
      | _ \<Rightarrow> None)"

section \<open>Responses\<close>

definition decision_map :: "bool \<Rightarrow> (string \<times> string) list" where
  "decision_map allow_session =
     [(''approve_once'', ''accept''), (''approve_session'', if allow_session then ''acceptForSession'' else ''accept''),
      (''deny'', ''decline''), (''cancel'', ''cancel'')]"

definition legacy_decision_map :: "bool \<Rightarrow> (string \<times> string) list" where
  "legacy_decision_map allow_session =
     [(''approve_once'', ''approved''), (''approve_session'', if allow_session then ''approved_for_session'' else ''approved''),
      (''deny'', ''denied''), (''cancel'', ''abort'')]"

text \<open>A \<open>KeyError\<close> of an unknown action cannot happen: the callers pass one of the four.\<close>

definition lookup_decision :: "(string \<times> string) list \<Rightarrow> string \<Rightarrow> json" where
  "lookup_decision d action = (case map_of d action of None \<Rightarrow> JNull | Some s \<Rightarrow> JStr s)"

definition build_approval_response :: "approval_kind \<Rightarrow> string \<Rightarrow> json \<Rightarrow> bool \<Rightarrow> json" where
  "build_approval_response kind action permissions allow_session =
     (if kind = PERMISSIONS then
        (if action = ''approve_once'' \<or> action = ''approve_session''
         then JDict [(''permissions'', permissions),
                     (''scope'', JStr (if action = ''approve_session'' \<and> allow_session then ''session'' else ''turn''))]
         else JDict [(''permissions'', JDict []), (''scope'', JStr ''turn'')])
      else JDict [(''decision'', lookup_decision (decision_map allow_session) action)])"

definition build_legacy_approval_response :: "string \<Rightarrow> bool \<Rightarrow> json" where
  "build_legacy_approval_response action allow_session =
     JDict [(''decision'', lookup_decision (legacy_decision_map allow_session) action)]"

definition uses_legacy_review_decision :: "(string \<Rightarrow> json option) \<Rightarrow> approval_request \<Rightarrow> bool" where
  "uses_legacy_review_decision loads a =
     (case loads (a_command_json a) of
        Some (JDict d) \<Rightarrow> dget0 d ''response_schema'' = JStr ''legacy_review_decision''
      | _ \<Rightarrow> False)"

definition proposed_execpolicy_amendment :: "(string \<Rightarrow> json option) \<Rightarrow> approval_request \<Rightarrow> string list" where
  "proposed_execpolicy_amendment loads a =
     (case loads (a_command_json a) of
        Some (JDict d) \<Rightarrow> (case dget0 d ''proposed_execpolicy_amendment'' of
            JList vs \<Rightarrow> filter (\<lambda>s. s \<noteq> []) (map py_str vs) | _ \<Rightarrow> [])
      | _ \<Rightarrow> [])"

record approval_service =
  as_callback_timeout :: int
  as_allow_session_approval :: bool
  as_workspaces :: "(string \<times> bool) list"

definition build_backend_response ::
  "(string \<Rightarrow> json option) \<Rightarrow> approval_service \<Rightarrow> approval_request \<Rightarrow> string \<Rightarrow> json \<Rightarrow> json" where
  "build_backend_response loads sv a action permissions =
     (if uses_legacy_review_decision loads a then build_legacy_approval_response action (as_allow_session_approval sv)
      else if action = ''approve_session'' \<and> as_allow_session_approval sv \<and> a_kind a = COMMAND \<and>
              proposed_execpolicy_amendment loads a \<noteq> []
        then JDict [(''decision'', JDict [(''acceptWithExecpolicyAmendment'',
               JDict [(''execpolicy_amendment'', JList (map JStr (proposed_execpolicy_amendment loads a)))])])]
      else build_approval_response (a_kind a) action permissions (as_allow_session_approval sv))"

definition requested_permissions :: "(string \<Rightarrow> json option) \<Rightarrow> approval_request \<Rightarrow> json" where
  "requested_permissions loads a =
     (if a_kind a = PERMISSIONS
      then (case loads (if a_command_json a = [] then ''{}'' else a_command_json a) of None \<Rightarrow> JDict [] | Some v \<Rightarrow> v)
      else JDict [])"

section \<open>The world\<close>

record approval_backend =
  ab_resolve :: "string \<Rightarrow> json \<Rightarrow> ledger \<Rightarrow> string option \<times> ledger"
  ab_interrupt :: "string \<Rightarrow> string \<Rightarrow> ledger \<Rightarrow> ledger"

record approval_world =
  aw_ledger :: ledger
  aw_sent :: "(string \<times> json \<times> bool) list"
  aw_interrupted :: "(string \<times> string) list"

type_synonym 'a approval_act = "(approval_world, exn, 'a) act"

definition onL :: "(ledger \<Rightarrow> ledger) \<Rightarrow> unit approval_act" where
  "onL f = modA (\<lambda>w. w\<lparr>aw_ledger := f (aw_ledger w)\<rparr>)"

definition readL :: "(ledger \<Rightarrow> exn + 'a) \<Rightarrow> 'a approval_act" where
  "readL f = liftA (\<lambda>w. f (aw_ledger w))"

text \<open>The awaited call: the error message of a failure, and the ledger as others left it meanwhile.\<close>

definition send_response :: "approval_backend \<Rightarrow> string \<Rightarrow> json \<Rightarrow> string option approval_act" where
  "send_response b req response =
     stepA (\<lambda>w. case ab_resolve b req response (aw_ledger w) of
       (err, l) \<Rightarrow> (err, w\<lparr>aw_ledger := l, aw_sent := aw_sent w @ [(req, response, err = None)]\<rparr>))"

definition interrupt_turn :: "approval_backend \<Rightarrow> task \<Rightarrow> unit approval_act" where
  "interrupt_turn b t =
     (case t_codex_thread_id t of
        None \<Rightarrow> retA ()
      | Some th \<Rightarrow> (case t_active_turn_id t of
            None \<Rightarrow> retA ()
          | Some tu \<Rightarrow> if th = [] \<or> tu = [] then retA ()
              else modA (\<lambda>w. w\<lparr>aw_ledger := ab_interrupt b th tu (aw_ledger w),
                                aw_interrupted := aw_interrupted w @ [(th, tu)]\<rparr>)))"

section \<open>Resolution\<close>

datatype approval_reply =
    UnknownAction string
  | NoSuchApproval
  | TaskEnded task_status row_id
  | AlreadyHandled approval_status string
  | ReadOnlyWorkspace string row_id
  | SendFailed string
  | Handled row_id string nat

definition approval_actions :: "string list" where
  "approval_actions = [''approve_once'', ''approve_session'', ''deny'', ''cancel'']"

definition resolution_status :: "string \<Rightarrow> approval_status" where
  "resolution_status action =
     (if action = ''approve_once'' \<or> action = ''approve_session'' then AP_APPROVED
      else if action = ''deny'' then AP_DENIED else AP_CANCELLED)"

definition find_approval :: "ledger \<Rightarrow> int \<Rightarrow> approval_request option" where
  "find_approval l i = (if i < 0 then None else find (\<lambda>a. a_id a = nat i) (l_approvals l))"

definition workspace_read_only :: "approval_service \<Rightarrow> task \<Rightarrow> bool" where
  "workspace_read_only sv t = (map_of (as_workspaces sv) (t_workspace_alias t) = Some False)"

text \<open>The loop over the approvals that were pending when it started.\<close>

primrec approve_batch ::
  "(string \<Rightarrow> json option) \<Rightarrow> approval_service \<Rightarrow> approval_backend \<Rightarrow> row_id \<Rightarrow> row_id \<Rightarrow> approval_request list \<Rightarrow> nat approval_act" where
  "approve_batch loads sv b task clicked [] = retA 0"
| "approve_batch loads sv b task clicked (p # ps) =
     (if a_id p = clicked \<or> a_kind p \<noteq> COMMAND then approve_batch loads sv b task clicked ps
      else bindA (send_response b (a_codex_request_id p) (build_backend_response loads sv p ''approve_session'' (JDict [])))
        (\<lambda>err. case err of
           Some e \<Rightarrow> thenA (onL (set_approval_error (a_id p) e)) (approve_batch loads sv b task clicked ps)
         | None \<Rightarrow> thenA (onL (resolve_approval (a_id p) AP_APPROVED ''approve_session''))
             (thenA (onL (decrement_pending_approvals task))
             (bindA (approve_batch loads sv b task clicked ps) (\<lambda>n. retA (Suc n))))))"

definition approve_pending_command_batch ::
  "(string \<Rightarrow> json option) \<Rightarrow> approval_service \<Rightarrow> approval_backend \<Rightarrow> row_id \<Rightarrow> row_id \<Rightarrow> nat approval_act" where
  "approve_pending_command_batch loads sv b task clicked =
     bindA (getA (\<lambda>w. pending_approvals (aw_ledger w) task)) (approve_batch loads sv b task clicked)"

definition resume_if_idle :: "row_id \<Rightarrow> unit approval_act" where
  "resume_if_idle task =
     bindA (readL (\<lambda>l. get_task l task)) (\<lambda>t.
     bindA (getA (\<lambda>w. pending_approvals (aw_ledger w) task)) (\<lambda>remaining.
       whenA (t_status t = WAITING_APPROVAL \<and> remaining = []) (onL (set_task_status task RUNNING [] [] []))))"

definition settle_approval ::
  "(string \<Rightarrow> json option) \<Rightarrow> approval_service \<Rightarrow> approval_backend \<Rightarrow> approval_request \<Rightarrow> string \<Rightarrow> approval_reply approval_act" where
  "settle_approval loads sv b a action =
     thenA (onL (resolve_approval (a_id a) (resolution_status action) action))
     (thenA (if action = ''cancel'' \<and> a_kind a = PERMISSIONS
             then bindA (readL (\<lambda>l. get_task l (a_task_id a))) (interrupt_turn b) else retA ())
     (thenA (onL (decrement_pending_approvals (a_task_id a)))
     (bindA (if action = ''approve_session'' \<and> a_kind a = COMMAND
             then approve_pending_command_batch loads sv b (a_task_id a) (a_id a) else retA 0) (\<lambda>n.
      thenA (resume_if_idle (a_task_id a)) (retA (Handled (a_id a) action n))))))"

definition send_and_settle ::
  "(string \<Rightarrow> json option) \<Rightarrow> approval_service \<Rightarrow> approval_backend \<Rightarrow> approval_request \<Rightarrow> string \<Rightarrow> approval_reply approval_act" where
  "send_and_settle loads sv b a action =
     bindA (send_response b (a_codex_request_id a)
              (build_backend_response loads sv a action (requested_permissions loads a))) (\<lambda>err.
       case err of
         Some e \<Rightarrow> thenA (onL (set_approval_error (a_id a) e)) (retA (SendFailed e))
       | None \<Rightarrow> settle_approval loads sv b a action)"

definition resolve_callback ::
  "(string \<Rightarrow> json option) \<Rightarrow> approval_service \<Rightarrow> approval_backend \<Rightarrow> approval_callback \<Rightarrow> approval_reply approval_act" where
  "resolve_callback loads sv b cb =
     (if cb_action cb \<notin> set approval_actions then retA (UnknownAction (cb_action cb))
      else bindA (getA (\<lambda>w. find_approval (aw_ledger w) (cb_approval_id cb))) (\<lambda>found.
        case found of
          None \<Rightarrow> retA NoSuchApproval
        | Some a \<Rightarrow>
            bindA (readL (\<lambda>l. get_task l (a_task_id a))) (\<lambda>t.
              if t_status t \<in> {DONE, FAILED, ABORTED} then
                thenA (onL (resolve_approval (a_id a) AP_CANCELLED ''task_terminal''))
                (thenA (onL (decrement_pending_approvals (a_task_id a)))
                (retA (TaskEnded (t_status t) (a_id a))))
              else if a_status a \<noteq> AP_PENDING then
                retA (AlreadyHandled (a_status a) (case a_resolution a of None \<Rightarrow> [] | Some r \<Rightarrow> r))
              else if (cb_action cb = ''approve_once'' \<or> cb_action cb = ''approve_session'') \<and> workspace_read_only sv t then
                retA (ReadOnlyWorkspace (t_workspace_alias t) (a_id a))
              else send_and_settle loads sv b a (cb_action cb))))"

section \<open>Expiry\<close>

definition send_backend_expiry ::
  "(string \<Rightarrow> json option) \<Rightarrow> approval_service \<Rightarrow> approval_backend \<Rightarrow> bool \<Rightarrow> approval_request \<Rightarrow> bool approval_act" where
  "send_backend_expiry loads sv b with_ledger a =
     (let response = (if uses_legacy_review_decision loads a
            then build_legacy_approval_response ''cancel'' (as_allow_session_approval sv)
            else build_approval_response (a_kind a) ''cancel'' (requested_permissions loads a) (as_allow_session_approval sv)) in
      bindA (send_response b (a_codex_request_id a) response) (\<lambda>err.
        case err of
          Some _ \<Rightarrow> retA False
        | None \<Rightarrow>
            if a_kind a = PERMISSIONS \<and> with_ledger
            then catchA (thenA (bindA (readL (\<lambda>l. get_task l (a_task_id a))) (interrupt_turn b)) (retA True)) (\<lambda>_. retA True)
            else retA True))"

definition resolve_locally_expired :: "approval_request \<Rightarrow> unit approval_act" where
  "resolve_locally_expired a =
     thenA (onL (resolve_approval (a_id a) AP_EXPIRED ''timeout''))
     (thenA (onL (decrement_pending_approvals (a_task_id a)))
     (resume_if_idle (a_task_id a)))"

definition expire_stale_approvals :: "nat approval_act" where
  "expire_stale_approvals = retA 0"

end
