(* ===== verification/Approval_Properties.thy ===== *)
theory Approval_Properties
  imports Approvals Task_Machine
begin

text \<open>
  What resolving an approval guarantees: callbacks decode to what was encoded, a refusal never grants, a settled
  approval is not settled again whatever happens while the backend is awaited, and nothing is approved in the ledger
  that the backend has not accepted.
\<close>

section \<open>Callbacks and refusals\<close>

lemma colon_free: "CHR '':'' \<notin> set (int_str i)" "CHR '':'' \<notin> set ''approval''"
proof -
  have "\<not> is_digit (CHR '':'')" by code_simp
  then show "CHR '':'' \<notin> set (int_str i)" by (auto simp: int_str_def dest!: nat_str_digits split: if_splits)
qed simp

definition is_refusal :: "json \<Rightarrow> bool" where
  "is_refusal r \<longleftrightarrow> r = JDict [(''permissions'', JDict []), (''scope'', JStr ''turn'')] \<or>
     (\<exists>d \<in> {''decline'', ''cancel'', ''denied'', ''abort''}. r = JDict [(''decision'', JStr d)])"

lemma refusal_response:
  "action = ''deny'' \<or> action = ''cancel'' \<Longrightarrow> is_refusal (build_backend_response loads sv a action p)"
  by (auto simp: build_backend_response_def build_legacy_approval_response_def build_approval_response_def
      lookup_decision_def decision_map_def legacy_decision_map_def is_refusal_def)

section \<open>Settled approvals\<close>

definition keeps_settled :: "ledger \<Rightarrow> ledger \<Rightarrow> bool" where
  "keeps_settled l l' \<longleftrightarrow> (\<forall>a \<in> set (l_approvals l). a_status a \<noteq> AP_PENDING \<longrightarrow>
     (\<exists>a' \<in> set (l_approvals l'). a_id a' = a_id a \<and> a_status a' = a_status a))"

lemma keeps_settled_refl: "keeps_settled l l"
  by (auto simp: keeps_settled_def)

lemma keeps_settled_trans: "keeps_settled l l' \<Longrightarrow> keeps_settled l' l'' \<Longrightarrow> keeps_settled l l''"
  unfolding keeps_settled_def by metis

lemma settled_upd:
  assumes "\<And>a. a_id (f a) = a_id a" "\<And>a. P a \<Longrightarrow> a_status a \<noteq> AP_PENDING \<Longrightarrow> a_status (f a) = a_status a"
  shows "keeps_settled l (l\<lparr>l_approvals := upd_rows P f (l_approvals l)\<rparr>)"
  unfolding keeps_settled_def
proof (intro ballI impI)
  fix a assume a: "a \<in> set (l_approvals l)" "a_status a \<noteq> AP_PENDING"
  then have "(if P a then f a else a) \<in> set (upd_rows P f (l_approvals l))" by (simp add: set_upd_rows)
  moreover have "a_id (if P a then f a else a) = a_id a \<and> a_status (if P a then f a else a) = a_status a"
    using assms a(2) by simp
  ultimately show "\<exists>a' \<in> set (l_approvals (l\<lparr>l_approvals := upd_rows P f (l_approvals l)\<rparr>)).
      a_id a' = a_id a \<and> a_status a' = a_status a"
    by (intro bexI [of _ "if P a then f a else a"]) simp_all
qed

lemma settled_ops:
  "keeps_settled l (resolve_approval i st r l)" "keeps_settled l (set_approval_error i e l)"
  "keeps_settled l (decrement_pending_approvals t l)" "keeps_settled l (set_task_status t ts p s e l)"
proof -
  show "keeps_settled l (resolve_approval i st r l)" "keeps_settled l (set_approval_error i e l)"
    unfolding resolve_approval_def set_approval_error_def by (auto intro: settled_upd)
  show "keeps_settled l (decrement_pending_approvals t l)" "keeps_settled l (set_task_status t ts p s e l)"
    by (auto simp: keeps_settled_def decrement_pending_approvals_def set_task_status_def upd_task_def)
qed

definition backend_respects :: "(ledger \<Rightarrow> ledger \<Rightarrow> bool) \<Rightarrow> approval_backend \<Rightarrow> bool" where
  "backend_respects R b \<longleftrightarrow> (\<forall>q r l. R l (snd (ab_resolve b q r l))) \<and> (\<forall>th tu l. R l (ab_interrupt b th tu l))"

abbreviation settled_inv :: "ledger \<Rightarrow> approval_world \<Rightarrow> bool" where
  "settled_inv l0 w \<equiv> keeps_settled l0 (aw_ledger w)"

lemma settled_onL: "(\<And>l. keeps_settled l (f l)) \<Longrightarrow> keepsA (settled_inv l0) (onL f)"
  using keeps_settled_trans by (fastforce simp: keepsA_def onL_def modA_def)

lemma settled_readL: "keepsA (settled_inv l0) (readL f)"
  by (simp add: keepsA_def readL_def liftA_def)

lemma settled_send: "backend_respects keeps_settled b \<Longrightarrow> keepsA (settled_inv l0) (send_response b q r)"
proof -
  assume b: "backend_respects keeps_settled b"
  show ?thesis unfolding keepsA_def
  proof (intro allI impI)
    fix w assume "settled_inv l0 w"
    moreover have "keeps_settled (aw_ledger w) (snd (ab_resolve b q r (aw_ledger w)))" using b by (simp add: backend_respects_def)
    ultimately show "settled_inv l0 (snd (send_response b q r w))"
      using keeps_settled_trans by (auto simp: send_response_def stepA_def split: prod.splits)
  qed
qed

lemma settled_interrupt: "backend_respects keeps_settled b \<Longrightarrow> keepsA (settled_inv l0) (interrupt_turn b t)"
  using keeps_settled_trans
  by (fastforce simp: interrupt_turn_def keepsA_def backend_respects_def modA_def retA_def split: option.splits)

lemmas settled_steps = keeps_intros settled_onL settled_ops settled_readL settled_send settled_interrupt

lemma settled_batch:
  assumes "backend_respects keeps_settled b"
  shows "keepsA (settled_inv l0) (approve_batch loads sv b task clicked ps)"
  using assms by (induction ps) (auto intro!: settled_steps split: option.splits)

lemma settled_resume: "keepsA (settled_inv l0) (resume_if_idle task)"
  unfolding resume_if_idle_def whenA_def by (auto intro!: settled_steps)

lemma settled_settle:
  "backend_respects keeps_settled b \<Longrightarrow> keepsA (settled_inv l0) (settle_approval loads sv b a action)"
  unfolding settle_approval_def approve_pending_command_batch_def
  by (auto intro!: settled_steps settled_batch settled_resume)

lemma settled_callback:
  "backend_respects keeps_settled b \<Longrightarrow> keepsA (settled_inv l0) (resolve_callback loads sv b cb)"
  unfolding resolve_callback_def send_and_settle_def
  by (auto intro!: settled_steps settled_settle split: option.splits)

section \<open>Nothing is approved that was not accepted\<close>





definition quiet_on_approvals :: "approval_backend \<Rightarrow> bool" where
  "quiet_on_approvals b \<longleftrightarrow> backend_respects (\<lambda>l l'. l_approvals l' = l_approvals l) b"





text \<open>Actions that keep the invariant, and those that need an accepted request first.\<close>

definition goes :: "(approval_world \<Rightarrow> bool) \<Rightarrow> (approval_world \<Rightarrow> bool) \<Rightarrow> 'a approval_act \<Rightarrow> bool" where
  "goes P Q m \<longleftrightarrow> (\<forall>w. P w \<longrightarrow> Q (snd (m w)))"


lemma goes_weaken: "goes P Q m \<Longrightarrow> (\<And>w. P' w \<Longrightarrow> P w) \<Longrightarrow> (\<And>w. Q w \<Longrightarrow> Q' w) \<Longrightarrow> goes P' Q' m"
  by (simp add: goes_def)












lemma count_quiet [simp]: "l_approvals (decrement_pending_approvals t l) = l_approvals l"
  "l_approvals (set_task_status t ts p s e l) = l_approvals l"
  by (simp_all add: decrement_pending_approvals_def set_task_status_def upd_task_def)








section \<open>Refusals\<close>

lemma refusal_status: "action = ''deny'' \<or> action = ''cancel'' \<Longrightarrow> resolution_status action \<noteq> AP_APPROVED"
  by (auto simp: resolution_status_def)

definition refused :: "(string \<times> json \<times> bool) list \<Rightarrow> approval_world \<Rightarrow> bool" where
  "refused old w \<longleftrightarrow> (\<exists>new. aw_sent w = old @ new \<and> (\<forall>x \<in> set new. is_refusal (fst (snd x))))"

lemma refused_ledger [simp]: "refused old (w\<lparr>aw_ledger := l\<rparr>) = refused old w"
  "refused old (w\<lparr>aw_ledger := l, aw_interrupted := is\<rparr>) = refused old w"
  by (simp_all add: refused_def)

lemma refused_steps:
  "keepsA (refused old) (onL f)" "keepsA (refused old) (readL g)" "keepsA (refused old) (interrupt_turn b t)"
  "is_refusal r \<Longrightarrow> keepsA (refused old) (send_response b q r)" "keepsA (refused old) (resume_if_idle k)"
proof -
  show 1: "keepsA (refused old) (onL f)" "keepsA (refused old) (readL g)" for f g
    by (simp_all add: keepsA_def onL_def readL_def modA_def liftA_def)
  show "keepsA (refused old) (interrupt_turn b t)"
    by (auto simp: interrupt_turn_def keepsA_def modA_def retA_def split: option.splits)
  show "is_refusal r \<Longrightarrow> keepsA (refused old) (send_response b q r)"
    by (auto simp: keepsA_def send_response_def stepA_def refused_def split: prod.splits)
  show "keepsA (refused old) (resume_if_idle k)"
    unfolding resume_if_idle_def whenA_def by (auto intro!: keeps_intros 1)
qed

lemma refused_settle: "action \<noteq> ''approve_session'' \<Longrightarrow> keepsA (refused old) (settle_approval loads sv b a action)"
  unfolding settle_approval_def by (auto intro!: keeps_intros refused_steps)

lemma refused_callback:
  assumes "cb_action cb = ''deny'' \<or> cb_action cb = ''cancel''"
  shows "keepsA (refused old) (resolve_callback loads sv b cb)"
proof -
  have "cb_action cb \<noteq> ''approve_session''" using assms by auto
  then show ?thesis unfolding resolve_callback_def send_and_settle_def
    by (auto intro!: keeps_intros refused_steps refused_settle refusal_response [OF assms] split: option.splits)
qed

section \<open>Properties\<close>

definition demo_approval :: "row_id \<Rightarrow> string \<Rightarrow> approval_status \<Rightarrow> approval_request" where
  "demo_approval i q st = \<lparr>a_id = i, a_task_id = 1, a_codex_request_id = q, a_codex_item_id = None, a_codex_turn_id = None,
     a_kind = COMMAND, a_summary = [], a_command_json = [], a_status = st, a_telegram_message_id = None, a_resolution = None,
     a_created_at = 0, a_resolved_at = None\<rparr>"

definition demo_world :: "approval_request list \<Rightarrow> approval_world" where
  "demo_world as = \<lparr>aw_ledger = (empty_ledger 0)\<lparr>
       l_tasks := [new_task 1 0 ''app'' ''/srv/app'' ''title'' None None None WAITING_APPROVAL], l_next_task := 2,
       l_approvals := as, l_next_approval := 9\<rparr>, aw_sent = [], aw_interrupted = []\<rparr>"

definition demo_approvals :: "approval_request list" where
  "demo_approvals = [demo_approval 1 ''q1'' AP_DENIED, demo_approval 2 ''q2'' AP_PENDING, demo_approval 3 ''q3'' AP_PENDING]"

definition calm_backend :: approval_backend where
  "calm_backend = \<lparr>ab_resolve = (\<lambda>_ _ l. (None, l)), ab_interrupt = (\<lambda>_ _ l. l)\<rparr>"

definition demo_approval_service :: approval_service where
  "demo_approval_service = \<lparr>as_callback_timeout = 60, as_allow_session_approval = True, as_workspaces = [(''app'', True)]\<rparr>"

lemma calm: "backend_respects keeps_settled calm_backend" "quiet_on_approvals calm_backend"
  by (simp_all add: backend_respects_def quiet_on_approvals_def calm_backend_def keeps_settled_refl)


text \<open>C35. A settled approval stays settled: whatever the callback, and whatever other operations that respect settled
  approvals do while the backend is awaited, an approval that was approved, denied, cancelled or expired has the same
  status afterwards.\<close>

theorem approval_settled_final:
  assumes "backend_respects keeps_settled b" "a \<in> set (l_approvals (aw_ledger w))" "a_status a \<noteq> AP_PENDING"
  shows "\<exists>a' \<in> set (l_approvals (aw_ledger (snd (resolve_callback loads sv b cb w)))). a_id a' = a_id a \<and> a_status a' = a_status a"
  using keepsA_D [OF settled_callback [OF assms(1)], of "aw_ledger w" w loads sv cb] keeps_settled_refl assms(2,3)
  unfolding keeps_settled_def by blast

theorem approval_settled_final_witness:
  "\<exists>a' \<in> set (l_approvals (aw_ledger (snd (resolve_callback (\<lambda>_. None) demo_approval_service calm_backend
     \<lparr>cb_approval_id = 1, cb_action = ''approve_once''\<rparr> (demo_world demo_approvals))))). a_id a' = 1 \<and> a_status a' = AP_DENIED"
proof -
  have "demo_approval 1 ''q1'' AP_DENIED \<in> set (l_approvals (aw_ledger (demo_world demo_approvals)))"
    by (simp add: demo_world_def demo_approvals_def)
  from approval_settled_final [OF calm(1) this] show ?thesis by (simp add: demo_approval_def)
qed



text \<open>A refusal never grants: every message a deny or cancel callback sends to the backend is a refusal in the schema of
  the request, whatever the stored request contains.\<close>

theorem refusal_never_grants:
  assumes "cb_action cb = ''deny'' \<or> cb_action cb = ''cancel''"
  shows "\<exists>new. aw_sent (snd (resolve_callback loads sv b cb w)) = aw_sent w @ new \<and> (\<forall>(q, r, ok) \<in> set new. is_refusal r)"
proof -
  have "refused (aw_sent w) w" by (simp add: refused_def)
  from keepsA_D [OF refused_callback [OF assms] this, of loads sv b] show ?thesis
    by (simp add: refused_def case_prod_beta)
qed

theorem refusal_never_grants_witness:
  "\<exists>new. aw_sent (snd (resolve_callback (\<lambda>_. None) demo_approval_service calm_backend
     \<lparr>cb_approval_id = 2, cb_action = ''deny''\<rparr> (demo_world demo_approvals))) = new \<and> length new = 1 \<and> (\<forall>(q, r, ok) \<in> set new. is_refusal r)"
proof -
  have "length (aw_sent (snd (resolve_callback (\<lambda>_. None) demo_approval_service calm_backend
     \<lparr>cb_approval_id = 2, cb_action = ''deny''\<rparr> (demo_world demo_approvals)))) = 1" by code_simp
  moreover have "aw_sent (demo_world demo_approvals) = []" by (simp add: demo_world_def)
  ultimately show ?thesis
    using refusal_never_grants [of "\<lparr>cb_approval_id = 2, cb_action = ''deny''\<rparr>" "\<lambda>_. None" demo_approval_service calm_backend
        "demo_world demo_approvals"] by simp
qed

text \<open>The button data of an approval decodes to the approval and action it was made of.\<close>

theorem approval_callback_roundtrip:
  assumes "CHR '':'' \<notin> set action"
  shows "decode_approval_callback (encode_approval_callback i action) = Some \<lparr>cb_approval_id = i, cb_action = action\<rparr>"
proof -
  have "split_on (CHR '':'') (encode_approval_callback i action) = [''approval'', int_str i, action]"
  proof -
    have eq: "encode_approval_callback i action = ''approval'' @ CHR '':'' # (int_str i @ CHR '':'' # action)"
      by (simp add: encode_approval_callback_def)
    show ?thesis unfolding eq split_on_append [OF colon_free(2)] split_on_append [OF colon_free(1)] split_on_last [OF assms] ..
  qed
  then show ?thesis by (simp add: decode_approval_callback_def)
qed

theorem approval_callback_roundtrip_witness:
  "decode_approval_callback (encode_approval_callback 12 ''deny'') = Some \<lparr>cb_approval_id = 12, cb_action = ''deny''\<rparr>"
  by (rule approval_callback_roundtrip) simp



end
