(* ===== verification/Team_Tables.thy ===== *)
theory Team_Tables
  imports Relay_Models Task_Models
begin

text \<open>
  The team tables of \<^verbatim>\<open>wlcodex/db.py\<close> the relay works on: team runs, the jobs of their roles and the artifacts they
  leave. A relay task is a team run. The payload of an artifact is JSON text in the table; here it is the value
  the text decodes to, \<open>None\<close> for text that does not decode.
\<close>

record team_run =
  tr_id :: row_id
  tr_conversation_id :: row_id
  tr_orchestration_run_id :: "row_id option"
  tr_goal :: string
  tr_route :: string
  tr_risk_level :: string
  tr_status :: string
  tr_created_at :: stamp
  tr_updated_at :: stamp

record team_agent_job =
  tj_id :: row_id
  tj_team_run_id :: row_id
  tj_role :: string
  tj_model_profile :: string
  tj_status :: string
  tj_agent_run_id :: "int option"
  tj_created_at :: stamp
  tj_updated_at :: stamp

record team_artifact =
  ta_id :: row_id
  ta_team_run_id :: row_id
  ta_agent_job_id :: "row_id option"
  ta_artifact_type :: string
  ta_summary :: string
  ta_payload :: "json option"
  ta_created_at :: stamp

record team_store =
  tm_now :: stamp
  tm_runs :: "team_run list"
  tm_next_run :: row_id
  tm_jobs :: "team_agent_job list"
  tm_next_job :: row_id
  tm_artifacts :: "team_artifact list"
  tm_next_artifact :: row_id

definition create_team_run ::
  "row_id \<Rightarrow> row_id option \<Rightarrow> string \<Rightarrow> string \<Rightarrow> string \<Rightarrow> 'a team_store_scheme \<Rightarrow> team_run \<times> 'a team_store_scheme" where
  "create_team_run conversation orchestration goal route risk st =
     (let r = \<lparr>tr_id = tm_next_run st, tr_conversation_id = conversation, tr_orchestration_run_id = orchestration, tr_goal = goal,
               tr_route = route, tr_risk_level = risk, tr_status = ''running'', tr_created_at = tm_now st, tr_updated_at = tm_now st\<rparr>
      in (r, st\<lparr>tm_runs := tm_runs st @ [r], tm_next_run := tm_next_run st + 1\<rparr>))"

definition get_team_run :: "'a team_store_scheme \<Rightarrow> row_id \<Rightarrow> team_run option" where
  "get_team_run st i = find (\<lambda>r. tr_id r = i) (tm_runs st)"

definition get_team_run_for_orchestration :: "'a team_store_scheme \<Rightarrow> row_id \<Rightarrow> team_run option" where
  "get_team_run_for_orchestration st i =
     first_row (order_desc tr_id (filter (\<lambda>r. tr_orchestration_run_id r = Some i) (tm_runs st)))"

definition update_team_run_status :: "row_id \<Rightarrow> string \<Rightarrow> 'a team_store_scheme \<Rightarrow> 'a team_store_scheme" where
  "update_team_run_status i status st =
     st\<lparr>tm_runs := upd_rows (\<lambda>r. tr_id r = i) (\<lambda>r. r\<lparr>tr_status := status, tr_updated_at := tm_now st\<rparr>) (tm_runs st)\<rparr>"

definition create_team_agent_job ::
  "row_id \<Rightarrow> string \<Rightarrow> string \<Rightarrow> string \<Rightarrow> int option \<Rightarrow> 'a team_store_scheme \<Rightarrow> team_agent_job \<times> 'a team_store_scheme" where
  "create_team_agent_job run role profile status agent_run st =
     (let j = \<lparr>tj_id = tm_next_job st, tj_team_run_id = run, tj_role = role, tj_model_profile = profile, tj_status = status,
               tj_agent_run_id = agent_run, tj_created_at = tm_now st, tj_updated_at = tm_now st\<rparr>
      in (j, st\<lparr>tm_jobs := tm_jobs st @ [j], tm_next_job := tm_next_job st + 1\<rparr>))"

definition update_team_agent_job_status :: "row_id \<Rightarrow> string \<Rightarrow> 'a team_store_scheme \<Rightarrow> 'a team_store_scheme" where
  "update_team_agent_job_status i status st =
     st\<lparr>tm_jobs := upd_rows (\<lambda>j. tj_id j = i) (\<lambda>j. j\<lparr>tj_status := status, tj_updated_at := tm_now st\<rparr>) (tm_jobs st)\<rparr>"

definition list_team_agent_jobs :: "'a team_store_scheme \<Rightarrow> row_id \<Rightarrow> team_agent_job list" where
  "list_team_agent_jobs st run = sort_key tj_id (filter (\<lambda>j. tj_team_run_id j = run) (tm_jobs st))"

definition record_team_artifact ::
  "row_id \<Rightarrow> row_id option \<Rightarrow> string \<Rightarrow> string \<Rightarrow> dict \<Rightarrow> 'a team_store_scheme \<Rightarrow> team_artifact \<times> 'a team_store_scheme" where
  "record_team_artifact run job ty summary payload st =
     (let a = \<lparr>ta_id = tm_next_artifact st, ta_team_run_id = run, ta_agent_job_id = job, ta_artifact_type = ty, ta_summary = summary,
               ta_payload = Some (JDict payload), ta_created_at = tm_now st\<rparr>
      in (a, st\<lparr>tm_artifacts := tm_artifacts st @ [a], tm_next_artifact := tm_next_artifact st + 1\<rparr>))"

definition list_team_artifacts :: "'a team_store_scheme \<Rightarrow> row_id \<Rightarrow> team_artifact list" where
  "list_team_artifacts st run = sort_key ta_id (filter (\<lambda>a. ta_team_run_id a = run) (tm_artifacts st))"

section \<open>The tables keep their keys\<close>

definition team_store_wf :: "'a team_store_scheme \<Rightarrow> bool" where
  "team_store_wf st \<longleftrightarrow> ids_ok tr_id (tm_runs st) (tm_next_run st) \<and> ids_ok tj_id (tm_jobs st) (tm_next_job st) \<and>
     ids_ok ta_id (tm_artifacts st) (tm_next_artifact st)"

lemma team_store_wf_creates:
  assumes "team_store_wf st"
  shows "team_store_wf (snd (create_team_run c oc goal route risk st))"
    "team_store_wf (snd (create_team_agent_job run role profile status ar st))"
    "team_store_wf (snd (record_team_artifact run job ty summary payload st))"
  using assms by (simp_all add: team_store_wf_def create_team_run_def create_team_agent_job_def record_team_artifact_def Let_def
      ids_ok_snoc)

lemma team_store_wf_updates:
  assumes "team_store_wf st"
  shows "team_store_wf (update_team_run_status i status st)" "team_store_wf (update_team_agent_job_status j status st)"
  using assms by (simp_all add: team_store_wf_def update_team_run_status_def update_team_agent_job_status_def ids_ok_upd)

lemma get_team_run_updated:
  "get_team_run (update_team_run_status i status st) k =
     map_option (\<lambda>r. if k = i then r\<lparr>tr_status := status, tr_updated_at := tm_now st\<rparr> else r) (get_team_run st k)"
proof -
  have "tr_id r = k" if "find (\<lambda>r. tr_id r = k) (tm_runs st) = Some r" for r using find_SomeD [OF that] by simp
  then show ?thesis
    by (auto simp: get_team_run_def update_team_run_status_def find_upd_rows [where key = tr_id] option.map_comp
        split: option.splits intro!: option.map_cong)
qed

end
