(* ===== verification/Relay_Lifecycle.thy ===== *)
theory Relay_Lifecycle
  imports Team_Tables
begin

text \<open>
  \<^verbatim>\<open>wlcodex/relay/lifecycle.py\<close>: the durable rounds and role attempts of a relay task, the native approvals of a round,
  the claims on provider completions, the dispatch claims, and the reconciliation of all of them with the artifacts
  and the legacy job rows. No method awaits, so a call is one step. JSON columns hold the value they encode, \<open>None\<close>
  when the text does not decode; \<open>relay_rounds.id\<close> is never read and left out. Comparing ISO times as text is
  comparing instants.
\<close>

section \<open>Vocabulary and coercions\<close>

definition round_terminal_statuses :: "string list" where
  "round_terminal_statuses = [''waiting_user'', ''blocked'', ''failed'', ''completed'', ''interrupted'', ''superseded'']"

definition attempt_terminal_statuses :: "string list" where
  "attempt_terminal_statuses = [''passed'', ''waiting'', ''blocked'', ''failed'', ''interrupted'', ''superseded'']"

definition result_artifact_types :: "string list" where
  "result_artifact_types = [''routing_decision'', ''architecture_plan'', ''implementation_report'', ''test_report'',
     ''audit_report'', ''final_summary'', ''followup_response'']"

definition legacy_round_failure_statuses :: "string list" where
  "legacy_round_failure_statuses = [''blocked'', ''failed'']"

definition coerce_round_id :: "json \<Rightarrow> int" where
  "coerce_round_id v = (case py_int v of None \<Rightarrow> 0 | Some i \<Rightarrow> if i > 0 then i else 0)"

definition coerce_optional_int :: "json \<Rightarrow> int option" where
  "coerce_optional_int v = (if v = JNull then None else py_int v)"

definition completion_event_key :: "int \<Rightarrow> int option \<Rightarrow> string" where
  "completion_event_key event run =
     (case run of
        Some i \<Rightarrow> if i > 0 then ''agent:'' @ int_str i else if event > 0 then ''runtime:'' @ int_str event else []
      | None \<Rightarrow> if event > 0 then ''runtime:'' @ int_str event else [])"

definition clean_required_roles :: "json \<Rightarrow> string list" where
  "clean_required_roles v =
     (case v of JList vs \<Rightarrow> filter (\<lambda>s. strip s \<in> set relay_role_ids) (map py_str vs) | _ \<Rightarrow> [])"

text \<open>\<open>a or b\<close> on strings, and \<open>str(payload.get(k) or default)\<close>.\<close>

definition or_string :: "string \<Rightarrow> string \<Rightarrow> string" where
  "or_string a b = (if a = [] then b else a)"

definition pget :: "dict \<Rightarrow> string \<Rightarrow> string \<Rightarrow> string" where
  "pget d k v = py_str (py_or (dget0 d k) (JStr v))"

section \<open>Rows\<close>

record confirmation =
  cf_source :: string
  cf_kind :: string
  cf_role :: string
  cf_provider :: string
  cf_provider_request_id :: string
  cf_runtime_event_id :: int
  cf_native_session_id :: string
  cf_agent_run_id :: "int option"
  cf_turn_id :: string

definition no_confirmation :: confirmation where
  "no_confirmation = \<lparr>cf_source = [], cf_kind = [], cf_role = [], cf_provider = [], cf_provider_request_id = [],
     cf_runtime_event_id = 0, cf_native_session_id = [], cf_agent_run_id = None, cf_turn_id = []\<rparr>"

record relay_round =
  rr_team_run_id :: row_id
  rr_round_id :: int
  rr_status :: string
  rr_trigger_kind :: string
  rr_trigger_artifact_id :: "row_id option"
  rr_route :: string
  rr_required_roles :: "string list"
  rr_execution_mode :: string
  rr_execution_goal :: string
  rr_execution_strategy :: "json option"
  rr_waiting_reason :: string
  rr_confirmation :: confirmation
  rr_created_at :: stamp
  rr_updated_at :: stamp
  rr_closed_at :: "stamp option"

record role_attempt =
  at_id :: row_id
  at_team_run_id :: row_id
  at_round_id :: int
  at_role :: string
  at_attempt_no :: nat
  at_status :: string
  at_provider :: string
  at_native_session_id :: string
  at_agent_run_id :: "int option"
  at_turn_id :: string
  at_active_turn_id :: string
  at_dispatch_artifact_id :: "row_id option"
  at_completion_event_id :: "int option"
  at_completion_artifact_id :: "row_id option"
  at_error_artifact_id :: "row_id option"
  at_retry_count :: nat
  at_execution_mode :: string
  at_team_strategy :: string
  at_provider_mode :: "json option"
  at_provider_child_activity :: "json option"
  at_created_at :: stamp
  at_updated_at :: stamp
  at_closed_at :: "stamp option"

record completion_claim =
  cc_team_run_id :: row_id
  cc_event_key :: string
  cc_runtime_event_id :: int
  cc_agent_run_id :: "int option"
  cc_role :: string
  cc_claimed_round_id :: int
  cc_status :: string
  cc_artifact_id :: "row_id option"
  cc_claimed_at :: stamp
  cc_applied_at :: "stamp option"
  cc_updated_at :: stamp

record lifecycle_store = team_store +
  lc_rounds :: "relay_round list"
  lc_attempts :: "role_attempt list"
  lc_next_attempt :: row_id
  lc_claims :: "completion_claim list"
  lc_backfilling :: "row_id list"

type_synonym 'a lifecycle_act = "(lifecycle_store, relay_exn, 'a) act"

record relay_lifecycle_attempt =
  la_team_run_id :: row_id
  la_round_id :: int
  la_role :: string
  la_attempt_no :: nat
  la_status :: string
  la_provider :: string
  la_native_session_id :: string
  la_agent_run_id :: "int option"
  la_turn_id :: string
  la_active_turn_id :: string
  la_dispatch_artifact_id :: "row_id option"
  la_completion_event_id :: "int option"
  la_completion_artifact_id :: "row_id option"
  la_error_artifact_id :: "row_id option"
  la_retry_count :: nat
  la_execution_mode :: string
  la_team_strategy :: string
  la_provider_mode :: dict
  la_provider_child_activity :: dict

definition decoded_dict :: "json option \<Rightarrow> dict" where
  "decoded_dict v = (case v of Some (JDict d) \<Rightarrow> d | _ \<Rightarrow> [])"

definition attempt_from_row :: "role_attempt \<Rightarrow> relay_lifecycle_attempt" where
  "attempt_from_row a = \<lparr>la_team_run_id = at_team_run_id a, la_round_id = at_round_id a, la_role = at_role a,
     la_attempt_no = at_attempt_no a, la_status = at_status a, la_provider = at_provider a,
     la_native_session_id = at_native_session_id a, la_agent_run_id = at_agent_run_id a, la_turn_id = at_turn_id a,
     la_active_turn_id = at_active_turn_id a, la_dispatch_artifact_id = at_dispatch_artifact_id a,
     la_completion_event_id = at_completion_event_id a, la_completion_artifact_id = at_completion_artifact_id a,
     la_error_artifact_id = at_error_artifact_id a, la_retry_count = at_retry_count a,
     la_execution_mode = normalize_relay_execution_mode (JStr (at_execution_mode a)),
     la_team_strategy = or_string (at_team_strategy a) ''none'', la_provider_mode = decoded_dict (at_provider_mode a),
     la_provider_child_activity = decoded_dict (at_provider_child_activity a)\<rparr>"

definition legacy_projection_status :: "string \<Rightarrow> relay_lifecycle_attempt option \<Rightarrow> string" where
  "legacy_projection_status of_round attempt =
     (case attempt of
        None \<Rightarrow> ''idle''
      | Some a \<Rightarrow>
          if la_status a = ''superseded'' then ''idle''
          else if of_round \<in> set legacy_round_failure_statuses \<and> la_status a \<notin> set attempt_terminal_statuses then of_round
          else la_status a)"

section \<open>Queries\<close>

definition is_round :: "row_id \<Rightarrow> int \<Rightarrow> relay_round \<Rightarrow> bool" where
  "is_round t r x \<longleftrightarrow> rr_team_run_id x = t \<and> rr_round_id x = r"

definition find_round :: "lifecycle_store \<Rightarrow> row_id \<Rightarrow> int \<Rightarrow> relay_round option" where
  "find_round st t r = find (is_round t r) (lc_rounds st)"

definition is_attempt :: "row_id \<Rightarrow> int \<Rightarrow> string \<Rightarrow> role_attempt \<Rightarrow> bool" where
  "is_attempt t r role a \<longleftrightarrow> at_team_run_id a = t \<and> at_round_id a = r \<and> at_role a = role"

definition latest_attempt_row :: "lifecycle_store \<Rightarrow> row_id \<Rightarrow> int \<Rightarrow> string \<Rightarrow> role_attempt option" where
  "latest_attempt_row st t r role = first_row (order_desc at_attempt_no (filter (is_attempt t r role) (lc_attempts st)))"

definition latest_attempt :: "lifecycle_store \<Rightarrow> row_id \<Rightarrow> int \<Rightarrow> string \<Rightarrow> relay_lifecycle_attempt option" where
  "latest_attempt st t r role = map_option attempt_from_row (latest_attempt_row st t r role)"

definition latest_round_id :: "lifecycle_store \<Rightarrow> row_id \<Rightarrow> int \<Rightarrow> int" where
  "latest_round_id st t fallback =
     (case first_row (order_desc rr_round_id (filter (\<lambda>x. rr_team_run_id x = t) (lc_rounds st))) of
        None \<Rightarrow> max 1 fallback | Some x \<Rightarrow> rr_round_id x)"

definition active_round_id :: "lifecycle_store \<Rightarrow> row_id \<Rightarrow> int \<Rightarrow> int" where
  "active_round_id st t fallback =
     (case first_row (order_desc rr_round_id
             (filter (\<lambda>x. rr_team_run_id x = t \<and> rr_status x \<noteq> ''superseded'') (lc_rounds st))) of
        Some x \<Rightarrow> rr_round_id x | None \<Rightarrow> latest_round_id st t fallback)"

definition round_status :: "lifecycle_store \<Rightarrow> row_id \<Rightarrow> int \<Rightarrow> string" where
  "round_status st t r = (case find_round st t r of None \<Rightarrow> ''running'' | Some x \<Rightarrow> rr_status x)"

definition has_rounds :: "lifecycle_store \<Rightarrow> row_id \<Rightarrow> bool" where
  "has_rounds st t = (\<exists>x \<in> set (lc_rounds st). rr_team_run_id x = t)"

record round_execution_view =
  rx_execution_mode :: string
  rx_execution_goal :: string
  rx_execution_strategy :: dict
  rx_waiting_reason :: string
  rx_confirmation :: confirmation
  rx_pending_approval_count :: nat

definition round_execution :: "lifecycle_store \<Rightarrow> row_id \<Rightarrow> int \<Rightarrow> round_execution_view" where
  "round_execution st t r =
     (case find_round st t r of
        None \<Rightarrow> \<lparr>rx_execution_mode = ''standard'', rx_execution_goal = [], rx_execution_strategy = [], rx_waiting_reason = ''none'',
                  rx_confirmation = no_confirmation, rx_pending_approval_count = 0\<rparr>
      | Some x \<Rightarrow> \<lparr>rx_execution_mode = normalize_relay_execution_mode (JStr (rr_execution_mode x)),
                  rx_execution_goal = rr_execution_goal x, rx_execution_strategy = decoded_dict (rr_execution_strategy x),
                  rx_waiting_reason = or_string (rr_waiting_reason x) ''none'', rx_confirmation = rr_confirmation x,
                  rx_pending_approval_count = (if cf_source (rr_confirmation x) \<noteq> [] then 1 else 0)\<rparr>)"

text \<open>\<open>attempts_for_round\<close>: a dictionary filled in ascending order, so the last attempt of a role stays.\<close>

definition attempts_for_round :: "lifecycle_store \<Rightarrow> row_id \<Rightarrow> int \<Rightarrow> (string \<times> relay_lifecycle_attempt) list" where
  "attempts_for_round st t r =
     fold (\<lambda>a. dset (at_role a) (attempt_from_row a))
       (sort_key (\<lambda>a. (at_role a, at_attempt_no a))
         (filter (\<lambda>a. at_team_run_id a = t \<and> at_round_id a = r) (lc_attempts st))) []"

definition attempt_for_completion_identity ::
  "lifecycle_store \<Rightarrow> row_id \<Rightarrow> string \<Rightarrow> int option \<Rightarrow> string \<Rightarrow> relay_lifecycle_attempt option" where
  "attempt_for_completion_identity st t role run turn =
     (let turn_id = strip turn; role_id = or_string role ''director'';
          has_turn = (\<lambda>a. at_turn_id a = turn_id \<or> at_active_turn_id a = turn_id);
          mine = filter (\<lambda>a. at_team_run_id a = t \<and> at_role a = role_id) (lc_attempts st);
          newest = (\<lambda>rows. first_row (order_desc (\<lambda>a. (at_round_id a, at_attempt_no a)) rows));
          by_turn = (if turn_id = [] then None else map_option attempt_from_row (newest (filter has_turn mine))) in
      case run of
        None \<Rightarrow> by_turn
      | Some i \<Rightarrow>
          let runs = filter (\<lambda>a. at_agent_run_id a = Some i) mine in
          if i > 0 \<and> runs \<noteq> [] then
            map_option attempt_from_row
              (case newest (filter (\<lambda>a. turn_id \<noteq> [] \<and> has_turn a) runs) of None \<Rightarrow> newest runs | Some a \<Rightarrow> Some a)
          else by_turn)"

definition attempt_by_agent_run_id :: "lifecycle_store \<Rightarrow> int \<Rightarrow> relay_lifecycle_attempt option" where
  "attempt_by_agent_run_id st run =
     (if run \<le> 0 then None
      else map_option attempt_from_row
        (first_row (order_desc (\<lambda>a. (at_updated_at a, at_round_id a, at_attempt_no a, at_id a))
          (filter (\<lambda>a. at_agent_run_id a = Some run \<and>
              (\<exists>r \<in> set (tm_runs st). tr_id r = at_team_run_id a \<and> tr_route r = ''relay'')) (lc_attempts st)))))"

definition attempt_has_provider_dispatch :: "lifecycle_store \<Rightarrow> row_id \<Rightarrow> int \<Rightarrow> string \<Rightarrow> bool" where
  "attempt_has_provider_dispatch st t r role =
     (case latest_attempt_row st t r role of
        None \<Rightarrow> False
      | Some a \<Rightarrow> strip (at_native_session_id a) \<noteq> [] \<or> (case at_agent_run_id a of None \<Rightarrow> False | Some i \<Rightarrow> i \<noteq> 0))"

section \<open>Rounds\<close>

definition upd_round :: "row_id \<Rightarrow> int \<Rightarrow> (relay_round \<Rightarrow> relay_round) \<Rightarrow> lifecycle_store \<Rightarrow> lifecycle_store" where
  "upd_round t r f st =
     st\<lparr>lc_rounds := upd_rows (is_round t r) (\<lambda>x. f x\<lparr>rr_updated_at := tm_now st\<rparr>) (lc_rounds st)\<rparr>"

definition ensure_round :: "row_id \<Rightarrow> int \<Rightarrow> string \<Rightarrow> row_id option \<Rightarrow> lifecycle_store \<Rightarrow> lifecycle_store" where
  "ensure_round t r kind artifact st =
     (if find_round st t r = None then
        st\<lparr>lc_rounds := lc_rounds st @ [\<lparr>rr_team_run_id = t, rr_round_id = r, rr_status = ''running'', rr_trigger_kind = kind,
             rr_trigger_artifact_id = artifact, rr_route = [], rr_required_roles = [], rr_execution_mode = ''simple'',
             rr_execution_goal = [], rr_execution_strategy = Some (JDict []), rr_waiting_reason = ''none'',
             rr_confirmation = no_confirmation, rr_created_at = tm_now st, rr_updated_at = tm_now st, rr_closed_at = None\<rparr>]\<rparr>
      else upd_round t r (\<lambda>x. x\<lparr>rr_trigger_kind := or_string (rr_trigger_kind x) kind,
             rr_trigger_artifact_id := (case rr_trigger_artifact_id x of None \<Rightarrow> artifact | Some i \<Rightarrow> Some i)\<rparr>) st)"

definition set_round_route :: "row_id \<Rightarrow> int \<Rightarrow> string \<Rightarrow> string list \<Rightarrow> lifecycle_store \<Rightarrow> lifecycle_store" where
  "set_round_route t r route roles st =
     upd_round t r (\<lambda>x. x\<lparr>rr_route := route, rr_required_roles := roles\<rparr>) (ensure_round t r ''backfill'' None st)"

definition set_round_execution :: "row_id \<Rightarrow> int \<Rightarrow> string \<Rightarrow> string \<Rightarrow> dict \<Rightarrow> string \<Rightarrow> lifecycle_store \<Rightarrow> lifecycle_store" where
  "set_round_execution t r mode goal strategy reason st =
     upd_round t r (\<lambda>x. x\<lparr>rr_execution_mode := normalize_relay_execution_mode (JStr mode), rr_execution_goal := goal,
         rr_execution_strategy := Some (JDict strategy), rr_waiting_reason := or_string reason ''none''\<rparr>)
       (ensure_round t r ''backfill'' None st)"

definition set_round_confirmation :: "row_id \<Rightarrow> int \<Rightarrow> confirmation \<Rightarrow> lifecycle_store \<Rightarrow> lifecycle_store" where
  "set_round_confirmation t r c st =
     upd_round t r (\<lambda>x. x\<lparr>rr_confirmation := c\<rparr>) (ensure_round t r ''backfill'' None st)"

definition clear_round_confirmation :: "row_id \<Rightarrow> int \<Rightarrow> lifecycle_store \<Rightarrow> lifecycle_store" where
  "clear_round_confirmation t r st = set_round_confirmation t r no_confirmation st"

text \<open>The legacy projection: the status columns of the team run and its jobs follow the active round.\<close>

definition set_run_status_if_changed :: "row_id \<Rightarrow> string \<Rightarrow> lifecycle_store \<Rightarrow> lifecycle_store" where
  "set_run_status_if_changed t status st =
     st\<lparr>tm_runs := upd_rows (\<lambda>r. tr_id r = t \<and> tr_status r \<noteq> status) (\<lambda>r. r\<lparr>tr_status := status\<rparr>) (tm_runs st)\<rparr>"

definition sync_job :: "bool \<Rightarrow> string \<Rightarrow> (string \<times> relay_lifecycle_attempt) list \<Rightarrow> team_agent_job \<Rightarrow> lifecycle_store \<Rightarrow> lifecycle_store" where
  "sync_job preserve of_round attempts j st =
     (let status = legacy_projection_status of_round (map_of attempts (tj_role j)) in
      if preserve then
        st\<lparr>tm_jobs := upd_rows (\<lambda>k. tj_id k = tj_id j \<and> tj_status k \<noteq> status) (\<lambda>k. k\<lparr>tj_status := status\<rparr>) (tm_jobs st)\<rparr>
      else if or_string (tj_status j) ''idle'' \<noteq> status then update_team_agent_job_status (tj_id j) status st
      else st)"

definition sync_legacy_projection :: "bool \<Rightarrow> row_id \<Rightarrow> lifecycle_store \<Rightarrow> lifecycle_store" where
  "sync_legacy_projection preserve t st =
     (let r = active_round_id st t 1; status = round_status st t r;
          st1 = (if preserve then Some (set_run_status_if_changed t status st)
                 else case get_team_run st t of
                   None \<Rightarrow> None
                 | Some run \<Rightarrow> Some (if tr_status run \<noteq> status then update_team_run_status t status st else st)) in
      case st1 of
        None \<Rightarrow> st
      | Some st' \<Rightarrow> fold (sync_job preserve status (attempts_for_round st' t r)) (list_team_agent_jobs st' t) st')"

definition set_round_status :: "bool \<Rightarrow> row_id \<Rightarrow> int \<Rightarrow> string \<Rightarrow> lifecycle_store \<Rightarrow> lifecycle_store" where
  "set_round_status preserve t r status st =
     sync_legacy_projection preserve t
       (upd_round t r (\<lambda>x. x\<lparr>rr_status := status,
            rr_closed_at := (if status \<in> set round_terminal_statuses then Some (tm_now st) else None)\<rparr>)
         (ensure_round t r ''backfill'' None st))"

section \<open>Attempts\<close>

record attempt_update =
  au_status :: "string option"
  au_provider :: string
  au_native_session_id :: string
  au_agent_run_id :: "int option"
  au_turn_id :: string
  au_active_turn_id :: string
  au_dispatch_artifact_id :: "row_id option"
  au_completion_event_id :: "int option"
  au_completion_artifact_id :: "row_id option"
  au_error_artifact_id :: "row_id option"
  au_increment_retry :: bool

definition no_update :: attempt_update where
  "no_update = \<lparr>au_status = None, au_provider = [], au_native_session_id = [], au_agent_run_id = None, au_turn_id = [],
     au_active_turn_id = [], au_dispatch_artifact_id = None, au_completion_event_id = None, au_completion_artifact_id = None,
     au_error_artifact_id = None, au_increment_retry = False\<rparr>"

definition some_or :: "'x option \<Rightarrow> 'x option \<Rightarrow> 'x option" where
  "some_or a b = (case a of None \<Rightarrow> b | Some x \<Rightarrow> Some x)"

text \<open>An insert: the columns the statement does not name take their defaults.\<close>

definition insert_attempt :: "row_id \<Rightarrow> int \<Rightarrow> string \<Rightarrow> nat \<Rightarrow> string \<Rightarrow> stamp option \<Rightarrow> attempt_update \<Rightarrow> lifecycle_store \<Rightarrow> lifecycle_store" where
  "insert_attempt t r role n status closed u st =
     st\<lparr>lc_attempts := lc_attempts st @
          [\<lparr>at_id = lc_next_attempt st, at_team_run_id = t, at_round_id = r, at_role = role, at_attempt_no = n, at_status = status,
            at_provider = au_provider u, at_native_session_id = au_native_session_id u, at_agent_run_id = au_agent_run_id u,
            at_turn_id = au_turn_id u, at_active_turn_id = au_active_turn_id u,
            at_dispatch_artifact_id = au_dispatch_artifact_id u, at_completion_event_id = au_completion_event_id u,
            at_completion_artifact_id = au_completion_artifact_id u, at_error_artifact_id = au_error_artifact_id u,
            at_retry_count = 0, at_execution_mode = ''simple'', at_team_strategy = ''none'', at_provider_mode = Some (JDict []),
            at_provider_child_activity = Some (JDict []), at_created_at = tm_now st, at_updated_at = tm_now st,
            at_closed_at = closed\<rparr>],
        lc_next_attempt := lc_next_attempt st + 1\<rparr>"

definition upd_attempt :: "row_id \<Rightarrow> (role_attempt \<Rightarrow> role_attempt) \<Rightarrow> lifecycle_store \<Rightarrow> lifecycle_store" where
  "upd_attempt i f st =
     st\<lparr>lc_attempts := upd_rows (\<lambda>a. at_id a = i) (\<lambda>a. f a\<lparr>at_updated_at := tm_now st\<rparr>) (lc_attempts st)\<rparr>"

definition next_status :: "attempt_update \<Rightarrow> string \<Rightarrow> string" where
  "next_status u current = (case au_status u of None \<Rightarrow> current | Some s \<Rightarrow> or_string s current)"

definition apply_update :: "stamp \<Rightarrow> attempt_update \<Rightarrow> role_attempt \<Rightarrow> role_attempt \<Rightarrow> role_attempt" where
  "apply_update now u row a =
     (let status = next_status u (at_status row) in
      a\<lparr>at_status := status, at_provider := or_string (au_provider u) (at_provider a),
        at_native_session_id := or_string (au_native_session_id u) (at_native_session_id a),
        at_agent_run_id := some_or (au_agent_run_id u) (at_agent_run_id a),
        at_turn_id := or_string (au_turn_id u) (at_turn_id a), at_active_turn_id := or_string (au_active_turn_id u) (at_active_turn_id a),
        at_dispatch_artifact_id := some_or (au_dispatch_artifact_id u) (at_dispatch_artifact_id a),
        at_completion_event_id := some_or (au_completion_event_id u) (at_completion_event_id a),
        at_completion_artifact_id := some_or (au_completion_artifact_id u) (at_completion_artifact_id a),
        at_error_artifact_id := some_or (au_error_artifact_id u) (at_error_artifact_id a),
        at_retry_count := at_retry_count a + (if au_increment_retry u then 1 else 0),
        at_closed_at := (if status \<in> set attempt_terminal_statuses then Some now else None)\<rparr>)"

text \<open>The update of the latest attempt \<open>row\<close>: a superseded attempt is left alone, and work that starts again after the
  attempt ended is a new attempt.\<close>

definition update_attempt_row :: "row_id \<Rightarrow> int \<Rightarrow> string \<Rightarrow> role_attempt \<Rightarrow> attempt_update \<Rightarrow> lifecycle_store \<Rightarrow> lifecycle_store" where
  "update_attempt_row t r role row u st =
     (if at_status row = ''superseded'' then st
      else if au_status u \<in> {Some ''queued'', Some ''streaming''} \<and> at_status row \<in> set attempt_terminal_statuses then
        insert_attempt t r role (max 1 (at_attempt_no row) + 1) (next_status u []) None
          (u\<lparr>au_provider := or_string (au_provider u) (at_provider row),
             au_native_session_id := or_string (au_native_session_id u) (at_native_session_id row),
             au_agent_run_id := some_or (au_agent_run_id u) (at_agent_run_id row),
             au_turn_id := or_string (au_turn_id u) (at_turn_id row),
             au_active_turn_id := or_string (au_active_turn_id u) (at_active_turn_id row)\<rparr>) st
      else upd_attempt (at_id row) (apply_update (tm_now st) u row) st)"

text \<open>\<open>ensure_attempt\<close> returns \<open>latest_attempt\<close> of the store it leaves behind. Its insert names no completion or error column.\<close>

definition ensure_attempt :: "row_id \<Rightarrow> int \<Rightarrow> string \<Rightarrow> string \<Rightarrow> attempt_update \<Rightarrow> lifecycle_store \<Rightarrow> lifecycle_store" where
  "ensure_attempt t r role status u st =
     (let st1 = ensure_round t r ''backfill'' None st;
          u1 = u\<lparr>au_completion_event_id := None, au_completion_artifact_id := None, au_error_artifact_id := None,
                 au_increment_retry := False\<rparr> in
      case latest_attempt_row st1 t r role of
        None \<Rightarrow> insert_attempt t r role 1 status None u1 st1
      | Some row \<Rightarrow> update_attempt_row t r role row (u1\<lparr>au_status := Some status\<rparr>) st1)"

definition update_attempt :: "row_id \<Rightarrow> int \<Rightarrow> string \<Rightarrow> attempt_update \<Rightarrow> lifecycle_store \<Rightarrow> lifecycle_store" where
  "update_attempt t r role u st =
     (case latest_attempt_row st t r role of
        None \<Rightarrow> ensure_attempt t r role (next_status u ''queued'') u st
      | Some row \<Rightarrow> update_attempt_row t r role row u st)"

definition write_execution :: "string \<Rightarrow> string \<Rightarrow> dict \<Rightarrow> dict \<Rightarrow> row_id \<Rightarrow> lifecycle_store \<Rightarrow> lifecycle_store" where
  "write_execution mode strategy provider_mode activity i =
     upd_attempt i (\<lambda>a. a\<lparr>at_execution_mode := normalize_relay_execution_mode (JStr mode),
       at_team_strategy := or_string strategy ''none'', at_provider_mode := Some (JDict provider_mode),
       at_provider_child_activity := Some (JDict activity)\<rparr>)"

definition set_attempt_execution ::
  "row_id \<Rightarrow> int \<Rightarrow> string \<Rightarrow> string \<Rightarrow> string \<Rightarrow> dict \<Rightarrow> dict \<Rightarrow> lifecycle_store \<Rightarrow> lifecycle_store" where
  "set_attempt_execution t r role mode strategy provider_mode activity st =
     (let st1 = (if latest_attempt_row st t r role = None then ensure_attempt t r role ''queued'' no_update st else st) in
      case latest_attempt_row st1 t r role of
        None \<Rightarrow> st1
      | Some row \<Rightarrow> write_execution mode strategy provider_mode activity (at_id row) st1)"

section \<open>Observing artifacts\<close>

definition attempt_artifact_link_exists ::
  "(role_attempt \<Rightarrow> row_id option) \<Rightarrow> lifecycle_store \<Rightarrow> row_id \<Rightarrow> int \<Rightarrow> string \<Rightarrow> row_id \<Rightarrow> bool" where
  "attempt_artifact_link_exists column st t r role artifact =
     ((\<exists>a \<in> set (lc_attempts st). is_attempt t r role a \<and> column a = Some artifact) \<or>
      (case latest_attempt_row st t r role of
         None \<Rightarrow> False
       | Some a \<Rightarrow> (case column a of None \<Rightarrow> False | Some i \<Rightarrow> i > artifact)))"

definition waiting_confirmation :: "dict \<Rightarrow> string \<Rightarrow> confirmation" where
  "waiting_confirmation p role =
     \<lparr>cf_source = pget p ''confirmation_source'' ''relay_prompt_fallback'', cf_kind = pget p ''confirmation_kind'' ''relay_question'',
      cf_role = role, cf_provider = pget p ''provider'' [], cf_provider_request_id = pget p ''provider_request_id'' [],
      cf_runtime_event_id = (case coerce_optional_int (dget0 p ''runtime_event_id'') of None \<Rightarrow> 0 | Some i \<Rightarrow> i),
      cf_native_session_id = pget p ''native_session_id'' [], cf_agent_run_id = coerce_optional_int (dget0 p ''agent_run_id''),
      cf_turn_id = pget p ''turn_id'' []\<rparr>"

definition artifact_role :: "dict \<Rightarrow> string" where
  "artifact_role p = py_str (py_or (py_or (dget0 p ''relay_role'') (dget0 p ''role'')) (JStr []))"

definition provider_mode_of :: "dict \<Rightarrow> dict" where
  "provider_mode_of p = (case dget0 p ''provider_mode'' of JDict d \<Rightarrow> d | _ \<Rightarrow> [])"

definition record_provider_mode :: "row_id \<Rightarrow> int \<Rightarrow> string \<Rightarrow> dict \<Rightarrow> lifecycle_store \<Rightarrow> lifecycle_store" where
  "record_provider_mode t r role pm =
     set_attempt_execution t r role (normalize_relay_execution_mode (dget0 pm ''execution_mode'')) (pget pm ''team_strategy'' ''none'') pm []"

definition dispatch_status :: "lifecycle_store \<Rightarrow> row_id \<Rightarrow> int \<Rightarrow> string \<Rightarrow> string option" where
  "dispatch_status st t r role =
     (let of_round = round_status st t r in
      if of_round \<in> {''blocked'', ''failed'', ''interrupted'', ''superseded''} then Some of_round
      else case latest_attempt_row st t r role of
        None \<Rightarrow> Some ''streaming''
      | Some a \<Rightarrow> if at_status a \<in> set attempt_terminal_statuses then None else Some ''streaming'')"

definition observe_dispatch :: "row_id \<Rightarrow> int \<Rightarrow> string \<Rightarrow> row_id \<Rightarrow> dict \<Rightarrow> unit lifecycle_act" where
  "observe_dispatch t r role artifact p =
     bindA (getA (\<lambda>st. attempt_artifact_link_exists at_dispatch_artifact_id st t r role artifact)) (\<lambda>linked.
       if linked then modA (record_provider_mode t r role (provider_mode_of p))
       else bindA (getA (\<lambda>st. (dispatch_status st t r role, latest_attempt_row st t r role))) (\<lambda>(status, row).
         let initial = (case status of Some s \<Rightarrow> s
               | None \<Rightarrow> (case row of None \<Rightarrow> ''streaming'' | Some a \<Rightarrow> or_string (at_status a) ''streaming'')) in
         bindA (if dget0 p ''agent_run_id'' = JNull then retA None
                else case py_int (dget0 p ''agent_run_id'') of
                  None \<Rightarrow> raiseA (BadInt (dget0 p ''agent_run_id'')) | Some i \<Rightarrow> retA (Some i)) (\<lambda>run.
         thenA (modA (ensure_attempt t r role initial
             (no_update\<lparr>au_provider := pget p ''provider'' [], au_native_session_id := pget p ''native_session_id'' [],
                au_agent_run_id := run, au_turn_id := pget p ''turn_id'' [], au_active_turn_id := pget p ''active_turn_id'' [],
                au_dispatch_artifact_id := Some artifact\<rparr>)))
         (thenA (modA (record_provider_mode t r role (provider_mode_of p)))
         (case status of None \<Rightarrow> retA () | Some s \<Rightarrow> modA (update_attempt t r role (no_update\<lparr>au_status := Some s\<rparr>)))))))"

definition observe_error :: "row_id \<Rightarrow> int \<Rightarrow> string \<Rightarrow> row_id \<Rightarrow> lifecycle_store \<Rightarrow> lifecycle_store" where
  "observe_error t r role artifact st =
     (if attempt_artifact_link_exists at_error_artifact_id st t r role artifact then st
      else
        let st1 = (if latest_attempt_row st t r role = None then ensure_attempt t r role ''streaming'' no_update st else st);
            current = (case latest_attempt_row st1 t r role of
                None \<Rightarrow> 0 | Some a \<Rightarrow> (case at_error_artifact_id a of None \<Rightarrow> 0 | Some i \<Rightarrow> i));
            fresh = artifact > current; of_round = round_status st1 t r in
        update_attempt t r role
          (no_update\<lparr>au_status := (if of_round \<in> {''blocked'', ''failed'', ''interrupted''} then Some of_round else None),
             au_error_artifact_id := (if fresh then Some artifact else None), au_increment_retry := fresh\<rparr>) st1)"

definition completion_update :: "string \<Rightarrow> dict \<Rightarrow> row_id \<Rightarrow> attempt_update" where
  "completion_update status p artifact =
     no_update\<lparr>au_status := Some status,
       au_completion_event_id := (let i = coerce_round_id (dget0 p ''runtime_event_id'') in if i = 0 then None else Some i),
       au_completion_artifact_id := Some artifact\<rparr>"

definition complete_attempt :: "row_id \<Rightarrow> int \<Rightarrow> string \<Rightarrow> string \<Rightarrow> dict \<Rightarrow> row_id \<Rightarrow> lifecycle_store \<Rightarrow> lifecycle_store" where
  "complete_attempt t r role status p artifact st =
     update_attempt t r role (completion_update status p artifact) (ensure_attempt t r role status no_update st)"

definition result_status :: "dict \<Rightarrow> string" where
  "result_status p =
     (let s0 = or_string (strip (pget p ''status'' ''passed'')) ''passed'';
          s1 = (if s0 \<in> {''completed'', ''success'', ''succeeded'', ''done''} then ''passed'' else s0);
          s2 = (if s1 = ''waiting'' \<and> pget p ''handoff_to'' [] \<in> set relay_role_ids then ''passed'' else s1) in
      if s2 \<in> {''queued'', ''streaming'', ''passed'', ''waiting'', ''blocked'', ''failed'', ''interrupted''} then s2 else ''passed'')"

definition observe_result :: "row_id \<Rightarrow> int \<Rightarrow> string \<Rightarrow> string \<Rightarrow> row_id \<Rightarrow> dict \<Rightarrow> lifecycle_store \<Rightarrow> lifecycle_store" where
  "observe_result t r role ty artifact p st =
     (if ty = ''role_artifact_invalid'' then
        (if attempt_artifact_link_exists at_completion_artifact_id st t r role artifact then st
         else complete_attempt t r role ''waiting'' p artifact st)
      else if ty \<notin> set result_artifact_types then st
      else if attempt_artifact_link_exists at_completion_artifact_id st t r role artifact then st
      else if round_status st t r \<in> {''blocked'', ''failed'', ''interrupted''} \<and> \<not> py_truth (dget0 p ''runtime_event_id'') then st
      else complete_attempt t r role (result_status p) p artifact st)"

definition observe_artifact :: "row_id \<Rightarrow> row_id \<Rightarrow> dict \<Rightarrow> unit lifecycle_act" where
  "observe_artifact t artifact p =
     bindA (getA (\<lambda>st. let i = coerce_round_id (dget0 p ''round_id'') in if i = 0 then latest_round_id st t 1 else i)) (\<lambda>r.
       let role = artifact_role p; ty = pget p ''artifact_type'' [] in
       thenA (whenA (ty = ''routing_decision'')
          (modA (set_round_route t r (pget p ''route'' []) (clean_required_roles (dget0 p ''required_roles'')))))
       (thenA (whenA (pget p ''status'' [] = ''waiting'') (modA (set_round_confirmation t r (waiting_confirmation p role))))
       (if role = [] then retA ()
        else if ty = ''role_dispatch_metadata'' then observe_dispatch t r role artifact p
        else if ty = ''role_error'' then modA (observe_error t r role artifact)
        else modA (observe_result t r role ty artifact p))))"

section \<open>Reconciliation\<close>

definition supersede_rounds :: "(int \<Rightarrow> bool) \<Rightarrow> row_id \<Rightarrow> lifecycle_store \<Rightarrow> lifecycle_store" where
  "supersede_rounds which t st =
     st\<lparr>lc_rounds := upd_rows (\<lambda>x. rr_team_run_id x = t \<and> which (rr_round_id x) \<and>
            rr_status x \<notin> {''completed'', ''failed'', ''interrupted'', ''superseded''})
          (\<lambda>x. x\<lparr>rr_status := ''superseded'', rr_updated_at := tm_now st,
                 rr_closed_at := some_or (rr_closed_at x) (Some (tm_now st))\<rparr>) (lc_rounds st),
        lc_attempts := upd_rows (\<lambda>a. at_team_run_id a = t \<and> which (at_round_id a) \<and>
            at_status a \<notin> {''passed'', ''failed'', ''interrupted'', ''superseded''})
          (\<lambda>a. a\<lparr>at_status := ''superseded'', at_updated_at := tm_now st,
                 at_closed_at := some_or (at_closed_at a) (Some (tm_now st))\<rparr>) (lc_attempts st)\<rparr>"

definition supersede_prior_rounds :: "row_id \<Rightarrow> int \<Rightarrow> lifecycle_store \<Rightarrow> lifecycle_store" where
  "supersede_prior_rounds t current st = (if current \<le> 1 then st else supersede_rounds (\<lambda>r. r < current) t st)"

definition artifact_rows :: "lifecycle_store \<Rightarrow> row_id \<Rightarrow> (row_id \<times> dict) list" where
  "artifact_rows st t =
     map (\<lambda>a. let p = decoded_dict (ta_payload a) in
            (ta_id a, if ''artifact_type'' \<in> set (map fst p) then p else p @ [(''artifact_type'', JStr (ta_artifact_type a))]))
       (list_team_artifacts st t)"

definition ensure_rounds :: "row_id \<Rightarrow> int list \<Rightarrow> lifecycle_store \<Rightarrow> lifecycle_store" where
  "ensure_rounds t rs = fold (\<lambda>r. ensure_round t r (if r > 1 then ''backfill'' else ''initial'') None) rs"

definition run_status_or_running :: "lifecycle_store \<Rightarrow> row_id \<Rightarrow> string" where
  "run_status_or_running st t = (case get_team_run st t of None \<Rightarrow> ''running'' | Some r \<Rightarrow> or_string (tr_status r) ''running'')"

definition observe_all :: "row_id \<Rightarrow> (row_id \<times> dict) list \<Rightarrow> unit lifecycle_act" where
  "observe_all t arts = seqA (\<lambda>(i, p). observe_artifact t i p) arts"

definition repair_current_round :: "row_id \<Rightarrow> int list \<Rightarrow> lifecycle_store \<Rightarrow> lifecycle_store" where
  "repair_current_round t rs st =
     (if rs = [] then st
      else let current = Max (set rs); st1 = supersede_prior_rounds t current (ensure_rounds t rs st);
               existing = round_status st1 t current in
           set_round_status True t current
             (if existing \<in> set round_terminal_statuses then existing else run_status_or_running st1 t) st1)"

definition repair_task_from_artifacts :: "row_id \<Rightarrow> (row_id \<times> dict) list \<Rightarrow> unit lifecycle_act" where
  "repair_task_from_artifacts t arts =
     (let rs = sort (remdups (filter (\<lambda>i. i > 0) (map (\<lambda>(i, p). coerce_round_id (dget0 p ''round_id'')) arts))) in
      thenA (modA (repair_current_round t rs))
      (thenA (observe_all t arts) (modA (sync_legacy_projection True t))))"

definition backfill_jobs :: "row_id \<Rightarrow> int \<Rightarrow> lifecycle_store \<Rightarrow> lifecycle_store" where
  "backfill_jobs t r st =
     fold (\<lambda>j. if or_string (tj_status j) ''idle'' = ''idle'' then id
               else ensure_attempt t r (tj_role j) (tj_status j) (no_update\<lparr>au_agent_run_id := tj_agent_run_id j\<rparr>))
       (list_team_agent_jobs st t) st"

definition backfill_from_scratch :: "row_id \<Rightarrow> (row_id \<times> dict) list \<Rightarrow> unit lifecycle_act" where
  "backfill_from_scratch t arts =
     (let ids = map (\<lambda>(i, p). let r = coerce_round_id (dget0 p ''round_id'') in if r = 0 then 1 else r) arts;
          rs = sort (remdups (if ids = [] then [1] else ids)); current = Max (set rs) in
      thenA (modA (ensure_rounds t rs))
      (thenA (modA (\<lambda>st. set_round_status True t current (run_status_or_running st t) (supersede_prior_rounds t current st)))
      (thenA (modA (backfill_jobs t current))
      (thenA (observe_all t arts) (modA (sync_legacy_projection True t))))))"

text \<open>\<open>try ... finally\<close>: the task leaves the guard set also when an artifact raises.\<close>

definition finallyA :: "'a lifecycle_act \<Rightarrow> (lifecycle_store \<Rightarrow> lifecycle_store) \<Rightarrow> 'a lifecycle_act" where
  "finallyA m f = (\<lambda>st. case m st of (x, st') \<Rightarrow> (x, f st'))"

definition backfill_task :: "row_id \<Rightarrow> unit lifecycle_act" where
  "backfill_task t =
     bindA (getA (\<lambda>st. (t \<in> set (lc_backfilling st), artifact_rows st t, has_rounds st t))) (\<lambda>(busy, arts, has).
       if busy then retA ()
       else thenA (modA (\<lambda>st. st\<lparr>lc_backfilling := t # lc_backfilling st\<rparr>))
         (finallyA (if has then repair_task_from_artifacts t arts else backfill_from_scratch t arts)
           (\<lambda>st. st\<lparr>lc_backfilling := removeAll t (lc_backfilling st)\<rparr>)))"

definition backfill_all_relay_tasks :: "unit lifecycle_act" where
  "backfill_all_relay_tasks =
     bindA (getA (\<lambda>st. sort (map tr_id (filter (\<lambda>r. tr_route r = ''relay'') (tm_runs st))))) (seqA backfill_task)"

definition current_round_id :: "row_id \<Rightarrow> int \<Rightarrow> int lifecycle_act" where
  "current_round_id t fallback = thenA (backfill_task t) (getA (\<lambda>st. active_round_id st t fallback))"

definition create_initial_round :: "row_id \<Rightarrow> lifecycle_store \<Rightarrow> lifecycle_store" where
  "create_initial_round t st =
     sync_legacy_projection False t (ensure_attempt t 1 ''director'' ''queued'' no_update (ensure_round t 1 ''initial'' None st))"

definition open_next_round :: "row_id \<Rightarrow> int \<Rightarrow> row_id option \<Rightarrow> lifecycle_store \<Rightarrow> lifecycle_store" where
  "open_next_round t current artifact st =
     (let x = round_execution st t current; r = current + 1 in
      sync_legacy_projection False t
       (set_attempt_execution t r ''director'' (rx_execution_mode x) ''none'' [] []
       (ensure_attempt t r ''director'' ''queued'' no_update
       (set_round_execution t r (rx_execution_mode x) (rx_execution_goal x) (rx_execution_strategy x) (rx_waiting_reason x)
       (ensure_round t r ''user_followup'' artifact (supersede_rounds (\<lambda>i. i = current) t st))))))"

definition start_followup_round :: "row_id \<Rightarrow> row_id option \<Rightarrow> int lifecycle_act" where
  "start_followup_round t artifact =
     bindA (current_round_id t 1) (\<lambda>current.
       thenA (modA (open_next_round t current artifact)) (retA (current + 1)))"

section \<open>Native approvals\<close>

definition native_request :: "string \<Rightarrow> string \<Rightarrow> int \<Rightarrow> relay_round \<Rightarrow> bool" where
  "native_request source request event x \<longleftrightarrow> cf_source (rr_confirmation x) = source \<and>
     cf_provider_request_id (rr_confirmation x) = request \<and> cf_runtime_event_id (rr_confirmation x) = event"

text \<open>The compare-and-set on the confirmation of a round: whether exactly one row changed.\<close>

definition swap_source ::
  "row_id \<Rightarrow> int \<Rightarrow> string \<Rightarrow> string \<Rightarrow> int \<Rightarrow> (relay_round \<Rightarrow> relay_round) \<Rightarrow> lifecycle_store \<Rightarrow> bool \<times> lifecycle_store" where
  "swap_source t r source request event f st =
     (let hit = (\<lambda>x. is_round t r x \<and> native_request source request event x) in
      (length (filter hit (lc_rounds st)) = 1,
       st\<lparr>lc_rounds := upd_rows hit (\<lambda>x. f x\<lparr>rr_updated_at := tm_now st\<rparr>) (lc_rounds st)\<rparr>))"

definition native_actions :: "string list" where
  "native_actions = [''resolving'', ''superseding'']"

definition set_source :: "string \<Rightarrow> relay_round \<Rightarrow> relay_round" where
  "set_source s x = x\<lparr>rr_confirmation := (rr_confirmation x)\<lparr>cf_source := s\<rparr>\<rparr>"

definition claim_provider_native_approval_action ::
  "row_id \<Rightarrow> int \<Rightarrow> string \<Rightarrow> int \<Rightarrow> string \<Rightarrow> bool lifecycle_act" where
  "claim_provider_native_approval_action t r request event action =
     (let a = strip action; q = strip request in
      thenA (guardA (a \<in> set native_actions) (ValueError (''unsupported native approval action: '' @ a)))
      (if q = [] \<or> event \<le> 0 then retA False
       else stepA (swap_source t r ''provider_native_approval'' q event (set_source (''provider_native_'' @ a)))))"

definition restore_provider_native_approval_action ::
  "row_id \<Rightarrow> int \<Rightarrow> string \<Rightarrow> int \<Rightarrow> string \<Rightarrow> lifecycle_store \<Rightarrow> bool \<times> lifecycle_store" where
  "restore_provider_native_approval_action t r request event action st =
     (let a = strip action; q = strip request in
      if a \<notin> set native_actions \<or> q = [] \<or> event \<le> 0 then (False, st)
      else swap_source t r (''provider_native_'' @ a) q event (set_source ''provider_native_approval'') st)"

text \<open>The status of the team run and of the jobs of a role, written together with the round.\<close>

definition mirror_status :: "row_id \<Rightarrow> string \<Rightarrow> string \<Rightarrow> string \<Rightarrow> lifecycle_store \<Rightarrow> lifecycle_store" where
  "mirror_status t role run_status role_status st =
     (let st1 = update_team_run_status t run_status st in
      st1\<lparr>tm_jobs := upd_rows (\<lambda>j. tj_team_run_id j = t \<and> tj_role j = or_string role ''director'')
            (\<lambda>j. j\<lparr>tj_status := role_status, tj_updated_at := tm_now st\<rparr>) (tm_jobs st1)\<rparr>)"

datatype replace_outcome =
    MissingRequestIdentity
  | RoundMissing
  | DuplicateApproval confirmation
  | StaleApproval confirmation
  | Replaced confirmation

definition wait_attempt :: "row_id \<Rightarrow> int \<Rightarrow> string \<Rightarrow> confirmation \<Rightarrow> lifecycle_store \<Rightarrow> lifecycle_store" where
  "wait_attempt t r role c st =
     (case latest_attempt_row st t r role of
        None \<Rightarrow> insert_attempt t r (or_string role ''director'') 1 ''waiting'' (Some (tm_now st))
          (no_update\<lparr>au_provider := cf_provider c, au_native_session_id := cf_native_session_id c, au_agent_run_id := cf_agent_run_id c,
             au_turn_id := cf_turn_id c, au_active_turn_id := cf_turn_id c\<rparr>) st
      | Some row \<Rightarrow> upd_attempt (at_id row) (\<lambda>a. a\<lparr>at_status := ''waiting'', at_closed_at := Some (tm_now st)\<rparr>) st)"

text \<open>An insert for the blank role that finds a first attempt of the director violates the unique key; the
  transaction is rolled back and the error is raised.\<close>

definition attempt_key_taken :: "row_id \<Rightarrow> int \<Rightarrow> string \<Rightarrow> lifecycle_store \<Rightarrow> bool" where
  "attempt_key_taken t r role st =
     (latest_attempt_row st t r role = None \<and>
      (\<exists>a \<in> set (lc_attempts st). is_attempt t r (or_string role ''director'') a \<and> at_attempt_no a = 1))"

definition replace_provider_native_approval ::
  "row_id \<Rightarrow> int \<Rightarrow> string \<Rightarrow> confirmation \<Rightarrow> string \<Rightarrow> int \<Rightarrow> replace_outcome lifecycle_act" where
  "replace_provider_native_approval t r role c expected_request expected_event =
     (let q = strip (cf_provider_request_id c); event = cf_runtime_event_id c in
      if q = [] \<or> event \<le> 0 then retA MissingRequestIdentity
      else bindA (getA (\<lambda>st. (find_round st t r, attempt_key_taken t r role st))) (\<lambda>(row, taken).
        case row of
          None \<Rightarrow> retA RoundMissing
        | Some x \<Rightarrow>
            let previous = rr_confirmation x in
            if native_request ''provider_native_approval'' q event x then retA (DuplicateApproval previous)
            else if cf_runtime_event_id previous > event then retA (StaleApproval previous)
            else if expected_request \<noteq> [] \<and> (cf_provider_request_id previous \<noteq> expected_request \<or>
                cf_runtime_event_id previous \<noteq> expected_event \<or> cf_source previous \<noteq> ''provider_native_superseding'')
              then retA (StaleApproval previous)
            else if taken then raiseA (ValueError ''UNIQUE constraint failed'')
            else thenA (modA (\<lambda>st. upd_round t r (\<lambda>x. x\<lparr>rr_status := ''waiting_user'', rr_closed_at := Some (tm_now st),
                   rr_waiting_reason := ''provider_approval'',
                   rr_confirmation := c\<lparr>cf_source := ''provider_native_approval'', cf_kind := or_string (cf_kind c) ''command_approval'',
                     cf_role := or_string role ''director'', cf_provider_request_id := q\<rparr>\<rparr>) st))
              (thenA (modA (wait_attempt t r role c))
              (thenA (modA (mirror_status t role ''waiting_user'' ''waiting'')) (retA (Replaced previous))))))"

definition finalize_provider_native_approval_action ::
  "row_id \<Rightarrow> int \<Rightarrow> string \<Rightarrow> string \<Rightarrow> int \<Rightarrow> string \<Rightarrow> string \<Rightarrow> bool lifecycle_act" where
  "finalize_provider_native_approval_action t r role request event action decision =
     (let q = strip request; interrupted = (decision = ''cancel_plan'');
          round_to = (if interrupted then ''interrupted'' else ''running'');
          role_to = (if interrupted then ''interrupted'' else ''streaming'') in
      thenA (guardA (action = ''resolving'') (ValueError (''unsupported native approval finalization: '' @ action)))
      (if q = [] \<or> event \<le> 0 then retA False
       else bindA (stepA (\<lambda>st. swap_source t r ''provider_native_resolving'' q event
              (\<lambda>x. x\<lparr>rr_status := round_to, rr_closed_at := (if interrupted then Some (tm_now st) else None),
                     rr_waiting_reason := ''none'', rr_confirmation := no_confirmation\<rparr>) st)) (\<lambda>changed.
         if \<not> changed then retA False
         else thenA (modA (\<lambda>st. case latest_attempt_row st t r role of
                  None \<Rightarrow> st
                | Some row \<Rightarrow> upd_attempt (at_id row)
                    (\<lambda>a. a\<lparr>at_status := role_to, at_closed_at := (if interrupted then Some (tm_now st) else None)\<rparr>) st))
              (thenA (modA (mirror_status t role round_to role_to)) (retA True)))))"

section \<open>Completion claims\<close>

record completion_result =
  cr_event_key :: string
  cr_runtime_event_id :: int
  cr_agent_run_id :: "int option"
  cr_role :: string
  cr_claimed_round_id :: int
  cr_acquired :: bool
  cr_already_applied :: bool
  cr_recovered :: bool

text \<open>The identity a call names: the event, the run if it is positive, and the key made of them.\<close>

definition names_claim :: "row_id \<Rightarrow> int \<Rightarrow> int option \<Rightarrow> completion_claim \<Rightarrow> bool" where
  "names_claim t event run c \<longleftrightarrow> cc_team_run_id c = t \<and>
     (cc_event_key c = completion_event_key event run \<or> (event > 0 \<and> cc_runtime_event_id c = event) \<or>
      (case run of None \<Rightarrow> False | Some i \<Rightarrow> i > 0 \<and> cc_agent_run_id c = Some i))"

definition positive_run :: "int option \<Rightarrow> int option" where
  "positive_run run = (case run of None \<Rightarrow> None | Some i \<Rightarrow> if i \<le> 0 then None else Some i)"

definition choose_claim :: "lifecycle_store \<Rightarrow> row_id \<Rightarrow> int \<Rightarrow> int option \<Rightarrow> completion_claim option" where
  "choose_claim st t event run =
     first_row (sort_key (\<lambda>c. (if cc_event_key c = completion_event_key event run then 0 else 1 :: nat, cc_claimed_at c))
       (filter (names_claim t event run) (lc_claims st)))"

definition claim_is_final :: "completion_claim \<Rightarrow> bool" where
  "claim_is_final c \<longleftrightarrow> cc_status c = ''applied'' \<or> cc_status c = ''ignored_stale''"

definition run_or :: "int option \<Rightarrow> int option \<Rightarrow> int option" where
  "run_or a b = (case a of None \<Rightarrow> b | Some i \<Rightarrow> if i = 0 then b else Some i)"

definition retake :: "int \<Rightarrow> int option \<Rightarrow> stamp \<Rightarrow> completion_claim \<Rightarrow> completion_claim" where
  "retake event run now c =
     c\<lparr>cc_runtime_event_id := (if cc_runtime_event_id c > 0 then cc_runtime_event_id c else event),
       cc_agent_run_id := some_or (cc_agent_run_id c) run, cc_status := ''claimed'', cc_claimed_at := now, cc_updated_at := now\<rparr>"

text \<open>The unique indexes on the event and on the run of a claim.\<close>

definition claim_conflict :: "completion_claim \<Rightarrow> completion_claim \<Rightarrow> bool" where
  "claim_conflict c d \<longleftrightarrow> cc_team_run_id c = cc_team_run_id d \<and> cc_event_key c \<noteq> cc_event_key d \<and>
     (cc_runtime_event_id c > 0 \<and> cc_runtime_event_id c = cc_runtime_event_id d \<or>
      (case cc_agent_run_id c of None \<Rightarrow> False | Some i \<Rightarrow> i > 0 \<and> cc_agent_run_id d = Some i))"

definition claim_completion_event_result ::
  "row_id \<Rightarrow> int \<Rightarrow> string \<Rightarrow> int \<Rightarrow> int option \<Rightarrow> int \<Rightarrow> completion_result lifecycle_act" where
  "claim_completion_event_result t r role runtime_event agent_run lease =
     (let event = max 0 runtime_event; run = positive_run agent_run; key = completion_event_key event run;
          role_id = or_string role ''director''; round = max 1 r;
          fresh = \<lparr>cr_event_key = key, cr_runtime_event_id = event, cr_agent_run_id = run, cr_role = role_id,
                   cr_claimed_round_id = round, cr_acquired = True, cr_already_applied = False, cr_recovered = False\<rparr> in
      if key = [] then retA fresh
      else bindA (getA (\<lambda>st. (choose_claim st t event run, st))) (\<lambda>(row, st).
        case row of
          None \<Rightarrow> thenA (modA (\<lambda>st. st\<lparr>lc_claims := lc_claims st @ [\<lparr>cc_team_run_id = t, cc_event_key = key,
                cc_runtime_event_id = event, cc_agent_run_id = run, cc_role = role_id, cc_claimed_round_id = round,
                cc_status = ''claimed'', cc_artifact_id = None, cc_claimed_at = tm_now st, cc_applied_at = None,
                cc_updated_at = tm_now st\<rparr>]\<rparr>)) (retA fresh)
        | Some c \<Rightarrow>
            let stored = \<lparr>cr_event_key = or_string (cc_event_key c) key,
                  cr_runtime_event_id = (if cc_runtime_event_id c > 0 then cc_runtime_event_id c else event),
                  cr_agent_run_id = run_or (cc_agent_run_id c) run, cr_role = or_string (cc_role c) role_id,
                  cr_claimed_round_id = max 1 (if cc_claimed_round_id c = 0 then round else cc_claimed_round_id c),
                  cr_acquired = False, cr_already_applied = False, cr_recovered = False\<rparr> in
            if claim_is_final c then retA (stored\<lparr>cr_already_applied := True\<rparr>)
            else if cc_updated_at c \<ge> tm_now st - max 1 lease * 1000000 then retA stored
            else
              let taken = retake event run (tm_now st) c in
              if \<exists>d \<in> set (lc_claims st). claim_conflict taken d then raiseA (ValueError ''UNIQUE constraint failed'')
              else thenA (modA (\<lambda>st. st\<lparr>lc_claims := upd_rows (\<lambda>d. cc_team_run_id d = t \<and> cc_event_key d = cr_event_key stored)
                     (retake event run (tm_now st)) (lc_claims st)\<rparr>))
                (retA (stored\<lparr>cr_acquired := True, cr_recovered := True\<rparr>))))"

definition claim_completion_event :: "row_id \<Rightarrow> int \<Rightarrow> string \<Rightarrow> int \<Rightarrow> int option \<Rightarrow> int \<Rightarrow> bool lifecycle_act" where
  "claim_completion_event t r role event run lease =
     bindA (claim_completion_event_result t r role event run lease) (\<lambda>c. retA (cr_acquired c))"

text \<open>The other operations name the run as given; a run that is not positive names nothing.\<close>

definition on_named_claims ::
  "row_id \<Rightarrow> int \<Rightarrow> int option \<Rightarrow> ((completion_claim \<Rightarrow> bool) \<Rightarrow> lifecycle_store \<Rightarrow> lifecycle_store) \<Rightarrow> lifecycle_store \<Rightarrow> lifecycle_store" where
  "on_named_claims t runtime_event run f st =
     (let event = max 0 runtime_event in
      if completion_event_key event run = [] then st else f (names_claim t event run) st)"

definition mark_completion_event_applied :: "row_id \<Rightarrow> int \<Rightarrow> int option \<Rightarrow> row_id option \<Rightarrow> lifecycle_store \<Rightarrow> lifecycle_store" where
  "mark_completion_event_applied t event run artifact =
     on_named_claims t event run (\<lambda>named st. st\<lparr>lc_claims := upd_rows named
       (\<lambda>c. c\<lparr>cc_status := ''applied'', cc_artifact_id := some_or artifact (cc_artifact_id c),
              cc_applied_at := Some (tm_now st), cc_updated_at := tm_now st\<rparr>) (lc_claims st)\<rparr>)"

definition mark_completion_event_ignored_stale :: "row_id \<Rightarrow> int \<Rightarrow> int option \<Rightarrow> lifecycle_store \<Rightarrow> lifecycle_store" where
  "mark_completion_event_ignored_stale t event run =
     on_named_claims t event run (\<lambda>named st. st\<lparr>lc_claims := upd_rows (\<lambda>c. named c \<and> cc_status c = ''claimed'')
       (\<lambda>c. c\<lparr>cc_status := ''ignored_stale'', cc_applied_at := some_or (cc_applied_at c) (Some (tm_now st)),
              cc_updated_at := tm_now st\<rparr>) (lc_claims st)\<rparr>)"

definition release_completion_event_claim :: "row_id \<Rightarrow> int \<Rightarrow> int option \<Rightarrow> lifecycle_store \<Rightarrow> lifecycle_store" where
  "release_completion_event_claim t event run =
     on_named_claims t event run (\<lambda>named st. st\<lparr>lc_claims := filter (\<lambda>c. \<not> (named c \<and> cc_status c = ''claimed'')) (lc_claims st)\<rparr>)"

definition completion_event_applied :: "lifecycle_store \<Rightarrow> row_id \<Rightarrow> int \<Rightarrow> int option \<Rightarrow> bool" where
  "completion_event_applied st t runtime_event run =
     (let event = max 0 runtime_event in
      completion_event_key event run \<noteq> [] \<and> (\<exists>c \<in> set (lc_claims st). names_claim t event run c \<and> cc_status c = ''applied''))"

section \<open>Dispatch claims\<close>

definition claim_queued_attempt_dispatch :: "row_id \<Rightarrow> int \<Rightarrow> string \<Rightarrow> lifecycle_store \<Rightarrow> bool \<times> lifecycle_store" where
  "claim_queued_attempt_dispatch t r role st =
     (case latest_attempt_row st t r role of
        None \<Rightarrow> (False, st)
      | Some row \<Rightarrow>
          if at_status row \<noteq> ''queued'' then (False, st)
          else (True, upd_attempt (at_id row) (\<lambda>a. a\<lparr>at_status := ''dispatching''\<rparr>) st))"

definition unverified_dispatch :: "row_id \<Rightarrow> int \<Rightarrow> stamp \<Rightarrow> role_attempt \<Rightarrow> bool" where
  "unverified_dispatch t r cutoff a \<longleftrightarrow> at_team_run_id a = t \<and> at_round_id a = r \<and> at_status a = ''dispatching'' \<and>
     at_native_session_id a = [] \<and> at_agent_run_id a = None \<and> at_updated_at a \<le> cutoff"

definition quarantine_stale_unverified_dispatches :: "row_id \<Rightarrow> int \<Rightarrow> int \<Rightarrow> string list lifecycle_act" where
  "quarantine_stale_unverified_dispatches t r secs =
     thenA (guardA (secs > 0) (ValueError ''stale_after_seconds must be positive''))
     (stepA (\<lambda>st. let cutoff = tm_now st - secs * 1000000;
                      rows = sort_key at_id (filter (unverified_dispatch t r cutoff) (lc_attempts st)) in
        (map at_role rows,
         fold (\<lambda>row. upd_attempt (at_id row) (\<lambda>a. a\<lparr>at_status := ''blocked'', at_closed_at := Some (tm_now st)\<rparr>)) rows st)))"

end
