(* ===== verification/Relay_Lifecycle_Properties.thy ===== *)
theory Relay_Lifecycle_Properties
  imports Relay_Lifecycle
begin

text \<open>
  What the lifecycle store of the relay guarantees. The locale \<open>lifecycle_invariant\<close> reduces an invariant of rounds and
  attempts to the few writes the operations are made of; it is interpreted for the keys of the tables, for their
  history and for the frame (claims and clock untouched). Then: completions are applied at most once and one worker
  at a time holds them; native approvals follow an abstract machine with one action in flight; the legacy status
  columns mirror the active round; a queued attempt is dispatched once.
\<close>

section \<open>Invariants of rounds and attempts\<close>

definition rkey :: "relay_round \<Rightarrow> row_id \<times> int" where
  "rkey x = (rr_team_run_id x, rr_round_id x)"

definition akey :: "role_attempt \<Rightarrow> row_id \<times> row_id \<times> int \<times> string \<times> nat" where
  "akey a = (at_id a, at_team_run_id a, at_round_id a, at_role a, at_attempt_no a)"

definition fresh_number :: "lifecycle_store \<Rightarrow> row_id \<Rightarrow> int \<Rightarrow> string \<Rightarrow> nat \<Rightarrow> bool" where
  "fresh_number st t r role n \<longleftrightarrow>
     n = 1 \<and> \<not> (\<exists>a \<in> set (lc_attempts st). is_attempt t r role a \<and> at_attempt_no a = 1) \<or>
     (\<exists>a. latest_attempt_row st t r role = Some a \<and> n = max 1 (at_attempt_no a) + 1)"

lemma latest_attempt_row_None: "latest_attempt_row st t r role = None \<longleftrightarrow> (\<forall>a \<in> set (lc_attempts st). \<not> is_attempt t r role a)"
  by (simp add: latest_attempt_row_def filter_empty_conv)

lemma latest_attempt_row_Some:
  "latest_attempt_row st t r role = Some a \<Longrightarrow> a \<in> set (lc_attempts st) \<and> is_attempt t r role a \<and>
     (\<forall>b \<in> set (lc_attempts st). is_attempt t r role b \<longrightarrow> at_attempt_no b \<le> at_attempt_no a)"
  using first_order_desc_max [of at_attempt_no "filter (is_attempt t r role) (lc_attempts st)" a]
  by (auto simp: latest_attempt_row_def)

lemma fresh_number_first: "latest_attempt_row st t r role = None \<Longrightarrow> fresh_number st t r role (Suc 0)"
  by (auto simp: fresh_number_def latest_attempt_row_None)

lemma fresh_number_next: "latest_attempt_row st t r role = Some a \<Longrightarrow> fresh_number st t r role (Suc (max (Suc 0) (at_attempt_no a)))"
  by (simp add: fresh_number_def)

text \<open>The operations on rounds and attempts as steps, with any arguments.\<close>

inductive round_step :: "lifecycle_store \<Rightarrow> lifecycle_store \<Rightarrow> bool" where
  "round_step st (create_initial_round t st)"
| "round_step st (snd (start_followup_round t art st))"
| "round_step st (set_round_status preserve t r status st)"
| "round_step st (set_round_route t r route roles st)"
| "round_step st (set_round_execution t r mode goal strategy reason st)"
| "round_step st (set_round_confirmation t r c st)"
| "round_step st (clear_round_confirmation t r st)"
| "round_step st (ensure_round t r kind art st)"
| "round_step st (ensure_attempt t r role status u st)"
| "round_step st (update_attempt t r role u st)"
| "round_step st (set_attempt_execution t r role mode strategy pm act st)"
| "round_step st (snd (observe_artifact t i p st))"
| "round_step st (snd (backfill_task t st))"
| "round_step st (snd (backfill_all_relay_tasks st))"
| "round_step st (sync_legacy_projection preserve t st)"
| "round_step st (snd (claim_provider_native_approval_action t r q e action st))"
| "round_step st (snd (restore_provider_native_approval_action t r q e action st))"
| "round_step st (snd (replace_provider_native_approval t r role c q e st))"
| "round_step st (snd (finalize_provider_native_approval_action t r role q e action decision st))"
| "round_step st (snd (claim_queued_attempt_dispatch t r role st))"
| "round_step st (snd (quarantine_stale_unverified_dispatches t r secs st))"

text \<open>The completion claims, the team tables and the clock; the label is the task whose claims are released.\<close>

inductive claim_step :: "row_id option \<Rightarrow> lifecycle_store \<Rightarrow> lifecycle_store \<Rightarrow> bool" where
  "claim_step None st (snd (claim_completion_event_result t r role event run lease st))"
| "claim_step None st (mark_completion_event_applied t event run artifact st)"
| "claim_step None st (mark_completion_event_ignored_stale t event run st)"
| "claim_step (Some t) st (release_completion_event_claim t event run st)"
| "claim_step None st (snd (create_team_run c oc goal route risk st))"
| "claim_step None st (snd (create_team_agent_job t role profile status ar st))"
| "claim_step None st (snd (record_team_artifact t job ty summary p st))"
| "tm_now st \<le> n \<Longrightarrow> claim_step None st (st\<lparr>tm_now := n\<rparr>)"

inductive lifecycle_run :: "row_id set \<Rightarrow> lifecycle_store \<Rightarrow> lifecycle_store \<Rightarrow> bool" where
  lifecycle_run_refl: "lifecycle_run R st st"
| lifecycle_run_round: "lifecycle_run R st st' \<Longrightarrow> round_step st' st'' \<Longrightarrow> lifecycle_run R st st''"
| lifecycle_run_claim: "lifecycle_run R st st' \<Longrightarrow> claim_step l st' st'' \<Longrightarrow> (\<And>t. l = Some t \<Longrightarrow> t \<in> R) \<Longrightarrow> lifecycle_run R st st''"

locale lifecycle_invariant =
  fixes I :: "lifecycle_store \<Rightarrow> bool"
  assumes I_rounds: "I st \<Longrightarrow> (\<And>x. rkey (f x) = rkey x) \<Longrightarrow> I (st\<lparr>lc_rounds := upd_rows P f (lc_rounds st)\<rparr>)"
    and I_new_round: "I st \<Longrightarrow> rkey x \<notin> rkey ` set (lc_rounds st) \<Longrightarrow> I (st\<lparr>lc_rounds := lc_rounds st @ [x]\<rparr>)"
    and I_attempts: "I st \<Longrightarrow> (\<And>a. akey (g a) = akey a) \<Longrightarrow> I (st\<lparr>lc_attempts := upd_rows Q g (lc_attempts st)\<rparr>)"
    and I_insert: "I st \<Longrightarrow> fresh_number st t r role n \<Longrightarrow> I (insert_attempt t r role n status closed u st)"
    and I_runs: "I st \<Longrightarrow> (\<And>x. tr_id (h x) = tr_id x) \<Longrightarrow> I (st\<lparr>tm_runs := upd_rows R h (tm_runs st)\<rparr>)"
    and I_jobs: "I st \<Longrightarrow> (\<And>x. tj_id (k x) = tj_id x) \<Longrightarrow> I (st\<lparr>tm_jobs := upd_rows S k (tm_jobs st)\<rparr>)"
    and I_guard: "I st \<Longrightarrow> I (st\<lparr>lc_backfilling := b\<rparr>)"
begin

lemma upd_round_keeps: "I st \<Longrightarrow> (\<And>x. rkey (f x) = rkey x) \<Longrightarrow> I (upd_round t r f st)"
  unfolding upd_round_def by (rule I_rounds) (simp_all add: rkey_def)

lemma ensure_round_keeps: "I st \<Longrightarrow> I (ensure_round t r kind art st)"
proof (cases "find_round st t r")
  case None
  assume "I st"
  moreover have "(t, r) \<notin> rkey ` set (lc_rounds st)"
    using None by (auto simp: find_round_def find_None_iff is_round_def rkey_def)
  ultimately show ?thesis using None unfolding ensure_round_def by (simp add: I_new_round rkey_def)
next
  case (Some x)
  assume "I st"
  then show ?thesis using Some unfolding ensure_round_def by (simp add: upd_round_keeps rkey_def)
qed

lemma upd_attempt_keeps: "I st \<Longrightarrow> (\<And>a. akey (g a) = akey a) \<Longrightarrow> I (upd_attempt i g st)"
  unfolding upd_attempt_def by (rule I_attempts) (simp_all add: akey_def)

lemma update_attempt_row_keeps:
  assumes "I st" "latest_attempt_row st t r role = Some row"
  shows "I (update_attempt_row t r role row u st)"
  using assms unfolding update_attempt_row_def
  by (simp add: I_insert fresh_number_next upd_attempt_keeps apply_update_def Let_def akey_def del: max.bounded_iff)

lemma ensure_attempt_keeps: "I st \<Longrightarrow> I (ensure_attempt t r role status u st)"
  unfolding ensure_attempt_def Let_def
  by (auto split: option.split intro!: ensure_round_keeps I_insert fresh_number_first update_attempt_row_keeps)

lemma update_attempt_keeps: "I st \<Longrightarrow> I (update_attempt t r role u st)"
  unfolding update_attempt_def by (auto split: option.split intro!: ensure_attempt_keeps update_attempt_row_keeps)

lemma set_attempt_execution_keeps: "I st \<Longrightarrow> I (set_attempt_execution t r role mode strategy pm act st)"
  unfolding set_attempt_execution_def Let_def write_execution_def
  by (auto split: option.split intro!: ensure_attempt_keeps upd_attempt_keeps simp: akey_def)

lemma round_writes_keep:
  assumes "I st"
  shows "I (set_round_route t r route roles st)" "I (set_round_execution t r mode goal strategy reason st)"
    "I (set_round_confirmation t r c st)" "I (clear_round_confirmation t r st)"
  using assms
  by (simp_all add: set_round_route_def set_round_execution_def set_round_confirmation_def clear_round_confirmation_def
      upd_round_keeps ensure_round_keeps rkey_def)

lemma update_team_run_status_keeps: "I st \<Longrightarrow> I (update_team_run_status t status st)"
  unfolding update_team_run_status_def by (rule I_runs) simp_all

lemma sync_job_keeps: "I st \<Longrightarrow> I (sync_job preserve status as j st)"
  unfolding sync_job_def Let_def update_team_agent_job_status_def by (auto intro!: I_jobs)

lemma fold_keeps: "I st \<Longrightarrow> (\<And>x st. I st \<Longrightarrow> I (f x st)) \<Longrightarrow> I (fold f xs st)"
  by (induction xs arbitrary: st) simp_all

lemma sync_legacy_projection_keeps: "I st \<Longrightarrow> I (sync_legacy_projection preserve t st)"
  unfolding sync_legacy_projection_def Let_def set_run_status_if_changed_def
  by (auto split: option.split intro!: fold_keeps sync_job_keeps update_team_run_status_keeps I_runs)

lemma set_round_status_keeps: "I st \<Longrightarrow> I (set_round_status preserve t r status st)"
  unfolding set_round_status_def
  by (intro sync_legacy_projection_keeps upd_round_keeps ensure_round_keeps) (simp_all add: rkey_def)

lemma supersede_rounds_keeps: "I st \<Longrightarrow> I (supersede_rounds which t st)"
proof -
  assume "I st"
  then have "I (st\<lparr>lc_rounds := upd_rows (\<lambda>x. rr_team_run_id x = t \<and> which (rr_round_id x) \<and>
      rr_status x \<notin> {''completed'', ''failed'', ''interrupted'', ''superseded''})
    (\<lambda>x. x\<lparr>rr_status := ''superseded'', rr_updated_at := tm_now st,
       rr_closed_at := some_or (rr_closed_at x) (Some (tm_now st))\<rparr>) (lc_rounds st)\<rparr>)" (is "I ?st")
    by (rule I_rounds) (simp add: rkey_def)
  from I_attempts [OF this, of "\<lambda>a. a\<lparr>at_status := ''superseded'', at_updated_at := tm_now st,
      at_closed_at := some_or (at_closed_at a) (Some (tm_now st))\<rparr>"]
  show ?thesis unfolding supersede_rounds_def by (simp add: akey_def)
qed

lemma observe_pure_keeps:
  assumes "I st"
  shows "I (record_provider_mode t r role pm st)" "I (observe_error t r role i st)" "I (observe_result t r role ty i p st)"
  using assms by (auto simp: record_provider_mode_def observe_error_def observe_result_def complete_attempt_def Let_def
      intro!: set_attempt_execution_keeps update_attempt_keeps ensure_attempt_keeps)

lemma observe_dispatch_keeps: "keepsA I (observe_dispatch t r role i p)"
  unfolding observe_dispatch_def Let_def
  by (intro keeps_intros keepsA_mod; (intro observe_pure_keeps ensure_attempt_keeps update_attempt_keeps)?; assumption?)

lemma observe_artifact_keeps: "keepsA I (observe_artifact t i p)"
  unfolding observe_artifact_def Let_def
  by (intro keeps_intros keepsA_mod observe_dispatch_keeps; (intro observe_pure_keeps round_writes_keep)?; assumption?)

lemma observe_all_keeps: "keepsA I (observe_all t arts)"
  unfolding observe_all_def by (intro keepsA_seq) (auto intro: observe_artifact_keeps split: prod.split)

lemma finallyA_keeps: "keepsA I m \<Longrightarrow> (\<And>st. I st \<Longrightarrow> I (f st)) \<Longrightarrow> keepsA I (finallyA m f)"
  by (auto simp: keepsA_def finallyA_def split: prod.split)

lemma ensure_rounds_keeps: "I st \<Longrightarrow> I (ensure_rounds t rs st)"
  unfolding ensure_rounds_def by (auto intro: fold_keeps ensure_round_keeps)

lemma supersede_prior_keeps: "I st \<Longrightarrow> I (supersede_prior_rounds t c st)"
  by (simp add: supersede_prior_rounds_def supersede_rounds_keeps)

lemma repair_current_round_keeps: "I st \<Longrightarrow> I (repair_current_round t rs st)"
  by (simp add: repair_current_round_def Let_def set_round_status_keeps supersede_prior_keeps ensure_rounds_keeps)

lemma backfill_jobs_keeps: "I st \<Longrightarrow> I (backfill_jobs t r st)"
  unfolding backfill_jobs_def by (rule fold_keeps) (simp_all add: ensure_attempt_keeps)

lemma backfill_task_keeps: "keepsA I (backfill_task t)"
proof -
  have repair: "keepsA I (repair_task_from_artifacts t arts)" for arts
    unfolding repair_task_from_artifacts_def Let_def
    by (intro keeps_intros keepsA_mod observe_all_keeps repair_current_round_keeps sync_legacy_projection_keeps)
  have scratch: "keepsA I (backfill_from_scratch t arts)" for arts
    unfolding backfill_from_scratch_def Let_def
    by (intro keeps_intros keepsA_mod observe_all_keeps sync_legacy_projection_keeps ensure_rounds_keeps set_round_status_keeps
        supersede_prior_keeps backfill_jobs_keeps)
  show ?thesis
    unfolding backfill_task_def
    by (intro keeps_intros keepsA_mod finallyA_keeps repair scratch I_guard)
qed

lemma reconciliation_keeps: "keepsA I backfill_all_relay_tasks" "keepsA I (current_round_id t fb)"
  unfolding backfill_all_relay_tasks_def current_round_id_def by (intro keeps_intros backfill_task_keeps)+

lemma create_initial_round_keeps: "I st \<Longrightarrow> I (create_initial_round t st)"
  by (simp add: create_initial_round_def sync_legacy_projection_keeps ensure_attempt_keeps ensure_round_keeps)

lemma open_next_round_keeps: "I st \<Longrightarrow> I (open_next_round t c art st)"
  by (simp add: open_next_round_def Let_def sync_legacy_projection_keeps set_attempt_execution_keeps ensure_attempt_keeps
      round_writes_keep ensure_round_keeps supersede_rounds_keeps)

lemma start_followup_round_keeps: "keepsA I (start_followup_round t art)"
  unfolding start_followup_round_def by (intro keeps_intros keepsA_mod reconciliation_keeps open_next_round_keeps)

lemma swap_source_keeps: "I st \<Longrightarrow> (\<And>x. rkey (f x) = rkey x) \<Longrightarrow> I (snd (swap_source t r src q e f st))"
  unfolding swap_source_def Let_def by simp (rule I_rounds, simp_all add: rkey_def)

lemma claim_native_keeps: "keepsA I (claim_provider_native_approval_action t r q e action)"
  unfolding claim_provider_native_approval_action_def Let_def
  by (intro keeps_intros keepsA_step swap_source_keeps) (simp_all add: set_source_def rkey_def)

lemma restore_native_keeps: "I st \<Longrightarrow> I (snd (restore_provider_native_approval_action t r q e action st))"
  by (simp add: restore_provider_native_approval_action_def Let_def swap_source_keeps set_source_def rkey_def)

lemma mirror_status_keeps: "I st \<Longrightarrow> I (mirror_status t role a b st)"
  unfolding mirror_status_def Let_def by (rule I_jobs) (simp_all add: update_team_run_status_keeps)

lemma wait_attempt_keeps: "I st \<Longrightarrow> \<not> attempt_key_taken t r role st \<Longrightarrow> I (wait_attempt t r role c st)"
  unfolding wait_attempt_def
  by (auto split: option.split intro!: I_insert upd_attempt_keeps simp: attempt_key_taken_def fresh_number_def akey_def)

lemma replace_native_keeps: "keepsA I (replace_provider_native_approval t r role c q e)"
proof -
  have "\<not> attempt_key_taken t r role st \<Longrightarrow> \<not> attempt_key_taken t r role (upd_round t r f st)" for f st
    by (simp add: attempt_key_taken_def latest_attempt_row_def upd_round_def)
  then show ?thesis
    unfolding replace_provider_native_approval_def Let_def
    by (auto simp: keepsA_def run_simps rkey_def split: option.split
        intro!: mirror_status_keeps wait_attempt_keeps upd_round_keeps)
qed

lemma finalize_native_keeps: "keepsA I (finalize_provider_native_approval_action t r role q e action decision)"
  unfolding finalize_provider_native_approval_action_def Let_def
  by (intro keeps_intros keepsA_step keepsA_mod mirror_status_keeps)
    (auto intro!: swap_source_keeps upd_attempt_keeps simp: rkey_def akey_def split: option.split)

lemma dispatch_keeps: "I st \<Longrightarrow> I (snd (claim_queued_attempt_dispatch t r role st))"
  by (auto simp: claim_queued_attempt_dispatch_def akey_def split: option.split intro!: upd_attempt_keeps)

lemma quarantine_keeps: "keepsA I (quarantine_stale_unverified_dispatches t r secs)"
  unfolding quarantine_stale_unverified_dispatches_def Let_def
  by (intro keeps_intros keepsA_step) (auto intro!: fold_keeps upd_attempt_keeps simp: akey_def)

lemmas operations_keep = create_initial_round_keeps keepsA_D [OF start_followup_round_keeps] set_round_status_keeps round_writes_keep
  ensure_round_keeps ensure_attempt_keeps update_attempt_keeps set_attempt_execution_keeps keepsA_D [OF observe_artifact_keeps]
  keepsA_D [OF backfill_task_keeps] keepsA_D [OF reconciliation_keeps(1)] sync_legacy_projection_keeps
  keepsA_D [OF claim_native_keeps] restore_native_keeps keepsA_D [OF replace_native_keeps] keepsA_D [OF finalize_native_keeps]
  dispatch_keeps keepsA_D [OF quarantine_keeps]

lemma round_step_keeps: "round_step st st' \<Longrightarrow> I st \<Longrightarrow> I st'"
  by (induction rule: round_step.induct) (auto intro: operations_keep)

end

section \<open>The keys of the tables\<close>

definition numbered :: "nat list \<Rightarrow> bool" where
  "numbered ns \<longleftrightarrow> ns = [1..<Suc (length ns)]"

definition rounds_wf :: "lifecycle_store \<Rightarrow> bool" where
  "rounds_wf st \<longleftrightarrow> distinct (map rkey (lc_rounds st)) \<and> ids_ok at_id (lc_attempts st) (lc_next_attempt st) \<and>
     (\<forall>t r role. numbered (map at_attempt_no (filter (is_attempt t r role) (lc_attempts st))))"

lemma numbered_snoc: "numbered ns \<Longrightarrow> n = Suc (length ns) \<Longrightarrow> numbered (ns @ [n])"
  by (simp add: numbered_def)

lemma filter_upd_rows:
  assumes "\<And>a. P (f a) = P a"
  shows "filter P (upd_rows Q f rs) = upd_rows Q f (filter P rs)"
  by (induction rs) (simp_all add: upd_rows_Cons assms)

lemma akey_parts:
  "(\<And>a. akey (g a) = akey a) \<Longrightarrow> at_id (g a) = at_id a \<and> at_attempt_no (g a) = at_attempt_no a \<and>
     is_attempt t r role (g a) = is_attempt t r role a"
  by (simp add: akey_def is_attempt_def)

lemma numbered_fresh:
  assumes "rounds_wf st" "fresh_number st t r role n"
  shows "n = Suc (length (filter (is_attempt t r role) (lc_attempts st)))"
proof -
  let ?as = "filter (is_attempt t r role) (lc_attempts st)"
  have nums: "map at_attempt_no ?as = [1..<Suc (length ?as)]"
    using assms(1) unfolding rounds_wf_def numbered_def by (metis length_map)
  then have set: "at_attempt_no ` set ?as = {1..length ?as}"
    by (metis atLeastLessThanSuc_atLeastAtMost atLeastLessThan_upt image_set)
  from assms(2) consider "n = 1" "\<not> (\<exists>a \<in> set ?as. at_attempt_no a = 1)"
    | a where "latest_attempt_row st t r role = Some a" "n = max 1 (at_attempt_no a) + 1"
    unfolding fresh_number_def by auto
  then show ?thesis
  proof cases
    case 1
    then have "1 \<notin> {1..length ?as}" using set by (metis image_iff)
    then have "length ?as = 0" by (cases "length ?as") simp_all
    then show ?thesis using 1(1) by simp
  next
    case 2
    note m = latest_attempt_row_Some [OF 2(1)]
    have "a \<in> set ?as" using m by simp
    then have a: "at_attempt_no a \<in> {1..length ?as}" using set by blast
    moreover have "length ?as \<le> at_attempt_no a"
    proof -
      have "length ?as \<in> {1..length ?as}" using a by simp
      then obtain b where "b \<in> set ?as" "at_attempt_no b = length ?as" using set by (metis image_iff)
      then show ?thesis using m by auto
    qed
    ultimately show ?thesis using 2(2) by simp
  qed
qed

interpretation keys: lifecycle_invariant rounds_wf
proof unfold_locales
  fix st t r role n status closed u assume wf: "rounds_wf st" and fresh: "fresh_number st t r role n"
  have "numbered (map at_attempt_no (filter (is_attempt t r role) (lc_attempts st)) @ [n])"
    using wf numbered_fresh [OF wf fresh] by (intro numbered_snoc) (simp_all add: rounds_wf_def)
  then show "rounds_wf (insert_attempt t r role n status closed u st)"
    using wf by (auto simp: rounds_wf_def insert_attempt_def ids_ok_snoc is_attempt_def)
next
  fix st and g :: "role_attempt \<Rightarrow> role_attempt" and Q
  assume wf: "rounds_wf st" and "\<And>a. akey (g a) = akey a"
  note g = akey_parts [of g, OF this(2)]
  then show "rounds_wf (st\<lparr>lc_attempts := upd_rows Q g (lc_attempts st)\<rparr>)"
    using wf by (simp add: rounds_wf_def ids_ok_upd filter_upd_rows map_upd_rows)
qed (auto simp: rounds_wf_def map_upd_rows)




text \<open>They touch neither the completion claims nor the clock.\<close>

definition frame :: "completion_claim list \<Rightarrow> stamp \<Rightarrow> lifecycle_store \<Rightarrow> bool" where
  "frame C n st \<longleftrightarrow> lc_claims st = C \<and> tm_now st = n"

interpretation frame: lifecycle_invariant "frame C n"
  by unfold_locales (auto simp: frame_def insert_attempt_def)

lemma round_step_frame: "round_step st st' \<Longrightarrow> lc_claims st' = lc_claims st \<and> tm_now st' = tm_now st"
  using frame.round_step_keeps [of st st' "lc_claims st" "tm_now st"] by (simp add: frame_def)

section \<open>Completion claims\<close>

definition ckey :: "completion_claim \<Rightarrow> row_id \<times> string" where
  "ckey c = (cc_team_run_id c, cc_event_key c)"

definition claims_wf :: "lifecycle_store \<Rightarrow> bool" where
  "claims_wf st \<longleftrightarrow> distinct (map ckey (lc_claims st)) \<and> (\<forall>c \<in> set (lc_claims st). cc_event_key c \<noteq> [])"

lemma claims_wf_inj: "claims_wf st \<Longrightarrow> c \<in> set (lc_claims st) \<Longrightarrow> d \<in> set (lc_claims st) \<Longrightarrow> ckey c = ckey d \<Longrightarrow> c = d"
  unfolding claims_wf_def by (metis distinct_map inj_onD)

lemma choose_claim_Some: "choose_claim st t e run = Some c \<Longrightarrow> c \<in> set (lc_claims st) \<and> names_claim t e run c"
  unfolding choose_claim_def by (drule first_row_mem) simp

lemma sort_key_Nil: "sort_key k xs = [] \<longleftrightarrow> xs = []"
  by (metis length_0_conv length_sort)

lemma choose_claim_None: "choose_claim st t e run = None \<Longrightarrow> (t, completion_event_key e run) \<notin> ckey ` set (lc_claims st)"
  by (auto simp: choose_claim_def sort_key_Nil filter_empty_conv names_claim_def ckey_def)

text \<open>What a claim may do to the table: nothing, add a row, or take a stale unfinished row over.\<close>

definition stale_claim :: "lifecycle_store \<Rightarrow> int \<Rightarrow> completion_claim \<Rightarrow> bool" where
  "stale_claim st lease c \<longleftrightarrow> c \<in> set (lc_claims st) \<and> \<not> claim_is_final c \<and> cc_updated_at c < tm_now st - max 1 lease * 1000000"

lemma claim_effect:
  assumes "claim_completion_event_result t r role event run lease st = (res, st')" "claims_wf st"
  shows "tm_now st' = tm_now st \<and> (lc_claims st' = lc_claims st \<and> (\<forall>x. res = Inr x \<longrightarrow> cr_acquired x \<longrightarrow> cr_event_key x = []) \<or>
    (\<exists>c. lc_claims st' = lc_claims st @ [c] \<and> ckey c \<notin> ckey ` set (lc_claims st) \<and> cc_event_key c \<noteq> [] \<and>
       cc_status c = ''claimed'' \<and> cc_updated_at c = tm_now st \<and> cc_team_run_id c = t \<and> (\<forall>x. res = Inr x \<longrightarrow> cr_event_key x = cc_event_key c)) \<or>
    (\<exists>c. stale_claim st lease c \<and> cc_team_run_id c = t \<and> (\<forall>x. res = Inr x \<longrightarrow> cr_event_key x = cc_event_key c) \<and>
       lc_claims st' = upd_rows (\<lambda>d. ckey d = ckey c) (retake (max 0 event) (positive_run run) (tm_now st)) (lc_claims st)))"
proof -
  let ?e = "max 0 event" and ?run = "positive_run run"
  let ?k = "completion_event_key ?e ?run"
  show ?thesis
  proof (cases "?k = []")
    case True
    then show ?thesis using assms(1) by (auto simp: claim_completion_event_result_def Let_def run_simps)
  next
    case False
    show ?thesis
    proof (cases "choose_claim st t ?e ?run")
      case None
      then show ?thesis using assms(1) False choose_claim_None [OF None]
        by (auto simp: claim_completion_event_result_def Let_def run_simps ckey_def)
    next
      case (Some c)
      note c = choose_claim_Some [OF Some]
      have "cc_event_key c \<noteq> []" "cc_team_run_id c = t"
        using c assms(2) by (auto simp: claims_wf_def names_claim_def)
      then show ?thesis using assms(1) False Some c
        by (auto simp: claim_completion_event_result_def Let_def run_simps or_string_def stale_claim_def ckey_def not_le
            split: if_splits)
    qed
  qed
qed

lemma ckey_retake [simp]: "ckey (retake e run n c) = ckey c" "cc_event_key (retake e run n c) = cc_event_key c"
  by (simp_all add: retake_def ckey_def)

definition has_claim :: "(completion_claim \<Rightarrow> bool) \<Rightarrow> row_id \<Rightarrow> string \<Rightarrow> lifecycle_store \<Rightarrow> bool" where
  "has_claim G t k st \<longleftrightarrow> (\<exists>c \<in> set (lc_claims st). ckey c = (t, k) \<and> G c)"

definition live_or_final :: "stamp \<Rightarrow> completion_claim \<Rightarrow> bool" where
  "live_or_final n c \<longleftrightarrow> claim_is_final c \<or> n \<le> cc_updated_at c"

lemma retake_live: "n \<le> now \<Longrightarrow> live_or_final n (retake e run now c)"
  by (simp add: live_or_final_def retake_def)

lemma mem_upd_rows: "x \<in> set rs \<Longrightarrow> (if P x then f x else x) \<in> set (upd_rows P f rs)"
  by (simp add: upd_rows_def)

lemma has_claim_upd:
  assumes "has_claim G t k st" "\<And>c. ckey (f c) = ckey c" "\<And>c. G c \<Longrightarrow> P c \<Longrightarrow> G (f c)"
  shows "has_claim G t k (st\<lparr>lc_claims := upd_rows P f (lc_claims st)\<rparr>)"
proof -
  obtain c where "c \<in> set (lc_claims st)" "ckey c = (t, k)" "G c" using assms(1) by (auto simp: has_claim_def)
  then show ?thesis using mem_upd_rows [of c "lc_claims st" P f] assms(2,3)
    unfolding has_claim_def by (intro bexI [of _ "if P c then f c else c"]) simp_all
qed

lemma claims_wf_upd:
  assumes "claims_wf st" "\<And>c. ckey (f c) = ckey c" "\<And>c. cc_event_key (f c) = cc_event_key c"
  shows "claims_wf (st\<lparr>lc_claims := upd_rows P f (lc_claims st)\<rparr>)"
  using assms by (auto simp: claims_wf_def map_upd_rows set_upd_rows)


lemma has_claim_cong: "lc_claims st' = lc_claims st \<Longrightarrow> has_claim G t k st' = has_claim G t k st"
  by (simp add: has_claim_def)

lemma claim_keeps_wf:
  assumes "claim_completion_event_result t r role event run lease st = (res, st')" "claims_wf st"
  shows "claims_wf st'"
  using claim_effect [OF assms] assms(2) by (auto simp: claims_wf_def map_upd_rows set_upd_rows)

lemma claim_keeps_claim:
  assumes "claim_completion_event_result t r role event run lease st = (res, st')" "claims_wf st" "has_claim G t' k st"
    and "\<And>c e u. stale_claim st lease c \<Longrightarrow> G c \<Longrightarrow> G (retake e u (tm_now st) c)"
  shows "has_claim G t' k st'"
proof -
  obtain c where c: "c \<in> set (lc_claims st)" "ckey c = (t', k)" "G c" using assms(3) by (auto simp: has_claim_def)
  from claim_effect [OF assms(1,2)] consider "lc_claims st' = lc_claims st" | d where "lc_claims st' = lc_claims st @ [d]"
    | d where "stale_claim st lease d"
      "lc_claims st' = upd_rows (\<lambda>x. ckey x = ckey d) (retake (max 0 event) (positive_run run) (tm_now st)) (lc_claims st)"
    by blast
  then show ?thesis
  proof cases
    case 3
    have "G (retake (max 0 event) (positive_run run) (tm_now st) c)" if "ckey c = ckey d"
    proof -
      have "c = d" using claims_wf_inj [OF assms(2) c(1) _ that] 3(1) by (simp add: stale_claim_def)
      then show ?thesis using assms(4) 3(1) c(3) by simp
    qed
    then show ?thesis using c 3(2) mem_upd_rows [OF c(1), of "\<lambda>x. ckey x = ckey d"] unfolding has_claim_def
      by (intro bexI [of _ "if ckey c = ckey d then retake (max 0 event) (positive_run run) (tm_now st) c else c"]) simp_all
  qed (use c in \<open>auto simp: has_claim_def\<close>)
qed

lemma claim_step_wf: "claim_step l st st' \<Longrightarrow> claims_wf st \<Longrightarrow> claims_wf st' \<and> tm_now st \<le> tm_now st'"
proof (induction rule: claim_step.induct)
  case (1 st t r role event run lease)
  let ?p = "claim_completion_event_result t r role event run lease st"
  have eq: "?p = (fst ?p, snd ?p)" by simp
  show ?case using claim_keeps_wf [OF eq 1] claim_effect [OF eq 1] by simp
next
  case (2 st t event run artifact)
  then show ?case unfolding mark_completion_event_applied_def on_named_claims_def Let_def
    by (simp add: claims_wf_upd ckey_def)
next
  case (3 st t event run)
  then show ?case unfolding mark_completion_event_ignored_stale_def on_named_claims_def Let_def
    by (simp add: claims_wf_upd ckey_def)
next
  case (4 t st event run)
  then show ?case unfolding release_completion_event_claim_def on_named_claims_def Let_def
    by (simp add: claims_wf_def distinct_map_filter)
qed (simp_all add: claims_wf_def create_team_run_def create_team_agent_job_def record_team_artifact_def Let_def)

lemma claim_step_has:
  assumes "claim_step l st st'" "claims_wf st" "has_claim G t k st" "l \<noteq> Some t \<or> (\<forall>c. G c \<longrightarrow> cc_status c \<noteq> ''claimed'')"
    and "\<And>c e u lease. stale_claim st lease c \<Longrightarrow> G c \<Longrightarrow> G (retake e u (tm_now st) c)" "\<And>c. claim_is_final c \<Longrightarrow> G c"
  shows "has_claim G t k st'"
  using assms
proof (induction rule: claim_step.induct)
  case (1 st t' r role event run lease)
  let ?p = "claim_completion_event_result t' r role event run lease st"
  have "?p = (fst ?p, snd ?p)" by simp
  from claim_keeps_claim [OF this 1(1,2)] 1(4) show ?case by blast
next
  case (2 st t' event run artifact)
  then show ?case unfolding mark_completion_event_applied_def on_named_claims_def Let_def
    by (auto intro!: has_claim_upd simp: ckey_def claim_is_final_def)
next
  case (3 st t' event run)
  then show ?case unfolding mark_completion_event_ignored_stale_def on_named_claims_def Let_def
    by (auto intro!: has_claim_upd simp: ckey_def claim_is_final_def)
next
  case (4 t' st event run)
  obtain c where c: "c \<in> set (lc_claims st)" "ckey c = (t, k)" "G c" using 4(2) by (auto simp: has_claim_def)
  have "\<not> (names_claim t' (max 0 event) run c \<and> cc_status c = ''claimed'')"
    using 4(3) c by (auto simp: names_claim_def ckey_def)
  then show ?case using c by (auto simp: has_claim_def release_completion_event_claim_def on_named_claims_def Let_def)
qed (simp_all add: has_claim_def create_team_run_def create_team_agent_job_def record_team_artifact_def Let_def)

lemma lifecycle_run_claims:
  assumes "lifecycle_run R st st'" "claims_wf st"
  shows "claims_wf st' \<and> tm_now st \<le> tm_now st' \<and>
    (has_claim claim_is_final t k st \<longrightarrow> has_claim claim_is_final t k st') \<and>
    (t \<notin> R \<longrightarrow> n \<le> tm_now st \<longrightarrow> has_claim (live_or_final n) t k st \<longrightarrow> has_claim (live_or_final n) t k st')"
  using assms
proof (induction rule: lifecycle_run.induct)
  case (lifecycle_run_round R st st' st'')
  note f = round_step_frame [OF lifecycle_run_round(2)]
  show ?case using lifecycle_run_round(3,4) f by (simp add: claims_wf_def has_claim_def)
next
  case (lifecycle_run_claim R st st' l st'')
  then have wf: "claims_wf st'" and le: "tm_now st \<le> tm_now st'" by simp_all
  note step = lifecycle_run_claim(2)
  have "has_claim claim_is_final t k st''" if "has_claim claim_is_final t k st'"
    by (rule claim_step_has [OF step wf that]) (auto simp: claim_is_final_def stale_claim_def)
  moreover have "has_claim (live_or_final n) t k st''"
    if "t \<notin> R" "n \<le> tm_now st" "has_claim (live_or_final n) t k st'"
    using that lifecycle_run_claim(3) le
    by (intro claim_step_has [OF step wf that(3)]) (auto simp: live_or_final_def retake_def)
  ultimately show ?case using lifecycle_run_claim claim_step_wf [OF step wf] by auto
qed simp


lemma claim_acquires:
  assumes "claim_completion_event_result t r role event run lease st = (Inr x, st')" "claims_wf st" "cr_acquired x" "cr_event_key x \<noteq> []"
  shows "has_claim (live_or_final (tm_now st)) t (cr_event_key x) st' \<and>
    (has_claim (live_or_final n) t (cr_event_key x) st \<longrightarrow> n + max 1 lease * 1000000 < tm_now st)"
proof -
  have "ckey c = (t, cr_event_key x)" if "cc_team_run_id c = t" "cr_event_key x = cc_event_key c" for c
    using that by (simp add: ckey_def)
  with claim_effect [OF assms(1,2)] assms(3,4) consider
    c where "lc_claims st' = lc_claims st @ [c]" "ckey c \<notin> ckey ` set (lc_claims st)" "cc_updated_at c = tm_now st"
      "ckey c = (t, cr_event_key x)"
  | c where "stale_claim st lease c" "ckey c = (t, cr_event_key x)"
      "lc_claims st' = upd_rows (\<lambda>d. ckey d = ckey c) (retake (max 0 event) (positive_run run) (tm_now st)) (lc_claims st)"
    by blast
  then show ?thesis
  proof cases
    case 1
    then have "\<not> has_claim G t (cr_event_key x) st" for G by (force simp: has_claim_def)
    then show ?thesis using 1 by (auto simp: has_claim_def live_or_final_def)
  next
    case 2
    have c: "c \<in> set (lc_claims st)" using 2(1) by (simp add: stale_claim_def)
    have "has_claim (live_or_final (tm_now st)) t (cr_event_key x) st'"
      using mem_upd_rows [OF c, of "\<lambda>d. ckey d = ckey c"] 2(2,3) unfolding has_claim_def
      by (intro bexI [of _ "retake (max 0 event) (positive_run run) (tm_now st) c"]) (simp_all add: retake_live)
    moreover have "n + max 1 lease * 1000000 < tm_now st" if h: "has_claim (live_or_final n) t (cr_event_key x) st"
    proof -
      obtain d where d: "d \<in> set (lc_claims st)" "ckey d = ckey c" "live_or_final n d" using h 2(2) by (auto simp: has_claim_def)
      then have "d = c" using claims_wf_inj [OF assms(2) d(1) c] by simp
      then show ?thesis using d(3) 2(1) by (simp add: stale_claim_def live_or_final_def)
    qed
    ultimately show ?thesis by blast
  qed
qed

definition empty_lifecycle :: "stamp \<Rightarrow> lifecycle_store" where
  "empty_lifecycle n = \<lparr>tm_now = n, tm_runs = [], tm_next_run = 1, tm_jobs = [], tm_next_job = 1, tm_artifacts = [], tm_next_artifact = 1,
     lc_rounds = [], lc_attempts = [], lc_next_attempt = 1, lc_claims = [], lc_backfilling = []\<rparr>"

lemma empty_lifecycle_wf: "claims_wf (empty_lifecycle n)" "rounds_wf (empty_lifecycle n)"
  by (simp_all add: claims_wf_def rounds_wf_def empty_lifecycle_def numbered_def)


lemma nat_str_5: "nat_str 5 = ''5''"
  by code_simp

definition demo_claimed :: lifecycle_store where
  "demo_claimed = snd (claim_completion_event_result 1 1 ''tester'' 7 (Some 5) 900 (empty_lifecycle 0))"



text \<open>One worker at a time: between two grants of the same completion, with no release of the task's claims in between, the
  lease the second worker asked for has run out since the first grant.\<close>

theorem completion_claim_exclusive:
  assumes "claims_wf st" "claim_completion_event_result t r role event run lease st = (Inr x, st1)" "cr_acquired x"
    and "cr_event_key x \<noteq> []" "lifecycle_run R st1 st2" "t \<notin> R"
    and "claim_completion_event_result t r' role' event' run' lease' st2 = (Inr y, st3)" "cr_acquired y" "cr_event_key y = cr_event_key x"
  shows "tm_now st + max 1 lease' * 1000000 < tm_now st2"
proof -
  have wf: "claims_wf st1" by (rule claim_keeps_wf [OF assms(2,1)])
  have now: "tm_now st1 = tm_now st" using claim_effect [OF assms(2,1)] by simp
  have "has_claim (live_or_final (tm_now st)) t (cr_event_key x) st1" using claim_acquires [OF assms(2,1,3,4)] by blast
  then have "claims_wf st2" "has_claim (live_or_final (tm_now st)) t (cr_event_key x) st2"
    using lifecycle_run_claims [OF assms(5) wf, of t "cr_event_key x" "tm_now st"] assms(6) now by auto
  then show ?thesis using claim_acquires [OF assms(7) _ assms(8), of "tm_now st"] assms(4,9) by simp
qed

theorem completion_claim_exclusive_witness:
  "\<exists>y. fst (claim_completion_event_result 1 2 ''tester'' 7 None 900 (demo_claimed\<lparr>tm_now := 900000001\<rparr>)) = Inr y \<and> cr_acquired y \<and>
     (0::int) + max 1 900 * 1000000 < 900000001"
proof -
  let ?st2 = "demo_claimed\<lparr>tm_now := 900000001\<rparr>" and ?st = "empty_lifecycle 0"
  obtain x where x: "claim_completion_event_result 1 1 ''tester'' 7 (Some 5) 900 ?st = (Inr x, demo_claimed)" "cr_acquired x"
      "cr_event_key x = ''agent:5''"
    by (simp add: demo_claimed_def claim_completion_event_result_def run_simps Let_def empty_lifecycle_def choose_claim_def
        completion_event_key_def positive_run_def int_str_def nat_str_5)
  have run: "lifecycle_run {} demo_claimed ?st2"
    by (rule lifecycle_run_claim [OF lifecycle_run_refl claim_step.intros(8)])
      (simp_all add: demo_claimed_def claim_completion_event_result_def run_simps Let_def empty_lifecycle_def choose_claim_def
        completion_event_key_def positive_run_def)
  obtain y st3 where y: "claim_completion_event_result 1 2 ''tester'' 7 None 900 ?st2 = (Inr y, st3)" "cr_acquired y"
      "cr_event_key y = ''agent:5''"
    by (simp add: demo_claimed_def claim_completion_event_result_def run_simps Let_def empty_lifecycle_def choose_claim_def
        completion_event_key_def positive_run_def int_str_def nat_str_5 names_claim_def claim_is_final_def or_string_def
        claim_conflict_def retake_def some_or_def upd_rows_Cons)
  have "tm_now ?st + max 1 900 * 1000000 < tm_now ?st2"
    by (rule completion_claim_exclusive [OF empty_lifecycle_wf(1) x(1,2) _ run _ y(1,2)]) (simp_all add: x(3) y(3))
  then show ?thesis using y by (simp add: empty_lifecycle_def)
qed





section \<open>Native approvals\<close>

text \<open>The abstract machine of a round's native approval: one request at a time, one action on it at a time.\<close>

datatype native_phase = NoNative | Pending string int | Resolving string int | Superseding string int



definition phase_of :: "confirmation \<Rightarrow> native_phase" where
  "phase_of c =
     (if cf_source c = ''provider_native_approval'' then Pending (cf_provider_request_id c) (cf_runtime_event_id c)
      else if cf_source c = ''provider_native_resolving'' then Resolving (cf_provider_request_id c) (cf_runtime_event_id c)
      else if cf_source c = ''provider_native_superseding'' then Superseding (cf_provider_request_id c) (cf_runtime_event_id c)
      else NoNative)"

definition native_phase :: "lifecycle_store \<Rightarrow> row_id \<Rightarrow> int \<Rightarrow> native_phase" where
  "native_phase st t r = (case find_round st t r of None \<Rightarrow> NoNative | Some x \<Rightarrow> phase_of (rr_confirmation x))"


lemma find_upd: "(\<And>x. P (f x) = P x) \<Longrightarrow> find P (upd_rows Q f rs) = map_option (\<lambda>x. if Q x then f x else x) (find P rs)"
  by (induction rs) (auto simp: upd_rows_Cons)

lemma is_round_other: "(t', r') \<noteq> (t, r) \<Longrightarrow> is_round t' r' x \<Longrightarrow> \<not> is_round t r x"
  by (auto simp: is_round_def)

lemma find_round_D: "find_round st t r = Some x \<Longrightarrow> is_round t r x"
  unfolding find_round_def using find_SomeD by fastforce

lemma count_hit:
  assumes "distinct (map rkey rs)"
  shows "length (filter (\<lambda>x. is_round t r x \<and> P x) rs) = 1 \<longleftrightarrow> (\<exists>x. find (is_round t r) rs = Some x \<and> P x)"
  using assms
proof (induction rs)
  case (Cons x rs)
  have "filter (\<lambda>y. is_round t r y \<and> P y) rs = []" if "is_round t r x"
    using that Cons.prems by (auto simp: filter_empty_conv is_round_def rkey_def image_iff)
  then show ?case using Cons by auto
qed simp

lemma swap_source_result:
  assumes "rounds_wf st" "\<And>x. rkey (f x) = rkey x"
  shows "fst (swap_source t r src q e f st) \<longleftrightarrow> (\<exists>x. find_round st t r = Some x \<and> native_request src q e x)"
    and "find_round (snd (swap_source t r src q e f st)) t' r' = map_option
      (\<lambda>x. if (t', r') = (t, r) \<and> native_request src q e x then f x\<lparr>rr_updated_at := tm_now st\<rparr> else x) (find_round st t' r')"
proof -
  show "fst (swap_source t r src q e f st) \<longleftrightarrow> (\<exists>x. find_round st t r = Some x \<and> native_request src q e x)"
    using assms(1) by (simp only: swap_source_def Let_def fst_conv find_round_def rounds_wf_def count_hit)
  have key: "is_round t' r' (f x\<lparr>rr_updated_at := tm_now st\<rparr>) = is_round t' r' x" for x
    using assms(2) [of x] by (simp add: is_round_def rkey_def)
  have "find_round (snd (swap_source t r src q e f st)) t' r' = map_option
      (\<lambda>x. if is_round t r x \<and> native_request src q e x then f x\<lparr>rr_updated_at := tm_now st\<rparr> else x) (find_round st t' r')"
    by (simp add: swap_source_def Let_def find_round_def find_upd [of "is_round t' r'", OF key])
  also have "\<dots> = map_option
      (\<lambda>x. if (t', r') = (t, r) \<and> native_request src q e x then f x\<lparr>rr_updated_at := tm_now st\<rparr> else x) (find_round st t' r')"
    using is_round_other [of t' r' t r] by (intro option.map_cong) (auto dest: find_round_D)
  finally show "find_round (snd (swap_source t r src q e f st)) t' r' = map_option
      (\<lambda>x. if (t', r') = (t, r) \<and> native_request src q e x then f x\<lparr>rr_updated_at := tm_now st\<rparr> else x) (find_round st t' r')" .
qed

lemma native_request_phase:
  "native_request ''provider_native_approval'' q e x \<longleftrightarrow> phase_of (rr_confirmation x) = Pending q e"
  "native_request ''provider_native_resolving'' q e x \<longleftrightarrow> phase_of (rr_confirmation x) = Resolving q e"
  "native_request ''provider_native_superseding'' q e x \<longleftrightarrow> phase_of (rr_confirmation x) = Superseding q e"
  by (simp_all add: native_request_def phase_of_def)

lemma native_phase_Some: "native_phase st t r \<noteq> NoNative \<Longrightarrow> \<exists>x. find_round st t r = Some x \<and> phase_of (rr_confirmation x) = native_phase st t r"
  by (cases "find_round st t r") (simp_all add: native_phase_def)

lemma native_phase_is: "p \<noteq> NoNative \<Longrightarrow> native_phase st t r = p \<longleftrightarrow> (\<exists>x. find_round st t r = Some x \<and> phase_of (rr_confirmation x) = p)"
  by (cases "find_round st t r") (auto simp: native_phase_def)

lemma phase_after_swap:
  assumes "rounds_wf st" "\<And>x. rkey (f x) = rkey x" "p \<noteq> NoNative"
    and "\<And>x. native_request src q e x \<longleftrightarrow> phase_of (rr_confirmation x) = p"
    and "\<And>x. phase_of (rr_confirmation x) = p \<Longrightarrow> phase_of (rr_confirmation (f x)) = p'"
  shows "fst (swap_source t r src q e f st) \<longleftrightarrow> native_phase st t r = p"
    and "native_phase (snd (swap_source t r src q e f st)) t' r' =
      (if (t', r') = (t, r) \<and> native_phase st t r = p then p' else native_phase st t' r')"
proof -
  show "fst (swap_source t r src q e f st) \<longleftrightarrow> native_phase st t r = p"
    using swap_source_result(1) [OF assms(1,2)] by (simp add: assms(4) native_phase_is [OF assms(3)])
  show "native_phase (snd (swap_source t r src q e f st)) t' r' =
      (if (t', r') = (t, r) \<and> native_phase st t r = p then p' else native_phase st t' r')"
    using assms(3,5) unfolding native_phase_def swap_source_result(2) [OF assms(1,2)]
    by (cases "find_round st t' r'") (auto simp: assms(4))
qed

lemma phase_of_set_source:
  "phase_of (rr_confirmation (set_source ''provider_native_approval'' x)) = Pending (cf_provider_request_id (rr_confirmation x)) (cf_runtime_event_id (rr_confirmation x))"
  "phase_of (rr_confirmation (set_source (''provider_native_'' @ ''resolving'') x)) = Resolving (cf_provider_request_id (rr_confirmation x)) (cf_runtime_event_id (rr_confirmation x))"
  "phase_of (rr_confirmation (set_source (''provider_native_'' @ ''superseding'') x)) = Superseding (cf_provider_request_id (rr_confirmation x)) (cf_runtime_event_id (rr_confirmation x))"
  by (simp_all add: phase_of_def set_source_def)

lemma phase_of_identity:
  "phase_of c = Pending q e \<or> phase_of c = Resolving q e \<or> phase_of c = Superseding q e \<Longrightarrow>
     cf_provider_request_id c = q \<and> cf_runtime_event_id c = e"
  by (auto simp: phase_of_def split: if_splits)

definition action_phase :: "string \<Rightarrow> string \<Rightarrow> int \<Rightarrow> native_phase" where
  "action_phase a q e = (if a = ''resolving'' then Resolving q e else Superseding q e)"

lemma rkey_set_source: "rkey (set_source s x) = rkey x"
  by (simp add: rkey_def set_source_def)

lemma native_action_cases: "a \<in> set native_actions \<Longrightarrow> a = ''resolving'' \<or> a = ''superseding''"
  by (simp add: native_actions_def)

lemma swap_take:
  assumes "rounds_wf st" "a \<in> set native_actions"
  shows "fst (swap_source t r ''provider_native_approval'' q e (set_source (''provider_native_'' @ a)) st) \<longleftrightarrow> native_phase st t r = Pending q e"
    and "native_phase (snd (swap_source t r ''provider_native_approval'' q e (set_source (''provider_native_'' @ a)) st)) t' r' =
      (if (t', r') = (t, r) \<and> native_phase st t r = Pending q e then action_phase a q e else native_phase st t' r')"
proof -
  have "phase_of (rr_confirmation (set_source (''provider_native_'' @ a) x)) = action_phase a q e"
    if "phase_of (rr_confirmation x) = Pending q e" for x
    using native_action_cases [OF assms(2)] phase_of_identity [of "rr_confirmation x" q e] that
    by (elim disjE) (simp_all only: phase_of_set_source action_phase_def, simp_all)
  from phase_after_swap [OF assms(1) rkey_set_source _ native_request_phase(1) this]
  show "fst (swap_source t r ''provider_native_approval'' q e (set_source (''provider_native_'' @ a)) st) \<longleftrightarrow> native_phase st t r = Pending q e"
    "native_phase (snd (swap_source t r ''provider_native_approval'' q e (set_source (''provider_native_'' @ a)) st)) t' r' =
      (if (t', r') = (t, r) \<and> native_phase st t r = Pending q e then action_phase a q e else native_phase st t' r')"
    by simp_all
qed


lemma native_phase_cong: "lc_rounds st' = lc_rounds st \<Longrightarrow> native_phase st' t r = native_phase st t r"
  by (simp add: native_phase_def find_round_def)

lemma rounds_untouched:
  "lc_rounds (mirror_status t role a b st) = lc_rounds st" "lc_rounds (wait_attempt t r role c st) = lc_rounds st"
  "lc_rounds (upd_attempt i f st) = lc_rounds st"
  by (simp_all add: mirror_status_def Let_def update_team_run_status_def wait_attempt_def insert_attempt_def upd_attempt_def
      split: option.split)

lemma claim_native_phase:
  assumes "rounds_wf st"
  shows "fst (claim_provider_native_approval_action t r q e action st) = Inr True \<longleftrightarrow>
      strip action \<in> set native_actions \<and> strip q \<noteq> [] \<and> 0 < e \<and> native_phase st t r = Pending (strip q) e"
    and "native_phase (snd (claim_provider_native_approval_action t r q e action st)) t' r' =
      (if (t', r') = (t, r) \<and> fst (claim_provider_native_approval_action t r q e action st) = Inr True
       then action_phase (strip action) (strip q) e else native_phase st t' r')"
  using swap_take [OF assms, of "strip action" t r "strip q" e] swap_take(2) [OF assms, of "strip action" t r "strip q" e t' r']
  by (auto simp: claim_provider_native_approval_action_def Let_def run_simps stepA_def case_prod_beta)

lemma finalize_native_phase:
  assumes "rounds_wf st"
  shows "fst (finalize_provider_native_approval_action t r role q e action decision st) = Inr True \<longleftrightarrow>
      action = ''resolving'' \<and> strip q \<noteq> [] \<and> 0 < e \<and> native_phase st t r = Resolving (strip q) e"
    and "native_phase (snd (finalize_provider_native_approval_action t r role q e action decision st)) t' r' =
      (if (t', r') = (t, r) \<and> fst (finalize_provider_native_approval_action t r role q e action decision st) = Inr True
       then NoNative else native_phase st t' r')"
proof -
  define f where "f = (\<lambda>x :: relay_round. x\<lparr>rr_status := (if decision = ''cancel_plan'' then ''interrupted'' else ''running''),
    rr_closed_at := (if decision = ''cancel_plan'' then Some (tm_now st) else None),
    rr_waiting_reason := ''none'', rr_confirmation := no_confirmation\<rparr>)"
  have f: "rkey (f x) = rkey x" "phase_of (rr_confirmation (f x)) = NoNative" for x
    by (simp_all add: f_def rkey_def phase_of_def no_confirmation_def)
  note sw = phase_after_swap [OF assms, of f, OF f(1) _ native_request_phase(2) f(2), of "strip q" e]
  show "fst (finalize_provider_native_approval_action t r role q e action decision st) = Inr True \<longleftrightarrow>
      action = ''resolving'' \<and> strip q \<noteq> [] \<and> 0 < e \<and> native_phase st t r = Resolving (strip q) e"
    using sw(1) [of t r] by (auto simp: finalize_provider_native_approval_action_def Let_def run_simps case_prod_beta f_def [symmetric])
  show "native_phase (snd (finalize_provider_native_approval_action t r role q e action decision st)) t' r' =
      (if (t', r') = (t, r) \<and> fst (finalize_provider_native_approval_action t r role q e action decision st) = Inr True
       then NoNative else native_phase st t' r')"
    using sw(1) [of t r] sw(2) [of t r t' r']
    by (auto simp: finalize_provider_native_approval_action_def Let_def run_simps case_prod_beta f_def [symmetric]
        native_phase_cong [OF rounds_untouched(1)] native_phase_cong [OF rounds_untouched(3)] split: option.split)
qed









definition demo_request :: confirmation where
  "demo_request = no_confirmation\<lparr>cf_provider_request_id := ''q1'', cf_runtime_event_id := 5\<rparr>"

definition demo_pending :: lifecycle_store where
  "demo_pending = snd (replace_provider_native_approval 1 1 ''tester'' demo_request [] 0 (create_initial_round 1 (empty_lifecycle 0)))"

lemma demo_pending_wf: "rounds_wf demo_pending"
  unfolding demo_pending_def
  by (rule keepsA_D [OF keys.replace_native_keeps]) (rule keys.create_initial_round_keeps [OF empty_lifecycle_wf(2)])

lemma demo_pending_phase: "native_phase demo_pending 1 1 = Pending ''q1'' 5"
  by code_simp


text \<open>A native approval is acted on once: an action is granted only on the pending request it names; after a grant no action on the
  round is granted, and only the granted resolution can be finalized.\<close>

theorem native_action_granted_once:
  assumes "rounds_wf st" "claim_provider_native_approval_action t r q e action st = (Inr True, st1)"
  shows "native_phase st t r = Pending (strip q) e \<and>
    fst (claim_provider_native_approval_action t r q' e' action' st1) \<noteq> Inr True \<and>
    (fst (finalize_provider_native_approval_action t r role q'' e'' ''resolving'' decision st1) = Inr True \<longrightarrow>
      strip action = ''resolving'' \<and> strip q'' = strip q \<and> e'' = e)"
proof -
  have wf: "rounds_wf st1" using keepsA_D [OF keys.claim_native_keeps assms(1), of t r q e action] assms(2) by simp
  have g: "fst (claim_provider_native_approval_action t r q e action st) = Inr True"
    "snd (claim_provider_native_approval_action t r q e action st) = st1" using assms(2) by simp_all
  then have "native_phase st1 t r = action_phase (strip action) (strip q) e"
    using claim_native_phase(2) [OF assms(1), of t r q e action t r] by simp
  then show ?thesis using claim_native_phase(1) [OF assms(1), of t r q e action] g(1) claim_native_phase(1) [OF wf, of t r q' e' action']
      finalize_native_phase(1) [OF wf, of t r role q'' e'' "''resolving''" decision]
    by (auto simp: action_phase_def split: if_splits)
qed

theorem native_action_granted_once_witness:
  "fst (claim_provider_native_approval_action 1 1 ''q1'' 5 ''superseding''
     (snd (claim_provider_native_approval_action 1 1 ''q1'' 5 ''resolving'' demo_pending))) \<noteq> Inr True"
proof -
  have "fst (claim_provider_native_approval_action 1 1 ''q1'' 5 ''resolving'' demo_pending) = Inr True"
    unfolding claim_native_phase(1) [OF demo_pending_wf] demo_pending_phase by code_simp
  then have "claim_provider_native_approval_action 1 1 ''q1'' 5 ''resolving'' demo_pending =
      (Inr True, snd (claim_provider_native_approval_action 1 1 ''q1'' 5 ''resolving'' demo_pending))" by (simp add: prod_eq_iff)
  from native_action_granted_once [OF demo_pending_wf this] show ?thesis by blast
qed

section \<open>Dispatch claims\<close>











end
