(* ===== verification/Relay_Projection_Properties.thy ===== *)
theory Relay_Projection_Properties
  imports Relay_Lifecycle_Properties
begin

text \<open>
  The legacy status columns as a projection of the lifecycle store, follow-up rounds, and what re-reading the
  artifacts of a round does to its confirmation and its attempts.
\<close>

section \<open>The latest attempts of a round\<close>

lemma map_of_fold_dset:
  "map_of (fold (\<lambda>a. dset (k a) (f a)) xs d) x =
     (if filter (\<lambda>a. k a = x) xs = [] then map_of d x else Some (f (last (filter (\<lambda>a. k a = x) xs))))"
  by (induction xs arbitrary: d) auto

lemma last_sorted_max: "xs \<noteq> [] \<Longrightarrow> last (sort_key k xs) \<in> set xs \<and> (\<forall>y \<in> set xs. k y \<le> k (last (sort_key k xs)))"
proof -
  assume "xs \<noteq> []"
  then have ne: "sort_key k xs \<noteq> []" by (simp add: sort_key_Nil)
  have "k y \<le> k (last (sort_key k xs))" if "y \<in> set xs" for y
  proof -
    have "y \<in> set (sort_key k xs)" using that by simp
    then obtain i where i: "i < length (sort_key k xs)" "y = sort_key k xs ! i" unfolding in_set_conv_nth by blast
    have "sorted (map k (sort_key k xs))" by simp
    from sorted_nth_mono [OF this, of i "length (sort_key k xs) - 1"] show ?thesis
      using i ne by (simp add: last_conv_nth nth_map del: length_sort)
  qed
  then show ?thesis using last_in_set [OF ne] by simp
qed

lemma attempts_for_round_latest:
  assumes "rounds_wf st"
  shows "map_of (attempts_for_round st t r) role = latest_attempt st t r role"
proof -
  let ?as = "filter (is_attempt t r role) (lc_attempts st)"
  let ?k = "\<lambda>a. (at_role a, at_attempt_no a)"
  have eq: "filter (\<lambda>a. at_role a = role) (sort_key ?k (filter (\<lambda>a. at_team_run_id a = t \<and> at_round_id a = r) (lc_attempts st))) =
      sort_key ?k ?as"
  proof -
    have "filter (\<lambda>a. at_role a = role) (filter (\<lambda>a. at_team_run_id a = t \<and> at_round_id a = r) (lc_attempts st)) = ?as"
      unfolding filter_filter by (rule filter_cong) (auto simp: is_attempt_def)
    then show ?thesis by (simp only: filter_sort)
  qed
  show ?thesis
  proof (cases "?as = []")
    case True
    then show ?thesis
      by (simp add: attempts_for_round_def map_of_fold_dset eq sort_key_Nil latest_attempt_def latest_attempt_row_def)
  next
    case False
    let ?a = "last (sort_key ?k ?as)"
    note m = last_sorted_max [OF False, of ?k]
    have "first_row (order_desc at_attempt_no ?as) \<noteq> None" using False by simp
    then obtain b where b: "latest_attempt_row st t r role = Some b" unfolding latest_attempt_row_def by blast
    note bm = latest_attempt_row_Some [OF b]
    have a: "?a \<in> set ?as" using m by blast
    have "numbered (map at_attempt_no ?as)" using assms unfolding rounds_wf_def by blast
    then have "distinct (map at_attempt_no ?as)" unfolding numbered_def by (metis distinct_upt)
    moreover have "at_attempt_no ?a = at_attempt_no b"
    proof (rule antisym)
      show "at_attempt_no ?a \<le> at_attempt_no b" using bm a by simp
      have "?k b \<le> ?k ?a" using m bm by simp
      then show "at_attempt_no b \<le> at_attempt_no ?a" using a bm by (auto simp: is_attempt_def less_eq_prod_def)
    qed
    ultimately have "?a = b" using a bm by (auto simp: distinct_map inj_on_def)
    then show ?thesis using False b
      by (simp add: attempts_for_round_def map_of_fold_dset eq sort_key_Nil latest_attempt_def)
  qed
qed

section \<open>The legacy projection\<close>

definition synced_job :: "bool \<Rightarrow> string \<Rightarrow> (string \<times> relay_lifecycle_attempt) list \<Rightarrow> stamp \<Rightarrow> team_agent_job \<Rightarrow> team_agent_job" where
  "synced_job preserve of_round attempts now j =
     (let status = legacy_projection_status of_round (map_of attempts (tj_role j)) in
      if preserve then j\<lparr>tj_status := status\<rparr>
      else if or_string (tj_status j) ''idle'' \<noteq> status then j\<lparr>tj_status := status, tj_updated_at := now\<rparr> else j)"

lemma synced_job_keys [simp]:
  "tj_id (synced_job p s as n j) = tj_id j" "tj_role (synced_job p s as n j) = tj_role j"
  "tj_team_run_id (synced_job p s as n j) = tj_team_run_id j"
  by (simp_all add: synced_job_def Let_def)

lemma synced_job_status: "or_string (tj_status (synced_job p s as n j)) ''idle'' =
    or_string (legacy_projection_status s (map_of as (tj_role j))) ''idle''"
  by (auto simp: synced_job_def Let_def or_string_def)

lemma sync_job_rows:
  assumes "distinct (map tj_id (tm_jobs st))" "j \<in> set (tm_jobs st)"
  shows "sync_job p s as j st = st\<lparr>tm_jobs := map (\<lambda>k. if k = j then synced_job p s as (tm_now st) k else k) (tm_jobs st)\<rparr>"
proof -
  have same: "tj_id k = tj_id j \<longleftrightarrow> k = j" if "k \<in> set (tm_jobs st)" for k
    using assms that by (auto simp: distinct_map dest: inj_onD)
  show ?thesis
    unfolding sync_job_def Let_def update_team_agent_job_status_def upd_rows_def synced_job_def
    by (auto simp: same map_idI cong: map_cong intro!: map_cong)
qed

lemma fold_sync_jobs:
  assumes "distinct (map tj_id (tm_jobs st))" "set js \<subseteq> set (tm_jobs st)" "distinct js"
  shows "fold (sync_job p s as) js st =
    st\<lparr>tm_jobs := map (\<lambda>k. if k \<in> set js then synced_job p s as (tm_now st) k else k) (tm_jobs st)\<rparr>"
  using assms
proof (induction js arbitrary: st)
  case (Cons j js)
  let ?f = "\<lambda>k. if k = j then synced_job p s as (tm_now st) k else k"
  let ?st = "st\<lparr>tm_jobs := map ?f (tm_jobs st)\<rparr>"
  have "map tj_id (map ?f (tm_jobs st)) = map tj_id (tm_jobs st)" by simp
  then have ids: "distinct (map tj_id (tm_jobs ?st))" using Cons.prems(1) by (simp del: map_map)
  have sub: "set js \<subseteq> set (tm_jobs ?st)" using Cons.prems(2,3) by (auto simp: image_iff)
  have "fold (sync_job p s as) (j # js) st = fold (sync_job p s as) js ?st"
    using sync_job_rows [OF Cons.prems(1)] Cons.prems(2) by simp
  also have "\<dots> = ?st\<lparr>tm_jobs := map (\<lambda>k. if k \<in> set js then synced_job p s as (tm_now st) k else k) (tm_jobs ?st)\<rparr>"
    using Cons.IH [OF ids sub] Cons.prems(3) by (simp del: map_map)
  also have "\<dots> = st\<lparr>tm_jobs := map (\<lambda>k. if k \<in> set (j # js) then synced_job p s as (tm_now st) k else k) (tm_jobs st)\<rparr>"
  proof -
    have inj: "k = k'" if "k \<in> set (tm_jobs st)" "k' \<in> set (tm_jobs st)" "tj_id k = tj_id k'" for k k'
      using Cons.prems(1) that by (auto simp: distinct_map dest: inj_onD)
    have "synced_job p s as (tm_now st) j \<notin> set js"
    proof
      assume h: "synced_job p s as (tm_now st) j \<in> set js"
      then have "synced_job p s as (tm_now st) j = j" using inj [of "synced_job p s as (tm_now st) j" j] Cons.prems(2) by auto
      then show False using h Cons.prems(3) by simp
    qed
    then show ?thesis using Cons.prems(3) by (auto simp: comp_def)
  qed
  finally show ?case .
qed (simp add: map_idI)

lemma job_rows_distinct:
  assumes "team_store_wf st"
  shows "distinct (map tj_id (tm_jobs st))" "distinct (list_team_agent_jobs st t)"
    "set (list_team_agent_jobs st t) = {j \<in> set (tm_jobs st). tj_team_run_id j = t}"
proof -
  show d: "distinct (map tj_id (tm_jobs st))" using assms ids_ok_distinct by (auto simp: team_store_wf_def)
  then show "distinct (list_team_agent_jobs st t)" by (simp add: list_team_agent_jobs_def distinct_map distinct_sort)
  show "set (list_team_agent_jobs st t) = {j \<in> set (tm_jobs st). tj_team_run_id j = t}" by (auto simp: list_team_agent_jobs_def)
qed

lemma sync_result:
  assumes "team_store_wf st" "get_team_run st t = Some run"
  defines "r \<equiv> active_round_id st t 1"
  shows "\<exists>runs. sync_legacy_projection preserve t st = st\<lparr>tm_runs := runs, tm_jobs := map (\<lambda>k. if tj_team_run_id k = t
      then synced_job preserve (round_status st t r) (attempts_for_round st t r) (tm_now st) k else k) (tm_jobs st)\<rparr> \<and>
    (\<exists>run'. find (\<lambda>x. tr_id x = t) runs = Some run' \<and> tr_status run' = round_status st t r)"
proof -
  let ?s = "round_status st t r"
  have id: "tr_id run = t" using assms(2) find_SomeD unfolding get_team_run_def by fastforce
  define runs where "runs = (if preserve then tm_runs (set_run_status_if_changed t ?s st)
    else if tr_status run \<noteq> ?s then tm_runs (update_team_run_status t ?s st) else tm_runs st)"
  have "find (\<lambda>x. tr_id x = t) runs = Some (if preserve then run\<lparr>tr_status := ?s\<rparr>
      else if tr_status run \<noteq> ?s then run\<lparr>tr_status := ?s, tr_updated_at := tm_now st\<rparr> else run)"
    using assms(2) id by (auto simp: runs_def set_run_status_if_changed_def update_team_run_status_def get_team_run_def find_upd)
  moreover have frame: "attempts_for_round (st\<lparr>tm_runs := runs\<rparr>) t r = attempts_for_round st t r"
      "list_team_agent_jobs (st\<lparr>tm_runs := runs\<rparr>) t = list_team_agent_jobs st t"
      "distinct (map tj_id (tm_jobs (st\<lparr>tm_runs := runs\<rparr>)))"
    using job_rows_distinct [OF assms(1)] by (simp_all add: attempts_for_round_def list_team_agent_jobs_def)
  have "sync_legacy_projection preserve t st = fold (sync_job preserve ?s (attempts_for_round st t r)) (list_team_agent_jobs st t) (st\<lparr>tm_runs := runs\<rparr>)"
    using assms(2) frame unfolding sync_legacy_projection_def Let_def r_def [symmetric] runs_def
    by (auto simp: set_run_status_if_changed_def update_team_run_status_def)
  then have "sync_legacy_projection preserve t st = st\<lparr>tm_runs := runs, tm_jobs := map (\<lambda>k. if tj_team_run_id k = t
      then synced_job preserve ?s (attempts_for_round st t r) (tm_now st) k else k) (tm_jobs st)\<rparr>"
    using fold_sync_jobs [OF frame(3), of "list_team_agent_jobs st t"]
      job_rows_distinct(2,3) [OF assms(1), of t] by (simp cong: map_cong)
  moreover have "tr_status (if preserve then run\<lparr>tr_status := ?s\<rparr>
      else if tr_status run \<noteq> ?s then run\<lparr>tr_status := ?s, tr_updated_at := tm_now st\<rparr> else run) = ?s" by simp
  ultimately show ?thesis by blast
qed

text \<open>C18. After a projection the legacy columns mirror the lifecycle store: the team run has the status of its active round, each job of the
  task the status its latest attempt in that round projects to, and nothing else changes: not the jobs of other tasks,
  not the rounds, not the attempts.\<close>

theorem projection_mirrors_round:
  fixes preserve :: bool
  assumes "team_store_wf st" "rounds_wf st" "get_team_run st t = Some run"
  defines "r \<equiv> active_round_id st t 1" and "st' \<equiv> sync_legacy_projection preserve t st"
  shows "(\<exists>run'. get_team_run st' t = Some run' \<and> tr_status run' = round_status st t r) \<and>
    (\<forall>j \<in> set (tm_jobs st'). tj_team_run_id j = t \<longrightarrow> or_string (tj_status j) ''idle'' =
       or_string (legacy_projection_status (round_status st t r) (latest_attempt st t r (tj_role j))) ''idle'') \<and>
    filter (\<lambda>j. tj_team_run_id j \<noteq> t) (tm_jobs st') = filter (\<lambda>j. tj_team_run_id j \<noteq> t) (tm_jobs st) \<and>
    lc_rounds st' = lc_rounds st \<and> lc_attempts st' = lc_attempts st"
proof -
  obtain runs run' where eq: "st' = st\<lparr>tm_runs := runs, tm_jobs := map (\<lambda>k. if tj_team_run_id k = t
      then synced_job preserve (round_status st t r) (attempts_for_round st t r) (tm_now st) k else k) (tm_jobs st)\<rparr>"
    and run': "find (\<lambda>x. tr_id x = t) runs = Some run'" "tr_status run' = round_status st t r"
    using sync_result [OF assms(1,3), of preserve] unfolding r_def st'_def by blast
  have "or_string (tj_status j) ''idle'' =
      or_string (legacy_projection_status (round_status st t r) (latest_attempt st t r (tj_role j))) ''idle''"
    if mem: "j \<in> set (tm_jobs st')" "tj_team_run_id j = t" for j
  proof -
    have jobs: "tm_jobs st' = map (\<lambda>k. if tj_team_run_id k = t
        then synced_job preserve (round_status st t r) (attempts_for_round st t r) (tm_now st) k else k) (tm_jobs st)"
      by (simp add: eq)
    obtain k where k: "k \<in> set (tm_jobs st)" "j = (if tj_team_run_id k = t
        then synced_job preserve (round_status st t r) (attempts_for_round st t r) (tm_now st) k else k)"
      using mem(1) unfolding jobs set_map by blast
    then have "tj_team_run_id k = t" using mem(2) by (simp split: if_splits)
    then show ?thesis using k by (simp add: synced_job_status attempts_for_round_latest [OF assms(2)])
  qed
  moreover have "filter (\<lambda>j. tj_team_run_id j \<noteq> t) (map (\<lambda>k. if tj_team_run_id k = t then f k else k) js) =
      filter (\<lambda>j. tj_team_run_id j \<noteq> t) js" if "\<And>k. tj_team_run_id (f k) = tj_team_run_id k" for f and js :: "team_agent_job list"
    using that by (induction js) auto
  then have "filter (\<lambda>j. tj_team_run_id j \<noteq> t) (tm_jobs st') = filter (\<lambda>j. tj_team_run_id j \<noteq> t) (tm_jobs st)"
    by (simp add: eq)
  moreover have "get_team_run st' t = Some run'" "lc_rounds st' = lc_rounds st" "lc_attempts st' = lc_attempts st"
    using run'(1) by (simp_all add: eq get_team_run_def)
  ultimately show ?thesis using run'(2) by blast
qed

definition demo_team :: lifecycle_store where
  "demo_team = snd (create_team_agent_job 1 ''director'' ''m'' ''queued'' None (snd (create_team_agent_job 1 ''tester'' ''m'' ''streaming'' None
     (snd (create_team_run 1 None ''goal'' ''relay'' ''medium'' (empty_lifecycle 0))))))"

definition demo_round :: lifecycle_store where
  "demo_round = ensure_attempt 1 1 ''tester'' ''passed'' no_update (ensure_attempt 1 1 ''director'' ''waiting'' no_update
     (ensure_round 1 1 ''initial'' None demo_team))"

lemma demo_round_wf: "team_store_wf demo_round" "rounds_wf demo_round"
proof -
  have "rounds_wf demo_team"
    using empty_lifecycle_wf(2) [of 0] by (simp add: demo_team_def create_team_agent_job_def create_team_run_def Let_def rounds_wf_def)
  then show "rounds_wf demo_round" unfolding demo_round_def by (intro keys.ensure_attempt_keeps keys.ensure_round_keeps)
  show "team_store_wf demo_round"
  proof -
    have "sorted_wrt (<) (map tr_id (tm_runs demo_round)) \<and> list_all (\<lambda>x. tr_id x < tm_next_run demo_round) (tm_runs demo_round)"
      "sorted_wrt (<) (map tj_id (tm_jobs demo_round)) \<and> list_all (\<lambda>x. tj_id x < tm_next_job demo_round) (tm_jobs demo_round)"
      "tm_artifacts demo_round = []" by code_simp+
    then show ?thesis by (simp add: team_store_wf_def ids_ok_def list_all_iff)
  qed
qed

theorem projection_mirrors_round_witness:
  "\<exists>run'. get_team_run (sync_legacy_projection False 1 demo_round) 1 = Some run' \<and> tr_status run' = ''running''"
proof -
  obtain run where "get_team_run demo_round 1 = Some run"
  proof -
    have "get_team_run demo_round 1 \<noteq> None" by code_simp
    then show ?thesis using that by blast
  qed
  from projection_mirrors_round [OF demo_round_wf this, of False]
  obtain run' where "get_team_run (sync_legacy_projection False 1 demo_round) 1 = Some run'"
      "tr_status run' = round_status demo_round 1 (active_round_id demo_round 1 1)" by blast
  moreover have "round_status demo_round 1 (active_round_id demo_round 1 1) = ''running''" by code_simp
  ultimately show ?thesis by simp
qed

section \<open>Re-reading the artifacts of a round\<close>

text \<open>A waiting artifact is observed again by every reconciliation: a confirmation that was cleared after the user answered is back,
  and so is its pending count.\<close>

definition demo_question :: dict where
  "demo_question = [(''relay_role'', JStr ''architect''), (''round_id'', JInt 1), (''artifact_type'', JStr ''architecture_plan''),
     (''status'', JStr ''waiting'')]"

definition demo_asked :: lifecycle_store where
  "demo_asked = snd (observe_artifact 1 7 demo_question (ensure_round 1 1 ''initial'' None (empty_lifecycle 0)))"

lemma cleared_confirmation_returns:
  "rx_pending_approval_count (round_execution (clear_round_confirmation 1 1 demo_asked) 1 1) = 0"
  "rx_pending_approval_count (round_execution (snd (observe_artifact 1 7 demo_question (clear_round_confirmation 1 1 demo_asked))) 1 1) = 1"
  by code_simp+

text \<open>An error whose link was overwritten by a later one counts again once the role has a new attempt: the fresh attempt starts with the retry
  of an error that happened before it.\<close>

definition demo_two_errors :: lifecycle_store where
  "demo_two_errors = observe_error 1 1 ''tester'' 11 (observe_error 1 1 ''tester'' 10 demo_round)"

lemma old_error_counts_again:
  "map_option at_retry_count (latest_attempt_row
     (observe_error 1 1 ''tester'' 10 (update_attempt 1 1 ''tester'' (no_update\<lparr>au_status := Some ''queued''\<rparr>) demo_two_errors)) 1 1 ''tester'') = Some 1"
  "map_option at_attempt_no (latest_attempt_row
     (update_attempt 1 1 ''tester'' (no_update\<lparr>au_status := Some ''queued''\<rparr>) demo_two_errors) 1 1 ''tester'') = Some 2"
  by code_simp+

section \<open>Follow-up rounds\<close>

definition round_stats :: "lifecycle_store \<Rightarrow> ((row_id \<times> int) \<times> string) list" where
  "round_stats st = map (\<lambda>x. (rkey x, rr_status x)) (lc_rounds st)"

definition attempt_stats :: "lifecycle_store \<Rightarrow> ((row_id \<times> int \<times> string \<times> nat) \<times> string) list" where
  "attempt_stats st = map (\<lambda>a. ((at_team_run_id a, at_round_id a, at_role a, at_attempt_no a), at_status a)) (lc_attempts st)"

lemma round_status_stats: "round_status st t r = (case map_of (round_stats st) (t, r) of None \<Rightarrow> ''running'' | Some s \<Rightarrow> s)"
proof -
  have "map_of (map (\<lambda>x. (rkey x, rr_status x)) xs) (t, r) = map_option rr_status (find (is_round t r) xs)" for xs
    by (induction xs) (auto simp: is_round_def rkey_def)
  then show ?thesis by (simp add: round_status_def find_round_def round_stats_def split: option.split)
qed

lemma active_round_stats:
  assumes "((t, r), s) \<in> set (round_stats st)" "s \<noteq> ''superseded''" "\<And>r' s'. ((t, r'), s') \<in> set (round_stats st) \<Longrightarrow> r' \<le> r"
  shows "active_round_id st t fb = r"
proof -
  let ?xs = "filter (\<lambda>x. rr_team_run_id x = t \<and> rr_status x \<noteq> ''superseded'') (lc_rounds st)"
  obtain x where x: "x \<in> set ?xs" "rr_round_id x = r" using assms(1,2) by (auto simp: round_stats_def rkey_def)
  have "?xs \<noteq> []" using x(1) by (metis empty_iff empty_set)
  then have "first_row (order_desc rr_round_id ?xs) \<noteq> None" by simp
  then obtain y where y: "first_row (order_desc rr_round_id ?xs) = Some y" by blast
  note m = first_order_desc_max [OF y]
  have "rr_round_id y \<le> r" using m assms(3) [of "rr_round_id y" "rr_status y"] by (auto simp: round_stats_def rkey_def image_iff)
  moreover have "r \<le> rr_round_id y" using m x by blast
  ultimately show ?thesis by (simp add: active_round_id_def y)
qed

lemma upd_round_stats:
  "(\<And>x. rkey (f x) = rkey x) \<Longrightarrow> (\<And>x. rr_status (f x) = rr_status x) \<Longrightarrow> round_stats (upd_round t r f st) = round_stats st"
  by (simp add: round_stats_def upd_round_def map_upd_rows rkey_def)

lemma ensure_round_stats:
  "round_stats (ensure_round t r k a st) =
     round_stats st @ (if (t, r) \<in> fst ` set (round_stats st) then [] else [((t, r), ''running'')])"
proof -
  have "(t, r) \<in> fst ` set (round_stats st) \<longleftrightarrow> find_round st t r \<noteq> None"
    by (auto simp: round_stats_def find_round_def find_None_iff rkey_def is_round_def image_iff)
  then show ?thesis
    by (auto simp: ensure_round_def upd_round_stats rkey_def) (simp_all add: round_stats_def rkey_def)
qed

lemma attempt_writes_rounds:
  "lc_rounds (insert_attempt t r role n s c u st) = lc_rounds st" "lc_rounds (update_attempt_row t r role row u st) = lc_rounds st"
  "lc_rounds (write_execution m s pm act i st) = lc_rounds st"
  by (simp_all add: insert_attempt_def update_attempt_row_def upd_attempt_def write_execution_def)

lemma stats_frame:
  "round_stats (st\<lparr>lc_attempts := as\<rparr>) = round_stats st" "round_stats (st\<lparr>tm_runs := rs, tm_jobs := js\<rparr>) = round_stats st"
  "attempt_stats (upd_round t r f st) = attempt_stats st" "attempt_stats (ensure_round t r k a st) = attempt_stats st"
  "attempt_stats (st\<lparr>tm_runs := rs, tm_jobs := js\<rparr>) = attempt_stats st"
  by (simp_all add: round_stats_def attempt_stats_def upd_round_def ensure_round_def)

lemma latest_attempt_none: "latest_attempt_row st t r role = None \<longleftrightarrow> (\<forall>n s. ((t, r, role, n), s) \<notin> set (attempt_stats st))"
  by (auto simp: latest_attempt_row_None attempt_stats_def is_attempt_def image_iff)

lemma ensure_first_attempt:
  assumes "\<forall>n s. ((t, r, role, n), s) \<notin> set (attempt_stats st)"
  shows "attempt_stats (ensure_attempt t r role status u st) = attempt_stats st @ [((t, r, role, 1), status)]"
    "round_stats (ensure_attempt t r role status u st) = round_stats (ensure_round t r ''backfill'' None st)"
proof -
  have none: "latest_attempt_row (ensure_round t r ''backfill'' None st) t r role = None"
    using assms by (simp add: latest_attempt_none stats_frame)
  then show "attempt_stats (ensure_attempt t r role status u st) = attempt_stats st @ [((t, r, role, 1), status)]"
    unfolding ensure_attempt_def Let_def by (simp add: insert_attempt_def attempt_stats_def) (simp add: ensure_round_def upd_round_def)
  show "round_stats (ensure_attempt t r role status u st) = round_stats (ensure_round t r ''backfill'' None st)"
    using none unfolding ensure_attempt_def Let_def by (simp add: insert_attempt_def round_stats_def)
qed

lemma set_attempt_execution_stats:
  assumes "((t, r, role, n), s) \<in> set (attempt_stats st)"
  shows "attempt_stats (set_attempt_execution t r role m str pm act st) = attempt_stats st"
    "round_stats (set_attempt_execution t r role m str pm act st) = round_stats st"
proof -
  obtain a where "latest_attempt_row st t r role = Some a"
    using assms latest_attempt_none [of st t r role] by (cases "latest_attempt_row st t r role") auto
  then show "attempt_stats (set_attempt_execution t r role m str pm act st) = attempt_stats st"
    "round_stats (set_attempt_execution t r role m str pm act st) = round_stats st"
    by (simp_all add: set_attempt_execution_def Let_def write_execution_def upd_attempt_def attempt_stats_def round_stats_def map_upd_rows)
qed

lemma sync_stats:
  "attempt_stats (sync_legacy_projection p t st) = attempt_stats st" "round_stats (sync_legacy_projection p t st) = round_stats st"
proof -
  have job: "lc_rounds (sync_job p s as j st) = lc_rounds st \<and> lc_attempts (sync_job p s as j st) = lc_attempts st" for p s as j st
    by (simp add: sync_job_def Let_def update_team_agent_job_status_def)
  have "lc_rounds (fold (sync_job p s as) js st) = lc_rounds st \<and> lc_attempts (fold (sync_job p s as) js st) = lc_attempts st" for p s as js st
    by (induction js arbitrary: st) (simp_all add: job)
  then show "attempt_stats (sync_legacy_projection p t st) = attempt_stats st" "round_stats (sync_legacy_projection p t st) = round_stats st"
    by (simp_all add: attempt_stats_def round_stats_def sync_legacy_projection_def Let_def set_run_status_if_changed_def
        update_team_run_status_def split: option.split)
qed

lemma supersede_stats:
  "round_stats (supersede_rounds w t st) = map (\<lambda>(k, s). (k, if fst k = t \<and> w (snd k) \<and>
      s \<notin> {''completed'', ''failed'', ''interrupted'', ''superseded''} then ''superseded'' else s)) (round_stats st)"
  "attempt_stats (supersede_rounds w t st) = map (\<lambda>(k, s). (k, if fst k = t \<and> w (fst (snd k)) \<and>
      s \<notin> {''passed'', ''failed'', ''interrupted'', ''superseded''} then ''superseded'' else s)) (attempt_stats st)"
  by (simp_all add: supersede_rounds_def round_stats_def attempt_stats_def upd_rows_def rkey_def)

lemma set_round_execution_stats:
  assumes "(t, r) \<in> fst ` set (round_stats st)"
  shows "round_stats (set_round_execution t r m g s w st) = round_stats st" "attempt_stats (set_round_execution t r m g s w st) = attempt_stats st"
  using assms by (simp_all add: set_round_execution_def upd_round_stats ensure_round_stats rkey_def stats_frame)

lemma open_next_round_stats:
  assumes "(t, current + 1) \<notin> fst ` set (round_stats st)" "\<forall>role n s. ((t, current + 1, role, n), s) \<notin> set (attempt_stats st)"
  shows "round_stats (open_next_round t current art st) =
      round_stats (supersede_rounds (\<lambda>i. i = current) t st) @ [((t, current + 1), ''running'')]"
    "attempt_stats (open_next_round t current art st) =
      attempt_stats (supersede_rounds (\<lambda>i. i = current) t st) @ [((t, current + 1, ''director'', 1), ''queued'')]"
proof -
  let ?r = "current + 1" and ?x = "round_execution st t current"
  let ?s0 = "supersede_rounds (\<lambda>i. i = current) t st"
  let ?s1 = "ensure_round t ?r ''user_followup'' art ?s0"
  let ?s2 = "set_round_execution t ?r (rx_execution_mode ?x) (rx_execution_goal ?x) (rx_execution_strategy ?x) (rx_waiting_reason ?x) ?s1"
  let ?s3 = "ensure_attempt t ?r ''director'' ''queued'' no_update ?s2"
  have "fst ` set (round_stats ?s0) = fst ` set (round_stats st)" by (force simp: supersede_stats image_iff)
  then have r1: "round_stats ?s1 = round_stats ?s0 @ [((t, ?r), ''running'')]" using assms(1) by (simp add: ensure_round_stats)
  then have in1: "(t, ?r) \<in> fst ` set (round_stats ?s1)" by simp
  note s2 = set_round_execution_stats [OF in1]
  have a2: "\<forall>n s. ((t, ?r, ''director'', n), s) \<notin> set (attempt_stats ?s2)"
    using assms(2) by (auto simp: s2 stats_frame supersede_stats)
  note s3 = ensure_first_attempt [OF a2, of "''queued''" no_update]
  have "round_stats (ensure_round t ?r ''backfill'' None ?s2) = round_stats ?s1"
    using in1 by (simp add: ensure_round_stats [of t ?r "''backfill''" None] s2)
  then have r3: "round_stats ?s3 = round_stats ?s1" using s3(2) by simp
  have a3: "attempt_stats ?s3 = attempt_stats ?s0 @ [((t, ?r, ''director'', 1), ''queued'')]"
    using s3(1) by (simp add: s2 stats_frame)
  then have "((t, ?r, ''director'', 1), ''queued'') \<in> set (attempt_stats ?s3)" by simp
  note s4 = set_attempt_execution_stats [OF this]
  show "round_stats (open_next_round t current art st) = round_stats ?s0 @ [((t, ?r), ''running'')]"
    unfolding open_next_round_def Let_def by (simp add: sync_stats s4 r3 r1)
  show "attempt_stats (open_next_round t current art st) = attempt_stats ?s0 @ [((t, ?r, ''director'', 1), ''queued'')]"
    unfolding open_next_round_def Let_def by (simp add: sync_stats s4 a3)
qed

text \<open>A follow-up opens exactly the next round: it becomes the active one and runs, the director is queued in it, and whatever was still
  open in the round before is superseded, in the rounds and in the attempts.\<close>

theorem followup_opens_round:
  assumes "\<forall>x \<in> set (lc_rounds st). rr_team_run_id x = t \<longrightarrow> rr_round_id x \<le> current"
    and "\<forall>a \<in> set (lc_attempts st). at_team_run_id a = t \<longrightarrow> at_round_id a \<le> current"
  shows "active_round_id (open_next_round t current art st) t 1 = current + 1 \<and>
    round_status (open_next_round t current art st) t (current + 1) = ''running'' \<and>
    (\<exists>a. latest_attempt_row (open_next_round t current art st) t (current + 1) ''director'' = Some a \<and> at_status a = ''queued'') \<and>
    (\<forall>x \<in> set (lc_rounds (open_next_round t current art st)). is_round t current x \<longrightarrow>
       rr_status x \<in> {''completed'', ''failed'', ''interrupted'', ''superseded''}) \<and>
    (\<forall>a \<in> set (lc_attempts (open_next_round t current art st)). at_team_run_id a = t \<and> at_round_id a = current \<longrightarrow>
       at_status a \<in> {''passed'', ''failed'', ''interrupted'', ''superseded''})"
proof -
  let ?st = "open_next_round t current art st" and ?s0 = "supersede_rounds (\<lambda>i. i = current) t st"
  have le: "r \<le> current" if "((t, r), s) \<in> set (round_stats st)" for r s
    using that assms(1) by (auto simp: round_stats_def rkey_def)
  have ale: "r \<le> current" if "((t, r, role, n), s) \<in> set (attempt_stats st)" for r role n s
    using that assms(2) by (auto simp: attempt_stats_def)
  have new: "(t, current + 1) \<notin> fst ` set (round_stats st)" "\<forall>role n s. ((t, current + 1, role, n), s) \<notin> set (attempt_stats st)"
    using le [of "current + 1"] ale [of "current + 1"] by force+
  note stats = open_next_round_stats [OF new, of art]
  have le0: "r \<le> current" if "((t, r), s) \<in> set (round_stats ?s0)" for r s
    using that le by (auto simp: supersede_stats)
  have "active_round_id ?st t 1 = current + 1"
    by (rule active_round_stats [where s = "''running''"]) (auto simp: stats dest: le0)
  moreover have "round_status ?st t (current + 1) = ''running''"
  proof -
    have "map_of (round_stats ?s0) (t, current + 1) = None" using le0 [of "current + 1"] by (force simp: map_of_eq_None_iff)
    then show ?thesis by (simp add: round_status_stats stats map_add_def)
  qed
  moreover have "\<exists>a. latest_attempt_row ?st t (current + 1) ''director'' = Some a \<and> at_status a = ''queued''"
  proof -
    have "((t, current + 1, ''director'', 1), ''queued'') \<in> set (attempt_stats ?st)" by (simp add: stats)
    then obtain a where a: "latest_attempt_row ?st t (current + 1) ''director'' = Some a"
      using latest_attempt_none [of ?st t "current + 1" "''director''"] by (cases "latest_attempt_row ?st t (current + 1) ''director''") auto
    have "((t, current + 1, ''director'', at_attempt_no a), at_status a) \<in> set (attempt_stats ?st)"
      using latest_attempt_row_Some [OF a] by (force simp: attempt_stats_def is_attempt_def)
    then have "at_status a = ''queued''" using ale [of "current + 1"] by (auto simp: stats supersede_stats)
    then show ?thesis using a by blast
  qed
  moreover have "rr_status x \<in> {''completed'', ''failed'', ''interrupted'', ''superseded''}"
    if "x \<in> set (lc_rounds ?st)" "is_round t current x" for x
  proof -
    have "((t, current), rr_status x) \<in> set (round_stats ?st)" using that by (force simp: round_stats_def rkey_def is_round_def)
    then show ?thesis by (auto simp: stats supersede_stats split: if_splits)
  qed
  moreover have "at_status a \<in> {''passed'', ''failed'', ''interrupted'', ''superseded''}"
    if "a \<in> set (lc_attempts ?st)" "at_team_run_id a = t \<and> at_round_id a = current" for a
  proof -
    have "((t, current, at_role a, at_attempt_no a), at_status a) \<in> set (attempt_stats ?st)" using that by (force simp: attempt_stats_def)
    then show ?thesis by (auto simp: stats supersede_stats split: if_splits)
  qed
  ultimately show ?thesis by blast
qed

theorem followup_opens_round_witness:
  "active_round_id (open_next_round 1 1 None demo_round) 1 1 = 2 \<and> round_status (open_next_round 1 1 None demo_round) 1 2 = ''running''"
proof -
  have "list_all (\<lambda>x. rr_team_run_id x = 1 \<longrightarrow> rr_round_id x \<le> 1) (lc_rounds demo_round)"
    "list_all (\<lambda>a. at_team_run_id a = 1 \<longrightarrow> at_round_id a \<le> 1) (lc_attempts demo_round)" by code_simp+
  then show ?thesis using followup_opens_round [of demo_round 1 1 None] by (simp add: list_all_iff)
qed

end
