(* ===== verification/Command_Router.thy ===== *)
theory Command_Router
  imports Py_Data
begin

text \<open>
  \<^verbatim>\<open>wlcodex/router.py\<close>: the chat commands and their parser, in the order of the code. The usage texts are values of
  \<open>command_error\<close>; a \<open>ValueError\<close> that is not a \<open>ParseError\<close> is \<open>BadNumber\<close>. The quotation marks, the colon and the verb that lie
  outside the modelled characters have no counterpart, and the interpreter's limit on the number of digits \<open>int\<close> reads is left out.
\<close>

section \<open>Commands\<close>

datatype parsed_command =
    HelpCommand
  | HealthCommand
  | CodexSessionsCommand
  | StartTaskCommand (workspace_alias: string) (start_prompt: string)
  | ShowTaskCommand nat
  | ContinueCommand nat string
  | SteerCommand nat string
  | ListTasksCommand int
  | StatusCommand
  | TraceCommand int
  | TailCommand nat
  | EventsCommand nat
  | DiffCommand "nat option"
  | FilesCommand "nat option"
  | PauseCommand nat
  | AbortCommand nat
  | ArchiveCommand nat
  | ForkCommand nat string
  | NewConversationCommand string
  | CodexDirectCommand string
  | ClaudeDirectCommand string
  | ClaudePermissionCommand string
  | AutoModeCommand string
  | StopCurrentCommand
  | SwitchWorkspaceCommand string
  | ModelCommand string
  | ExecModeCommand string
  | VerifyCommand string
  | ModeSwitchCommand string string
  | TerminalSubCommand string "int option" "int option"
  | SettingsCommand
  | WorkbenchHistoryCommand
  | WorkspaceListCommand
  | WorkspaceStatusCommand
  | CarryWorkbenchCommand string

datatype command_error =
    UnknownCommand
  | Usage string
  | BadNumber string

type_synonym parse_result = "command_error + parsed_command"

section \<open>Pieces of text\<close>

text \<open>\<open>s.split(maxsplit=n)\<close>: the rest after \<open>n\<close> words keeps its inner and trailing space.\<close>

fun split_max :: "nat \<Rightarrow> string \<Rightarrow> string list" where
  "split_max n s =
     (case lstrip s of
        [] \<Rightarrow> []
      | c # cs \<Rightarrow> (case n of
          0 \<Rightarrow> [c # cs]
        | Suc m \<Rightarrow> takeWhile (\<lambda>x. \<not> py_isspace x) (c # cs) # split_max m (dropWhile (\<lambda>x. \<not> py_isspace x) (c # cs))))"

declare split_max.simps [simp del]

definition removeprefix :: "string \<Rightarrow> string \<Rightarrow> string" where
  "removeprefix p s = (if startswith s p then drop (length p) s else s)"

definition parse_task_id :: "string \<Rightarrow> command_error + nat option" where
  "parse_task_id v =
     (let cleaned = removeprefix ''#'' (strip v) in
      if cleaned = [] \<or> \<not> list_all py_digit_char cleaned then Inr None
      else case py_int_of_string cleaned of None \<Rightarrow> Inl (BadNumber cleaned) | Some i \<Rightarrow> Inr (Some (nat i)))"

definition parse_positive_int :: "string \<Rightarrow> int option" where
  "parse_positive_int v = (case py_int_of_string v of None \<Rightarrow> None | Some i \<Rightarrow> if i > 0 then Some i else None)"

text \<open>\<open>stripped.split(maxsplit=1)[1].strip()\<close> of a text that starts with a verb and a space and ends in no space.\<close>

definition argument :: "string \<Rightarrow> string" where
  "argument s = (case split_max 1 s of _ # x # _ \<Rightarrow> strip x | _ \<Rightarrow> [])"

definition takes :: "string \<Rightarrow> string \<Rightarrow> bool" where
  "takes s verb = startswith s (verb @ '' '')"

section \<open>Prompts\<close>

definition prompt_quote_pairs :: "(char \<times> char) list" where
  "prompt_quote_pairs = [(char_of (34::nat), char_of (34::nat)), (char_of (39::nat), char_of (39::nat))]"

definition strip_wrapping_prompt_quotes :: "string \<Rightarrow> string" where
  "strip_wrapping_prompt_quotes p =
     (case p of
        [] \<Rightarrow> []
      | c # cs \<Rightarrow> (case map_of prompt_quote_pairs c of
          None \<Rightarrow> p
        | Some closing \<Rightarrow> if endswith p [closing] then strip (butlast cs) else strip cs))"

definition prompt_after_verb :: "string \<Rightarrow> string \<Rightarrow> command_error + string option" where
  "prompt_after_verb s verb =
     (if s = verb then Inl (Usage (verb @ '' <prompt>''))
      else if \<not> startswith s verb then Inr None
      else case drop (length verb) s of
        [] \<Rightarrow> Inl (Usage (verb @ '' <prompt>''))
      | c # cs \<Rightarrow>
          let found = (if py_isspace c then Some (strip (c # cs))
                       else if c = CHR '':'' then Some (strip cs)
                       else if c \<in> fst ` set prompt_quote_pairs then Some (strip_wrapping_prompt_quotes (strip (c # cs)))
                       else None) in
          (case found of
             None \<Rightarrow> Inr None
           | Some p \<Rightarrow> if p = [] then Inl (Usage (verb @ '' <prompt>'')) else Inr (Some p)))"

section \<open>Commands with task ids\<close>

definition parse_task_id_only :: "string \<Rightarrow> string \<Rightarrow> (nat \<Rightarrow> parsed_command) \<Rightarrow> parse_result" where
  "parse_task_id_only s verb cls =
     (case split_max 1 s of
        _ # x # _ \<Rightarrow> bindE (parse_task_id x) (\<lambda>i.
          case i of None \<Rightarrow> Inl (Usage (verb @ '' <task_id>'')) | Some n \<Rightarrow> Inr (cls n))
      | _ \<Rightarrow> Inl (Usage (verb @ '' <task_id>'')))"

definition parse_task_id_prompt :: "string \<Rightarrow> string \<Rightarrow> (nat \<Rightarrow> string \<Rightarrow> parsed_command) \<Rightarrow> parse_result" where
  "parse_task_id_prompt s verb cls =
     (let bad = Inl (Usage (verb @ '' <task_id> <prompt>'')) in
      case split_max 2 s of
        _ # x # rest \<Rightarrow> bindE (parse_task_id x) (\<lambda>i.
          case (i, rest) of
            (Some n, p # _) \<Rightarrow> if strip p = [] then bad else Inr (cls n (strip p))
          | _ \<Rightarrow> bad)
      | _ \<Rightarrow> bad)"

definition parse_task :: "string \<Rightarrow> parse_result" where
  "parse_task s =
     (case split_max 2 s of
        [_, x] \<Rightarrow> bindE (parse_task_id x) (\<lambda>i.
          case i of Some n \<Rightarrow> Inr (ShowTaskCommand n)
                  | None \<Rightarrow> Inl (Usage ''/task <workspace> <prompt> | /task <task_id>''))
      | _ # x # p # _ \<Rightarrow> bindE (parse_task_id x) (\<lambda>_.
          if strip x = [] \<or> strip p = [] then Inl (Usage ''/task <workspace> <prompt>'')
          else Inr (StartTaskCommand (strip x) (strip p)))
      | _ \<Rightarrow> Inl (Usage ''/task <workspace> <prompt> | /task <task_id>''))"

section \<open>Terminal commands\<close>

definition parse_tail :: "string list \<Rightarrow> parsed_command" where
  "parse_tail args =
     (case args of
        [] \<Rightarrow> TerminalSubCommand ''tail'' None None
      | a # rest \<Rightarrow>
          if a = ''before'' \<and> rest \<noteq> [] then
            TerminalSubCommand ''tail'' (case rest of _ # l # _ \<Rightarrow> parse_positive_int l | _ \<Rightarrow> None) (parse_positive_int (hd rest))
          else TerminalSubCommand ''tail'' (parse_positive_int a) None)"

definition parse_terminal_command :: "string \<Rightarrow> parse_result" where
  "parse_terminal_command s =
     (let parts = split_ws s; arg = (case parts of _ # a # _ \<Rightarrow> a | _ \<Rightarrow> []) in
      if arg = ''agent'' then
        (case drop 2 parts of
           a # _ \<Rightarrow> if a \<in> {''claude'', ''codex''} then Inr (ModeSwitchCommand ''terminal'' a) else Inl (Usage ''/terminal agent <claude|codex>'')
         | [] \<Rightarrow> Inl (Usage ''/terminal agent <claude|codex>''))
      else if arg = ''claude'' \<or> arg = ''codex'' then Inr (ModeSwitchCommand ''terminal'' arg)
      else if arg = ''tail'' then Inr (parse_tail (drop 2 parts))
      else if arg = ''pause'' \<or> arg = ''detach'' then Inr (TerminalSubCommand arg None None)
      else if arg = ''product'' then Inr (ModeSwitchCommand ''product'' [])
      else Inl (Usage ''/terminal [claude|codex|agent claude|agent codex|tail|pause|detach|product]''))"

section \<open>The parser\<close>

definition fixed_commands :: "(string \<times> parsed_command) list" where
  "fixed_commands =
     [(''/start'', HelpCommand), (''/help'', HelpCommand), (''/health'', HealthCommand), (''/settings'', SettingsCommand),
      (''/tasks'', ListTasksCommand 20), (''/status'', StatusCommand), (''/trace'', TraceCommand 20),
      (''/codex-sessions'', CodexSessionsCommand), (''/sessions'', CodexSessionsCommand),
      (''/workbenches'', WorkbenchHistoryCommand), (''/history'', WorkbenchHistoryCommand),
      (''/workspace'', WorkspaceStatusCommand), (''/workspaces'', WorkspaceListCommand), (''/carry'', CarryWorkbenchCommand []),
      (''/mode'', ModeSwitchCommand [] []), (''/product'', ModeSwitchCommand ''product'' []),
      (''/terminal'', ModeSwitchCommand ''terminal'' []), (''/new'', NewConversationCommand [])]"

definition parse_trace :: "string \<Rightarrow> parse_result" where
  "parse_trace s =
     (if argument s = [] then Inr (TraceCommand 20)
      else case py_int_of_string (argument s) of
        None \<Rightarrow> Inl (Usage ''/trace [n]'') | Some l \<Rightarrow> Inr (TraceCommand (max 1 (min l 100))))"

definition required :: "string \<Rightarrow> string \<Rightarrow> (string \<Rightarrow> parsed_command) \<Rightarrow> parse_result" where
  "required s usage cls = (if argument s = [] then Inl (Usage usage) else Inr (cls (argument s)))"

definition single_arg :: "(string \<times> (nat \<Rightarrow> parsed_command)) list" where
  "single_arg = [(''/tail'', TailCommand), (''/events'', EventsCommand), (''/diff'', \<lambda>i. DiffCommand (Some i)),
     (''/files'', \<lambda>i. FilesCommand (Some i)), (''/pause'', PauseCommand), (''/abort'', AbortCommand), (''/archive'', ArchiveCommand)]"

definition permission_verbs :: "string list" where
  "permission_verbs = [''/claude_mode'', ''/claude_permission'', ''/claude-permission'']"

definition exec_mode_usage :: string where
  "exec_mode_usage = ''/exec_mode <orchestrated|codex_direct|claude_direct>''"

text \<open>The tail of the parser, after the \<open>/auto\<close> prompt.\<close>

definition parse_task_commands :: "string \<Rightarrow> parse_result" where
  "parse_task_commands s =
     (if takes s ''/task'' then parse_task s
      else if takes s ''/continue'' then parse_task_id_prompt s ''/continue'' ContinueCommand
      else if takes s ''/steer'' then parse_task_id_prompt s ''/steer'' SteerCommand
      else if takes s ''/fork'' then parse_task_id_prompt s ''/fork'' ForkCommand
      else if s = ''/diff'' then Inr (DiffCommand None)
      else if s = ''/files'' then Inr (FilesCommand None)
      else case find (\<lambda>(verb, cls). takes s verb) single_arg of
        None \<Rightarrow> Inl UnknownCommand
      | Some (verb, cls) \<Rightarrow> parse_task_id_only s verb cls)"

definition parse_control :: "string \<Rightarrow> parse_result" where
  "parse_control s =
     (if s = ''/stop'' \<or> takes s ''/stop'' then Inr StopCurrentCommand
      else if s = ''/switch'' then Inl (Usage ''/switch <workspace>'')
      else if takes s ''/switch'' then required s ''/switch <workspace>'' SwitchWorkspaceCommand
      else if s = ''/model'' then Inr (ModelCommand [])
      else if takes s ''/model'' then Inr (ModelCommand (argument s))
      else if s = ''/exec_mode'' then Inl (Usage exec_mode_usage)
      else if takes s ''/exec_mode'' then required s exec_mode_usage ExecModeCommand
      else if s = ''/verify'' then Inr (VerifyCommand [])
      else if takes s ''/verify'' then Inr (VerifyCommand (argument s))
      else parse_task_commands s)"

definition parse_direct :: "string \<Rightarrow> parse_result" where
  "parse_direct s =
     (if takes s ''/codex'' then required s ''/codex <prompt>'' CodexDirectCommand
      else if takes s ''/claude'' then required s ''/claude <prompt>'' ClaudeDirectCommand
      else case find (\<lambda>verb. s = verb \<or> takes s verb) permission_verbs of
        Some verb \<Rightarrow> Inr (ClaudePermissionCommand (if s = verb then [] else argument s))
      | None \<Rightarrow> bindE (prompt_after_verb s ''/auto'') (\<lambda>p.
          case p of Some prompt \<Rightarrow> Inr (AutoModeCommand prompt) | None \<Rightarrow> parse_control s))"

definition parse_command :: "string \<Rightarrow> parse_result" where
  "parse_command txt =
     (let s = strip txt in
      case map_of fixed_commands s of
        Some c \<Rightarrow> Inr c
      | None \<Rightarrow>
          if takes s ''/settings'' then Inr SettingsCommand
          else if takes s ''/trace'' then parse_trace s
          else if takes s ''/carry'' then Inr (CarryWorkbenchCommand (argument s))
          else if takes s ''/terminal'' then parse_terminal_command s
          else if takes s ''/new'' then Inr (NewConversationCommand (argument s))
          else parse_direct s)"

end
