(* ===== verification/Command_Router_Properties.thy ===== *)
theory Command_Router_Properties
  imports Command_Router
begin

text \<open>
  The command parser: every command has a text that parses back to it, what is parsed is clean, and what can go
  wrong.
\<close>

section \<open>Words and arguments\<close>

lemma strip_ends: "s \<noteq> [] \<Longrightarrow> \<not> py_isspace (hd s) \<Longrightarrow> \<not> py_isspace (last s) \<Longrightarrow> strip s = s"
proof -
  assume a: "s \<noteq> []" "\<not> py_isspace (hd s)" "\<not> py_isspace (last s)"
  have "lstrip s = s" using a by (cases s) (simp_all add: lstrip_def)
  moreover have "rstrip s = s" using a by (cases s rule: rev_cases) (simp_all add: rstrip_snoc)
  ultimately show ?thesis by (simp add: strip_def)
qed

definition clean :: "string \<Rightarrow> bool" where
  "clean p \<longleftrightarrow> p \<noteq> [] \<and> \<not> py_isspace (hd p) \<and> \<not> py_isspace (last p)"

lemma clean_strip: "strip s \<noteq> [] \<Longrightarrow> clean (strip s)"
proof -
  assume ne: "strip s \<noteq> []"
  have "\<not> py_isspace (last (rstrip t))" if "rstrip t \<noteq> []" for t
    using that unfolding rstrip_def by (metis hd_dropWhile last_rev rev_is_Nil_conv)
  then have "\<not> py_isspace (last (strip s))" using ne unfolding strip_def by blast
  moreover have "\<not> py_isspace (hd (strip s))"
  proof -
    have "strip s = lstrip (rstrip s)" by (simp add: strip_def lstrip_rstrip)
    then show ?thesis using ne unfolding lstrip_def by (metis hd_dropWhile)
  qed
  ultimately show ?thesis using ne by (simp add: clean_def)
qed

lemma strip_clean [simp]: "clean p \<Longrightarrow> strip p = p"
  by (simp add: clean_def strip_ends)

lemma space_char [simp]: "py_isspace (CHR '' '')"
  by (simp add: py_isspace_def code_point_def)

lemma split_max_space: "split_max n (CHR '' '' # s) = split_max n s"
  by (simp add: split_max.simps [of n "CHR '' '' # s"] split_max.simps [of n s] lstrip_def)

lemma split_max_rest: "clean p \<Longrightarrow> split_max 0 p = [p]"
  by (cases p) (simp_all add: split_max.simps [of 0] clean_def lstrip_def)

lemma split_max_word:
  assumes "w \<noteq> []" "\<forall>c \<in> set w. \<not> py_isspace c"
  shows "split_max (Suc n) (w @ CHR '' '' # s) = w # split_max n s"
proof -
  obtain c cs where w: "w = c # cs" using assms(1) by (cases w) auto
  have "takeWhile (\<lambda>x. \<not> py_isspace x) (w @ CHR '' '' # s) = w" "dropWhile (\<lambda>x. \<not> py_isspace x) (w @ CHR '' '' # s) = CHR '' '' # s"
    using assms(2) by (simp_all add: takeWhile_append dropWhile_append)
  moreover have "lstrip (w @ CHR '' '' # s) = w @ CHR '' '' # s" using assms(2) by (simp add: w lstrip_def)
  ultimately show ?thesis using w by (simp add: split_max.simps [of "Suc n"] split_max_space)
qed

lemma split_max_last:
  assumes "w \<noteq> []" "\<forall>c \<in> set w. \<not> py_isspace c"
  shows "split_max (Suc n) w = [w]"
proof -
  obtain c cs where w: "w = c # cs" using assms(1) by (cases w) auto
  have "takeWhile (\<lambda>x. \<not> py_isspace x) w = w" "dropWhile (\<lambda>x. \<not> py_isspace x) w = []"
    using assms(2) by (simp_all add: takeWhile_eq_all_conv)
  moreover have "lstrip w = w" using assms(2) by (simp add: w lstrip_def)
  moreover have "split_max n [] = []" by (simp add: split_max.simps [of n] lstrip_def)
  ultimately show ?thesis using w by (subst split_max.simps) simp
qed

definition verb_word :: "string \<Rightarrow> bool" where
  "verb_word v \<longleftrightarrow> v \<noteq> [] \<and> list_all (\<lambda>c. \<not> py_isspace c) v"

lemma strip_command: "verb_word v \<Longrightarrow> clean p \<Longrightarrow> strip (v @ CHR '' '' # p) = v @ CHR '' '' # p"
  by (rule strip_ends) (simp_all add: verb_word_def clean_def list_all_iff hd_append)

lemma argument_command: "verb_word v \<Longrightarrow> clean p \<Longrightarrow> argument (v @ CHR '' '' # p) = p"
  by (simp add: argument_def verb_word_def list_all_iff split_max_word split_max_rest One_nat_def del: One_nat_def)
    (simp add: split_max_word split_max_rest One_nat_def)

lemma nat_str_word: "verb_word (nat_str n)" "clean (nat_str n)"
proof -
  have s: "\<not> py_isspace c" if "c \<in> set (nat_str n)" for c using that nat_str_digits digit_not_space by blast
  then show "verb_word (nat_str n)" by (auto simp: verb_word_def list_all_iff)
  show "clean (nat_str n)" using s by (simp add: clean_def)
qed

lemma int_of_nat_str: "py_int_of_string (nat_str n) = Some (int n)"
  using py_int_of_int_str [of "int n"] by (simp add: int_str_def)

lemma parse_task_id_nat: "parse_task_id (nat_str n) = Inr (Some n)"
proof -
  have "list_all py_digit_char (nat_str n)" using nat_str_digits by (auto simp: list_all_iff py_digit_char_def)
  moreover have "removeprefix ''#'' (nat_str n) = nat_str n"
  proof (cases "nat_str n")
    case (Cons c cs)
    then have "is_digit c" using nat_str_digits by (metis list.set_intros(1))
    then have "c \<noteq> CHR ''#''" by (auto simp: is_digit_def code_point_def)
    then show ?thesis by (simp add: Cons removeprefix_def startswith_def)
  qed simp
  ultimately show ?thesis by (simp add: parse_task_id_def nat_str_word int_of_nat_str)
qed

section \<open>Dispatch\<close>

lemma not_fixed: "py_isspace c \<Longrightarrow> c \<in> set s \<Longrightarrow> map_of fixed_commands s = None"
proof -
  assume c: "py_isspace c" "c \<in> set s"
  have "list_all (\<lambda>(k, v). list_all (\<lambda>x. \<not> py_isspace x) k) fixed_commands" by code_simp
  then have "s \<notin> fst ` set fixed_commands" using c by (auto simp: list_all_iff)
  then show ?thesis by (simp add: map_of_eq_None_iff)
qed

lemma takes_verb: "takes (v @ CHR '' '' # p) w \<longleftrightarrow> v = w" if "verb_word v" "verb_word w"
proof
  assume "takes (v @ CHR '' '' # p) w"
  then obtain t where t: "v @ CHR '' '' # p = w @ CHR '' '' # t" by (auto simp: takes_def startswith_iff)
  have "takeWhile (\<lambda>x. \<not> py_isspace x) (v @ CHR '' '' # p) = v" "takeWhile (\<lambda>x. \<not> py_isspace x) (w @ CHR '' '' # t) = w"
    using that by (simp_all add: verb_word_def list_all_iff takeWhile_append)
  then show "v = w" using t by simp
qed (simp add: takes_def startswith_iff)

lemma command_start:
  assumes "verb_word v" "clean p"
  shows "parse_command (v @ CHR '' '' # p) =
    (let s = v @ CHR '' '' # p in
     if v = ''/settings'' then Inr SettingsCommand else if v = ''/trace'' then parse_trace s
     else if v = ''/carry'' then Inr (CarryWorkbenchCommand p) else if v = ''/terminal'' then parse_terminal_command s
     else if v = ''/new'' then Inr (NewConversationCommand p) else parse_direct s)"
proof -
  have w: "verb_word ''/settings''" "verb_word ''/trace''" "verb_word ''/carry''" "verb_word ''/terminal''" "verb_word ''/new''"
    by code_simp+
  have "map_of fixed_commands (v @ CHR '' '' # p) = None" by (rule not_fixed [of "CHR '' ''"]) simp_all
  then show ?thesis
    by (simp only: parse_command_def Let_def strip_command [OF assms] takes_verb [OF assms(1)] w argument_command [OF assms] option.case)
qed

lemma not_bare: "verb_word w \<Longrightarrow> v @ CHR '' '' # p \<noteq> w"
proof
  assume "verb_word w" "v @ CHR '' '' # p = w"
  then have "CHR '' '' \<in> set w" by auto
  then show False using \<open>verb_word w\<close> by (auto simp: verb_word_def list_all_iff)
qed

lemma find_verb:
  assumes "verb_word v" "\<forall>(w, f) \<in> set vs. verb_word w"
  shows "find (\<lambda>(w, f). takes (v @ CHR '' '' # p) w) vs = map_option (\<lambda>f. (v, f)) (map_of vs v)"
  using assms(2) by (induction vs) (auto simp: takes_verb [OF assms(1)])

lemma permission_words: "w \<in> set permission_verbs \<Longrightarrow> verb_word w"
proof -
  have "list_all verb_word permission_verbs" by code_simp
  then show "w \<in> set permission_verbs \<Longrightarrow> verb_word w" by (simp add: list_all_iff)
qed

lemma direct_start:
  assumes "verb_word v" "clean p"
  shows "parse_direct (v @ CHR '' '' # p) =
    (if v = ''/codex'' then Inr (CodexDirectCommand p) else if v = ''/claude'' then Inr (ClaudeDirectCommand p)
     else if v \<in> set permission_verbs then Inr (ClaudePermissionCommand p)
     else bindE (prompt_after_verb (v @ CHR '' '' # p) ''/auto'') (\<lambda>q.
       case q of Some prompt \<Rightarrow> Inr (AutoModeCommand prompt) | None \<Rightarrow> parse_control (v @ CHR '' '' # p)))"
proof -
  have w: "verb_word ''/codex''" "verb_word ''/claude''" by code_simp+
  have "find (\<lambda>w. v @ CHR '' '' # p = w \<or> takes (v @ CHR '' '' # p) w) ws = (if v \<in> set ws then Some v else None)"
    if "\<And>w. w \<in> set ws \<Longrightarrow> verb_word w" for ws
    using that by (induction ws) (auto simp: takes_verb [OF assms(1)] dest: not_bare)
  from this [of permission_verbs, OF permission_words] have "find (\<lambda>w. v @ CHR '' '' # p = w \<or> takes (v @ CHR '' '' # p) w) permission_verbs =
      (if v \<in> set permission_verbs then Some v else None)" by blast
  moreover have "p \<noteq> []" using assms(2) by (simp add: clean_def)
  moreover have "v @ CHR '' '' # p \<noteq> v" by simp
  ultimately show ?thesis
    by (simp only: parse_direct_def takes_verb [OF assms(1)] w required_def argument_command [OF assms] if_False if_True option.case
        split: if_split) simp
qed

lemma control_start:
  assumes "verb_word v" "clean p"
  shows "parse_control (v @ CHR '' '' # p) =
    (if v = ''/stop'' then Inr StopCurrentCommand else if v = ''/switch'' then Inr (SwitchWorkspaceCommand p)
     else if v = ''/model'' then Inr (ModelCommand p) else if v = ''/exec_mode'' then Inr (ExecModeCommand p)
     else if v = ''/verify'' then Inr (VerifyCommand p) else if v = ''/task'' then parse_task (v @ CHR '' '' # p)
     else if v = ''/continue'' then parse_task_id_prompt (v @ CHR '' '' # p) v ContinueCommand
     else if v = ''/steer'' then parse_task_id_prompt (v @ CHR '' '' # p) v SteerCommand
     else if v = ''/fork'' then parse_task_id_prompt (v @ CHR '' '' # p) v ForkCommand
     else case map_of single_arg v of None \<Rightarrow> Inl UnknownCommand | Some cls \<Rightarrow> parse_task_id_only (v @ CHR '' '' # p) v cls)"
proof -
  have w: "verb_word ''/stop''" "verb_word ''/switch''" "verb_word ''/model''" "verb_word ''/exec_mode''" "verb_word ''/verify''"
    "verb_word ''/task''" "verb_word ''/continue''" "verb_word ''/steer''" "verb_word ''/fork''" "verb_word ''/diff''" "verb_word ''/files''"
    by code_simp+
  have "list_all (\<lambda>x. verb_word (fst x)) single_arg" by code_simp
  then have "\<forall>(w, f) \<in> set single_arg. verb_word w" by (auto simp: list_all_iff)
  note find = find_verb [OF assms(1) this]
  have task: "parse_task_commands (v @ CHR '' '' # p) =
    (if v = ''/task'' then parse_task (v @ CHR '' '' # p)
     else if v = ''/continue'' then parse_task_id_prompt (v @ CHR '' '' # p) v ContinueCommand
     else if v = ''/steer'' then parse_task_id_prompt (v @ CHR '' '' # p) v SteerCommand
     else if v = ''/fork'' then parse_task_id_prompt (v @ CHR '' '' # p) v ForkCommand
     else case map_of single_arg v of None \<Rightarrow> Inl UnknownCommand | Some cls \<Rightarrow> parse_task_id_only (v @ CHR '' '' # p) v cls)"
    unfolding parse_task_commands_def takes_verb [OF assms(1) w(6)] takes_verb [OF assms(1) w(7)] takes_verb [OF assms(1) w(8)]
      takes_verb [OF assms(1) w(9)] find
    by (auto simp: not_bare w split: option.split)
  show ?thesis using assms(2)
    unfolding parse_control_def task takes_verb [OF assms(1) w(1)] takes_verb [OF assms(1) w(2)] takes_verb [OF assms(1) w(3)]
      takes_verb [OF assms(1) w(4)] takes_verb [OF assms(1) w(5)] required_def argument_command [OF assms]
    by (simp add: not_bare w clean_def)
qed

section \<open>Canonical text\<close>

definition with_arg :: "string \<Rightarrow> string \<Rightarrow> string" where
  "with_arg v p = (if p = [] then v else v @ CHR '' '' # p)"

definition tail_text :: "int option \<Rightarrow> int option \<Rightarrow> string list" where
  "tail_text limit before =
     (case before of None \<Rightarrow> [] | Some b \<Rightarrow> [''before'', int_str b]) @ (case limit of None \<Rightarrow> [] | Some l \<Rightarrow> [int_str l])"

fun render :: "parsed_command \<Rightarrow> string" where
  "render HelpCommand = ''/help''"
| "render HealthCommand = ''/health''"
| "render CodexSessionsCommand = ''/sessions''"
| "render (StartTaskCommand w p) = ''/task'' @ CHR '' '' # w @ CHR '' '' # p"
| "render (ShowTaskCommand n) = ''/task'' @ CHR '' '' # nat_str n"
| "render (ContinueCommand n p) = ''/continue'' @ CHR '' '' # nat_str n @ CHR '' '' # p"
| "render (SteerCommand n p) = ''/steer'' @ CHR '' '' # nat_str n @ CHR '' '' # p"
| "render (ListTasksCommand l) = ''/tasks''"
| "render StatusCommand = ''/status''"
| "render (TraceCommand l) = ''/trace'' @ CHR '' '' # int_str l"
| "render (TailCommand n) = ''/tail'' @ CHR '' '' # nat_str n"
| "render (EventsCommand n) = ''/events'' @ CHR '' '' # nat_str n"
| "render (DiffCommand i) = (case i of None \<Rightarrow> ''/diff'' | Some n \<Rightarrow> ''/diff'' @ CHR '' '' # nat_str n)"
| "render (FilesCommand i) = (case i of None \<Rightarrow> ''/files'' | Some n \<Rightarrow> ''/files'' @ CHR '' '' # nat_str n)"
| "render (PauseCommand n) = ''/pause'' @ CHR '' '' # nat_str n"
| "render (AbortCommand n) = ''/abort'' @ CHR '' '' # nat_str n"
| "render (ArchiveCommand n) = ''/archive'' @ CHR '' '' # nat_str n"
| "render (ForkCommand n p) = ''/fork'' @ CHR '' '' # nat_str n @ CHR '' '' # p"
| "render (NewConversationCommand t) = with_arg ''/new'' t"
| "render (CodexDirectCommand p) = ''/codex'' @ CHR '' '' # p"
| "render (ClaudeDirectCommand p) = ''/claude'' @ CHR '' '' # p"
| "render (ClaudePermissionCommand m) = with_arg ''/claude_mode'' m"
| "render (AutoModeCommand p) = ''/auto'' @ CHR '' '' # p"
| "render StopCurrentCommand = ''/stop''"
| "render (SwitchWorkspaceCommand w) = ''/switch'' @ CHR '' '' # w"
| "render (ModelCommand m) = with_arg ''/model'' m"
| "render (ExecModeCommand m) = ''/exec_mode'' @ CHR '' '' # m"
| "render (VerifyCommand p) = with_arg ''/verify'' p"
| "render (ModeSwitchCommand m a) = (if m = [] then ''/mode'' else if m = ''product'' then ''/product'' else with_arg ''/terminal'' a)"
| "render (TerminalSubCommand c l b) =
     ''/terminal'' @ CHR '' '' # py_join '' '' (c # (if c = ''tail'' then tail_text l b else []))"
| "render SettingsCommand = ''/settings''"
| "render WorkbenchHistoryCommand = ''/history''"
| "render WorkspaceListCommand = ''/workspaces''"
| "render WorkspaceStatusCommand = ''/workspace''"
| "render (CarryWorkbenchCommand q) = with_arg ''/carry'' q"

definition positive :: "int option \<Rightarrow> bool" where
  "positive i = (case i of None \<Rightarrow> True | Some n \<Rightarrow> n > 0)"

text \<open>What a parsed command looks like: arguments without space around them, prompts that are there, limits in range.\<close>

fun command_wf :: "parsed_command \<Rightarrow> bool" where
  "command_wf (StartTaskCommand w p) = (verb_word w \<and> clean p \<and> (case parse_task_id w of Inl _ \<Rightarrow> False | Inr _ \<Rightarrow> True))"
| "command_wf (ContinueCommand n p) = clean p"
| "command_wf (SteerCommand n p) = clean p"
| "command_wf (ListTasksCommand l) = (l = 20)"
| "command_wf (TraceCommand l) = (1 \<le> l \<and> l \<le> 100)"
| "command_wf (ForkCommand n p) = clean p"
| "command_wf (NewConversationCommand t) = (t = [] \<or> clean t)"
| "command_wf (CodexDirectCommand p) = clean p"
| "command_wf (ClaudeDirectCommand p) = clean p"
| "command_wf (ClaudePermissionCommand m) = (m = [] \<or> clean m)"
| "command_wf (AutoModeCommand p) = clean p"
| "command_wf (SwitchWorkspaceCommand w) = clean w"
| "command_wf (ModelCommand m) = (m = [] \<or> clean m)"
| "command_wf (ExecModeCommand m) = clean m"
| "command_wf (VerifyCommand p) = (p = [] \<or> clean p)"
| "command_wf (ModeSwitchCommand m a) = (m \<in> {[], ''product''} \<and> a = [] \<or> m = ''terminal'' \<and> a \<in> {[], ''claude'', ''codex''})"
| "command_wf (TerminalSubCommand c l b) = (c \<in> {''pause'', ''detach''} \<and> l = None \<and> b = None \<or> c = ''tail'' \<and> positive l \<and> positive b)"
| "command_wf (CarryWorkbenchCommand q) = (q = [] \<or> clean q)"
| "command_wf _ = True"

definition result_wf :: "parse_result \<Rightarrow> bool" where
  "result_wf x = (case x of Inl _ \<Rightarrow> True | Inr c \<Rightarrow> command_wf c)"

lemma result_wf_if: "result_wf x \<Longrightarrow> result_wf y \<Longrightarrow> result_wf (if b then x else y)"
  by simp

lemma result_wf_cond: "(b \<Longrightarrow> result_wf x) \<Longrightarrow> result_wf y \<Longrightarrow> result_wf (if b then x else y)"
  by simp

lemma result_wf_simps: "result_wf (Inl e)" "result_wf (Inr c) = command_wf c"
  by (simp_all add: result_wf_def)

lemma argument_clean: "argument s = [] \<or> clean (argument s)"
  unfolding argument_def by (auto split: list.split intro: clean_strip)

lemma required_wf: "(\<And>p. clean p \<Longrightarrow> command_wf (cls p)) \<Longrightarrow> result_wf (required s u cls)"
  using argument_clean [of s] by (auto simp: required_def result_wf_simps)

lemma split_max_words: "w # ws = split_max (Suc n) s \<Longrightarrow> verb_word w"
proof -
  assume a: "w # ws = split_max (Suc n) s"
  then obtain c cs where c: "lstrip s = c # cs" by (cases "lstrip s") (simp_all add: split_max.simps [of "Suc n"])
  then have w: "w = takeWhile (\<lambda>x. \<not> py_isspace x) (c # cs)" using a by (simp add: split_max.simps [of "Suc n" s])
  have "\<not> py_isspace c" using c unfolding lstrip_def by (metis hd_dropWhile list.distinct(1) list.sel(1))
  then show ?thesis unfolding w verb_word_def list_all_iff by (auto dest: set_takeWhileD)
qed

lemma strip_word: "verb_word w \<Longrightarrow> strip w = w"
  by (rule not_space_strip) (auto simp: verb_word_def list_all_iff)

lemma parse_task_wf: "result_wf (parse_task s)"
proof (cases "split_max 2 s")
  case (Cons v ws)
  show ?thesis
  proof (cases ws)
    case (Cons w ps)
    then have "w # ps = split_max (Suc 0) (dropWhile (\<lambda>x. \<not> py_isspace x) (lstrip s))"
      using \<open>split_max 2 s = v # ws\<close> by (simp add: numeral_2_eq_2 split_max.simps [of "Suc (Suc 0)"] split: list.splits)
    from split_max_words [OF this] have w: "verb_word w" .
    then have "strip w = w" "w \<noteq> []" by (simp_all add: strip_word) (simp add: verb_word_def)
    then show ?thesis using w Cons \<open>split_max 2 s = v # ws\<close>
      by (cases "parse_task_id w") (auto simp: parse_task_def result_wf_simps clean_strip split: list.split option.split)
  qed (simp add: parse_task_def Cons result_wf_simps)
qed (simp add: parse_task_def result_wf_simps)

lemma parse_task_id_prompt_wf: "(\<And>n p. clean p \<Longrightarrow> command_wf (cls n p)) \<Longrightarrow> result_wf (parse_task_id_prompt s v cls)"
  unfolding parse_task_id_prompt_def Let_def
  by (auto simp: bindE_def result_wf_simps clean_strip split: list.split option.split sum.split)

lemma parse_task_id_only_wf: "(\<And>n. command_wf (cls n)) \<Longrightarrow> result_wf (parse_task_id_only s v cls)"
  unfolding parse_task_id_only_def by (auto simp: bindE_def result_wf_simps split: list.split option.split sum.split)

lemma parse_positive: "positive (parse_positive_int s)" "positive None"
  by (simp_all add: positive_def parse_positive_int_def split: option.split)

lemma parse_terminal_wf: "result_wf (parse_terminal_command s)"
proof -
  have "command_wf (parse_tail as)" for as
    by (cases as) (auto simp: parse_tail_def parse_positive split: list.split)
  then show ?thesis unfolding parse_terminal_command_def Let_def
    by (intro result_wf_cond) (auto simp: result_wf_simps split: list.split)
qed

lemma prompt_after_verb_clean: "prompt_after_verb s v = Inr (Some p) \<Longrightarrow> clean p"
proof -
  have q: "strip_wrapping_prompt_quotes (strip t) = [] \<or> clean (strip_wrapping_prompt_quotes (strip t))" for t
  proof (cases "strip t")
    case (Cons c cs)
    then have "clean (c # cs)" using clean_strip [of t] by simp
    then show ?thesis using clean_strip by (auto simp: Cons strip_wrapping_prompt_quotes_def split: option.split)
  qed (simp add: strip_wrapping_prompt_quotes_def)
  show "prompt_after_verb s v = Inr (Some p) \<Longrightarrow> clean p"
    using q clean_strip unfolding prompt_after_verb_def Let_def by (auto split: if_splits list.splits)
qed

lemma parse_task_commands_wf: "result_wf (parse_task_commands s)"
proof -
  have one: "result_wf (case find (\<lambda>(verb, cls). takes s verb) single_arg of
      None \<Rightarrow> Inl UnknownCommand | Some (verb, cls) \<Rightarrow> parse_task_id_only s verb cls)"
  proof (cases "find (\<lambda>(verb, cls). takes s verb) single_arg")
    case (Some x)
    then have "x \<in> set single_arg" using find_SomeD by fast
    then have "command_wf (snd x n)" for n by (auto simp: single_arg_def)
    then show ?thesis by (cases x) (simp add: Some parse_task_id_only_wf)
  qed (simp add: result_wf_simps)
  show ?thesis unfolding parse_task_commands_def
    by (intro result_wf_if parse_task_wf parse_task_id_prompt_wf one) (simp_all add: result_wf_simps)
qed

lemma parse_control_wf: "result_wf (parse_control s)"
  unfolding parse_control_def using argument_clean [of s]
  by (intro result_wf_if parse_task_commands_wf required_wf) (simp_all add: result_wf_simps)

lemma parse_direct_wf: "result_wf (parse_direct s)"
proof -
  have auto: "result_wf (bindE (prompt_after_verb s ''/auto'') (\<lambda>p. case p of Some prompt \<Rightarrow> Inr (AutoModeCommand prompt) | None \<Rightarrow> parse_control s))"
    using prompt_after_verb_clean [of s "''/auto''"] parse_control_wf
    by (cases "prompt_after_verb s ''/auto''") (auto simp: result_wf_simps split: option.split)
  have "result_wf (case find (\<lambda>verb. s = verb \<or> takes s verb) permission_verbs of
      Some verb \<Rightarrow> Inr (ClaudePermissionCommand (if s = verb then [] else argument s))
    | None \<Rightarrow> bindE (prompt_after_verb s ''/auto'') (\<lambda>p. case p of Some prompt \<Rightarrow> Inr (AutoModeCommand prompt) | None \<Rightarrow> parse_control s))"
    using auto argument_clean [of s]
    by (cases "find (\<lambda>verb. s = verb \<or> takes s verb) permission_verbs") (simp_all add: result_wf_simps)
  then show ?thesis unfolding parse_direct_def by (intro result_wf_if required_wf) simp_all
qed

lemma parse_command_wf: "result_wf (parse_command t)"
proof -
  let ?s = "strip t"
  have "list_all (\<lambda>x. command_wf (snd x)) fixed_commands" by code_simp
  then have fixed: "map_of fixed_commands ?s = Some c \<Longrightarrow> command_wf c" for c
    using map_of_SomeD [of fixed_commands ?s c] unfolding list_all_iff by force
  have "result_wf (parse_trace ?s)"
    unfolding parse_trace_def by (intro result_wf_if) (auto simp: result_wf_simps split: option.split)
  then have "result_wf (if takes ?s ''/settings'' then Inr SettingsCommand else if takes ?s ''/trace'' then parse_trace ?s
      else if takes ?s ''/carry'' then Inr (CarryWorkbenchCommand (argument ?s))
      else if takes ?s ''/terminal'' then parse_terminal_command ?s
      else if takes ?s ''/new'' then Inr (NewConversationCommand (argument ?s)) else parse_direct ?s)"
    using argument_clean [of ?s] by (intro result_wf_if parse_terminal_wf parse_direct_wf) (simp_all add: result_wf_simps)
  then show ?thesis using fixed unfolding parse_command_def Let_def
    by (cases "map_of fixed_commands ?s") (simp_all only: option.case result_wf_simps)
qed

section \<open>Round trip\<close>

lemma split_ws_acc_word: "\<forall>c \<in> set w. \<not> py_isspace c \<Longrightarrow> split_ws_acc a (w @ s) = split_ws_acc (rev w @ a) s"
  by (induction w arbitrary: a) simp_all

lemma split_ws_word: "verb_word w \<Longrightarrow> split_ws (w @ CHR '' '' # s) = w # split_ws s" "verb_word w \<Longrightarrow> split_ws w = [w]"
  using split_ws_acc_word [of w "[]" "CHR '' '' # s"] split_ws_acc_word [of w "[]" "[]"]
  by (simp_all add: verb_word_def list_all_iff split_ws_def)

lemma split_ws_join: "\<forall>w \<in> set ws. verb_word w \<Longrightarrow> split_ws (py_join '' '' ws) = ws"
proof (induction ws rule: induct_list012)
  case 1
  show ?case by (simp add: split_ws_def)
next
  case (2 w)
  then show ?case by (simp add: split_ws_word)
next
  case (3 v w ws)
  then show ?case by (simp add: split_ws_word)
qed

lemma py_join_clean: "ws \<noteq> [] \<Longrightarrow> \<forall>w \<in> set ws. verb_word w \<Longrightarrow> clean (py_join '' '' ws)"
proof (induction ws rule: induct_list012)
  case (2 w)
  then show ?case by (cases w) (auto simp: clean_def verb_word_def list_all_iff)
next
  case (3 v w ws)
  then have "clean (py_join '' '' (w # ws))" by simp
  moreover have v: "v \<noteq> []" using 3(4) by (simp add: verb_word_def)
  moreover have "\<not> py_isspace (hd v)" using 3(4) hd_in_set [OF v] by (simp add: verb_word_def list_all_iff)
  ultimately show ?case by (simp add: clean_def)
qed simp

lemma int_str_word: "verb_word (int_str i)" "clean (int_str i)"
proof -
  have s: "\<forall>c \<in> set (int_str i). \<not> py_isspace c" using int_str_not_space by blast
  have ne: "int_str i \<noteq> []" by (simp add: int_str_def)
  show "verb_word (int_str i)" using s ne by (simp add: verb_word_def list_all_iff)
  show "clean (int_str i)" using s ne by (simp add: clean_def)
qed

lemma positive_int_str: "positive (Some i) \<Longrightarrow> parse_positive_int (int_str i) = Some i"
  by (simp add: positive_def parse_positive_int_def)

lemma int_str_not_before: "int_str i \<noteq> ''before''"
proof
  assume "int_str i = ''before''"
  then have "py_int_of_string ''before'' = Some i" using py_int_of_int_str [of i] by simp
  moreover have "py_int_of_string ''before'' = None" by code_simp
  ultimately show False by simp
qed

lemma parse_tail_text: "positive l \<Longrightarrow> positive b \<Longrightarrow> parse_tail (tail_text l b) = TerminalSubCommand ''tail'' l b"
  by (cases l; cases b) (simp_all add: tail_text_def parse_tail_def positive_int_str int_str_not_before)

lemma parse_id_only: "verb_word v \<Longrightarrow> parse_task_id_only (v @ CHR '' '' # nat_str n) v cls = Inr (cls n)"
  by (simp add: parse_task_id_only_def verb_word_def list_all_iff split_max_word split_max_rest nat_str_word parse_task_id_nat)

lemma split_two: "verb_word v \<Longrightarrow> verb_word w \<Longrightarrow> clean p \<Longrightarrow> split_max 2 (v @ CHR '' '' # w @ CHR '' '' # p) = [v, w, p]"
  by (simp add: numeral_2_eq_2 verb_word_def list_all_iff split_max_word split_max_rest)

lemma split_one: "verb_word v \<Longrightarrow> verb_word w \<Longrightarrow> split_max 2 (v @ CHR '' '' # w) = [v, w]"
  by (simp add: numeral_2_eq_2 verb_word_def list_all_iff split_max_word split_max_last)

lemma clean_pair: "verb_word w \<Longrightarrow> clean p \<Longrightarrow> clean (w @ CHR '' '' # p)"
  by (cases w) (auto simp: clean_def verb_word_def)

lemma parse_id_prompt:
  "verb_word v \<Longrightarrow> clean p \<Longrightarrow> parse_task_id_prompt (v @ CHR '' '' # nat_str n @ CHR '' '' # p) v cls = Inr (cls n p)"
  using nat_str_word [of n]
  by (simp add: parse_task_id_prompt_def split_two parse_task_id_nat) (simp add: clean_def)

lemma verb_words:
  "verb_word ''/task''" "verb_word ''/continue''" "verb_word ''/steer''" "verb_word ''/fork''" "verb_word ''/tail''" "verb_word ''/events''"
  "verb_word ''/diff''" "verb_word ''/files''" "verb_word ''/pause''" "verb_word ''/abort''" "verb_word ''/archive''" "verb_word ''/new''"
  "verb_word ''/codex''" "verb_word ''/claude''" "verb_word ''/claude_mode''" "verb_word ''/auto''" "verb_word ''/switch''"
  "verb_word ''/model''" "verb_word ''/exec_mode''" "verb_word ''/verify''" "verb_word ''/terminal''" "verb_word ''/carry''" "verb_word ''/trace''"
  by code_simp+

lemma fixed_text:
  "parse_command ''/help'' = Inr HelpCommand" "parse_command ''/health'' = Inr HealthCommand" "parse_command ''/sessions'' = Inr CodexSessionsCommand"
  "parse_command ''/tasks'' = Inr (ListTasksCommand 20)" "parse_command ''/status'' = Inr StatusCommand" "parse_command ''/diff'' = Inr (DiffCommand None)"
  "parse_command ''/files'' = Inr (FilesCommand None)" "parse_command ''/new'' = Inr (NewConversationCommand [])"
  "parse_command ''/claude_mode'' = Inr (ClaudePermissionCommand [])" "parse_command ''/stop'' = Inr StopCurrentCommand"
  "parse_command ''/model'' = Inr (ModelCommand [])" "parse_command ''/verify'' = Inr (VerifyCommand [])" "parse_command ''/mode'' = Inr (ModeSwitchCommand [] [])"
  "parse_command ''/product'' = Inr (ModeSwitchCommand ''product'' [])" "parse_command ''/terminal'' = Inr (ModeSwitchCommand ''terminal'' [])"
  "parse_command ''/settings'' = Inr SettingsCommand" "parse_command ''/history'' = Inr WorkbenchHistoryCommand"
  "parse_command ''/workspaces'' = Inr WorkspaceListCommand" "parse_command ''/workspace'' = Inr WorkspaceStatusCommand"
  "parse_command ''/carry'' = Inr (CarryWorkbenchCommand [])" "parse_command (''/terminal'' @ CHR '' '' # ''claude'') = Inr (ModeSwitchCommand ''terminal'' ''claude'')"
  "parse_command (''/terminal'' @ CHR '' '' # ''codex'') = Inr (ModeSwitchCommand ''terminal'' ''codex'')"
  "parse_command (''/terminal'' @ CHR '' '' # ''pause'') = Inr (TerminalSubCommand ''pause'' None None)"
  "parse_command (''/terminal'' @ CHR '' '' # ''detach'') = Inr (TerminalSubCommand ''detach'' None None)"
  by code_simp+

lemma auto_prompt: "clean p \<Longrightarrow> prompt_after_verb (''/auto'' @ CHR '' '' # p) ''/auto'' = Inr (Some p)"
  by (simp add: prompt_after_verb_def startswith_def strip_def lstrip_def) (simp add: clean_def strip_ends flip: strip_def lstrip_def)

text \<open>A verb other than \<open>/auto\<close> falls through to the control commands.\<close>

lemma not_auto: "\<not> startswith v ''/auto'' \<Longrightarrow> 4 < length v \<Longrightarrow> prompt_after_verb (v @ CHR '' '' # p) ''/auto'' = Inr None"
proof -
  assume v: "\<not> startswith v ''/auto''" "4 < length v"
  have "\<not> startswith (v @ CHR '' '' # p) ''/auto''" using v by (simp add: startswith_def)
  moreover have "v @ CHR '' '' # p \<noteq> ''/auto''" by (rule not_bare [OF verb_words(16)])
  ultimately show ?thesis by (simp only: prompt_after_verb_def if_True if_False not_False_eq_True)
qed

definition control_verb :: "string \<Rightarrow> bool" where
  "control_verb v \<longleftrightarrow> verb_word v \<and> 4 < length v \<and> \<not> startswith v ''/auto'' \<and>
     v \<notin> set ([''/settings'', ''/trace'', ''/carry'', ''/terminal'', ''/new'', ''/codex'', ''/claude''] @ permission_verbs)"

lemma control_command: "control_verb v \<Longrightarrow> clean p \<Longrightarrow> parse_command (v @ CHR '' '' # p) = parse_control (v @ CHR '' '' # p)"
  by (simp add: control_verb_def command_start direct_start not_auto Let_def)

lemma control_verbs:
  "control_verb ''/task''" "control_verb ''/continue''" "control_verb ''/steer''" "control_verb ''/fork''" "control_verb ''/tail''"
  "control_verb ''/events''" "control_verb ''/diff''" "control_verb ''/files''" "control_verb ''/pause''" "control_verb ''/abort''"
  "control_verb ''/archive''" "control_verb ''/switch''" "control_verb ''/model''" "control_verb ''/exec_mode''" "control_verb ''/verify''"
  by code_simp+

lemma id_command:
  assumes "control_verb v" "map_of single_arg v = Some cls"
    "v \<notin> set [''/stop'', ''/switch'', ''/model'', ''/exec_mode'', ''/verify'', ''/task'', ''/continue'', ''/steer'', ''/fork'']"
  shows "parse_command (v @ CHR '' '' # nat_str n) = Inr (cls n)"
proof -
  have v: "verb_word v" using assms(1) by (simp add: control_verb_def)
  show ?thesis using assms(2,3)
    by (simp add: control_command [OF assms(1) nat_str_word(2)] control_start [OF v nat_str_word(2)] parse_id_only [OF v])
qed

lemma single_arg_of:
  "map_of single_arg ''/tail'' = Some TailCommand" "map_of single_arg ''/events'' = Some EventsCommand"
  "map_of single_arg ''/diff'' = Some (\<lambda>i. DiffCommand (Some i))" "map_of single_arg ''/files'' = Some (\<lambda>i. FilesCommand (Some i))"
  "map_of single_arg ''/pause'' = Some PauseCommand" "map_of single_arg ''/abort'' = Some AbortCommand"
  "map_of single_arg ''/archive'' = Some ArchiveCommand"
  by (simp_all add: single_arg_def)

lemma prompt_commands:
  assumes "clean p"
  shows "parse_command (''/new'' @ CHR '' '' # p) = Inr (NewConversationCommand p)"
    "parse_command (''/carry'' @ CHR '' '' # p) = Inr (CarryWorkbenchCommand p)"
    "parse_command (''/codex'' @ CHR '' '' # p) = Inr (CodexDirectCommand p)"
    "parse_command (''/claude'' @ CHR '' '' # p) = Inr (ClaudeDirectCommand p)"
    "parse_command (''/claude_mode'' @ CHR '' '' # p) = Inr (ClaudePermissionCommand p)"
    "parse_command (''/auto'' @ CHR '' '' # p) = Inr (AutoModeCommand p)"
  by (simp_all only: command_start [OF _ assms] direct_start [OF _ assms] verb_words auto_prompt [OF assms] Let_def bindE_simps option.case)
    (simp_all add: permission_verbs_def)

lemma control_commands:
  assumes "clean p"
  shows "parse_command (''/switch'' @ CHR '' '' # p) = Inr (SwitchWorkspaceCommand p)"
    "parse_command (''/model'' @ CHR '' '' # p) = Inr (ModelCommand p)"
    "parse_command (''/exec_mode'' @ CHR '' '' # p) = Inr (ExecModeCommand p)"
    "parse_command (''/verify'' @ CHR '' '' # p) = Inr (VerifyCommand p)"
  by (simp_all only: control_command [OF _ assms] control_start [OF _ assms] verb_words control_verbs) simp_all

lemma trace_command: "1 \<le> l \<Longrightarrow> l \<le> 100 \<Longrightarrow> parse_command (''/trace'' @ CHR '' '' # int_str l) = Inr (TraceCommand l)"
proof -
  assume l: "1 \<le> l" "l \<le> 100"
  have "int_str l \<noteq> []" using int_str_word(2) [of l] by (simp add: clean_def)
  then have "parse_trace (''/trace'' @ CHR '' '' # int_str l) = Inr (TraceCommand l)"
    using l unfolding parse_trace_def argument_command [OF verb_words(23) int_str_word(2)] by simp
  then show ?thesis unfolding command_start [OF verb_words(23) int_str_word(2)] Let_def by simp
qed

lemma tail_command:
  assumes "positive l" "positive b"
  shows "parse_command (''/terminal'' @ CHR '' '' # py_join '' '' (''tail'' # tail_text l b)) = Inr (TerminalSubCommand ''tail'' l b)"
proof -
  have words: "\<forall>w \<in> set (''tail'' # tail_text l b). verb_word w"
  proof -
    have "verb_word ''tail''" "verb_word ''before''" by code_simp+
    then show ?thesis by (auto simp: tail_text_def int_str_word split: option.split)
  qed
  then have c: "clean (py_join '' '' (''tail'' # tail_text l b))" by (intro py_join_clean) simp_all
  have "split_ws (''/terminal'' @ CHR '' '' # py_join '' '' (''tail'' # tail_text l b)) = ''/terminal'' # ''tail'' # tail_text l b"
    using split_ws_word(1) [OF verb_words(21)] split_ws_join [OF words] by simp
  then have "parse_terminal_command (''/terminal'' @ CHR '' '' # py_join '' '' (''tail'' # tail_text l b)) = Inr (TerminalSubCommand ''tail'' l b)"
    unfolding parse_terminal_command_def Let_def by (simp add: parse_tail_text [OF assms])
  then show ?thesis unfolding command_start [OF verb_words(21) c] Let_def by simp
qed

lemma id_prompt_commands:
  assumes "clean p"
  shows "parse_command (''/continue'' @ CHR '' '' # nat_str n @ CHR '' '' # p) = Inr (ContinueCommand n p)"
    "parse_command (''/steer'' @ CHR '' '' # nat_str n @ CHR '' '' # p) = Inr (SteerCommand n p)"
    "parse_command (''/fork'' @ CHR '' '' # nat_str n @ CHR '' '' # p) = Inr (ForkCommand n p)"
proof -
  note c = clean_pair [OF nat_str_word(1) assms, of n]
  show "parse_command (''/continue'' @ CHR '' '' # nat_str n @ CHR '' '' # p) = Inr (ContinueCommand n p)"
    "parse_command (''/steer'' @ CHR '' '' # nat_str n @ CHR '' '' # p) = Inr (SteerCommand n p)"
    "parse_command (''/fork'' @ CHR '' '' # nat_str n @ CHR '' '' # p) = Inr (ForkCommand n p)"
    by (simp_all only: control_command [OF _ c] control_start [OF _ c] verb_words control_verbs parse_id_prompt [OF _ assms]) simp_all
qed

lemma task_commands:
  "parse_command (''/task'' @ CHR '' '' # nat_str n) = Inr (ShowTaskCommand n)"
  "verb_word w \<Longrightarrow> clean p \<Longrightarrow> parse_task_id w = Inr i \<Longrightarrow> parse_command (''/task'' @ CHR '' '' # w @ CHR '' '' # p) = Inr (StartTaskCommand w p)"
proof -
  have "split_max 2 (''/task'' @ CHR '' '' # nat_str n) = [''/task'', nat_str n]"
    by (rule split_one [OF verb_words(1) nat_str_word(1)])
  then have "parse_task (''/task'' @ CHR '' '' # nat_str n) = Inr (ShowTaskCommand n)"
    unfolding parse_task_def by (simp add: parse_task_id_nat)
  then show "parse_command (''/task'' @ CHR '' '' # nat_str n) = Inr (ShowTaskCommand n)"
    unfolding control_command [OF control_verbs(1) nat_str_word(2)] control_start [OF verb_words(1) nat_str_word(2)] by simp
  assume a: "verb_word w" "clean p" "parse_task_id w = Inr i"
  have "w \<noteq> []" "p \<noteq> []" using a by (simp_all add: verb_word_def clean_def)
  then have "parse_task (''/task'' @ CHR '' '' # w @ CHR '' '' # p) = Inr (StartTaskCommand w p)"
    unfolding parse_task_def split_two [OF verb_words(1) a(1,2)] by (simp add: a strip_word)
  then show "parse_command (''/task'' @ CHR '' '' # w @ CHR '' '' # p) = Inr (StartTaskCommand w p)"
    unfolding control_command [OF control_verbs(1) clean_pair [OF a(1,2)]] control_start [OF verb_words(1) clean_pair [OF a(1,2)]] by simp
qed

lemma roundtrip:
  assumes "command_wf c"
  shows "parse_command (render c) = Inr c"
proof (cases c)
  case (StartTaskCommand w p)
  then show ?thesis using assms by (auto simp del: append_Cons append_Nil append.simps intro!: task_commands(2) split: sum.splits)
next
  case (DiffCommand i)
  then show ?thesis using id_command [OF control_verbs(7) single_arg_of(3)] by (cases i) (simp_all add: fixed_text)
next
  case (FilesCommand i)
  then show ?thesis using id_command [OF control_verbs(8) single_arg_of(4)] by (cases i) (simp_all add: fixed_text)
next
  case (ModeSwitchCommand m a)
  then consider "m = []" "a = []" | "m = ''product''" "a = []" | "m = ''terminal''" "a = []" | "m = ''terminal''" "a = ''claude''"
    | "m = ''terminal''" "a = ''codex''" using assms by auto
  then show ?thesis unfolding ModeSwitchCommand by cases (simp_all only: render.simps with_arg_def, simp_all add: fixed_text [simplified])
next
  case (TerminalSubCommand s l b)
  then consider "s = ''pause''" "l = None" "b = None" | "s = ''detach''" "l = None" "b = None" | "s = ''tail''" "positive l" "positive b"
    using assms by auto
  then show ?thesis unfolding TerminalSubCommand
  proof cases
    case 3
    then show "parse_command (render (TerminalSubCommand s l b)) = Inr (TerminalSubCommand s l b)"
      using tail_command [OF 3(2,3)] by simp
  qed (use fixed_text(23,24) in simp_all)
next
  case (NewConversationCommand t)
  then show ?thesis using assms prompt_commands(1) by (cases "t = []") (simp_all add: with_arg_def fixed_text)
next
  case (CarryWorkbenchCommand t)
  then show ?thesis using assms prompt_commands(2) by (cases "t = []") (simp_all add: with_arg_def fixed_text)
next
  case (ClaudePermissionCommand t)
  then show ?thesis using assms prompt_commands(5) by (cases "t = []") (simp_all add: with_arg_def fixed_text)
next
  case (ModelCommand t)
  then show ?thesis using assms control_commands(2) by (cases "t = []") (simp_all add: with_arg_def fixed_text)
next
  case (VerifyCommand t)
  then show ?thesis using assms control_commands(4) by (cases "t = []") (simp_all add: with_arg_def fixed_text)
qed (use assms fixed_text prompt_commands control_commands id_prompt_commands task_commands(1) trace_command
    id_command [OF control_verbs(5) single_arg_of(1)] id_command [OF control_verbs(6) single_arg_of(2)]
    id_command [OF control_verbs(9) single_arg_of(5)] id_command [OF control_verbs(10) single_arg_of(6)]
    id_command [OF control_verbs(11) single_arg_of(7)] in simp_all)

text \<open>C38. Every command has a text that parses back to it: for each well-formed command, all thirty-five kinds, parsing its canonical text gives
  the command.\<close>

theorem command_roundtrip:
  assumes "command_wf c"
  shows "parse_command (render c) = Inr c"
  using assms by (rule roundtrip)

theorem command_roundtrip_witness:
  "parse_command ''/continue 12 fix it'' = Inr (ContinueCommand 12 ''fix it'')"
proof -
  have "command_wf (ContinueCommand 12 ''fix it'')" "render (ContinueCommand 12 ''fix it'') = ''/continue 12 fix it''" by code_simp+
  then show ?thesis using command_roundtrip [of "ContinueCommand 12 ''fix it''"] by simp
qed

text \<open>What the parser accepts is clean: prompts are there and carry no space around them, aliases are single words, trace and tail limits
  are in range; so printing a parsed command and parsing it again changes nothing.\<close>

theorem parsed_command_clean:
  assumes "parse_command t = Inr c"
  shows "command_wf c \<and> parse_command (render c) = Inr c"
proof -
  have "command_wf c" using parse_command_wf [of t] assms by (simp add: result_wf_def)
  moreover from this have "parse_command (render c) = Inr c" by (rule roundtrip)
  ultimately show ?thesis by simp
qed

theorem parsed_command_clean_witness:
  "command_wf (TraceCommand 100) \<and> parse_command (render (TraceCommand 100)) = Inr (TraceCommand 100)"
proof -
  have "parse_command '' /trace 4000 '' = Inr (TraceCommand 100)" by code_simp
  from parsed_command_clean [OF this] show ?thesis .
qed


section \<open>Failures\<close>

definition superscript :: "string \<Rightarrow> bool" where
  "superscript v \<longleftrightarrow> list_all py_digit_char v \<and> \<not> list_all is_digit v"

definition failure_ok :: "parse_result \<Rightarrow> bool" where
  "failure_ok x = (case x of Inl (BadNumber v) \<Rightarrow> superscript v | _ \<Rightarrow> True)"

lemma failure_ok_if: "failure_ok x \<Longrightarrow> failure_ok y \<Longrightarrow> failure_ok (if b then x else y)"
  by simp

lemma failure_ok_simps: "failure_ok (Inr c)" "failure_ok (Inl (Usage u))" "failure_ok (Inl UnknownCommand)" "failure_ok (Inl (BadNumber v)) = superscript v"
  by (simp_all add: failure_ok_def)

lemma digits_val_digits: "list_all is_digit s \<Longrightarrow> s \<noteq> [] \<or> prev \<Longrightarrow> digits_val a prev s \<noteq> None"
  by (induction s arbitrary: a prev) simp_all

lemma int_of_digits: "list_all is_digit s \<Longrightarrow> s \<noteq> [] \<Longrightarrow> py_int_of_string s \<noteq> None"
proof -
  assume s: "list_all is_digit s" "s \<noteq> []"
  have "strip s = s" using s(1) digit_not_space by (intro not_space_strip) (auto simp: list_all_iff)
  moreover obtain c cs where c: "s = c # cs" using s(2) by (cases s) auto
  moreover have "c \<noteq> CHR ''-''" "c \<noteq> CHR ''+''" using s(1) c sign_not_digit by auto
  ultimately show ?thesis using digits_val_digits [OF s(1)] by (simp add: py_int_of_string_def)
qed

lemma parse_task_id_failure: "parse_task_id v = Inl e \<Longrightarrow> \<exists>w. e = BadNumber w \<and> superscript w"
  using int_of_digits [of "removeprefix ''#'' (strip v)"]
  by (fastforce simp: parse_task_id_def Let_def superscript_def split: if_splits option.splits)

lemma id_failure_ok: "(\<And>i. failure_ok (f i)) \<Longrightarrow> failure_ok (bindE (parse_task_id v) f)"
  using parse_task_id_failure [of v] by (cases "parse_task_id v") (auto simp: failure_ok_simps)

lemma parse_task_ok: "failure_ok (parse_task s)"
  unfolding parse_task_def
  by (auto simp: failure_ok_simps split: list.split option.split intro!: id_failure_ok)

lemma parse_task_id_prompt_ok: "failure_ok (parse_task_id_prompt s v cls)"
  unfolding parse_task_id_prompt_def Let_def
  by (auto simp: failure_ok_simps split: list.split option.split intro!: id_failure_ok)

lemma parse_task_id_only_ok: "failure_ok (parse_task_id_only s v cls)"
  unfolding parse_task_id_only_def
  by (auto simp: failure_ok_simps split: list.split option.split intro!: id_failure_ok)

lemma required_ok: "failure_ok (required s u cls)"
  by (simp add: required_def failure_ok_simps)

lemma parse_control_ok: "failure_ok (parse_control s)"
proof -
  have "failure_ok (case x of None \<Rightarrow> Inl UnknownCommand | Some (verb, cls) \<Rightarrow> parse_task_id_only s verb cls)" for x
    by (cases x) (auto simp: failure_ok_simps parse_task_id_only_ok)
  then have "failure_ok (parse_task_commands s)" unfolding parse_task_commands_def
    by (intro failure_ok_if parse_task_ok parse_task_id_prompt_ok failure_ok_simps)
  then show ?thesis unfolding parse_control_def by (intro failure_ok_if required_ok failure_ok_simps)
qed

lemma prompt_after_verb_failure: "prompt_after_verb s v = Inl e \<Longrightarrow> \<exists>u. e = Usage u"
  unfolding prompt_after_verb_def Let_def by (auto split: if_splits list.splits)

lemma parse_direct_ok: "failure_ok (parse_direct s)"
proof -
  have a: "failure_ok (bindE (prompt_after_verb s ''/auto'') (\<lambda>p. case p of Some prompt \<Rightarrow> Inr (AutoModeCommand prompt) | None \<Rightarrow> parse_control s))"
    using prompt_after_verb_failure [of s "''/auto''"]
    by (cases "prompt_after_verb s ''/auto''") (auto simp: failure_ok_simps parse_control_ok split: option.split)
  have "failure_ok (case x of Some verb \<Rightarrow> Inr (ClaudePermissionCommand (if s = verb then [] else argument s))
      | None \<Rightarrow> bindE (prompt_after_verb s ''/auto'') (\<lambda>p. case p of Some prompt \<Rightarrow> Inr (AutoModeCommand prompt) | None \<Rightarrow> parse_control s))" for x
    using a by (cases x) (simp_all add: failure_ok_simps)
  then show ?thesis unfolding parse_direct_def by (intro failure_ok_if required_ok)
qed

lemma parse_command_ok: "failure_ok (parse_command t)"
proof -
  let ?s = "strip t"
  have "failure_ok (parse_trace ?s)"
    unfolding parse_trace_def by (intro failure_ok_if) (auto simp: failure_ok_simps split: option.split)
  moreover have "failure_ok (parse_terminal_command ?s)" unfolding parse_terminal_command_def Let_def
    by (intro failure_ok_if) (auto simp: failure_ok_simps split: list.split)
  ultimately have "failure_ok (if takes ?s ''/settings'' then Inr SettingsCommand else if takes ?s ''/trace'' then parse_trace ?s
      else if takes ?s ''/carry'' then Inr (CarryWorkbenchCommand (argument ?s))
      else if takes ?s ''/terminal'' then parse_terminal_command ?s
      else if takes ?s ''/new'' then Inr (NewConversationCommand (argument ?s)) else parse_direct ?s)"
    by (intro failure_ok_if parse_direct_ok failure_ok_simps)
  then show ?thesis unfolding parse_command_def Let_def
    by (cases "map_of fixed_commands ?s") (simp_all only: option.case failure_ok_simps)
qed

text \<open>Parsing is total and fails with a usage message, with one exception: a task id with superscript digits passes the digit test and then
  fails to convert, which is not the error the callers catch.\<close>

theorem parse_failures:
  "(case parse_command t of Inr c \<Rightarrow> True | Inl UnknownCommand \<Rightarrow> True | Inl (Usage u) \<Rightarrow> True | Inl (BadNumber v) \<Rightarrow> superscript v) \<and>
   parse_command (''/tail '' @ [char_of (178::nat)]) = Inl (BadNumber [char_of (178::nat)])"
proof
  show "case parse_command t of Inr c \<Rightarrow> True | Inl UnknownCommand \<Rightarrow> True | Inl (Usage u) \<Rightarrow> True | Inl (BadNumber v) \<Rightarrow> superscript v"
    using parse_command_ok [of t] by (simp add: failure_ok_def split: sum.split command_error.split)
  show "parse_command (''/tail '' @ [char_of (178::nat)]) = Inl (BadNumber [char_of (178::nat)])" by code_simp
qed

end
