(* ===== verification/Telegram_Output.thy ===== *)
theory Telegram_Output
  imports Redaction
begin

text \<open>
  \<^verbatim>\<open>wlcodex/telegram_output.py\<close>: the chunker that cuts a growing answer into chat messages, and the manager of the
  output sessions. A position that is \<open>-1\<close> in the code is \<open>None\<close>; sizes are naturals. The full-width
  punctuation lies outside the modelled characters. The cutting loop may run forever, so its result is an
  option, and so are the results of the operations that use it.
\<close>

section \<open>Searching\<close>

definition newline :: char where
  "newline = char_of (10::nat)"

definition fence :: string where
  "fence = replicate 3 (char_of (96::nat))"

definition rfind :: "string \<Rightarrow> string \<Rightarrow> nat option" where
  "rfind p s = find (\<lambda>i. startswith (drop i s) p) (rev [0..<Suc (length s)])"

definition positive_pos :: "nat option \<Rightarrow> bool" where
  "positive_pos p = (case p of None \<Rightarrow> False | Some i \<Rightarrow> i > 0)"

definition first_positive :: "nat option list \<Rightarrow> nat option" where
  "first_positive ps = (case find positive_pos ps of None \<Rightarrow> None | Some p \<Rightarrow> p)"

definition numbered_item_at :: "string \<Rightarrow> nat \<Rightarrow> bool" where
  "numbered_item_at region i \<longleftrightarrow> region ! i = newline \<and>
     (case drop (Suc i) region of [] \<Rightarrow> False | c # cs \<Rightarrow> py_digit_char c \<and> contains (take 4 (c # cs)) ''. '')"

definition rfind_list_boundary :: "string \<Rightarrow> nat \<Rightarrow> nat option" where
  "rfind_list_boundary text limit =
     (let region = take limit text in
      case first_positive [rfind (newline # ''- '') region, rfind (newline # ''* '') region] of
        Some i \<Rightarrow> Some i
      | None \<Rightarrow> find (numbered_item_at region) (rev [1..<length region - 1]))"

definition starts_markdown_list_item :: "string \<Rightarrow> bool" where
  "starts_markdown_list_item text \<longleftrightarrow> startswith text ''- '' \<or> startswith text ''* '' \<or>
     (case find_from ''. '' 0 text of
        None \<Rightarrow> False
      | Some dot \<Rightarrow> 0 < dot \<and> dot \<le> 3 \<and> list_all py_digit_char (take dot text))"

definition rfind_sentence_boundary :: "string \<Rightarrow> nat \<Rightarrow> nat option" where
  "rfind_sentence_boundary text limit =
     map_option (\<lambda>i. i + 2) (first_positive (map (\<lambda>p. rfind p (take limit text)) [''. '', ''! '', ''? '']))"

definition rfind_whitespace_boundary :: "string \<Rightarrow> nat \<Rightarrow> nat option" where
  "rfind_whitespace_boundary text limit =
     (let region = take limit text in find (\<lambda>i. py_isspace (region ! i)) (rev [1..<length region]))"

section \<open>Safe places to split\<close>

fun link_scan :: "bool \<Rightarrow> bool \<Rightarrow> char option \<Rightarrow> string \<Rightarrow> bool" where
  "link_scan label url prev [] = (label \<or> url)"
| "link_scan label url prev (c # cs) =
     (if c = CHR ''['' \<and> \<not> label \<and> \<not> url then link_scan True url (Some c) cs
      else if c = CHR '']'' \<and> label then link_scan False url (Some c) cs
      else if c = CHR ''('' \<and> \<not> label \<and> \<not> url then link_scan label (prev = Some (CHR '']'')) (Some c) cs
      else if c = CHR '')'' \<and> url then link_scan label False (Some c) cs
      else link_scan label url (Some c) cs)"

definition inside_markdown_link :: "string \<Rightarrow> nat \<Rightarrow> bool" where
  "inside_markdown_link text pos = link_scan False False None (take pos text)"

text \<open>The fences that start before a position; a fence is three characters long.\<close>

fun fence_count :: "nat \<Rightarrow> string \<Rightarrow> nat" where
  "fence_count pos text =
     (if pos = 0 then 0
      else if startswith text fence then Suc (fence_count (pos - 3) (drop 3 text))
      else fence_count (pos - 1) (drop 1 text))"

declare fence_count.simps [simp del]

definition inside_code_fence :: "string \<Rightarrow> nat \<Rightarrow> bool" where
  "inside_code_fence text pos = odd (fence_count pos text)"

definition is_safe_split :: "string \<Rightarrow> nat \<Rightarrow> bool" where
  "is_safe_split text pos \<longleftrightarrow> \<not> inside_markdown_link text pos \<and> \<not> inside_code_fence text pos"

definition safe_limit :: "string \<Rightarrow> nat \<Rightarrow> nat" where
  "safe_limit text limit = min limit (length text)"

definition find_split :: "string \<Rightarrow> nat \<Rightarrow> nat" where
  "find_split text limit =
     (let l = safe_limit text limit in
      case find (\<lambda>p. case p of None \<Rightarrow> False | Some i \<Rightarrow> i > 0 \<and> is_safe_split text i)
             [rfind [newline, newline] (take l text), rfind_list_boundary text l,
              rfind_sentence_boundary text l, rfind_whitespace_boundary text l] of
        Some (Some i) \<Rightarrow> i
      | _ \<Rightarrow> l)"

section \<open>Cutting\<close>

definition open_code_fence_marker :: "string \<Rightarrow> nat \<Rightarrow> string" where
  "open_code_fence_marker text pos =
     (let prefix = take pos text in
      case rfind fence prefix of
        None \<Rightarrow> fence
      | Some start \<Rightarrow>
          let marker = strip (case find_from [newline] start prefix of
                                None \<Rightarrow> drop start prefix
                              | Some line_end \<Rightarrow> drop start (take line_end prefix)) in
          if startswith marker fence then marker else fence)"

definition split_readable_chunk :: "string \<Rightarrow> nat \<Rightarrow> string \<times> string" where
  "split_readable_chunk text split_at =
     (let chunk = rstrip (take split_at text); remainder = drop split_at text in
      if inside_code_fence text split_at then
        (chunk @ (if chunk \<noteq> [] \<and> \<not> endswith chunk [newline] then [newline] else []) @ fence,
         open_code_fence_marker text split_at @ newline # dropWhile (\<lambda>c. c = newline) remainder)
      else (chunk, remainder))"

record chunk_policy =
  min_chars :: nat
  max_chars :: nat
  final_max_chars :: nat

definition default_chunk_policy :: chunk_policy where
  "default_chunk_policy = \<lparr>min_chars = 900, max_chars = 3200, final_max_chars = 3900\<rparr>"

record semantic_chunker =
  sc_policy :: chunk_policy
  sc_buffer :: string

definition chunker_append :: "string \<Rightarrow> semantic_chunker \<Rightarrow> semantic_chunker" where
  "chunker_append text c = (if text = [] then c else c\<lparr>sc_buffer := sc_buffer c @ text\<rparr>)"

text \<open>One turn of the loop: stop with the last chunks and the buffer that stays, or emit a chunk and go on.\<close>

datatype chunk_turn = Stop "string list" string | Emit string string

definition chunk_turn_of :: "chunk_policy \<Rightarrow> bool \<Rightarrow> string \<Rightarrow> chunk_turn" where
  "chunk_turn_of p force buffer =
     (let limit = max_chars p; split_at = find_split buffer limit in
      if buffer = [] then Stop [] buffer
      else if \<not> force \<and> length buffer < min_chars p then Stop [] buffer
      else if \<not> force \<and> starts_markdown_list_item buffer \<and> \<not> positive_pos (rfind_list_boundary buffer limit) then Stop [] buffer
      else if split_at \<ge> length buffer then (if force then Stop [buffer] [] else Stop [] buffer)
      else case split_readable_chunk buffer split_at of (chunk, remainder) \<Rightarrow>
        if chunk = [] then (if force then Emit (take limit buffer) (lstrip (drop limit buffer)) else Stop [] buffer)
        else Emit chunk (lstrip remainder))"

partial_function (option) ready_loop :: "chunk_policy \<Rightarrow> bool \<Rightarrow> string \<Rightarrow> string list \<Rightarrow> (string list \<times> string) option" where
  "ready_loop p force buffer chunks =
     (case chunk_turn_of p force buffer of
        Stop final rest \<Rightarrow> Some (chunks @ final, rest)
      | Emit chunk rest \<Rightarrow> ready_loop p force rest (chunks @ [chunk]))"

declare ready_loop.simps [code]

definition ready_chunks :: "bool \<Rightarrow> semantic_chunker \<Rightarrow> (string list \<times> semantic_chunker) option" where
  "ready_chunks force c =
     (case ready_loop (sc_policy c) force (sc_buffer c) [] of
        None \<Rightarrow> None | Some (chunks, rest) \<Rightarrow> Some (chunks, c\<lparr>sc_buffer := rest\<rparr>))"

definition number_parts :: "string list \<Rightarrow> string list" where
  "number_parts chunks =
     map (\<lambda>(i, chunk). nat_str i @ ''/'' @ nat_str (length chunks) @ newline # chunk) (zip [1..<Suc (length chunks)] chunks)"

definition final_policy :: "chunk_policy \<Rightarrow> chunk_policy" where
  "final_policy p = \<lparr>min_chars = 1, max_chars = final_max_chars p, final_max_chars = final_max_chars p\<rparr>"

definition final_chunks :: "bool \<Rightarrow> semantic_chunker \<Rightarrow> (string list \<times> semantic_chunker) option" where
  "final_chunks numbered c =
     (case ready_chunks True (c\<lparr>sc_policy := final_policy (sc_policy c)\<rparr>) of
        None \<Rightarrow> None
      | Some (chunks, c') \<Rightarrow>
          Some (if numbered \<and> length chunks > 1 then number_parts chunks else chunks, c'\<lparr>sc_policy := sc_policy c\<rparr>))"

section \<open>Output sessions\<close>

text \<open>
  The manager keeps one session per run. The calls it makes on the transport are recorded in order; the id that a preview
  gets is an argument. An operation finishes its transport calls before the next one starts. No buttons is the empty list.
\<close>

datatype output_surface = Product | Terminal

record output_run_key =
  ok_chat_id :: int
  ok_conversation_id :: int
  ok_run_id :: string

datatype status_text = StatusText string | RunFailed string | Interrupted

datatype transport_call =
    SendPreview int status_text
  | EditPreview int int status_text
  | SendBody int string "string list list"
  | SendStatus int status_text "string list list"

record telegram_output_session =
  to_surface :: output_surface
  to_chunker :: semantic_chunker
  to_preview_message_id :: "int option"
  to_last_status_text :: status_text
  to_last_status_edit_at :: int
  to_idle_flush_task :: bool
  to_is_closed :: bool

record telegram_output_manager =
  om_policy :: chunk_policy
  om_preview_enabled :: bool
  om_preview_edit_min_interval :: int
  om_product_body_mode :: string
  om_terminal_body_mode :: string
  om_terminal_block_idle :: int
  om_now :: int
  om_sessions :: "output_run_key \<rightharpoonup> telegram_output_session"
  om_sent :: "transport_call list"

definition transport :: "transport_call \<Rightarrow> telegram_output_manager \<Rightarrow> telegram_output_manager" where
  "transport c m = m\<lparr>om_sent := om_sent m @ [c]\<rparr>"

definition put_session :: "output_run_key \<Rightarrow> telegram_output_session \<Rightarrow> telegram_output_manager \<Rightarrow> telegram_output_manager" where
  "put_session key s m = m\<lparr>om_sessions := (om_sessions m)(key \<mapsto> s)\<rparr>"

definition pop_session :: "output_run_key \<Rightarrow> telegram_output_manager \<Rightarrow> telegram_output_manager" where
  "pop_session key m = m\<lparr>om_sessions := (om_sessions m)(key := None)\<rparr>"

definition output_start :: "output_run_key \<Rightarrow> output_surface \<Rightarrow> status_text \<Rightarrow> int \<Rightarrow> telegram_output_manager \<Rightarrow> telegram_output_manager" where
  "output_start key surface t reply m =
     (let s = \<lparr>to_surface = surface, to_chunker = \<lparr>sc_policy = om_policy m, sc_buffer = []\<rparr>, to_preview_message_id = None,
               to_last_status_text = t, to_last_status_edit_at = om_now m, to_idle_flush_task = False, to_is_closed = False\<rparr> in
      if om_preview_enabled m then
        put_session key (s\<lparr>to_preview_message_id := (if reply > 0 then Some reply else None)\<rparr>)
          (transport (SendPreview (ok_chat_id key) t) (pop_session key m))
      else put_session key s (pop_session key m))"

definition body_mode_for :: "telegram_output_manager \<Rightarrow> output_surface \<Rightarrow> string" where
  "body_mode_for m surface = (if surface = Terminal then om_terminal_body_mode m else om_product_body_mode m)"

definition output_update_status :: "output_run_key \<Rightarrow> status_text \<Rightarrow> bool \<Rightarrow> telegram_output_manager \<Rightarrow> telegram_output_manager" where
  "output_update_status key t force m =
     (case om_sessions m key of
        None \<Rightarrow> m
      | Some s \<Rightarrow> (case to_preview_message_id s of
          None \<Rightarrow> m
        | Some preview \<Rightarrow>
            if to_is_closed s \<or> \<not> om_preview_enabled m \<or> t = to_last_status_text s then m
            else if \<not> force \<and> om_now m - to_last_status_edit_at s < om_preview_edit_min_interval m then m
            else put_session key (s\<lparr>to_last_status_text := t, to_last_status_edit_at := om_now m\<rparr>)
                   (transport (EditPreview (ok_chat_id key) preview t) m)))"

definition send_bodies :: "int \<Rightarrow> (string \<times> string list list) list \<Rightarrow> telegram_output_manager \<Rightarrow> telegram_output_manager" where
  "send_bodies chat cs m = fold (\<lambda>(c, b). transport (SendBody chat c b)) cs m"

definition flush_body_chunks ::
  "output_run_key \<Rightarrow> telegram_output_session \<Rightarrow> bool \<Rightarrow> telegram_output_manager \<Rightarrow> (string list \<times> telegram_output_session \<times> telegram_output_manager) option" where
  "flush_body_chunks key s force m =
     (case ready_chunks force (to_chunker s) of
        None \<Rightarrow> None
      | Some (cs, k) \<Rightarrow>
          let s' = s\<lparr>to_chunker := k\<rparr> in
          Some (cs, s', put_session key s' (send_bodies (ok_chat_id key) (map (\<lambda>c. (c, [])) cs) m)))"

definition cancel_idle_flush :: "telegram_output_session \<Rightarrow> telegram_output_session" where
  "cancel_idle_flush s = s\<lparr>to_idle_flush_task := False\<rparr>"

definition schedule_idle_flush :: "telegram_output_manager \<Rightarrow> telegram_output_session \<Rightarrow> telegram_output_session" where
  "schedule_idle_flush m s = (if om_terminal_block_idle m \<le> 0 then cancel_idle_flush s else s\<lparr>to_idle_flush_task := True\<rparr>)"

definition output_append_text :: "output_run_key \<Rightarrow> string \<Rightarrow> telegram_output_manager \<Rightarrow> telegram_output_manager option" where
  "output_append_text key t m =
     (case om_sessions m key of
        None \<Rightarrow> Some m
      | Some s0 \<Rightarrow>
          if to_is_closed s0 then Some m
          else
            let s = s0\<lparr>to_chunker := chunker_append t (to_chunker s0)\<rparr>; m1 = put_session key s m in
            if body_mode_for m (to_surface s) \<noteq> ''semantic_blocks'' then Some m1
            else (case flush_body_chunks key s False m1 of
                None \<Rightarrow> None
              | Some (cs, s', m2) \<Rightarrow> Some (if cs = [] then put_session key (schedule_idle_flush m2 s') m2 else m2)))"

text \<open>The last message carries the buttons.\<close>

definition button_last :: "string list list \<Rightarrow> string list \<Rightarrow> (string \<times> string list list) list" where
  "button_last buttons cs = (if cs = [] then [] else map (\<lambda>c. (c, [])) (butlast cs) @ [(last cs, buttons)])"

definition close_session :: "output_run_key \<Rightarrow> telegram_output_manager \<Rightarrow> telegram_output_manager" where
  "close_session key m = pop_session key m"

definition output_complete :: "output_run_key \<Rightarrow> string list list \<Rightarrow> status_text \<Rightarrow> telegram_output_manager \<Rightarrow> telegram_output_manager option" where
  "output_complete key buttons status m =
     (case om_sessions m key of
        None \<Rightarrow> Some m
      | Some s \<Rightarrow> (case final_chunks True (to_chunker s) of
          None \<Rightarrow> None
        | Some (cs, k) \<Rightarrow>
            let m1 = put_session key ((cancel_idle_flush s)\<lparr>to_chunker := k\<rparr>) m;
                m2 = (if cs \<noteq> [] then send_bodies (ok_chat_id key) (button_last buttons cs) m1
                      else if buttons \<noteq> [] \<or> to_preview_message_id s = None
                        then transport (SendStatus (ok_chat_id key) status buttons) m1
                      else m1) in
            Some (close_session key (if to_preview_message_id s = None then m2 else output_update_status key status True m2))))"

definition output_fail :: "output_run_key \<Rightarrow> string \<Rightarrow> telegram_output_manager \<Rightarrow> telegram_output_manager option" where
  "output_fail key summary m =
     (case om_sessions m key of
        None \<Rightarrow> Some m
      | Some s \<Rightarrow> (case final_chunks True (to_chunker s) of
          None \<Rightarrow> None
        | Some (cs, k) \<Rightarrow>
            let m1 = send_bodies (ok_chat_id key) (map (\<lambda>c. (c, [])) cs) (put_session key ((cancel_idle_flush s)\<lparr>to_chunker := k\<rparr>) m);
                status = RunFailed (take 200 summary) in
            Some (close_session key (if to_preview_message_id s = None then transport (SendStatus (ok_chat_id key) status []) m1
                                     else output_update_status key status True m1))))"

definition output_interrupt :: "output_run_key \<Rightarrow> telegram_output_manager \<Rightarrow> telegram_output_manager" where
  "output_interrupt key m =
     (case om_sessions m key of
        None \<Rightarrow> m
      | Some s \<Rightarrow>
          let m1 = put_session key (cancel_idle_flush s) m in
          close_session key (if to_preview_message_id s = None then transport (SendStatus (ok_chat_id key) Interrupted []) m1
                             else output_update_status key Interrupted True m1))"

text \<open>Whether a pause is at a readable boundary; the closing quotes and brackets are those among the modelled characters.\<close>

definition idle_buffer_ready :: "string \<Rightarrow> bool" where
  "idle_buffer_ready t =
     (let stripped = rstrip t in
      if stripped = [] then False
      else if length stripped \<ge> 2000 then True
      else if length stripped < 120 then False
      else if last stripped \<in> set [CHR '')'', char_of (34::nat), char_of (39::nat), CHR ''.'', CHR ''!'', CHR ''?''] then True
      else if endswith stripped fence then True
      else if endswith t [newline, newline] then True
      else endswith t [newline] \<and> length stripped \<ge> 200)"

definition idle_flush_fires :: "output_run_key \<Rightarrow> telegram_output_manager \<Rightarrow> telegram_output_manager option" where
  "idle_flush_fires key m =
     (case om_sessions m key of
        None \<Rightarrow> Some m
      | Some s \<Rightarrow>
          if to_is_closed s \<or> body_mode_for m (to_surface s) \<noteq> ''semantic_blocks'' then Some m
          else if idle_buffer_ready (sc_buffer (to_chunker s)) then
            (case flush_body_chunks key s True m of
               None \<Rightarrow> None
             | Some (cs, s', m') \<Rightarrow> Some (put_session key (cancel_idle_flush s') m'))
          else Some (put_session key (cancel_idle_flush s) m))"

end
