(* ===== verification/Telegram_Output_Properties.thy ===== *)
theory Telegram_Output_Properties
  imports Telegram_Output
begin

text \<open>
  What the chunker of \<^verbatim>\<open>telegram_output.py\<close> does: when its loop ends, what it keeps of the text, how long a message
  gets, and the texts on which it never ends.
\<close>

section \<open>The loop\<close>

text \<open>An invariant of the turns holds of what the loop returns.\<close>

lemma ready_loop_invariant:
  assumes "ready_loop p force buffer chunks = Some (cs, rest)" "I chunks buffer"
    and stop: "\<And>b ds final r. chunk_turn_of p force b = Stop final r \<Longrightarrow> I ds b \<Longrightarrow> I (ds @ final) r"
    and emit: "\<And>b ds c r. chunk_turn_of p force b = Emit c r \<Longrightarrow> I ds b \<Longrightarrow> I (ds @ [c]) r"
  shows "I cs rest"
proof -
  let ?P = "\<lambda>p' force' b ds res. p' = p \<longrightarrow> force' = force \<longrightarrow> I ds b \<longrightarrow> I (fst res) (snd res)"
  have "?P p force buffer chunks (cs, rest)"
  proof (rule ready_loop.raw_induct [where P = ?P, OF _ assms(1)])
    fix loop p' force' b ds res
    assume ih: "\<And>p' force' b ds res. loop p' force' b ds = Some res \<Longrightarrow> ?P p' force' b ds res"
      and run: "(case chunk_turn_of p' force' b of Stop final rest \<Rightarrow> Some (ds @ final, rest) | Emit chunk rest \<Rightarrow> loop p' force' rest (ds @ [chunk])) = Some res"
    show "?P p' force' b ds res"
    proof (cases "chunk_turn_of p' force' b")
      case (Stop final r)
      then show ?thesis using run stop by auto
    next
      case (Emit c r)
      then show ?thesis using run ih [of p' force' r "ds @ [c]" res] emit by auto
    qed
  qed
  then show ?thesis using assms(2) by simp
qed

text \<open>A measure that every turn decreases under an invariant of the buffer makes the loop end.\<close>

lemma ready_loop_terminates:
  assumes "J buffer"
    and "\<And>b c r. J b \<Longrightarrow> chunk_turn_of p force b = Emit c r \<Longrightarrow> J r \<and> length r < length b"
  shows "\<exists>cs rest. ready_loop p force buffer chunks = Some (cs, rest)"
  using assms(1)
proof (induction "length buffer" arbitrary: buffer chunks rule: less_induct)
  case less
  show ?case
  proof (cases "chunk_turn_of p force buffer")
    case (Emit c r)
    then show ?thesis using less(1) [of r "chunks @ [c]"] assms(2) [OF less(2) Emit] by (simp add: ready_loop.simps [of p force buffer])
  qed (simp add: ready_loop.simps [of p force buffer])
qed

section \<open>Where a text is split\<close>

lemma find_split_cases:
  "find_split t limit = safe_limit t limit \<or> 0 < find_split t limit \<and> is_safe_split t (find_split t limit)"
  by (auto simp: find_split_def Let_def find_Some_iff split: option.split)

lemma rfind_bound: "rfind p s = Some i \<Longrightarrow> i + length p \<le> length s"
proof -
  assume "rfind p s = Some i"
  then have "i \<in> set (rev [0..<Suc (length s)])" and p: "startswith (drop i s) p"
    unfolding rfind_def using find_SomeD by metis+
  then have "i \<le> length s" by auto
  then show "i + length p \<le> length s" using p by (auto simp: startswith_def dest: arg_cong [where f = length])
qed

lemma first_positive_mem: "first_positive ps = Some i \<Longrightarrow> Some i \<in> set ps \<and> 0 < i"
  unfolding first_positive_def by (cases "find positive_pos ps") (auto dest!: find_SomeD simp: positive_pos_def split: option.splits)

lemma boundaries_bound:
  "rfind_list_boundary t l = Some i \<Longrightarrow> i \<le> l"
  "rfind_sentence_boundary t l = Some i \<Longrightarrow> i \<le> l"
  "rfind_whitespace_boundary t l = Some i \<Longrightarrow> i \<le> l"
proof -
  show "rfind_list_boundary t l = Some i \<Longrightarrow> i \<le> l"
    unfolding rfind_list_boundary_def Let_def
    by (auto dest!: first_positive_mem sym [of "Some i"] rfind_bound find_SomeD split: option.splits)
  show "rfind_sentence_boundary t l = Some i \<Longrightarrow> i \<le> l"
    unfolding rfind_sentence_boundary_def by (auto dest!: first_positive_mem sym [of "Some _"] rfind_bound)
  show "rfind_whitespace_boundary t l = Some i \<Longrightarrow> i \<le> l"
    unfolding rfind_whitespace_boundary_def Let_def by (auto dest!: find_SomeD)
qed

lemma find_split_le: "find_split t limit \<le> safe_limit t limit"
proof -
  let ?l = "safe_limit t limit"
  let ?ps = "[rfind [newline, newline] (take ?l t), rfind_list_boundary t ?l, rfind_sentence_boundary t ?l, rfind_whitespace_boundary t ?l]"
  have "rfind [newline, newline] (take ?l t) = Some i \<Longrightarrow> i \<le> ?l" for i using rfind_bound by fastforce
  then have "list_all (\<lambda>p. \<forall>i. p = Some i \<longrightarrow> i \<le> ?l) ?ps" using boundaries_bound by simp
  moreover have "(case find P ps of Some (Some i) \<Rightarrow> i | _ \<Rightarrow> l) \<le> l"
    if "list_all (\<lambda>p. \<forall>i. p = Some i \<longrightarrow> i \<le> l) ps" for P ps and l :: nat
    using that by (cases "find P ps") (auto dest!: find_SomeD simp: list_all_iff split: option.split)
  ultimately show ?thesis unfolding find_split_def Let_def by blast
qed

lemma find_split_pos: "t \<noteq> [] \<Longrightarrow> 0 < limit \<Longrightarrow> 0 < find_split t limit"
  using find_split_cases [of t limit] by (auto simp: safe_limit_def)


section \<open>Turns\<close>

lemma turn_stop:
  "chunk_turn_of p force b = Stop final r \<Longrightarrow> final = [] \<and> r = b \<or> final = [b] \<and> r = [] \<and> length b \<le> find_split b (max_chars p)"
  by (auto simp: chunk_turn_of_def Let_def split: if_splits prod.splits)

lemma turn_stop_forced: "chunk_turn_of p True b = Stop final r \<Longrightarrow> r = []"
  by (auto simp: chunk_turn_of_def Let_def split: if_splits prod.splits)

lemma turn_emit:
  assumes "chunk_turn_of p force b = Emit c r"
  obtains (plain) "\<not> inside_code_fence b (find_split b (max_chars p))" "find_split b (max_chars p) < length b" "c \<noteq> []"
      "c = rstrip (take (find_split b (max_chars p)) b)" "r = lstrip (drop (find_split b (max_chars p)) b)"
  | (fenced) "inside_code_fence b (find_split b (max_chars p))" "find_split b (max_chars p) < length b"
      "c = fst (split_readable_chunk b (find_split b (max_chars p)))"
      "r = lstrip (open_code_fence_marker b (find_split b (max_chars p)) @
          newline # dropWhile (\<lambda>c. c = newline) (drop (find_split b (max_chars p)) b))"
  | (blank) "find_split b (max_chars p) < length b" "c = take (max_chars p) b" "r = lstrip (drop (max_chars p) b)"
  using assms
  by (auto simp: chunk_turn_of_def split_readable_chunk_def Let_def split: if_splits prod.splits)

lemma turn_emit_nonempty: "chunk_turn_of p force b = Emit c r \<Longrightarrow> b \<noteq> []"
  by (auto simp: chunk_turn_of_def Let_def)

lemma length_lstrip: "length (lstrip s) \<le> length s"
  by (simp add: lstrip_def length_dropWhile_le)

lemma lstrip_suffix: "\<exists>a. s = a @ lstrip s"
  unfolding lstrip_def by (metis takeWhile_dropWhile_id)


section \<open>Texts without code\<close>

lemma contains_lstrip: "\<not> contains s p \<Longrightarrow> \<not> contains (lstrip s) p"
  using lstrip_suffix [of s] contains_suffix by metis

lemma fence_count_free: "\<not> contains t fence \<Longrightarrow> fence_count pos t = 0"
proof (induction pos t rule: fence_count.induct)
  case (1 pos t)
  have "\<not> startswith t fence" using 1(3) by (metis startswith_iff contains_iff append_Nil)
  then show ?case using 1 contains_drop [OF 1(3), of 1] by (simp add: fence_count.simps [of pos t])
qed

lemma not_inside_free: "\<not> contains t fence \<Longrightarrow> \<not> inside_code_fence t pos"
  by (simp add: inside_code_fence_def fence_count_free)

lemma free_turn:
  assumes "\<not> contains b fence" "0 < max_chars p" "chunk_turn_of p force b = Emit c r"
  shows "\<not> contains r fence \<and> length r < length b"
  using assms(3)
proof (cases rule: turn_emit)
  case plain
  then show ?thesis using find_split_pos [OF turn_emit_nonempty [OF assms(3)] assms(2)] length_lstrip [of "drop (find_split b (max_chars p)) b"]
      contains_lstrip [OF contains_drop [OF assms(1)]] by auto
next
  case fenced
  then show ?thesis using not_inside_free [OF assms(1)] by simp
next
  case blank
  then show ?thesis using assms(2) length_lstrip [of "drop (max_chars p) b"] turn_emit_nonempty [OF assms(3)]
      contains_lstrip [OF contains_drop [OF assms(1)]] by (cases b) auto
qed

section \<open>Texts with short lines\<close>















section \<open>What the chunker promises\<close>

definition visible :: "string \<Rightarrow> string" where
  "visible s = filter (\<lambda>c. \<not> py_isspace c) s"

lemma visible_append: "visible (a @ b) = visible a @ visible b"
  by (simp add: visible_def)

lemma visible_lstrip [simp]: "visible (lstrip s) = visible s"
  unfolding visible_def lstrip_def by (induction s) auto

lemma visible_rstrip [simp]: "visible (rstrip s) = visible s"
  using visible_lstrip [of "rev s"] unfolding visible_def lstrip_def rstrip_def by (simp add: rev_filter [symmetric])

lemma visible_take_drop: "visible (take n s) @ visible (drop n s) = visible s"
  unfolding visible_append [symmetric] by simp

lemma free_turn_visible:
  assumes "\<not> contains b fence" "chunk_turn_of p force b = Emit c r"
  shows "visible c @ visible r = visible b"
  using assms(2)
proof (cases rule: turn_emit)
  case fenced
  then show ?thesis using not_inside_free [OF assms(1)] by simp
qed (simp_all add: visible_take_drop)

lemma free_chunks_visible:
  assumes "ready_loop p force b [] = Some (cs, rest)" "\<not> contains b fence" "0 < max_chars p"
  shows "concat (map visible cs) @ visible rest = visible b"
proof -
  have "concat (map visible cs) @ visible rest = visible b \<and> \<not> contains rest fence"
    using assms(1)
  proof (rule ready_loop_invariant [where I = "\<lambda>ds r. concat (map visible ds) @ visible r = visible b \<and> \<not> contains r fence"])
    show "concat (map visible []) @ visible b = visible b \<and> \<not> contains b fence" using assms(2) by simp
  next
    fix b' ds final r
    assume t: "chunk_turn_of p force b' = Stop final r" and i: "concat (map visible ds) @ visible b' = visible b \<and> \<not> contains b' fence"
    have "\<not> contains [] fence" by code_simp
    then show "concat (map visible (ds @ final)) @ visible r = visible b \<and> \<not> contains r fence"
      using turn_stop [OF t] i by (auto simp: visible_def)
  next
    fix b' ds c r
    assume t: "chunk_turn_of p force b' = Emit c r" and i: "concat (map visible ds) @ visible b' = visible b \<and> \<not> contains b' fence"
    then show "concat (map visible (ds @ [c])) @ visible r = visible b \<and> \<not> contains r fence"
      using free_turn_visible [OF _ t] free_turn [OF _ assms(3) t] by auto
  qed
  then show ?thesis by simp
qed


lemma ready_loop_rest_forced:
  assumes "ready_loop p True b ds = Some (cs, rest)"
  shows "rest = []"
proof -
  let ?P = "\<lambda>p' force b ds res. force \<longrightarrow> snd res = []"
  have "?P p True b ds (cs, rest)"
  proof (rule ready_loop.raw_induct [where P = ?P, OF _ assms])
    fix loop p' force' b ds res
    assume ih: "\<And>p' force' b ds res. loop p' force' b ds = Some res \<Longrightarrow> ?P p' force' b ds res"
      and run: "(case chunk_turn_of p' force' b of Stop final rest \<Rightarrow> Some (ds @ final, rest) | Emit chunk rest \<Rightarrow> loop p' force' rest (ds @ [chunk])) = Some res"
    show "?P p' force' b ds res"
    proof (cases "chunk_turn_of p' force' b")
      case (Stop final r)
      then show ?thesis using run turn_stop_forced [of p' b final r] by auto
    next
      case (Emit c r)
      then show ?thesis using run ih by auto
    qed
  qed
  then show ?thesis by simp
qed

lemma chunk_loop_free: "\<not> contains b fence \<Longrightarrow> 0 < max_chars p \<Longrightarrow> \<exists>cs rest. ready_loop p force b [] = Some (cs, rest)"
  by (rule ready_loop_terminates [where J = "\<lambda>b. \<not> contains b fence"]) (use free_turn in blast)+



section \<open>A line that never ends\<close>

lemma startswith_fence: "startswith (x # s) fence \<Longrightarrow> x \<in> set fence"
  unfolding startswith_iff fence_def by (auto simp: numeral_3_eq_3)

lemma fence_count_run: "c \<notin> set fence \<Longrightarrow> k \<le> j \<Longrightarrow> fence_count k (replicate j c @ t) = 0"
proof (induction j arbitrary: k)
  case (Suc j)
  have "\<not> startswith (replicate (Suc j) c @ t) fence" using startswith_fence Suc(2) by auto
  then show ?case using Suc by (auto simp: fence_count.simps [of k])
qed (simp add: fence_count.simps)

text \<open>A fence and the run of other characters that fills a message.\<close>

definition long_opener :: "nat \<Rightarrow> char \<Rightarrow> string" where
  "long_opener l c = fence @ replicate (l - 3) c"

lemma long_opener_simps:
  assumes "3 \<le> l" "c \<notin> set fence" "\<not> py_isspace c"
  shows "length (long_opener l c) = l" "strip (long_opener l c) = long_opener l c" "newline \<notin> set (long_opener l c)"
    "lstrip (long_opener l c @ s) = long_opener l c @ s"
proof -
  have f: "fence \<noteq> []" "length fence = 3" "\<not> py_isspace (hd fence)" "list_all (\<lambda>x. \<not> py_isspace x) fence" "py_isspace newline" by code_simp+
  then have sp: "\<not> py_isspace x" if "x \<in> set (long_opener l c)" for x
    using that assms(3) by (auto simp: long_opener_def list_all_iff split: if_splits)
  show "length (long_opener l c) = l" using assms(1) f(2) by (simp add: long_opener_def)
  show "strip (long_opener l c) = long_opener l c" using not_space_strip sp by blast
  show "newline \<notin> set (long_opener l c)" using sp f(5) by blast
  show "lstrip (long_opener l c @ s) = long_opener l c @ s"
  proof -
    obtain x xs where x: "fence = x # xs" using f(1) by (cases fence) auto
    show ?thesis using f(3) unfolding long_opener_def lstrip_def x by simp
  qed
qed

lemma long_opener_inside:
  assumes "3 \<le> l" "c \<notin> set fence" "0 < q" "q \<le> l"
  shows "inside_code_fence (long_opener l c @ t) q"
proof -
  have "length fence = 3" by code_simp
  then have "fence_count q (long_opener l c @ t) = Suc (fence_count (q - 3) (replicate (l - 3) c @ t))"
    using assms(3) by (simp add: fence_count.simps [of q] long_opener_def)
  then show ?thesis using fence_count_run [OF assms(2), of "q - 3" "l - 3" t] assms(4) by (simp add: inside_code_fence_def)
qed

lemma long_opener_rfind:
  assumes "3 \<le> l" "c \<notin> set fence"
  shows "rfind fence (long_opener l c) = Some 0"
proof -
  have f: "length fence = 3" by code_simp
  have "i = 0" if i: "startswith (drop i (long_opener l c)) fence" for i
  proof (rule ccontr)
    assume "i \<noteq> 0"
    obtain t where t: "drop i (long_opener l c) = fence @ t" using i startswith_iff by blast
    then have "drop (i + 2) (long_opener l c) = drop 2 fence @ t" using f drop_drop [of 2 i "long_opener l c"] by (simp add: add.commute)
    moreover have "drop (i + 2) (long_opener l c) = replicate (l - 3 - (i - 1)) c"
      using \<open>i \<noteq> 0\<close> f by (simp add: long_opener_def)
    ultimately have "set (drop 2 fence) \<subseteq> {c}" by (metis set_append set_replicate_conv_if Un_subset_iff empty_subsetI order_refl)
    moreover have "drop 2 fence = [hd fence]" "hd fence \<in> set fence" by code_simp+
    ultimately show False using assms(2) by auto
  qed
  moreover have "rfind fence (long_opener l c) \<noteq> None"
    unfolding rfind_def find_None_iff long_opener_def using startswith_append [of fence "replicate (l - 3) c"]
    by (auto intro!: exI [of _ 0] simp del: upt_Suc)
  ultimately show ?thesis unfolding rfind_def by (metis find_SomeD option.exhaust)
qed

lemma long_opener_turn:
  assumes l: "max_chars p = l" "3 \<le> l" and c: "c \<notin> set fence" "\<not> py_isspace c" and t: "t \<noteq> []"
  shows "\<exists>d. chunk_turn_of p True (long_opener l c @ t) = Emit d (long_opener l c @ newline # dropWhile (\<lambda>x. x = newline) t)"
proof -
  let ?m = "long_opener l c" and ?b = "long_opener l c @ t"
  note m = long_opener_simps [OF l(2) c]
  have s: "find_split ?b l = l"
    using find_split_cases [of ?b l] find_split_le [of ?b l] long_opener_inside [OF l(2) c(1), of "find_split ?b l" t] m(1)
    by (auto simp: is_safe_split_def safe_limit_def)
  have i: "inside_code_fence ?b l" using long_opener_inside [OF l(2) c(1)] l(2) by simp
  have "find_from [newline] 0 ?m = None"
    using m(3) unfolding find_from_def find_None_iff by (auto simp: startswith_iff dest!: in_set_dropD [of newline])
      (metis in_set_dropD list.set_intros(1))
  then have "open_code_fence_marker ?b l = ?m"
    using long_opener_rfind [OF l(2) c(1)] m(1,2) by (simp add: open_code_fence_marker_def Let_def) (simp add: long_opener_def)
  then have "\<exists>d. d \<noteq> [] \<and> split_readable_chunk ?b l = (d, ?m @ newline # dropWhile (\<lambda>x. x = newline) t)"
    using i m(1) by (simp add: split_readable_chunk_def Let_def) (simp add: fence_def)
  moreover have "?b \<noteq> []" "l < length ?b" using m(1) t by auto
  ultimately show ?thesis using s l(1) m(4) by (auto simp: chunk_turn_of_def Let_def)
qed

text \<open>C39. The one way not to return: a code fence whose opening line fills a message is repeated at the head of every remainder, so
  cutting the final messages never ends.\<close>

theorem long_code_line_hangs:
  assumes "3 \<le> final_max_chars (sc_policy k)" "c \<notin> set fence" "\<not> py_isspace c"
    and "sc_buffer k = fence @ replicate n c" "final_max_chars (sc_policy k) < n + 3"
  shows "final_chunks numbered k = None"
proof -
  let ?p = "final_policy (sc_policy k)" and ?l = "final_max_chars (sc_policy k)"
  let ?m = "long_opener ?l c" and ?j = "n + 3 - ?l"
  have l: "max_chars ?p = ?l" "?j \<noteq> 0" using assms(5) by (simp_all add: final_policy_def)
  note turn = long_opener_turn [OF l(1) assms(1-3)]
  have nl: "c \<noteq> newline" using assms(3) by (auto simp: newline_def py_isspace_def code_point_def)
  then have d: "dropWhile (\<lambda>x. x = newline) (replicate ?j c) = replicate ?j c" by (cases ?j) auto
  have "sc_buffer k = ?m @ replicate ?j c"
    using assms(1,4,5) by (simp add: long_opener_def flip: replicate_add)
  moreover have "ready_loop ?p True (?m @ replicate ?j c) [] = None"
  proof (rule ccontr)
    assume "ready_loop ?p True (?m @ replicate ?j c) [] \<noteq> None"
    then obtain cs rest where r: "ready_loop ?p True (?m @ replicate ?j c) [] = Some (cs, rest)" by auto
    have "\<exists>t. rest = ?m @ t \<and> (t = replicate ?j c \<or> t = newline # replicate ?j c)"
      using r
    proof (rule ready_loop_invariant [where I = "\<lambda>ds b. \<exists>t. b = ?m @ t \<and> (t = replicate ?j c \<or> t = newline # replicate ?j c)"])
      fix b ds final r'
      assume "chunk_turn_of ?p True b = Stop final r'" "\<exists>t. b = ?m @ t \<and> (t = replicate ?j c \<or> t = newline # replicate ?j c)"
      then show "\<exists>t. r' = ?m @ t \<and> (t = replicate ?j c \<or> t = newline # replicate ?j c)"
        using turn [of "replicate ?j c"] turn [of "newline # replicate ?j c"] l(2) by auto
    next
      fix b ds e r'
      assume "chunk_turn_of ?p True b = Emit e r'" "\<exists>t. b = ?m @ t \<and> (t = replicate ?j c \<or> t = newline # replicate ?j c)"
      then show "\<exists>t. r' = ?m @ t \<and> (t = replicate ?j c \<or> t = newline # replicate ?j c)"
        using turn [of "replicate ?j c"] turn [of "newline # replicate ?j c"] l(2) d by auto
    qed auto
    then show False using ready_loop_rest_forced [OF r] l(2) by auto
  qed
  ultimately show ?thesis by (simp add: final_chunks_def ready_chunks_def)
qed

theorem long_code_line_hangs_witness:
  "final_chunks True \<lparr>sc_policy = default_chunk_policy, sc_buffer = fence @ replicate 4000 (CHR ''x'')\<rparr> = None"
proof -
  have "CHR ''x'' \<notin> set fence" "\<not> py_isspace (CHR ''x'')" by code_simp+
  then show ?thesis
    using long_code_line_hangs [of "\<lparr>sc_policy = default_chunk_policy, sc_buffer = fence @ replicate 4000 (CHR ''x'')\<rparr>" "CHR ''x''" 4000 True]
    by (simp add: default_chunk_policy_def)
qed

section \<open>Sessions\<close>

lemma free_rest_suffix:
  assumes "ready_loop p force b [] = Some (cs, rest)" "\<not> contains b fence" "0 < max_chars p"
  shows "\<exists>a. b = a @ rest"
proof -
  have "(\<exists>a. b = a @ rest) \<and> \<not> contains rest fence"
    using assms(1)
  proof (rule ready_loop_invariant [where I = "\<lambda>ds r. (\<exists>a. b = a @ r) \<and> \<not> contains r fence"])
    fix b' ds final r
    assume t: "chunk_turn_of p force b' = Stop final r" and i: "(\<exists>a. b = a @ b') \<and> \<not> contains b' fence"
    have "\<not> contains [] fence" by code_simp
    then show "(\<exists>a. b = a @ r) \<and> \<not> contains r fence" using turn_stop [OF t] i by auto
  next
    fix b' ds c r
    assume t: "chunk_turn_of p force b' = Emit c r" and i: "(\<exists>a. b = a @ b') \<and> \<not> contains b' fence"
    have suf: "\<exists>a. b = a @ lstrip (drop n b')" for n
      using i lstrip_suffix [of "drop n b'"] by (metis append.assoc append_take_drop_id)
    from t have "\<exists>a. b = a @ r"
    proof (cases rule: turn_emit)
      case fenced
      then show ?thesis using not_inside_free i by simp
    qed (simp_all add: suf)
    then show "(\<exists>a. b = a @ r) \<and> \<not> contains r fence" using free_turn [OF _ assms(3) t] i by simp
  qed (use assms(2) in auto)
  then show ?thesis by simp
qed

lemma free_ready_loop:
  assumes "\<not> contains b fence" "0 < max_chars p"
  obtains cs rest a where "ready_loop p force b [] = Some (cs, rest)" "concat (map visible cs) @ visible rest = visible b" "b = a @ rest"
    "force \<Longrightarrow> rest = []"
proof -
  obtain cs rest where r: "ready_loop p force b [] = Some (cs, rest)"
    using chunk_loop_free [OF assms] by blast
  obtain a where a: "b = a @ rest" using free_rest_suffix [OF r assms] by blast
  show ?thesis
  proof (rule that [OF r free_chunks_visible [OF r assms] a])
    show "force \<Longrightarrow> rest = []" using ready_loop_rest_forced [of p b "[]" cs rest] r by simp
  qed
qed

lemma send_bodies_sent: "send_bodies chat cs m = m\<lparr>om_sent := om_sent m @ map (\<lambda>(c, b). SendBody chat c b) cs\<rparr>"
  unfolding send_bodies_def by (induction cs arbitrary: m) (auto simp: transport_def)

definition body :: "int \<Rightarrow> string \<Rightarrow> transport_call" where
  "body chat c = SendBody chat c []"

lemma map_body: "map ((\<lambda>(c, b). SendBody chat c b) \<circ> (\<lambda>c. (c, []))) cs = map (body chat) cs"
  by (simp add: body_def)

text \<open>An open session with its buffer and its chunk sizes.\<close>

definition open_session :: "output_run_key \<Rightarrow> chunk_policy \<Rightarrow> string \<Rightarrow> telegram_output_manager \<Rightarrow> bool" where
  "open_session key p b m \<longleftrightarrow> (\<exists>s. om_sessions m key = Some s \<and> \<not> to_is_closed s \<and> to_chunker s = \<lparr>sc_policy = p, sc_buffer = b\<rparr>)"

lemma append_free:
  assumes "open_session key p b m" "\<not> contains (b @ t) fence" "0 < max_chars p"
  shows "\<exists>m' cs r a. output_append_text key t m = Some m' \<and> open_session key p r m' \<and> b @ t = a @ r \<and>
    om_sent m' = om_sent m @ map (body (ok_chat_id key)) cs \<and> concat (map visible cs) @ visible r = visible (b @ t)"
proof -
  obtain s where s: "om_sessions m key = Some s" "\<not> to_is_closed s" "to_chunker s = \<lparr>sc_policy = p, sc_buffer = b\<rparr>"
    using assms(1) by (auto simp: open_session_def)
  have k: "chunker_append t (to_chunker s) = \<lparr>sc_policy = p, sc_buffer = b @ t\<rparr>" using s(3) by (simp add: chunker_append_def)
  obtain cs r a where r: "ready_loop p False (b @ t) [] = Some (cs, r)" "concat (map visible cs) @ visible r = visible (b @ t)" "b @ t = a @ r"
    using free_ready_loop [OF assms(2,3), of False] by metis
  show ?thesis
  proof (cases "body_mode_for m (to_surface s) = ''semantic_blocks''")
    case True
    have "\<exists>m'. output_append_text key t m = Some m' \<and> open_session key p r m' \<and> om_sent m' = om_sent m @ map (body (ok_chat_id key)) cs"
      using s k r True
      by (auto simp: output_append_text_def flush_body_chunks_def ready_chunks_def Let_def send_bodies_sent put_session_def open_session_def
          schedule_idle_flush_def cancel_idle_flush_def map_body)
    then show ?thesis using r(2,3) by blast
  next
    case False
    then have "\<exists>m'. output_append_text key t m = Some m' \<and> open_session key p (b @ t) m' \<and> om_sent m' = om_sent m"
      using s k by (auto simp: output_append_text_def Let_def put_session_def open_session_def)
    then show ?thesis by (metis append_Nil append_Nil2 concat.simps(1) list.simps(8))
  qed
qed

primrec output_append_all :: "output_run_key \<Rightarrow> string list \<Rightarrow> telegram_output_manager \<Rightarrow> telegram_output_manager option" where
  "output_append_all key [] m = Some m"
| "output_append_all key (t # ts) m = Option.bind (output_append_text key t m) (output_append_all key ts)"

lemma append_all_free:
  assumes "open_session key p b m" "\<not> contains (b @ concat ts) fence" "0 < max_chars p"
  shows "\<exists>m' cs r a. output_append_all key ts m = Some m' \<and> open_session key p r m' \<and> b @ concat ts = a @ r \<and>
    om_sent m' = om_sent m @ map (body (ok_chat_id key)) cs \<and> concat (map visible cs) @ visible r = visible (b @ concat ts)"
  using assms(1,2)
proof (induction ts arbitrary: b m)
  case Nil
  then have "output_append_all key [] m = Some m \<and> open_session key p b m \<and> b @ concat [] = [] @ b \<and>
    om_sent m = om_sent m @ map (body (ok_chat_id key)) [] \<and> concat (map visible []) @ visible b = visible (b @ concat [])" by simp
  then show ?case by blast
next
  case (Cons t ts)
  have "\<not> contains (b @ t) fence" using Cons(3) contains_prefix [of "b @ t" fence "concat ts"] by auto
  from append_free [OF Cons(2) this assms(3)] obtain m1 cs r a
    where m1: "output_append_text key t m = Some m1" "open_session key p r m1" "b @ t = a @ r"
      "om_sent m1 = om_sent m @ map (body (ok_chat_id key)) cs" "concat (map visible cs) @ visible r = visible (b @ t)" by blast
  have "b @ concat (t # ts) = a @ (r @ concat ts)" using m1(3) by (metis append.assoc concat.simps(2))
  then have "\<not> contains (r @ concat ts) fence" using Cons(3) contains_suffix by metis
  from Cons(1) [OF m1(2) this] obtain m2 ds q a' where m2: "output_append_all key ts m1 = Some m2" "open_session key p q m2"
      "r @ concat ts = a' @ q" "om_sent m2 = om_sent m1 @ map (body (ok_chat_id key)) ds" "concat (map visible ds) @ visible q = visible (r @ concat ts)"
    by blast
  have v: "concat (map visible (cs @ ds)) @ visible q = visible (b @ concat (t # ts))"
    using m1(5) m2(5) by (simp add: visible_append)
  have "b @ concat (t # ts) = (a @ a') @ q" using m1(3) m2(3) by (metis append.assoc concat.simps(2))
  then show ?case using m1(1,4) m2(1,2,4) v
    by (intro exI [of _ m2] exI [of _ "cs @ ds"] exI [of _ q] exI [of _ "a @ a'"]) simp
qed

definition final_parts :: "string list \<Rightarrow> string list" where
  "final_parts fs = (if length fs > 1 then number_parts fs else fs)"

definition is_body :: "transport_call \<Rightarrow> bool" where
  "is_body c = (case c of SendBody _ _ _ \<Rightarrow> True | _ \<Rightarrow> False)"

lemma complete_free:
  assumes "open_session key p b m" "\<not> contains b fence" "0 < final_max_chars p"
  shows "\<exists>m' fs tail. output_complete key buttons status m = Some m' \<and> om_sessions m' key = None \<and> concat (map visible fs) = visible b \<and>
    om_sent m' = om_sent m @ map (\<lambda>(c, bt). SendBody (ok_chat_id key) c bt)
      (button_last buttons (final_parts fs)) @ tail \<and> \<not> list_ex is_body tail"
proof -
  obtain s where s: "om_sessions m key = Some s" "\<not> to_is_closed s" "to_chunker s = \<lparr>sc_policy = p, sc_buffer = b\<rparr>"
    using assms(1) by (auto simp: open_session_def)
  have "0 < max_chars (final_policy p)" using assms(3) by (simp add: final_policy_def)
  from free_ready_loop [OF assms(2) this, of True] obtain fs
    where fs: "ready_loop (final_policy p) True b [] = Some (fs, [])" "concat (map visible fs) = visible b"
    by (metis append_Nil2 list.simps(8) filter.simps(1) visible_def)
  let ?cs = "final_parts fs"
  have fc: "final_chunks True (to_chunker s) = Some (?cs, \<lparr>sc_policy = p, sc_buffer = []\<rparr>)"
    using fs(1) s(3) by (simp add: final_chunks_def ready_chunks_def final_parts_def)
  define m1 where "m1 = put_session key ((cancel_idle_flush s)\<lparr>to_chunker := \<lparr>sc_policy = p, sc_buffer = []\<rparr>\<rparr>) m"
  define m2 where "m2 = (if ?cs \<noteq> [] then send_bodies (ok_chat_id key) (button_last buttons ?cs) m1
      else if buttons \<noteq> [] \<or> to_preview_message_id s = None then transport (SendStatus (ok_chat_id key) status buttons) m1 else m1)"
  have "\<exists>tail. om_sent m2 = om_sent m @ map (\<lambda>(c, bt). SendBody (ok_chat_id key) c bt) (button_last buttons ?cs) @ tail \<and>
      \<not> list_ex is_body tail"
    unfolding m2_def m1_def by (auto simp: is_body_def send_bodies_sent put_session_def transport_def button_last_def)
  moreover have "\<exists>tail. om_sent (output_update_status key status True m2) = om_sent m2 @ tail \<and> \<not> list_ex is_body tail"
    unfolding output_update_status_def by (auto simp: is_body_def put_session_def transport_def split: option.split)
  ultimately have "\<exists>tail. om_sent (if to_preview_message_id s = None then m2 else output_update_status key status True m2) =
      om_sent m @ map (\<lambda>(c, bt). SendBody (ok_chat_id key) c bt) (button_last buttons ?cs) @ tail \<and> \<not> list_ex is_body tail"
    by (auto simp: list_ex_iff)
  moreover have "output_complete key buttons status m =
      Some (close_session key (if to_preview_message_id s = None then m2 else output_update_status key status True m2))"
    using s(1) fc by (simp add: output_complete_def Let_def m2_def m1_def)
  ultimately show ?thesis using fs(2) by (auto simp: close_session_def pop_session_def)
qed

text \<open>C24. A stream of text reaches the chat whole: however an answer without code arrives in pieces and whichever body mode sends it, appending the
  pieces and completing the run returns, closes the session, and the messages sent hold every visible character of the answer once and in order; only the last
  of them carries the buttons, and nothing else is sent as body.\<close>

theorem stream_delivered:
  assumes "open_session key p b m" "\<not> contains (b @ concat ts) fence" "0 < max_chars p" "0 < final_max_chars p"
  shows "\<exists>m' cs fs tail. Option.bind (output_append_all key ts m) (output_complete key buttons status) = Some m' \<and> om_sessions m' key = None \<and>
    concat (map visible (cs @ fs)) = visible (b @ concat ts) \<and>
    om_sent m' = om_sent m @ map (body (ok_chat_id key)) cs @
      map (\<lambda>(c, bt). SendBody (ok_chat_id key) c bt) (button_last buttons (final_parts fs)) @ tail \<and>
    \<not> list_ex is_body tail"
proof -
  obtain m1 cs r a where m1: "output_append_all key ts m = Some m1" "open_session key p r m1" "b @ concat ts = a @ r"
      "om_sent m1 = om_sent m @ map (body (ok_chat_id key)) cs" "concat (map visible cs) @ visible r = visible (b @ concat ts)"
    using append_all_free [OF assms(1-3)] by blast
  have "\<not> contains r fence" using assms(2) contains_suffix m1(3) by metis
  from complete_free [OF m1(2) this assms(4), of buttons status] obtain m' fs tail
    where m': "output_complete key buttons status m1 = Some m'" "om_sessions m' key = None" "concat (map visible fs) = visible r"
      "om_sent m' = om_sent m1 @ map (\<lambda>(c, bt). SendBody (ok_chat_id key) c bt) (button_last buttons (final_parts fs)) @ tail" "\<not> list_ex is_body tail"
    by blast
  then show ?thesis using m1(1,4,5)
    by (intro exI [of _ m'] exI [of _ cs] exI [of _ tail] exI [of _ fs]) simp
qed

definition demo_key :: output_run_key where
  "demo_key = \<lparr>ok_chat_id = 7, ok_conversation_id = 1, ok_run_id = ''r''\<rparr>"

definition demo_manager :: telegram_output_manager where
  "demo_manager = \<lparr>om_policy = default_chunk_policy, om_preview_enabled = True, om_preview_edit_min_interval = 2,
     om_product_body_mode = ''final'', om_terminal_body_mode = ''semantic_blocks'', om_terminal_block_idle = 2, om_now = 0,
     om_sessions = Map.empty, om_sent = []\<rparr>"

theorem stream_delivered_witness:
  "\<exists>m' cs fs. Option.bind (output_append_all demo_key [''All '', ''done.''] (output_start demo_key Terminal (StatusText ''go'') 3 demo_manager))
      (output_complete demo_key [] (StatusText ''done'')) = Some m' \<and> om_sessions m' demo_key = None \<and>
    concat (map visible (cs @ fs)) = ''Alldone.''"
proof -
  have o: "open_session demo_key default_chunk_policy [] (output_start demo_key Terminal (StatusText ''go'') 3 demo_manager)"
    by (simp add: open_session_def output_start_def demo_manager_def put_session_def)
  have "\<not> contains ([] @ concat [''All '', ''done.'']) fence" "visible ([] @ concat [''All '', ''done.'']) = ''Alldone.''" by code_simp+
  then show ?thesis using stream_delivered [OF o, of "[''All '', ''done.'']" "[]" "StatusText ''done''"]
    unfolding default_chunk_policy_def by auto
qed

end
