(* ===== verification/Telegram_Outbox.thy ===== *)
theory Telegram_Outbox
  imports Redaction
begin

text \<open>
  \<^verbatim>\<open>wlcodex/telegram_outbox.py\<close>: the queue of chat deliveries with its retries. What the network answers to each attempt
  of each request is a parameter, as are the hash of a delivery id, the redaction of a preview and the random part of
  a delay. An event is its type and payload. A delay is in hundredths of a second, as the event rounds it.
\<close>

section \<open>Requests\<close>

datatype delivery_operation = SendOp | EditOp | AnswerCallbackOp

fun operation_value :: "delivery_operation \<Rightarrow> string" where
  "operation_value SendOp = ''send''"
| "operation_value EditOp = ''edit''"
| "operation_value AnswerCallbackOp = ''answer_callback''"

record delivery_request =
  dr_operation :: delivery_operation
  dr_chat_id :: int
  dr_delivery_id :: string
  dr_text :: string
  dr_message_id :: int
  dr_has_fn :: bool
  dr_result_message_id :: int
  dr_attempts :: nat
  dr_last_error :: string
  dr_last_error_type :: string

definition new_request :: "delivery_operation \<Rightarrow> int \<Rightarrow> string \<Rightarrow> string \<Rightarrow> int \<Rightarrow> bool \<Rightarrow> delivery_request" where
  "new_request op chat i t message has_fn =
     \<lparr>dr_operation = op, dr_chat_id = chat, dr_delivery_id = i, dr_text = t, dr_message_id = message, dr_has_fn = has_fn,
      dr_result_message_id = -1, dr_attempts = 0, dr_last_error = [], dr_last_error_type = []\<rparr>"

definition make_delivery_id :: "(string \<Rightarrow> string) \<Rightarrow> delivery_operation \<Rightarrow> int \<Rightarrow> string \<Rightarrow> int \<Rightarrow> string" where
  "make_delivery_id sha256 op chat t message =
     take 16 (sha256 (operation_value op @ '':'' @ int_str chat @ '':'' @ int_str message @ '':'' @ take 200 t))"

text \<open>What an attempt gives: the id of the message, or the class and text of the exception.\<close>

datatype attempt_outcome = Delivered int | Raised string string

definition retryable_keywords :: "string list" where
  "retryable_keywords = [''timed out'', ''timeout'', ''connection reset'', ''connection refused'', ''network'', ''too many requests'',
     ''retry after'', ''server error'', ''503'', ''502'', ''504'']"

definition is_retryable :: "string \<Rightarrow> string \<Rightarrow> bool" where
  "is_retryable exc_name message \<longleftrightarrow> exc_name \<in> set [''TimedOut'', ''NetworkError'', ''ConnectionError''] \<or>
     list_ex (contains (py_lower message)) retryable_keywords"

definition is_not_modified :: "string \<Rightarrow> bool" where
  "is_not_modified message = contains (py_lower message) ''message is not modified''"

section \<open>The outbox\<close>

datatype waiter = Waiting | Resolved int

record telegram_outbox =
  tb_has_store :: bool
  tb_max_retries :: nat
  tb_queue :: "delivery_request list"
  tb_processing :: bool
  tb_waiters :: "string \<rightharpoonup> waiter"
  tb_waitable_send_sequence :: nat
  tb_events :: "(string \<times> dict) list"

definition outbox_emit :: "string \<Rightarrow> dict \<Rightarrow> telegram_outbox \<Rightarrow> telegram_outbox" where
  "outbox_emit ty payload ob = (if tb_has_store ob then ob\<lparr>tb_events := tb_events ob @ [(ty, payload)]\<rparr> else ob)"

definition safe_text_preview :: "(string \<Rightarrow> string) \<Rightarrow> string \<Rightarrow> string" where
  "safe_text_preview redact t = take 200 (redact (take 400 t))"

definition emit_enqueued :: "(string \<Rightarrow> string) \<Rightarrow> delivery_request \<Rightarrow> telegram_outbox \<Rightarrow> telegram_outbox" where
  "emit_enqueued redact r =
     outbox_emit ''telegram.delivery.enqueued''
       [(''delivery_id'', JStr (dr_delivery_id r)), (''operation'', JStr (operation_value (dr_operation r))),
        (''chat_id'', JInt (dr_chat_id r)), (''message_id'', JInt (dr_message_id r)),
        (''text_preview'', JStr (safe_text_preview redact (dr_text r))), (''text_length'', JInt (int (length (dr_text r))))]"

definition outbox_enqueue :: "(string \<Rightarrow> string) \<Rightarrow> delivery_request \<Rightarrow> telegram_outbox \<Rightarrow> string \<times> telegram_outbox" where
  "outbox_enqueue redact r ob = (dr_delivery_id r, emit_enqueued redact r (ob\<lparr>tb_queue := tb_queue ob @ [r]\<rparr>))"

definition enqueue_send ::
  "(string \<Rightarrow> string) \<Rightarrow> (string \<Rightarrow> string) \<Rightarrow> int \<Rightarrow> string \<Rightarrow> bool \<Rightarrow> string option \<Rightarrow> telegram_outbox \<Rightarrow> string \<times> telegram_outbox" where
  "enqueue_send sha256 redact chat t has_fn given =
     outbox_enqueue redact (new_request SendOp chat
       (case given of None \<Rightarrow> make_delivery_id sha256 SendOp chat t 0
        | Some i \<Rightarrow> if i = [] then make_delivery_id sha256 SendOp chat t 0 else i) t 0 has_fn)"

definition enqueue_edit ::
  "(string \<Rightarrow> string) \<Rightarrow> (string \<Rightarrow> string) \<Rightarrow> int \<Rightarrow> int \<Rightarrow> string \<Rightarrow> bool \<Rightarrow> telegram_outbox \<Rightarrow> string \<times> telegram_outbox" where
  "enqueue_edit sha256 redact chat message t has_fn =
     outbox_enqueue redact (new_request EditOp chat (make_delivery_id sha256 EditOp chat t message) t message has_fn)"

definition enqueue_answer_callback ::
  "(string \<Rightarrow> string) \<Rightarrow> (string \<Rightarrow> string) \<Rightarrow> string \<Rightarrow> bool \<Rightarrow> telegram_outbox \<Rightarrow> string \<times> telegram_outbox" where
  "enqueue_answer_callback sha256 redact t has_fn =
     outbox_enqueue redact (new_request AnswerCallbackOp 0 (make_delivery_id sha256 AnswerCallbackOp 0 t 0) t 0 has_fn)"

text \<open>\<open>enqueue_send_wait\<close> up to its wait, and from the end of the wait on: the result, or \<open>-1\<close> after a timeout.\<close>

definition enqueue_send_wait ::
  "(string \<Rightarrow> string) \<Rightarrow> (string \<Rightarrow> string) \<Rightarrow> int \<Rightarrow> string \<Rightarrow> bool \<Rightarrow> telegram_outbox \<Rightarrow> string \<times> telegram_outbox" where
  "enqueue_send_wait sha256 redact chat t has_fn ob =
     (let n = Suc (tb_waitable_send_sequence ob);
          i = make_delivery_id sha256 SendOp chat t 0 @ ''-wait-'' @ nat_str n;
          o1 = snd (enqueue_send sha256 redact chat t has_fn (Some i) (ob\<lparr>tb_waitable_send_sequence := n\<rparr>)) in
      (i, o1\<lparr>tb_waiters := (tb_waiters o1)(i \<mapsto> Waiting)\<rparr>))"

definition send_wait_result :: "string \<Rightarrow> telegram_outbox \<Rightarrow> int \<times> telegram_outbox" where
  "send_wait_result i ob =
     (case tb_waiters ob i of Some (Resolved n) \<Rightarrow> n | _ \<Rightarrow> -1, ob\<lparr>tb_waiters := (tb_waiters ob)(i := None)\<rparr>)"

definition resolve_waiter :: "string \<Rightarrow> int \<Rightarrow> telegram_outbox \<Rightarrow> telegram_outbox" where
  "resolve_waiter i n ob =
     (case tb_waiters ob i of Some Waiting \<Rightarrow> ob\<lparr>tb_waiters := (tb_waiters ob)(i \<mapsto> Resolved n)\<rparr> | _ \<Rightarrow> ob)"

section \<open>Delivery\<close>

definition backoff :: "int \<Rightarrow> nat \<Rightarrow> int" where
  "backoff jitter attempt = min (100 * 2 ^ (attempt - 1)) 6000 + jitter"

text \<open>A request without a function does nothing and keeps its result.\<close>

definition execute_request :: "attempt_outcome \<Rightarrow> delivery_request \<Rightarrow> (string \<times> string) + delivery_request" where
  "execute_request answer r =
     (if \<not> dr_has_fn r then Inr r
      else case answer of
        Raised ty message \<Rightarrow> Inl (ty, message)
      | Delivered n \<Rightarrow> Inr (if dr_operation r = SendOp then r\<lparr>dr_result_message_id := n\<rparr> else r))"

definition delivered :: "nat \<Rightarrow> delivery_request \<Rightarrow> telegram_outbox \<Rightarrow> telegram_outbox" where
  "delivered attempt r ob =
     (case dr_operation r of
        SendOp \<Rightarrow> resolve_waiter (dr_delivery_id r) (dr_result_message_id r) (outbox_emit ''telegram.message.sent''
          [(''delivery_id'', JStr (dr_delivery_id r)), (''message_id'', JInt (dr_result_message_id r)), (''chat_id'', JInt (dr_chat_id r)),
           (''operation'', JStr ''send''), (''attempt'', JInt (int attempt))] ob)
      | EditOp \<Rightarrow> outbox_emit ''telegram.message.edited''
          [(''delivery_id'', JStr (dr_delivery_id r)), (''message_id'', JInt (dr_message_id r)), (''chat_id'', JInt (dr_chat_id r)),
           (''operation'', JStr ''edit''), (''attempt'', JInt (int attempt))] ob
      | AnswerCallbackOp \<Rightarrow> ob)"

definition failed_payload :: "nat \<Rightarrow> delivery_request \<Rightarrow> bool \<Rightarrow> dict" where
  "failed_payload attempt r retryable =
     [(''delivery_id'', JStr (dr_delivery_id r)), (''operation'', JStr (operation_value (dr_operation r))),
      (''attempt'', JInt (int attempt)), (''error_type'', JStr (dr_last_error_type r)), (''retryable'', JBool retryable)]"

definition give_up :: "nat \<Rightarrow> delivery_request \<Rightarrow> telegram_outbox \<Rightarrow> telegram_outbox" where
  "give_up attempt r ob =
     (let o1 = outbox_emit ''telegram.message.failed'' (failed_payload attempt r False) ob;
          o2 = (if attempt \<ge> tb_max_retries o1 then outbox_emit ''telegram.outbox.gave_up''
                  [(''delivery_id'', JStr (dr_delivery_id r)), (''attempts'', JInt (int attempt))] o1 else o1) in
      resolve_waiter (dr_delivery_id r) (-1) o2)"

definition schedule_retry :: "int \<Rightarrow> nat \<Rightarrow> delivery_request \<Rightarrow> telegram_outbox \<Rightarrow> telegram_outbox" where
  "schedule_retry jitter attempt r ob =
     outbox_emit ''telegram.outbox.retry_scheduled''
       [(''delivery_id'', JStr (dr_delivery_id r)), (''next_attempt'', JInt (int attempt + 1)), (''delay_seconds'', JInt (backoff jitter attempt))]
       (outbox_emit ''telegram.message.failed'' (failed_payload attempt r True) ob)"

definition started_payload :: "nat \<Rightarrow> delivery_request \<Rightarrow> dict" where
  "started_payload attempt r =
     [(''delivery_id'', JStr (dr_delivery_id r)), (''operation'', JStr (operation_value (dr_operation r))),
      (''attempt'', JInt (int attempt)), (''chat_id'', JInt (dr_chat_id r))]"

text \<open>The loop over the attempts from \<open>attempt\<close> to \<open>max_retries\<close>; \<open>net\<close> gives the answer and the jitter of each attempt.\<close>

function deliver_from :: "(nat \<Rightarrow> attempt_outcome \<times> int) \<Rightarrow> nat \<Rightarrow> delivery_request \<Rightarrow> telegram_outbox \<Rightarrow> delivery_request \<times> telegram_outbox" where
  "deliver_from net attempt r0 o0 =
     (if attempt > tb_max_retries o0 then (r0, o0)
      else
        let r = r0\<lparr>dr_attempts := attempt\<rparr>; ob = outbox_emit ''telegram.delivery.started'' (started_payload attempt r) o0 in
        case execute_request (fst (net attempt)) r of
          Inr r' \<Rightarrow> (r', delivered attempt r' ob)
        | Inl (ty, message) \<Rightarrow>
            let r' = r\<lparr>dr_last_error := message, dr_last_error_type := ty\<rparr> in
            if is_not_modified message then
              (r', outbox_emit ''telegram.edit.skipped_no_change''
                [(''delivery_id'', JStr (dr_delivery_id r')), (''message_id'', JInt (dr_message_id r'))] ob)
            else if attempt < tb_max_retries ob \<and> is_retryable ty message then
              deliver_from net (Suc attempt) r' (schedule_retry (snd (net attempt)) attempt r' ob)
            else (r', give_up attempt r' ob))"
  by pat_completeness auto
termination
  by (relation "measure (\<lambda>(net, attempt, r, ob). Suc (tb_max_retries ob) - attempt)")
    (auto simp: outbox_emit_def schedule_retry_def)

declare deliver_from.simps [simp del]

definition deliver :: "(delivery_request \<Rightarrow> nat \<Rightarrow> attempt_outcome \<times> int) \<Rightarrow> delivery_request \<Rightarrow> telegram_outbox \<Rightarrow> telegram_outbox" where
  "deliver net r ob = snd (deliver_from (net r) 1 r ob)"

text \<open>The worker takes the first request until the queue is empty.\<close>

primrec process_queue :: "(delivery_request \<Rightarrow> nat \<Rightarrow> attempt_outcome \<times> int) \<Rightarrow> delivery_request list \<Rightarrow> telegram_outbox \<Rightarrow> telegram_outbox" where
  "process_queue net [] ob = ob"
| "process_queue net (r # rs) ob = process_queue net rs (deliver net r (ob\<lparr>tb_queue := rs\<rparr>))"

definition process_all :: "(delivery_request \<Rightarrow> nat \<Rightarrow> attempt_outcome \<times> int) \<Rightarrow> telegram_outbox \<Rightarrow> telegram_outbox" where
  "process_all net ob =
     (if tb_processing ob then ob
      else (process_queue net (tb_queue ob) (ob\<lparr>tb_processing := True\<rparr>))\<lparr>tb_processing := False\<rparr>)"

end
