(* ===== verification/Telegram_Outbox_Properties.thy ===== *)
theory Telegram_Outbox_Properties
  imports Telegram_Outbox
begin

text \<open>
  The outbox of \<^verbatim>\<open>telegram_outbox.py\<close>: how often a request is tried, who hears of the result, and that a run of the worker
  empties the queue in order.
\<close>

section \<open>Reference definitions\<close>









section \<open>One delivery\<close>

named_theorems outbox_simps \<open>fields of the outbox after its helpers\<close>


lemma outbox_emit_fields [outbox_simps]:
  "tb_queue (outbox_emit ty d ob) = tb_queue ob" "tb_processing (outbox_emit ty d ob) = tb_processing ob"
  "tb_max_retries (outbox_emit ty d ob) = tb_max_retries ob" "tb_waiters (outbox_emit ty d ob) = tb_waiters ob"
  "tb_has_store (outbox_emit ty d ob) = tb_has_store ob"
  "tb_events (outbox_emit ty d ob) = tb_events ob @ (if tb_has_store ob then [(ty, d)] else [])"
  by (simp_all add: outbox_emit_def)












section \<open>A run of the worker\<close>














end
