(* ===== verification/Claude_Stream.thy ===== *)
theory Claude_Stream
  imports Redaction
begin

text \<open>
  \<^verbatim>\<open>wlcodex/claude_stream_parser.py\<close>: one line of the provider's JSON stream to runtime events and the text seen so far, and the
  part of \<^verbatim>\<open>claude_backend.py\<close> that reads the lines of a run and yields what the user sees. The JSON decoder is the parameter
  \<open>loads\<close>; \<open>None\<close> is a \<open>JSONDecodeError\<close>.
\<close>

section \<open>Events\<close>

record claude_stream_event =
  ce_runtime_event_type :: string
  ce_runtime_payload :: dict
  ce_agent_delta :: string
  ce_agent_event_type :: string
  ce_agent_usage :: "dict option"
  ce_session_id :: string

definition stream_event :: "string \<Rightarrow> dict \<Rightarrow> claude_stream_event" where
  "stream_event ty payload =
     \<lparr>ce_runtime_event_type = ty, ce_runtime_payload = payload, ce_agent_delta = [], ce_agent_event_type = ''text'',
      ce_agent_usage = None, ce_session_id = []\<rparr>"

definition activity :: "dict \<Rightarrow> claude_stream_event" where
  "activity = stream_event ''agent.run.activity''"

definition text_delta :: "string \<Rightarrow> claude_stream_event" where
  "text_delta t = (stream_event ''model.text.delta'' [(''text'', JStr t)])\<lparr>ce_agent_delta := t\<rparr>"

definition message_completed :: "string \<Rightarrow> claude_stream_event" where
  "message_completed t = stream_event ''model.message.completed'' [(''text'', JStr t)]"

text \<open>\<open>str(d.get(k) or default)\<close>.\<close>

definition str_or :: "dict \<Rightarrow> string \<Rightarrow> string \<Rightarrow> string" where
  "str_or d k alt = py_str (py_or (dget0 d k) (JStr alt))"

type_synonym parsed_line = "claude_stream_event list \<times> string"

section \<open>Stream events\<close>

definition handle_content_block_start :: "dict \<Rightarrow> string \<Rightarrow> parsed_line" where
  "handle_content_block_start event assistant_text =
     (case dget0 event ''content_block'' of
        JDict block \<Rightarrow>
          if dget0 block ''type'' = JStr ''tool_use'' then
            ([stream_event ''tool.call.started''
                [(''tool_name'', JStr (str_or block ''name'' ''unknown'')), (''tool_id'', JStr (str_or block ''id'' []))]], assistant_text)
          else ([activity [(''stream_type'', JStr ''content_block_start''), (''block_type'', JStr (py_str (dget block ''type'' (JStr []))))]],
                assistant_text)
      | _ \<Rightarrow> ([activity [(''stream_type'', JStr ''content_block_start'')]], assistant_text))"

definition delta_of :: "dict \<Rightarrow> dict" where
  "delta_of event = (case dget0 event ''delta'' of JDict d \<Rightarrow> d | _ \<Rightarrow> [])"

definition handle_stream_event :: "dict \<Rightarrow> string \<Rightarrow> parsed_line" where
  "handle_stream_event payload assistant_text =
     (case dget0 payload ''event'' of
        JDict event \<Rightarrow>
          let inner_type = str_or event ''type'' []; delta = delta_of event in
          if inner_type = ''content_block_start'' then handle_content_block_start event assistant_text
          else if dget0 delta ''type'' = JStr ''text_delta'' then
            (case dget0 delta ''text'' of
               JStr t \<Rightarrow> if t = [] then ([activity [(''stream_type'', JStr ''text_delta_empty'')]], assistant_text)
                         else ([text_delta t], assistant_text @ t)
             | _ \<Rightarrow> ([activity [(''stream_type'', JStr ''text_delta_empty'')]], assistant_text))
          else if dget0 delta ''type'' = JStr ''input_json_delta'' then
            ([activity [(''stream_type'', JStr ''input_json_delta''), (''partial_json'', JStr (take 2000 (py_str (dget delta ''partial_json'' (JStr [])))))]],
             assistant_text)
          else ([activity [(''stream_type'', JStr inner_type)]], assistant_text)
      | _ \<Rightarrow> ([activity [(''raw_type'', JStr ''stream_event'')]], assistant_text))"

section \<open>Assistant messages\<close>

definition type_name :: "json \<Rightarrow> string" where
  "type_name v = (case v of JNull \<Rightarrow> ''NoneType'' | JBool _ \<Rightarrow> ''bool'' | JInt _ \<Rightarrow> ''int'' | JStr _ \<Rightarrow> ''str'' | JList _ \<Rightarrow> ''list'' | JDict _ \<Rightarrow> ''dict'')"

definition summarize_tool_input :: "dict \<Rightarrow> dict" where
  "summarize_tool_input d =
     map (\<lambda>(k, v). (k, case v of JStr s \<Rightarrow> JStr (take 500 s) | JInt i \<Rightarrow> JInt i | JBool b \<Rightarrow> JBool b | _ \<Rightarrow> JStr (type_name v))) d"

definition tool_event :: "dict \<Rightarrow> claude_stream_event" where
  "tool_event item =
     (let ids = [(''tool_name'', JStr (str_or item ''name'' ''unknown'')), (''tool_id'', JStr (str_or item ''id'' []))] in
      case dget0 item ''input'' of
        JDict input \<Rightarrow> stream_event ''tool.call.completed'' (ids @ [(''input_summary'', JDict (summarize_tool_input input))])
      | _ \<Rightarrow> stream_event ''tool.call.started'' ids)"

fun content_parts :: "json list \<Rightarrow> string list \<times> claude_stream_event list" where
  "content_parts [] = ([], [])"
| "content_parts (JDict item # items) =
     (let (texts, events) = content_parts items in
      if dget0 item ''type'' = JStr ''text'' then
        (case dget0 item ''text'' of JStr t \<Rightarrow> (t # texts, events) | _ \<Rightarrow> (texts, events))
      else if dget0 item ''type'' = JStr ''tool_use'' then (texts, tool_event item # events)
      else (texts, events))"
| "content_parts (_ # items) = content_parts items"

text \<open>What a complete message adds to the text seen so far: the part that is new when it continues that text, else all of it.\<close>

definition message_delta :: "string \<Rightarrow> string \<Rightarrow> string" where
  "message_delta current assistant_text =
     (if startswith current assistant_text then drop (length assistant_text) current else current)"

definition handle_assistant :: "dict \<Rightarrow> string \<Rightarrow> parsed_line" where
  "handle_assistant payload assistant_text =
     (case dget0 payload ''message'' of
        JDict message \<Rightarrow>
          let closing = [activity [(''message_type'', JStr ''assistant'')]];
              with_text = (\<lambda>current tools.
                if current = [] then (tools @ closing, assistant_text)
                else let delta = message_delta current assistant_text in
                  (message_completed current # tools @ (if delta = [] then [] else [text_delta delta]) @ closing,
                   if delta = [] then assistant_text else current)) in
          (case dget0 message ''content'' of
             JList items \<Rightarrow> (case content_parts items of (texts, tools) \<Rightarrow> with_text (concat texts) tools)
           | JStr current \<Rightarrow> with_text current []
           | _ \<Rightarrow> (closing, assistant_text))
      | _ \<Rightarrow> ([], assistant_text))"

section \<open>Results, system messages, errors and hooks\<close>

definition usage_keys :: "(string \<times> string) list" where
  "usage_keys = [(''input_tokens'', ''input_tokens''), (''output_tokens'', ''output_tokens''),
     (''cache_read_input_tokens'', ''cached_input_tokens''), (''cache_creation_input_tokens'', ''cached_input_tokens'')]"

definition number_of :: "json \<Rightarrow> int option" where
  "number_of v = (case v of JInt i \<Rightarrow> Some i | JBool b \<Rightarrow> Some (if b then 1 else 0) | _ \<Rightarrow> None)"

definition add_count :: "dict \<Rightarrow> string \<times> string \<Rightarrow> (string \<times> int) list \<Rightarrow> (string \<times> int) list" where
  "add_count usage ks counts =
     (case number_of (dget0 usage (fst ks)) of
        None \<Rightarrow> counts
      | Some i \<Rightarrow> dset (snd ks) ((case map_of counts (snd ks) of None \<Rightarrow> 0 | Some n \<Rightarrow> n) + i) counts)"

definition extract_usage :: "dict \<Rightarrow> dict option" where
  "extract_usage payload =
     (case dget0 payload ''usage'' of
        JDict usage \<Rightarrow>
          let counts = fold (add_count usage) usage_keys [] in
          (case (map_of counts ''input_tokens'', map_of counts ''output_tokens'') of
             (Some i, Some j) \<Rightarrow>
               Some (map (\<lambda>(k, n). (k, JInt n)) counts @ [(''total_tokens'', JInt (i + j)), (''source'', JStr ''exact'')])
           | _ \<Rightarrow> None)
      | _ \<Rightarrow> None)"

definition result_failed :: "dict \<Rightarrow> string \<Rightarrow> claude_stream_event" where
  "result_failed payload subtype =
     (let error_text = py_str (py_or (py_or (dget0 payload ''error'') (dget0 payload ''message'')) (JStr [])) in
      (stream_event ''agent.run.failed'' [(''subtype'', JStr subtype), (''error'', JStr (take 2000 error_text))])
        \<lparr>ce_agent_delta := (if error_text = [] then ''Claude Code result status: '' @ subtype else error_text), ce_agent_event_type := ''error''\<rparr>)"

definition usage_event_of :: "dict \<Rightarrow> dict \<Rightarrow> claude_stream_event" where
  "usage_event_of payload usage =
     (let model = (case dget0 payload ''model'' of JStr m \<Rightarrow> m | _ \<Rightarrow> []);
          body = (if model = [] then usage else dset ''model'' (JStr model) usage) in
      (stream_event ''model.usage.updated'' body)
        \<lparr>ce_agent_event_type := ''usage'', ce_agent_usage := Some body, ce_session_id := str_or payload ''session_id'' []\<rparr>)"

definition handle_result :: "dict \<Rightarrow> string \<Rightarrow> bool \<Rightarrow> parsed_line" where
  "handle_result payload assistant_text has_emitted_text =
     (let subtype = str_or payload ''subtype'' []; session_id = str_or payload ''session_id'' []; result_text = str_or payload ''result'' [] in
      if subtype \<notin> {''success'', ''done''} then ([result_failed payload subtype], assistant_text)
      else ((case extract_usage payload of None \<Rightarrow> [] | Some usage \<Rightarrow> [usage_event_of payload usage]) @
            (if result_text \<noteq> [] \<and> \<not> has_emitted_text then [(text_delta result_text)\<lparr>ce_session_id := session_id\<rparr>] else []) @
            (if session_id \<noteq> [] then [(stream_event ''agent.run.completed''
                [(''session_id'', JStr session_id), (''subtype'', JStr subtype)])\<lparr>ce_session_id := session_id\<rparr>] else []),
            assistant_text))"

definition handle_system :: "dict \<Rightarrow> string \<Rightarrow> parsed_line" where
  "handle_system payload assistant_text =
     (let subtype = str_or payload ''subtype'' []; message = str_or payload ''message'' [] in
      ((if subtype = ''api_retry'' then [stream_event ''model.api.retry''
          [(''message'', JStr (take 2000 message)), (''retry_count'', dget0 payload ''retry_count'')]] else []) @
       [activity [(''system_subtype'', JStr subtype), (''message'', JStr (take 500 message))]], assistant_text))"

definition handle_error :: "dict \<Rightarrow> string \<Rightarrow> parsed_line" where
  "handle_error payload assistant_text =
     (let t = py_str (py_or (py_or (dget0 payload ''message'') (dget0 payload ''error'')) (JDict payload)) in
      ([(stream_event ''agent.run.failed'' [(''error'', JStr (take 2000 t))])\<lparr>ce_agent_delta := t, ce_agent_event_type := ''error''\<rparr>], assistant_text))"

definition hook_info :: "dict \<Rightarrow> dict" where
  "hook_info payload =
     (case dget0 payload ''hook'' of
        JDict hook \<Rightarrow>
          [(''hook_id'', JStr (str_or hook ''id'' [])), (''hook_name'', JStr (str_or hook ''name'' []))] @
          (case map_of hook ''output'' of None \<Rightarrow> [] | Some v \<Rightarrow> [(''output'', JStr (take 2000 (py_str v)))]) @
          (case map_of hook ''result'' of None \<Rightarrow> [] | Some v \<Rightarrow> [(''result'', JStr (take 2000 (py_str v)))])
      | _ \<Rightarrow> [])"

definition hook_events :: "(string \<times> string \<times> string) list" where
  "hook_events = [(''hook.started'', ''tool.call.progress'', ''started''), (''hook.progress'', ''tool.call.progress'', ''progress''),
     (''hook.completed'', ''tool.call.completed'', ''completed''), (''hook.error'', ''tool.call.failed'', ''error'')]"

definition handle_hook :: "dict \<Rightarrow> string \<Rightarrow> parsed_line" where
  "handle_hook payload assistant_text =
     (let event_type = str_or payload ''type'' []; info = hook_info payload in
      ((case map_of hook_events event_type of
          None \<Rightarrow> []
        | Some (ty, phase) \<Rightarrow> [stream_event ty (info @ [(''phase'', JStr phase)] @
            (if event_type = ''hook.error'' then [(''error'', JStr (take 2000 (str_or payload ''error'' [])))] else []))]) @
       [activity ((''hook_event'', JStr event_type) # info)], assistant_text))"

section \<open>Lines\<close>

definition parse_payload :: "dict \<Rightarrow> string \<Rightarrow> bool \<Rightarrow> parsed_line" where
  "parse_payload payload assistant_text has_emitted_text =
     (let event_type = str_or payload ''type'' [] in
      if event_type = ''stream_event'' then handle_stream_event payload assistant_text
      else if event_type = ''assistant'' then handle_assistant payload assistant_text
      else if event_type = ''result'' then handle_result payload assistant_text has_emitted_text
      else if event_type = ''system'' then handle_system payload assistant_text
      else if event_type = ''error'' \<or> event_type = ''api_error'' then handle_error payload assistant_text
      else if startswith event_type ''hook.'' then handle_hook payload assistant_text
      else ([activity [(''event_type'', JStr event_type)]], assistant_text))"

definition parse_line :: "(string \<Rightarrow> json option) \<Rightarrow> string \<Rightarrow> string \<Rightarrow> bool \<Rightarrow> parsed_line" where
  "parse_line loads line assistant_text has_emitted_text =
     (if strip line = [] then ([], assistant_text)
      else case loads (strip line) of
        None \<Rightarrow> ([(activity [(''raw'', JStr (take 2000 line))])\<lparr>ce_agent_delta := line\<rparr>], assistant_text)
      | Some (JDict payload) \<Rightarrow> parse_payload payload assistant_text has_emitted_text
      | Some _ \<Rightarrow> ([], assistant_text))"

section \<open>Reading a run\<close>

record agent_stream_event =
  ae_delta :: string
  ae_event_type :: string
  ae_usage :: "dict option"
  ae_session_id :: string

definition to_agent_stream_event :: "claude_stream_event \<Rightarrow> agent_stream_event option" where
  "to_agent_stream_event p =
     (if ce_agent_delta p \<noteq> [] \<or> ce_agent_event_type p = ''error'' then
        Some \<lparr>ae_delta = ce_agent_delta p, ae_event_type = ce_agent_event_type p, ae_usage = None, ae_session_id = ce_session_id p\<rparr>
      else case ce_agent_usage p of
        Some u \<Rightarrow> Some \<lparr>ae_delta = [], ae_event_type = ''usage'', ae_usage = Some u, ae_session_id = ce_session_id p\<rparr>
      | None \<Rightarrow> None)"

definition permission_markers :: "string list" where
  "permission_markers = [''requires approval'', ''need your approval'', ''permission required'', ''waiting for approval'']"

definition looks_like_permission_request :: "string \<Rightarrow> bool" where
  "looks_like_permission_request t = list_ex (contains (py_lower t)) permission_markers"

text \<open>The state of the reading loop: what was yielded, the text pieces among it, the text seen, the session, and whether the process was killed
  because it asked for a permission. The message then yielded keeps its excerpt only.\<close>

record stream_reader =
  sr_yielded :: "agent_stream_event list"
  sr_accumulated :: "string list"
  sr_assistant_text :: string
  sr_last_session_id :: string
  sr_killed :: bool

definition permission_error :: "string \<Rightarrow> agent_stream_event" where
  "permission_error raw =
     \<lparr>ae_delta = take 500 (py_join '' '' (split_ws raw)), ae_event_type = ''error'', ae_usage = None, ae_session_id = []\<rparr>"

fun yield_events :: "claude_stream_event list \<Rightarrow> stream_reader \<Rightarrow> stream_reader" where
  "yield_events [] s = s"
| "yield_events (p # ps) s0 =
     (let s = (if ce_session_id p = [] then s0 else s0\<lparr>sr_last_session_id := ce_session_id p\<rparr>) in
      case to_agent_stream_event p of
        None \<Rightarrow> yield_events ps s
      | Some e \<Rightarrow>
          if ae_event_type e = ''text'' \<and> ae_delta e \<noteq> [] then
            let s1 = s\<lparr>sr_accumulated := sr_accumulated s @ [ae_delta e]\<rparr> in
            if looks_like_permission_request (concat (sr_accumulated s1)) then
              s1\<lparr>sr_yielded := sr_yielded s1 @ [permission_error (concat (sr_accumulated s1))], sr_killed := True\<rparr>
            else yield_events ps (s1\<lparr>sr_yielded := sr_yielded s1 @ [e]\<rparr>)
          else yield_events ps (s\<lparr>sr_yielded := sr_yielded s @ [e]\<rparr>))"

definition read_line :: "(string \<Rightarrow> json option) \<Rightarrow> string \<Rightarrow> stream_reader \<Rightarrow> stream_reader" where
  "read_line loads line s =
     (if sr_killed s then s
      else case parse_line loads line (sr_assistant_text s) (sr_accumulated s \<noteq> []) of
        (events, t) \<Rightarrow> yield_events events (s\<lparr>sr_assistant_text := t\<rparr>))"

definition new_reader :: stream_reader where
  "new_reader = \<lparr>sr_yielded = [], sr_accumulated = [], sr_assistant_text = [], sr_last_session_id = [], sr_killed = False\<rparr>"

end
