(* ===== verification/Claude_Stream_Properties.thy ===== *)
theory Claude_Stream_Properties
  imports Claude_Stream
begin

text \<open>
  The provider stream of \<^verbatim>\<open>claude_stream_parser.py\<close>: what the user sees of streamed messages, and the lines that leave no
  event.
\<close>

section \<open>Payloads of the stream\<close>

text \<open>A piece of text, and a complete message with its text, whatever else the payload holds.\<close>

definition is_piece :: "dict \<Rightarrow> string \<Rightarrow> bool" where
  "is_piece p t \<longleftrightarrow> str_or p ''type'' [] = ''stream_event'' \<and>
     (\<exists>e. dget0 p ''event'' = JDict e \<and> str_or e ''type'' [] \<noteq> ''content_block_start'' \<and>
       dget0 (delta_of e) ''type'' = JStr ''text_delta'' \<and> dget0 (delta_of e) ''text'' = JStr t)"

definition is_message :: "dict \<Rightarrow> string \<Rightarrow> bool" where
  "is_message p t \<longleftrightarrow> str_or p ''type'' [] = ''assistant'' \<and>
     (\<exists>m. dget0 p ''message'' = JDict m \<and>
       (dget0 m ''content'' = JStr t \<or> (\<exists>items. dget0 m ''content'' = JList items \<and> concat (fst (content_parts items)) = t)))"

datatype stream_item = Piece string | Whole string

definition carries :: "(string \<Rightarrow> json option) \<Rightarrow> string \<Rightarrow> stream_item \<Rightarrow> bool" where
  "carries loads line item \<longleftrightarrow> strip line \<noteq> [] \<and>
     (\<exists>p. loads (strip line) = Some (JDict p) \<and> (case item of Piece t \<Rightarrow> t \<noteq> [] \<and> is_piece p t | Whole t \<Rightarrow> t \<noteq> [] \<and> is_message p t))"

lemma piece_payload: "is_piece p t \<Longrightarrow> t \<noteq> [] \<Longrightarrow> parse_payload p a h = ([text_delta t], a @ t)"
  by (auto simp: is_piece_def parse_payload_def handle_stream_event_def Let_def)

text \<open>Events that show the user nothing.\<close>

definition silent :: "claude_stream_event \<Rightarrow> bool" where
  "silent e \<longleftrightarrow> to_agent_stream_event e = None \<and> ce_session_id e = []"

lemma silent_events: "silent (stream_event ty d)" "silent (activity d)" "silent (message_completed t)" "silent (tool_event d)"
  by (simp_all add: silent_def to_agent_stream_event_def stream_event_def activity_def message_completed_def tool_event_def Let_def split: json.split)

lemma content_tools_silent: "e \<in> set (snd (content_parts items)) \<Longrightarrow> silent e"
  by (induction items rule: content_parts.induct)
    (auto simp: silent_events Let_def split: prod.splits if_splits json.splits)

lemma message_payload:
  assumes "is_message p t" "t \<noteq> []"
  obtains tools where "parse_payload p a h = (message_completed t # tools @ (if message_delta t a = [] then [] else [text_delta (message_delta t a)]) @
      [activity [(''message_type'', JStr ''assistant'')]], if message_delta t a = [] then a else t)" "\<forall>e \<in> set tools. silent e"
proof -
  obtain m where m: "str_or p ''type'' [] = ''assistant''" "dget0 p ''message'' = JDict m"
      "dget0 m ''content'' = JStr t \<or> (\<exists>items. dget0 m ''content'' = JList items \<and> concat (fst (content_parts items)) = t)"
    using assms(1) by (auto simp: is_message_def)
  then have pp: "parse_payload p a h = handle_assistant p a" by (simp add: parse_payload_def)
  from m(3) show thesis
  proof
    assume "dget0 m ''content'' = JStr t"
    then show thesis using m(2) pp assms(2) that [of "[]"] by (simp add: handle_assistant_def Let_def)
  next
    assume "\<exists>items. dget0 m ''content'' = JList items \<and> concat (fst (content_parts items)) = t"
    then obtain items where i: "dget0 m ''content'' = JList items" "concat (fst (content_parts items)) = t" by blast
    then show thesis using m(2) pp assms(2) that [of "snd (content_parts items)"] content_tools_silent
      by (simp add: handle_assistant_def Let_def split_beta)
  qed
qed

section \<open>The reading loop\<close>

definition yielded_text :: "stream_reader \<Rightarrow> string" where
  "yielded_text s = concat (map ae_delta (filter (\<lambda>e. ae_event_type e = ''text'') (sr_yielded s)))"

lemma yield_silent: "\<forall>e \<in> set es. silent e \<Longrightarrow> yield_events (es @ fs) s = yield_events fs s"
  by (induction es) (simp_all add: silent_def Let_def)

lemma yield_delta:
  assumes "\<not> looks_like_permission_request (concat (sr_accumulated s) @ t)" "t \<noteq> []"
  shows "yield_events (text_delta t # es) s = yield_events es (s\<lparr>sr_accumulated := sr_accumulated s @ [t],
    sr_yielded := sr_yielded s @ [\<lparr>ae_delta = t, ae_event_type = ''text'', ae_usage = None, ae_session_id = []\<rparr>]\<rparr>)"
  using assms by (simp add: text_delta_def stream_event_def to_agent_stream_event_def Let_def)

declare yield_events.simps(2) [simp del]

text \<open>The effect of an item on the text shown and on the text seen.\<close>

fun item_step :: "stream_item \<Rightarrow> string \<times> string \<Rightarrow> string \<times> string" where
  "item_step (Piece t) (shown, seen) = (shown @ t, seen @ t)"
| "item_step (Whole t) (shown, seen) = (shown @ message_delta t seen, if message_delta t seen = [] then seen else t)"

definition reads :: "stream_reader \<Rightarrow> string \<times> string \<Rightarrow> bool" where
  "reads s x \<longleftrightarrow> \<not> sr_killed s \<and> concat (sr_accumulated s) = fst x \<and> sr_assistant_text s = snd x \<and> yielded_text s = fst x"

lemma read_line_item:
  assumes "carries loads line item" "reads s x" "\<not> looks_like_permission_request (fst (item_step item x))"
  shows "reads (read_line loads line s) (item_step item x)"
proof -
  obtain shown seen where x: "x = (shown, seen)" by fastforce
  obtain p where p: "strip line \<noteq> []" "loads (strip line) = Some (JDict p)"
      "case item of Piece t \<Rightarrow> t \<noteq> [] \<and> is_piece p t | Whole t \<Rightarrow> t \<noteq> [] \<and> is_message p t"
    using assms(1) by (auto simp: carries_def)
  have s: "\<not> sr_killed s" "concat (sr_accumulated s) = shown" "sr_assistant_text s = seen" "yielded_text s = shown"
    using assms(2) x by (simp_all add: reads_def)
  have rl: "read_line loads line s = (case parse_payload p seen (sr_accumulated s \<noteq> []) of (es, t) \<Rightarrow> yield_events es (s\<lparr>sr_assistant_text := t\<rparr>))"
    using p(1,2) s(1,3) by (simp add: read_line_def parse_line_def)
  show ?thesis
  proof (cases item)
    case (Piece t)
    then have t: "is_piece p t" "t \<noteq> []" using p(3) by simp_all
    show ?thesis using Piece t(2) s assms(3) x
      by (simp add: rl piece_payload [OF t] yield_delta reads_def yielded_text_def)
  next
    case (Whole t)
    let ?d = "message_delta t seen"
    have t: "is_message p t" "t \<noteq> []" using p(3) Whole by simp_all
    from message_payload [OF t, of seen "sr_accumulated s \<noteq> []"] obtain tools
      where pp: "parse_payload p seen (sr_accumulated s \<noteq> []) = (message_completed t # tools @ (if ?d = [] then [] else [text_delta ?d]) @
          [activity [(''message_type'', JStr ''assistant'')]], if ?d = [] then seen else t)" "\<forall>e \<in> set tools. silent e" by blast
    have "yield_events (message_completed t # tools @ es) s' = yield_events es s'" for es s'
      using yield_silent [of "message_completed t # tools" es s'] pp(2) silent_events(3) by simp
    moreover have "yield_events [activity d] s' = s'" for d s' using yield_silent [of "[activity d]" "[]" s'] silent_events(2) by simp
    ultimately show ?thesis using s assms(3) x Whole
      by (cases "?d = []") (simp_all add: rl pp(1) yield_delta reads_def yielded_text_def)
  qed
qed

definition items_run :: "stream_item list \<Rightarrow> string \<times> string \<Rightarrow> string \<times> string" where
  "items_run items x = fold item_step items x"

lemma items_run_grows: "\<exists>t. fst (items_run items x) = fst x @ t"
  unfolding items_run_def
proof (induction items arbitrary: x)
  case (Cons i items)
  have "\<exists>t. fst (item_step i x) = fst x @ t" by (cases i; cases x) auto
  then show ?case using Cons [of "item_step i x"] by auto
qed simp

lemma permission_prefix: "looks_like_permission_request a \<Longrightarrow> looks_like_permission_request (a @ b)"
  by (auto simp: looks_like_permission_request_def py_lower_def list_ex_iff intro: contains_prefix)

lemma read_lines_items:
  assumes "list_all2 (carries loads) lines items" "reads s x" "\<not> looks_like_permission_request (fst (items_run items x))"
  shows "reads (fold (read_line loads) lines s) (items_run items x)"
  using assms
proof (induction lines items arbitrary: s x rule: list_all2_induct)
  case (Cons l ls i items)
  have run: "items_run (i # items) x = items_run items (item_step i x)" by (simp add: items_run_def)
  obtain t where "fst (items_run items (item_step i x)) = fst (item_step i x) @ t" using items_run_grows by blast
  then have "\<not> looks_like_permission_request (fst (item_step i x))" using Cons(5) permission_prefix run by metis
  then show ?case using Cons(3) read_line_item [OF Cons(1) Cons(4)] Cons(5) run by simp
qed (simp add: items_run_def)

section \<open>Messages\<close>

text \<open>A message that is streamed in pieces and then sent whole.\<close>

definition streamed :: "string list \<Rightarrow> stream_item list" where
  "streamed pieces = map Piece pieces @ [Whole (concat pieces)]"

lemma pieces_run: "items_run (map Piece ps) (shown, seen) = (shown @ concat ps, seen @ concat ps)"
  unfolding items_run_def by (induction ps arbitrary: shown seen) simp_all

lemma streamed_run:
  assumes "concat ps \<noteq> []"
  shows "items_run (streamed ps) (shown, seen) = (shown @ concat ps @ (if seen = [] then [] else concat ps), concat ps)"
proof -
  let ?m = "concat ps"
  have d: "message_delta ?m (seen @ ?m) = (if seen = [] then [] else ?m)"
    by (auto simp: message_delta_def startswith_def dest: arg_cong [where f = length])
  have "items_run (streamed ps) (shown, seen) = item_step (Whole ?m) (items_run (map Piece ps) (shown, seen))"
    by (simp add: items_run_def streamed_def)
  then show ?thesis using d assms by (simp add: pieces_run)
qed

definition shown_for :: "string list list \<Rightarrow> string" where
  "shown_for messages = (case messages of [] \<Rightarrow> [] | m # ms \<Rightarrow> concat m @ concat (map (\<lambda>ps. concat ps @ concat ps) ms))"

lemma messages_run:
  assumes "\<forall>m \<in> set ms. concat m \<noteq> []" "seen \<noteq> []"
  shows "fst (items_run (concat (map streamed ms)) (shown, seen)) = shown @ concat (map (\<lambda>ps. concat ps @ concat ps) ms)"
  using assms
proof (induction ms arbitrary: shown seen)
  case (Cons m ms)
  have "items_run (concat (map streamed (m # ms))) (shown, seen) = items_run (concat (map streamed ms)) (items_run (streamed m) (shown, seen))"
    by (simp add: items_run_def)
  then show ?case using Cons streamed_run [of m shown seen] by simp
qed (simp add: items_run_def)

text \<open>C23. What the user sees of a run of messages, each streamed in pieces and then sent whole: the first message exactly once, and every later
  message twice, because the text seen so far is never reset and the whole message no longer continues it.\<close>

theorem streamed_messages_shown:
  assumes "list_all2 (carries loads) lines (concat (map streamed messages))" "list_all (\<lambda>m. concat m \<noteq> []) messages"
    and "\<not> looks_like_permission_request (shown_for messages)"
  shows "yielded_text (fold (read_line loads) lines new_reader) = shown_for messages"
proof -
  have "fst (items_run (concat (map streamed messages)) ([], [])) = shown_for messages"
  proof (cases messages)
    case (Cons m ms)
    have "items_run (concat (map streamed (m # ms))) ([], []) = items_run (concat (map streamed ms)) (items_run (streamed m) ([], []))"
      by (simp add: items_run_def)
    then show ?thesis using Cons assms(2) streamed_run [of m "[]" "[]"] messages_run [of ms "concat m" "concat m"]
      by (simp add: shown_for_def list_all_iff)
  qed (simp add: shown_for_def items_run_def)
  moreover have "reads new_reader ([], [])" by (simp add: reads_def new_reader_def yielded_text_def)
  ultimately show ?thesis using read_lines_items [OF assms(1), of new_reader "([], [])"] assms(3) by (simp add: reads_def)
qed

definition demo_piece :: "string \<Rightarrow> json" where
  "demo_piece t = JDict [(''type'', JStr ''stream_event''), (''event'', JDict [(''type'', JStr ''content_block_delta''),
     (''delta'', JDict [(''type'', JStr ''text_delta''), (''text'', JStr t)])])]"

definition demo_message :: "string \<Rightarrow> json" where
  "demo_message t = JDict [(''type'', JStr ''assistant''), (''message'', JDict [(''content'', JList [JDict [(''type'', JStr ''text''), (''text'', JStr t)]])])]"

definition demo_loads :: "string \<Rightarrow> json option" where
  "demo_loads s = (if s = ''a'' then Some (demo_piece ''Hello'') else if s = ''A'' then Some (demo_message ''Hello'')
     else if s = ''b'' then Some (demo_piece ''Done'') else if s = ''B'' then Some (demo_message ''Done'') else None)"

theorem streamed_messages_shown_witness:
  "yielded_text (fold (read_line demo_loads) [''a'', ''A'', ''b'', ''B''] new_reader) = ''HelloDoneDone''"
proof -
  have "is_piece [(''type'', JStr ''stream_event''), (''event'', JDict [(''type'', JStr ''content_block_delta''),
     (''delta'', JDict [(''type'', JStr ''text_delta''), (''text'', JStr t)])])] t" for t
    by (simp add: is_piece_def str_or_def delta_of_def py_or_def)
  moreover have "is_message [(''type'', JStr ''assistant''), (''message'', JDict [(''content'', JList [JDict [(''type'', JStr ''text''), (''text'', JStr t)]])])] t" for t
    by (simp add: is_message_def str_or_def py_or_def)
  moreover have "strip ''a'' = ''a''" "strip ''A'' = ''A''" "strip ''b'' = ''b''" "strip ''B'' = ''B''" by code_simp+
  ultimately have "list_all2 (carries demo_loads) [''a'', ''A'', ''b'', ''B''] (concat (map streamed [[''Hello''], [''Done'']]))"
    by (simp add: streamed_def carries_def demo_loads_def demo_piece_def demo_message_def)
  moreover have "\<not> looks_like_permission_request (shown_for [[''Hello''], [''Done'']])" by code_simp
  ultimately show ?thesis using streamed_messages_shown [of demo_loads "[''a'', ''A'', ''b'', ''B'']" "[[''Hello''], [''Done'']]"] by (simp add: shown_for_def)
qed

section \<open>Lines without events\<close>

lemma handlers_speak:
  "fst (handle_stream_event p a) \<noteq> []" "fst (handle_system p a) \<noteq> []" "fst (handle_error p a) \<noteq> []" "fst (handle_hook p a) \<noteq> []"
  by (simp_all add: handle_stream_event_def handle_content_block_start_def handle_system_def handle_error_def handle_hook_def Let_def split: json.split)

lemma assistant_speaks: "fst (handle_assistant p a) = [] \<longleftrightarrow> type_name (dget0 p ''message'') \<noteq> ''dict''"
  by (auto simp: handle_assistant_def Let_def type_name_def split: json.split prod.split)

lemma result_speaks:
  "fst (handle_result p a h) = [] \<longleftrightarrow> str_or p ''subtype'' [] \<in> {''success'', ''done''} \<and> extract_usage p = None \<and>
     (str_or p ''result'' [] = [] \<or> h) \<and> str_or p ''session_id'' [] = []"
  by (simp add: handle_result_def Let_def split: option.split)

definition speechless :: "dict \<Rightarrow> bool \<Rightarrow> bool" where
  "speechless p h \<longleftrightarrow> str_or p ''type'' [] = ''assistant'' \<and> type_name (dget0 p ''message'') \<noteq> ''dict'' \<or>
     str_or p ''type'' [] = ''result'' \<and> str_or p ''subtype'' [] \<in> {''success'', ''done''} \<and> extract_usage p = None \<and>
     (str_or p ''result'' [] = [] \<or> h) \<and> str_or p ''session_id'' [] = []"

lemma payload_speaks: "fst (parse_payload p a h) = [] \<longleftrightarrow> speechless p h"
proof -
  consider "str_or p ''type'' [] = ''assistant''" | "str_or p ''type'' [] = ''result''" | "str_or p ''type'' [] \<notin> {''assistant'', ''result''}" by blast
  then show ?thesis
  proof cases
    case 3
    then show ?thesis using handlers_speak by (simp add: parse_payload_def speechless_def Let_def)
  qed (simp_all add: parse_payload_def speechless_def assistant_speaks result_speaks)
qed

text \<open>Exactly which lines leave no event: blank lines, JSON that is not an object, and two kinds of objects, an assistant line without a message
  object and a successful result without usage, session or text still to show. Every other line, broken JSON included, gives at least one event.\<close>

theorem lines_without_events:
  "fst (parse_line loads line a h) = [] \<longleftrightarrow> strip line = [] \<or> (case loads (strip line) of
     None \<Rightarrow> False | Some (JDict p) \<Rightarrow> speechless p h | Some _ \<Rightarrow> True)"
  by (simp add: parse_line_def payload_speaks split: option.split json.split)

end
