(* ===== verification/Handoff.thy ===== *)
theory Handoff
  imports Redaction Task_Models
begin

text \<open>
  \<^verbatim>\<open>wlcodex/collaboration/\<close>: a session of one provider is summed up, turned into a prompt and handed to another provider. The
  theory follows \<^verbatim>\<open>models.py\<close>, \<^verbatim>\<open>handoff_prompts.py\<close>, \<^verbatim>\<open>workflow_store.py\<close> and \<^verbatim>\<open>workflow_service.py\<close>. The providers are a
  parameter; what others do to the store while a provider is awaited is one too. The ids are drawn by the caller. Markers
  outside the modelled characters have no counterpart.
\<close>

section \<open>Data\<close>

datatype handoff_intent = Auto | ExecutePlan | FixBug | ImplementFeature | ContinueWork | Custom

fun intent_value :: "handoff_intent \<Rightarrow> string" where
  "intent_value Auto = ''auto''"
| "intent_value ExecutePlan = ''execute_plan''"
| "intent_value FixBug = ''fix_bug''"
| "intent_value ImplementFeature = ''implement_feature''"
| "intent_value ContinueWork = ''continue_work''"
| "intent_value Custom = ''custom''"

record handoff_artifact =
  ha_kind :: string
  ha_path :: string
  ha_title :: string
  ha_source :: string
  ha_confidence :: string

record intent_detection =
  id_intent :: handoff_intent
  id_confidence :: string
  id_reason :: string

record handoff_preview_input =
  hp_source_provider :: string
  hp_source_thread_id :: string
  hp_target_provider :: string
  hp_cwd :: string
  hp_recent_user_text :: string
  hp_session_summary :: string
  hp_artifacts :: "handoff_artifact list"
  hp_user_note :: string
  hp_requested_intent :: handoff_intent

record handoff_prompt_preview =
  pp_intent :: handoff_intent
  pp_target_provider :: string
  pp_prompt :: string
  pp_artifacts :: "handoff_artifact list"
  pp_warnings :: "string list"
  pp_reason :: string

section \<open>Intent\<close>

definition bug_markers :: "string list" where
  "bug_markers = [''bug'', ''error'', ''failure'', ''failed'', ''regression'', ''unexpected'', ''traceback'', ''stack trace'', ''notimplementederror'']"

definition feature_markers :: "string list" where
  "feature_markers = [''add'', ''build'', ''implement'', ''change'']"

definition mentions :: "string list \<Rightarrow> string \<Rightarrow> bool" where
  "mentions markers t = list_ex (contains (py_lower t)) markers"

definition has_spec_and_plan :: "handoff_artifact list \<Rightarrow> bool" where
  "has_spec_and_plan artifacts =
     (let kinds = map (\<lambda>a. py_lower (ha_kind a)) artifacts; paths = py_join '' '' (map (\<lambda>a. py_lower (ha_path a)) artifacts) in
      (''spec'' \<in> set kinds \<and> ''plan'' \<in> set kinds) \<or>
      (contains paths ''docs/superpowers/specs/'' \<and> contains paths ''docs/superpowers/plans/''))"

definition nl :: string where
  "nl = [char_of (10::nat)]"

definition detect_handoff_intent :: "string \<Rightarrow> string \<Rightarrow> handoff_artifact list \<Rightarrow> intent_detection" where
  "detect_handoff_intent recent summary artifacts =
     (if mentions bug_markers recent then
        \<lparr>id_intent = FixBug, id_confidence = ''high'', id_reason = ''Bug or error language was detected in the newest user request.''\<rparr>
      else if has_spec_and_plan artifacts then
        \<lparr>id_intent = ExecutePlan, id_confidence = ''high'', id_reason = ''Spec and plan artifacts were detected.''\<rparr>
      else if mentions bug_markers (recent @ nl @ summary) then
        \<lparr>id_intent = FixBug, id_confidence = ''high'', id_reason = ''Bug or error language was detected.''\<rparr>
      else if mentions feature_markers (recent @ nl @ summary) then
        \<lparr>id_intent = ImplementFeature, id_confidence = ''medium'', id_reason = ''Feature implementation language was detected.''\<rparr>
      else \<lparr>id_intent = ContinueWork, id_confidence = ''low'', id_reason = ''No specific plan, bug, or feature signal was detected.''\<rparr>)"

definition requested_intent_or_detected :: "handoff_intent \<Rightarrow> handoff_intent \<Rightarrow> handoff_intent" where
  "requested_intent_or_detected requested detected = (if requested = Auto then detected else requested)"

section \<open>The prompt\<close>

definition max_rendered_context_chars :: nat where
  "max_rendered_context_chars = min 1200 760"

definition compact_text :: "string \<Rightarrow> string" where
  "compact_text t =
     (let compact = strip t in
      if length compact \<le> max_rendered_context_chars then compact
      else ''[truncated]'' @ nl @ lstrip (drop (length compact - max_rendered_context_chars) compact))"

definition metadata_section :: "handoff_preview_input \<Rightarrow> string" where
  "metadata_section r = py_join nl
     [''Workspace: '' @ hp_cwd r, ''Source provider: '' @ hp_source_provider r, ''Source thread: '' @ hp_source_thread_id r,
      ''Target provider: '' @ hp_target_provider r]"

definition newest_request_section :: "string \<Rightarrow> string" where
  "newest_request_section t = ''Newest user request:'' @ nl @ (if strip t = [] then ''(none provided)'' else compact_text t)"

definition context_section :: "string \<Rightarrow> string" where
  "context_section t = (if strip t = [] then [] else ''Compact session summary:'' @ nl @ compact_text t)"

definition artifact_line :: "handoff_artifact \<Rightarrow> string" where
  "artifact_line a = ''- '' @ ha_kind a @ (if ha_title a = [] then [] else '' ('' @ ha_title a @ '')'') @ '': '' @ ha_path a"

definition artifact_section :: "handoff_artifact list \<Rightarrow> string" where
  "artifact_section artifacts = (if artifacts = [] then [] else ''Artifacts to read:'' @ nl @ py_join nl (map artifact_line artifacts))"

definition artifact_paths :: "handoff_artifact list \<Rightarrow> string \<Rightarrow> string list" where
  "artifact_paths artifacts kind =
     map ha_path (filter (\<lambda>a. py_lower (ha_kind a) = kind \<or> contains (py_lower (ha_path a)) (''/'' @ kind @ ''s/'')) artifacts)"

definition execute_plan_template :: "handoff_artifact list \<Rightarrow> string" where
  "execute_plan_template artifacts =
     (let specs = artifact_paths artifacts ''spec''; plans = artifact_paths artifacts ''plan'';
          specific = (if specs = [] then [] else [''Spec paths: '' @ py_join '', '' specs]) @ (if plans = [] then [] else [''Plan paths: '' @ py_join '', '' plans]) in
      strip (py_join nl
        [''Task: execute the plan.'', ''Read the exact spec and plan paths before editing.'', py_join nl specific,
         ''Do not rewrite the plan unless the user explicitly asks for a new plan.'', ''Preserve unrelated changes in the workspace.'',
         ''Run focused tests or another concrete verification command.'']))"

definition fix_bug_template :: string where
  "fix_bug_template = py_join nl
     [''Task: fix the bug described by the newest user request.'', ''Reproduce or inspect evidence first before changing code.'',
      ''Prefer a failing test before the fix when practical.'', ''Identify and report the root cause.'',
      ''Preserve unrelated changes in the workspace.'', ''Report files changed and verification results.'']"

definition implement_feature_template :: string where
  "implement_feature_template = py_join nl
     [''Task: implement the requested feature.'', ''Inspect existing code patterns first.'', ''Keep scope narrow and avoid unrelated refactors.'',
      ''Add focused tests where risk justifies them.'', ''Report files changed and verification results.'']"

definition continue_work_template :: string where
  "continue_work_template = py_join nl
     [''Task: continue the current work from the newest user request.'', ''Use known artifacts as references, not as transcript replay.'',
      ''Avoid replaying old assistant output as fresh instructions.'', ''Preserve unrelated changes and keep the next step focused.'',
      ''Report files changed and verification results.'']"

definition custom_template :: string where
  "custom_template = py_join nl
     [''Task: follow the user'' @ [char_of (39::nat)] @ ''s edited custom handoff prompt.'', ''Use the workspace, source provider, source thread, and target provider'',
      ''metadata above for traceability.'', ''Do not override the user'' @ [char_of (39::nat)] @ ''s edited task with generated assumptions.'',
      ''Report files changed and verification results.'']"

definition intent_template :: "handoff_intent \<Rightarrow> handoff_preview_input \<Rightarrow> string" where
  "intent_template i r = (case i of
      ExecutePlan \<Rightarrow> execute_plan_template (hp_artifacts r)
    | FixBug \<Rightarrow> fix_bug_template
    | ImplementFeature \<Rightarrow> implement_feature_template
    | Custom \<Rightarrow> custom_template
    | _ \<Rightarrow> continue_work_template)"

definition render_prompt :: "handoff_preview_input \<Rightarrow> handoff_intent \<Rightarrow> string" where
  "render_prompt r i =
     (let sections =
        [metadata_section r, newest_request_section (hp_recent_user_text r)] @
        (if context_section (hp_session_summary r) = [] then [] else [context_section (hp_session_summary r)]) @
        (if artifact_section (hp_artifacts r) = [] then [] else [artifact_section (hp_artifacts r)]) @
        (if strip (hp_user_note r) = [] then [] else [''User note:'' @ nl @ compact_text (hp_user_note r)]) @
        [intent_template i r,
         ''Final response: provide a concise summary with changed files, verification result, commands run, and remaining risks.''] in
      py_join (nl @ nl) (filter (\<lambda>s. strip s \<noteq> []) sections))"

definition handoff_warnings :: "handoff_preview_input \<Rightarrow> intent_detection \<Rightarrow> string list" where
  "handoff_warnings r d =
     (if id_confidence d = ''low'' then [id_reason d] else []) @
     (if has_spec_and_plan (hp_artifacts r) \<and> id_intent d = FixBug
        then [''Spec and plan artifacts were detected, but the newest user request looks like a bug or error.''] else []) @
     (if hp_requested_intent r = ExecutePlan \<and> \<not> has_spec_and_plan (hp_artifacts r)
        then [''execute_plan requested without spec and plan artifacts.''] else []) @
     (if hp_requested_intent r = Custom \<and> strip (hp_user_note r) = [] then [''custom handoff requested without a user note.''] else []) @
     (if strip (hp_cwd r) = [] then [''Missing workspace path.''] else []) @
     (if strip (hp_source_provider r) = [] then [''Missing source provider.''] else []) @
     (if strip (hp_target_provider r) = [] then [''Missing target provider.''] else [])"

definition build_handoff_preview :: "handoff_preview_input \<Rightarrow> handoff_prompt_preview" where
  "build_handoff_preview r =
     (let d = detect_handoff_intent (hp_recent_user_text r) (hp_session_summary r) (hp_artifacts r);
          i = requested_intent_or_detected (hp_requested_intent r) (id_intent d) in
      \<lparr>pp_intent = i, pp_target_provider = hp_target_provider r, pp_prompt = render_prompt r i, pp_artifacts = hp_artifacts r,
       pp_warnings = handoff_warnings r d,
       pp_reason = (if i \<noteq> id_intent d then ''User requested intent: '' @ intent_value i @ ''.'' else id_reason d)\<rparr>)"

section \<open>The workflow store\<close>

record workflow_run =
  wr_id :: string
  wr_type :: string
  wr_status :: string
  wr_source_provider :: string
  wr_source_thread_id :: string
  wr_source_turn_id :: string
  wr_target_provider :: string
  wr_target_thread_id :: string
  wr_cwd :: string
  wr_created_at :: stamp
  wr_updated_at :: stamp

record workflow_preview =
  wp_id :: string
  wp_run_id :: string
  wp_intent :: handoff_intent
  wp_target_provider :: string
  wp_prompt :: string
  wp_artifacts :: "handoff_artifact list"
  wp_warnings :: "string list"
  wp_created_at :: stamp

record stored_handoff_preview =
  sp_preview :: workflow_preview
  sp_source_provider :: string
  sp_source_thread_id :: string
  sp_source_turn_id :: string
  sp_cwd :: string

record workflow_step =
  wf_id :: string
  wf_run_id :: string
  wf_preview_id :: string
  wf_type :: string
  wf_status :: string
  wf_assigned_provider :: string
  wf_target_thread_id :: string
  wf_target_agent_run_id :: int
  wf_submitted_prompt :: string
  wf_output_summary :: string
  wf_created_at :: stamp
  wf_updated_at :: stamp

record workflow_store =
  wk_now :: stamp
  wk_runs :: "workflow_run list"
  wk_previews :: "workflow_preview list"
  wk_steps :: "workflow_step list"

datatype handoff_error =
    UnknownPreview string
  | UnknownWorkflowRun string
  | UnknownStep string
  | PreviewOfOtherRun string string
  | ProviderMismatch
  | WorkspaceMismatch
  | CannotStart string
  | UnknownProvider string
  | ProviderFailed string
  | TurnsNotIterable
  | DuplicateId string

type_synonym 'a workflow_act = "(workflow_store, handoff_error, 'a) act"

text \<open>An artifact read back has a confidence.\<close>

definition load_artifact :: "handoff_artifact \<Rightarrow> handoff_artifact" where
  "load_artifact a = a\<lparr>ha_confidence := (if ha_confidence a = [] then ''medium'' else ha_confidence a)\<rparr>"

definition join_preview :: "workflow_store \<Rightarrow> workflow_preview \<Rightarrow> stored_handoff_preview option" where
  "join_preview st p =
     (case find (\<lambda>r. wr_id r = wp_run_id p) (wk_runs st) of
        None \<Rightarrow> None
      | Some r \<Rightarrow> Some \<lparr>sp_preview = p\<lparr>wp_artifacts := map load_artifact (wp_artifacts p)\<rparr>, sp_source_provider = wr_source_provider r,
          sp_source_thread_id = wr_source_thread_id r, sp_source_turn_id = wr_source_turn_id r, sp_cwd = wr_cwd r\<rparr>)"

definition get_preview :: "string \<Rightarrow> workflow_store \<Rightarrow> handoff_error + stored_handoff_preview" where
  "get_preview i st =
     (case find (\<lambda>p. wp_id p = i) (wk_previews st) of
        None \<Rightarrow> Inl (UnknownPreview i)
      | Some p \<Rightarrow> (case join_preview st p of None \<Rightarrow> Inl (UnknownPreview i) | Some s \<Rightarrow> Inr s))"

definition get_run :: "string \<Rightarrow> workflow_store \<Rightarrow> handoff_error + workflow_run" where
  "get_run i st = (case find (\<lambda>r. wr_id r = i) (wk_runs st) of None \<Rightarrow> Inl (UnknownWorkflowRun i) | Some r \<Rightarrow> Inr r)"

definition get_step :: "string \<Rightarrow> workflow_store \<Rightarrow> handoff_error + workflow_step" where
  "get_step i st = (case find (\<lambda>s. wf_id s = i) (wk_steps st) of None \<Rightarrow> Inl (UnknownStep i) | Some s \<Rightarrow> Inr s)"

definition new_workflow_run :: "string \<Rightarrow> string \<Rightarrow> string \<Rightarrow> string \<Rightarrow> string \<Rightarrow> string \<Rightarrow> stamp \<Rightarrow> workflow_run" where
  "new_workflow_run run_id source thread turn target cwd now =
     \<lparr>wr_id = run_id, wr_type = ''handoff_execution'', wr_status = ''previewed'', wr_source_provider = source, wr_source_thread_id = thread,
      wr_source_turn_id = turn, wr_target_provider = target, wr_target_thread_id = [], wr_cwd = cwd, wr_created_at = now, wr_updated_at = now\<rparr>"

definition new_workflow_preview :: "string \<Rightarrow> string \<Rightarrow> string \<Rightarrow> handoff_prompt_preview \<Rightarrow> stamp \<Rightarrow> workflow_preview" where
  "new_workflow_preview preview_id run_id target v now =
     \<lparr>wp_id = preview_id, wp_run_id = run_id, wp_intent = pp_intent v, wp_target_provider = target, wp_prompt = pp_prompt v,
      wp_artifacts = pp_artifacts v, wp_warnings = pp_warnings v, wp_created_at = now\<rparr>"

definition new_workflow_step :: "string \<Rightarrow> string \<Rightarrow> string \<Rightarrow> string \<Rightarrow> string \<Rightarrow> int \<Rightarrow> string \<Rightarrow> string \<Rightarrow> stamp \<Rightarrow> workflow_step" where
  "new_workflow_step step_id run_id preview_id target thread agent_run prompt status now =
     \<lparr>wf_id = step_id, wf_run_id = run_id, wf_preview_id = preview_id, wf_type = ''execute_handoff'', wf_status = status,
      wf_assigned_provider = target, wf_target_thread_id = thread, wf_target_agent_run_id = agent_run, wf_submitted_prompt = prompt,
      wf_output_summary = [], wf_created_at = now, wf_updated_at = now\<rparr>"

definition point_run :: "string \<Rightarrow> string \<Rightarrow> string \<Rightarrow> stamp \<Rightarrow> workflow_run \<Rightarrow> workflow_run" where
  "point_run target thread status now r =
     r\<lparr>wr_status := status, wr_target_provider := target, wr_target_thread_id := thread, wr_updated_at := now\<rparr>"

text \<open>The primary keys of the three tables refuse an id that is taken; the two inserts of a preview are one transaction.\<close>

definition create_preview ::
  "string \<Rightarrow> string \<Rightarrow> string \<Rightarrow> string \<Rightarrow> string \<Rightarrow> string \<Rightarrow> string \<Rightarrow> handoff_prompt_preview \<Rightarrow> stored_handoff_preview workflow_act" where
  "create_preview run_id preview_id source thread turn target cwd v =
     bindA (getA (\<lambda>st. run_id \<in> wr_id ` set (wk_runs st))) (\<lambda>run_taken.
     thenA (guardA (\<not> run_taken) (DuplicateId run_id))
     (bindA (getA (\<lambda>st. preview_id \<in> wp_id ` set (wk_previews st))) (\<lambda>taken.
     thenA (guardA (\<not> taken) (DuplicateId preview_id))
     (thenA (modA (\<lambda>st. st\<lparr>
        wk_runs := wk_runs st @ [new_workflow_run run_id source thread turn target cwd (wk_now st)],
        wk_previews := wk_previews st @ [new_workflow_preview preview_id run_id target v (wk_now st)]\<rparr>))
     (liftA (get_preview preview_id))))))"

definition verify_preview_belongs_to_run :: "string \<Rightarrow> string \<Rightarrow> unit workflow_act" where
  "verify_preview_belongs_to_run preview_id run_id =
     bindA (getA (\<lambda>st. find (\<lambda>p. wp_id p = preview_id) (wk_previews st))) (\<lambda>p.
       case p of None \<Rightarrow> raiseA (UnknownPreview preview_id)
       | Some p \<Rightarrow> guardA (wp_run_id p = run_id) (PreviewOfOtherRun preview_id run_id))"

definition record_execution ::
  "string \<Rightarrow> string \<Rightarrow> string \<Rightarrow> string \<Rightarrow> string \<Rightarrow> int \<Rightarrow> string \<Rightarrow> string \<Rightarrow> workflow_step workflow_act" where
  "record_execution step_id run_id preview_id target thread agent_run prompt status =
     thenA (liftA (get_run run_id))
     (thenA (verify_preview_belongs_to_run preview_id run_id)
     (bindA (getA (\<lambda>st. step_id \<in> wf_id ` set (wk_steps st))) (\<lambda>taken.
     thenA (guardA (\<not> taken) (DuplicateId step_id))
     (thenA (modA (\<lambda>st. st\<lparr>
        wk_runs := upd_rows (\<lambda>r. wr_id r = run_id)
          (point_run target thread status (wk_now st)) (wk_runs st),
        wk_steps := wk_steps st @ [new_workflow_step step_id run_id preview_id target thread agent_run prompt status (wk_now st)]\<rparr>))
     (liftA (get_step step_id))))))"

section \<open>Reading a session\<close>

definition session_cwd :: "dict \<Rightarrow> string" where
  "session_cwd session =
     (let own = strip (py_str (py_or (dget0 session ''cwd'') (JStr []))) in
      case dget0 session ''thread'' of
        JDict thread \<Rightarrow> (let cwd = strip (py_str (py_or (dget0 thread ''cwd'') (JStr []))) in if cwd = [] then own else cwd)
      | _ \<Rightarrow> own)"

definition turn_from_item :: "dict \<Rightarrow> dict" where
  "turn_from_item item =
     (let item_type = py_str (py_or (dget0 item ''type'') (JStr []));
          role = (if item_type = ''userMessage'' then ''user'' else if item_type = ''agentMessage'' then ''assistant''
                  else py_str (py_or (dget0 item ''role'') (JStr ''unknown''))) in
      [(''role'', JStr role), (''content'', dget item ''content'' (dget item ''text'' (JStr [])))])"

definition expand_turn :: "json \<Rightarrow> dict list" where
  "expand_turn turn =
     (case turn of
        JDict t \<Rightarrow> (case dget0 t ''items'' of
            JList items \<Rightarrow> concat (map (\<lambda>i. case i of JDict d \<Rightarrow> [turn_from_item d] | _ \<Rightarrow> []) items)
          | _ \<Rightarrow> [t])
      | _ \<Rightarrow> [])"

text \<open>Iterating over text or a dictionary meets no turn; over anything else that is not a list it raises.\<close>

definition iterate_turns :: "json \<Rightarrow> handoff_error + dict list" where
  "iterate_turns v =
     (case v of JList ts \<Rightarrow> Inr (concat (map expand_turn ts)) | JStr _ \<Rightarrow> Inr [] | JDict _ \<Rightarrow> Inr [] | _ \<Rightarrow> Inl TurnsNotIterable)"

definition session_turns :: "dict \<Rightarrow> handoff_error + dict list" where
  "session_turns session =
     (case dget0 session ''turns'' of
        JList (t # ts) \<Rightarrow> iterate_turns (JList (t # ts))
      | _ \<Rightarrow> (case dget0 session ''thread'' of JDict thread \<Rightarrow> iterate_turns (dget thread ''turns'' (JList [])) | _ \<Rightarrow> Inr []))"

definition content_piece :: "json \<Rightarrow> string list" where
  "content_piece item =
     (case item of
        JDict d \<Rightarrow> (let t = py_or (py_or (dget0 d ''text'') (dget0 d ''content'')) (JStr []) in if py_truth t then [py_str t] else [])
      | JStr s \<Rightarrow> [s]
      | _ \<Rightarrow> [])"

definition turn_text :: "dict \<Rightarrow> string" where
  "turn_text turn =
     (case dget turn ''content'' (dget turn ''text'' (JStr [])) of
        JStr s \<Rightarrow> s
      | JList items \<Rightarrow> py_join nl (concat (map content_piece items))
      | _ \<Rightarrow> [])"

definition turn_role :: "dict \<Rightarrow> string \<Rightarrow> string" where
  "turn_role turn alt = py_lower (py_str (py_or (dget0 turn ''role'') (JStr alt)))"

definition newest_user_text :: "dict list \<Rightarrow> string" where
  "newest_user_text turns =
     (case find (\<lambda>t. turn_role t [] = ''user'' \<and> strip (turn_text t) \<noteq> []) (rev turns) of
        None \<Rightarrow> [] | Some t \<Rightarrow> strip (turn_text t))"

definition session_summary :: "dict list \<Rightarrow> string" where
  "session_summary turns =
     py_join nl (concat (map (\<lambda>t. if strip (turn_text t) = [] then [] else [turn_role t ''unknown'' @ '': '' @ strip (turn_text t)])
       (drop (length turns - 8) turns)))"

definition artifact_prefixes :: "string list" where
  "artifact_prefixes = [''docs/superpowers/specs/'', ''docs/superpowers/plans/'', ''docs/bugs/'']"

definition path_char :: "char \<Rightarrow> bool" where
  "path_char c \<longleftrightarrow> \<not> py_isspace c \<and> c \<notin> set '',;:])''"

text \<open>The match of the path expression at the head of a text.\<close>

definition match_path :: "string \<Rightarrow> string option" where
  "match_path t =
     (case find (startswith t) artifact_prefixes of
        None \<Rightarrow> None
      | Some p \<Rightarrow> (case takeWhile path_char (drop (length p) t) of [] \<Rightarrow> None | w \<Rightarrow> Some (p @ w)))"

function find_paths :: "string \<Rightarrow> string list" where
  "find_paths [] = []"
| "find_paths (c # t) =
     (case match_path (c # t) of
        None \<Rightarrow> find_paths t
      | Some p \<Rightarrow> p # find_paths (drop (length p) (c # t)))"
  by pat_completeness auto
termination
  by (relation "measure length") (auto simp: match_path_def artifact_prefixes_def split: option.splits list.splits if_splits)

definition rstrip_path :: "string \<Rightarrow> string" where
  "rstrip_path p = rev (dropWhile (\<lambda>c. c \<in> set ''.)]'') (rev p))"

definition artifact_kind :: "string \<Rightarrow> string" where
  "artifact_kind path =
     (let p = py_lower path in
      if contains p ''docs/superpowers/specs/'' then ''spec'' else if contains p ''docs/superpowers/plans/'' then ''plan''
      else if contains p ''docs/bugs/'' then ''bug_report'' else ''unknown'')"

fun first_seen :: "string list \<Rightarrow> string list \<Rightarrow> string list" where
  "first_seen seen [] = []"
| "first_seen seen (p # ps) = (if p \<in> set seen then first_seen seen ps else p # first_seen (p # seen) ps)"

definition artifacts_from_text :: "string \<Rightarrow> handoff_artifact list" where
  "artifacts_from_text t =
     map (\<lambda>p. \<lparr>ha_kind = artifact_kind p, ha_path = p, ha_title = [], ha_source = [], ha_confidence = ''medium''\<rparr>)
       (first_seen [] (map rstrip_path (find_paths t)))"

section \<open>The service\<close>

record control_result =
  co_native_session_id :: string
  co_agent_run_id :: int
  co_turn_running :: bool
  co_status :: string

record handoff_provider =
  np_read_session :: "string \<Rightarrow> string + dict"
  np_can_start_session :: bool
  np_start_session :: "string \<Rightarrow> string \<Rightarrow> string + control_result"

type_synonym provider_name = string
type_synonym thread_id = string
type_synonym workspace_path = string
type_synonym provider_registry = "(string \<times> handoff_provider) list"

definition registry_get :: "provider_registry \<Rightarrow> string \<Rightarrow> handoff_error + handoff_provider" where
  "registry_get reg provider =
     (case map_of reg (strip provider) of None \<Rightarrow> Inl (UnknownProvider (strip provider)) | Some p \<Rightarrow> Inr p)"

definition handoff_intent_of :: "string \<Rightarrow> handoff_intent" where
  "handoff_intent_of raw =
     (case find (\<lambda>i. intent_value i = raw) [Auto, ExecutePlan, FixBug, ImplementFeature, ContinueWork, Custom] of
        None \<Rightarrow> Auto | Some i \<Rightarrow> i)"

definition preview_input ::
  "string \<Rightarrow> string \<Rightarrow> string \<Rightarrow> string \<Rightarrow> dict list \<Rightarrow> string \<Rightarrow> string \<Rightarrow> handoff_preview_input" where
  "preview_input source thread target cwd turns intent note =
     (let recent = newest_user_text turns; summary = session_summary turns in
      \<lparr>hp_source_provider = source, hp_source_thread_id = thread, hp_target_provider = target, hp_cwd = cwd, hp_recent_user_text = recent,
       hp_session_summary = summary, hp_artifacts = artifacts_from_text (recent @ nl @ summary), hp_user_note = note,
       hp_requested_intent = handoff_intent_of intent\<rparr>)"

definition read_source :: "handoff_provider \<Rightarrow> string \<Rightarrow> handoff_error + dict" where
  "read_source p thread = (case np_read_session p thread of Inl e \<Rightarrow> Inl (ProviderFailed e) | Inr d \<Rightarrow> Inr d)"

definition preview_handoff ::
  "provider_registry \<Rightarrow> string \<Rightarrow> string \<Rightarrow> provider_name \<Rightarrow> thread_id \<Rightarrow> string \<Rightarrow> provider_name \<Rightarrow> workspace_path \<Rightarrow> string \<Rightarrow> string \<Rightarrow>
     (handoff_prompt_preview \<times> stored_handoff_preview) workflow_act" where
  "preview_handoff reg run_id preview_id source thread turn target cwd intent note =
     bindA (liftA (\<lambda>_. registry_get reg source)) (\<lambda>p.
     thenA (liftA (\<lambda>_. registry_get reg target))
     (bindA (liftA (\<lambda>_. read_source p thread)) (\<lambda>session.
     let resolved = (if strip cwd = [] then session_cwd session else strip cwd) in
     bindA (liftA (\<lambda>_. session_turns session)) (\<lambda>turns.
     let v = build_handoff_preview (preview_input source thread target resolved turns intent note) in
     bindA (create_preview run_id preview_id source thread turn target resolved v) (\<lambda>stored. retA (v, stored))))))"

text \<open>\<open>urllib.parse.quote\<close> with no safe characters, over the UTF-8 bytes.\<close>

definition unreserved :: "char \<Rightarrow> bool" where
  "unreserved c = (let n = code_point c in (48 \<le> n \<and> n \<le> 57) \<or> (65 \<le> n \<and> n \<le> 90) \<or> (97 \<le> n \<and> n \<le> 122) \<or> c \<in> set ''_.-~'')"

definition upper_hex :: "nat \<Rightarrow> char" where
  "upper_hex d = (if d < 10 then digit_char d else char_of (55 + d))"

definition utf8_bytes :: "char \<Rightarrow> nat list" where
  "utf8_bytes c = (let n = code_point c in if n < 128 then [n] else [192 + n div 64, 128 + n mod 64])"

definition quote_char :: "char \<Rightarrow> string" where
  "quote_char c = (if unreserved c then [c] else concat (map (\<lambda>b. [CHR ''%'', upper_hex (b div 16), upper_hex (b mod 16)]) (utf8_bytes c)))"

definition url_quote :: "string \<Rightarrow> string" where
  "url_quote s = concat (map quote_char s)"

definition target_url :: "int \<Rightarrow> string \<Rightarrow> string \<Rightarrow> string" where
  "target_url agent_run provider native_session =
     ''/workers/'' @ int_str agent_run @ ''/live?native_provider='' @ url_quote provider @ ''&native_thread_id='' @ url_quote native_session"

record handoff_execution =
  he_run_id :: string
  he_step_id :: string
  he_target_provider :: string
  he_target_thread_id :: string
  he_target_url :: string
  he_status :: string

text \<open>The checks before a session is started.\<close>

definition check_handoff :: "provider_registry \<Rightarrow> string \<Rightarrow> string \<Rightarrow> string \<Rightarrow> string \<Rightarrow> workflow_store \<Rightarrow> handoff_error + handoff_provider" where
  "check_handoff reg run_id preview_id target cwd st =
     bindE (get_preview preview_id st) (\<lambda>v.
       if wp_run_id (sp_preview v) \<noteq> run_id then Inl (PreviewOfOtherRun preview_id run_id)
       else if wp_target_provider (sp_preview v) \<noteq> target then Inl ProviderMismatch
       else if sp_cwd v \<noteq> cwd then Inl WorkspaceMismatch
       else bindE (registry_get reg target) (\<lambda>p. if np_can_start_session p then Inr p else Inl (CannotStart target)))"

text \<open>The result, the store, and the session that was started: provider, workspace and prompt. \<open>env\<close> is what others do to the store meanwhile.\<close>

definition execute_handoff ::
  "provider_registry \<Rightarrow> (workflow_store \<Rightarrow> workflow_store) \<Rightarrow> string \<Rightarrow> string \<Rightarrow> string \<Rightarrow> string \<Rightarrow> string \<Rightarrow> string \<Rightarrow> workflow_store \<Rightarrow>
     (handoff_error + handoff_execution) \<times> workflow_store \<times> (string \<times> string \<times> string) option" where
  "execute_handoff reg env step_id run_id preview_id target cwd prompt st =
     (case check_handoff reg run_id preview_id target cwd st of
        Inl e \<Rightarrow> (Inl e, st, None)
      | Inr p \<Rightarrow> (case np_start_session p cwd prompt of
          Inl e \<Rightarrow> (Inl (ProviderFailed e), env st, Some (target, cwd, prompt))
        | Inr r \<Rightarrow>
            (case record_execution step_id run_id preview_id target (co_native_session_id r) (co_agent_run_id r) prompt
                    (if co_turn_running r then ''running'' else co_status r) (env st) of
               (Inl e, st') \<Rightarrow> (Inl e, st', Some (target, cwd, prompt))
             | (Inr step, st') \<Rightarrow>
                 (Inr \<lparr>he_run_id = run_id, he_step_id = wf_id step, he_target_provider = target, he_target_thread_id = co_native_session_id r,
                       he_target_url = target_url (co_agent_run_id r) target (co_native_session_id r), he_status = wf_status step\<rparr>,
                  st', Some (target, cwd, prompt)))))"

end
