(* ===== verification/Handoff_Properties.thy ===== *)
theory Handoff_Properties
  imports Handoff
begin

text \<open>
  Handing work from one provider to another (\<^verbatim>\<open>wlcodex/collaboration/\<close>): the store keeps its keys and links, a preview is
  stored as it was built, and only what was previewed is started.
\<close>

section \<open>The store\<close>

definition run_identity :: "workflow_run \<Rightarrow> string \<times> string \<times> string \<times> string \<times> string" where
  "run_identity r = (wr_id r, wr_source_provider r, wr_source_thread_id r, wr_source_turn_id r, wr_cwd r)"

definition workflow_wf :: "workflow_store \<Rightarrow> bool" where
  "workflow_wf st \<longleftrightarrow> distinct (map wr_id (wk_runs st)) \<and> distinct (map wp_id (wk_previews st)) \<and> distinct (map wf_id (wk_steps st)) \<and>
     (\<forall>p \<in> set (wk_previews st). wp_run_id p \<in> wr_id ` set (wk_runs st)) \<and>
     (\<forall>s \<in> set (wk_steps st). \<exists>p \<in> set (wk_previews st). wp_id p = wf_preview_id s \<and> wp_run_id p = wf_run_id s)"

text \<open>What every operation keeps: the identity of the runs and the previews.\<close>

definition workflow_kept :: "workflow_store \<Rightarrow> workflow_store \<Rightarrow> bool" where
  "workflow_kept st st' \<longleftrightarrow> (\<exists>rs ps ss. map run_identity (wk_runs st') = map run_identity (wk_runs st) @ rs \<and>
     wk_previews st' = wk_previews st @ ps \<and> wk_steps st' = wk_steps st @ ss)"

inductive workflow_op :: "workflow_store \<Rightarrow> workflow_store \<Rightarrow> bool" where
  "workflow_op st (snd (create_preview run_id preview_id source thread turn target cwd v st))"
| "workflow_op st (snd (record_execution step_id run_id preview_id target thread agent_run prompt status st))"
| "workflow_op st (st\<lparr>wk_now := t\<rparr>)"

lemma find_distinct_key: "distinct (map key xs) \<Longrightarrow> x \<in> set xs \<Longrightarrow> find (\<lambda>y. key y = key x) xs = Some x"
  by (induction xs) (auto simp: image_iff)

lemma create_preview_cases:
  obtains e where "create_preview run_id preview_id source thread turn target cwd v st = (Inl e, st)"
  | st' where "create_preview run_id preview_id source thread turn target cwd v st = (get_preview preview_id st', st')"
      "run_id \<notin> wr_id ` set (wk_runs st)" "preview_id \<notin> wp_id ` set (wk_previews st)"
      "st' = st\<lparr>wk_runs := wk_runs st @ [new_workflow_run run_id source thread turn target cwd (wk_now st)],
        wk_previews := wk_previews st @ [new_workflow_preview preview_id run_id target v (wk_now st)]\<rparr>"
  by (cases "run_id \<in> wr_id ` set (wk_runs st)"; cases "preview_id \<in> wp_id ` set (wk_previews st)")
    (simp_all add: create_preview_def bindA_def thenA_def getA_def guardA_def retA_def raiseA_def modA_def liftA_def)

definition may_record :: "string \<Rightarrow> string \<Rightarrow> string \<Rightarrow> workflow_store \<Rightarrow> bool" where
  "may_record step_id run_id preview_id st \<longleftrightarrow> run_id \<in> wr_id ` set (wk_runs st) \<and> step_id \<notin> wf_id ` set (wk_steps st) \<and>
     (\<exists>p. find (\<lambda>p. wp_id p = preview_id) (wk_previews st) = Some p \<and> wp_run_id p = run_id)"

lemma record_execution_cases:
  obtains e where "record_execution step_id run_id preview_id target thread agent_run prompt status st = (Inl e, st)" "\<not> may_record step_id run_id preview_id st"
  | st' where "record_execution step_id run_id preview_id target thread agent_run prompt status st = (get_step step_id st', st')"
      "may_record step_id run_id preview_id st"
      "st' = st\<lparr>wk_runs := upd_rows (\<lambda>r. wr_id r = run_id) (point_run target thread status (wk_now st)) (wk_runs st),
        wk_steps := wk_steps st @ [new_workflow_step step_id run_id preview_id target thread agent_run prompt status (wk_now st)]\<rparr>"
proof -
  note defs = record_execution_def verify_preview_belongs_to_run_def get_run_def bindA_def thenA_def getA_def guardA_def retA_def raiseA_def modA_def liftA_def
  show ?thesis
  proof (cases "find (\<lambda>r. wr_id r = run_id) (wk_runs st)")
    case None
    then have "run_id \<notin> wr_id ` set (wk_runs st)" by (auto simp: find_None_iff)
    then show ?thesis using that(1) None by (simp add: defs may_record_def)
  next
    case (Some r)
    then have r: "run_id \<in> wr_id ` set (wk_runs st)" by (auto dest: find_SomeD)
    show ?thesis
    proof (cases "find (\<lambda>p. wp_id p = preview_id) (wk_previews st)")
      case None
      then show ?thesis using that(1) Some by (simp add: defs may_record_def)
    next
      case (Some p)
      then show ?thesis using that r \<open>find _ (wk_runs st) = Some r\<close>
        by (cases "wp_run_id p = run_id"; cases "step_id \<in> wf_id ` set (wk_steps st)") (simp_all add: defs may_record_def)
    qed
  qed
qed

lemma upd_point_run: "map wr_id (upd_rows P (point_run a b c t) rs) = map wr_id rs"
    "map run_identity (upd_rows P (point_run a b c t) rs) = map run_identity rs"
  by (induction rs) (simp_all add: upd_rows_Cons point_run_def run_identity_def)

lemma op_keeps:
  assumes "workflow_op st st'" "workflow_wf st"
  shows "workflow_wf st' \<and> workflow_kept st st'"
  using assms
proof (cases rule: workflow_op.cases)
  case (1 run_id preview_id source thread turn target cwd v)
  show ?thesis
  proof (cases rule: create_preview_cases [of run_id preview_id source thread turn target cwd v st])
    case (1 e)
    then show ?thesis using \<open>st' = _\<close> assms(2) by (simp add: workflow_kept_def)
  next
    case (2 st2)
    then have st': "st' = st2" using \<open>st' = _\<close> by simp
    have n: "wr_id (new_workflow_run run_id source thread turn target cwd (wk_now st)) = run_id"
      "wp_id (new_workflow_preview preview_id run_id target v (wk_now st)) = preview_id"
      "wp_run_id (new_workflow_preview preview_id run_id target v (wk_now st)) = run_id"
      by (simp_all add: new_workflow_run_def new_workflow_preview_def)
    show ?thesis using assms(2) 2(2,3) n unfolding st' 2(4) workflow_wf_def workflow_kept_def by auto
  qed
next
  case (2 step_id run_id preview_id target thread agent_run prompt status)
  show ?thesis
  proof (cases rule: record_execution_cases [of step_id run_id preview_id target thread agent_run prompt status st])
    case (1 e)
    then show ?thesis using \<open>st' = _\<close> assms(2) by (simp add: workflow_kept_def)
  next
    case (2 st2)
    then have st': "st' = st2" using \<open>st' = _\<close> by simp
    let ?s = "new_workflow_step step_id run_id preview_id target thread agent_run prompt status (wk_now st)"
    have n: "wf_id ?s = step_id" "wf_run_id ?s = run_id" "wf_preview_id ?s = preview_id" by (simp_all add: new_workflow_step_def)
    obtain p where p: "p \<in> set (wk_previews st)" "wp_id p = preview_id" "wp_run_id p = run_id"
      using 2(2) by (auto simp: may_record_def dest: find_SomeD)
    have ids: "wr_id ` set (wk_runs st2) = wr_id ` set (wk_runs st)" using upd_point_run(1) unfolding 2(3) by (simp flip: set_map)
    show ?thesis using assms(2) 2(2) n p ids upd_point_run unfolding st' workflow_wf_def workflow_kept_def may_record_def
      by (simp add: 2(3)) blast
  qed
next
  case (3 t)
  then show ?thesis using assms(2) by (simp add: workflow_wf_def workflow_kept_def)
qed

lemma kept_refl: "workflow_kept st st"
  by (simp add: workflow_kept_def)

lemma kept_trans: "workflow_kept a b \<Longrightarrow> workflow_kept b c \<Longrightarrow> workflow_kept a c"
  unfolding workflow_kept_def by auto

lemma ops_keep: "workflow_op\<^sup>*\<^sup>* st st' \<Longrightarrow> workflow_wf st \<Longrightarrow> workflow_wf st' \<and> workflow_kept st st'"
proof (induction rule: rtranclp_induct)
  case (step y z)
  then show ?case using op_keeps [of y z] kept_trans by blast
qed (simp add: kept_refl)

lemma kept_run_ids: "workflow_kept st st' \<Longrightarrow> wr_id ` set (wk_runs st) \<subseteq> wr_id ` set (wk_runs st')"
proof -
  assume "workflow_kept st st'"
  then obtain rs where "map run_identity (wk_runs st') = map run_identity (wk_runs st) @ rs" by (auto simp: workflow_kept_def)
  then have "run_identity ` set (wk_runs st) \<subseteq> run_identity ` set (wk_runs st')" by (metis set_map set_append Un_upper1)
  then have "(fst \<circ> run_identity) ` set (wk_runs st) \<subseteq> (fst \<circ> run_identity) ` set (wk_runs st')" by (metis image_comp image_mono)
  then show ?thesis by (simp add: run_identity_def comp_def)
qed

lemma get_preview_found:
  "get_preview i st = Inr v \<Longrightarrow> \<exists>p. find (\<lambda>p. wp_id p = i) (wk_previews st) = Some p \<and> wp_run_id (sp_preview v) = wp_run_id p \<and>
     wp_run_id p \<in> wr_id ` set (wk_runs st)"
  by (auto simp: get_preview_def join_preview_def split: option.splits dest!: find_SomeD intro: rev_image_eqI)

lemma check_handoff_ok:
  assumes "check_handoff reg run_id preview_id target cwd st = Inr p"
  shows "\<exists>v. get_preview preview_id st = Inr v \<and> wp_run_id (sp_preview v) = run_id \<and> wp_target_provider (sp_preview v) = target \<and> sp_cwd v = cwd \<and>
    registry_get reg target = Inr p \<and> np_can_start_session p"
  using assms by (auto simp: check_handoff_def bindE_Inr split: if_splits)

lemma checked_may_record:
  assumes "check_handoff reg run_id preview_id target cwd st = Inr p" "workflow_kept st st'" "step_id \<notin> wf_id ` set (wk_steps st')"
  shows "may_record step_id run_id preview_id st'"
proof -
  obtain v q where q: "get_preview preview_id st = Inr v" "wp_run_id (sp_preview v) = run_id" "find (\<lambda>p. wp_id p = preview_id) (wk_previews st) = Some q"
      "wp_run_id q = run_id" "run_id \<in> wr_id ` set (wk_runs st)"
    using check_handoff_ok [OF assms(1)] get_preview_found by metis
  obtain ps where "wk_previews st' = wk_previews st @ ps" using assms(2) by (auto simp: workflow_kept_def)
  then show ?thesis using q kept_run_ids [OF assms(2)] assms(3) by (auto simp: may_record_def find_append)
qed

lemma find_point_run:
  "i \<in> wr_id ` set rs \<Longrightarrow> \<exists>r. find (\<lambda>r. wr_id r = i) (upd_rows (\<lambda>r. wr_id r = i) (point_run target thread status now) rs) = Some r \<and>
     wr_target_thread_id r = thread"
  by (induction rs) (auto simp: upd_rows_Cons point_run_def)

text \<open>C25. Only what was previewed is handed over. A session is started at most once per call, on the provider and in the workspace of the stored preview
  of that run, by a provider that can start sessions; a refused call starts nothing and changes nothing. Whatever others do to the store meanwhile, a session
  that the provider did start is recorded under a fresh step id, as the step of that preview, and the run then points to it.\<close>

theorem handoff_follows_preview:
  assumes "workflow_wf st" "workflow_op\<^sup>*\<^sup>* st (env st)" "step_id \<notin> wf_id ` set (wk_steps (env st))"
    and "execute_handoff reg env step_id run_id preview_id target cwd prompt st = (res, st', started)"
  shows "(case started of
      None \<Rightarrow> st' = st \<and> isl res
    | Some x \<Rightarrow> x = (target, cwd, prompt) \<and> (\<exists>v p. get_preview preview_id st = Inr v \<and> wp_run_id (sp_preview v) = run_id \<and>
        wp_target_provider (sp_preview v) = target \<and> sp_cwd v = cwd \<and> registry_get reg target = Inr p \<and> np_can_start_session p \<and>
        (case np_start_session p cwd prompt of
           Inl e \<Rightarrow> res = Inl (ProviderFailed e) \<and> st' = env st
         | Inr r \<Rightarrow> \<not> isl res \<and> he_target_thread_id (projr res) = co_native_session_id r \<and>
             (\<exists>s. last (wk_steps st') = s \<and> wk_steps st' = wk_steps (env st) @ [s] \<and> wf_preview_id s = preview_id \<and> wf_run_id s = run_id \<and>
               wf_target_thread_id s = co_native_session_id r \<and> wf_assigned_provider s = target \<and> wf_submitted_prompt s = prompt) \<and>
             (\<exists>r'. find (\<lambda>r. wr_id r = run_id) (wk_runs st') = Some r' \<and> wr_target_thread_id r' = co_native_session_id r))))"
proof (cases "check_handoff reg run_id preview_id target cwd st")
  case (Inl e)
  then show ?thesis using assms(4) by (auto simp: execute_handoff_def)
next
  case (Inr p)
  note ok = check_handoff_ok [OF Inr]
  show ?thesis
  proof (cases "np_start_session p cwd prompt")
    case (Inl e)
    then show ?thesis using assms(4) Inr ok by (auto simp: execute_handoff_def)
  next
    case r: (Inr r)
    let ?status = "if co_turn_running r then ''running'' else co_status r"
    have m: "may_record step_id run_id preview_id (env st)"
      using checked_may_record [OF Inr] ops_keep [OF assms(2,1)] assms(3) by blast
    obtain st2 where st2: "record_execution step_id run_id preview_id target (co_native_session_id r) (co_agent_run_id r) prompt ?status (env st) = (get_step step_id st2, st2)"
        "st2 = (env st)\<lparr>wk_runs := upd_rows (\<lambda>x. wr_id x = run_id) (point_run target (co_native_session_id r) ?status (wk_now (env st))) (wk_runs (env st)),
          wk_steps := wk_steps (env st) @ [new_workflow_step step_id run_id preview_id target (co_native_session_id r) (co_agent_run_id r) prompt ?status (wk_now (env st))]\<rparr>"
      using record_execution_cases [of step_id run_id preview_id target "co_native_session_id r" "co_agent_run_id r" prompt ?status "env st"] m by metis
    let ?s = "new_workflow_step step_id run_id preview_id target (co_native_session_id r) (co_agent_run_id r) prompt ?status (wk_now (env st))"
    have "find (\<lambda>s. wf_id s = step_id) (wk_steps (env st)) = None" using assms(3) by (auto simp: find_None_iff)
    then have g: "get_step step_id st2 = Inr ?s" unfolding st2(2) by (simp add: get_step_def find_append new_workflow_step_def)
    have "\<exists>r'. find (\<lambda>r. wr_id r = run_id) (wk_runs st2) = Some r' \<and> wr_target_thread_id r' = co_native_session_id r"
      using m find_point_run unfolding st2(2) by (simp add: may_record_def)
    moreover have "wk_steps st2 = wk_steps (env st) @ [?s]" unfolding st2(2) by simp
    moreover have "res = Inr \<lparr>he_run_id = run_id, he_step_id = wf_id ?s, he_target_provider = target, he_target_thread_id = co_native_session_id r,
        he_target_url = target_url (co_agent_run_id r) target (co_native_session_id r), he_status = wf_status ?s\<rparr>" "st' = st2" "started = Some (target, cwd, prompt)"
      using assms(4) Inr r st2(1) g by (simp_all add: execute_handoff_def)
    ultimately show ?thesis using ok r by (auto simp: new_workflow_step_def)
  qed
qed

definition demo_provider :: handoff_provider where
  "demo_provider = \<lparr>np_read_session = (\<lambda>_. Inr []), np_can_start_session = True,
     np_start_session = (\<lambda>_ _. Inr \<lparr>co_native_session_id = ''t9'', co_agent_run_id = 4, co_turn_running = True, co_status = ''ok''\<rparr>)\<rparr>"

definition demo_workflows :: workflow_store where
  "demo_workflows = snd (preview_handoff [(''codex'', demo_provider), (''claude'', demo_provider)] ''wf_1'' ''preview_1'' ''codex'' ''t1'' '''' ''claude'' ''/w'' ''auto'' ''''
     \<lparr>wk_now = 0, wk_runs = [], wk_previews = [], wk_steps = []\<rparr>)"

theorem handoff_follows_preview_witness:
  "wk_steps demo_workflows = [] \<and> wf_target_thread_id (last (wk_steps (fst (snd (execute_handoff [(''codex'', demo_provider), (''claude'', demo_provider)] (\<lambda>st. st) ''step_1''
      ''wf_1'' ''preview_1'' ''claude'' ''/w'' ''go'' demo_workflows))))) = ''t9''"
proof -
  let ?reg = "[(''codex'', demo_provider), (''claude'', demo_provider)]"
  have e: "workflow_wf \<lparr>wk_now = 0, wk_runs = [], wk_previews = [], wk_steps = []\<rparr>" by (simp add: workflow_wf_def)
  have s: "wk_steps demo_workflows = []" by code_simp
  have w: "workflow_wf demo_workflows" by code_simp
  obtain res st' started where x: "execute_handoff ?reg (\<lambda>st. st) ''step_1'' ''wf_1'' ''preview_1'' ''claude'' ''/w'' ''go'' demo_workflows = (res, st', started)"
    by (metis prod_cases3)
  have "snd (snd (execute_handoff ?reg (\<lambda>st. st) ''step_1'' ''wf_1'' ''preview_1'' ''claude'' ''/w'' ''go'' demo_workflows)) = Some (''claude'', ''/w'', ''go'')" by code_simp
  then have "started = Some (''claude'', ''/w'', ''go'')" using x by simp
  moreover have "registry_get ?reg ''claude'' = Inr demo_provider" by (simp add: registry_get_def) (simp add: strip_def rstrip_def lstrip_def py_isspace_def code_point_def)
  ultimately show ?thesis using handoff_follows_preview [OF w _ _ x] s x by (auto simp: demo_provider_def)
qed

section \<open>Previews\<close>

lemma detected_not_auto: "id_intent (detect_handoff_intent a b c) \<noteq> Auto"
  by (simp add: detect_handoff_intent_def)

lemma preview_not_auto: "pp_intent (build_handoff_preview r) \<noteq> Auto"
  using detected_not_auto by (simp add: build_handoff_preview_def Let_def requested_intent_or_detected_def)

lemma first_seen_distinct: "distinct (first_seen seen ps) \<and> set (first_seen seen ps) \<inter> set seen = {}"
  by (induction seen ps rule: first_seen.induct) auto

lemma artifacts_distinct: "distinct (map ha_path (artifacts_from_text t))"
  using first_seen_distinct by (simp add: artifacts_from_text_def comp_def)

lemma artifacts_load: "map load_artifact (artifacts_from_text t) = artifacts_from_text t"
  by (simp add: artifacts_from_text_def load_artifact_def comp_def)

text \<open>C26. A preview is stored as it is shown: what the store gives back for its id, now and later, is the intent, prompt, artifacts and warnings that the user
  saw, with the target, the source and the resolved workspace; its intent is never left open, no artifact is listed twice, and both providers are known.\<close>

theorem preview_stored:
  assumes "preview_handoff reg run_id preview_id source thread turn target cwd intent note st = (Inr (v, stored), st')"
  shows "get_preview preview_id st' = Inr stored \<and> wp_intent (sp_preview stored) = pp_intent v \<and> wp_prompt (sp_preview stored) = pp_prompt v \<and>
    wp_artifacts (sp_preview stored) = pp_artifacts v \<and> wp_warnings (sp_preview stored) = pp_warnings v \<and> wp_target_provider (sp_preview stored) = target \<and>
    wp_run_id (sp_preview stored) = run_id \<and> sp_source_provider stored = source \<and> sp_source_thread_id stored = thread \<and>
    (if strip cwd = [] then True else sp_cwd stored = strip cwd) \<and> pp_intent v \<noteq> Auto \<and> distinct (map ha_path (pp_artifacts v)) \<and>
    \<not> isl (registry_get reg source) \<and> \<not> isl (registry_get reg target)"
proof -
  obtain p q session turns where reg: "registry_get reg source = Inr p" "registry_get reg target = Inr q" "read_source p thread = Inr session" "session_turns session = Inr turns"
      and b: "bindA (create_preview run_id preview_id source thread turn target (if strip cwd = [] then session_cwd session else strip cwd)
        (build_handoff_preview (preview_input source thread target (if strip cwd = [] then session_cwd session else strip cwd) turns intent note)))
        (\<lambda>stored. retA (build_handoff_preview (preview_input source thread target (if strip cwd = [] then session_cwd session else strip cwd) turns intent note), stored)) st =
        (Inr (v, stored), st')"
    using assms by (auto simp: preview_handoff_def Let_def bindA_def thenA_def liftA_def split: sum.splits)
  define c where "c = (if strip cwd = [] then session_cwd session else strip cwd)"
  define w where "w = build_handoff_preview (preview_input source thread target c turns intent note)"
  have b: "v = w" "create_preview run_id preview_id source thread turn target c w st = (Inr stored, st')"
    using b unfolding c_def [symmetric] w_def [symmetric] by (auto simp: bindA_def retA_def split: prod.splits sum.splits)
  have arts: "pp_artifacts w = artifacts_from_text (hp_recent_user_text (preview_input source thread target c turns intent note) @ nl @ hp_session_summary (preview_input source thread target c turns intent note))"
    by (simp add: w_def build_handoff_preview_def preview_input_def Let_def)
  show ?thesis
  proof (cases rule: create_preview_cases [of run_id preview_id source thread turn target c w st])
    case (1 e)
    then show ?thesis using b(2) by simp
  next
    case (2 st2)
    have st2: "st' = st2" "get_preview preview_id st2 = Inr stored" using 2(1) b(2) by simp_all
    have "find (\<lambda>p. wp_id p = preview_id) (wk_previews st) = None" "find (\<lambda>r. wr_id r = run_id) (wk_runs st) = None"
      using 2(2,3) by (auto simp: find_None_iff)
    then have "stored = \<lparr>sp_preview = (new_workflow_preview preview_id run_id target w (wk_now st))\<lparr>wp_artifacts := map load_artifact (pp_artifacts w)\<rparr>,
        sp_source_provider = source, sp_source_thread_id = thread, sp_source_turn_id = turn, sp_cwd = c\<rparr>"
      using st2(2) unfolding 2(4) by (simp add: get_preview_def join_preview_def find_append new_workflow_preview_def new_workflow_run_def)
    moreover have "pp_intent w \<noteq> Auto" "map load_artifact (pp_artifacts w) = pp_artifacts w" "distinct (map ha_path (pp_artifacts w))"
      using preview_not_auto arts artifacts_load artifacts_distinct by (simp_all add: w_def)
    ultimately show ?thesis using st2 b(1) reg(1,2) by (auto simp: new_workflow_preview_def c_def)
  qed
qed

theorem preview_stored_witness:
  "\<exists>stored. get_preview ''preview_1'' demo_workflows = Inr stored \<and> wp_intent (sp_preview stored) \<noteq> Auto \<and> sp_cwd stored = ''/w''"
proof -
  let ?x = "preview_handoff [(''codex'', demo_provider), (''claude'', demo_provider)] ''wf_1'' ''preview_1'' ''codex'' ''t1'' '''' ''claude'' ''/w'' ''auto'' ''''
     \<lparr>wk_now = 0, wk_runs = [], wk_previews = [], wk_steps = []\<rparr>"
  have "\<not> isl (fst ?x)" "strip ''/w'' = ''/w''" by code_simp+
  then obtain v stored where "fst ?x = Inr (v, stored)" by (cases "fst ?x") auto
  then have "?x = (Inr (v, stored), demo_workflows)" by (simp add: demo_workflows_def prod_eq_iff)
  from preview_stored [OF this] show ?thesis using \<open>strip ''/w'' = ''/w''\<close> by auto
qed

end
