(* ===== verification/Event_Queries.thy ===== *)
theory Event_Queries
  imports Runtime_State
begin

text \<open>
  The rest of \<^verbatim>\<open>wlcodex/runtime_event_store.py\<close>: the read queries over the event log, the repair of mirrored turn ids, the
  conversation state derived from the log, and the raw frames of providers with their sequence numbers. The retention tables
  are installed; a frame that retention moved to the archive is read through a parameter.
\<close>

section \<open>Queries\<close>

text \<open>A negative \<open>LIMIT\<close> of SQLite is no limit.\<close>

definition sql_limit :: "int \<Rightarrow> 'a list \<Rightarrow> 'a list" where
  "sql_limit n xs = (if n < 0 then xs else take (nat n) xs)"

definition get_by_id :: "event_store \<Rightarrow> nat \<Rightarrow> runtime_event option" where
  "get_by_id st i = find (\<lambda>e. v_id e = i) (es_events st)"

definition latest_approval_resolution :: "event_store \<Rightarrow> string \<Rightarrow> nat option \<Rightarrow> runtime_event option" where
  "latest_approval_resolution st request_id run =
     (if strip request_id = [] then None
      else first_row (order_desc v_id (filter (\<lambda>e. v_event_type e = ''approval.resolved'' \<and> v_aggregate_id e = strip request_id \<and>
        (run = None \<or> v_agent_run_id e = run)) (es_events st))))"

definition list_by_correlation :: "event_store \<Rightarrow> string \<Rightarrow> int \<Rightarrow> runtime_event list" where
  "list_by_correlation st c limit = sql_limit limit (sort_key v_id (filter (\<lambda>e. v_correlation_id e = c) (es_events st)))"

definition run_events :: "event_store \<Rightarrow> nat \<Rightarrow> runtime_event list" where
  "run_events st run = filter (\<lambda>e. v_agent_run_id e = Some run) (es_events st)"

definition list_by_agent_run :: "event_store \<Rightarrow> nat \<Rightarrow> int \<Rightarrow> runtime_event list" where
  "list_by_agent_run st run limit = sql_limit limit (sort_key v_id (run_events st run))"

definition list_by_agent_run_after :: "event_store \<Rightarrow> nat \<Rightarrow> int \<Rightarrow> int \<Rightarrow> runtime_event list" where
  "list_by_agent_run_after st run after limit =
     (if limit \<le> 0 then [] else sql_limit limit (sort_key v_id (filter (\<lambda>e. int (v_id e) > after) (run_events st run))))"

definition list_by_agent_run_tail :: "event_store \<Rightarrow> nat \<Rightarrow> int \<Rightarrow> runtime_event list" where
  "list_by_agent_run_tail st run limit = (if limit \<le> 0 then [] else rev (sql_limit limit (order_desc v_id (run_events st run))))"

definition list_by_agent_run_before :: "event_store \<Rightarrow> nat \<Rightarrow> int \<Rightarrow> int \<Rightarrow> runtime_event list" where
  "list_by_agent_run_before st run before limit =
     (if before \<le> 0 \<or> limit \<le> 0 then []
      else rev (sql_limit limit (order_desc v_id (filter (\<lambda>e. int (v_id e) < before) (run_events st run)))))"

definition count_by_agent_run_before :: "event_store \<Rightarrow> nat \<Rightarrow> int \<Rightarrow> nat" where
  "count_by_agent_run_before st run before =
     (if before \<le> 0 then 0 else length (filter (\<lambda>e. int (v_id e) < before) (run_events st run)))"

definition list_by_conversation :: "event_store \<Rightarrow> nat \<Rightarrow> int \<Rightarrow> runtime_event list" where
  "list_by_conversation st c limit = sql_limit limit (sort_key v_id (filter (\<lambda>e. v_conversation_id e = Some c) (es_events st)))"

definition list_by_orchestration_run :: "event_store \<Rightarrow> nat \<Rightarrow> int \<Rightarrow> runtime_event list" where
  "list_by_orchestration_run st r limit = sql_limit limit (sort_key v_id (filter (\<lambda>e. v_orchestration_run_id e = Some r) (es_events st)))"

definition list_recent_for_conversation :: "event_store \<Rightarrow> nat \<Rightarrow> int \<Rightarrow> runtime_event list" where
  "list_recent_for_conversation st c limit =
     rev (sql_limit limit (order_desc v_id (filter (\<lambda>e. v_conversation_id e = Some c) (es_events st))))"

section \<open>Items of a transcript\<close>

text \<open>\<open>json_extract\<close> equals a text where the value is that text (item ids that are themselves the JSON text of a list or dictionary are left out).\<close>

definition has_item :: "string \<Rightarrow> runtime_event \<Rightarrow> bool" where
  "has_item i e \<longleftrightarrow> dget0 (v_payload e) ''itemId'' = JStr i \<or> dget0 (v_payload e) ''item_id'' = JStr i"

definition has_payload_item_id :: "event_store \<Rightarrow> nat \<Rightarrow> string \<Rightarrow> bool" where
  "has_payload_item_id st run i \<longleftrightarrow> i \<noteq> [] \<and> list_ex (has_item i) (run_events st run)"

definition payload_item :: "dict \<Rightarrow> string" where
  "payload_item d =
     (case find (\<lambda>k. py_truth (dget0 d k)) [''itemId'', ''item_id''] of None \<Rightarrow> [] | Some k \<Rightarrow> py_str (dget0 d k))"

definition payload_turn :: "dict \<Rightarrow> string" where
  "payload_turn d = py_str (py_or (py_or (dget0 d ''turnId'') (dget0 d ''native_turn_id'')) (JStr []))"

definition note_item :: "runtime_event \<Rightarrow> (string \<times> string list) list \<Rightarrow> (string \<times> string list) list" where
  "note_item e items =
     (let i = payload_item (v_payload e); t = payload_turn (v_payload e);
          old = (case map_of items i of None \<Rightarrow> [] | Some ts \<Rightarrow> ts) in
      if i = [] then items else dset i (if t = [] \<or> t \<in> set old then old else old @ [t]) items)"

definition payload_item_turn_ids_by_agent_run :: "event_store \<Rightarrow> nat \<Rightarrow> (string \<times> string list) list" where
  "payload_item_turn_ids_by_agent_run st run = fold note_item (run_events st run) []"

definition payload_item_ids_by_agent_run :: "event_store \<Rightarrow> nat \<Rightarrow> string list" where
  "payload_item_ids_by_agent_run st run = map fst (payload_item_turn_ids_by_agent_run st run)"

definition corrected :: "string \<Rightarrow> string \<Rightarrow> dict \<Rightarrow> dict" where
  "corrected turn thread d =
     (let d1 = dset ''turnId'' (JStr turn) (dset ''native_turn_id'' (JStr turn) d) in
      if thread = [] then d1 else dset ''threadId'' (JStr thread) (dset ''native_thread_id'' (JStr thread) d1))"

definition needs_correction :: "nat \<Rightarrow> string \<Rightarrow> string \<Rightarrow> string \<Rightarrow> runtime_event \<Rightarrow> bool" where
  "needs_correction run i turn thread e \<longleftrightarrow> v_agent_run_id e = Some run \<and> has_item i e \<and> corrected turn thread (v_payload e) \<noteq> v_payload e"

definition correct_payload_item_turn_id :: "nat \<Rightarrow> string \<Rightarrow> string \<Rightarrow> string \<Rightarrow> event_store \<Rightarrow> nat \<times> event_store" where
  "correct_payload_item_turn_id run i turn thread st =
     (if i = [] \<or> turn = [] then (0, st)
      else (length (filter (needs_correction run i turn thread) (es_events st)),
            st\<lparr>es_events := upd_rows (needs_correction run i turn thread)
              (\<lambda>e. e\<lparr>v_payload := corrected turn thread (v_payload e)\<rparr>) (es_events st)\<rparr>))"

section \<open>The state of a conversation\<close>

definition conversation_state_events :: "string list" where
  "conversation_state_events = [''conversation.started'', ''conversation.state.changed'', ''conversation.closed'', ''run.phase.changed'',
     ''run.completed'', ''run.failed'', ''run.recovery.required'', ''run.cancelled'', ''verification.decision.recorded'']"

text \<open>Looking a value up by phase: a list or a dictionary cannot be a key and raises.\<close>

definition mapped_phase :: "dict \<Rightarrow> json + string option" where
  "mapped_phase d =
     (case dget d ''phase'' (JStr []) of
        JStr p \<Rightarrow> Inr (map_of orch_phase_to_conversation_state p)
      | JList xs \<Rightarrow> Inl (JList xs) | JDict m \<Rightarrow> Inl (JDict m) | _ \<Rightarrow> Inr None)"

type_synonym derived_state = "json option \<times> bool"

definition derive_state :: "runtime_event \<Rightarrow> derived_state \<Rightarrow> json + derived_state" where
  "derive_state e = (\<lambda>(state, has_pass).
     let ty = v_event_type e; d = v_payload e;
         by_phase = (\<lambda>s. bindE (mapped_phase d) (\<lambda>m. Inr (case m of None \<Rightarrow> s | Some p \<Rightarrow> Some (JStr p), has_pass))) in
     if ty = ''conversation.started'' then Inr (Some (JStr ''new''), has_pass)
     else if ty = ''conversation.state.changed'' then
       by_phase (if py_truth (dget d ''to'' (JStr [])) then Some (dget d ''to'' (JStr [])) else state)
     else if ty = ''run.phase.changed'' then by_phase state
     else if ty = ''run.completed'' then Inr (Some (JStr (if has_pass then ''passed'' else ''failed'')), has_pass)
     else if ty = ''run.failed'' then Inr (Some (JStr ''failed''), has_pass)
     else if ty = ''run.recovery.required'' then Inr (Some (JStr ''needs_recovery''), has_pass)
     else if ty = ''run.cancelled'' then Inr (Some (JStr ''aborted''), has_pass)
     else if ty = ''verification.decision.recorded'' then Inr (state, has_pass \<or> dget0 d ''decision'' = JStr ''pass'')
     else Inr (state, has_pass))"

definition state_events_of :: "event_store \<Rightarrow> nat \<Rightarrow> runtime_event list" where
  "state_events_of st c = sort_key v_id (filter (\<lambda>e. v_conversation_id e = Some c \<and> v_event_type e \<in> set conversation_state_events) (es_events st))"

definition get_conversation_runtime_state :: "event_store \<Rightarrow> nat \<Rightarrow> json + json option" where
  "get_conversation_runtime_state st c = bindE (foldE derive_state (state_events_of st c) (None, False)) (\<lambda>(state, _). Inr state)"

section \<open>Raw frames\<close>

record frame_turn =
  ft_provider :: string
  ft_provider_engine :: string
  ft_native_session_id :: string
  ft_native_turn_id :: string

record provider_raw_frame =
  rf_id :: nat
  rf_turn :: frame_turn
  rf_sequence :: int
  rf_raw_kind :: string
  rf_raw_payload :: json
  rf_occurred_at :: stamp
  rf_conversation_id :: "nat option"
  rf_orchestration_run_id :: "nat option"
  rf_agent_run_id :: "nat option"
  rf_task_id :: "nat option"

text \<open>The hot frames, the archive index (turn and sequence of each archived frame) and the cursors.\<close>

record frame_store =
  fs_frames :: "provider_raw_frame list"
  fs_next :: nat
  fs_archive :: "(nat \<times> frame_turn \<times> int) list"
  fs_cursors :: "(frame_turn \<times> int) list"

definition max_sequence :: "int list \<Rightarrow> int" where
  "max_sequence ns = (if ns = [] then 0 else Max (set ns))"

definition next_provider_raw_frame_sequence :: "frame_store \<Rightarrow> frame_turn \<Rightarrow> int" where
  "next_provider_raw_frame_sequence st t =
     max (max (case map_of (fs_cursors st) t of None \<Rightarrow> 0 | Some n \<Rightarrow> n)
              (max_sequence (map rf_sequence (filter (\<lambda>f. rf_turn f = t) (fs_frames st)))))
         (max_sequence (map (\<lambda>(_, _, n). n) (filter (\<lambda>(_, u, _). u = t) (fs_archive st)))) + 1"

definition append_provider_raw_frame :: "(string \<Rightarrow> string) \<Rightarrow> provider_raw_frame \<Rightarrow> dict \<Rightarrow> frame_store \<Rightarrow> provider_raw_frame \<times> frame_store" where
  "append_provider_raw_frame rt frame payload st =
     (let f = frame\<lparr>rf_id := fs_next st, rf_raw_payload := JDict (redact_dict rt (2 ^ 63 - 1) payload)\<rparr>;
          old = map_of (fs_cursors st) (rf_turn f) in
      (f, st\<lparr>fs_frames := fs_frames st @ [f], fs_next := fs_next st + 1,
             fs_cursors := dset (rf_turn f) (case old of None \<Rightarrow> rf_sequence f | Some n \<Rightarrow> max n (rf_sequence f)) (fs_cursors st)\<rparr>))"

definition frame_from_row :: "provider_raw_frame \<Rightarrow> provider_raw_frame" where
  "frame_from_row f = f\<lparr>rf_raw_payload := (case rf_raw_payload f of JDict d \<Rightarrow> JDict d | v \<Rightarrow> JDict [(''value'', v)])\<rparr>"

definition get_provider_raw_frame :: "(nat \<Rightarrow> provider_raw_frame option) \<Rightarrow> frame_store \<Rightarrow> nat \<Rightarrow> provider_raw_frame option" where
  "get_provider_raw_frame archived st i =
     (case find (\<lambda>f. rf_id f = i) (fs_frames st) of
        Some f \<Rightarrow> Some (frame_from_row f)
      | None \<Rightarrow> map_option frame_from_row (archived i))"

end
