(* ===== verification/Event_Queries_Properties.thy ===== *)
theory Event_Queries_Properties
  imports Event_Queries Run_Queue_Properties
begin

text \<open>
  What the read queries of the event store give: pages read with the last id as cursor make up the whole transcript, the repair of turn ids reaches its
  item only and settles, sequence numbers of raw frames never come back, and what the derived state of a conversation makes of a passed verification.
\<close>

section \<open>Rows under increasing ids\<close>

lemma ids_ok_filter: "ids_ok key rs n \<Longrightarrow> ids_ok key (filter P rs) n"
  by (auto simp: ids_ok_def sorted_wrt_filter simp flip: filter_map)
    (metis (mono_tags, lifting) sorted_wrt_filter sorted_wrt_map)

lemma ids_ok_sorted: "ids_ok key rs n \<Longrightarrow> sort_key key rs = rs"
  by (simp add: ids_ok_def sorted_sort_id strict_sorted_imp_sorted sort_key_id_if_sorted)

lemma run_events_ok: "ids_ok v_id (es_events st) n \<Longrightarrow> ids_ok v_id (run_events st run) n"
  by (simp add: run_events_def ids_ok_filter)


section \<open>Reading by cursor\<close>

definition later :: "event_store \<Rightarrow> nat \<Rightarrow> int \<Rightarrow> runtime_event list" where
  "later st run c = filter (\<lambda>e. c < int (v_id e)) (run_events st run)"

text \<open>A client that polls: each page is read from the log as it then is, and the last id of a page is the next cursor.\<close>

definition next_cursor :: "runtime_event list \<Rightarrow> int \<Rightarrow> int" where
  "next_cursor p c = (if p = [] then c else int (v_id (last p)))"

primrec follow :: "event_store list \<Rightarrow> nat \<Rightarrow> int \<Rightarrow> int \<Rightarrow> runtime_event list \<times> int" where
  "follow [] run limit c = ([], c)"
| "follow (st # sts) run limit c =
     (let p = list_by_agent_run_after st run c limit; r = follow sts run limit (next_cursor p c) in (p @ fst r, snd r))"

lemma later_ok: "ids_ok v_id (es_events st) n \<Longrightarrow> ids_ok v_id (later st run c) n"
  by (simp add: later_def run_events_ok ids_ok_filter)

lemma page_take: "ids_ok v_id (es_events st) n \<Longrightarrow> 0 < limit \<Longrightarrow> list_by_agent_run_after st run c limit = take (nat limit) (later st run c)"
  using ids_ok_sorted [OF later_ok] by (simp add: list_by_agent_run_after_def sql_limit_def later_def)

lemma all_run_events: "ids_ok v_id (es_events st) n \<Longrightarrow> list_by_agent_run st run (- 1) = run_events st run"
  using ids_ok_sorted [OF run_events_ok] by (simp add: list_by_agent_run_def sql_limit_def)

text \<open>In a list with increasing ids what follows a cut is what has a larger id than the cut.\<close>

lemma filter_after_last:
  assumes "ids_ok v_id (p @ q) n" "p \<noteq> []"
  shows "filter (\<lambda>e. int (v_id (last p)) < int (v_id e)) (p @ q) = q"
proof -
  have "\<forall>e \<in> set p. v_id e \<le> v_id (last p)"
    using assms by (induction p) (auto simp: ids_ok_def less_imp_le)
  moreover have "\<forall>e \<in> set q. v_id (last p) < v_id e"
    using assms by (auto simp: ids_ok_def sorted_wrt_append)
  ultimately show ?thesis by (auto simp: filter_empty_conv filter_id_conv)
qed

lemma later_later: "c \<le> d \<Longrightarrow> later st run d = filter (\<lambda>e. d < int (v_id e)) (later st run c)"
  by (auto simp: later_def intro: filter_cong)

lemma page_step:
  assumes "ids_ok v_id (es_events F) n" "prefix (es_events st) (es_events F)" "0 < limit" "p = list_by_agent_run_after st run c limit"
  shows "p @ later F run (next_cursor p c) = later F run c"
proof (cases "p = []")
  case False
  have st: "ids_ok v_id (es_events st) n"
    using assms(1,2) by (auto simp: prefix_def ids_ok_def sorted_wrt_append)
  then have p: "p = take (nat limit) (later st run c)" using page_take assms(3,4) by simp
  obtain q where q: "later F run c = p @ q"
  proof -
    obtain r where "es_events F = es_events st @ r" using assms(2) by (auto simp: prefix_def)
    then have "later F run c = later st run c @ filter (\<lambda>e. c < int (v_id e)) (filter (\<lambda>e. v_agent_run_id e = Some run) r)"
      by (simp add: later_def run_events_def)
    then show ?thesis using that p append_take_drop_id [of "nat limit" "later st run c"] by (metis append.assoc)
  qed
  have "last p \<in> set (later F run c)" using False q by simp
  then have "c \<le> int (v_id (last p))" by (simp add: later_def)
  then have "later F run (int (v_id (last p))) = q"
    using later_later [of c "int (v_id (last p))" F run] filter_after_last [of p q n] later_ok [OF assms(1), of run c] False q by simp
  then show ?thesis using False q by (simp add: next_cursor_def)
qed (simp add: next_cursor_def)

lemma follow_append: "follow (xs @ ys) run limit c =
    (let r = follow xs run limit c; r' = follow ys run limit (snd r) in (fst r @ fst r', snd r'))"
  by (induction xs arbitrary: c) (simp_all add: Let_def)

lemma follow_step:
  assumes "ids_ok v_id (es_events F) n" "\<forall>s \<in> set sts. prefix (es_events s) (es_events F)" "0 < limit"
  shows "fst (follow sts run limit c) @ later F run (snd (follow sts run limit c)) = later F run c"
  using assms(2) by (induction sts arbitrary: c) (simp_all add: Let_def page_step [OF assms(1) _ assms(3) refl])

lemma follow_done:
  assumes "ids_ok v_id (es_events F) n" "0 < limit" "length (later F run c) \<le> k"
  shows "later F run (snd (follow (replicate k F) run limit c)) = []"
  using assms(3)
proof (induction k arbitrary: c)
  case (Suc k)
  define p where "p = list_by_agent_run_after F run c limit"
  define d where "d = next_cursor p c"
  have e: "p @ later F run d = later F run c"
    using page_step [OF assms(1) _ assms(2) p_def] by (simp add: d_def)
  have "p = take (nat limit) (later F run c)" using page_take [OF assms(1,2)] by (simp add: p_def)
  then have "later F run c = [] \<or> p \<noteq> []" using assms(2) by auto
  then have "length (later F run d) \<le> k" using e Suc.prems by (cases p) (auto simp flip: e)
  then show ?case using Suc.IH by (simp add: Let_def d_def p_def)
qed simp

text \<open>C27. A client that reads the events of a run page by page, with the last id of each page as its cursor, sees every event after its starting point
  exactly once and in order while the log grows between the polls: at each moment what it has is the transcript up to its cursor, and once the log stands
  still as many polls as there are events, of any page size, complete it.\<close>

theorem cursor_loses_nothing:
  assumes "ids_ok v_id (es_events F) n" "\<forall>s \<in> set sts. prefix (es_events s) (es_events F)" "0 < limit" "length (run_events F run) \<le> k"
  shows "(\<exists>rest. filter (\<lambda>e. c < int (v_id e)) (list_by_agent_run F run (- 1)) = fst (follow sts run limit c) @ rest) \<and>
    fst (follow (sts @ replicate k F) run limit c) = filter (\<lambda>e. c < int (v_id e)) (list_by_agent_run F run (- 1))"
proof -
  have l: "filter (\<lambda>e. c < int (v_id e)) (list_by_agent_run F run (- 1)) = later F run c"
    using all_run_events [OF assms(1)] by (simp add: later_def)
  have s: "\<forall>s \<in> set (sts @ replicate k F). prefix (es_events s) (es_events F)" using assms(2) by auto
  have "length (later F run d) \<le> k" for d
    using assms(4) length_filter_le [of _ "run_events F run"] by (metis later_def le_trans)
  then have "later F run (snd (follow (sts @ replicate k F) run limit c)) = []"
    using follow_done [OF assms(1,3)] by (simp add: follow_append Let_def)
  then show ?thesis using follow_step [OF assms(1,2,3)] follow_step [OF assms(1) s assms(3)] l by (metis append_Nil2)
qed

definition demo_run_event :: "nat \<Rightarrow> string \<Rightarrow> dict \<Rightarrow> runtime_event" where
  "demo_run_event i ty d = (demo_event_row i ty)\<lparr>v_agent_run_id := Some 7, v_payload := d\<rparr>"

definition demo_run_log :: event_store where
  "demo_run_log = demo_queue\<lparr>es_events := [demo_run_event 1 ''item'' [(''itemId'', JStr ''a'')], demo_run_event 2 ''item'' [(''itemId'', JStr ''b'')],
     demo_run_event 3 ''item'' [(''item_id'', JStr ''a'')]], es_next := 4\<rparr>"

lemma demo_run_log_ok: "ids_ok v_id (es_events demo_run_log) 4"
  by (simp add: demo_run_log_def ids_ok_def demo_run_event_def demo_event_row_def)

theorem cursor_loses_nothing_witness:
  "fst (follow ([demo_run_log\<lparr>es_events := take 2 (es_events demo_run_log)\<rparr>] @ replicate 3 demo_run_log) 7 1 0) = es_events demo_run_log"
proof -
  have "filter (\<lambda>e. 0 < int (v_id e)) (list_by_agent_run demo_run_log 7 (- 1)) = es_events demo_run_log"
    by (simp add: all_run_events [OF demo_run_log_ok] run_events_def) (simp add: demo_run_log_def demo_run_event_def demo_event_row_def)
  then show ?thesis
    using cursor_loses_nothing [OF demo_run_log_ok, of "[demo_run_log\<lparr>es_events := take 2 (es_events demo_run_log)\<rparr>]" 1 7 3 0]
    by (simp add: take_is_prefix run_events_def del: follow.simps) (simp add: demo_run_log_def demo_queue_def)
qed

section \<open>Turn repair\<close>

lemma dset_id: "map_of d k = Some v \<Longrightarrow> dset k v d = d"
  by (induction d) (auto split: if_splits)

lemma corrected_other: "k \<notin> {''turnId'', ''native_turn_id'', ''threadId'', ''native_thread_id''} \<Longrightarrow> dget0 (corrected turn thread d) k = dget0 d k"
  by (simp add: corrected_def Let_def dget_dset)

lemma corrected_turn: "dget0 (corrected turn thread d) ''turnId'' = JStr turn" "dget0 (corrected turn thread d) ''native_turn_id'' = JStr turn"
  by (simp_all add: corrected_def Let_def dget_dset)

lemma corrected_idem: "corrected turn thread (corrected turn thread d) = corrected turn thread d"
  by (simp add: corrected_def Let_def dset_id)

lemma has_item_corrected: "has_item i (e\<lparr>v_payload := corrected turn thread (v_payload e)\<rparr>) = has_item i e"
  by (simp add: has_item_def corrected_other)

lemma needs_correction_settled: "\<not> needs_correction run i turn thread (if needs_correction run i turn thread e then e\<lparr>v_payload := corrected turn thread (v_payload e)\<rparr> else e)"
  by (auto simp: needs_correction_def corrected_idem)

text \<open>The repair of a mirrored turn id gives every event of the item in that run the turn (and leaves its item ids alone), changes no other event, keeps
  the ids and the order of the log, reports how many events it changed, and finds nothing to do when it is asked again.\<close>

theorem turn_repair_settles:
  assumes "correct_payload_item_turn_id run i turn thread st = (k, st')" "i \<noteq> []" "turn \<noteq> []"
  shows "length (es_events st') = length (es_events st) \<and>
    list_all2 (\<lambda>e e'. if v_agent_run_id e = Some run \<and> has_item i e
        then e' = e\<lparr>v_payload := v_payload e'\<rparr> \<and> has_item i e' \<and> dget0 (v_payload e') ''turnId'' = JStr turn \<and> dget0 (v_payload e') ''native_turn_id'' = JStr turn \<and>
          (\<forall>key. key \<notin> {''turnId'', ''native_turn_id'', ''threadId'', ''native_thread_id''} \<longrightarrow> dget0 (v_payload e') key = dget0 (v_payload e) key)
        else e' = e) (es_events st) (es_events st') \<and>
    k = length (filter (\<lambda>(e, e'). e \<noteq> e') (zip (es_events st) (es_events st'))) \<and>
    correct_payload_item_turn_id run i turn thread st' = (0, st')"
proof -
  define f where "f = (\<lambda>e. if needs_correction run i turn thread e then e\<lparr>v_payload := corrected turn thread (v_payload e)\<rparr> else e)"
  have k: "k = length (filter (needs_correction run i turn thread) (es_events st))" and ev: "es_events st' = map f (es_events st)"
    using assms by (auto simp: correct_payload_item_turn_id_def upd_rows_def f_def)
  have f: "(f e \<noteq> e) = needs_correction run i turn thread e" for e
    by (cases e) (auto simp: f_def needs_correction_def)
  have num: "length (filter (\<lambda>(e, e'). e \<noteq> e') (zip es (map f es))) = length (filter (needs_correction run i turn thread) es)" for es
    by (induction es) (auto simp: f [symmetric])
  have none: "\<not> needs_correction run i turn thread e" if "e \<in> set (es_events st')" for e
    using that needs_correction_settled [of run i turn thread] by (auto simp only: ev f_def set_map)
  have fc: "f e = e\<lparr>v_payload := corrected turn thread (v_payload e)\<rparr>" if "v_agent_run_id e = Some run" "has_item i e" for e
    using that by (simp add: f_def needs_correction_def)
  have fn: "f e = e" if "\<not> (v_agent_run_id e = Some run \<and> has_item i e)" for e
    using that by (auto simp: f_def needs_correction_def)
  show ?thesis
  proof (intro conjI)
    show "correct_payload_item_turn_id run i turn thread st' = (0, st')"
      using assms(2,3) none by (simp add: correct_payload_item_turn_id_def upd_rows_none)
  qed (auto simp: ev k num list_all2_conv_all_nth fc fn has_item_corrected corrected_turn corrected_other)
qed

theorem turn_repair_settles_witness:
  "(case correct_payload_item_turn_id 7 ''a'' ''t1'' '''' demo_run_log of (k, st') \<Rightarrow> k = 2 \<and> es_events st' ! 1 = es_events demo_run_log ! 1 \<and>
     correct_payload_item_turn_id 7 ''a'' ''t1'' '''' st' = (0, st'))"
proof -
  obtain k st' where x: "correct_payload_item_turn_id 7 ''a'' ''t1'' '''' demo_run_log = (k, st')" by fastforce
  have "k = 2" using arg_cong [OF x, of fst] by (simp add: correct_payload_item_turn_id_def demo_run_log_def demo_run_event_def demo_event_row_def needs_correction_def has_item_def dget_def corrected_def Let_def)
  moreover have "\<not> has_item ''a'' (es_events demo_run_log ! 1)" "length (es_events demo_run_log) = 3" by (simp_all add: has_item_def demo_run_log_def demo_run_event_def dget_def)
  ultimately show ?thesis using turn_repair_settles [OF x] x by (auto dest: list_all2_nthD [where p = 1])
qed

section \<open>Sequence numbers of raw frames\<close>

lemma max_sequence_ge: "n \<in> set ns \<Longrightarrow> n \<le> max_sequence ns"
  by (auto simp: max_sequence_def)

lemma next_sequence_above:
  "f \<in> set (fs_frames st) \<Longrightarrow> rf_turn f = t \<Longrightarrow> rf_sequence f < next_provider_raw_frame_sequence st t"
  "(i, t, n) \<in> set (fs_archive st) \<Longrightarrow> n < next_provider_raw_frame_sequence st t"
  "map_of (fs_cursors st) t = Some n \<Longrightarrow> n < next_provider_raw_frame_sequence st t"
  using max_sequence_ge [of "rf_sequence f" "map rf_sequence (filter (\<lambda>f. rf_turn f = t) (fs_frames st))"]
    max_sequence_ge [of n "map (\<lambda>(_, _, n). n) (filter (\<lambda>(_, u, _). u = t) (fs_archive st))"]
  by (force simp: next_provider_raw_frame_sequence_def)+

text \<open>A worker stores the frames of turns, each under the next number of its turn; retention takes hot frames away (into the archive or for good) in between.\<close>

datatype frame_step = Store provider_raw_frame dict | Retain "nat list" "(nat \<times> frame_turn \<times> int) list"

definition frame_step :: "(string \<Rightarrow> string) \<Rightarrow> frame_step \<Rightarrow> frame_store \<times> (frame_turn \<times> int) list \<Rightarrow> frame_store \<times> (frame_turn \<times> int) list" where
  "frame_step rt s = (\<lambda>(st, given).
     case s of
       Store f d \<Rightarrow> (let n = next_provider_raw_frame_sequence st (rf_turn f) in
         (snd (append_provider_raw_frame rt (f\<lparr>rf_sequence := n\<rparr>) d st), given @ [(rf_turn f, n)]))
     | Retain keep archive \<Rightarrow> (st\<lparr>fs_frames := filter (\<lambda>f. rf_id f \<in> set keep) (fs_frames st), fs_archive := archive\<rparr>, given))"

definition given_below :: "frame_store \<times> (frame_turn \<times> int) list \<Rightarrow> bool" where
  "given_below = (\<lambda>(st, given). \<forall>(t, n) \<in> set given. \<exists>m. map_of (fs_cursors st) t = Some m \<and> n \<le> m)"

lemma cursor_after_append:
  "map_of (fs_cursors (snd (append_provider_raw_frame rt f d st))) =
     (map_of (fs_cursors st))(rf_turn f \<mapsto> (case map_of (fs_cursors st) (rf_turn f) of None \<Rightarrow> rf_sequence f | Some n \<Rightarrow> max n (rf_sequence f)))"
  by (cases "map_of (fs_cursors st) (rf_turn f)") (simp_all add: append_provider_raw_frame_def Let_def)

lemma frame_step_given:
  assumes "given_below (st, given)" "sorted_wrt (\<lambda>(t, n) (u, m). t = u \<longrightarrow> n < m) given" "frame_step rt s (st, given) = (st', given')"
  shows "given_below (st', given') \<and> sorted_wrt (\<lambda>(t, n) (u, m). t = u \<longrightarrow> n < m) given'"
proof (cases s)
  case (Store f d)
  define n where "n = next_provider_raw_frame_sequence st (rf_turn f)"
  have g: "given' = given @ [(rf_turn f, n)]" and st': "st' = snd (append_provider_raw_frame rt (f\<lparr>rf_sequence := n\<rparr>) d st)"
    using assms(3) Store by (simp_all add: frame_step_def Let_def n_def)
  have below: "\<exists>m. map_of (fs_cursors st) t = Some m \<and> k \<le> m" if "(t, k) \<in> set given" for t k
    using assms(1) that by (auto simp: given_below_def)
  have less: "k < n" if tk: "(rf_turn f, k) \<in> set given" for k
    using below [OF tk] next_sequence_above(3) [of st "rf_turn f"] by (auto simp: n_def)
  have c: "\<exists>m. map_of (fs_cursors st') t = Some m \<and> k \<le> m" if "(t, k) \<in> set given'" for t k
    using that below [of t k] unfolding g st' cursor_after_append by (auto split: option.splits) 
  show ?thesis using c less assms(2) by (auto simp: g given_below_def sorted_wrt_append)
qed (use assms in \<open>auto simp: frame_step_def given_below_def\<close>)

text \<open>C28. Frames stored under the number the store hands out get strictly increasing numbers within each turn, however retention empties the hot frames and
  rewrites the archive index in between: no number of a turn is ever given again.\<close>

theorem sequence_never_reused:
  assumes "fold (frame_step rt) steps (st, []) = (st', given)"
  shows "sorted_wrt (\<lambda>(t, n) (u, m). t = u \<longrightarrow> n < m) given \<and> distinct given \<and>
    (\<forall>(t, n) \<in> set given. n < next_provider_raw_frame_sequence st' t)"
proof -
  have "given_below (st', given) \<and> sorted_wrt (\<lambda>(t, n) (u, m). t = u \<longrightarrow> n < m) given"
    if "fold (frame_step rt) steps (s0, g0) = (st', given)" "given_below (s0, g0)" "sorted_wrt (\<lambda>(t, n) (u, m). t = u \<longrightarrow> n < m) g0" for s0 g0
    using that
  proof (induction steps arbitrary: s0 g0)
    case (Cons s steps)
    obtain s1 g1 where s: "frame_step rt s (s0, g0) = (s1, g1)" by fastforce
    then show ?case using Cons.IH [of s1 g1] Cons.prems frame_step_given [OF Cons.prems(2,3) s] by simp
  qed simp
  then have *: "given_below (st', given)" "sorted_wrt (\<lambda>(t, n) (u, m). t = u \<longrightarrow> n < m) given"
    using assms by (auto simp: given_below_def)
  have "distinct given" using *(2) by (induction given) auto
  then show ?thesis using * next_sequence_above(3) by (fastforce simp: given_below_def)
qed

definition demo_frame :: provider_raw_frame where
  "demo_frame = \<lparr>rf_id = 0, rf_turn = \<lparr>ft_provider = ''codex'', ft_provider_engine = [], ft_native_session_id = ''s'', ft_native_turn_id = ''t''\<rparr>, rf_sequence = 0,
     rf_raw_kind = ''k'', rf_raw_payload = JDict [], rf_occurred_at = 0, rf_conversation_id = None, rf_orchestration_run_id = None, rf_agent_run_id = None, rf_task_id = None\<rparr>"

theorem sequence_never_reused_witness:
  "distinct (snd (fold (frame_step (\<lambda>s. s)) [Store demo_frame [], Retain [] [], Store demo_frame []]
     (\<lparr>fs_frames = [], fs_next = 1, fs_archive = [], fs_cursors = []\<rparr>, [])))"
  using sequence_never_reused [of "\<lambda>s. s" "[Store demo_frame [], Retain [] [], Store demo_frame []]" "\<lparr>fs_frames = [], fs_next = 1, fs_archive = [], fs_cursors = []\<rparr>"]
  by (metis prod.collapse)

section \<open>The derived state of a conversation\<close>

definition is_pass :: "runtime_event \<Rightarrow> bool" where
  "is_pass e \<longleftrightarrow> v_event_type e = ''verification.decision.recorded'' \<and> dget0 (v_payload e) ''decision'' = JStr ''pass''"

lemma derive_state_pass:
  assumes "\<not> isl (mapped_phase (v_payload e))"
  shows "\<exists>s'. derive_state e (s, b) = Inr (s', b \<or> is_pass e)"
  using assms by (cases "mapped_phase (v_payload e)") (auto simp: derive_state_def Let_def is_pass_def)

lemma fold_derive_pass:
  assumes "\<forall>e \<in> set es. \<not> isl (mapped_phase (v_payload e))"
  shows "\<exists>s'. foldE derive_state es (s, b) = Inr (s', b \<or> list_ex is_pass es)"
  using assms
proof (induction es arbitrary: s b)
  case (Cons e es)
  then obtain s1 where "derive_state e (s, b) = Inr (s1, b \<or> is_pass e)" using derive_state_pass by fastforce
  then show ?case using Cons.IH [of s1 "b \<or> is_pass e"] Cons.prems by (simp add: disj_assoc)
qed simp

text \<open>C40. A conversation whose last state event is a completed run counts as passed exactly when a passed verification stands anywhere in its history, before
  or after the start of that run: the pass of an earlier run carries over to every later one, and a run that asked for no verification counts as failed.\<close>

theorem completed_state_exact:
  assumes "state_events_of st c = es @ [e]" "v_event_type e = ''run.completed''" "\<forall>e \<in> set es. \<not> isl (mapped_phase (v_payload e))"
  shows "get_conversation_runtime_state st c = Inr (Some (JStr (if list_ex is_pass es then ''passed'' else ''failed'')))"
proof -
  obtain s where "foldE derive_state es (None, False) = Inr (s, list_ex is_pass es)" using fold_derive_pass [OF assms(3), of None False] by auto
  then show ?thesis using assms(1,2) by (simp add: get_conversation_runtime_state_def foldE_append derive_state_def)
qed

definition demo_second_run :: event_store where
  "demo_second_run = demo_queue\<lparr>es_events := [demo_event_row 1 ''conversation.started'',
     (demo_event_row 2 ''verification.decision.recorded'')\<lparr>v_payload := [(''decision'', JStr ''pass'')]\<rparr>, demo_event_row 3 ''run.completed'',
     (demo_event_row 4 ''run.phase.changed'')\<lparr>v_payload := [(''phase'', JStr ''executing'')]\<rparr>, demo_event_row 5 ''run.completed'']\<rparr>"

theorem completed_state_exact_witness:
  "get_conversation_runtime_state demo_second_run 1 = Inr (Some (JStr ''passed''))"
proof -
  have s: "state_events_of demo_second_run 1 = take 4 (es_events demo_second_run) @ [demo_event_row 5 ''run.completed'']"
    by (simp add: demo_second_run_def state_events_of_def conversation_state_events_def demo_event_row_def)
  have "\<forall>e \<in> set (take 4 (es_events demo_second_run)). \<not> isl (mapped_phase (v_payload e))" "list_ex is_pass (take 4 (es_events demo_second_run))"
    by (simp_all add: demo_second_run_def demo_event_row_def mapped_phase_def is_pass_def dget_def)
  then show ?thesis using completed_state_exact [OF s] by (simp add: demo_event_row_def)
qed

end
