(* ===== verification/Context_Packets.thy ===== *)
theory Context_Packets
  imports Redaction
begin

text \<open>
  \<^verbatim>\<open>wlcodex/context_packets.py\<close>: the prompt packets of the chief-engineer and auto workflows, their budgets and their rendering.
  The fixed Chinese texts are a parameter: a rule list by its place, a single text by its use.
\<close>

section \<open>Fixed texts\<close>

datatype packet_rules =
    HandoffAnalysis | DirectAnalysis | ClaudeRuntime | DeliveryIsolation | VerificationRules | AutoContext | AutoFinalPlan
  | AutoVerificationHead | AutoVerificationTail | AutoRepair | RepairCriteria | RepairProhibited
  | LightFeeCommon | LightFeeContext | LightFeeFinalPlan | LightFeeVerification | LightFeeRepair

datatype fixed_text =
    DirectOutput | AutoContextOutput | FinalPlanOutput | FinalPlanLightFee | FinalPlanDiagnose | PendingContext | AutoPendingContext
  | VerifyRoundBefore | VerifyRoundAfter | RepairReason | RepairPlan | RepairObjective
  | RetryFirst | RetryRealFiles | VerificationDrift | ClaudeDrift | DriftWarning | DriftOriginal | ForbiddenBefore | ForbiddenAfter
  | DiagnosisHead | DiagnosisSummary | DiagnosisFiles | DiagnosisSteps | DiagnosisCriteria | DiagnosisTail
  | SayAnalysing | SayAnalysisFailed | SayNoImplementation | SayClaudeFailed | SayVerifying | SayVerifyFailed | SayPassed | SayStopped | SayNeedUser
  | SayMaxRoundsBefore | SayMaxRoundsAfter | TestsModified

record fixed_texts =
  ft_policy :: string
  ft_rules :: "packet_rules \<Rightarrow> string list"
  ft_say :: "fixed_text \<Rightarrow> string"

definition is_lightfeev2_workspace :: "string \<Rightarrow> bool" where
  "is_lightfeev2_workspace w \<longleftrightarrow> filter (\<lambda>c. c \<noteq> CHR ''-'' \<and> c \<noteq> CHR ''_'') (py_lower (strip w)) = ''lightfeev2''"

definition lightfeev2_bugfix_constraints :: "fixed_texts \<Rightarrow> string \<Rightarrow> string list" where
  "lightfeev2_bugfix_constraints tx stage =
     ft_rules tx LightFeeCommon @
     (if stage = ''context'' then ft_rules tx LightFeeContext
      else if stage = ''final_plan'' then ft_rules tx LightFeeFinalPlan
      else if stage = ''verification'' then ft_rules tx LightFeeVerification
      else if stage = ''repair'' then ft_rules tx LightFeeRepair
      else [])"

definition with_lightfeev2_bugfix_constraints :: "fixed_texts \<Rightarrow> string \<Rightarrow> string list \<Rightarrow> string \<Rightarrow> string list" where
  "with_lightfeev2_bugfix_constraints tx w cs stage =
     (if is_lightfeev2_workspace w then cs @ lightfeev2_bugfix_constraints tx stage else cs)"

text \<open>Who reads a text: the goal and the plan of the user and the agents, files and rules of a prompt.\<close>

type_synonym goal_text = string
type_synonym plan_text = string
type_synonym report_text = string
type_synonym rule_list = "string list"
type_synonym file_list = "string list"

section \<open>Budgets\<close>

definition approx_tokens :: "string \<Rightarrow> int" where
  "approx_tokens t = max 1 (int (length t div 4))"

text \<open>\<open>t[:n]\<close>, where a negative end counts from the end of the text.\<close>

definition slice_to :: "int \<Rightarrow> string \<Rightarrow> string" where
  "slice_to n t = (if n < 0 then take (nat (int (length t) + n)) t else take (nat n) t)"

definition trim_to_budget :: "string \<Rightarrow> int \<Rightarrow> string" where
  "trim_to_budget t max_tokens = (if approx_tokens t \<le> max_tokens then t else slice_to (max_tokens * 4) t)"

record context_budget =
  cb_codex_analysis_tokens :: int
  cb_codex_to_claude_tokens :: int
  cb_claude_to_codex_tokens :: int
  cb_conversation_summary_tokens :: int

definition default_budget :: context_budget where
  "default_budget = \<lparr>cb_codex_analysis_tokens = 2500, cb_codex_to_claude_tokens = 1500, cb_claude_to_codex_tokens = 2500,
     cb_conversation_summary_tokens = 800\<rparr>"

section \<open>Packets\<close>

record context_packet =
  cp_mode :: string
  cp_workspace :: string
  cp_user_goal :: string
  cp_current_request :: string
  cp_conversation_summary :: string
  cp_relevant_files :: "string list"
  cp_recent_user_constraints :: "string list"
  cp_acceptance_criteria :: "string list"
  cp_token_budget :: int
  cp_output_language_policy :: string

definition new_line :: string where
  "new_line = [char_of (10::nat)]"

definition field_line :: "string \<Rightarrow> string \<Rightarrow> string list" where
  "field_line label v = (if v = [] then [] else [label @ v])"

definition list_line :: "string \<Rightarrow> string \<Rightarrow> string list \<Rightarrow> string list" where
  "list_line label sep vs = (if vs = [] then [] else [label @ py_join sep vs])"

definition render_base :: "'a context_packet_scheme \<Rightarrow> string" where
  "render_base p = py_join new_line
     (field_line ''mode: '' (cp_mode p) @ field_line ''workspace: '' (cp_workspace p) @ field_line ''user_goal: '' (cp_user_goal p) @
      field_line ''current_request: '' (cp_current_request p) @ field_line ''conversation_summary: '' (cp_conversation_summary p) @
      list_line ''relevant_files: '' '', '' (cp_relevant_files p) @
      list_line ''recent_user_constraints: '' ''; '' (cp_recent_user_constraints p) @
      list_line ''acceptance_criteria: '' ''; '' (cp_acceptance_criteria p) @
      field_line ''output_language_policy: '' (cp_output_language_policy p) @
      (if cp_token_budget p = 0 then [] else [''token_budget: '' @ int_str (cp_token_budget p)]))"

definition packet_summary :: "'a context_packet_scheme \<Rightarrow> string" where
  "packet_summary p = py_join '' | ''
     ([cp_user_goal p] @ (if cp_current_request p = [] then [] else [cp_current_request p]) @
      list_line ''files: '' '', '' (take 5 (cp_relevant_files p)))"

definition within_budget :: "('a context_packet_scheme \<Rightarrow> string) \<Rightarrow> 'a context_packet_scheme \<Rightarrow> bool" where
  "within_budget render p \<longleftrightarrow> cp_token_budget p \<le> 0 \<or> approx_tokens (render p) \<le> cp_token_budget p"

record codex_analysis_packet = context_packet +
  ca_requested_output :: string

definition render_analysis :: "codex_analysis_packet \<Rightarrow> string" where
  "render_analysis p = render_base p @ (if ca_requested_output p = [] then [] else new_line @ ''requested_output: '' @ ca_requested_output p)"

record handoff_from_codex =
  hf_objective :: string
  hf_files_to_touch :: "string list"
  hf_steps :: "string list"
  hf_constraints :: "string list"
  hf_acceptance_criteria :: "string list"
  hf_prohibited_changes :: "string list"
  hf_analysis :: string

record claude_handoff_packet = context_packet +
  ch_handoff_from_codex :: handoff_from_codex

definition step_lines :: "string list \<Rightarrow> string list" where
  "step_lines steps = map (\<lambda>(i, s). ''  step_'' @ nat_str i @ '': '' @ s) (zip [1..<Suc (length steps)] steps)"

definition render_handoff :: "claude_handoff_packet \<Rightarrow> string" where
  "render_handoff p = (let h = ch_handoff_from_codex p in py_join new_line
     ([render_base p, [], ''handoff_from_codex:''] @ field_line ''  objective: '' (hf_objective h) @ field_line ''  analysis: '' (hf_analysis h) @
      list_line ''  files_to_touch: '' '', '' (hf_files_to_touch h) @ step_lines (hf_steps h) @
      list_line ''  constraints: '' ''; '' (hf_constraints h) @ list_line ''  acceptance_criteria: '' ''; '' (hf_acceptance_criteria h) @
      list_line ''  prohibited_changes: '' ''; '' (hf_prohibited_changes h)))"

record codex_verification_packet = context_packet +
  cv_original_goal :: string
  cv_codex_plan_summary :: string
  cv_claude_completion_summary :: string
  cv_changed_files :: "string list"
  cv_unrelated_changed_files :: "string list"
  cv_diff_excerpt_or_summary :: string
  cv_test_results :: string
  cv_verification_question :: string

definition render_verification :: "codex_verification_packet \<Rightarrow> string" where
  "render_verification p = py_join new_line
     ([render_base p, [], ''verification_context:''] @ field_line ''  original_goal: '' (cv_original_goal p) @
      field_line ''  codex_plan_summary: '' (cv_codex_plan_summary p) @
      field_line ''  claude_completion_summary: '' (cv_claude_completion_summary p) @
      list_line ''  changed_files: '' '', '' (cv_changed_files p) @
      list_line ''  unrelated_changed_files: '' '', '' (cv_unrelated_changed_files p) @
      field_line ''  diff_excerpt_or_summary: '' (cv_diff_excerpt_or_summary p) @ field_line ''  test_results: '' (cv_test_results p) @
      field_line ''  verification_question: '' (cv_verification_question p))"

section \<open>Chief-engineer packets\<close>

definition handoff_output :: string where
  "handoff_output = ''Chief-engineer developer handoff packet: root cause, files_to_touch, implementation_steps, acceptance_criteria, '' @
     ''verification_plan, prohibited_changes. Do not implement code changes yourself.''"

definition build_codex_analysis_packet ::
  "fixed_texts \<Rightarrow> goal_text \<Rightarrow> report_text \<Rightarrow> file_list \<Rightarrow> rule_list \<Rightarrow> string \<Rightarrow> context_budget \<Rightarrow> bool \<Rightarrow> codex_analysis_packet" where
  "build_codex_analysis_packet tx goal summary files constraints ws bgt handoff =
     \<lparr>cp_mode = ''chief_engineer'', cp_workspace = ws, cp_user_goal = goal, cp_current_request = [],
      cp_conversation_summary = trim_to_budget summary (cb_conversation_summary_tokens bgt), cp_relevant_files = files,
      cp_recent_user_constraints = ft_rules tx (if handoff then HandoffAnalysis else DirectAnalysis) @ constraints,
      cp_acceptance_criteria = [], cp_token_budget = cb_codex_analysis_tokens bgt, cp_output_language_policy = ft_policy tx,
      ca_requested_output = (if handoff then handoff_output else ft_say tx DirectOutput)\<rparr>"

definition build_claude_handoff_packet ::
  "fixed_texts \<Rightarrow> goal_text \<Rightarrow> plan_text \<Rightarrow> rule_list \<Rightarrow> rule_list \<Rightarrow> file_list \<Rightarrow> rule_list \<Rightarrow> rule_list \<Rightarrow> string \<Rightarrow> context_budget \<Rightarrow>
     claude_handoff_packet" where
  "build_claude_handoff_packet tx goal analysis steps criteria files constraints prohibited ws bgt =
     (let merged = ft_rules tx ClaudeRuntime @ ft_rules tx DeliveryIsolation @ constraints in
      \<lparr>cp_mode = ''chief_engineer'', cp_workspace = ws, cp_user_goal = goal, cp_current_request = [], cp_conversation_summary = [],
       cp_relevant_files = files, cp_recent_user_constraints = merged, cp_acceptance_criteria = criteria,
       cp_token_budget = cb_codex_to_claude_tokens bgt, cp_output_language_policy = ft_policy tx,
       ch_handoff_from_codex = \<lparr>hf_objective = goal, hf_files_to_touch = files, hf_steps = steps, hf_constraints = merged,
         hf_acceptance_criteria = criteria, hf_prohibited_changes = prohibited,
         hf_analysis = trim_to_budget analysis (cb_codex_to_claude_tokens bgt)\<rparr>\<rparr>)"

definition verification_packet ::
  "fixed_texts \<Rightarrow> string \<Rightarrow> rule_list \<Rightarrow> fixed_text \<Rightarrow> goal_text \<Rightarrow> plan_text \<Rightarrow> report_text \<Rightarrow> file_list \<Rightarrow> file_list \<Rightarrow> report_text \<Rightarrow> report_text \<Rightarrow> string \<Rightarrow>
     context_budget \<Rightarrow> string \<Rightarrow> codex_verification_packet" where
  "verification_packet tx mode rules head goal plan completion changed unrelated tests diff ws bgt pending =
     (let context = (if pending = [] then [] else ft_say tx head @ new_line @ take 500 pending) in
      \<lparr>cp_mode = mode, cp_workspace = ws, cp_user_goal = goal, cp_current_request = [],
       cp_conversation_summary = trim_to_budget context (cb_conversation_summary_tokens bgt), cp_relevant_files = changed,
       cp_recent_user_constraints = rules, cp_acceptance_criteria = [], cp_token_budget = cb_claude_to_codex_tokens bgt,
       cp_output_language_policy = ft_policy tx, cv_original_goal = goal,
       cv_codex_plan_summary = trim_to_budget plan (cb_conversation_summary_tokens bgt),
       cv_claude_completion_summary = trim_to_budget completion (cb_conversation_summary_tokens bgt), cv_changed_files = changed,
       cv_unrelated_changed_files = unrelated, cv_diff_excerpt_or_summary = diff, cv_test_results = tests,
       cv_verification_question = ''Does the implementation meet all acceptance criteria?''\<rparr>)"

definition build_codex_verification_packet ::
  "fixed_texts \<Rightarrow> goal_text \<Rightarrow> plan_text \<Rightarrow> report_text \<Rightarrow> file_list \<Rightarrow> file_list \<Rightarrow> report_text \<Rightarrow> report_text \<Rightarrow> string \<Rightarrow> context_budget \<Rightarrow> string \<Rightarrow>
     codex_verification_packet" where
  "build_codex_verification_packet tx = verification_packet tx ''chief_engineer'' (ft_rules tx VerificationRules) PendingContext"

section \<open>Packets of the auto workflow\<close>

definition auto_analysis_packet :: "fixed_texts \<Rightarrow> string \<Rightarrow> rule_list \<Rightarrow> string \<Rightarrow> goal_text \<Rightarrow> report_text \<Rightarrow> string \<Rightarrow> context_budget \<Rightarrow> codex_analysis_packet" where
  "auto_analysis_packet tx mode rules requested goal summary ws bgt =
     \<lparr>cp_mode = mode, cp_workspace = ws, cp_user_goal = goal, cp_current_request = [],
      cp_conversation_summary = trim_to_budget summary (cb_conversation_summary_tokens bgt), cp_relevant_files = [],
      cp_recent_user_constraints = rules, cp_acceptance_criteria = [], cp_token_budget = cb_codex_analysis_tokens bgt,
      cp_output_language_policy = ft_policy tx, ca_requested_output = requested\<rparr>"

definition build_auto_context_packet :: "fixed_texts \<Rightarrow> string \<Rightarrow> string \<Rightarrow> string \<Rightarrow> context_budget \<Rightarrow> codex_analysis_packet" where
  "build_auto_context_packet tx goal summary ws =
     auto_analysis_packet tx ''auto_collecting_context'' (with_lightfeev2_bugfix_constraints tx ws (ft_rules tx AutoContext) ''context'')
       (ft_say tx AutoContextOutput) goal summary ws"

definition build_auto_final_plan_packet :: "fixed_texts \<Rightarrow> string \<Rightarrow> string \<Rightarrow> string \<Rightarrow> context_budget \<Rightarrow> codex_analysis_packet" where
  "build_auto_final_plan_packet tx goal summary ws =
     auto_analysis_packet tx ''auto_final_plan'' (with_lightfeev2_bugfix_constraints tx ws (ft_rules tx AutoFinalPlan) ''final_plan'')
       (ft_say tx FinalPlanOutput @ (if is_lightfeev2_workspace ws then ft_say tx FinalPlanLightFee else []) @ ft_say tx FinalPlanDiagnose) goal summary ws"

definition build_auto_verification_packet ::
  "fixed_texts \<Rightarrow> goal_text \<Rightarrow> plan_text \<Rightarrow> report_text \<Rightarrow> file_list \<Rightarrow> file_list \<Rightarrow> report_text \<Rightarrow> report_text \<Rightarrow> string \<Rightarrow> context_budget \<Rightarrow> int \<Rightarrow> string \<Rightarrow>
     codex_verification_packet" where
  "build_auto_verification_packet tx goal plan completion changed unrelated tests diff ws bgt verify_round pending =
     verification_packet tx ''auto_verification''
       (with_lightfeev2_bugfix_constraints tx ws (ft_rules tx AutoVerificationHead @
          [ft_say tx VerifyRoundBefore @ int_str verify_round @ ft_say tx VerifyRoundAfter] @ ft_rules tx AutoVerificationTail) ''verification'')
       AutoPendingContext goal plan completion changed unrelated tests diff ws bgt pending"

definition build_auto_repair_packet :: "fixed_texts \<Rightarrow> goal_text \<Rightarrow> plan_text \<Rightarrow> report_text \<Rightarrow> string \<Rightarrow> context_budget \<Rightarrow> claude_handoff_packet" where
  "build_auto_repair_packet tx goal plan verification ws bgt =
     \<lparr>cp_mode = ''auto_repair'', cp_workspace = ws, cp_user_goal = goal, cp_current_request = [], cp_conversation_summary = [], cp_relevant_files = [],
      cp_recent_user_constraints = with_lightfeev2_bugfix_constraints tx ws (ft_rules tx AutoRepair) ''repair'', cp_acceptance_criteria = [],
      cp_token_budget = cb_codex_to_claude_tokens bgt, cp_output_language_policy = ft_policy tx,
      ch_handoff_from_codex = \<lparr>hf_objective = ft_say tx RepairObjective @ goal, hf_files_to_touch = [],
        hf_steps = (if verification = [] then [] else [ft_say tx RepairReason @ take 500 verification]) @
          (if plan = [] then [] else [ft_say tx RepairPlan @ take 300 plan]),
        hf_constraints = [], hf_acceptance_criteria = ft_rules tx RepairCriteria, hf_prohibited_changes = ft_rules tx RepairProhibited,
        hf_analysis = take 1000 verification\<rparr>\<rparr>"

end
