(* ===== verification/Chief_Engineer.thy ===== *)
theory Chief_Engineer
  imports Context_Packets Claude_Stream
begin

text \<open>
  \<^verbatim>\<open>wlcodex/orchestrator.py\<close>: the loop in which one agent analyses, another implements and the first verifies, with its guards
  against direct delivery and against writes during analysis. The agents, git, the files, the JSON decoder and the hash are
  parameters over a world they may change; the pending context is read from the world, since others set it meanwhile. Characters
  are code points below 256, so the Chinese markers of the source match nothing and are left out of the marker lists.
\<close>

section \<open>Texts and markers\<close>

definition direct_telegram_send_patterns :: "string list" where
  "direct_telegram_send_patterns = [''message_id='', ''message_id ='', ''api.telegram.org'', ''sendMessage'', ''editMessageText'', ''sendChatAction'',
     ''editMessageReplyMarkup'', ''telegram.message.sent'', ''telegram bot sent'', ''via Telegram'', ''curl.*telegram'', ''http.*telegram.*bot'']"

definition direct_token_access_patterns :: "string list" where
  "direct_token_access_patterns = [''WLCODEX_TELEGRAM_BOT_TOKEN'', ''TELEGRAM_BOT_TOKEN'', ''telegram.*bot_token'', ''bot.*token.*telegram'',
     ''os.environ.*TELEGRAM'', ''os.getenv.*TELEGRAM'', ''env.*TELEGRAM_BOT'']"

definition negated_delivery_reference_markers :: "string list" where
  "negated_delivery_reference_markers = [''not '', ''no '', ''never'', ''without'', ''did not'', ''does not'', ''do not'', ''no match'',
     ''not matched'', ''must not'', ''should not'', ''will not'', ''won't'']"

definition is_line_break :: "char \<Rightarrow> bool" where
  "is_line_break c \<longleftrightarrow> code_point c \<in> set [10, 11, 12, 13, 28, 29, 30, 133]"

fun splitlines_acc :: "bool \<Rightarrow> string \<Rightarrow> string \<Rightarrow> string list" where
  "splitlines_acc after_cr acc [] = (if acc = [] then [] else [rev acc])"
| "splitlines_acc after_cr acc (c # s) =
     (if after_cr \<and> code_point c = 10 then splitlines_acc False acc s
      else if is_line_break c then rev acc # splitlines_acc (code_point c = 13) [] s
      else splitlines_acc False (c # acc) s)"

definition py_splitlines :: "string \<Rightarrow> string list" where
  "py_splitlines s = splitlines_acc False [] s"

lemma find_from_bounds: "find_from p i s = Some j \<Longrightarrow> i \<le> j \<and> j \<le> length s"
  by (auto simp: find_from_def find_Some_iff simp del: upt_Suc)

text \<open>The occurrences of a pattern in a line, one after the other (no pattern of the lists is empty).\<close>

function unnegated_from :: "string \<Rightarrow> string \<Rightarrow> nat \<Rightarrow> bool" where
  "unnegated_from p line start =
     (case (if p = [] then None else find_from p start line) of
        None \<Rightarrow> False
      | Some i \<Rightarrow>
          (let window = take (i + length p + 90 - (i - 90)) (drop (i - 90) line) in
           \<not> list_ex (\<lambda>m. contains window (py_lower m)) negated_delivery_reference_markers \<or> unnegated_from p line (i + length p)))"
  by pat_completeness auto

termination
  by (relation "measure (\<lambda>(p, line, start). Suc (length line) - start)")
    (auto dest: find_from_bounds split: if_splits simp flip: length_greater_0_conv)

definition has_non_negated_pattern :: "string \<Rightarrow> string \<Rightarrow> bool" where
  "has_non_negated_pattern t p \<longleftrightarrow>
     list_ex (\<lambda>line. unnegated_from (py_lower p) (py_lower line) 0) (if py_splitlines t = [] then [t] else py_splitlines t)"

definition first_drift :: "string \<Rightarrow> (string \<Rightarrow> bool) \<Rightarrow> string list \<Rightarrow> string list" where
  "first_drift what P ps = (case find P ps of None \<Rightarrow> [] | Some p \<Rightarrow> [what @ '': matched '' @ [CHR 0x27] @ p @ [CHR 0x27]])"

definition detect_claude_direct_delivery_drift :: "string \<Rightarrow> string list" where
  "detect_claude_direct_delivery_drift t =
     first_drift ''Claude claimed direct Telegram delivery'' (\<lambda>p. contains (py_lower t) (py_lower p)) direct_telegram_send_patterns @
     first_drift ''Claude attempted Telegram token access'' (\<lambda>p. contains (py_lower t) (py_lower p)) direct_token_access_patterns"

definition detect_verification_delivery_drift :: "string \<Rightarrow> string list" where
  "detect_verification_delivery_drift t =
     (let P = (\<lambda>p. contains (py_lower t) (py_lower p) \<and> has_non_negated_pattern t p) in
      first_drift ''Codex verification attempted direct delivery'' P direct_telegram_send_patterns @
      first_drift ''Codex verification attempted token access'' P direct_token_access_patterns)"

definition any_marker :: "string list \<Rightarrow> string \<Rightarrow> bool" where
  "any_marker ms t = list_ex (\<lambda>m. contains (py_lower t) m \<or> contains t m) ms"

definition analysis_says_no_implementation_needed :: "(string \<Rightarrow> json option) \<Rightarrow> string \<Rightarrow> bool" where
  "analysis_says_no_implementation_needed loads t \<longleftrightarrow>
     (case loads t of Some (JDict d) \<Rightarrow> dget0 d ''needs_implementation'' = JBool False | _ \<Rightarrow> False) \<or>
     any_marker [''no code changes'', ''no implementation needed'', ''no implementation is needed'', ''no changes needed''] t"

lemma find_from_brace: "find_from [c] 0 t = Some j \<Longrightarrow> j < length t"
  by (auto simp: find_from_def find_Some_iff startswith_def simp del: upt_Suc) (metis append_Nil2 diff_is_0_eq drop_all leI length_0_conv list.size(3) not_Cons_self2 take_eq_Nil)

text \<open>\<open>raw_decode\<close> on the text from a brace on: the value and how many characters it took.\<close>

function last_json_from :: "(string \<Rightarrow> (json \<times> nat) option) \<Rightarrow> dict option \<Rightarrow> string \<Rightarrow> dict option" where
  "last_json_from decode best t =
     (case find_from ''{'' 0 t of
        None \<Rightarrow> best
      | Some start \<Rightarrow>
          (case decode (drop start t) of
             None \<Rightarrow> last_json_from decode best (drop (start + 1) t)
           | Some (v, n) \<Rightarrow> last_json_from decode (case v of JDict d \<Rightarrow> Some d | _ \<Rightarrow> best) (drop (max (start + n) (start + 1)) t)))"
  by pat_completeness auto

termination
  by (relation "measure (\<lambda>(decode, best, t). length t)") (auto dest!: find_from_brace)

definition parse_last_complete_json :: "(string \<Rightarrow> (json \<times> nat) option) \<Rightarrow> string \<Rightarrow> dict option" where
  "parse_last_complete_json decode t = last_json_from decode None t"

definition analysis_needs_implementation :: "(string \<Rightarrow> (json \<times> nat) option) \<Rightarrow> string \<Rightarrow> bool" where
  "analysis_needs_implementation decode t \<longleftrightarrow>
     (case parse_last_complete_json decode t of None \<Rightarrow> False | Some d \<Rightarrow> dget0 d ''needs_implementation'' = JBool True)"

definition stripped_items :: "json \<Rightarrow> string list" where
  "stripped_items v = (case v of JList xs \<Rightarrow> filter (\<lambda>s. s \<noteq> []) (map (\<lambda>x. strip (py_str x)) xs) | _ \<Rightarrow> [])"

definition numbered :: "string list \<Rightarrow> string list" where
  "numbered xs = map (\<lambda>(i, x). ''  '' @ nat_str i @ ''. '' @ x) (zip [1..<Suc (length xs)] xs)"

definition diagnostic_section :: "string \<Rightarrow> string list \<Rightarrow> string list" where
  "diagnostic_section head ls = (if ls = [] then [] else head # ls @ [[]])"

definition render_diagnostic_needs_implementation :: "fixed_texts \<Rightarrow> (string \<Rightarrow> (json \<times> nat) option) \<Rightarrow> string \<Rightarrow> string" where
  "render_diagnostic_needs_implementation tx decode t =
     (let d = (case parse_last_complete_json decode t of None \<Rightarrow> [] | Some d \<Rightarrow> d);
          summary = strip (py_str (dget d ''summary'' (JStr []))) in
      py_join new_line
        ([ft_say tx DiagnosisHead, []] @ (if summary = [] then [] else [ft_say tx DiagnosisSummary @ summary, []]) @
         diagnostic_section (ft_say tx DiagnosisFiles) (map (\<lambda>f. ''  - '' @ f) (stripped_items (dget0 d ''files_to_touch''))) @
         diagnostic_section (ft_say tx DiagnosisSteps) (numbered (stripped_items (dget0 d ''implementation_steps''))) @
         diagnostic_section (ft_say tx DiagnosisCriteria) (numbered (stripped_items (dget0 d ''acceptance_criteria''))) @
         [ft_say tx DiagnosisTail]))"

definition is_reply_only_request :: "string \<Rightarrow> bool" where
  "is_reply_only_request t = any_marker [''reply exactly'', ''only reply'', ''respond exactly'', ''only respond''] t"

definition is_read_only_diagnostic_request :: "string \<Rightarrow> bool" where
  "is_read_only_diagnostic_request t \<longleftrightarrow>
     \<not> any_marker [''fix'', ''implement'', ''modify'', ''change code'', ''restart'', ''redeploy'', ''rollback'', ''delete''] t \<and>
     any_marker [''check'', ''inspect'', ''query'', ''whether'', ''logs'', ''status''] t \<and>
     any_marker [''ready'', ''local l2'', ''service'', ''journal'', ''runtime'', ''health''] t"

section \<open>Verification decisions\<close>

record verification_decision =
  vd_decision :: string
  vd_summary :: string
  vd_required_fix :: string
  vd_confidence :: string

definition normalize_verification_decision_value :: "string \<Rightarrow> string" where
  "normalize_verification_decision_value v =
     (let n = replace_char CHR '' '' CHR ''_'' (replace_char CHR ''-'' CHR ''_'' (py_lower (strip v))) in
      if list_ex (startswith n) [''pass'', ''passed'', ''approve'', ''approved'', ''success''] then ''pass''
      else if list_ex (startswith n) [''retry'', ''repair'', ''block'', ''blocked'', ''fail'', ''failed'', ''needs_repair'', ''need_repair''] then ''retry''
      else if list_ex (startswith n) [''stop'', ''stopped''] then ''stop''
      else if list_ex (startswith n) [''needs_user'', ''need_user'', ''ask_user''] then ''need_user''
      else [])"

definition first_true :: "dict \<Rightarrow> string list \<Rightarrow> json" where
  "first_true d ks = (case find (\<lambda>k. py_truth (dget0 d k)) ks of None \<Rightarrow> JStr [] | Some k \<Rightarrow> dget0 d k)"

definition decision_of_report :: "dict \<Rightarrow> string \<Rightarrow> verification_decision option" where
  "decision_of_report r t =
     (let n = normalize_verification_decision_value
            (py_lower (strip (py_str (first_true r [''decision'', ''verdict'', ''status'', ''conclusion'']))));
          summary = strip (py_str (py_or (dget0 r ''summary'') (JStr t)));
          fix = strip (py_str (first_true r [''required_fix'', ''repair_prompt'', ''next_action''])) in
      if n = [] then None
      else Some \<lparr>vd_decision = n, vd_summary = summary, vd_required_fix = (if n = ''retry'' \<and> fix = [] then summary else fix),
                 vd_confidence = strip (py_str (py_or (dget0 r ''confidence'') (JStr [])))\<rparr>)"

definition stop_markers :: "string list" where
  "stop_markers = map (\<lambda>m. new_line @ m) [''confidence:'', ''summary:'', ''decision:'', ''next_agent:'', ''reason:'']"

definition cut_fix :: "string \<Rightarrow> string" where
  "cut_fix after_fix =
     (let stop_at = fold (\<lambda>m k. case find_from m 0 (py_lower after_fix) of None \<Rightarrow> k | Some p \<Rightarrow> if 0 < p \<and> p < k then p else k)
            stop_markers (length after_fix)
      in strip (take stop_at after_fix))"

definition decision_of_text :: "string \<Rightarrow> verification_decision" where
  "decision_of_text t =
     (let low = py_lower t;
          d = (\<lambda>x f. \<lparr>vd_decision = x, vd_summary = t, vd_required_fix = f, vd_confidence = []\<rparr>) in
      if contains low ''decision: retry'' then
        d ''retry'' (case find_from ''required_fix:'' 0 low of None \<Rightarrow> t | Some i \<Rightarrow> cut_fix (drop i t))
      else if contains low ''decision: pass'' then d ''pass'' []
      else if contains low ''decision: stop'' then d ''stop'' []
      else d ''need_user'' [])"

definition parse_verification :: "(string \<Rightarrow> (json \<times> nat) option) \<Rightarrow> string \<Rightarrow> verification_decision" where
  "parse_verification decode t =
     (case parse_last_complete_json decode t of
        None \<Rightarrow> decision_of_text t
      | Some p \<Rightarrow>
          (case dget p ''audit_report'' (JDict p) of
             JDict r \<Rightarrow> (case decision_of_report r t of None \<Rightarrow> decision_of_text t | Some d \<Rightarrow> d)
           | _ \<Rightarrow> decision_of_text t))"

definition build_retry_analysis :: "fixed_texts \<Rightarrow> string \<Rightarrow> string \<Rightarrow> string \<Rightarrow> int \<Rightarrow> string \<Rightarrow> string" where
  "build_retry_analysis tx fix analysis goal n pending = py_join new_line
     ([''[RETRY_ROUND_'' @ int_str n @ '']'', ft_say tx RetryFirst, ft_say tx RetryRealFiles, []] @
      (if fix = [] then [] else [''[RETRY_REQUIRED_FIX]'', strip fix, []]) @
      (if pending = [] then [] else [''[LATEST_PENDING_CONTEXT]'', strip pending, []]) @
      [''[ORIGINAL_GOAL]'', strip goal, []] @ (if analysis = [] then [] else [''[ORIGINAL_ANALYSIS]'', strip analysis]))"

section \<open>The world\<close>

datatype file_state = FileMissing | FileDirectory | FileContent string | FileUnreadable string

text \<open>
  Git answers with a return code and its output, or not at all; a stream is the events it yields and the exception that ends it.
\<close>

record 'w chief =
  ce_texts :: fixed_texts
  ce_budget :: context_budget
  ce_max_verify_rounds :: int
  ce_loads :: "string \<Rightarrow> json option"
  ce_decode :: "string \<Rightarrow> (json \<times> nat) option"
  ce_sha256 :: "string \<Rightarrow> string"
  ce_git :: "string \<Rightarrow> string list \<Rightarrow> 'w \<Rightarrow> (int \<times> string) option"
  ce_file :: "string \<Rightarrow> string \<Rightarrow> 'w \<Rightarrow> file_state"
  ce_pending_user_context :: "'w \<Rightarrow> string"
  ce_send_codex_prompt :: "string \<Rightarrow> string \<Rightarrow> string \<Rightarrow> 'w \<Rightarrow> (string + string) \<times> 'w"
  ce_claude_send :: "string \<Rightarrow> string \<Rightarrow> 'w \<Rightarrow> (string + string) \<times> 'w"
  ce_claude_stream :: "(string \<Rightarrow> string \<Rightarrow> 'w \<Rightarrow> (agent_stream_event list \<times> string option) \<times> 'w) option"

definition git_output :: "'w chief \<Rightarrow> string \<Rightarrow> string list \<Rightarrow> 'w \<Rightarrow> string option" where
  "git_output e ws args w = (case ce_git e ws args w of Some (rc, out) \<Rightarrow> (if rc = 0 \<and> strip out \<noteq> [] then Some (strip out) else None) | None \<Rightarrow> None)"

definition test_evidence :: "'w chief \<Rightarrow> string \<Rightarrow> 'w \<Rightarrow> string" where
  "test_evidence e ws w =
     (case ce_git e ws [''diff'', ''HEAD'', ''--'', ''tests/'', ''test_''] w of
        None \<Rightarrow> ''Unable to determine test changes. Manual verification required.''
      | Some (rc, out) \<Rightarrow>
          (if rc = 0 \<and> strip out \<noteq> [] then
             ft_say (ce_texts e) TestsModified @ new_line @ new_line @ ''Test file changes:'' @ new_line @ take 800 (strip out)
           else ''No test files were modified in this change. Manual verification of correctness is required.''))"

definition collect_workspace_evidence :: "'w chief \<Rightarrow> string \<Rightarrow> 'w \<Rightarrow> string list \<times> string \<times> string" where
  "collect_workspace_evidence e ws w =
     ((case git_output e ws [''diff'', ''--name-only'', ''HEAD''] w of
         None \<Rightarrow> [] | Some out \<Rightarrow> filter (\<lambda>f. f \<noteq> []) (map strip (split_on (char_of (10::nat)) out))),
      (case git_output e ws [''diff'', ''--stat'', ''HEAD''] w of None \<Rightarrow> [] | Some out \<Rightarrow> out),
      test_evidence e ws w)"

definition git_workspace_root :: "'w chief \<Rightarrow> string \<Rightarrow> 'w \<Rightarrow> string option" where
  "git_workspace_root e ws w = git_output e ws [''rev-parse'', ''--show-toplevel''] w"

fun git_paths :: "'w chief \<Rightarrow> string \<Rightarrow> string list list \<Rightarrow> 'w \<Rightarrow> string list option" where
  "git_paths e ws [] w = Some []"
| "git_paths e ws (args # rest) w =
     (case ce_git e ws args w of
        None \<Rightarrow> None
      | Some (rc, out) \<Rightarrow>
          (if rc \<noteq> 0 then None
           else map_option ((@) (filter (\<lambda>p. p \<noteq> []) (split_on (char_of (0::nat)) out))) (git_paths e ws rest w)))"

definition git_changed_file_paths :: "'w chief \<Rightarrow> string \<Rightarrow> 'w \<Rightarrow> string list option" where
  "git_changed_file_paths e ws w = map_option remdups
     (git_paths e ws [[''ls-files'', ''-m'', ''-d'', ''-o'', ''--exclude-standard'', ''-z''], [''diff'', ''--cached'', ''--name-only'', ''-z'']] w)"

definition file_signature :: "'w chief \<Rightarrow> string \<Rightarrow> string \<Rightarrow> 'w \<Rightarrow> string" where
  "file_signature e root path w =
     (case ce_file e root path w of
        FileMissing \<Rightarrow> ''<missing>'' | FileDirectory \<Rightarrow> ''<directory>'' | FileContent c \<Rightarrow> ce_sha256 e c
      | FileUnreadable x \<Rightarrow> ''<unreadable:'' @ x @ ''>'')"

definition capture_workspace_snapshot :: "'w chief \<Rightarrow> string \<Rightarrow> 'w \<Rightarrow> (string \<times> string) list option" where
  "capture_workspace_snapshot e ws w =
     (case git_workspace_root e ws w of
        None \<Rightarrow> None
      | Some root \<Rightarrow> map_option (map (\<lambda>p. (p, file_signature e root p w))) (git_changed_file_paths e ws w))"

definition is_codex_allowed_write_path :: "string \<Rightarrow> bool" where
  "is_codex_allowed_write_path p \<longleftrightarrow>
     (let n = map (\<lambda>c. if code_point c = 92 then CHR ''/'' else c) p in startswith n ''docs/'' \<or> startswith n ''.wlcodex/'')"

definition codex_forbidden_workspace_changes :: "(string \<times> string) list option \<Rightarrow> (string \<times> string) list option \<Rightarrow> string list" where
  "codex_forbidden_workspace_changes before after =
     (case (before, after) of
        (Some b, Some a) \<Rightarrow>
          filter (\<lambda>p. \<not> is_codex_allowed_write_path p)
            (sort (filter (\<lambda>p. map_of b p \<noteq> map_of a p) (remdups (map fst b @ map fst a))))
      | _ \<Rightarrow> [])"

section \<open>Calls\<close>

definition forbidden_error :: "fixed_texts \<Rightarrow> string list \<Rightarrow> string" where
  "forbidden_error tx ps =
     ft_say tx ForbiddenBefore @
     py_join '', '' (take 8 ps) @ (if length ps > 8 then '', +'' @ nat_str (length ps - 8) @ '' more'' else []) @ ft_say tx ForbiddenAfter"

definition call_codex :: "'w chief \<Rightarrow> string \<Rightarrow> string \<Rightarrow> string \<Rightarrow> 'w \<Rightarrow> (string + string) \<times> 'w" where
  "call_codex e prompt ws mode w =
     (let before = (if mode = ''analysis'' \<or> mode = ''verification'' then capture_workspace_snapshot e ws w else None) in
      case ce_send_codex_prompt e ws prompt mode w of
        (Inl x, w1) \<Rightarrow> (Inl x, w1)
      | (Inr t, w1) \<Rightarrow>
          (let bad = codex_forbidden_workspace_changes before (capture_workspace_snapshot e ws w1) in
           (if bad = [] then Inr t else Inl (forbidden_error (ce_texts e) bad), w1)))"

definition analyze_with_codex :: "'w chief \<Rightarrow> string \<Rightarrow> string \<Rightarrow> 'w \<Rightarrow> (string + string) \<times> 'w" where
  "analyze_with_codex e goal ws =
     call_codex e (render_analysis (build_codex_analysis_packet (ce_texts e) goal [] [] [] ws (ce_budget e) True)) ws ''analysis''"

definition claude_prompt :: "'w chief \<Rightarrow> string \<Rightarrow> string \<Rightarrow> string \<Rightarrow> string" where
  "claude_prompt e goal analysis ws =
     render_handoff (build_claude_handoff_packet (ce_texts e) goal analysis [] [] [] [] [] ws (ce_budget e))"

definition implement_with_claude :: "'w chief \<Rightarrow> string \<Rightarrow> string \<Rightarrow> string \<Rightarrow> 'w \<Rightarrow> (string + string) \<times> 'w" where
  "implement_with_claude e goal analysis ws = ce_claude_send e ws (claude_prompt e goal analysis ws)"

definition claude_summary :: "'w chief \<Rightarrow> string \<Rightarrow> string" where
  "claude_summary e impl =
     (let drift = detect_claude_direct_delivery_drift impl in
      if drift = [] then impl
      else ft_say (ce_texts e) DriftWarning @ new_line @ py_join new_line (map (\<lambda>f. ''  - '' @ f) drift) @ new_line @ new_line @
           ft_say (ce_texts e) DriftOriginal @ new_line @ take 2000 impl)"

text \<open>The drift findings of the implementation are kept for the decision, also when the call fails.\<close>

definition verify_with_codex :: "'w chief \<Rightarrow> string \<Rightarrow> string \<Rightarrow> string \<Rightarrow> string \<Rightarrow> 'w \<Rightarrow> (string + string) \<times> 'w" where
  "verify_with_codex e goal analysis impl ws w =
     (case collect_workspace_evidence e ws w of
        (changed, diff, tests) \<Rightarrow>
          call_codex e (render_verification (build_codex_verification_packet (ce_texts e) goal analysis (claude_summary e impl) changed [] tests diff ws
            (ce_budget e) (ce_pending_user_context e w))) ws ''verification'' w)"

definition enforced_decision :: "'w chief \<Rightarrow> string \<Rightarrow> string \<Rightarrow> verification_decision" where
  "enforced_decision e impl verify =
     (let d = parse_verification (ce_decode e) verify;
          drift = detect_verification_delivery_drift verify;
          claude_drift = detect_claude_direct_delivery_drift impl;
          retry = (\<lambda>fix. \<lparr>vd_decision = ''retry'', vd_summary = vd_summary d, vd_required_fix = fix, vd_confidence = []\<rparr>) in
      if vd_decision d = ''pass'' \<and> drift \<noteq> [] then retry (ft_say (ce_texts e) VerificationDrift @ py_join ''; '' drift)
      else if vd_decision d = ''pass'' \<and> claude_drift \<noteq> [] then retry (ft_say (ce_texts e) ClaudeDrift @ py_join ''; '' claude_drift)
      else d)"

section \<open>The run\<close>

record orchestration_step_result =
  sr_step :: string
  sr_agent :: string
  sr_summary :: string

record orchestration_result =
  or_status :: string
  or_verify_round :: int
  or_codex_analysis :: string
  or_claude_implementation :: string
  or_verification_summary :: string
  or_steps :: "orchestration_step_result list"

definition new_result :: orchestration_result where
  "new_result = \<lparr>or_status = ''running'', or_verify_round = 0, or_codex_analysis = [], or_claude_implementation = [], or_verification_summary = [], or_steps = []\<rparr>"

definition add_step :: "string \<Rightarrow> string \<Rightarrow> string \<Rightarrow> orchestration_result \<Rightarrow> orchestration_result" where
  "add_step s agent t r = r\<lparr>or_steps := or_steps r @ [\<lparr>sr_step = s, sr_agent = agent, sr_summary = take 200 t\<rparr>]\<rparr>"

definition finish_with :: "string \<Rightarrow> string \<Rightarrow> orchestration_result \<Rightarrow> orchestration_result" where
  "finish_with status summary r = r\<lparr>or_status := status, or_verification_summary := summary\<rparr>"

datatype ('r, 'w) round_outcome = Done 'r 'w | Again string 'r 'w

definition is_final_verify_round :: "'w chief \<Rightarrow> int \<Rightarrow> bool" where
  "is_final_verify_round e n \<longleftrightarrow> 0 < ce_max_verify_rounds e \<and> ce_max_verify_rounds e \<le> n"

definition max_rounds_summary :: "'w chief \<Rightarrow> string" where
  "max_rounds_summary e = ''Max verification rounds ('' @ int_str (ce_max_verify_rounds e) @ '') reached. ''"

definition decide_round :: "'w chief \<Rightarrow> string \<Rightarrow> int \<Rightarrow> string \<Rightarrow> verification_decision \<Rightarrow> orchestration_result \<Rightarrow> 'w \<Rightarrow>
    (orchestration_result, 'w) round_outcome" where
  "decide_round e goal n analysis d r w =
     (if vd_decision d = ''pass'' then Done (r\<lparr>or_status := ''passed''\<rparr>) w
      else if vd_decision d = ''stop'' then Done (finish_with ''failed'' (vd_summary d) r) w
      else if vd_decision d = ''need_user'' then Done (finish_with ''needs_user'' (vd_summary d) r) w
      else if vd_decision d = ''retry'' \<and> is_final_verify_round e n then
        Done (finish_with ''failed'' (max_rounds_summary e @ ''Last verification: '' @ take 200 (vd_required_fix d)) r) w
      else if vd_decision d = ''retry'' then
        Again (build_retry_analysis (ce_texts e) (vd_required_fix d) analysis goal n (ce_pending_user_context e w)) r w
      else Again analysis r w)"

definition chief_round :: "'w chief \<Rightarrow> string \<Rightarrow> string \<Rightarrow> int \<Rightarrow> string \<Rightarrow> orchestration_result \<Rightarrow> 'w \<Rightarrow> (orchestration_result, 'w) round_outcome" where
  "chief_round e goal ws n analysis r0 w =
     (let r = r0\<lparr>or_verify_round := n\<rparr> in
      case implement_with_claude e goal analysis ws w of
        (Inl x, w1) \<Rightarrow> Done (finish_with ''failed'' (''Claude implementation failed: '' @ x) r) w1
      | (Inr impl, w1) \<Rightarrow>
          (let r1 = add_step (''implement_round_'' @ int_str n) ''claude'' impl (r\<lparr>or_claude_implementation := impl\<rparr>) in
           case verify_with_codex e goal analysis impl ws w1 of
             (Inl x, w2) \<Rightarrow> Done (finish_with ''failed'' (''Codex verification failed: '' @ x) r1) w2
           | (Inr verify, w2) \<Rightarrow>
               decide_round e goal n analysis (enforced_decision e impl verify)
                 (add_step (''verify_round_'' @ int_str n) ''codex'' verify (r1\<lparr>or_verification_summary := verify\<rparr>)) w2))"

text \<open>Without a limit of rounds the loop need not end; then its value is \<open>None\<close>.\<close>

partial_function (option) chief_loop ::
  "'w chief \<Rightarrow> string \<Rightarrow> string \<Rightarrow> int \<Rightarrow> string \<Rightarrow> orchestration_result \<Rightarrow> 'w \<Rightarrow> (orchestration_result \<times> 'w) option" where
  "chief_loop e goal ws n analysis r w =
     (if 0 < ce_max_verify_rounds e \<and> ce_max_verify_rounds e < n then
        Some (finish_with ''needs_user'' (max_rounds_summary e @ ''Please review the changes and provide guidance.'') r, w)
      else case chief_round e goal ws n analysis r w of
        Done r' w' \<Rightarrow> Some (r', w')
      | Again a' r' w' \<Rightarrow> chief_loop e goal ws (n + 1) a' r' w')"

definition chief_run :: "'w chief \<Rightarrow> string \<Rightarrow> string \<Rightarrow> 'w \<Rightarrow> (orchestration_result \<times> 'w) option" where
  "chief_run e goal ws w =
     (case analyze_with_codex e goal ws w of
        (Inl x, w1) \<Rightarrow> Some (finish_with ''failed'' (''Codex analysis failed: '' @ x) new_result, w1)
      | (Inr analysis, w1) \<Rightarrow>
          (let r = add_step ''analyze'' ''codex'' analysis (new_result\<lparr>or_codex_analysis := analysis\<rparr>) in
           if is_reply_only_request goal then Some (finish_with ''passed'' analysis r, w1)
           else if is_read_only_diagnostic_request goal then
             Some (if analysis_needs_implementation (ce_decode e) analysis
                   then finish_with ''needs_user'' (render_diagnostic_needs_implementation (ce_texts e) (ce_decode e) analysis) r
                   else finish_with ''passed'' analysis r, w1)
           else if analysis_says_no_implementation_needed (ce_loads e) analysis then
             Some (finish_with ''passed'' ''Codex determined no implementation needed.'' r, w1)
           else chief_loop e goal ws 1 analysis r w1))"

section \<open>The streaming run\<close>

record orchestration_progress =
  op_phase :: string
  op_text :: string
  op_full_text :: string
  op_agent :: string
  op_result_status :: string
  op_round_num :: int

definition progress :: "string \<Rightarrow> string \<Rightarrow> string \<Rightarrow> string \<Rightarrow> string \<Rightarrow> int \<Rightarrow> orchestration_progress" where
  "progress phase t full agent status n =
     \<lparr>op_phase = phase, op_text = t, op_full_text = full, op_agent = agent, op_result_status = status, op_round_num = n\<rparr>"

definition failed_with :: "string \<Rightarrow> string \<Rightarrow> string \<Rightarrow> int \<Rightarrow> orchestration_progress list" where
  "failed_with t full agent n = [progress ''failed'' t full agent [] n, progress ''complete'' [] [] [] ''failed'' n]"

definition call_claude_streaming :: "'w chief \<Rightarrow> string \<Rightarrow> string \<Rightarrow> 'w \<Rightarrow> (agent_stream_event list \<times> string option) \<times> 'w" where
  "call_claude_streaming e prompt ws w =
     (case ce_claude_stream e of
        Some stream \<Rightarrow> stream ws prompt w
      | None \<Rightarrow>
          (case ce_claude_send e ws prompt w of
             (Inl x, w1) \<Rightarrow> (([], Some x), w1)
           | (Inr t, w1) \<Rightarrow> (([\<lparr>ae_delta = t, ae_event_type = ''text'', ae_usage = None, ae_session_id = []\<rparr>], None), w1)))"

text \<open>The progress of an implementation and its text, or \<open>None\<close> after an error event or an exception.\<close>

fun consume_stream :: "fixed_texts \<Rightarrow> int \<Rightarrow> string \<Rightarrow> agent_stream_event list \<Rightarrow> string option \<Rightarrow> orchestration_progress list \<times> string option" where
  "consume_stream tx n acc [] None = ([], Some acc)"
| "consume_stream tx n acc [] (Some x) = (failed_with (ft_say tx SayClaudeFailed @ x) x ''claude'' n, None)"
| "consume_stream tx n acc (d # ds) x =
     (if ae_event_type d = ''error'' then
        (let t = (if ae_delta d = [] then ''Claude streaming returned error'' else ae_delta d) in
         (failed_with (ft_say tx SayClaudeFailed @ t) t ''claude'' n, None))
      else (case consume_stream tx n (acc @ ae_delta d) ds x of
              (ps, r) \<Rightarrow> (progress ''implementation_delta'' (ae_delta d) [] ''claude'' [] n # ps, r)))"

definition stream_decision :: "'w chief \<Rightarrow> string \<Rightarrow> int \<Rightarrow> string \<Rightarrow> string \<Rightarrow> verification_decision \<Rightarrow> 'w \<Rightarrow>
    orchestration_progress list \<times> (unit, 'w) round_outcome" where
  "stream_decision e goal n analysis verify d w =
     (let tx = ce_texts e in
      if vd_decision d = ''pass'' then ([progress ''complete'' (ft_say tx SayPassed) verify ''codex'' ''passed'' n], Done () w)
      else if vd_decision d = ''stop'' then
        ([progress ''complete'' (ft_say tx SayStopped @ take 200 (vd_summary d)) (vd_summary d) ''codex'' ''failed'' n], Done () w)
      else if vd_decision d = ''need_user'' then
        ([progress ''complete'' (ft_say tx SayNeedUser @ take 200 (vd_summary d)) (vd_summary d) ''codex'' ''needs_user'' n], Done () w)
      else if vd_decision d = ''retry'' \<and> is_final_verify_round e n then
        ([progress ''failed'' (ft_say tx SayMaxRoundsBefore @ int_str (ce_max_verify_rounds e) @ ft_say tx SayMaxRoundsAfter)
            (max_rounds_summary e @ ''Last verification: '' @ take 200 (vd_required_fix d)) ''codex'' [] n,
          progress ''complete'' [] [] ''codex'' ''failed'' n], Done () w)
      else if vd_decision d = ''retry'' then
        ([], Again (build_retry_analysis tx (vd_required_fix d) analysis goal n (ce_pending_user_context e w)) () w)
      else ([], Again analysis () w))"

definition stream_verification :: "'w chief \<Rightarrow> string \<Rightarrow> string \<Rightarrow> int \<Rightarrow> string \<Rightarrow> string \<Rightarrow> 'w \<Rightarrow>
    orchestration_progress list \<times> (unit, 'w) round_outcome" where
  "stream_verification e goal ws n analysis impl w =
     (let tx = ce_texts e;
          head = [progress ''implementation_complete'' (take 200 impl) impl ''claude'' [] n,
                  progress ''verification_started'' (ft_say tx SayVerifying) [] ''codex'' [] n] in
      case verify_with_codex e goal analysis impl ws w of
        (Inl x, w2) \<Rightarrow> (head @ failed_with (ft_say tx SayVerifyFailed @ x) x ''codex'' n, Done () w2)
      | (Inr verify, w2) \<Rightarrow>
          (case stream_decision e goal n analysis verify (enforced_decision e impl verify) w2 of
             (ps, out) \<Rightarrow> (head @ progress ''verification_complete'' (take 200 verify) verify ''codex'' [] n # ps, out)))"

definition stream_round :: "'w chief \<Rightarrow> string \<Rightarrow> string \<Rightarrow> int \<Rightarrow> string \<Rightarrow> 'w \<Rightarrow> orchestration_progress list \<times> (unit, 'w) round_outcome" where
  "stream_round e goal ws n analysis w =
     (case call_claude_streaming e (claude_prompt e goal analysis ws) ws w of
        ((ds, x), w1) \<Rightarrow>
          (case consume_stream (ce_texts e) n [] ds x of
             (ps, None) \<Rightarrow> (ps, Done () w1)
           | (ps, Some impl) \<Rightarrow> (case stream_verification e goal ws n analysis impl w1 of (qs, out) \<Rightarrow> (ps @ qs, out))))"

text \<open>The progress so far is carried along; \<open>None\<close> is a stream that never ends.\<close>

partial_function (option) stream_loop ::
  "'w chief \<Rightarrow> string \<Rightarrow> string \<Rightarrow> int \<Rightarrow> string \<Rightarrow> 'w \<Rightarrow> orchestration_progress list \<Rightarrow> (orchestration_progress list \<times> 'w) option" where
  "stream_loop e goal ws n analysis w acc =
     (if 0 < ce_max_verify_rounds e \<and> ce_max_verify_rounds e < n then
        (let t = max_rounds_summary e @ ''Please review the changes and provide guidance.'' in
         Some (acc @ [progress ''complete'' (take 200 t) t ''codex'' ''needs_user'' (ce_max_verify_rounds e)], w))
      else case stream_round e goal ws n analysis w of
        (ps, Done u w') \<Rightarrow> Some (acc @ ps, w')
      | (ps, Again a' u w') \<Rightarrow> stream_loop e goal ws (n + 1) a' w' (acc @ ps))"

definition chief_run_streaming :: "'w chief \<Rightarrow> string \<Rightarrow> string \<Rightarrow> 'w \<Rightarrow> (orchestration_progress list \<times> 'w) option" where
  "chief_run_streaming e goal ws w =
     (let tx = ce_texts e; started = progress ''analysis_started'' (ft_say tx SayAnalysing) [] ''codex'' [] 0 in
      case analyze_with_codex e goal ws w of
        (Inl x, w1) \<Rightarrow> Some (started # failed_with (ft_say tx SayAnalysisFailed @ x) x ''codex'' 0, w1)
      | (Inr analysis, w1) \<Rightarrow>
          (let head = [started, progress ''analysis_complete'' (take 200 analysis) analysis ''codex'' [] 0];
               user_msg = render_diagnostic_needs_implementation tx (ce_decode e) analysis in
           if is_reply_only_request goal then Some (head @ [progress ''complete'' [] analysis ''codex'' ''passed'' 0], w1)
           else if is_read_only_diagnostic_request goal then
             Some (head @ [if analysis_needs_implementation (ce_decode e) analysis
                           then progress ''complete'' (take 200 user_msg) user_msg ''codex'' ''needs_user'' 0
                           else progress ''complete'' [] analysis ''codex'' ''passed'' 0], w1)
           else if analysis_says_no_implementation_needed (ce_loads e) analysis then
             Some (head @ [progress ''complete'' (ft_say tx SayNoImplementation) ''Codex determined no implementation needed.'' ''codex'' ''passed'' 0], w1)
           else stream_loop e goal ws 1 analysis w1 head))"

end
