(* ===== verification/Spec2Isabelle.thy ===== *)
theory Spec2Isabelle
  imports Task_Properties Maintenance_Properties Conversation_Properties Run_Queue_Properties
    Relay_Properties Relay_Queue_Properties Watchdog_Properties Runtime_State_Properties Approval_Properties Relay_Projection_Properties
    Command_Router_Properties Telegram_Output_Properties Telegram_Outbox_Properties Claude_Stream_Properties
    Handoff_Properties Event_Queries_Properties Chief_Engineer_Properties
begin

text \<open>
  A verification development for \<^verbatim>\<open>wlcodex\<close>, a control plane that drives coding agents from chat. Paths below are
  relative to \<^verbatim>\<open>wlcodex/\<close>.

  \<^bold>\<open>The program.\<close> A message arrives in a chat. The router (\<^verbatim>\<open>conversation_state_machine.py\<close>) decides whether it
  starts, continues or inspects a conversation; the scheduler (\<^verbatim>\<open>execution_scheduler.py\<close>) reserves a task on a
  workspace through the task service (\<^verbatim>\<open>task_service.py\<close>), which keeps everything durable in an SQLite ledger
  (\<^verbatim>\<open>db.py\<close>) and admits one writing task per workspace (\<^verbatim>\<open>locks.py\<close>). Backend events move the task through its
  states; a watchdog (\<^verbatim>\<open>watchdog.py\<close>) times stuck tasks out. Runs that cannot start yet wait in the event log
  (\<^verbatim>\<open>runtime_event_store.py\<close>), whose payloads are redacted (\<^verbatim>\<open>runtime_events.py\<close>). The relay (\<^verbatim>\<open>relay/\<close>) lets several
  roles work on one task: each role answers with an envelope that is parsed, guarded and turned into a
  transition, follow-up inputs wait in a leased queue, goals are accepted by controlled test runs, and a durable
  lifecycle (\<^verbatim>\<open>relay/lifecycle.py\<close>) keeps the rounds, attempts and completion claims through crashes. A
  maintenance window (\<^verbatim>\<open>maintenance.py\<close>) freezes all submissions while work drains. At the edges, commands are parsed
  (\<^verbatim>\<open>router.py\<close>), the lines an agent process prints become events (\<^verbatim>\<open>claude_stream_parser.py\<close>), answers are cut into
  messages (\<^verbatim>\<open>telegram_output.py\<close>) and sent with retries (\<^verbatim>\<open>telegram_outbox.py\<close>), and a session of one agent can be
  handed to another (\<^verbatim>\<open>collaboration/\<close>). In the chief-engineer mode (\<^verbatim>\<open>orchestrator.py\<close>) one agent plans and verifies
  what another implements.

  \<^bold>\<open>The theories.\<close>
  \<^item> \<open>Py_Prelude\<close>, \<open>Py_Data\<close>: the state-and-exception monad of the stateful code with its weakest preconditions
    (\<open>wp_rules\<close>), preservation rules (\<open>keeps_intros\<close>) and one-step equations (\<open>run_simps\<close>); Python strings, truth
    values, \<open>str\<close>/\<open>int\<close>/\<open>json.dumps\<close>; tables as lists of rows with \<open>ORDER BY\<close>, \<open>LIMIT\<close> and \<open>AUTOINCREMENT\<close> (the locale
    \<open>auto_table\<close>, interpreted by every table with a generated key).
  \<^item> \<open>Task_Models\<close>, \<open>Ledger\<close>: the dataclasses of \<^verbatim>\<open>models.py\<close> and the ledger methods of \<^verbatim>\<open>db.py\<close> on tasks, events, approvals,
    touched files, thread bindings and usage.
  \<^item> \<open>Task_Service\<close>, \<open>Task_Lifecycle\<close>, \<open>Task_Events\<close>: all of \<^verbatim>\<open>task_service.py\<close> and \<^verbatim>\<open>locks.py\<close>: submissions, worktrees, user
    commands, every backend event handler, the queue drain.
  \<^item> \<open>Task_Machine\<close>, \<open>Task_Lock\<close>, \<open>Task_Properties\<close>: the service as a step relation (\<open>ts_run\<close>, \<open>lock_run\<close>); the locale
    \<open>ledger_invariant\<close> proves once that a predicate kept by every ledger write is kept by every operation and run, and
    is interpreted for well-formedness, the gate, the audit log, the log bounds and task identity. Results: one
    writer per workspace, append-only events, submissions refused under maintenance, status changes along the
    table, drains in order, recovery, the git status parser.
  \<^item> \<open>Maintenance\<close>, \<open>Maintenance_Properties\<close>: \<^verbatim>\<open>maintenance.py\<close>; opening a window freezes and captures, and ready means quiescent.
  \<^item> \<open>Conversations\<close>, \<open>Message_Router\<close>, \<open>Conversation_Properties\<close>: the conversation and run rows of \<^verbatim>\<open>db.py\<close>, \<^verbatim>\<open>conversation.py\<close>,
    \<^verbatim>\<open>conversation_state_machine.py\<close> and \<^verbatim>\<open>execution_scheduler.py\<close>; routing by cases, one open conversation after a
    restore, the button codec.
  \<^item> \<open>Redaction\<close>, \<open>Run_Queue\<close>, \<open>Run_Queue_Properties\<close>: key-based redaction of \<^verbatim>\<open>runtime_events.py\<close> and the claim, release,
    consume and recovery operations of \<^verbatim>\<open>runtime_event_store.py\<close>; over any interleaving of workers a run is consumed at
    most once, claims are oldest first, a lease protects its owner, the log only grows and is redacted. The locale
    \<open>queue_invariant\<close> lifts a predicate from single operations to interleavings, with four interpretations.
  \<^item> \<open>Relay_Models\<close>, \<open>Relay_Envelopes\<close>, \<open>Relay_Graph\<close>, \<open>Relay_State\<close>: \<^verbatim>\<open>relay/models.py\<close>, \<^verbatim>\<open>relay/artifact_types.py\<close>,
    \<^verbatim>\<open>relay/envelopes.py\<close>, \<^verbatim>\<open>relay/guardrails.py\<close>, \<^verbatim>\<open>relay/graph.py\<close> and the decision part of \<open>handle_role_output\<close> in
    \<^verbatim>\<open>relay/service.py\<close>: provider JSON to envelope, envelope to guardrail verdict and transition, rows to projections.
  \<^item> \<open>Goal_Acceptance\<close>: \<^verbatim>\<open>relay/goal_acceptance.py\<close>, from the declaration to the argument vector and the bounded result.
  \<^item> \<open>Relay_Properties\<close>: accepted envelopes are well formed and print and parse back, transitions are consistent, only
    evidence passes, goal tests stay in the workspace with bounded output, projections are consistent.
  \<^item> \<open>Relay_Queue\<close>, \<open>Relay_Queue_Properties\<close>: the pending-input queue and creation leases of \<^verbatim>\<open>relay/store.py\<close>; the tables refine an
    abstract fence with one holder per workspace, inputs are consumed once. The locale \<open>lease_store\<close> is what a worker
    relies on between its calls, interpreted by the queue.
  \<^item> \<open>Watchdog\<close>, \<open>Watchdog_Properties\<close>: \<^verbatim>\<open>watchdog.py\<close> and \<^verbatim>\<open>health_snapshot.py\<close>.
  \<^item> \<open>Runtime_State\<close>, \<open>Runtime_State_Properties\<close>: the replays of \<^verbatim>\<open>runtime_state.py\<close> from the event log to snapshots. Finished
    agents, orchestrations and approvals stay finished under every continuation of the log, completion needs a passed
    verification, token totals are sums, cursors are maxima, and only unreadable numbers make a replay fail.
  \<^item> \<open>Approvals\<close>, \<open>Approval_Properties\<close>: \<^verbatim>\<open>approval.py\<close> and the response builders of \<^verbatim>\<open>codex_backend.py\<close>. Nothing is approved
    that the backend has not accepted, settled approvals stay settled, refusals never grant, and the last answer
    lets a waiting task run.
  \<^item> \<open>Team_Tables\<close>, \<open>Relay_Lifecycle\<close>, \<open>Relay_Lifecycle_Properties\<close>, \<open>Relay_Projection_Properties\<close>: the team runs, jobs and artifacts
    of \<^verbatim>\<open>db.py\<close> and all of \<^verbatim>\<open>relay/lifecycle.py\<close>. Over every run of the store a completion is applied at most once, an attempt is
    dispatched at most once, keys and history are kept; native approvals refine an abstract machine with one action per
    request; the legacy columns mirror the active round.
  \<^item> \<open>Command_Router\<close>, \<open>Command_Router_Properties\<close>: \<^verbatim>\<open>router.py\<close>; commands print and parse back, and which inputs fail.
  \<^item> \<open>Telegram_Output\<close>, \<open>Telegram_Output_Properties\<close>: \<^verbatim>\<open>telegram_output.py\<close>; when the cutting loop ends and when it does not, and that an
    answer arrives whole, once and in order.
  \<^item> \<open>Telegram_Outbox\<close>, \<open>Telegram_Outbox_Properties\<close>: \<^verbatim>\<open>telegram_outbox.py\<close>; the queue empties in order with bounded retries.
  \<^item> \<open>Claude_Stream\<close>, \<open>Claude_Stream_Properties\<close>: \<^verbatim>\<open>claude_stream_parser.py\<close> and the reading loop of \<^verbatim>\<open>claude_backend.py\<close>; what is shown
    of streamed messages, and which lines leave no event.
  \<^item> \<open>Handoff\<close>, \<open>Handoff_Properties\<close>: \<^verbatim>\<open>collaboration/\<close>; previews are stored as shown, and a handoff starts only what its preview says.
  \<^item> \<open>Event_Queries\<close>, \<open>Event_Queries_Properties\<close>: the queries, repairs, derived state and raw frames of \<^verbatim>\<open>runtime_event_store.py\<close>;
    polling by cursor loses nothing, sequence numbers never come back, turn repair is exact and idempotent.
  \<^item> \<open>Context_Packets\<close>, \<open>Chief_Engineer\<close>, \<open>Chief_Engineer_Properties\<close>: \<^verbatim>\<open>context_packets.py\<close> and \<^verbatim>\<open>orchestrator.py\<close>, the loop of analysis,
    implementation and verification, plain and streaming. A run passes only on a verification that says so, a limit of rounds
    ends it (and nothing does without one), analysis writes documents only, and the streaming run is the plain run.

  \<^bold>\<open>Conventions.\<close> A raise is a value: \<open>Inl\<close> of an exception type, and the tables as the raise leaves them. Each operation
  that runs in one SQLite transaction is one step; code that awaits is split where others may interfere, and the
  step relations allow any interleaving. The clock is a field of the store, frozen during an operation and advanced
  between operations. Timestamps are microseconds since an epoch; ISO text is kept as the instant it denotes, with
  \<open>None\<close> for missing or unreadable text. Characters are code points below 256; the fixed Chinese texts are
  constructors or arguments. JSON numbers are integers. Python dictionaries are association lists in insertion
  order. Code outside the repository is a parameter: git, the agent backend and its health, the process a goal test
  starts, the file system's path resolution, the JSON decoder, the three text-redaction expressions. Mapping a row to
  a dataclass and back is the identity on the record.

  \<^bold>\<open>Bounds.\<close> Apart from two loops all model functions are total and no fuel is used. The cutting loop of \<open>Telegram_Output\<close>
  (\<open>ready_loop\<close>) and the rounds of \<open>Chief_Engineer\<close> (\<open>chief_loop\<close>, \<open>stream_loop\<close>) need not end, so they are partial functions into
  \<open>option\<close> where \<open>None\<close> means that they never return; when they return is a theorem, and so are inputs on which they do not. Loops over rows and arguments are structural
  recursion; the limits in the model (100 rows for the lock and the watchdog, 200 events, 6 options, 32 test arguments,
  the byte and character caps) are the ones of the code. The exclusiveness of the workspace lock assumes that the scan
  of 100 tasks is not truncated, which the code does not ensure.

  \<^bold>\<open>Not modelled.\<close> Transport and rendering: the chat application, digests and keyboards, the live-stream server, its
  templates and projections, the terminal surfaces and the workbench: they format what the modelled stores hold.
  Processes: the agent backends, JSON-RPC, the app server and the native sessions, whose behaviour is outside the
  repository. The asynchronous composition (\<^verbatim>\<open>controller.py\<close>, \<^verbatim>\<open>orchestration_runner.py\<close>, \<^verbatim>\<open>event_bridge.py\<close>), dispatch and projection in
  \<^verbatim>\<open>relay/service.py\<close> and the board and stream tables of \<^verbatim>\<open>relay/store.py\<close>. Schema creation and migration, configuration
  files, the council's prompts.
\<close>

end
